(* ===== verification/RS_Prelude.thy ===== *)
theory RS_Prelude
  imports Main "HOL-Library.Char_ord" "HOL-Library.List_Lexorder"
begin

section \<open>Prelude: identifiers, renderings, tables, results\<close>

text \<open>
  What every component shares: the names of the scalar types (UUIDs, timestamps,
  digests), the renderings Python gives them (\<open>str\<close> of an integer, of a UUID,
  \<open>isoformat\<close> of a UTC timestamp), the table operations behind the ORM's
  \<open>session.get\<close>, \<open>select\<close> and attribute assignment, and the theorem
  collections the component theories feed.
\<close>

named_theorems table_simps \<open>lookup after update or insert on tables\<close>
named_theorems frame_simps \<open>fields an operation leaves alone\<close>

subsection \<open>Scalars\<close>

text \<open>
  A UUID is its 128-bit value; a timestamp counts microseconds since the Unix epoch in
  UTC; a digest is text. A Python \<open>str\<close> is the list of the bytes of its UTF-8
  encoding: code-point order and byte order agree, and every character the JSON encoder
  treats specially is a single byte.
\<close>

type_synonym uuid = nat
type_synonym timestamp = int
type_synonym digest = string

definition seconds :: "int \<Rightarrow> int" where
  "seconds n = n * 1000000"

definition minutes :: "int \<Rightarrow> int" where
  "minutes n = seconds (60 * n)"

lemma minutes_pos [simp]: "0 < minutes n \<longleftrightarrow> 0 < n"
  by (simp add: minutes_def seconds_def)

subsection \<open>Decimal and hexadecimal text\<close>

definition digit_char :: "nat \<Rightarrow> char" where
  "digit_char n = char_of (if n < 10 then 48 + n else 87 + n)"

fun nat_str :: "nat \<Rightarrow> string" where
  "nat_str n = (if n < 10 then [digit_char n] else nat_str (n div 10) @ [digit_char (n mod 10)])"

declare nat_str.simps [simp del]

definition int_str :: "int \<Rightarrow> string" where
  "int_str i = (if i < 0 then CHR ''-'' # nat_str (nat (- i)) else nat_str (nat i))"

fun hex_pad :: "nat \<Rightarrow> nat \<Rightarrow> string" where
  "hex_pad 0 n = []"
| "hex_pad (Suc w) n = hex_pad w (n div 16) @ [digit_char (n mod 16)]"

definition dec_pad :: "nat \<Rightarrow> nat \<Rightarrow> string" where
  "dec_pad w n = (let s = nat_str n in replicate (w - length s) (CHR ''0'') @ s)"

text \<open>\<open>str(uuid)\<close>: 32 hexadecimal digits in groups of 8, 4, 4, 4 and 12; \<open>uuid.hex\<close> has no dashes.\<close>

definition uuid_hex :: "uuid \<Rightarrow> string" where
  "uuid_hex u = hex_pad 32 u"

definition uuid_str :: "uuid \<Rightarrow> string" where
  "uuid_str u = (let h = uuid_hex u in
     take 8 h @ ''-'' @ take 4 (drop 8 h) @ ''-'' @ take 4 (drop 12 h) @ ''-'' @
     take 4 (drop 16 h) @ ''-'' @ drop 20 h)"

text \<open>
  \<open>datetime.isoformat()\<close> of a UTC timestamp: the proleptic Gregorian date of a day
  number (counted in 400-year eras from 0000-03-01), the time, the microseconds when they
  are not zero, and the offset.
\<close>

definition civil_of_days :: "int \<Rightarrow> int \<times> int \<times> int" where
  "civil_of_days z0 =
     (let z = z0 + 719468;
          era = z div 146097;
          doe = z mod 146097;
          yoe = (doe - doe div 1460 + doe div 36524 - doe div 146096) div 365;
          doy = doe - (365 * yoe + yoe div 4 - yoe div 100);
          mp = (5 * doy + 2) div 153;
          d = doy - (153 * mp + 2) div 5 + 1;
          m = (if mp < 10 then mp + 3 else mp - 9);
          y = yoe + era * 400 + (if m \<le> 2 then 1 else 0)
      in (y, m, d))"

definition isoformat :: "timestamp \<Rightarrow> string" where
  "isoformat t =
     (let us = t mod 1000000; secs = t div 1000000; tod = secs mod 86400;
          (y, m, d) = civil_of_days (secs div 86400)
      in dec_pad 4 (nat y) @ ''-'' @ dec_pad 2 (nat m) @ ''-'' @ dec_pad 2 (nat d) @ ''T'' @
         dec_pad 2 (nat (tod div 3600)) @ '':'' @ dec_pad 2 (nat (tod div 60 mod 60)) @ '':'' @
         dec_pad 2 (nat (tod mod 60)) @
         (if us = 0 then '''' else ''.'' @ dec_pad 6 (nat us)) @ ''+00:00'')"

text \<open>\<open>str.strip\<close> with a set of characters, and Python's ASCII white space.\<close>

definition strip :: "(char \<Rightarrow> bool) \<Rightarrow> string \<Rightarrow> string" where
  "strip P s = rev (dropWhile P (rev (dropWhile P s)))"

definition is_space :: "char \<Rightarrow> bool" where
  "is_space c \<longleftrightarrow> (let n = (of_char c :: nat) in (9 \<le> n \<and> n \<le> 13) \<or> (28 \<le> n \<and> n \<le> 32))"

subsection \<open>Rendered text is unambiguous\<close>

lemma digit_char_inject: "a < 16 \<Longrightarrow> b < 16 \<Longrightarrow> digit_char a = digit_char b \<longleftrightarrow> a = b"
  by (auto simp: digit_char_def of_char_of dest: arg_cong [where f = "of_char :: char \<Rightarrow> nat"]
      split: if_splits)

lemma nat_str_not_Nil [simp]: "nat_str n \<noteq> []"
  by (subst nat_str.simps) simp

definition is_digit :: "char \<Rightarrow> bool" where
  "is_digit c \<longleftrightarrow> 48 \<le> (of_char c :: nat) \<and> (of_char c :: nat) \<le> 57"

lemma is_digit_digit_char: "n < 10 \<Longrightarrow> is_digit (digit_char n)"
  by (simp add: is_digit_def digit_char_def)

lemma nat_str_digits: "c \<in> set (nat_str n) \<Longrightarrow> is_digit c"
proof (induction n rule: nat_str.induct)
  case (1 n)
  then show ?case
    by (subst (asm) nat_str.simps) (auto simp: is_digit_digit_char split: if_splits)
qed

fun nat_of_digits :: "nat \<Rightarrow> string \<Rightarrow> nat" where
  "nat_of_digits acc [] = acc"
| "nat_of_digits acc (c # cs) = nat_of_digits (10 * acc + (of_char c - 48)) cs"

lemma nat_of_digits_append:
  "nat_of_digits acc (xs @ ys) = nat_of_digits (nat_of_digits acc xs) ys"
  by (induction xs arbitrary: acc) auto

lemma nat_of_digits_nat_str: "nat_of_digits 0 (nat_str n) = n"
proof (induction n rule: nat_str.induct)
  case (1 n)
  then show ?case
    by (subst nat_str.simps) (auto simp: nat_of_digits_append digit_char_def)
qed

lemma nat_str_inject [simp]: "nat_str a = nat_str b \<longleftrightarrow> a = b"
  by (metis nat_of_digits_nat_str)

lemma nat_str_hd_not_dash: "nat_str n \<noteq> CHR ''-'' # xs"
  using nat_str_digits [of "CHR ''-''" n] by (auto simp: is_digit_def)

lemma int_str_inject [simp]: "int_str i = int_str j \<longleftrightarrow> i = j"
  using nat_str_hd_not_dash by (auto simp: int_str_def nat_eq_iff dest: sym split: if_splits)

subsection \<open>Tables\<close>

text \<open>
  A table is the list of its rows in insertion order. \<open>tget\<close> is the primary-key read
  behind \<open>session.get\<close>, \<open>tupd\<close> the assignment of attributes of the row with a given
  key, \<open>first_by\<close> and \<open>last_by\<close> are \<open>ORDER BY k LIMIT 1\<close>, ascending and descending.
\<close>

definition tget :: "('r \<Rightarrow> 'k) \<Rightarrow> 'k \<Rightarrow> 'r list \<Rightarrow> 'r option" where
  "tget key k rows = find (\<lambda>r. key r = k) rows"

definition tupd :: "('r \<Rightarrow> 'k) \<Rightarrow> 'k \<Rightarrow> ('r \<Rightarrow> 'r) \<Rightarrow> 'r list \<Rightarrow> 'r list" where
  "tupd key k f rows = map (\<lambda>r. if key r = k then f r else r) rows"

fun first_by :: "('r \<Rightarrow> 'o::linorder) \<Rightarrow> 'r list \<Rightarrow> 'r option" where
  "first_by k [] = None"
| "first_by k (r # rs) =
     (case first_by k rs of None \<Rightarrow> Some r | Some q \<Rightarrow> Some (if k r \<le> k q then r else q))"

fun last_by :: "('r \<Rightarrow> 'o::linorder) \<Rightarrow> 'r list \<Rightarrow> 'r option" where
  "last_by k [] = None"
| "last_by k (r # rs) =
     (case last_by k rs of None \<Rightarrow> Some r | Some q \<Rightarrow> Some (if k q < k r then r else q))"

lemma find_Some_iff': "find P xs = Some x \<Longrightarrow> x \<in> set xs \<and> P x"
  by (induction xs) (auto split: if_splits)

lemma tget_SomeD: "tget key k rows = Some r \<Longrightarrow> r \<in> set rows \<and> key r = k"
  by (auto simp: tget_def dest: find_Some_iff')

lemma tget_None_iff: "tget key k rows = None \<longleftrightarrow> k \<notin> key ` set rows"
  by (auto simp: tget_def find_None_iff)

lemma tget_Nil [simp]: "tget key k [] = None"
  by (simp add: tget_def)

lemma tget_Cons: "tget key k (r # rs) = (if key r = k then Some r else tget key k rs)"
  by (simp add: tget_def)

lemma tget_append: "tget key k (xs @ ys) =
    (case tget key k xs of None \<Rightarrow> tget key k ys | Some r \<Rightarrow> Some r)"
  by (induction xs) (auto simp: tget_Cons)

lemma tget_filter: "tget key k (filter P rows) = Some r \<Longrightarrow> P r"
  by (auto dest: tget_SomeD)

lemma tget_tupd [table_simps]:
  "(\<And>r. key (f r) = key r) \<Longrightarrow>
     tget key k (tupd key j f rows) = (if k = j then map_option f (tget key k rows) else tget key k rows)"
  by (induction rows) (auto simp: tupd_def tget_Cons)

lemma map_key_tupd [table_simps]: "(\<And>r. g (f r) = g r) \<Longrightarrow> map g (tupd key k f rows) = map g rows"
  by (auto simp: tupd_def)

lemma tupd_id: "tget key k rows = None \<Longrightarrow> tupd key k f rows = rows"
  by (auto simp: tupd_def tget_None_iff intro!: map_idI)

lemma tupd_tupd [table_simps]:
  "(\<And>r. key (f r) = key r) \<Longrightarrow> tupd key k g (tupd key k f rows) = tupd key k (\<lambda>r. g (f r)) rows"
  by (simp add: tupd_def)

lemma set_tupd: "r \<in> set (tupd key k f rows) \<Longrightarrow>
   (\<exists>q \<in> set rows. key q = k \<and> r = f q) \<or> (r \<in> set rows \<and> key r \<noteq> k)"
  by (auto simp: tupd_def split: if_splits)

lemma image_tupd [table_simps]: "(\<And>r. g (f r) = g r) \<Longrightarrow> g ` set (tupd key k f rows) = g ` set rows"
  using map_key_tupd [of g f key k rows] by (metis list.set_map)

lemma find_tupd:
  assumes "\<And>r. P (f r) = P r"
  shows "find P (tupd key k f rows) = map_option (\<lambda>r. if key r = k then f r else r) (find P rows)"
  by (induction rows) (simp_all add: tupd_def assms)

lemma find_snoc: "find P xs = None \<Longrightarrow> find P (xs @ [y]) = (if P y then Some y else None)"
  by (induction xs) (auto split: if_splits)

lemma tupd_memI: "q \<in> set rows \<Longrightarrow> (if key q = k then f q else q) \<in> set (tupd key k f rows)"
  by (auto simp: tupd_def)

lemma distinct_tget: "distinct (map key rows) \<Longrightarrow> r \<in> set rows \<Longrightarrow> tget key (key r) rows = Some r"
  by (induction rows) (auto simp: tget_Cons)

lemma distinct_key_eq:
  "distinct (map key rows) \<Longrightarrow> a \<in> set rows \<Longrightarrow> b \<in> set rows \<Longrightarrow> key a = key b \<Longrightarrow> a = b"
  by (metis distinct_tget option.inject)

lemma tupd_rowE:
  assumes "b \<in> set (tupd key (key a) f rows)" and "distinct (map key rows)" and "a \<in> set rows"
  obtains "b = f a" | "b \<in> set rows" "key b \<noteq> key a"
  using assms set_tupd [OF assms(1)] distinct_key_eq [OF assms(2) _ assms(3)] by blast

lemma first_by_None_iff [simp]: "first_by k rs = None \<longleftrightarrow> rs = []"
  by (cases rs) (auto split: option.splits)

lemma first_by_SomeD: "first_by k rs = Some r \<Longrightarrow> r \<in> set rs \<and> (\<forall>q \<in> set rs. k r \<le> k q)"
proof (induction rs arbitrary: r)
  case (Cons a rs)
  then show ?case
    by (cases "first_by k rs") (auto split: if_splits intro: order.trans less_imp_le simp: not_le)
qed simp

lemma last_by_None_iff [simp]: "last_by k rs = None \<longleftrightarrow> rs = []"
  by (cases rs) (auto split: option.splits)

lemma last_by_SomeD: "last_by k rs = Some r \<Longrightarrow> r \<in> set rs \<and> (\<forall>q \<in> set rs. k q \<le> k r)"
proof (induction rs arbitrary: r)
  case (Cons a rs)
  then show ?case
    by (cases "last_by k rs") (auto split: if_splits intro: order.trans less_imp_le simp: not_less)
qed simp

subsection \<open>Results\<close>

text \<open>A raising function returns \<open>Inl\<close> of the exception; \<open>is_ok\<close> recognises a normal return.\<close>

fun is_ok :: "'e + 'a \<Rightarrow> bool" where
  "is_ok (Inl _) = False"
| "is_ok (Inr _) = True"

lemma is_ok_iff: "is_ok r \<longleftrightarrow> (\<exists>v. r = Inr v)"
  by (cases r) auto

text \<open>
  The shapes a handler is made of: \<open>if not c: raise e\<close>, a row that must exist, and a
  call whose exception propagates.
\<close>

definition require :: "bool \<Rightarrow> 'e \<Rightarrow> 'e + 'a \<Rightarrow> 'e + 'a" where
  "require c e k = (if c then k else Inl e)"

definition fetch :: "'r option \<Rightarrow> 'e \<Rightarrow> ('r \<Rightarrow> 'e + 'a) \<Rightarrow> 'e + 'a" where
  "fetch r e k = (case r of None \<Rightarrow> Inl e | Some x \<Rightarrow> k x)"

definition rbind :: "'e + 'b \<Rightarrow> ('b \<Rightarrow> 'e + 'a) \<Rightarrow> 'e + 'a" where
  "rbind m k = (case m of Inl e \<Rightarrow> Inl e | Inr x \<Rightarrow> k x)"

named_theorems ok_iff \<open>when a handler returns normally\<close>

lemma require_ok [ok_iff]: "require c e k = Inr x \<longleftrightarrow> c \<and> k = Inr x"
  by (simp add: require_def)

lemma fetch_ok [ok_iff]: "fetch r e k = Inr x \<longleftrightarrow> (\<exists>q. r = Some q \<and> k q = Inr x)"
  by (cases r) (simp_all add: fetch_def)

lemma rbind_ok [ok_iff]: "rbind m k = Inr x \<longleftrightarrow> (\<exists>q. m = Inr q \<and> k q = Inr x)"
  by (cases m) (simp_all add: rbind_def)

lemma handler_eval:
  "require True e k = k" "require False e k = Inl e" "fetch None e f = Inl e" "fetch (Some q) e f = f q"
  "rbind (Inl e) g = Inl e" "rbind (Inr y) g = g y"
  by (simp_all add: require_def fetch_def rbind_def)

subsection \<open>Invariants of step relations\<close>

locale step_invariant =
  fixes step :: "'s \<Rightarrow> 's \<Rightarrow> bool" and inv :: "'s \<Rightarrow> bool"
  assumes step_inv: "step s s' \<Longrightarrow> inv s \<Longrightarrow> inv s'"
begin

lemma steps_inv: "step\<^sup>*\<^sup>* s s' \<Longrightarrow> inv s \<Longrightarrow> inv s'"
  by (induction rule: rtranclp_induct) (auto intro: step_inv)

end

text \<open>A relation that every step of an invariant system respects is respected by every run.\<close>

locale step_order = step_invariant +
  fixes rel :: "'a \<Rightarrow> 'a \<Rightarrow> bool"
  assumes rel_refl: "rel s s" and rel_trans: "rel s t \<Longrightarrow> rel t u \<Longrightarrow> rel s u"
    and step_rel: "step s s' \<Longrightarrow> inv s \<Longrightarrow> rel s s'"
begin

lemma steps_rel: "step\<^sup>*\<^sup>* s s' \<Longrightarrow> inv s \<Longrightarrow> rel s s'"
proof (induction rule: rtranclp_induct)
  case (step t u)
  then show ?case using steps_inv step_rel rel_trans by blast
qed (rule rel_refl)

end

end
