(* ===== verification/RS_Canonical.thy ===== *)
theory RS_Canonical
  imports RS_Prelude "HOL-Library.Multiset"
begin

section \<open>Canonical JSON and content digests\<close>

text \<open>
  Models \<open>packages/contracts/runsigil_contracts/canonical.py\<close>: the normalisation of a
  Python value to a JSON-native one, the deterministic text \<open>json.dumps\<close> gives it
  (sorted keys, no spaces, non-ASCII text verbatim), and the digest over that text. The
  hash function is a parameter. The theorems show that the text is independent of the
  order of keys and determines the normalised value, so two values with one canonical
  text are one value.
\<close>

subsection \<open>Values\<close>

text \<open>
  A finite float is carried as the text of its \<open>repr\<close>, which is what the encoder
  emits. A \<open>StrEnum\<close> member is a \<open>str\<close> and so a \<open>PStr\<close>; another \<open>Enum\<close>
  member is its value under \<open>PEnum\<close>; a pydantic model is its dump under \<open>PModel\<close>.
\<close>

datatype pyfloat = FloatFinite string | FloatNan | FloatInf | FloatNegInf

datatype pykey = KStr string | KOther

datatype pyval =
    PNone
  | PStr string
  | PInt int
  | PBool bool
  | PFloat pyfloat
  | PDecimal "string option"
  | PDatetime timestamp
  | PUUID uuid
  | PEnum pyval
  | PModel pyval
  | PDict "(pykey \<times> pyval) list"
  | PList "pyval list"
  | PTuple "pyval list"
  | POther

datatype json =
    JNull
  | JStr string
  | JInt int
  | JBool bool
  | JFloat string
  | JObj "(string \<times> json) list"
  | JArr "json list"

datatype canonical_error = NonFiniteNumber | NonFiniteDecimal | NonStringKey | UnsupportedValue

subsection \<open>Normalisation\<close>

fun is_KStr :: "pykey \<Rightarrow> bool" where
  "is_KStr (KStr _) = True"
| "is_KStr KOther = False"

fun key_text :: "pykey \<Rightarrow> string" where
  "key_text (KStr s) = s"
| "key_text KOther = []"

fun canonical_json_value :: "pyval \<Rightarrow> canonical_error + json"
  and canonical_fields :: "(pykey \<times> pyval) list \<Rightarrow> canonical_error + (string \<times> json) list"
  and canonical_items :: "pyval list \<Rightarrow> canonical_error + json list" where
  "canonical_json_value PNone = Inr JNull"
| "canonical_json_value (PStr s) = Inr (JStr s)"
| "canonical_json_value (PInt i) = Inr (JInt i)"
| "canonical_json_value (PBool b) = Inr (JBool b)"
| "canonical_json_value (PFloat f) =
     (case f of FloatFinite s \<Rightarrow> Inr (JFloat s) | _ \<Rightarrow> Inl NonFiniteNumber)"
| "canonical_json_value (PDecimal d) =
     (case d of Some s \<Rightarrow> Inr (JStr s) | None \<Rightarrow> Inl NonFiniteDecimal)"
| "canonical_json_value (PDatetime t) = Inr (JStr (isoformat t))"
| "canonical_json_value (PUUID u) = Inr (JStr (uuid_str u))"
| "canonical_json_value (PEnum v) = canonical_json_value v"
| "canonical_json_value (PModel v) = canonical_json_value v"
| "canonical_json_value (PDict kvs) =
     (if list_all (is_KStr \<circ> fst) kvs then map_sum id JObj (canonical_fields kvs)
      else Inl NonStringKey)"
| "canonical_json_value (PList vs) = map_sum id JArr (canonical_items vs)"
| "canonical_json_value (PTuple vs) = map_sum id JArr (canonical_items vs)"
| "canonical_json_value POther = Inl UnsupportedValue"
| "canonical_fields [] = Inr []"
| "canonical_fields ((k, v) # kvs) =
     (case canonical_json_value v of
        Inl e \<Rightarrow> Inl e
      | Inr j \<Rightarrow> map_sum id (Cons (key_text k, j)) (canonical_fields kvs))"
| "canonical_items [] = Inr []"
| "canonical_items (v # vs) =
     (case canonical_json_value v of
        Inl e \<Rightarrow> Inl e
      | Inr j \<Rightarrow> map_sum id (Cons j) (canonical_items vs))"

subsection \<open>Text\<close>

text \<open>\<open>json.dumps\<close> escapes the quote, the backslash and the control characters.\<close>

definition escape_char :: "char \<Rightarrow> string" where
  "escape_char c =
     (if c = CHR 0x22 then [CHR 0x5C, CHR 0x22]
      else if c = CHR 0x5C then [CHR 0x5C, CHR 0x5C]
      else if c = CHR 0x0A then [CHR 0x5C, CHR ''n'']
      else if c = CHR 0x0D then [CHR 0x5C, CHR ''r'']
      else if c = CHR 0x09 then [CHR 0x5C, CHR ''t'']
      else if c = CHR 0x0C then [CHR 0x5C, CHR ''f'']
      else if c = CHR 0x08 then [CHR 0x5C, CHR ''b'']
      else if (of_char c :: nat) < 32 then [CHR 0x5C, CHR ''u''] @ hex_pad 4 (of_char c)
      else [c])"

definition quoted :: "string \<Rightarrow> string" where
  "quoted s = [CHR 0x22] @ concat (map escape_char s) @ [CHR 0x22]"

text \<open>\<open>sort_keys\<close>: the members of every object in ascending key order.\<close>

fun sort_keys :: "json \<Rightarrow> json" where
  "sort_keys (JObj kvs) = JObj (sort_key fst (map (\<lambda>(k, v). (k, sort_keys v)) kvs))"
| "sort_keys (JArr vs) = JArr (map sort_keys vs)"
| "sort_keys j = j"

fun dumps :: "json \<Rightarrow> string"
  and dumps_more_fields :: "(string \<times> json) list \<Rightarrow> string"
  and dumps_more_items :: "json list \<Rightarrow> string" where
  "dumps JNull = ''null''"
| "dumps (JStr s) = quoted s"
| "dumps (JInt i) = int_str i"
| "dumps (JBool b) = (if b then ''true'' else ''false'')"
| "dumps (JFloat s) = s"
| "dumps (JObj kvs) =
     (case kvs of [] \<Rightarrow> ''{}''
      | (k, v) # rest \<Rightarrow> ''{'' @ quoted k @ '':'' @ dumps v @ dumps_more_fields rest @ ''}'')"
| "dumps (JArr vs) =
     (case vs of [] \<Rightarrow> ''[]'' | v # rest \<Rightarrow> ''['' @ dumps v @ dumps_more_items rest @ '']'')"
| "dumps_more_fields [] = ''''"
| "dumps_more_fields ((k, v) # kvs) =
     '','' @ quoted k @ '':'' @ dumps v @ dumps_more_fields kvs"
| "dumps_more_items [] = ''''"
| "dumps_more_items (v # vs) = '','' @ dumps v @ dumps_more_items vs"

definition json_bytes :: "json \<Rightarrow> string" where
  "json_bytes j = dumps (sort_keys j)"

definition canonical_bytes :: "pyval \<Rightarrow> canonical_error + string" where
  "canonical_bytes v = map_sum id json_bytes (canonical_json_value v)"

definition canonical_digest :: "(string \<Rightarrow> string) \<Rightarrow> pyval \<Rightarrow> canonical_error + digest" where
  "canonical_digest sha256_hex v =
     map_sum id (\<lambda>b. ''sha256:'' @ sha256_hex b) (canonical_bytes v)"

text \<open>The digest of a value that is JSON-native already.\<close>

definition json_digest :: "(string \<Rightarrow> string) \<Rightarrow> json \<Rightarrow> digest" where
  "json_digest sha256_hex j = ''sha256:'' @ sha256_hex (json_bytes j)"

text \<open>Fields of documents: a UUID and a timestamp as the encoder renders them, an optional value.\<close>

definition juuid :: "uuid \<Rightarrow> json" where
  "juuid u = JStr (uuid_str u)"

definition jtime :: "timestamp \<Rightarrow> json" where
  "jtime t = JStr (isoformat t)"

definition jopt :: "('a \<Rightarrow> json) \<Rightarrow> 'a option \<Rightarrow> json" where
  "jopt f v = (case v of None \<Rightarrow> JNull | Some x \<Rightarrow> f x)"

definition jlookup :: "string \<Rightarrow> json \<Rightarrow> json option" where
  "jlookup k j = (case j of JObj kvs \<Rightarrow> map_of kvs k | _ \<Rightarrow> None)"


subsection \<open>Escaped text can be read back\<close>

lemma escape_char_not_Nil [simp]: "escape_char c \<noteq> []"
  by (simp add: escape_char_def)

lemma escape_char_hd_not_quote: "escape_char c \<noteq> CHR 0x22 # xs"
  by (auto simp: escape_char_def)

lemma hex_pad_length [simp]: "length (hex_pad w n) = w"
  by (induction w arbitrary: n) auto

lemma hex_pad_inject:
  "m < 16 ^ w \<Longrightarrow> n < 16 ^ w \<Longrightarrow> hex_pad w m = hex_pad w n \<longleftrightarrow> m = n"
proof (induction w arbitrary: m n)
  case (Suc w)
  have "m div 16 < 16 ^ w" "n div 16 < 16 ^ w"
    using Suc.prems by (auto simp: div_less_iff_less_mult mult.commute)
  then have "hex_pad (Suc w) m = hex_pad (Suc w) n \<longleftrightarrow> m div 16 = n div 16 \<and> m mod 16 = n mod 16"
    using Suc.IH by (auto simp: digit_char_inject)
  then show ?case by (metis div_mod_decomp)
qed simp

lemma uuid_str_inject:
  assumes "u < 2 ^ 128" and "v < 2 ^ 128"
  shows "uuid_str u = uuid_str v \<longleftrightarrow> u = v"
proof
  assume "uuid_str u = uuid_str v"
  then have "take 8 (uuid_hex u) = take 8 (uuid_hex v)"
    "take 4 (drop 8 (uuid_hex u)) = take 4 (drop 8 (uuid_hex v))"
    "take 4 (drop 12 (uuid_hex u)) = take 4 (drop 12 (uuid_hex v))"
    "take 4 (drop 16 (uuid_hex u)) = take 4 (drop 16 (uuid_hex v))"
    "drop 20 (uuid_hex u) = drop 20 (uuid_hex v)"
    by (auto simp: uuid_str_def Let_def uuid_hex_def append_eq_append_conv)
  moreover have "take 8 h @ take 4 (drop 8 h) @ take 4 (drop 12 h) @ take 4 (drop 16 h) @ drop 20 h = h"
    for h :: string
    using append_take_drop_id [of 4 "drop 16 h"] append_take_drop_id [of 4 "drop 12 h"]
      append_take_drop_id [of 4 "drop 8 h"] append_take_drop_id [of 8 h]
    by simp
  ultimately have "uuid_hex u = uuid_hex v"
    by metis
  with assms show "u = v"
    by (simp add: uuid_hex_def hex_pad_inject)
qed simp

lemma escape_char_prefix:
  "escape_char c @ x = escape_char d @ y \<Longrightarrow> c = d \<and> x = y"
proof -
  have hex: "of_char a < (32::nat) \<Longrightarrow> of_char b < (32::nat) \<Longrightarrow>
      hex_pad 4 (of_char a) @ x = hex_pad 4 (of_char b) @ y \<Longrightarrow> a = b \<and> x = y" for a b :: char
    by (simp add: append_eq_append_conv hex_pad_inject)
  assume "escape_char c @ x = escape_char d @ y"
  then show ?thesis
    by (auto simp: escape_char_def dest: hex split: if_splits)
qed

lemma escaped_prefix:
  "concat (map escape_char s) @ CHR 0x22 # x = concat (map escape_char t) @ CHR 0x22 # y \<Longrightarrow>
     s = t \<and> x = y"
proof (induction s arbitrary: t)
  case Nil
  then show ?case
    by (cases t)
      (auto simp: escape_char_hd_not_quote [symmetric] append_eq_Cons_conv Cons_eq_append_conv)
next
  case (Cons c s)
  show ?case
  proof (cases t)
    case Nil
    with Cons.prems show ?thesis
      by (auto simp: escape_char_hd_not_quote append_eq_Cons_conv)
  next
    case (Cons d t')
    with Cons.prems Cons.IH show ?thesis
      by (auto dest!: escape_char_prefix)
  qed
qed

lemma quoted_prefix: "quoted s @ x = quoted t @ y \<Longrightarrow> s = t \<and> x = y"
  by (auto simp: quoted_def dest: escaped_prefix)

subsection \<open>Canonical text determines the value\<close>

definition is_num :: "char \<Rightarrow> bool" where
  "is_num c \<longleftrightarrow> is_digit c \<or> c \<in> set ''+-.e''"

definition float_text :: "string \<Rightarrow> bool" where
  "float_text s \<longleftrightarrow> s \<noteq> [] \<and> list_all is_num s \<and> list_ex (\<lambda>c. c = CHR ''.'' \<or> c = CHR ''e'') s"

text \<open>
  \<open>wf_json\<close>: every float is the \<open>repr\<close> of a finite float, which has a point or an
  exponent and so is not the text of an integer.
\<close>

fun wf_json :: "json \<Rightarrow> bool" where
  "wf_json (JFloat s) = float_text s"
| "wf_json (JObj kvs) = list_all (\<lambda>(k, v). wf_json v) kvs"
| "wf_json (JArr vs) = list_all wf_json vs"
| "wf_json _ = True"

fun stops :: "string \<Rightarrow> bool" where
  "stops [] = True"
| "stops (c # _) = (\<not> is_num c)"

lemma int_str_num: "list_all is_num (int_str i)" "int_str i \<noteq> []"
  by (auto simp: int_str_def list_all_iff is_num_def dest: nat_str_digits)

lemma int_str_no_point: "\<not> list_ex (\<lambda>c. c = CHR ''.'' \<or> c = CHR ''e'') (int_str i)"
  by (auto simp: int_str_def list_ex_iff is_digit_def dest: nat_str_digits split: if_splits)

lemma takeWhile_num: "list_all is_num s \<Longrightarrow> stops x \<Longrightarrow> takeWhile is_num (s @ x) = s"
  by (cases x) (auto simp: list_all_iff takeWhile_append)

lemma num_prefix:
  "list_all is_num s \<Longrightarrow> list_all is_num t \<Longrightarrow> stops x \<Longrightarrow> stops y \<Longrightarrow> s @ x = t @ y \<Longrightarrow>
     s = t \<and> x = y"
  by (metis takeWhile_num same_append_eq)

text \<open>The class of a value is visible in the first character of its text.\<close>

fun lead :: "json \<Rightarrow> nat" where
  "lead JNull = 0"
| "lead (JStr _) = 1"
| "lead (JInt _) = 2"
| "lead (JFloat _) = 2"
| "lead (JBool b) = (if b then 3 else 4)"
| "lead (JObj _) = 5"
| "lead (JArr _) = 6"

definition lead_char :: "char \<Rightarrow> nat" where
  "lead_char c =
     (if c = CHR ''n'' then 0 else if c = CHR 0x22 then 1 else if c = CHR ''t'' then 3
      else if c = CHR ''f'' then 4 else if c = CHR ''{'' then 5 else if c = CHR ''['' then 6 else 2)"

lemma lead_char_num: "is_num c \<Longrightarrow> lead_char c = 2"
  by (auto simp: lead_char_def is_num_def is_digit_def)

lemma dumps_lead: "wf_json j \<Longrightarrow> dumps j \<noteq> [] \<and> lead_char (hd (dumps j)) = lead j"
proof (cases j)
  case (JInt i)
  then show ?thesis
    using int_str_num [of i] by (cases "int_str i") (auto simp: lead_char_num)
next
  case (JFloat s)
  moreover assume "wf_json j"
  ultimately show ?thesis
    by (cases s) (auto simp: lead_char_num float_text_def)
qed (auto simp: lead_char_def quoted_def split: list.splits)

lemma dumps_not_bracket: "wf_json j \<Longrightarrow> dumps j = [] \<longleftrightarrow> False" "wf_json j \<Longrightarrow> dumps j \<noteq> CHR '']'' # xs"
proof -
  assume wf: "wf_json j"
  show "dumps j = [] \<longleftrightarrow> False" using dumps_lead [OF wf] by simp
  have "\<not> is_num (CHR '']'')" by (simp add: is_num_def is_digit_def)
  with wf show "dumps j \<noteq> CHR '']'' # xs"
    by (cases j) (use int_str_num in \<open>auto simp: float_text_def quoted_def list_all_iff split: list.splits\<close>,
        metis list.set_intros(1))
qed

lemma dumps_lead_eq:
  assumes "wf_json i" "wf_json j" "dumps i @ x = dumps j @ y"
  shows "lead i = lead j"
  using dumps_lead [OF assms(1)] dumps_lead [OF assms(2)] assms(3)
  by (metis hd_append2)

lemma dumps_num_prefix:
  assumes "lead i = 2" "lead j = 2" "wf_json i" "wf_json j" "stops x" "stops y"
    and "dumps i @ x = dumps j @ y"
  shows "i = j \<and> x = y"
proof -
  have num: "list_all is_num (dumps k)" if "lead k = 2" "wf_json k" for k
    using that by (cases k) (auto simp: int_str_num float_text_def split: if_splits)
  have "dumps i = dumps j \<and> x = y"
    using num_prefix [OF num num] assms by simp
  moreover have "dumps i = dumps j \<Longrightarrow> i = j"
    using assms int_str_no_point
    by (cases i; cases j) (auto simp: float_text_def split: if_splits)
  ultimately show ?thesis by simp
qed

lemma stops_more [simp]:
  "stops (dumps_more_fields kvs @ CHR ''}'' # x)" "stops (dumps_more_items vs @ CHR '']'' # x)"
  by (cases kvs; force simp: is_num_def is_digit_def)
     (cases vs; force simp: is_num_def is_digit_def)

lemma dumps_prefix:
  "wf_json i \<Longrightarrow> wf_json j \<Longrightarrow> stops x \<Longrightarrow> stops y \<Longrightarrow> dumps i @ x = dumps j @ y \<Longrightarrow>
     i = j \<and> x = y"
  "list_all (\<lambda>(k, v). wf_json v) ks \<Longrightarrow> list_all (\<lambda>(k, v). wf_json v) ls \<Longrightarrow>
     dumps_more_fields ks @ CHR ''}'' # x = dumps_more_fields ls @ CHR ''}'' # y \<Longrightarrow> ks = ls \<and> x = y"
  "list_all wf_json us \<Longrightarrow> list_all wf_json vs \<Longrightarrow>
     dumps_more_items us @ CHR '']'' # x = dumps_more_items vs @ CHR '']'' # y \<Longrightarrow> us = vs \<and> x = y"
proof (induction i and ks and us arbitrary: j x y and ls x y and vs x y
    rule: dumps_dumps_more_fields_dumps_more_items.induct)
  case 1
  then show ?case using dumps_lead_eq [of JNull j] by (cases j) (auto split: if_splits)
next
  case (2 s)
  then show ?case
    using dumps_lead_eq [of "JStr s" j] by (cases j) (auto dest: quoted_prefix split: if_splits)
next
  case (3 i)
  then show ?case
    using dumps_lead_eq [of "JInt i" j] dumps_num_prefix [of "JInt i" j] by auto
next
  case (4 b)
  then show ?case
    using dumps_lead_eq [of "JBool b" j] by (cases j) (auto split: if_splits)
next
  case (5 s)
  then show ?case
    using dumps_lead_eq [of "JFloat s" j] dumps_num_prefix [of "JFloat s" j] by auto
next
  case (6 kvs)
  obtain lvs where j: "j = JObj lvs"
    using dumps_lead_eq [of "JObj kvs" j x y] 6(3-7) by (cases j) (auto split: if_splits)
  show ?case
  proof (cases kvs)
    case Nil
    with 6(7) j show ?thesis by (auto simp: quoted_def split: list.splits)
  next
    case (Cons kv rest)
    obtain k v where kv: "kv = (k, v)" by (cases kv)
    with Cons 6(7) j obtain l w rest' where lvs: "lvs = (l, w) # rest'"
      by (auto simp: quoted_def split: list.splits)
    from 6(7) Cons kv j lvs have "k = l" and
      eq: "dumps v @ dumps_more_fields rest @ CHR ''}'' # x =
           dumps w @ dumps_more_fields rest' @ CHR ''}'' # y"
      by (auto dest: quoted_prefix)
    from 6(3,4) Cons kv j lvs have wf: "wf_json v" "wf_json w"
      "list_all (\<lambda>(k, v). wf_json v) rest" "list_all (\<lambda>(k, v). wf_json v) rest'" by auto
    from 6(1) [OF Cons kv [symmetric] wf(1,2) _ _ eq] have "v = w"
      and more: "dumps_more_fields rest @ CHR ''}'' # x = dumps_more_fields rest' @ CHR ''}'' # y"
      by auto
    from 6(2) [OF Cons kv [symmetric] wf(3,4) more] have "rest = rest' \<and> x = y" .
    with \<open>v = w\<close> \<open>k = l\<close> Cons kv j lvs show ?thesis by simp
  qed
next
  case (7 us)
  obtain vs where j: "j = JArr vs"
    using dumps_lead_eq [of "JArr us" j x y] 7(3-7) by (cases j) (auto split: if_splits)
  show ?case
  proof (cases us)
    case Nil
    with 7(4,7) j show ?thesis
      by (auto simp: append_eq_Cons_conv Cons_eq_append_conv dumps_not_bracket(2) [symmetric]
          dumps_not_bracket(1) split: list.splits)
  next
    case (Cons v rest)
    with 7(3,7) j obtain w rest' where vs: "vs = w # rest'"
      by (auto simp: append_eq_Cons_conv Cons_eq_append_conv dumps_not_bracket split: list.splits)
    from 7(7) Cons j vs have
      eq: "dumps v @ dumps_more_items rest @ CHR '']'' # x =
           dumps w @ dumps_more_items rest' @ CHR '']'' # y" by simp
    from 7(3,4) Cons j vs have wf: "wf_json v" "wf_json w"
      "list_all wf_json rest" "list_all wf_json rest'" by auto
    from 7(1) [OF Cons wf(1,2) _ _ eq] have "v = w"
      and more: "dumps_more_items rest @ CHR '']'' # x = dumps_more_items rest' @ CHR '']'' # y"
      by auto
    from 7(2) [OF Cons wf(3,4) more] have "rest = rest' \<and> x = y" .
    with \<open>v = w\<close> Cons j vs show ?thesis by simp
  qed
next
  case 8
  then show ?case by (cases ls) auto
next
  case (9 k v kvs)
  then obtain l w ls' where ls: "ls = (l, w) # ls'" by (cases ls) auto
  from 9(5) ls have "k = l" and
    eq: "dumps v @ dumps_more_fields kvs @ CHR ''}'' # x =
         dumps w @ dumps_more_fields ls' @ CHR ''}'' # y"
    by (auto dest: quoted_prefix)
  from 9(3,4) ls have wf: "wf_json v" "wf_json w"
    "list_all (\<lambda>(k, v). wf_json v) kvs" "list_all (\<lambda>(k, v). wf_json v) ls'" by auto
  from 9(1) [OF wf(1,2) _ _ eq] 9(2) [OF wf(3,4)] \<open>k = l\<close> ls show ?case by auto
next
  case 10
  then show ?case by (cases vs) auto
next
  case (11 v us)
  then obtain w vs' where vs: "vs = w # vs'" by (cases vs) auto
  from 11(5) vs have
    eq: "dumps v @ dumps_more_items us @ CHR '']'' # x =
         dumps w @ dumps_more_items vs' @ CHR '']'' # y" by simp
  from 11(3,4) vs have wf: "wf_json v" "wf_json w"
    "list_all wf_json us" "list_all wf_json vs'" by auto
  from 11(1) [OF wf(1,2) _ _ eq] 11(2) [OF wf(3,4)] vs show ?case by auto
qed


lemma wf_sort_keys: "wf_json j \<Longrightarrow> wf_json (sort_keys j)"
  by (induction j rule: sort_keys.induct) (auto simp: list_all_iff)

lemma sort_key_map: "(\<And>x. k (g x) = k x) \<Longrightarrow> sort_key k (map g xs) = map g (sort_key k xs)"
proof (induction xs)
  case (Cons x xs)
  have "insort_key k (g x) (map g ys) = map g (insort_key k x ys)" for ys
    by (induction ys) (simp_all add: Cons.prems)
  with Cons show ?case by simp
qed simp

lemma sort_key_sorted: "sorted (map k xs) \<Longrightarrow> sort_key k xs = xs"
  by (induction xs) (simp_all add: insort_is_Cons)

lemma sort_keys_idem [simp]: "sort_keys (sort_keys j) = sort_keys j"
proof (induction j rule: sort_keys.induct)
  case (1 kvs)
  let ?f = "\<lambda>(k, v). (k, sort_keys v)"
  have fst: "fst (?f p) = fst p" for p by (cases p) simp
  have "map ?f (sort_key fst (map ?f kvs)) = sort_key fst (map ?f (map ?f kvs))"
    by (rule sort_key_map [symmetric]) (rule fst)
  also have "map ?f (map ?f kvs) = map ?f kvs" using 1 by auto
  finally have eq: "map ?f (sort_key fst (map ?f kvs)) = sort_key fst (map ?f kvs)" .
  show ?case unfolding sort_keys.simps eq by (simp add: sort_key_sorted)
qed simp_all

lemma json_bytes_inject:
  "wf_json i \<Longrightarrow> wf_json j \<Longrightarrow> json_bytes i = json_bytes j \<Longrightarrow> sort_keys i = sort_keys j"
  using dumps_prefix(1) [of "sort_keys i" "sort_keys j" "[]" "[]"]
  by (simp add: json_bytes_def wf_sort_keys)

lemma canonical_fields_ok:
  "list_all (is_ok \<circ> canonical_json_value \<circ> snd) kvs \<Longrightarrow>
     canonical_fields kvs = Inr (map (\<lambda>(k, v). (key_text k, projr (canonical_json_value v))) kvs)"
  by (induction kvs) (auto simp: is_ok_iff)

lemma sort_keys_obj_mset:
  assumes "mset ks = mset ls" and "distinct (map fst ks)"
  shows "sort_keys (JObj ks) = sort_keys (JObj ls)"
proof -
  let ?f = "\<lambda>(k, v). (k, sort_keys v)"
  have m: "mset (map ?f ks) = mset (map ?f ls)" using assms(1) by simp
  have "distinct (map fst (map ?f ks))" using assms(2) by (simp add: comp_def case_prod_unfold)
  then have "inj_on fst (set (map ?f ks))"
    using distinct_map [of fst "map ?f ks"] by blast
  then have "sort_key fst (map ?f ks) = sort_key fst (map ?f ls)"
    using m by (intro sort_key_inj_key_eq) simp_all
  then show ?thesis by simp
qed

subsection \<open>Properties\<close>

text \<open>
  Content binding of the canonical encoder: two values that normalise, whose floats
  render as floats do, and whose canonical bytes are equal, are the same JSON value up to
  the order of object members. A digest over these bytes therefore stands for one value.
\<close>

theorem canonical_bytes_determine_value:
  assumes "canonical_json_value v = Inr i" and "canonical_json_value w = Inr j"
    and "wf_json i" and "wf_json j" and "canonical_bytes v = canonical_bytes w"
  shows "sort_keys i = sort_keys j"
  using assms json_bytes_inject [of i j] by (simp add: canonical_bytes_def)

theorem canonical_bytes_determine_value_witness:
  "sort_keys (JObj [(''b'', JInt 2), (''a'', JFloat ''1.5'')]) =
   sort_keys (JObj [(''a'', JFloat ''1.5''), (''b'', JInt 2)])"
proof (rule canonical_bytes_determine_value)
  show "canonical_json_value (PDict [(KStr ''b'', PInt 2), (KStr ''a'', PFloat (FloatFinite ''1.5''))]) =
      Inr (JObj [(''b'', JInt 2), (''a'', JFloat ''1.5'')])" by simp
  show "canonical_json_value (PDict [(KStr ''a'', PFloat (FloatFinite ''1.5'')), (KStr ''b'', PInt 2)]) =
      Inr (JObj [(''a'', JFloat ''1.5''), (''b'', JInt 2)])" by simp
  show "canonical_bytes (PDict [(KStr ''b'', PInt 2), (KStr ''a'', PFloat (FloatFinite ''1.5''))]) =
      canonical_bytes (PDict [(KStr ''a'', PFloat (FloatFinite ''1.5'')), (KStr ''b'', PInt 2)])"
    by code_simp
qed (simp_all add: float_text_def is_num_def is_digit_def)

text \<open>
  Determinism: the canonical bytes of a dictionary do not depend on the order its
  members were inserted in.
\<close>

theorem canonical_bytes_key_order:
  assumes "mset kvs = mset lvs" and "distinct (map fst kvs)"
    and "list_all (is_KStr \<circ> fst) kvs" and "list_all (is_ok \<circ> canonical_json_value \<circ> snd) kvs"
  shows "canonical_bytes (PDict kvs) = canonical_bytes (PDict lvs)"
proof -
  let ?n = "\<lambda>(k, v). (key_text k, projr (canonical_json_value v))"
  have sets: "set kvs = set lvs" using assms(1) by (metis set_mset_mset)
  have ok: "list_all (is_KStr \<circ> fst) lvs" "list_all (is_ok \<circ> canonical_json_value \<circ> snd) lvs"
    using assms(3,4) by (simp_all add: list_all_iff sets)
  have "is_KStr k \<Longrightarrow> is_KStr l \<Longrightarrow> key_text k = key_text l \<Longrightarrow> k = l" for k l
    by (cases k; cases l) auto
  then have "inj_on key_text (fst ` set kvs)"
    using assms(3) by (auto simp: inj_on_def list_all_iff)
  then have "distinct (map key_text (map fst kvs))"
    using assms(2) by (simp add: distinct_map comp_inj_on)
  then have "distinct (map fst (map ?n kvs))"
    by (simp add: comp_def case_prod_unfold)
  then have "sort_keys (JObj (map ?n kvs)) = sort_keys (JObj (map ?n lvs))"
    using assms(1) by (intro sort_keys_obj_mset) simp_all
  then show ?thesis
    using assms(3,4) ok by (simp add: canonical_bytes_def canonical_fields_ok json_bytes_def)
qed

theorem canonical_bytes_key_order_witness:
  "canonical_bytes (PDict [(KStr ''b'', PInt 2), (KStr ''a'', PUUID 1)]) =
   canonical_bytes (PDict [(KStr ''a'', PUUID 1), (KStr ''b'', PInt 2)])"
  by (rule canonical_bytes_key_order) simp_all

end
