(* ===== verification/RS_Graph.thy ===== *)
theory RS_Graph
  imports RS_Prelude
begin

section \<open>Graph searches of the workflow validator\<close>

text \<open>
  The two searches of \<open>packages/contracts/runsigil_contracts/workflows.py\<close>: the
  depth-first cycle check of \<open>_has_cycle_without_loop\<close> with its \<open>visiting\<close> and
  \<open>visited\<close> sets, and the worklist of reachable nodes inside
  \<open>validate_workflow_definition\<close>. Both are compared with the relation the edges
  denote: the check answers whether that relation has a cycle, the worklist computes its
  reflexive transitive image.
\<close>

type_synonym edges = "(string \<times> string) list"

definition succs :: "edges \<Rightarrow> string \<Rightarrow> string list" where
  "succs es v = map snd (filter (\<lambda>e. fst e = v) es)"

lemma set_succs: "set (succs es v) = set es `` {v}"
  by (force simp: succs_def)

subsection \<open>The cycle check\<close>

text \<open>
  \<open>visit\<close> recurses to a depth bounded by the number of nodes; the first argument counts
  that depth down, and \<open>None\<close> says it was exceeded. The triple is the answer and the
  contents of \<open>visiting\<close> and \<open>visited\<close> when the call returns.
\<close>

type_synonym visit_state = "bool \<times> string set \<times> string set"

fun visit :: "nat \<Rightarrow> edges \<Rightarrow> string \<Rightarrow> string set \<Rightarrow> string set \<Rightarrow> visit_state option"
  and visit_any :: "nat \<Rightarrow> edges \<Rightarrow> string list \<Rightarrow> string set \<Rightarrow> string set \<Rightarrow> visit_state option" where
  "visit 0 es v visiting visited = None"
| "visit (Suc n) es v visiting visited =
     (if v \<in> visiting then Some (True, visiting, visited)
      else if v \<in> visited then Some (False, visiting, visited)
      else case visit_any n es (succs es v) (insert v visiting) visited of
             None \<Rightarrow> None
           | Some (found, ving, ved) \<Rightarrow>
               if found then Some (True, ving, ved) else Some (False, ving - {v}, insert v ved))"
| "visit_any n es [] visiting visited = Some (False, visiting, visited)"
| "visit_any n es (t # ts) visiting visited =
     (case visit n es t visiting visited of
        None \<Rightarrow> None
      | Some (found, ving, ved) \<Rightarrow>
          if found then Some (True, ving, ved) else visit_any n es ts ving ved)"

fun visit_roots :: "nat \<Rightarrow> edges \<Rightarrow> string list \<Rightarrow> string set \<Rightarrow> string set \<Rightarrow> bool option" where
  "visit_roots n es [] visiting visited = Some False"
| "visit_roots n es (v # vs) visiting visited =
     (if v \<in> visited then visit_roots n es vs visiting visited
      else case visit n es v visiting visited of
             None \<Rightarrow> None
           | Some (found, ving, ved) \<Rightarrow>
               if found then Some True else visit_roots n es vs ving ved)"

definition inner_edges :: "string set \<Rightarrow> edges \<Rightarrow> edges" where
  "inner_edges nodes es = filter (\<lambda>(s, t). s \<in> nodes \<and> t \<in> nodes) es"

definition has_cycle_without_loop :: "string list \<Rightarrow> edges \<Rightarrow> bool option" where
  "has_cycle_without_loop nodes es =
     visit_roots (Suc (length (remdups nodes))) (inner_edges (set nodes) es)
       (sort (remdups nodes)) {} {}"

subsection \<open>The search finds exactly the cycles\<close>

text \<open>
  \<open>closed\<close> is what the visited set satisfies between calls: its successors are visited
  and no visited node lies on a cycle.
\<close>

definition closed :: "edges \<Rightarrow> string set \<Rightarrow> bool" where
  "closed es S \<longleftrightarrow> set es `` S \<subseteq> S \<and> (\<forall>u \<in> S. (u, u) \<notin> (set es)\<^sup>+)"

lemma closed_trancl: "(u, v) \<in> (set es)\<^sup>+ \<Longrightarrow> set es `` S \<subseteq> S \<Longrightarrow> u \<in> S \<Longrightarrow> v \<in> S"
  by (induction rule: trancl_induct) auto

lemma closed_empty: "closed es {}"
  by (simp add: closed_def)

lemma closed_insert:
  assumes "closed es S" and "set (succs es v) \<subseteq> S" and "v \<notin> S"
  shows "closed es (insert v S)"
proof -
  have "(v, v) \<notin> (set es)\<^sup>+"
  proof
    assume "(v, v) \<in> (set es)\<^sup>+"
    then obtain w where w: "(v, w) \<in> set es" "(w, v) \<in> (set es)\<^sup>*" by (meson tranclD)
    then have "w \<in> S" using assms(2) by (auto simp: set_succs)
    with w(2) assms(1,3) show False
      using closed_trancl [of w v es S] by (auto simp: closed_def dest: rtranclD)
  qed
  with assms show ?thesis by (auto simp: closed_def set_succs)
qed

lemma visit_sound:
  "visit n es v ving ved = Some (b, ving', ved') \<Longrightarrow> \<forall>x \<in> ving. (x, v) \<in> (set es)\<^sup>+ \<Longrightarrow>
     closed es ved \<Longrightarrow> ved \<inter> ving = {} \<Longrightarrow>
     (if b then \<exists>u. (u, u) \<in> (set es)\<^sup>+
      else ving' = ving \<and> ved \<subseteq> ved' \<and> v \<in> ved' \<and> closed es ved' \<and> ved' \<inter> ving = {})"
  "visit_any n es ts ving ved = Some (b, ving', ved') \<Longrightarrow>
     \<forall>x \<in> ving. \<forall>t \<in> set ts. (x, t) \<in> (set es)\<^sup>+ \<Longrightarrow>
     closed es ved \<Longrightarrow> ved \<inter> ving = {} \<Longrightarrow>
     (if b then \<exists>u. (u, u) \<in> (set es)\<^sup>+
      else ving' = ving \<and> ved \<subseteq> ved' \<and> set ts \<subseteq> ved' \<and> closed es ved' \<and> ved' \<inter> ving = {})"
proof (induction n es v ving ved and n es ts ving ved arbitrary: b ving' ved' and b ving' ved'
    rule: visit_visit_any.induct)
  case (2 n es v ving ved)
  show ?case
  proof (cases "v \<in> ving \<or> v \<in> ved")
    case True
    with 2 show ?thesis by (auto split: if_splits)
  next
    case False
    with 2(2) obtain c ving1 ved1 where
      any: "visit_any n es (succs es v) (insert v ving) ved = Some (c, ving1, ved1)"
      and res: "(if c then Some (True, ving1, ved1) else Some (False, ving1 - {v}, insert v ved1)) =
                Some (b, ving', ved')"
      by (auto split: option.splits)
    have reach: "\<forall>x \<in> insert v ving. \<forall>t \<in> set (succs es v). (x, t) \<in> (set es)\<^sup>+"
      using 2(3) by (auto simp: set_succs intro: trancl_into_trancl)
    have ih: "if c then \<exists>u. (u, u) \<in> (set es)\<^sup>+
      else ving1 = insert v ving \<and> ved \<subseteq> ved1 \<and> set (succs es v) \<subseteq> ved1 \<and> closed es ved1 \<and>
        ved1 \<inter> insert v ving = {}"
      using 2(1) [OF _ _ any reach 2(4)] 2(5) False by auto
    then show ?thesis
      using res closed_insert [of es ved1 v] False by (auto split: if_splits)
  qed
next
  case (4 n es t ts ving ved)
  from 4(3) obtain c ving1 ved1 where v: "visit n es t ving ved = Some (c, ving1, ved1)"
    by (auto split: option.splits)
  have ih: "if c then \<exists>u. (u, u) \<in> (set es)\<^sup>+
      else ving1 = ving \<and> ved \<subseteq> ved1 \<and> t \<in> ved1 \<and> closed es ved1 \<and> ved1 \<inter> ving = {}"
    using 4(1) [OF v] 4(4-6) by simp
  show ?case
  proof (cases c)
    case True
    with ih 4(3) v show ?thesis by simp
  next
    case False
    with ih have st: "ving1 = ving" "ved \<subseteq> ved1" "t \<in> ved1" "closed es ved1" "ved1 \<inter> ving = {}"
      by auto
    from False 4(3) v have any: "visit_any n es ts ving1 ved1 = Some (b, ving', ved')" by simp
    have reach: "\<forall>x \<in> ving1. \<forall>t \<in> set ts. (x, t) \<in> (set es)\<^sup>+" using 4(4) st(1) by simp
    have disj: "ved1 \<inter> ving1 = {}" using st(1,5) by simp
    from 4(2) [OF v refl refl False any reach st(4) disj]
    show ?thesis using st(1,2,3) by (simp split: if_splits) blast
  qed
qed auto

lemma visit_roots_sound:
  "visit_roots n es vs {} ved = Some b \<Longrightarrow> closed es ved \<Longrightarrow>
     (if b then \<exists>u. (u, u) \<in> (set es)\<^sup>+ else \<exists>S. closed es S \<and> ved \<subseteq> S \<and> set vs \<subseteq> S)"
proof (induction vs arbitrary: ved)
  case (Cons v vs)
  show ?case
  proof (cases "v \<in> ved")
    case True
    with Cons.prems Cons.IH [of ved] show ?thesis by (auto split: if_splits)
  next
    case False
    with Cons.prems(1) obtain c ving1 ved1 where v: "visit n es v {} ved = Some (c, ving1, ved1)"
      by (auto split: option.splits)
    have "if c then \<exists>u. (u, u) \<in> (set es)\<^sup>+
        else ving1 = {} \<and> ved \<subseteq> ved1 \<and> v \<in> ved1 \<and> closed es ved1 \<and> ved1 \<inter> {} = {}"
      using visit_sound(1) [OF v] Cons.prems(2) by simp
    with Cons.prems(1) False v Cons.IH [of ved1] show ?thesis
      by (auto split: if_splits)
  qed
qed auto

subsection \<open>The search always answers\<close>

lemma visit_total:
  "finite N \<Longrightarrow> Range (set es) \<subseteq> N \<Longrightarrow> v \<in> N \<Longrightarrow> ving \<subseteq> N \<Longrightarrow> card N - card ving < n \<Longrightarrow>
     \<exists>b ving' ved'. visit n es v ving ved = Some (b, ving', ved') \<and> (\<not> b \<longrightarrow> ving' = ving)"
  "finite N \<Longrightarrow> Range (set es) \<subseteq> N \<Longrightarrow> set ts \<subseteq> N \<Longrightarrow> ving \<subseteq> N \<Longrightarrow> card N - card ving < n \<Longrightarrow>
     \<exists>b ving' ved'. visit_any n es ts ving ved = Some (b, ving', ved') \<and> (\<not> b \<longrightarrow> ving' = ving)"
proof (induction n es v ving ved and n es ts ving ved rule: visit_visit_any.induct)
  case (2 n es v ving ved)
  show ?case
  proof (cases "v \<in> ving \<or> v \<in> ved")
    case False
    have fin: "finite ving" using 2(2,5) by (rule finite_subset [rotated])
    have "card (insert v ving) \<le> card N" using 2(2,4,5) by (intro card_mono) auto
    moreover have "card (insert v ving) = Suc (card ving)" using fin False by simp
    ultimately have less: "card N - card (insert v ving) < n" using 2(6) by linarith
    have sub: "set (succs es v) \<subseteq> N" using 2(3) by (auto simp: set_succs)
    obtain c ving' ved' where
      "visit_any n es (succs es v) (insert v ving) ved = Some (c, ving', ved') \<and>
        (\<not> c \<longrightarrow> ving' = insert v ving)"
      using 2(1) [OF _ _ 2(2,3) sub _ less] False 2(4,5) by auto
    then show ?thesis using False by auto
  qed auto
next
  case (4 n es t ts ving ved)
  then obtain c ving' ved' where
    t: "visit n es t ving ved = Some (c, ving', ved')" "\<not> c \<longrightarrow> ving' = ving" by auto
  show ?case
  proof (cases c)
    case False
    with t have "ving' = ving" by simp
    with 4(2) [OF t(1) refl refl False 4(3,4)] 4(5-7) t False show ?thesis by auto
  qed (use t in auto)
qed auto

lemma visit_roots_total:
  assumes "finite N" "Range (set es) \<subseteq> N" "card N < n"
  shows "set vs \<subseteq> N \<Longrightarrow> \<exists>b. visit_roots n es vs {} ved = Some b"
proof (induction vs arbitrary: ved)
  case (Cons v vs)
  obtain b ving' ved' where
    "visit n es v {} ved = Some (b, ving', ved')" "\<not> b \<longrightarrow> ving' = {}"
    using visit_total(1) [OF assms(1,2), of v "{}" n ved] assms(3) Cons.prems by auto
  with Cons show ?case by auto
qed auto

lemma has_cycle_without_loop_total: "\<exists>b. has_cycle_without_loop nodes es = Some b"
  unfolding has_cycle_without_loop_def
  by (rule visit_roots_total [where N = "set nodes"])
     (auto simp: inner_edges_def length_remdups_card_conv)

subsection \<open>The worklist of reachable nodes\<close>

function reach_loop :: "edges \<Rightarrow> string list \<Rightarrow> string set \<Rightarrow> string set" where
  "reach_loop es pending seen =
     (if pending = [] then seen
      else let current = last pending; rest = butlast pending
           in if current \<in> seen then reach_loop es rest seen
              else reach_loop es (rest @ succs es current) (insert current seen))"
  by pat_completeness auto
termination
proof (relation "measures [\<lambda>(es, pending, seen). card ((set pending \<union> Range (set es)) - seen),
                           \<lambda>(es, pending, seen). length pending]", goal_cases)
  case (2 es pending seen current rest)
  then have "set rest \<subseteq> set pending" by (auto dest: in_set_butlastD)
  then have "card ((set rest \<union> Range (set es)) - seen) \<le> card ((set pending \<union> Range (set es)) - seen)"
    by (intro card_mono) (auto simp: finite_Range)
  with 2 show ?case by auto
next
  case (3 es pending seen current rest)
  have "set (rest @ succs es current) \<union> Range (set es) \<subseteq> set pending \<union> Range (set es)"
    using 3 by (auto simp: set_succs dest: in_set_butlastD)
  moreover have "current \<in> (set pending \<union> Range (set es)) - seen" using 3 by simp
  ultimately have "card ((set (rest @ succs es current) \<union> Range (set es)) - insert current seen) <
      card ((set pending \<union> Range (set es)) - seen)"
    by (intro psubset_card_mono) (auto simp: finite_Range)
  then show ?case by simp
qed simp

declare reach_loop.simps [simp del]

lemma Image_rtrancl_closed: "set es `` R \<subseteq> R \<Longrightarrow> S \<subseteq> R \<Longrightarrow> (set es)\<^sup>* `` S \<subseteq> R"
proof
  fix y assume "set es `` R \<subseteq> R" "S \<subseteq> R" "y \<in> (set es)\<^sup>* `` S"
  then obtain x where "(x, y) \<in> (set es)\<^sup>*" "x \<in> R" by auto
  then show "y \<in> R" using \<open>set es `` R \<subseteq> R\<close> by (induction rule: rtrancl_induct) auto
qed

lemma reach_loop_image:
  "set es `` seen \<subseteq> seen \<union> set pending \<Longrightarrow>
     reach_loop es pending seen = (set es)\<^sup>* `` (seen \<union> set pending)"
proof (induction es pending seen rule: reach_loop.induct)
  case (1 es pending seen)
  show ?case
  proof (cases "pending = []")
    case True
    have "(set es)\<^sup>* `` seen \<subseteq> seen" using 1(3) True by (intro Image_rtrancl_closed) auto
    with True show ?thesis by (auto simp: reach_loop.simps [of es "[]" seen])
  next
    case False
    define c where "c = last pending"
    define rest where "rest = butlast pending"
    have pend: "set pending = insert c (set rest)"
      using False unfolding c_def rest_def
      by (metis append_butlast_last_id insert_is_Un list.simps(15) set_append sup_commute empty_set)
    show ?thesis
    proof (cases "c \<in> seen")
      case True
      then have "reach_loop es rest seen = (set es)\<^sup>* `` (seen \<union> set rest)"
        using 1(1) [OF False c_def rest_def True] 1(3) pend by auto
      moreover have "seen \<union> set rest = seen \<union> set pending" using True pend by auto
      ultimately show ?thesis
        using False True
        by (simp add: reach_loop.simps [of es pending seen] c_def [symmetric] rest_def [symmetric])
    next
      case out: False
      let ?new = "rest @ succs es c"
      have "set es `` insert c seen \<subseteq> insert c seen \<union> set ?new"
        using 1(3) pend by (auto simp: set_succs)
      then have "reach_loop es ?new (insert c seen) = (set es)\<^sup>* `` (insert c seen \<union> set ?new)"
        using 1(2) [OF False c_def rest_def out] by simp
      also have "\<dots> = (set es)\<^sup>* `` (seen \<union> set pending)"
        using pend by (auto simp: set_succs intro: converse_rtrancl_into_rtrancl)
      finally show ?thesis
        using False out
        by (simp add: reach_loop.simps [of es pending seen] c_def [symmetric] rest_def [symmetric])
    qed
  qed
qed

lemma reach_loop_entry: "reach_loop es [v] {} = (set es)\<^sup>* `` {v}"
  by (simp add: reach_loop_image)

lemma cycle_check_exact:
  "has_cycle_without_loop nodes es =
     Some (\<exists>v. (v, v) \<in> {(s, t). (s, t) \<in> set es \<and> s \<in> set nodes \<and> t \<in> set nodes}\<^sup>+)"
proof -
  let ?es = "inner_edges (set nodes) es"
  have E: "set ?es = {(s, t). (s, t) \<in> set es \<and> s \<in> set nodes \<and> t \<in> set nodes}"
    by (auto simp: inner_edges_def)
  obtain b where b: "has_cycle_without_loop nodes es = Some b"
    using has_cycle_without_loop_total by blast
  then have "if b then \<exists>u. (u, u) \<in> (set ?es)\<^sup>+ else \<exists>S. closed ?es S \<and> set nodes \<subseteq> S"
    using visit_roots_sound [of "Suc (length (remdups nodes))" ?es "sort (remdups nodes)" "{}" b]
    by (simp add: has_cycle_without_loop_def closed_empty split: if_splits)
  moreover have "v \<in> set nodes" if "(v, v) \<in> (set ?es)\<^sup>+" for v
    using that by (auto simp: E dest: tranclD)
  ultimately have "b \<longleftrightarrow> (\<exists>v. (v, v) \<in> (set ?es)\<^sup>+)"
    by (cases b) (simp, simp add: closed_def, blast)
  with b E show ?thesis by simp
qed

subsection \<open>Properties\<close>

text \<open>
  C30. The depth-first check of unbounded cycles terminates with an answer on every graph,
  and the answer is exact: it reports a cycle if and only if the edges between the given
  nodes contain one.
\<close>

theorem has_cycle_without_loop_correct:
  "has_cycle_without_loop nodes es =
     Some (\<exists>v. (v, v) \<in> {(s, t). (s, t) \<in> set es \<and> s \<in> set nodes \<and> t \<in> set nodes}\<^sup>+)"
  by (rule cycle_check_exact)

end
