(* ===== verification/RS_Workflow_Contract.thy ===== *)
theory RS_Workflow_Contract
  imports RS_Canonical RS_Graph
begin

section \<open>The workflow contract and its semantic validator\<close>

text \<open>
  Models \<open>packages/contracts/runsigil_contracts/workflows.py\<close>: the typed graph of
  Workflow Engine v2 and \<open>validate_workflow_definition\<close>, issue by issue and in the order
  the code appends them. The validator can raise: testing an unhashable configuration
  value for membership in a set literal is a \<open>TypeError\<close>. The properties say what a
  definition that passes satisfies: unique known endpoints, an entry without predecessors,
  every node reachable, every cycle through a bounded loop, and a shape per node type that
  the engine's routing relies on.
\<close>

subsection \<open>Types\<close>

datatype node_type =
    INPUT | OUTPUT | AGENT | SUPERVISOR | TOOL | CONDITION | PARALLEL | JOIN | BOUNDED_LOOP
  | SUBWORKFLOW | TIMER | EVENT | HANDOFF | APPROVAL | REQUEST_INFORMATION

fun node_type_value :: "node_type \<Rightarrow> string" where
  "node_type_value INPUT = ''input''"
| "node_type_value OUTPUT = ''output''"
| "node_type_value AGENT = ''agent''"
| "node_type_value SUPERVISOR = ''supervisor''"
| "node_type_value TOOL = ''tool''"
| "node_type_value CONDITION = ''condition''"
| "node_type_value PARALLEL = ''parallel''"
| "node_type_value JOIN = ''join''"
| "node_type_value BOUNDED_LOOP = ''bounded_loop''"
| "node_type_value SUBWORKFLOW = ''subworkflow''"
| "node_type_value TIMER = ''timer''"
| "node_type_value EVENT = ''event''"
| "node_type_value HANDOFF = ''handoff''"
| "node_type_value APPROVAL = ''approval''"
| "node_type_value REQUEST_INFORMATION = ''request_information''"

record wf_node =
  node_id :: string
  node_type :: node_type
  node_name :: string
  node_config :: "(string \<times> json) list"
  node_model_route_id :: "uuid option"
  node_policy_bundle_id :: "uuid option"
  node_timeout_seconds :: int
  node_retry_limit :: int
  node_position :: "(string \<times> string) option"

record wf_edge =
  edge_id :: string
  edge_source :: string
  edge_target :: string
  edge_branch :: string

record wf_limits =
  max_steps :: int
  max_duration_seconds :: int
  max_tokens :: int
  max_cost_minor :: int

record wf_definition =
  schema_version :: int
  entry_node_id :: string
  def_nodes :: "wf_node list"
  def_edges :: "wf_edge list"
  def_limits :: wf_limits

datatype severity = SevError | SevWarning

record issue =
  issue_code :: string
  issue_message :: string
  issue_location :: string
  issue_severity :: severity

record validation_result =
  result_valid :: bool
  result_executable :: bool
  result_definition_digest :: digest
  result_issues :: "issue list"

datatype validator_error = UnhashableValue

definition EXECUTABLE_NODE_TYPES :: "node_type list" where
  "EXECUTABLE_NODE_TYPES =
     [INPUT, OUTPUT, AGENT, CONDITION, PARALLEL, JOIN, BOUNDED_LOOP, SUBWORKFLOW, TOOL, TIMER,
      EVENT, APPROVAL, REQUEST_INFORMATION]"

definition WAIT_NODE_TYPES :: "node_type list" where
  "WAIT_NODE_TYPES = [TIMER, EVENT, APPROVAL, REQUEST_INFORMATION]"

definition FORBIDDEN_CONFIG_KEYS :: "string list" where
  "FORBIDDEN_CONFIG_KEYS =
     [''api_key'', ''arguments'', ''authorization'', ''output'', ''password'', ''prompt'',
      ''secret'', ''token'']"

subsection \<open>Text tests\<close>

definition is_lower :: "char \<Rightarrow> bool" where
  "is_lower c \<longleftrightarrow> 97 \<le> (of_char c :: nat) \<and> (of_char c :: nat) \<le> 122"

definition is_upper :: "char \<Rightarrow> bool" where
  "is_upper c \<longleftrightarrow> 65 \<le> (of_char c :: nat) \<and> (of_char c :: nat) \<le> 90"

text \<open>The pattern \<open>[a-z][a-z0-9_-]{0,99}\<close>, matched against the whole text.\<close>

definition key_pattern :: "string \<Rightarrow> bool" where
  "key_pattern s =
     (case s of [] \<Rightarrow> False
      | c # cs \<Rightarrow> is_lower c \<and> length cs \<le> 99 \<and>
          list_all (\<lambda>d. is_lower d \<or> is_digit d \<or> d = CHR ''_'' \<or> d = CHR ''-'') cs)"

definition valid_key :: "json option \<Rightarrow> bool" where
  "valid_key v = (case v of Some (JStr s) \<Rightarrow> key_pattern s | _ \<Rightarrow> False)"

text \<open>
  \<open>str.lower()\<close> as far as an ASCII result can show it: the ASCII letters and the Kelvin
  sign U+212A (three bytes), the one other character whose lower case is an ASCII letter.
\<close>

fun py_lower :: "string \<Rightarrow> string" where
  "py_lower [] = []"
| "py_lower (c # cs) =
     (if c = CHR 0xE2 \<and> take 2 cs = [CHR 0x84, CHR 0xAA] then CHR ''k'' # py_lower (drop 2 cs)
      else (if is_upper c then char_of (of_char c + 32 :: nat) else c) # py_lower cs)"

definition dash_to_underscore :: "string \<Rightarrow> string" where
  "dash_to_underscore s = map (\<lambda>c. if c = CHR ''-'' then CHR ''_'' else c) s"

text \<open>
  The text \<open>uuid.UUID\<close> accepts: without \<open>urn:\<close>, \<open>uuid:\<close>, surrounding braces and
  dashes it has 32 characters that \<open>int(_, 16)\<close> reads, which allows surrounding
  whitespace, a plus sign, a \<open>0x\<close> prefix and single underscores. Non-ASCII digits, which
  \<open>int\<close> would take too, are not accepted here.
\<close>

fun remove_sub :: "string \<Rightarrow> string \<Rightarrow> string" where
  "remove_sub p [] = []"
| "remove_sub p (c # cs) =
     (if p \<noteq> [] \<and> take (length p) (c # cs) = p then remove_sub p (drop (length p - 1) cs)
      else c # remove_sub p cs)"

definition is_hex :: "char \<Rightarrow> bool" where
  "is_hex c \<longleftrightarrow> is_digit c \<or> (let n = (of_char c :: nat) in (97 \<le> n \<and> n \<le> 102) \<or> (65 \<le> n \<and> n \<le> 70))"

fun hex_digits :: "string \<Rightarrow> bool" where
  "hex_digits [] = False"
| "hex_digits [c] = is_hex c"
| "hex_digits (c # d # cs) =
     (is_hex c \<and> (if d = CHR ''_'' then hex_digits cs else hex_digits (d # cs)))"

definition int16_text :: "string \<Rightarrow> bool" where
  "int16_text s =
     (let t = strip is_space s;
          u = (case t of c # cs \<Rightarrow> if c = CHR ''+'' then cs else t | [] \<Rightarrow> t);
          v = (if take 2 u = ''0x'' \<or> take 2 u = ''0X'' then
                 (case drop 2 u of c # cs \<Rightarrow> if c = CHR ''_'' then cs else drop 2 u | [] \<Rightarrow> [])
               else u)
      in hex_digits v)"

definition uuid_text :: "string \<Rightarrow> bool" where
  "uuid_text s =
     (let h = filter (\<lambda>c. c \<noteq> CHR ''-'')
                (strip (\<lambda>c. c = CHR ''{'' \<or> c = CHR ''}'') (remove_sub ''uuid:'' (remove_sub ''urn:'' s)))
      in length h = 32 \<and> int16_text h)"

text \<open>\<open>UUID(str(value))\<close>: only a string or an integer can have a text that parses.\<close>

definition uuid_value :: "json option \<Rightarrow> bool" where
  "uuid_value v =
     (case v of Some (JStr s) \<Rightarrow> uuid_text s | Some (JInt i) \<Rightarrow> uuid_text (int_str i) | _ \<Rightarrow> False)"

text \<open>The UUID itself: prefix, sign and separators aside, 32 hexadecimal digits.\<close>

definition hex_digit_value :: "char \<Rightarrow> nat" where
  "hex_digit_value c = (let n = of_char c in if n < 58 then n - 48 else if n < 71 then n - 55 else n - 87)"

definition hex_value :: "string \<Rightarrow> nat" where
  "hex_value t = foldl (\<lambda>n c. 16 * n + hex_digit_value c) 0 (filter is_hex t)"

definition uuid_of_text :: "string \<Rightarrow> uuid option" where
  "uuid_of_text t =
     (if uuid_text t
      then Some (hex_value (strip (\<lambda>c. c = CHR ''{'' \<or> c = CHR ''}'') (remove_sub ''uuid:'' (remove_sub ''urn:'' t))))
      else None)"

definition uuid_of :: "json \<Rightarrow> uuid option" where
  "uuid_of j = (case j of JStr t \<Rightarrow> uuid_of_text t | JInt i \<Rightarrow> uuid_of_text (int_str i) | _ \<Rightarrow> None)"

subsection \<open>Schema constraints\<close>

text \<open>The field constraints of the pydantic models; lengths count code points.\<close>

definition py_len :: "string \<Rightarrow> nat" where
  "py_len s = length (filter (\<lambda>c. \<not> (128 \<le> (of_char c :: nat) \<and> (of_char c :: nat) < 192)) s)"

definition BRANCHES :: "string list" where
  "BRANCHES = [''default'', ''true'', ''false'', ''continue'', ''exit'', ''approved'', ''denied'']"

definition node_schema_ok :: "wf_node \<Rightarrow> bool" where
  "node_schema_ok n \<longleftrightarrow>
     key_pattern (node_id n) \<and> 1 \<le> py_len (node_name n) \<and> py_len (node_name n) \<le> 200 \<and>
     1 \<le> node_timeout_seconds n \<and> node_timeout_seconds n \<le> 86400 \<and>
     0 \<le> node_retry_limit n \<and> node_retry_limit n \<le> 10"

definition edge_schema_ok :: "wf_edge \<Rightarrow> bool" where
  "edge_schema_ok e \<longleftrightarrow>
     key_pattern (edge_id e) \<and> key_pattern (edge_source e) \<and> key_pattern (edge_target e) \<and>
     edge_branch e \<in> set BRANCHES"

definition limits_schema_ok :: "wf_limits \<Rightarrow> bool" where
  "limits_schema_ok l \<longleftrightarrow>
     1 \<le> max_steps l \<and> max_steps l \<le> 10000 \<and>
     1 \<le> max_duration_seconds l \<and> max_duration_seconds l \<le> 604800 \<and>
     1 \<le> max_tokens l \<and> 1 \<le> max_cost_minor l"

definition definition_schema_ok :: "wf_definition \<Rightarrow> bool" where
  "definition_schema_ok d \<longleftrightarrow>
     schema_version d = 1 \<and> key_pattern (entry_node_id d) \<and>
     2 \<le> length (def_nodes d) \<and> length (def_nodes d) \<le> 1000 \<and>
     1 \<le> length (def_edges d) \<and> length (def_edges d) \<le> 5000 \<and>
     list_all node_schema_ok (def_nodes d) \<and> list_all edge_schema_ok (def_edges d) \<and>
     limits_schema_ok (def_limits d)"

text \<open>\<open>model_dump(mode="json")\<close> of a definition, the content its digest is taken over.\<close>

definition node_json :: "wf_node \<Rightarrow> json" where
  "node_json n = JObj
     [(''id'', JStr (node_id n)), (''type'', JStr (node_type_value (node_type n))),
      (''name'', JStr (node_name n)), (''config'', JObj (node_config n)),
      (''model_route_id'', jopt juuid (node_model_route_id n)),
      (''policy_bundle_id'', jopt juuid (node_policy_bundle_id n)),
      (''timeout_seconds'', JInt (node_timeout_seconds n)),
      (''retry_limit'', JInt (node_retry_limit n)),
      (''position'', jopt (\<lambda>(x, y). JArr [JFloat x, JFloat y]) (node_position n))]"

definition edge_json :: "wf_edge \<Rightarrow> json" where
  "edge_json e = JObj
     [(''id'', JStr (edge_id e)), (''source'', JStr (edge_source e)),
      (''target'', JStr (edge_target e)), (''branch'', JStr (edge_branch e))]"

definition limits_json :: "wf_limits \<Rightarrow> json" where
  "limits_json l = JObj
     [(''max_steps'', JInt (max_steps l)), (''max_duration_seconds'', JInt (max_duration_seconds l)),
      (''max_tokens'', JInt (max_tokens l)), (''max_cost_minor'', JInt (max_cost_minor l))]"

definition definition_json :: "wf_definition \<Rightarrow> json" where
  "definition_json d = JObj
     [(''schema_version'', JInt (schema_version d)), (''entry_node_id'', JStr (entry_node_id d)),
      (''nodes'', JArr (map node_json (def_nodes d))), (''edges'', JArr (map edge_json (def_edges d))),
      (''limits'', limits_json (def_limits d))]"

subsection \<open>Forbidden configuration\<close>

fun forbidden_config_paths :: "json \<Rightarrow> string \<Rightarrow> string list"
  and forbidden_member_paths :: "(string \<times> json) list \<Rightarrow> string \<Rightarrow> string list"
  and forbidden_item_paths :: "json list \<Rightarrow> string \<Rightarrow> nat \<Rightarrow> string list" where
  "forbidden_config_paths (JObj kvs) prefix = forbidden_member_paths kvs prefix"
| "forbidden_config_paths (JArr vs) prefix = forbidden_item_paths vs prefix 0"
| "forbidden_config_paths _ prefix = []"
| "forbidden_member_paths [] prefix = []"
| "forbidden_member_paths ((k, v) # kvs) prefix =
     (let path = prefix @ ''.'' @ k in
      (if dash_to_underscore (py_lower k) \<in> set FORBIDDEN_CONFIG_KEYS then [path] else []) @
      forbidden_config_paths v path @ forbidden_member_paths kvs prefix)"
| "forbidden_item_paths [] prefix i = []"
| "forbidden_item_paths (v # vs) prefix i =
     forbidden_config_paths v (prefix @ ''['' @ nat_str i @ '']'') @
     forbidden_item_paths vs prefix (Suc i)"


subsection \<open>Issues of the graph\<close>

definition issue :: "string \<Rightarrow> string \<Rightarrow> string \<Rightarrow> issue" where
  "issue code message location =
     \<lparr>issue_code = code, issue_message = message, issue_location = location,
      issue_severity = SevError\<rparr>"

definition issue_if :: "bool \<Rightarrow> string \<Rightarrow> string \<Rightarrow> string \<Rightarrow> issue list" where
  "issue_if b code message location = (if b then [issue code message location] else [])"

definition indexed :: "string \<Rightarrow> nat \<Rightarrow> string \<Rightarrow> string" where
  "indexed base i field = base @ ''['' @ nat_str i @ ''].'' @ field"

fun duplicate_node_issues :: "nat \<Rightarrow> string list \<Rightarrow> wf_node list \<Rightarrow> issue list" where
  "duplicate_node_issues i seen [] = []"
| "duplicate_node_issues i seen (n # ns) =
     issue_if (node_id n \<in> set seen) ''duplicate_node_id''
       (''Node id '' @ [CHR 0x27] @ node_id n @ [CHR 0x27] @ '' is duplicated.'')
       (indexed ''nodes'' i ''id'') @
     duplicate_node_issues (Suc i) (node_id n # seen) ns"

text \<open>\<open>nodes_by_id\<close>: a later node with the same id replaces an earlier one.\<close>

definition known :: "wf_definition \<Rightarrow> string \<Rightarrow> bool" where
  "known d v \<longleftrightarrow> v \<in> set (map node_id (def_nodes d))"

definition node_by_id :: "wf_definition \<Rightarrow> string \<Rightarrow> wf_node option" where
  "node_by_id d v = tget node_id v (rev (def_nodes d))"

fun edge_issues :: "wf_definition \<Rightarrow> nat \<Rightarrow> string list \<Rightarrow> wf_edge list \<Rightarrow> issue list" where
  "edge_issues d i seen [] = []"
| "edge_issues d i seen (e # es) =
     issue_if (edge_id e \<in> set seen) ''duplicate_edge_id''
       (''Edge id '' @ [CHR 0x27] @ edge_id e @ [CHR 0x27] @ '' is duplicated.'')
       (indexed ''edges'' i ''id'') @
     issue_if (\<not> known d (edge_source e)) ''unknown_edge_source''
       (''Edge source '' @ [CHR 0x27] @ edge_source e @ [CHR 0x27] @ '' does not exist.'')
       (indexed ''edges'' i ''source'') @
     issue_if (\<not> known d (edge_target e)) ''unknown_edge_target''
       (''Edge target '' @ [CHR 0x27] @ edge_target e @ [CHR 0x27] @ '' does not exist.'')
       (indexed ''edges'' i ''target'') @
     edge_issues d (Suc i) (edge_id e # seen) es"

text \<open>The edges both of whose endpoints exist, and the ones at a node.\<close>

definition known_edges :: "wf_definition \<Rightarrow> wf_edge list" where
  "known_edges d = filter (\<lambda>e. known d (edge_source e) \<and> known d (edge_target e)) (def_edges d)"

definition outgoing :: "wf_definition \<Rightarrow> string \<Rightarrow> wf_edge list" where
  "outgoing d v = filter (\<lambda>e. edge_source e = v) (known_edges d)"

definition incoming :: "wf_definition \<Rightarrow> string \<Rightarrow> wf_edge list" where
  "incoming d v = filter (\<lambda>e. edge_target e = v) (known_edges d)"

definition edge_pairs :: "wf_edge list \<Rightarrow> edges" where
  "edge_pairs es = map (\<lambda>e. (edge_source e, edge_target e)) es"

definition entry_issues :: "wf_definition \<Rightarrow> issue list" where
  "entry_issues d =
     (case node_by_id d (entry_node_id d) of
        None \<Rightarrow> [issue ''entry_missing'' ''The entry node does not exist.'' ''entry_node_id'']
      | Some entry \<Rightarrow>
          if node_type entry \<noteq> INPUT then
            [issue ''entry_not_input'' ''The entry node must be an input node.'' ''entry_node_id'']
          else issue_if (incoming d (node_id entry) \<noteq> []) ''entry_has_incoming_edge''
            ''The input entry node cannot have incoming edges.'' (''nodes.'' @ node_id entry))"

definition output_nodes :: "wf_definition \<Rightarrow> wf_node list" where
  "output_nodes d = filter (\<lambda>n. node_type n = OUTPUT) (def_nodes d)"

subsection \<open>Issues of one node\<close>

definition cfg :: "wf_node \<Rightarrow> string \<Rightarrow> json option" where
  "cfg n k = map_of (node_config n) k"

definition positive_int :: "json option \<Rightarrow> bool" where
  "positive_int v = (case v of Some (JInt i) \<Rightarrow> 0 < i | _ \<Rightarrow> False)"

definition int_between :: "int \<Rightarrow> int \<Rightarrow> json option \<Rightarrow> bool" where
  "int_between lo hi v = (case v of Some (JInt i) \<Rightarrow> lo < i \<and> i \<le> hi | _ \<Rightarrow> False)"

definition unhashable :: "json option \<Rightarrow> bool" where
  "unhashable v = (case v of Some (JObj _) \<Rightarrow> True | Some (JArr _) \<Rightarrow> True | _ \<Rightarrow> False)"

definition member_text :: "json option \<Rightarrow> string list \<Rightarrow> bool" where
  "member_text v ss = (case v of Some (JStr s) \<Rightarrow> s \<in> set ss | _ \<Rightarrow> False)"

definition nonempty_text :: "json option \<Rightarrow> bool" where
  "nonempty_text v = (case v of Some (JStr s) \<Rightarrow> s \<noteq> [] | _ \<Rightarrow> False)"

definition branches :: "wf_edge list \<Rightarrow> string list" where
  "branches es = sort (map edge_branch es)"

definition one_default :: "wf_edge list \<Rightarrow> bool" where
  "one_default es = (case es of [e] \<Rightarrow> edge_branch e = ''default'' | _ \<Rightarrow> False)"

definition LOOP_LIMIT_KEYS :: "string list" where
  "LOOP_LIMIT_KEYS = [''max_iterations'', ''max_duration_seconds'', ''max_tokens'', ''max_cost_minor'']"

definition condition_issues :: "wf_node \<Rightarrow> wf_edge list \<Rightarrow> string \<Rightarrow> validator_error + issue list" where
  "condition_issues n outs loc =
     (if unhashable (cfg n ''operator'') then Inl UnhashableValue
      else Inr
       (issue_if (branches outs \<noteq> [''false'', ''true'']) ''condition_branches_invalid''
          ''Condition nodes require exactly one true and one false edge.'' loc @
        issue_if (\<not> member_text (cfg n ''operator'') [''eq'', ''ne'', ''gt'', ''gte'', ''lt'', ''lte''])
          ''condition_operator_invalid''
          ''Condition nodes require an eq, ne, gt, gte, lt, or lte operator.''
          (loc @ ''.config.operator'') @
        issue_if (\<not> nonempty_text (cfg n ''field'')) ''condition_field_missing''
          ''Condition nodes require a non-empty input field.'' (loc @ ''.config.field'') @
        issue_if (cfg n ''value'' = None) ''condition_value_missing''
          ''Condition nodes require a comparison value.'' (loc @ ''.config.value'')))"

definition loop_issues :: "wf_node \<Rightarrow> wf_edge list \<Rightarrow> string \<Rightarrow> issue list" where
  "loop_issues n outs loc =
     issue_if (branches outs \<noteq> [''continue'', ''exit'']) ''loop_branches_invalid''
       ''Bounded loops require exactly one continue and one exit edge.'' loc @
     concat (map (\<lambda>k. issue_if (\<not> positive_int (cfg n k)) ''loop_limit_missing''
       (''Bounded loops require a positive integer '' @ k @ '' limit.'') (loc @ ''.config.'' @ k))
       LOOP_LIMIT_KEYS)"

definition agent_issues :: "wf_node \<Rightarrow> wf_edge list \<Rightarrow> string \<Rightarrow> issue list" where
  "agent_issues n outs loc =
     issue_if (node_model_route_id n = None) ''agent_model_route_missing''
       ''Agent nodes require a catalog model_route_id.'' (loc @ ''.model_route_id'') @
     issue_if (node_policy_bundle_id n = None) ''agent_policy_missing''
       ''Agent nodes require an explicit fail-closed policy_bundle_id.'' (loc @ ''.policy_bundle_id'') @
     issue_if (\<not> valid_key (cfg n ''input_state_key'')) ''agent_input_state_key_invalid''
       ''Agent nodes require an input_state_key for encrypted run state.''
       (loc @ ''.config.input_state_key'') @
     issue_if (\<not> valid_key (cfg n ''result_state_key'')) ''agent_result_state_key_invalid''
       ''Agent nodes require a result_state_key for encrypted model output.''
       (loc @ ''.config.result_state_key'') @
     issue_if (\<not> int_between 0 32768 (cfg n ''max_output_tokens'')) ''agent_max_output_tokens_invalid''
       ''Agent nodes require max_output_tokens between 1 and 32768.''
       (loc @ ''.config.max_output_tokens'') @
     issue_if (\<not> one_default outs) ''agent_edge_invalid''
       ''Agent nodes require exactly one default outgoing edge.'' loc"

definition tool_issues :: "wf_node \<Rightarrow> wf_edge list \<Rightarrow> string \<Rightarrow> issue list" where
  "tool_issues n outs loc =
     issue_if (\<not> uuid_value (cfg n ''tool_id'')) ''tool_id_invalid''
       ''Tool nodes require a catalog tool_id UUID.'' (loc @ ''.config.tool_id'') @
     issue_if (\<not> valid_key (cfg n ''arguments_state_key'')) ''tool_arguments_state_key_invalid''
       ''Tool nodes require an arguments_state_key for encrypted run state.''
       (loc @ ''.config.arguments_state_key'') @
     issue_if (\<not> valid_key (cfg n ''result_state_key'')) ''tool_result_state_key_invalid''
       ''Tool nodes require a result_state_key for the safe result projection.''
       (loc @ ''.config.result_state_key'') @
     issue_if (\<not> one_default outs) ''tool_edge_invalid''
       ''Tool nodes require exactly one default outgoing edge.'' loc"

definition subworkflow_issues :: "wf_node \<Rightarrow> wf_edge list \<Rightarrow> string \<Rightarrow> issue list" where
  "subworkflow_issues n outs loc =
     issue_if (\<not> uuid_value (cfg n ''deployment_id'')) ''subworkflow_deployment_id_invalid''
       ''Subworkflow nodes require an immutable deployment_id UUID.'' (loc @ ''.config.deployment_id'') @
     issue_if (\<not> valid_key (cfg n ''result_state_key'')) ''subworkflow_result_state_key_invalid''
       ''Subworkflow nodes require a result_state_key for encrypted child state.''
       (loc @ ''.config.result_state_key'') @
     issue_if (\<not> one_default outs) ''subworkflow_edge_invalid''
       ''Subworkflow nodes require exactly one default outgoing edge.'' loc"

definition timer_issues :: "wf_node \<Rightarrow> wf_edge list \<Rightarrow> string \<Rightarrow> issue list" where
  "timer_issues n outs loc =
     issue_if (\<not> int_between 0 (node_timeout_seconds n) (cfg n ''delay_seconds'')) ''timer_delay_invalid''
       ''Timer delay_seconds must be positive and no greater than timeout_seconds.''
       (loc @ ''.config.delay_seconds'') @
     issue_if (\<not> one_default outs) ''timer_edge_invalid''
       ''Timer nodes require exactly one default outgoing edge.'' loc"

definition event_issues :: "wf_node \<Rightarrow> wf_edge list \<Rightarrow> string \<Rightarrow> issue list" where
  "event_issues n outs loc =
     issue_if (\<not> valid_key (cfg n ''event_key'')) ''event_key_invalid''
       ''Event nodes require a stable event_key identifier.'' (loc @ ''.config.event_key'') @
     issue_if (\<not> valid_key (cfg n ''state_key'')) ''event_state_key_invalid''
       ''Event nodes require a state_key for encrypted event data.'' (loc @ ''.config.state_key'') @
     issue_if (\<not> one_default outs) ''event_edge_invalid''
       ''Event nodes require exactly one default outgoing edge.'' loc"

definition approval_issues :: "wf_node \<Rightarrow> wf_edge list \<Rightarrow> string \<Rightarrow> validator_error + issue list" where
  "approval_issues n outs loc =
     (if unhashable (cfg n ''risk'') then Inl UnhashableValue
      else Inr
       (issue_if (branches outs \<noteq> [''approved'', ''denied'']) ''approval_branches_invalid''
          ''Approval nodes require exactly one approved and one denied edge.'' loc @
        issue_if (\<not> member_text (cfg n ''risk'') [''low'', ''medium'', ''high'', ''critical''])
          ''approval_risk_invalid''
          ''Approval nodes require a low, medium, high, or critical risk.'' (loc @ ''.config.risk'') @
        issue_if (\<not> valid_key (cfg n ''reason_code'')) ''approval_reason_code_invalid''
          ''Approval nodes require a stable reason_code identifier.'' (loc @ ''.config.reason_code'')))"

definition information_issues :: "wf_node \<Rightarrow> wf_edge list \<Rightarrow> string \<Rightarrow> issue list" where
  "information_issues n outs loc =
     issue_if (\<not> valid_key (cfg n ''state_key'')) ''information_state_key_invalid''
       ''Request-information nodes require a state_key for the encrypted response.''
       (loc @ ''.config.state_key'') @
     issue_if (\<not> valid_key (cfg n ''reason_code'')) ''information_reason_code_invalid''
       ''Request-information nodes require a stable reason_code identifier.''
       (loc @ ''.config.reason_code'') @
     issue_if (\<not> one_default outs) ''information_edge_invalid''
       ''Request-information nodes require exactly one default outgoing edge.'' loc"

definition type_issues ::
  "wf_node \<Rightarrow> wf_edge list \<Rightarrow> wf_edge list \<Rightarrow> string \<Rightarrow> validator_error + issue list" where
  "type_issues n outs ins loc =
     (case node_type n of
        OUTPUT \<Rightarrow> Inr (issue_if (outs \<noteq> []) ''output_has_outgoing_edge''
          ''Output nodes cannot have outgoing edges.'' loc)
      | CONDITION \<Rightarrow> condition_issues n outs loc
      | PARALLEL \<Rightarrow> Inr (issue_if (length outs < 2 \<or> list_ex (\<lambda>e. edge_branch e \<noteq> ''default'') outs)
          ''parallel_fanout_invalid'' ''Parallel nodes require at least two default outgoing edges.'' loc)
      | JOIN \<Rightarrow> Inr (issue_if (length ins < 2 \<or> length outs \<noteq> 1) ''deterministic_join_invalid''
          ''Join nodes require at least two incoming edges and exactly one outgoing edge.'' loc)
      | BOUNDED_LOOP \<Rightarrow> Inr (loop_issues n outs loc)
      | AGENT \<Rightarrow> Inr (agent_issues n outs loc)
      | TOOL \<Rightarrow> Inr (tool_issues n outs loc)
      | SUBWORKFLOW \<Rightarrow> Inr (subworkflow_issues n outs loc)
      | TIMER \<Rightarrow> Inr (timer_issues n outs loc)
      | EVENT \<Rightarrow> Inr (event_issues n outs loc)
      | APPROVAL \<Rightarrow> approval_issues n outs loc
      | REQUEST_INFORMATION \<Rightarrow> Inr (information_issues n outs loc)
      | _ \<Rightarrow> Inr (issue_if (length outs \<noteq> 1) ''node_outgoing_edge_invalid''
          ''This node type requires exactly one outgoing edge.'' loc))"

definition node_issues :: "bool \<Rightarrow> wf_definition \<Rightarrow> wf_node \<Rightarrow> validator_error + issue list" where
  "node_issues for_deployment d n =
     (let loc = ''nodes.'' @ node_id n in
      case type_issues n (outgoing d (node_id n)) (incoming d (node_id n)) loc of
        Inl e \<Rightarrow> Inl e
      | Inr typed \<Rightarrow> Inr
         (map (\<lambda>path. issue ''sensitive_inline_config_forbidden''
            ''Sensitive workflow content must use an external reference, not inline config.''
            (loc @ ''.'' @ path)) (forbidden_config_paths (JObj (node_config n)) ''config'') @
          (if node_type n \<in> set EXECUTABLE_NODE_TYPES then []
           else [(issue ''node_type_not_executable''
             (''Node type '' @ [CHR 0x27] @ node_type_value (node_type n) @ [CHR 0x27] @
              '' is modeled but is not executable in the current Workflow Engine v2 slice.'') loc)
             \<lparr>issue_severity := if for_deployment then SevError else SevWarning\<rparr>]) @
          typed))"

fun all_node_issues :: "bool \<Rightarrow> wf_definition \<Rightarrow> wf_node list \<Rightarrow> validator_error + issue list" where
  "all_node_issues dep d [] = Inr []"
| "all_node_issues dep d (n # ns) =
     (case node_issues dep d n of
        Inl e \<Rightarrow> Inl e
      | Inr is \<Rightarrow> map_sum id (append is) (all_node_issues dep d ns))"

subsection \<open>Reachability, cycles and unsupported mixes\<close>

definition reachable_ids :: "wf_definition \<Rightarrow> string set" where
  "reachable_ids d = reach_loop (edge_pairs (known_edges d)) [entry_node_id d] {}"

definition reachability_issues :: "wf_definition \<Rightarrow> issue list" where
  "reachability_issues d =
     (if node_by_id d (entry_node_id d) = None then []
      else map (\<lambda>v. issue ''node_unreachable''
             (''Node '' @ [CHR 0x27] @ v @ [CHR 0x27] @ '' is not reachable from the entry node.'')
             (''nodes.'' @ v))
             (sort (filter (\<lambda>v. v \<notin> reachable_ids d) (remdups (map node_id (def_nodes d))))) @
           issue_if (output_nodes d \<noteq> [] \<and> \<not> list_ex (\<lambda>n. node_id n \<in> reachable_ids d) (output_nodes d))
             ''output_unreachable'' ''No output node is reachable from the entry node.'' ''nodes'')"

definition non_loop_nodes :: "wf_definition \<Rightarrow> string list" where
  "non_loop_nodes d = map node_id (filter (\<lambda>n. node_type n \<noteq> BOUNDED_LOOP) (def_nodes d))"

definition cycle_issues :: "wf_definition \<Rightarrow> issue list" where
  "cycle_issues d =
     issue_if (has_cycle_without_loop (non_loop_nodes d) (edge_pairs (def_edges d)) = Some True)
       ''unbounded_cycle'' ''Every graph cycle must pass through a bounded-loop node.'' ''edges''"

definition has_type :: "wf_definition \<Rightarrow> node_type list \<Rightarrow> bool" where
  "has_type d ts = list_ex (\<lambda>n. node_type n \<in> set ts) (def_nodes d)"

definition mix_issues :: "wf_definition \<Rightarrow> issue list" where
  "mix_issues d =
     issue_if (has_type d [PARALLEL] \<and> has_type d WAIT_NODE_TYPES) ''parallel_wait_not_supported''
       ''Phase 2 wait nodes cannot be combined with parallel fan-out in one definition.'' ''nodes'' @
     issue_if (has_type d [PARALLEL] \<and> has_type d [SUBWORKFLOW]) ''parallel_subworkflow_not_supported''
       ''Durable subworkflow nodes cannot yet be combined with parallel fan-out.'' ''nodes'' @
     issue_if (has_type d [PARALLEL] \<and> has_type d [TOOL]) ''parallel_tool_not_supported''
       ''Durable effectful tool nodes cannot yet be combined with parallel fan-out.'' ''nodes'' @
     issue_if (has_type d [PARALLEL] \<and> has_type d [AGENT]) ''parallel_agent_not_supported''
       ''Durable agent model calls cannot yet be combined with parallel fan-out.'' ''nodes'' @
     issue_if (has_type d [TOOL] \<and> has_type d [AGENT]) ''agent_tool_mixed_not_supported''
       ''Agent model calls and effectful tool nodes cannot yet share one definition.'' ''nodes''"

definition is_error :: "issue \<Rightarrow> bool" where
  "is_error i \<longleftrightarrow> issue_severity i = SevError"

definition validate_workflow_definition ::
  "(string \<Rightarrow> string) \<Rightarrow> wf_definition \<Rightarrow> bool \<Rightarrow> validator_error + validation_result" where
  "validate_workflow_definition sha256_hex d for_deployment =
     (case all_node_issues for_deployment d (def_nodes d) of
        Inl e \<Rightarrow> Inl e
      | Inr per_node \<Rightarrow>
          let issues =
                duplicate_node_issues 0 [] (def_nodes d) @
                edge_issues d 0 [] (def_edges d) @
                entry_issues d @
                issue_if (output_nodes d = []) ''output_missing''
                  ''At least one output node is required.'' ''nodes'' @
                per_node @
                reachability_issues d @
                cycle_issues d @
                mix_issues d;
              has_errors = list_ex is_error issues;
              has_unsupported = list_ex (\<lambda>i. issue_code i = ''node_type_not_executable'') issues
          in Inr \<lparr>result_valid = \<not> has_errors,
                  result_executable = (\<not> has_errors \<and> \<not> has_unsupported),
                  result_definition_digest = json_digest sha256_hex (definition_json d),
                  result_issues = issues\<rparr>)"


subsection \<open>What the absence of errors means\<close>

definition no_errors :: "issue list \<Rightarrow> bool" where
  "no_errors is \<longleftrightarrow> \<not> list_ex is_error is"

lemma no_errors_simps [simp]:
  "no_errors []"
  "no_errors (xs @ ys) \<longleftrightarrow> no_errors xs \<and> no_errors ys"
  "no_errors (issue c m l # xs) \<longleftrightarrow> False"
  "no_errors (issue_if b c m l) \<longleftrightarrow> \<not> b"
  by (auto simp: no_errors_def is_error_def issue_def issue_if_def)

lemma no_errors_map_issue [simp]: "no_errors (map (\<lambda>x. issue (c x) (m x) (l x)) xs) \<longleftrightarrow> xs = []"
  by (cases xs) auto

lemma no_errors_concat: "no_errors (concat iss) \<longleftrightarrow> (\<forall>is \<in> set iss. no_errors is)"
  by (induction iss) auto

lemma duplicate_node_issues_none:
  "no_errors (duplicate_node_issues i seen ns) \<Longrightarrow>
     distinct (map node_id ns) \<and> set (map node_id ns) \<inter> set seen = {}"
proof (induction ns arbitrary: i seen)
  case (Cons n ns)
  then show ?case using Cons.IH [of "Suc i" "node_id n # seen"] by auto
qed simp

lemma edge_issues_none:
  "no_errors (edge_issues d i seen es) \<Longrightarrow>
     distinct (map edge_id es) \<and> set (map edge_id es) \<inter> set seen = {} \<and>
     (\<forall>e \<in> set es. known d (edge_source e) \<and> known d (edge_target e))"
proof (induction es arbitrary: i seen)
  case (Cons e es)
  then show ?case using Cons.IH [of "Suc i" "edge_id e # seen"] by auto
qed simp

lemma sort_Nil_iff: "sort_key f xs = [] \<longleftrightarrow> xs = []"
  by (metis length_0_conv length_sort)

lemma node_by_id_SomeD: "node_by_id d v = Some n \<Longrightarrow> n \<in> set (def_nodes d) \<and> node_id n = v"
  by (auto simp: node_by_id_def dest: tget_SomeD)

lemma entry_issues_none:
  "no_errors (entry_issues d) \<Longrightarrow>
     \<exists>entry \<in> set (def_nodes d). node_id entry = entry_node_id d \<and> node_type entry = INPUT \<and>
       node_by_id d (entry_node_id d) = Some entry \<and> incoming d (entry_node_id d) = []"
  by (auto simp: entry_issues_def dest: node_by_id_SomeD split: option.splits if_splits)

lemma all_node_issues_none:
  "all_node_issues dep d ns = Inr is \<Longrightarrow> no_errors is \<Longrightarrow> n \<in> set ns \<Longrightarrow>
     \<exists>js. node_issues dep d n = Inr js \<and> no_errors js"
proof (induction ns arbitrary: "is")
  case (Cons m ns)
  then show ?case
    by (cases "node_issues dep d m"; cases "all_node_issues dep d ns") auto
qed simp

text \<open>The parts of a result without errors.\<close>

lemma validate_parts:
  assumes "validate_workflow_definition H d dep = Inr r" and "result_valid r"
  obtains per_node where "all_node_issues dep d (def_nodes d) = Inr per_node"
    and "no_errors (duplicate_node_issues 0 [] (def_nodes d))"
    and "no_errors (edge_issues d 0 [] (def_edges d))" and "no_errors (entry_issues d)"
    and "output_nodes d \<noteq> []" and "no_errors per_node" and "no_errors (reachability_issues d)"
    and "no_errors (cycle_issues d)" and "no_errors (mix_issues d)"
  using assms
  by (auto simp: validate_workflow_definition_def Let_def no_errors_def [symmetric]
      split: sum.splits)

lemma valid_known_edges:
  assumes "validate_workflow_definition H d dep = Inr r" and "result_valid r"
  shows "known_edges d = def_edges d"
  using assms
  by (elim validate_parts) (auto simp: known_edges_def dest!: edge_issues_none intro!: filter_True)

subsection \<open>Properties\<close>

text \<open>
  C29. Soundness of validation for the graph: a definition the validator calls valid has
  distinct node and edge ids, edges between existing nodes only, an input entry without
  predecessors, an output, every node reachable from the entry along the edges, and no
  cycle that avoids the bounded-loop nodes.
\<close>

theorem valid_definition_graph:
  assumes "validate_workflow_definition H d dep = Inr r" and "result_valid r"
  shows "distinct (map node_id (def_nodes d)) \<and> distinct (map edge_id (def_edges d)) \<and>
    (\<forall>e \<in> set (def_edges d). known d (edge_source e) \<and> known d (edge_target e)) \<and>
    (\<exists>n \<in> set (def_nodes d). node_id n = entry_node_id d \<and> node_type n = INPUT \<and>
       (\<forall>e \<in> set (def_edges d). edge_target e \<noteq> entry_node_id d)) \<and>
    (\<exists>n \<in> set (def_nodes d). node_type n = OUTPUT) \<and>
    (\<forall>n \<in> set (def_nodes d). (entry_node_id d, node_id n) \<in> (set (edge_pairs (def_edges d)))\<^sup>*) \<and>
    (\<nexists>v. (v, v) \<in> {(s, t). (s, t) \<in> set (edge_pairs (def_edges d)) \<and>
       s \<in> set (non_loop_nodes d) \<and> t \<in> set (non_loop_nodes d)}\<^sup>+)"
proof -
  have known: "known_edges d = def_edges d" using assms by (rule valid_known_edges)
  from assms have ids: "distinct (map node_id (def_nodes d))"
    by (elim validate_parts) (auto dest!: duplicate_node_issues_none)
  from assms have edges: "distinct (map edge_id (def_edges d)) \<and>
      (\<forall>e \<in> set (def_edges d). known d (edge_source e) \<and> known d (edge_target e))"
    by (elim validate_parts) (auto dest!: edge_issues_none)
  from assms have entry: "\<exists>n \<in> set (def_nodes d). node_id n = entry_node_id d \<and> node_type n = INPUT \<and>
      (\<forall>e \<in> set (def_edges d). edge_target e \<noteq> entry_node_id d)"
    by (elim validate_parts)
       (auto dest!: entry_issues_none simp: incoming_def known filter_empty_conv)
  from assms have out: "\<exists>n \<in> set (def_nodes d). node_type n = OUTPUT"
    by (elim validate_parts) (auto simp: output_nodes_def filter_empty_conv)
  from assms have "\<forall>n \<in> set (def_nodes d). node_id n \<in> reachable_ids d"
    by (elim validate_parts)
       (auto dest!: entry_issues_none simp: reachability_issues_def sort_Nil_iff filter_empty_conv)
  then have reach: "\<forall>n \<in> set (def_nodes d).
      (entry_node_id d, node_id n) \<in> (set (edge_pairs (def_edges d)))\<^sup>*"
    by (simp add: reachable_ids_def reach_loop_entry known)
  from assms have "no_errors (cycle_issues d)" by (elim validate_parts)
  then have "\<nexists>v. (v, v) \<in> {(s, t). (s, t) \<in> set (edge_pairs (def_edges d)) \<and>
      s \<in> set (non_loop_nodes d) \<and> t \<in> set (non_loop_nodes d)}\<^sup>+"
    unfolding cycle_issues_def cycle_check_exact by simp
  with ids edges entry out reach show ?thesis by blast
qed

text \<open>A two-node definition, an input followed by an output, on which properties are exercised.\<close>

definition sample_node :: "string \<Rightarrow> node_type \<Rightarrow> wf_node" where
  "sample_node v t = \<lparr>node_id = v, node_type = t, node_name = v, node_config = [],
     node_model_route_id = None, node_policy_bundle_id = None, node_timeout_seconds = 300,
     node_retry_limit = 0, node_position = None\<rparr>"

definition sample_edge :: "string \<Rightarrow> string \<Rightarrow> string \<Rightarrow> string \<Rightarrow> wf_edge" where
  "sample_edge i s t b = \<lparr>edge_id = i, edge_source = s, edge_target = t, edge_branch = b\<rparr>"

definition sample_definition :: wf_definition where
  "sample_definition = \<lparr>schema_version = 1, entry_node_id = ''a'',
     def_nodes = [sample_node ''a'' INPUT, sample_node ''b'' OUTPUT],
     def_edges = [sample_edge ''e'' ''a'' ''b'' ''default''],
     def_limits = \<lparr>max_steps = 10, max_duration_seconds = 60, max_tokens = 1, max_cost_minor = 1\<rparr>\<rparr>"

lemma sample_definition_valid:
  "case validate_workflow_definition (\<lambda>s. s) sample_definition True of
     Inr r \<Rightarrow> result_valid r \<and> result_executable r | Inl _ \<Rightarrow> False"
  by code_simp

theorem valid_definition_graph_witness:
  "(''a'', ''b'') \<in> (set (edge_pairs (def_edges sample_definition)))\<^sup>*"
proof -
  obtain r where r: "validate_workflow_definition (\<lambda>s. s) sample_definition True = Inr r"
    and "result_valid r"
    using sample_definition_valid by (auto split: sum.splits)
  from valid_definition_graph [OF this]
  have "\<forall>n \<in> set (def_nodes sample_definition). (entry_node_id sample_definition, node_id n)
      \<in> (set (edge_pairs (def_edges sample_definition)))\<^sup>*" by blast
  then show ?thesis by (simp add: sample_definition_def sample_node_def)
qed

end
