(* ===== verification/RS_Contracts.thy ===== *)
theory RS_Contracts
  imports RS_Canonical
begin

section \<open>Shared contracts: errors, policy types, requests, sealed payloads\<close>

text \<open>
  Models \<open>errors.py\<close>, \<open>models.py\<close>, \<open>protocols.py\<close> and \<open>crypto.py\<close> of
  \<open>packages/contracts/runsigil_contracts\<close>, and the record of everything the services
  take from outside the repository: the hash, AES-GCM, Ed25519 and base64 primitives, the
  JSON reader, pydantic's reading of a policy document, and the configured settings.
\<close>

subsection \<open>Errors\<close>

datatype error_code =
    AUTH_REQUIRED | AUTH_INVALID | SCOPE_DENIED | NOT_FOUND | POLICY_UNAVAILABLE | POLICY_DENIED
  | BUDGET_EXHAUSTED | APPROVAL_DIGEST_MISMATCH | APPROVAL_EXPIRED | APPROVAL_REPLAYED
  | INVALID_TRANSITION | ACTION_NOT_AUTHORIZED | ACTION_AMBIGUOUS | EVIDENCE_INVALID
  | INTERNAL_DEPENDENCY_UNAVAILABLE | VALIDATION_FAILED

text \<open>
  An exception is a \<open>RunSigilError\<close> with its code, message, HTTP status and details, or
  one of Python's own that a handler lets escape.
\<close>

datatype rs_error =
    RunSigilError error_code string nat json
  | PyRuntimeError string
  | PyValueError string
  | PyTypeError string
  | PyKeyError string
  | PyIndexError
  | PyStopIteration
  | PyInvalidTag
  | PyIntegrityError

abbreviation rs_err :: "error_code \<Rightarrow> string \<Rightarrow> nat \<Rightarrow> rs_error" where
  "rs_err code message status \<equiv> RunSigilError code message status (JObj [])"

fun error_status :: "rs_error \<Rightarrow> nat" where
  "error_status (RunSigilError _ _ status _) = status"
| "error_status _ = 500"

subsection \<open>Policy types\<close>

datatype decision_effect =
    ALLOW | DENY | REQUIRE_APPROVAL | REQUIRE_INFORMATION | TRANSFORM | REDACT | RATE_LIMIT
  | QUARANTINE

fun effect_value :: "decision_effect \<Rightarrow> string" where
  "effect_value ALLOW = ''allow''"
| "effect_value DENY = ''deny''"
| "effect_value REQUIRE_APPROVAL = ''require_approval''"
| "effect_value REQUIRE_INFORMATION = ''require_information''"
| "effect_value TRANSFORM = ''transform''"
| "effect_value REDACT = ''redact''"
| "effect_value RATE_LIMIT = ''rate_limit''"
| "effect_value QUARANTINE = ''quarantine''"

record policy_context =
  ctx_action_type :: string
  ctx_resource :: string
  ctx_environment :: string
  ctx_risk :: string
  ctx_data_classification :: string
  ctx_actor_type :: string
  ctx_amount_minor :: int
  ctx_occurred_at :: timestamp

record policy_decision =
  dec_effect :: decision_effect
  dec_reason_code :: string
  dec_reason :: string
  dec_policy_digest :: digest
  dec_expires_at :: timestamp

record policy_rule =
  rule_id :: string
  rule_action_type :: string
  rule_environments :: "string list"
  rule_risks :: "string list"
  rule_maximum_amount_minor :: "int option"
  rule_effect :: decision_effect
  rule_reason :: string

record policy_bundle_document =
  bundle_schema_version :: int
  bundle_enabled :: bool
  bundle_valid_until :: "timestamp option"
  bundle_default_effect :: decision_effect
  bundle_rules :: "policy_rule list"

text \<open>pydantic renders a UTC timestamp like \<open>isoformat\<close>, with \<open>Z\<close> for the offset.\<close>

definition iso_z :: "timestamp \<Rightarrow> string" where
  "iso_z t = (let s = isoformat t in take (length s - 6) s @ ''Z'')"

definition rule_json :: "policy_rule \<Rightarrow> json" where
  "rule_json r = JObj
     [(''id'', JStr (rule_id r)), (''action_type'', JStr (rule_action_type r)),
      (''environments'', JArr (map JStr (rule_environments r))),
      (''risks'', JArr (map JStr (rule_risks r))),
      (''maximum_amount_minor'', jopt JInt (rule_maximum_amount_minor r)),
      (''effect'', JStr (effect_value (rule_effect r))), (''reason'', JStr (rule_reason r))]"

definition bundle_json :: "policy_bundle_document \<Rightarrow> json" where
  "bundle_json b = JObj
     [(''schema_version'', JInt (bundle_schema_version b)), (''enabled'', JBool (bundle_enabled b)),
      (''valid_until'', jopt (JStr \<circ> iso_z) (bundle_valid_until b)),
      (''default_effect'', JStr (effect_value (bundle_default_effect b))),
      (''rules'', JArr (map rule_json (bundle_rules b)))]"

definition context_json :: "policy_context \<Rightarrow> json" where
  "context_json c = JObj
     [(''action_type'', JStr (ctx_action_type c)), (''resource'', JStr (ctx_resource c)),
      (''environment'', JStr (ctx_environment c)), (''risk'', JStr (ctx_risk c)),
      (''data_classification'', JStr (ctx_data_classification c)),
      (''actor_type'', JStr (ctx_actor_type c)), (''amount_minor'', JInt (ctx_amount_minor c)),
      (''occurred_at'', JStr (iso_z (ctx_occurred_at c)))]"

subsection \<open>Requests and results\<close>

record governed_action_input =
  req_project_id :: uuid
  req_environment_id :: uuid
  req_agent_id :: uuid
  req_recipient :: string
  req_amount_cents :: int
  req_description :: string
  req_idempotency_key :: string
  req_simulate_outcome :: string

datatype outcome = Committed | Failed | Ambiguous

fun outcome_value :: "outcome \<Rightarrow> string" where
  "outcome_value Committed = ''committed''"
| "outcome_value Failed = ''failed''"
| "outcome_value Ambiguous = ''ambiguous''"

record action_execution_result =
  res_outcome :: outcome
  res_receipt_preview :: json
  res_provider_reference :: "string option"
  res_error_code :: "string option"

definition plain_result :: "outcome \<Rightarrow> string \<Rightarrow> action_execution_result" where
  "plain_result out code = \<lparr>res_outcome = out, res_receipt_preview = JObj [],
     res_provider_reference = None, res_error_code = Some code\<rparr>"

subsection \<open>The environment of the services\<close>

record env =
  sha256_hex :: "string \<Rightarrow> string"
  aes_encrypt :: "string \<Rightarrow> string \<Rightarrow> string \<Rightarrow> string \<Rightarrow> string"
  aes_decrypt :: "string \<Rightarrow> string \<Rightarrow> string \<Rightarrow> string \<Rightarrow> string option"
  b64_encode :: "string \<Rightarrow> string"
  b64_decode :: "string \<Rightarrow> string option"
  b64url_encode :: "string \<Rightarrow> string"
  b64url_decode :: "string \<Rightarrow> string option"
  json_loads :: "string \<Rightarrow> json option"
  parse_bundle :: "json \<Rightarrow> policy_bundle_document option"
  ed_public :: "string \<Rightarrow> string"
  ed_sign :: "string \<Rightarrow> string \<Rightarrow> string"
  ed_verify :: "string \<Rightarrow> string \<Rightarrow> string \<Rightarrow> bool"
  current_span :: "(nat \<times> nat) option"
  monotonic_text :: string
  encryption_key_b64 :: string
  evidence_key_b64 :: string
  evidence_key_id :: string
  approval_ttl_seconds :: int
  action_lease_seconds :: int
  max_reconciliation_attempts :: int
  max_dlq_redrives :: int
  reconciliation_delay_seconds :: int
  demo_provider_audience :: string
  worker_name :: string

text \<open>The bounds the settings classes put on these values.\<close>

definition settings_ok :: "env \<Rightarrow> bool" where
  "settings_ok v \<longleftrightarrow>
     30 \<le> approval_ttl_seconds v \<and> approval_ttl_seconds v \<le> 86400 \<and>
     5 \<le> action_lease_seconds v \<and> action_lease_seconds v \<le> 3600 \<and>
     1 \<le> max_reconciliation_attempts v \<and> max_reconciliation_attempts v \<le> 100 \<and>
     0 \<le> max_dlq_redrives v \<and> max_dlq_redrives v \<le> 20 \<and>
     1 \<le> reconciliation_delay_seconds v \<and> reconciliation_delay_seconds v \<le> 3600"

definition digest_of :: "env \<Rightarrow> json \<Rightarrow> digest" where
  "digest_of v j = json_digest (sha256_hex v) j"

subsection \<open>Sealed payloads\<close>

definition decode_aes256_key :: "env \<Rightarrow> string \<Rightarrow> rs_error + string" where
  "decode_aes256_key v s =
     (case b64_decode v s of
        None \<Rightarrow> Inl (PyValueError ''action encryption key must be valid base64'')
      | Some key \<Rightarrow>
          if length key \<noteq> 32
          then Inl (PyValueError ''action encryption key must contain exactly 32 bytes'')
          else Inr key)"

definition seal_json :: "env \<Rightarrow> string \<Rightarrow> json \<Rightarrow> string \<Rightarrow> json \<Rightarrow> string" where
  "seal_json v nonce j key aad =
     ''rsenc1:'' @ b64url_encode v (nonce @ aes_encrypt v key nonce (json_bytes j) (json_bytes aad))"

definition open_json :: "env \<Rightarrow> string \<Rightarrow> string \<Rightarrow> json \<Rightarrow> rs_error + json" where
  "open_json v s key aad =
     (if take 7 s \<noteq> ''rsenc1:'' then Inl (PyValueError ''unsupported encrypted payload format'')
      else case b64url_decode v (drop 7 s) of
             None \<Rightarrow> Inl (PyValueError ''base64'')
           | Some raw \<Rightarrow>
               if length raw < 29 then Inl (PyValueError ''encrypted payload is truncated'')
               else case aes_decrypt v key (take 12 raw) (drop 12 raw) (json_bytes aad) of
                      None \<Rightarrow> Inl PyInvalidTag
                    | Some plaintext \<Rightarrow>
                        (case json_loads v plaintext of
                           None \<Rightarrow> Inl (PyValueError ''json'')
                         | Some j \<Rightarrow> Inr j))"

lemma json_bytes_nonempty: "wf_json j \<Longrightarrow> 1 \<le> length (json_bytes j)"
  using dumps_lead [OF wf_sort_keys] by (cases "json_bytes j") (auto simp: json_bytes_def)

lemma digest_of_sort_keys [simp]: "digest_of v (sort_keys j) = digest_of v j"
  by (simp add: digest_of_def json_digest_def json_bytes_def)

lemma open_seal:
  assumes "aes_decrypt v key nonce (aes_encrypt v key nonce (json_bytes j) (json_bytes aad)) (json_bytes aad) = Some (json_bytes j)"
    and "length (aes_encrypt v key nonce (json_bytes j) (json_bytes aad)) = length (json_bytes j) + 16"
    and "\<And>s. b64url_decode v (b64url_encode v s) = Some s"
    and "json_loads v (json_bytes j) = Some (sort_keys j)"
    and "length nonce = 12" and "wf_json j"
  shows "open_json v (seal_json v nonce j key aad) key aad = Inr (sort_keys j)"
  using json_bytes_nonempty [of j] assms
  by (auto simp: open_json_def seal_json_def)

subsection \<open>Properties\<close>

text \<open>
  C40. Round trip of sealed payloads: where decryption inverts encryption under the same
  key, nonce and associated data (which adds a 16-byte tag), base64 decodes what it
  encoded, and the JSON reader reads back what the canonical writer wrote, opening a
  sealed value with the same key and associated data returns that value with its members
  in canonical order.
\<close>

theorem open_seal_roundtrip:
  assumes aes_inverse: "aes_decrypt v key nonce (aes_encrypt v key nonce (json_bytes j) (json_bytes aad))
      (json_bytes aad) = Some (json_bytes j)"
    and aes_tag: "length (aes_encrypt v key nonce (json_bytes j) (json_bytes aad)) = length (json_bytes j) + 16"
    and b64_inverse: "\<And>s. b64url_decode v (b64url_encode v s) = Some s"
    and loads_inverse: "json_loads v (json_bytes j) = Some (sort_keys j)"
    and "length nonce = 12" and "wf_json j"
  shows "open_json v (seal_json v nonce j key aad) key aad = Inr (sort_keys j)"
  using assms by (rule open_seal)

subsection \<open>A concrete environment\<close>

text \<open>
  An environment on which the hypotheses about the primitives hold: the hash and base64 are
  the identity, the cipher appends a 16-byte tag made of its key, signatures are the signed
  text under the key. Witnesses evaluate the services in it.
\<close>

definition sample_bundle :: policy_bundle_document where
  "sample_bundle = \<lparr>bundle_schema_version = 1, bundle_enabled = True, bundle_valid_until = None,
     bundle_default_effect = DENY,
     bundle_rules =
       [\<lparr>rule_id = ''small'', rule_action_type = ''demo.invoice.send'',
         rule_environments = [''production''], rule_risks = [''high''],
         rule_maximum_amount_minor = Some 100, rule_effect = ALLOW, rule_reason = ''small''\<rparr>,
        \<lparr>rule_id = ''review'', rule_action_type = ''demo.invoice.send'',
         rule_environments = [''production''], rule_risks = [''high''],
         rule_maximum_amount_minor = None, rule_effect = REQUIRE_APPROVAL, rule_reason = ''review''\<rparr>]\<rparr>"

definition sample_key :: string where
  "sample_key = replicate 32 CHR ''k''"

definition sample_env :: env where
  "sample_env = \<lparr>sha256_hex = (\<lambda>s. s),
     aes_encrypt = (\<lambda>key nonce p aad. p @ take 16 key),
     aes_decrypt = (\<lambda>key nonce c aad. Some (take (length c - 16) c)),
     b64_encode = (\<lambda>s. s), b64_decode = Some, b64url_encode = (\<lambda>s. s), b64url_decode = Some,
     json_loads = (\<lambda>s. if s = ''{}'' then Some (JObj []) else Some (JStr s)),
     parse_bundle = (\<lambda>j. if j = bundle_json sample_bundle then Some sample_bundle else None),
     ed_public = (\<lambda>k. k), ed_sign = (\<lambda>k m. k @ m), ed_verify = (\<lambda>p m sg. sg = p @ m),
     current_span = None, monotonic_text = ''1'',
     encryption_key_b64 = sample_key, evidence_key_b64 = sample_key, evidence_key_id = ''key'',
     approval_ttl_seconds = 900, action_lease_seconds = 60, max_reconciliation_attempts = 3,
     max_dlq_redrives = 2, reconciliation_delay_seconds = 10, demo_provider_audience = ''aud'',
     worker_name = ''worker''\<rparr>"

theorem open_seal_roundtrip_witness:
  "open_json sample_env (seal_json sample_env ''abcdefghijkl'' (JObj []) sample_key (JObj [])) sample_key (JObj []) =
     Inr (sort_keys (JObj []))"
  by (rule open_seal_roundtrip) (simp_all add: sample_env_def sample_key_def json_bytes_def)

end
