(* ===== verification/RS_Store.thy ===== *)
theory RS_Store
  imports RS_Contracts
begin

section \<open>The database as a session sees it\<close>

text \<open>
  Models the ORM tables of \<open>apps/control-api/runsigil_control_api/models\<close> that the
  governed-action services read and write, and the session through which they do: the
  transaction's timestamp, the row-level-security context installed by \<open>auth.py\<close>
  (\<open>tenant = None\<close> is the worker's and the gateway's role, whose policy is
  \<open>USING (true)\<close>), the \<open>autoflush\<close> flag of the session factory and the trace rows added
  but not yet flushed. \<open>uuid4()\<close> draws from a counter, so ids are fresh.
  A service that raises leaves no trace: its session is rolled back, and here it returns no
  new state.
\<close>

subsection \<open>States\<close>

datatype run_status =
    RunAuthorizing | RunWaitingForApproval | RunQueued | RunRunning | RunWaiting | RunCompleted
  | RunFailed | RunCancelled | RunReconciliationRequired | RunDeadLettered

datatype action_state =
    Proposed | Approved | Rejected | Executing | ActCommitted | ActFailed
  | ReconciliationRequired | Reconciling | DeadLettered

fun action_state_value :: "action_state \<Rightarrow> string" where
  "action_state_value Proposed = ''proposed''"
| "action_state_value Approved = ''approved''"
| "action_state_value Rejected = ''rejected''"
| "action_state_value Executing = ''executing''"
| "action_state_value ActCommitted = ''committed''"
| "action_state_value ActFailed = ''failed''"
| "action_state_value ReconciliationRequired = ''reconciliation_required''"
| "action_state_value Reconciling = ''reconciling''"
| "action_state_value DeadLettered = ''dead_lettered''"

fun run_status_value :: "run_status \<Rightarrow> string" where
  "run_status_value RunAuthorizing = ''authorizing''"
| "run_status_value RunWaitingForApproval = ''waiting_for_approval''"
| "run_status_value RunQueued = ''queued''"
| "run_status_value RunRunning = ''running''"
| "run_status_value RunWaiting = ''waiting''"
| "run_status_value RunCompleted = ''completed''"
| "run_status_value RunFailed = ''failed''"
| "run_status_value RunCancelled = ''cancelled''"
| "run_status_value RunReconciliationRequired = ''reconciliation_required''"
| "run_status_value RunDeadLettered = ''dead_lettered''"

datatype approval_status = ApPending | ApApproved | ApDenied | ApExpired

fun approval_status_value :: "approval_status \<Rightarrow> string" where
  "approval_status_value ApPending = ''pending''"
| "approval_status_value ApApproved = ''approved''"
| "approval_status_value ApDenied = ''denied''"
| "approval_status_value ApExpired = ''expired''"

datatype reservation_status = ResActive | ResReleased | ResCommitted

fun reservation_status_value :: "reservation_status \<Rightarrow> string" where
  "reservation_status_value ResActive = ''active''"
| "reservation_status_value ResReleased = ''released''"
| "reservation_status_value ResCommitted = ''committed''"

datatype dead_letter_status = DlOpen | DlRedriven | DlResolved

fun dead_letter_status_value :: "dead_letter_status \<Rightarrow> string" where
  "dead_letter_status_value DlOpen = ''open''"
| "dead_letter_status_value DlRedriven = ''redriven''"
| "dead_letter_status_value DlResolved = ''resolved''"

datatype tool_call_status =
    TcPendingApproval | TcQueued | TcExecuting | TcReconciliationRequired | TcReconciling
  | TcDeadLettered | TcCompleted | TcFailed | TcCancelled | TcTimedOut

fun tool_call_status_value :: "tool_call_status \<Rightarrow> string" where
  "tool_call_status_value TcPendingApproval = ''pending_approval''"
| "tool_call_status_value TcQueued = ''queued''"
| "tool_call_status_value TcExecuting = ''executing''"
| "tool_call_status_value TcReconciliationRequired = ''reconciliation_required''"
| "tool_call_status_value TcReconciling = ''reconciling''"
| "tool_call_status_value TcDeadLettered = ''dead_lettered''"
| "tool_call_status_value TcCompleted = ''completed''"
| "tool_call_status_value TcFailed = ''failed''"
| "tool_call_status_value TcCancelled = ''cancelled''"
| "tool_call_status_value TcTimedOut = ''timed_out''"

datatype execution_status = ExQueued | ExRunning | ExWaiting | ExCompleted | ExFailed | ExCancelled

fun execution_status_value :: "execution_status \<Rightarrow> string" where
  "execution_status_value ExQueued = ''queued''"
| "execution_status_value ExRunning = ''running''"
| "execution_status_value ExWaiting = ''waiting''"
| "execution_status_value ExCompleted = ''completed''"
| "execution_status_value ExFailed = ''failed''"
| "execution_status_value ExCancelled = ''cancelled''"

subsection \<open>Rows\<close>

record project_row =
  prj_id :: uuid
  prj_org :: uuid

record environment_row =
  envr_id :: uuid
  envr_org :: uuid
  envr_type :: string

record system_row =
  sys_id :: uuid
  sys_org :: uuid
  sys_project_id :: uuid

record workload_row =
  wl_id :: uuid
  wl_org :: uuid
  wl_subject :: string
  wl_active :: bool

record agent_row =
  agt_id :: uuid
  agt_org :: uuid
  agt_system_id :: uuid
  agt_workload_id :: uuid

record policy_bundle_row =
  pb_id :: uuid
  pb_org :: uuid
  pb_project_id :: uuid
  pb_status :: string
  pb_document :: json
  pb_content_digest :: digest
  pb_created_at :: timestamp

record policy_decision_row =
  pd_id :: uuid
  pd_org :: uuid
  pd_bundle_id :: uuid
  pd_effect :: string
  pd_reason_code :: string
  pd_reason :: string
  pd_input_digest :: digest
  pd_policy_digest :: digest
  pd_expires_at :: timestamp

record budget_scope_row =
  bs_id :: uuid
  bs_org :: uuid
  bs_type :: string
  bs_project_id :: "uuid option"
  bs_environment_id :: "uuid option"
  bs_agent_id :: "uuid option"
  bs_user_id :: "uuid option"
  bs_model_route_id :: "uuid option"

record budget_row =
  bud_id :: uuid
  bud_org :: uuid
  bud_scope_id :: uuid
  bud_resource :: string
  bud_limit :: int
  bud_reserved :: int
  bud_spent :: int
  bud_active :: bool

record reservation_row =
  rv_id :: uuid
  rv_org :: uuid
  rv_budget_id :: uuid
  rv_run_id :: uuid
  rv_resource :: string
  rv_estimated :: int
  rv_actual :: "int option"
  rv_status :: reservation_status
  rv_expires_at :: timestamp
  rv_reconciled_at :: "timestamp option"

record approval_row =
  ap_id :: uuid
  ap_org :: uuid
  ap_run_id :: uuid
  ap_intent_id :: uuid
  ap_content_digest :: digest
  ap_status :: approval_status
  ap_risk :: string
  ap_reason :: string
  ap_request_preview :: json
  ap_expires_at :: timestamp
  ap_decided_at :: "timestamp option"
  ap_decided_by :: "uuid option"
  ap_decision_reason :: "string option"

record run_row =
  run_id :: uuid
  run_org :: uuid
  run_project_id :: uuid
  run_environment_id :: uuid
  run_agent_id :: uuid
  run_actor_id :: uuid
  run_actor_type :: string
  run_kind :: string
  run_status :: run_status
  run_idempotency_key :: string
  run_input_digest :: digest
  run_active_node :: "string option"
  run_started_at :: "timestamp option"
  run_completed_at :: "timestamp option"
  run_error_code :: "string option"
  run_created_at :: timestamp
  run_updated_at :: timestamp

record intent_row =
  int_id :: uuid
  int_org :: uuid
  int_run_id :: uuid
  int_actor_id :: uuid
  int_delegation_id :: uuid
  int_action_type :: string
  int_arguments_digest :: digest
  int_content_digest :: digest
  int_idempotency_key :: string
  int_status :: string

record delegation_row =
  dlg_id :: uuid
  dlg_org :: uuid
  dlg_delegator_id :: uuid
  dlg_delegator_type :: string
  dlg_workload_id :: uuid
  dlg_action_types :: "string list"
  dlg_valid_until :: timestamp
  dlg_content_digest :: digest

record action_row =
  act_id :: uuid
  act_org :: uuid
  act_run_id :: uuid
  act_intent_id :: uuid
  act_decision_id :: uuid
  act_approval_id :: "uuid option"
  act_reservation_id :: uuid
  act_tool_name :: string
  act_state :: action_state
  act_version :: int
  act_content_digest :: digest
  act_encrypted_arguments :: string
  act_request_preview :: json
  act_idempotency_key :: string
  act_worker_name :: "string option"
  act_claim_hash :: "string option"
  act_lease_expires_at :: "timestamp option"
  act_execute_attempts :: int
  act_reconcile_attempts :: int
  act_cycle_attempts :: int
  act_next_reconcile_at :: "timestamp option"
  act_receipt_preview :: "json option"
  act_provider_reference :: "string option"
  act_error_code :: "string option"
  act_updated_at :: timestamp

record action_reservation_row =
  ar_org :: uuid
  ar_action_id :: uuid
  ar_reservation_id :: uuid

record outbox_row =
  ob_id :: uuid
  ob_org :: uuid
  ob_topic :: string
  ob_aggregate_type :: string
  ob_aggregate_id :: uuid
  ob_dedup_key :: string
  ob_payload :: json
  ob_available_at :: timestamp
  ob_dispatched_at :: "timestamp option"
  ob_processed_at :: "timestamp option"
  ob_attempts :: int
  ob_created_at :: timestamp

record dead_letter_row =
  dl_id :: uuid
  dl_org :: uuid
  dl_action_id :: uuid
  dl_run_id :: uuid
  dl_outbox_id :: "uuid option"
  dl_source :: string
  dl_reason_code :: string
  dl_status :: dead_letter_status
  dl_attempt_count :: int
  dl_redrive_count :: int
  dl_max_redrives :: int
  dl_version :: int
  dl_content_digest :: digest
  dl_resolved_at :: "timestamp option"
  dl_created_at :: timestamp
  dl_updated_at :: timestamp

record trace_row =
  tr_id :: uuid
  tr_org :: uuid
  tr_run_id :: uuid
  tr_node_id :: string
  tr_trace_id :: string
  tr_span_id :: string
  tr_parent_span_id :: "string option"
  tr_event_type :: string
  tr_status :: string
  tr_sequence :: int
  tr_attributes :: json
  tr_created_at :: timestamp

record audit_row =
  au_id :: uuid
  au_org :: uuid
  au_sequence :: int
  au_actor_id :: uuid
  au_event_type :: string
  au_subject_type :: string
  au_subject_id :: uuid
  au_content_digest :: digest
  au_metadata :: json
  au_previous_hash :: "digest option"
  au_row_hash :: digest
  au_created_at :: timestamp

record evidence_row =
  ev_id :: uuid
  ev_org :: uuid
  ev_run_id :: uuid
  ev_content_digest :: digest
  ev_manifest :: json
  ev_algorithm :: string
  ev_key_id :: string
  ev_public_key_b64 :: string
  ev_signature_b64 :: string
  ev_export_status :: string

record tool_call_row =
  tc_id :: uuid
  tc_org :: uuid
  tc_execution_id :: uuid
  tc_parent_run_id :: uuid
  tc_child_run_id :: uuid
  tc_action_id :: uuid
  tc_intent_id :: uuid
  tc_tool_id :: uuid
  tc_node_id :: string
  tc_sequence :: int
  tc_result_state_key :: string
  tc_status :: tool_call_status
  tc_arguments_digest :: digest
  tc_tool_digest :: digest
  tc_action_content_digest :: digest
  tc_result_digest :: "digest option"
  tc_content_digest :: digest
  tc_expires_at :: timestamp
  tc_resolved_at :: "timestamp option"
  tc_created_at :: timestamp

record execution_row =
  ex_id :: uuid
  ex_org :: uuid
  ex_run_id :: uuid
  ex_version_id :: uuid
  ex_deployment_id :: uuid
  ex_evaluation_id :: "uuid option"
  ex_scenario_id :: "uuid option"
  ex_forked_from :: "uuid option"
  ex_mode :: string
  ex_profile_id :: "uuid option"
  ex_status :: execution_status
  ex_version :: int
  ex_content_digest :: digest
  ex_encrypted_state :: string
  ex_state_digest :: digest
  ex_current_nodes :: "string list"
  ex_completed_nodes :: "string list"
  ex_path :: "string list"
  ex_loop_counts :: "(string \<times> int) list"
  ex_step_count :: int
  ex_max_steps :: int
  ex_deadline_at :: timestamp
  ex_worker_name :: "string option"
  ex_claim_hash :: "string option"
  ex_lease_expires_at :: "timestamp option"
  ex_started_at :: "timestamp option"
  ex_completed_at :: "timestamp option"
  ex_error_code :: "string option"

record wait_row =
  wt_id :: uuid
  wt_org :: uuid
  wt_execution_id :: uuid
  wt_run_id :: uuid
  wt_node_id :: string
  wt_sequence :: int
  wt_type :: string
  wt_status :: string
  wt_resolution :: "string option"
  wt_content_digest :: digest
  wt_state_digest :: digest
  wt_request_metadata :: json
  wt_event_key :: "string option"
  wt_due_at :: "timestamp option"
  wt_expires_at :: timestamp
  wt_response_digest :: "digest option"
  wt_encrypted_response :: "string option"
  wt_resolved_by :: "uuid option"
  wt_resolved_at :: "timestamp option"
  wt_created_at :: timestamp

record subworkflow_call_row =
  sc_id :: uuid
  sc_org :: uuid
  sc_parent_execution_id :: uuid
  sc_parent_run_id :: uuid
  sc_node_id :: string
  sc_sequence :: int
  sc_deployment_id :: uuid
  sc_child_execution_id :: uuid
  sc_child_run_id :: uuid
  sc_result_state_key :: string
  sc_status :: string
  sc_input_state_digest :: digest
  sc_child_content_digest :: digest
  sc_result_state_digest :: "digest option"
  sc_content_digest :: digest
  sc_expires_at :: timestamp
  sc_resolved_at :: "timestamp option"
  sc_created_at :: timestamp

record workflow_row =
  wf_id :: uuid
  wf_org :: uuid
  wf_project_id :: uuid
  wf_slug :: string
  wf_name :: string
  wf_description :: string

record version_row =
  wv_id :: uuid
  wv_org :: uuid
  wv_workflow_id :: uuid
  wv_version :: int
  wv_status :: string
  wv_definition :: json
  wv_definition_digest :: digest
  wv_validation :: json
  wv_created_by :: uuid

record deployment_row =
  wd_id :: uuid
  wd_org :: uuid
  wd_version_id :: uuid
  wd_environment_id :: uuid
  wd_agent_id :: uuid
  wd_status :: string
  wd_deployed_by :: uuid
  wd_deployed_at :: timestamp

record checkpoint_row =
  cp_id :: uuid
  cp_org :: uuid
  cp_execution_id :: uuid
  cp_run_id :: uuid
  cp_sequence :: int
  cp_node_id :: string
  cp_encrypted_state :: string
  cp_state_digest :: digest
  cp_active_nodes :: "string list"
  cp_completed_nodes :: "string list"
  cp_path :: "string list"
  cp_loop_counts :: "(string \<times> int) list"
  cp_content_digest :: digest
  cp_parent_id :: "uuid option"
  cp_created_at :: timestamp

record node_policy_row =
  np_id :: uuid
  np_org :: uuid
  np_execution_id :: uuid
  np_run_id :: uuid
  np_node_id :: string
  np_sequence :: int
  np_evaluation :: int
  np_bundle_id :: uuid
  np_effect :: string
  np_reason_code :: string
  np_input_digest :: digest
  np_policy_digest :: digest
  np_content_digest :: digest
  np_expires_at :: timestamp
  np_created_at :: timestamp

record model_call_row =
  mc_id :: uuid
  mc_org :: uuid
  mc_execution_id :: uuid
  mc_run_id :: uuid
  mc_model_route_id :: uuid
  mc_delegation_id :: uuid
  mc_decision_id :: uuid
  mc_node_id :: string
  mc_sequence :: int
  mc_input_state_key :: string
  mc_result_state_key :: string
  mc_status :: string
  mc_request_digest :: digest
  mc_route_digest :: digest
  mc_content_digest :: digest
  mc_encrypted_request :: string
  mc_output_digest :: "digest option"
  mc_encrypted_output :: "string option"
  mc_provider_reference :: "string option"
  mc_idempotency_key :: string
  mc_max_output_tokens :: int
  mc_input_tokens :: "int option"
  mc_output_tokens :: "int option"
  mc_cost_minor :: "int option"
  mc_worker_name :: "string option"
  mc_claim_hash :: "string option"
  mc_lease_expires_at :: "timestamp option"
  mc_execute_attempts :: int
  mc_reconcile_attempts :: int
  mc_next_reconcile_at :: "timestamp option"
  mc_expires_at :: timestamp
  mc_completed_at :: "timestamp option"
  mc_error_code :: "string option"
  mc_created_at :: timestamp
  mc_updated_at :: timestamp

record tool_row =
  tl_id :: uuid
  tl_org :: uuid
  tl_name :: string
  tl_effect_class :: string
  tl_risk :: string
  tl_connector :: string
  tl_input_schema :: json

record model_route_row =
  mrt_id :: uuid
  mrt_org :: uuid
  mrt_project_id :: uuid
  mrt_name :: string
  mrt_provider :: string
  mrt_model :: string
  mrt_status :: string

record profile_row =
  sp_id :: uuid
  sp_org :: uuid
  sp_project_id :: uuid
  sp_tool_id :: uuid
  sp_name :: string
  sp_provider :: string
  sp_contract_version :: string
  sp_status :: string
  sp_content_digest :: digest
  sp_created_by :: uuid
  sp_created_at :: timestamp

record simulation_call_row =
  ts_id :: uuid
  ts_org :: uuid
  ts_execution_id :: uuid
  ts_run_id :: uuid
  ts_profile_id :: uuid
  ts_tool_id :: uuid
  ts_node_id :: string
  ts_sequence :: int
  ts_result_state_key :: string
  ts_status :: string
  ts_arguments_digest :: digest
  ts_tool_digest :: digest
  ts_profile_digest :: digest
  ts_result_digest :: digest
  ts_content_digest :: digest
  ts_completed_at :: timestamp
  ts_created_at :: timestamp

record replay_row =
  rp_id :: uuid
  rp_org :: uuid
  rp_source_execution_id :: uuid
  rp_source_run_id :: uuid
  rp_source_checkpoint_id :: uuid
  rp_execution_id :: uuid
  rp_run_id :: uuid
  rp_status :: string
  rp_source_state_digest :: digest
  rp_source_path_digest :: digest
  rp_state_digest :: "digest option"
  rp_path_digest :: "digest option"
  rp_content_digest :: digest
  rp_completed_at :: "timestamp option"
  rp_created_at :: timestamp

record attempt_row =
  na_id :: uuid
  na_org :: uuid
  na_execution_id :: uuid
  na_run_id :: uuid
  na_node_id :: string
  na_node_type :: string
  na_attempt :: int
  na_status :: string
  na_input_digest :: digest
  na_output_digest :: "digest option"
  na_started_at :: timestamp
  na_completed_at :: "timestamp option"
  na_error_code :: "string option"
  na_created_at :: timestamp

record model_call_reservation_row =
  mr_org :: uuid
  mr_model_call_id :: uuid
  mr_reservation_id :: uuid

record dataset_row =
  ds_id :: uuid
  ds_org :: uuid
  ds_project_id :: uuid
  ds_slug :: string
  ds_name :: string
  ds_description :: string
  ds_created_at :: timestamp

record dataset_version_row =
  dv_id :: uuid
  dv_org :: uuid
  dv_dataset_id :: uuid
  dv_version :: int
  dv_status :: string
  dv_content_digest :: digest
  dv_scenario_count :: int
  dv_created_by :: uuid

record scenario_row =
  es_id :: uuid
  es_org :: uuid
  es_dataset_version_id :: uuid
  es_key :: string
  es_name :: string
  es_encrypted_payload :: string
  es_input_digest :: digest
  es_expected_output_digest :: digest
  es_expected_path :: "string list"
  es_metadata :: json
  es_content_digest :: digest

record evaluation_row =
  el_id :: uuid
  el_org :: uuid
  el_version_id :: uuid
  el_dataset_version_id :: uuid
  el_deployment_id :: uuid
  el_baseline_id :: "uuid option"
  el_profile_id :: "uuid option"
  el_actor_id :: uuid
  el_idempotency_key :: string
  el_status :: string
  el_minimum_score_milli :: int
  el_maximum_regression_milli :: int
  el_score_milli :: "int option"
  el_baseline_score_milli :: "int option"
  el_score_delta_milli :: "int option"
  el_regression_status :: "string option"
  el_release_gate_status :: string
  el_content_digest :: digest
  el_completed_at :: "timestamp option"

record evaluation_result_row =
  er_id :: uuid
  er_org :: uuid
  er_evaluation_id :: uuid
  er_scenario_id :: uuid
  er_execution_id :: uuid
  er_run_id :: uuid
  er_status :: string
  er_score_milli :: int
  er_task_outcome :: string
  er_trajectory_outcome :: string
  er_environment_outcome :: string
  er_policy_outcome :: string
  er_safety_outcome :: string
  er_output_digest :: digest
  er_trajectory_digest :: digest
  er_graders :: json
  er_created_at :: timestamp

record annotation_row =
  an_id :: uuid
  an_org :: uuid
  an_result_id :: uuid
  an_evaluation_id :: uuid
  an_scenario_id :: uuid
  an_run_id :: uuid
  an_reviewer_id :: uuid
  an_idempotency_key :: string
  an_label :: string
  an_score_milli :: "int option"
  an_reason_codes :: "string list"
  an_content_digest :: digest
  an_created_at :: timestamp

subsection \<open>The session\<close>

record db =
  now :: timestamp
  tenant :: "uuid option"
  autoflush :: bool
  next_uuid :: uuid
  projects :: "project_row list"
  environments :: "environment_row list"
  systems :: "system_row list"
  workloads :: "workload_row list"
  agents :: "agent_row list"
  policy_bundles :: "policy_bundle_row list"
  policy_decisions :: "policy_decision_row list"
  budget_scopes :: "budget_scope_row list"
  budgets :: "budget_row list"
  reservations :: "reservation_row list"
  approvals :: "approval_row list"
  runs :: "run_row list"
  intents :: "intent_row list"
  delegations :: "delegation_row list"
  actions :: "action_row list"
  action_reservations :: "action_reservation_row list"
  outbox :: "outbox_row list"
  dead_letters :: "dead_letter_row list"
  traces :: "trace_row list"
  pending_traces :: "trace_row list"
  audits :: "audit_row list"
  evidence :: "evidence_row list"
  tool_calls :: "tool_call_row list"
  executions :: "execution_row list"
  waits :: "wait_row list"
  subworkflow_calls :: "subworkflow_call_row list"
  model_calls :: "model_call_row list"
  model_call_links :: "model_call_reservation_row list"
  workflows :: "workflow_row list"
  versions :: "version_row list"
  deployments :: "deployment_row list"
  checkpoints :: "checkpoint_row list"
  node_policies :: "node_policy_row list"
  tools :: "tool_row list"
  model_routes :: "model_route_row list"
  profiles :: "profile_row list"
  simulation_calls :: "simulation_call_row list"
  replays :: "replay_row list"
  attempts :: "attempt_row list"
  datasets :: "dataset_row list"
  dataset_versions :: "dataset_version_row list"
  scenarios :: "scenario_row list"
  evaluations :: "evaluation_row list"
  evaluation_results :: "evaluation_result_row list"
  annotations :: "annotation_row list"

definition empty_db :: "timestamp \<Rightarrow> db" where
  "empty_db t = \<lparr>now = t, tenant = None, autoflush = False, next_uuid = 1,
     projects = [], environments = [], systems = [], workloads = [], agents = [],
     policy_bundles = [], policy_decisions = [], budget_scopes = [], budgets = [],
     reservations = [], approvals = [], runs = [], intents = [], delegations = [], actions = [],
     action_reservations = [], outbox = [], dead_letters = [], traces = [], pending_traces = [],
     audits = [], evidence = [], tool_calls = [], executions = [], waits = [],
     subworkflow_calls = [], model_calls = [], model_call_links = [], workflows = [],
     versions = [], deployments = [], checkpoints = [], node_policies = [], tools = [],
     model_routes = [], profiles = [], simulation_calls = [], replays = [], attempts = [],
     datasets = [], dataset_versions = [], scenarios = [], evaluations = [], evaluation_results = [], annotations = []\<rparr>"

text \<open>
  The tenant policies of the migrations: \<open>organization_id = runsigil_request_organization()\<close>
  for the application role, \<open>true\<close> for the worker and the gateway's authorizer.
\<close>

definition rls :: "db \<Rightarrow> uuid \<Rightarrow> bool" where
  "rls s org = (case tenant s of None \<Rightarrow> True | Some t \<Rightarrow> org = t)"

text \<open>A table as the session can read it.\<close>

definition seen :: "db \<Rightarrow> ('r \<Rightarrow> uuid) \<Rightarrow> 'r list \<Rightarrow> 'r list" where
  "seen s org rows = filter (\<lambda>r. rls s (org r)) rows"

lemma set_seen [simp]: "set (seen s org rows) = {r \<in> set rows. rls s (org r)}"
  by (simp add: seen_def)

lemma seen_tupd: "(\<And>r. org (f r) = org r) \<Longrightarrow> seen s org (tupd key k f rows) = tupd key k f (seen s org rows)"
  by (induction rows) (simp_all add: seen_def tupd_def)

lemma seen_cong: "tenant s' = tenant s \<Longrightarrow> seen s' org rows = seen s org rows"
  by (simp add: seen_def rls_def)

abbreviation get_project where "get_project s k \<equiv> tget prj_id k (seen s prj_org (projects s))"
abbreviation get_environment where "get_environment s k \<equiv> tget envr_id k (seen s envr_org (environments s))"
abbreviation get_system where "get_system s k \<equiv> tget sys_id k (seen s sys_org (systems s))"
abbreviation get_workload where "get_workload s k \<equiv> tget wl_id k (seen s wl_org (workloads s))"
abbreviation get_agent where "get_agent s k \<equiv> tget agt_id k (seen s agt_org (agents s))"
abbreviation get_bundle where "get_bundle s k \<equiv> tget pb_id k (seen s pb_org (policy_bundles s))"
abbreviation get_decision where "get_decision s k \<equiv> tget pd_id k (seen s pd_org (policy_decisions s))"
abbreviation get_approval where "get_approval s k \<equiv> tget ap_id k (seen s ap_org (approvals s))"
abbreviation get_run where "get_run s k \<equiv> tget run_id k (seen s run_org (runs s))"
abbreviation get_intent where "get_intent s k \<equiv> tget int_id k (seen s int_org (intents s))"
abbreviation get_action where "get_action s k \<equiv> tget act_id k (seen s act_org (actions s))"
abbreviation get_dead_letter where "get_dead_letter s k \<equiv> tget dl_id k (seen s dl_org (dead_letters s))"
abbreviation get_tool_call where "get_tool_call s k \<equiv> tget tc_id k (seen s tc_org (tool_calls s))"

abbreviation get_execution where "get_execution s k \<equiv> tget ex_id k (seen s ex_org (executions s))"
abbreviation get_wait where "get_wait s k \<equiv> tget wt_id k (seen s wt_org (waits s))"
abbreviation get_workflow where "get_workflow s k \<equiv> tget wf_id k (seen s wf_org (workflows s))"
abbreviation get_version where "get_version s k \<equiv> tget wv_id k (seen s wv_org (versions s))"
abbreviation get_tool where "get_tool s k \<equiv> tget tl_id k (seen s tl_org (tools s))"
abbreviation get_model_route where "get_model_route s k \<equiv> tget mrt_id k (seen s mrt_org (model_routes s))"
abbreviation get_model_call where "get_model_call s k \<equiv> tget mc_id k (seen s mc_org (model_calls s))"
abbreviation get_profile where "get_profile s k \<equiv> tget sp_id k (seen s sp_org (profiles s))"
abbreviation get_checkpoint where "get_checkpoint s k \<equiv> tget cp_id k (seen s cp_org (checkpoints s))"
abbreviation get_node_policy where "get_node_policy s k \<equiv> tget np_id k (seen s np_org (node_policies s))"
abbreviation get_delegation where "get_delegation s k \<equiv> tget dlg_id k (seen s dlg_org (delegations s))"
abbreviation get_subworkflow_call where "get_subworkflow_call s k \<equiv> tget sc_id k (seen s sc_org (subworkflow_calls s))"
abbreviation get_dataset where "get_dataset s k \<equiv> tget ds_id k (seen s ds_org (datasets s))"
abbreviation get_dataset_version where "get_dataset_version s k \<equiv> tget dv_id k (seen s dv_org (dataset_versions s))"
abbreviation get_scenario where "get_scenario s k \<equiv> tget es_id k (seen s es_org (scenarios s))"
abbreviation get_evaluation where "get_evaluation s k \<equiv> tget el_id k (seen s el_org (evaluations s))"
abbreviation get_evaluation_result where "get_evaluation_result s k \<equiv> tget er_id k (seen s er_org (evaluation_results s))"
abbreviation get_deployment where "get_deployment s k \<equiv> tget wd_id k (seen s wd_org (deployments s))"

subsection \<open>Writes\<close>

text \<open>
  Attribute assignment on a loaded row. A written row takes the transaction's
  timestamp as \<open>updated_at\<close> where the model keeps that column (\<open>onupdate=func.now()\<close>).
\<close>

definition upd_action :: "uuid \<Rightarrow> (action_row \<Rightarrow> action_row) \<Rightarrow> db \<Rightarrow> db" where
  "upd_action k f s =
     s\<lparr>actions := tupd act_id k (\<lambda>a. (f a)\<lparr>act_updated_at := now s\<rparr>) (actions s)\<rparr>"

definition upd_run :: "uuid \<Rightarrow> (run_row \<Rightarrow> run_row) \<Rightarrow> db \<Rightarrow> db" where
  "upd_run k f s = s\<lparr>runs := tupd run_id k (\<lambda>r. (f r)\<lparr>run_updated_at := now s\<rparr>) (runs s)\<rparr>"

definition upd_approval :: "uuid \<Rightarrow> (approval_row \<Rightarrow> approval_row) \<Rightarrow> db \<Rightarrow> db" where
  "upd_approval k f s = s\<lparr>approvals := tupd ap_id k f (approvals s)\<rparr>"

definition upd_intent :: "uuid \<Rightarrow> (intent_row \<Rightarrow> intent_row) \<Rightarrow> db \<Rightarrow> db" where
  "upd_intent k f s = s\<lparr>intents := tupd int_id k f (intents s)\<rparr>"

definition upd_outbox :: "uuid \<Rightarrow> (outbox_row \<Rightarrow> outbox_row) \<Rightarrow> db \<Rightarrow> db" where
  "upd_outbox k f s = s\<lparr>outbox := tupd ob_id k f (outbox s)\<rparr>"

definition upd_dead_letter :: "uuid \<Rightarrow> (dead_letter_row \<Rightarrow> dead_letter_row) \<Rightarrow> db \<Rightarrow> db" where
  "upd_dead_letter k f s = s\<lparr>dead_letters := tupd dl_id k (\<lambda>d. (f d)\<lparr>dl_updated_at := now s\<rparr>) (dead_letters s)\<rparr>"

definition upd_tool_call :: "uuid \<Rightarrow> (tool_call_row \<Rightarrow> tool_call_row) \<Rightarrow> db \<Rightarrow> db" where
  "upd_tool_call k f s = s\<lparr>tool_calls := tupd tc_id k f (tool_calls s)\<rparr>"

definition upd_execution :: "uuid \<Rightarrow> (execution_row \<Rightarrow> execution_row) \<Rightarrow> db \<Rightarrow> db" where
  "upd_execution k f s = s\<lparr>executions := tupd ex_id k f (executions s)\<rparr>"

definition upd_wait :: "uuid \<Rightarrow> (wait_row \<Rightarrow> wait_row) \<Rightarrow> db \<Rightarrow> db" where
  "upd_wait k f s = s\<lparr>waits := tupd wt_id k f (waits s)\<rparr>"

definition upd_subworkflow_call ::
  "uuid \<Rightarrow> (subworkflow_call_row \<Rightarrow> subworkflow_call_row) \<Rightarrow> db \<Rightarrow> db" where
  "upd_subworkflow_call k f s = s\<lparr>subworkflow_calls := tupd sc_id k f (subworkflow_calls s)\<rparr>"

definition upd_model_call :: "uuid \<Rightarrow> (model_call_row \<Rightarrow> model_call_row) \<Rightarrow> db \<Rightarrow> db" where
  "upd_model_call k f s = s\<lparr>model_calls := tupd mc_id k (\<lambda>c. (f c)\<lparr>mc_updated_at := now s\<rparr>) (model_calls s)\<rparr>"

definition upd_deployment :: "uuid \<Rightarrow> (deployment_row \<Rightarrow> deployment_row) \<Rightarrow> db \<Rightarrow> db" where
  "upd_deployment k f s = s\<lparr>deployments := tupd wd_id k f (deployments s)\<rparr>"

definition upd_version :: "uuid \<Rightarrow> (version_row \<Rightarrow> version_row) \<Rightarrow> db \<Rightarrow> db" where
  "upd_version k f s = s\<lparr>versions := tupd wv_id k f (versions s)\<rparr>"

definition upd_replay :: "uuid \<Rightarrow> (replay_row \<Rightarrow> replay_row) \<Rightarrow> db \<Rightarrow> db" where
  "upd_replay k f s = s\<lparr>replays := tupd rp_id k f (replays s)\<rparr>"

definition upd_evaluation :: "uuid \<Rightarrow> (evaluation_row \<Rightarrow> evaluation_row) \<Rightarrow> db \<Rightarrow> db" where
  "upd_evaluation k f s = s\<lparr>evaluations := tupd el_id k f (evaluations s)\<rparr>"

definition upd_budget :: "uuid \<Rightarrow> (budget_row \<Rightarrow> budget_row) \<Rightarrow> db \<Rightarrow> db" where
  "upd_budget k f s = s\<lparr>budgets := tupd bud_id k f (budgets s)\<rparr>"

definition upd_reservation :: "uuid \<Rightarrow> (reservation_row \<Rightarrow> reservation_row) \<Rightarrow> db \<Rightarrow> db" where
  "upd_reservation k f s = s\<lparr>reservations := tupd rv_id k f (reservations s)\<rparr>"

definition uuid4 :: "db \<Rightarrow> uuid \<times> db" where
  "uuid4 s = (next_uuid s, s\<lparr>next_uuid := Suc (next_uuid s)\<rparr>)"

text \<open>\<open>session.add(OutboxEvent(...))\<close> with its defaults.\<close>

definition add_outbox ::
  "uuid \<Rightarrow> string \<Rightarrow> string \<Rightarrow> uuid \<Rightarrow> string \<Rightarrow> json \<Rightarrow> timestamp \<Rightarrow> db \<Rightarrow> db" where
  "add_outbox org topic agg_type agg dedup payload available s =
     (let (i, s) = uuid4 s in
      s\<lparr>outbox := outbox s @ [\<lparr>ob_id = i, ob_org = org, ob_topic = topic,
         ob_aggregate_type = agg_type, ob_aggregate_id = agg, ob_dedup_key = dedup,
         ob_payload = payload, ob_available_at = available, ob_dispatched_at = None,
         ob_processed_at = None, ob_attempts = 0, ob_created_at = now s\<rparr>]\<rparr>)"

text \<open>\<open>session.flush()\<close>: the pending trace rows reach the table.\<close>

definition flush :: "db \<Rightarrow> db" where
  "flush s = s\<lparr>traces := traces s @ pending_traces s, pending_traces := []\<rparr>"

text \<open>
  The request boundary of \<open>tenant_session\<close> and of the worker's \<open>session.begin()\<close>: an
  exception rolls the transaction back, a normal return commits it.
\<close>

definition transaction :: "(db \<Rightarrow> rs_error + 'a \<times> db) \<Rightarrow> db \<Rightarrow> (rs_error + 'a) \<times> db" where
  "transaction f s =
     (case f s of Inl e \<Rightarrow> (Inl e, s) | Inr (x, s') \<Rightarrow> (Inr x, flush s'))"

subsection \<open>What a write leaves alone\<close>

lemma upd_action_frame [simp]:
  "now (upd_action k f s) = now s"
  "tenant (upd_action k f s) = tenant s"
  "autoflush (upd_action k f s) = autoflush s"
  "next_uuid (upd_action k f s) = next_uuid s"
  "budgets (upd_action k f s) = budgets s"
  "reservations (upd_action k f s) = reservations s"
  "approvals (upd_action k f s) = approvals s"
  "runs (upd_action k f s) = runs s"
  "intents (upd_action k f s) = intents s"
  "action_reservations (upd_action k f s) = action_reservations s"
  "outbox (upd_action k f s) = outbox s"
  "dead_letters (upd_action k f s) = dead_letters s"
  "traces (upd_action k f s) = traces s"
  "pending_traces (upd_action k f s) = pending_traces s"
  "audits (upd_action k f s) = audits s"
  "evidence (upd_action k f s) = evidence s"
  "tool_calls (upd_action k f s) = tool_calls s"
  "executions (upd_action k f s) = executions s"
  "waits (upd_action k f s) = waits s"
  "subworkflow_calls (upd_action k f s) = subworkflow_calls s"
  "model_calls (upd_action k f s) = model_calls s"
  "model_call_links (upd_action k f s) = model_call_links s"
  "projects (upd_action k f s) = projects s"
  "environments (upd_action k f s) = environments s"
  "systems (upd_action k f s) = systems s"
  "workloads (upd_action k f s) = workloads s"
  "agents (upd_action k f s) = agents s"
  "policy_bundles (upd_action k f s) = policy_bundles s"
  "policy_decisions (upd_action k f s) = policy_decisions s"
  "budget_scopes (upd_action k f s) = budget_scopes s"
  "delegations (upd_action k f s) = delegations s"
  "workflows (upd_action k f s) = workflows s"
  "versions (upd_action k f s) = versions s"
  "deployments (upd_action k f s) = deployments s"
  "checkpoints (upd_action k f s) = checkpoints s"
  "node_policies (upd_action k f s) = node_policies s"
  "tools (upd_action k f s) = tools s"
  "model_routes (upd_action k f s) = model_routes s"
  "profiles (upd_action k f s) = profiles s"
  "simulation_calls (upd_action k f s) = simulation_calls s"
  "replays (upd_action k f s) = replays s"
  "attempts (upd_action k f s) = attempts s"
  by (simp_all add: upd_action_def)

lemma upd_run_frame [simp]:
  "now (upd_run k f s) = now s"
  "tenant (upd_run k f s) = tenant s"
  "autoflush (upd_run k f s) = autoflush s"
  "next_uuid (upd_run k f s) = next_uuid s"
  "budgets (upd_run k f s) = budgets s"
  "reservations (upd_run k f s) = reservations s"
  "approvals (upd_run k f s) = approvals s"
  "intents (upd_run k f s) = intents s"
  "actions (upd_run k f s) = actions s"
  "action_reservations (upd_run k f s) = action_reservations s"
  "outbox (upd_run k f s) = outbox s"
  "dead_letters (upd_run k f s) = dead_letters s"
  "traces (upd_run k f s) = traces s"
  "pending_traces (upd_run k f s) = pending_traces s"
  "audits (upd_run k f s) = audits s"
  "evidence (upd_run k f s) = evidence s"
  "tool_calls (upd_run k f s) = tool_calls s"
  "executions (upd_run k f s) = executions s"
  "waits (upd_run k f s) = waits s"
  "subworkflow_calls (upd_run k f s) = subworkflow_calls s"
  "model_calls (upd_run k f s) = model_calls s"
  "model_call_links (upd_run k f s) = model_call_links s"
  "projects (upd_run k f s) = projects s"
  "environments (upd_run k f s) = environments s"
  "systems (upd_run k f s) = systems s"
  "workloads (upd_run k f s) = workloads s"
  "agents (upd_run k f s) = agents s"
  "policy_bundles (upd_run k f s) = policy_bundles s"
  "policy_decisions (upd_run k f s) = policy_decisions s"
  "budget_scopes (upd_run k f s) = budget_scopes s"
  "delegations (upd_run k f s) = delegations s"
  "workflows (upd_run k f s) = workflows s"
  "versions (upd_run k f s) = versions s"
  "deployments (upd_run k f s) = deployments s"
  "checkpoints (upd_run k f s) = checkpoints s"
  "node_policies (upd_run k f s) = node_policies s"
  "tools (upd_run k f s) = tools s"
  "model_routes (upd_run k f s) = model_routes s"
  "profiles (upd_run k f s) = profiles s"
  "simulation_calls (upd_run k f s) = simulation_calls s"
  "replays (upd_run k f s) = replays s"
  "attempts (upd_run k f s) = attempts s"
  by (simp_all add: upd_run_def)

lemma upd_approval_frame [simp]:
  "now (upd_approval k f s) = now s"
  "tenant (upd_approval k f s) = tenant s"
  "autoflush (upd_approval k f s) = autoflush s"
  "next_uuid (upd_approval k f s) = next_uuid s"
  "budgets (upd_approval k f s) = budgets s"
  "reservations (upd_approval k f s) = reservations s"
  "runs (upd_approval k f s) = runs s"
  "intents (upd_approval k f s) = intents s"
  "actions (upd_approval k f s) = actions s"
  "action_reservations (upd_approval k f s) = action_reservations s"
  "outbox (upd_approval k f s) = outbox s"
  "dead_letters (upd_approval k f s) = dead_letters s"
  "traces (upd_approval k f s) = traces s"
  "pending_traces (upd_approval k f s) = pending_traces s"
  "audits (upd_approval k f s) = audits s"
  "evidence (upd_approval k f s) = evidence s"
  "tool_calls (upd_approval k f s) = tool_calls s"
  "executions (upd_approval k f s) = executions s"
  "waits (upd_approval k f s) = waits s"
  "subworkflow_calls (upd_approval k f s) = subworkflow_calls s"
  "model_calls (upd_approval k f s) = model_calls s"
  "model_call_links (upd_approval k f s) = model_call_links s"
  "projects (upd_approval k f s) = projects s"
  "environments (upd_approval k f s) = environments s"
  "systems (upd_approval k f s) = systems s"
  "workloads (upd_approval k f s) = workloads s"
  "agents (upd_approval k f s) = agents s"
  "policy_bundles (upd_approval k f s) = policy_bundles s"
  "policy_decisions (upd_approval k f s) = policy_decisions s"
  "budget_scopes (upd_approval k f s) = budget_scopes s"
  "delegations (upd_approval k f s) = delegations s"
  "workflows (upd_approval k f s) = workflows s"
  "versions (upd_approval k f s) = versions s"
  "deployments (upd_approval k f s) = deployments s"
  "checkpoints (upd_approval k f s) = checkpoints s"
  "node_policies (upd_approval k f s) = node_policies s"
  "tools (upd_approval k f s) = tools s"
  "model_routes (upd_approval k f s) = model_routes s"
  "profiles (upd_approval k f s) = profiles s"
  "simulation_calls (upd_approval k f s) = simulation_calls s"
  "replays (upd_approval k f s) = replays s"
  "attempts (upd_approval k f s) = attempts s"
  by (simp_all add: upd_approval_def)

lemma upd_intent_frame [simp]:
  "now (upd_intent k f s) = now s"
  "tenant (upd_intent k f s) = tenant s"
  "autoflush (upd_intent k f s) = autoflush s"
  "next_uuid (upd_intent k f s) = next_uuid s"
  "budgets (upd_intent k f s) = budgets s"
  "reservations (upd_intent k f s) = reservations s"
  "approvals (upd_intent k f s) = approvals s"
  "runs (upd_intent k f s) = runs s"
  "actions (upd_intent k f s) = actions s"
  "action_reservations (upd_intent k f s) = action_reservations s"
  "outbox (upd_intent k f s) = outbox s"
  "dead_letters (upd_intent k f s) = dead_letters s"
  "traces (upd_intent k f s) = traces s"
  "pending_traces (upd_intent k f s) = pending_traces s"
  "audits (upd_intent k f s) = audits s"
  "evidence (upd_intent k f s) = evidence s"
  "tool_calls (upd_intent k f s) = tool_calls s"
  "executions (upd_intent k f s) = executions s"
  "waits (upd_intent k f s) = waits s"
  "subworkflow_calls (upd_intent k f s) = subworkflow_calls s"
  "model_calls (upd_intent k f s) = model_calls s"
  "model_call_links (upd_intent k f s) = model_call_links s"
  "projects (upd_intent k f s) = projects s"
  "environments (upd_intent k f s) = environments s"
  "systems (upd_intent k f s) = systems s"
  "workloads (upd_intent k f s) = workloads s"
  "agents (upd_intent k f s) = agents s"
  "policy_bundles (upd_intent k f s) = policy_bundles s"
  "policy_decisions (upd_intent k f s) = policy_decisions s"
  "budget_scopes (upd_intent k f s) = budget_scopes s"
  "delegations (upd_intent k f s) = delegations s"
  "workflows (upd_intent k f s) = workflows s"
  "versions (upd_intent k f s) = versions s"
  "deployments (upd_intent k f s) = deployments s"
  "checkpoints (upd_intent k f s) = checkpoints s"
  "node_policies (upd_intent k f s) = node_policies s"
  "tools (upd_intent k f s) = tools s"
  "model_routes (upd_intent k f s) = model_routes s"
  "profiles (upd_intent k f s) = profiles s"
  "simulation_calls (upd_intent k f s) = simulation_calls s"
  "replays (upd_intent k f s) = replays s"
  "attempts (upd_intent k f s) = attempts s"
  by (simp_all add: upd_intent_def)

lemma upd_outbox_frame [simp]:
  "now (upd_outbox k f s) = now s"
  "tenant (upd_outbox k f s) = tenant s"
  "autoflush (upd_outbox k f s) = autoflush s"
  "next_uuid (upd_outbox k f s) = next_uuid s"
  "budgets (upd_outbox k f s) = budgets s"
  "reservations (upd_outbox k f s) = reservations s"
  "approvals (upd_outbox k f s) = approvals s"
  "runs (upd_outbox k f s) = runs s"
  "intents (upd_outbox k f s) = intents s"
  "actions (upd_outbox k f s) = actions s"
  "action_reservations (upd_outbox k f s) = action_reservations s"
  "dead_letters (upd_outbox k f s) = dead_letters s"
  "traces (upd_outbox k f s) = traces s"
  "pending_traces (upd_outbox k f s) = pending_traces s"
  "audits (upd_outbox k f s) = audits s"
  "evidence (upd_outbox k f s) = evidence s"
  "tool_calls (upd_outbox k f s) = tool_calls s"
  "executions (upd_outbox k f s) = executions s"
  "waits (upd_outbox k f s) = waits s"
  "subworkflow_calls (upd_outbox k f s) = subworkflow_calls s"
  "model_calls (upd_outbox k f s) = model_calls s"
  "model_call_links (upd_outbox k f s) = model_call_links s"
  "projects (upd_outbox k f s) = projects s"
  "environments (upd_outbox k f s) = environments s"
  "systems (upd_outbox k f s) = systems s"
  "workloads (upd_outbox k f s) = workloads s"
  "agents (upd_outbox k f s) = agents s"
  "policy_bundles (upd_outbox k f s) = policy_bundles s"
  "policy_decisions (upd_outbox k f s) = policy_decisions s"
  "budget_scopes (upd_outbox k f s) = budget_scopes s"
  "delegations (upd_outbox k f s) = delegations s"
  "workflows (upd_outbox k f s) = workflows s"
  "versions (upd_outbox k f s) = versions s"
  "deployments (upd_outbox k f s) = deployments s"
  "checkpoints (upd_outbox k f s) = checkpoints s"
  "node_policies (upd_outbox k f s) = node_policies s"
  "tools (upd_outbox k f s) = tools s"
  "model_routes (upd_outbox k f s) = model_routes s"
  "profiles (upd_outbox k f s) = profiles s"
  "simulation_calls (upd_outbox k f s) = simulation_calls s"
  "replays (upd_outbox k f s) = replays s"
  "attempts (upd_outbox k f s) = attempts s"
  by (simp_all add: upd_outbox_def)

lemma upd_dead_letter_frame [simp]:
  "now (upd_dead_letter k f s) = now s"
  "tenant (upd_dead_letter k f s) = tenant s"
  "autoflush (upd_dead_letter k f s) = autoflush s"
  "next_uuid (upd_dead_letter k f s) = next_uuid s"
  "budgets (upd_dead_letter k f s) = budgets s"
  "reservations (upd_dead_letter k f s) = reservations s"
  "approvals (upd_dead_letter k f s) = approvals s"
  "runs (upd_dead_letter k f s) = runs s"
  "intents (upd_dead_letter k f s) = intents s"
  "actions (upd_dead_letter k f s) = actions s"
  "action_reservations (upd_dead_letter k f s) = action_reservations s"
  "outbox (upd_dead_letter k f s) = outbox s"
  "traces (upd_dead_letter k f s) = traces s"
  "pending_traces (upd_dead_letter k f s) = pending_traces s"
  "audits (upd_dead_letter k f s) = audits s"
  "evidence (upd_dead_letter k f s) = evidence s"
  "tool_calls (upd_dead_letter k f s) = tool_calls s"
  "executions (upd_dead_letter k f s) = executions s"
  "waits (upd_dead_letter k f s) = waits s"
  "subworkflow_calls (upd_dead_letter k f s) = subworkflow_calls s"
  "model_calls (upd_dead_letter k f s) = model_calls s"
  "model_call_links (upd_dead_letter k f s) = model_call_links s"
  "projects (upd_dead_letter k f s) = projects s"
  "environments (upd_dead_letter k f s) = environments s"
  "systems (upd_dead_letter k f s) = systems s"
  "workloads (upd_dead_letter k f s) = workloads s"
  "agents (upd_dead_letter k f s) = agents s"
  "policy_bundles (upd_dead_letter k f s) = policy_bundles s"
  "policy_decisions (upd_dead_letter k f s) = policy_decisions s"
  "budget_scopes (upd_dead_letter k f s) = budget_scopes s"
  "delegations (upd_dead_letter k f s) = delegations s"
  "workflows (upd_dead_letter k f s) = workflows s"
  "versions (upd_dead_letter k f s) = versions s"
  "deployments (upd_dead_letter k f s) = deployments s"
  "checkpoints (upd_dead_letter k f s) = checkpoints s"
  "node_policies (upd_dead_letter k f s) = node_policies s"
  "tools (upd_dead_letter k f s) = tools s"
  "model_routes (upd_dead_letter k f s) = model_routes s"
  "profiles (upd_dead_letter k f s) = profiles s"
  "simulation_calls (upd_dead_letter k f s) = simulation_calls s"
  "replays (upd_dead_letter k f s) = replays s"
  "attempts (upd_dead_letter k f s) = attempts s"
  by (simp_all add: upd_dead_letter_def)

lemma upd_tool_call_frame [simp]:
  "now (upd_tool_call k f s) = now s"
  "tenant (upd_tool_call k f s) = tenant s"
  "autoflush (upd_tool_call k f s) = autoflush s"
  "next_uuid (upd_tool_call k f s) = next_uuid s"
  "budgets (upd_tool_call k f s) = budgets s"
  "reservations (upd_tool_call k f s) = reservations s"
  "approvals (upd_tool_call k f s) = approvals s"
  "runs (upd_tool_call k f s) = runs s"
  "intents (upd_tool_call k f s) = intents s"
  "actions (upd_tool_call k f s) = actions s"
  "action_reservations (upd_tool_call k f s) = action_reservations s"
  "outbox (upd_tool_call k f s) = outbox s"
  "dead_letters (upd_tool_call k f s) = dead_letters s"
  "traces (upd_tool_call k f s) = traces s"
  "pending_traces (upd_tool_call k f s) = pending_traces s"
  "audits (upd_tool_call k f s) = audits s"
  "evidence (upd_tool_call k f s) = evidence s"
  "executions (upd_tool_call k f s) = executions s"
  "waits (upd_tool_call k f s) = waits s"
  "subworkflow_calls (upd_tool_call k f s) = subworkflow_calls s"
  "model_calls (upd_tool_call k f s) = model_calls s"
  "model_call_links (upd_tool_call k f s) = model_call_links s"
  "projects (upd_tool_call k f s) = projects s"
  "environments (upd_tool_call k f s) = environments s"
  "systems (upd_tool_call k f s) = systems s"
  "workloads (upd_tool_call k f s) = workloads s"
  "agents (upd_tool_call k f s) = agents s"
  "policy_bundles (upd_tool_call k f s) = policy_bundles s"
  "policy_decisions (upd_tool_call k f s) = policy_decisions s"
  "budget_scopes (upd_tool_call k f s) = budget_scopes s"
  "delegations (upd_tool_call k f s) = delegations s"
  "workflows (upd_tool_call k f s) = workflows s"
  "versions (upd_tool_call k f s) = versions s"
  "deployments (upd_tool_call k f s) = deployments s"
  "checkpoints (upd_tool_call k f s) = checkpoints s"
  "node_policies (upd_tool_call k f s) = node_policies s"
  "tools (upd_tool_call k f s) = tools s"
  "model_routes (upd_tool_call k f s) = model_routes s"
  "profiles (upd_tool_call k f s) = profiles s"
  "simulation_calls (upd_tool_call k f s) = simulation_calls s"
  "replays (upd_tool_call k f s) = replays s"
  "attempts (upd_tool_call k f s) = attempts s"
  by (simp_all add: upd_tool_call_def)

lemma upd_execution_frame [simp]:
  "now (upd_execution k f s) = now s"
  "tenant (upd_execution k f s) = tenant s"
  "autoflush (upd_execution k f s) = autoflush s"
  "next_uuid (upd_execution k f s) = next_uuid s"
  "budgets (upd_execution k f s) = budgets s"
  "reservations (upd_execution k f s) = reservations s"
  "approvals (upd_execution k f s) = approvals s"
  "runs (upd_execution k f s) = runs s"
  "intents (upd_execution k f s) = intents s"
  "actions (upd_execution k f s) = actions s"
  "action_reservations (upd_execution k f s) = action_reservations s"
  "outbox (upd_execution k f s) = outbox s"
  "dead_letters (upd_execution k f s) = dead_letters s"
  "traces (upd_execution k f s) = traces s"
  "pending_traces (upd_execution k f s) = pending_traces s"
  "audits (upd_execution k f s) = audits s"
  "evidence (upd_execution k f s) = evidence s"
  "tool_calls (upd_execution k f s) = tool_calls s"
  "waits (upd_execution k f s) = waits s"
  "subworkflow_calls (upd_execution k f s) = subworkflow_calls s"
  "model_calls (upd_execution k f s) = model_calls s"
  "model_call_links (upd_execution k f s) = model_call_links s"
  "projects (upd_execution k f s) = projects s"
  "environments (upd_execution k f s) = environments s"
  "systems (upd_execution k f s) = systems s"
  "workloads (upd_execution k f s) = workloads s"
  "agents (upd_execution k f s) = agents s"
  "policy_bundles (upd_execution k f s) = policy_bundles s"
  "policy_decisions (upd_execution k f s) = policy_decisions s"
  "budget_scopes (upd_execution k f s) = budget_scopes s"
  "delegations (upd_execution k f s) = delegations s"
  "workflows (upd_execution k f s) = workflows s"
  "versions (upd_execution k f s) = versions s"
  "deployments (upd_execution k f s) = deployments s"
  "checkpoints (upd_execution k f s) = checkpoints s"
  "node_policies (upd_execution k f s) = node_policies s"
  "tools (upd_execution k f s) = tools s"
  "model_routes (upd_execution k f s) = model_routes s"
  "profiles (upd_execution k f s) = profiles s"
  "simulation_calls (upd_execution k f s) = simulation_calls s"
  "replays (upd_execution k f s) = replays s"
  "attempts (upd_execution k f s) = attempts s"
  by (simp_all add: upd_execution_def)

lemma upd_wait_frame [simp]:
  "now (upd_wait k f s) = now s"
  "tenant (upd_wait k f s) = tenant s"
  "autoflush (upd_wait k f s) = autoflush s"
  "next_uuid (upd_wait k f s) = next_uuid s"
  "budgets (upd_wait k f s) = budgets s"
  "reservations (upd_wait k f s) = reservations s"
  "approvals (upd_wait k f s) = approvals s"
  "runs (upd_wait k f s) = runs s"
  "intents (upd_wait k f s) = intents s"
  "actions (upd_wait k f s) = actions s"
  "action_reservations (upd_wait k f s) = action_reservations s"
  "outbox (upd_wait k f s) = outbox s"
  "dead_letters (upd_wait k f s) = dead_letters s"
  "traces (upd_wait k f s) = traces s"
  "pending_traces (upd_wait k f s) = pending_traces s"
  "audits (upd_wait k f s) = audits s"
  "evidence (upd_wait k f s) = evidence s"
  "tool_calls (upd_wait k f s) = tool_calls s"
  "executions (upd_wait k f s) = executions s"
  "subworkflow_calls (upd_wait k f s) = subworkflow_calls s"
  "model_calls (upd_wait k f s) = model_calls s"
  "model_call_links (upd_wait k f s) = model_call_links s"
  "projects (upd_wait k f s) = projects s"
  "environments (upd_wait k f s) = environments s"
  "systems (upd_wait k f s) = systems s"
  "workloads (upd_wait k f s) = workloads s"
  "agents (upd_wait k f s) = agents s"
  "policy_bundles (upd_wait k f s) = policy_bundles s"
  "policy_decisions (upd_wait k f s) = policy_decisions s"
  "budget_scopes (upd_wait k f s) = budget_scopes s"
  "delegations (upd_wait k f s) = delegations s"
  "workflows (upd_wait k f s) = workflows s"
  "versions (upd_wait k f s) = versions s"
  "deployments (upd_wait k f s) = deployments s"
  "checkpoints (upd_wait k f s) = checkpoints s"
  "node_policies (upd_wait k f s) = node_policies s"
  "tools (upd_wait k f s) = tools s"
  "model_routes (upd_wait k f s) = model_routes s"
  "profiles (upd_wait k f s) = profiles s"
  "simulation_calls (upd_wait k f s) = simulation_calls s"
  "replays (upd_wait k f s) = replays s"
  "attempts (upd_wait k f s) = attempts s"
  by (simp_all add: upd_wait_def)

lemma upd_subworkflow_call_frame [simp]:
  "now (upd_subworkflow_call k f s) = now s"
  "tenant (upd_subworkflow_call k f s) = tenant s"
  "autoflush (upd_subworkflow_call k f s) = autoflush s"
  "next_uuid (upd_subworkflow_call k f s) = next_uuid s"
  "budgets (upd_subworkflow_call k f s) = budgets s"
  "reservations (upd_subworkflow_call k f s) = reservations s"
  "approvals (upd_subworkflow_call k f s) = approvals s"
  "runs (upd_subworkflow_call k f s) = runs s"
  "intents (upd_subworkflow_call k f s) = intents s"
  "actions (upd_subworkflow_call k f s) = actions s"
  "action_reservations (upd_subworkflow_call k f s) = action_reservations s"
  "outbox (upd_subworkflow_call k f s) = outbox s"
  "dead_letters (upd_subworkflow_call k f s) = dead_letters s"
  "traces (upd_subworkflow_call k f s) = traces s"
  "pending_traces (upd_subworkflow_call k f s) = pending_traces s"
  "audits (upd_subworkflow_call k f s) = audits s"
  "evidence (upd_subworkflow_call k f s) = evidence s"
  "tool_calls (upd_subworkflow_call k f s) = tool_calls s"
  "executions (upd_subworkflow_call k f s) = executions s"
  "waits (upd_subworkflow_call k f s) = waits s"
  "model_calls (upd_subworkflow_call k f s) = model_calls s"
  "model_call_links (upd_subworkflow_call k f s) = model_call_links s"
  "projects (upd_subworkflow_call k f s) = projects s"
  "environments (upd_subworkflow_call k f s) = environments s"
  "systems (upd_subworkflow_call k f s) = systems s"
  "workloads (upd_subworkflow_call k f s) = workloads s"
  "agents (upd_subworkflow_call k f s) = agents s"
  "policy_bundles (upd_subworkflow_call k f s) = policy_bundles s"
  "policy_decisions (upd_subworkflow_call k f s) = policy_decisions s"
  "budget_scopes (upd_subworkflow_call k f s) = budget_scopes s"
  "delegations (upd_subworkflow_call k f s) = delegations s"
  "workflows (upd_subworkflow_call k f s) = workflows s"
  "versions (upd_subworkflow_call k f s) = versions s"
  "deployments (upd_subworkflow_call k f s) = deployments s"
  "checkpoints (upd_subworkflow_call k f s) = checkpoints s"
  "node_policies (upd_subworkflow_call k f s) = node_policies s"
  "tools (upd_subworkflow_call k f s) = tools s"
  "model_routes (upd_subworkflow_call k f s) = model_routes s"
  "profiles (upd_subworkflow_call k f s) = profiles s"
  "simulation_calls (upd_subworkflow_call k f s) = simulation_calls s"
  "replays (upd_subworkflow_call k f s) = replays s"
  "attempts (upd_subworkflow_call k f s) = attempts s"
  by (simp_all add: upd_subworkflow_call_def)

lemma upd_budget_frame [simp]:
  "now (upd_budget k f s) = now s"
  "tenant (upd_budget k f s) = tenant s"
  "autoflush (upd_budget k f s) = autoflush s"
  "next_uuid (upd_budget k f s) = next_uuid s"
  "reservations (upd_budget k f s) = reservations s"
  "approvals (upd_budget k f s) = approvals s"
  "runs (upd_budget k f s) = runs s"
  "intents (upd_budget k f s) = intents s"
  "actions (upd_budget k f s) = actions s"
  "action_reservations (upd_budget k f s) = action_reservations s"
  "outbox (upd_budget k f s) = outbox s"
  "dead_letters (upd_budget k f s) = dead_letters s"
  "traces (upd_budget k f s) = traces s"
  "pending_traces (upd_budget k f s) = pending_traces s"
  "audits (upd_budget k f s) = audits s"
  "evidence (upd_budget k f s) = evidence s"
  "tool_calls (upd_budget k f s) = tool_calls s"
  "executions (upd_budget k f s) = executions s"
  "waits (upd_budget k f s) = waits s"
  "subworkflow_calls (upd_budget k f s) = subworkflow_calls s"
  "model_calls (upd_budget k f s) = model_calls s"
  "model_call_links (upd_budget k f s) = model_call_links s"
  "projects (upd_budget k f s) = projects s"
  "environments (upd_budget k f s) = environments s"
  "systems (upd_budget k f s) = systems s"
  "workloads (upd_budget k f s) = workloads s"
  "agents (upd_budget k f s) = agents s"
  "policy_bundles (upd_budget k f s) = policy_bundles s"
  "policy_decisions (upd_budget k f s) = policy_decisions s"
  "budget_scopes (upd_budget k f s) = budget_scopes s"
  "delegations (upd_budget k f s) = delegations s"
  "workflows (upd_budget k f s) = workflows s"
  "versions (upd_budget k f s) = versions s"
  "deployments (upd_budget k f s) = deployments s"
  "checkpoints (upd_budget k f s) = checkpoints s"
  "node_policies (upd_budget k f s) = node_policies s"
  "tools (upd_budget k f s) = tools s"
  "model_routes (upd_budget k f s) = model_routes s"
  "profiles (upd_budget k f s) = profiles s"
  "simulation_calls (upd_budget k f s) = simulation_calls s"
  "replays (upd_budget k f s) = replays s"
  "attempts (upd_budget k f s) = attempts s"
  by (simp_all add: upd_budget_def)

lemma upd_reservation_frame [simp]:
  "now (upd_reservation k f s) = now s"
  "tenant (upd_reservation k f s) = tenant s"
  "autoflush (upd_reservation k f s) = autoflush s"
  "next_uuid (upd_reservation k f s) = next_uuid s"
  "budgets (upd_reservation k f s) = budgets s"
  "approvals (upd_reservation k f s) = approvals s"
  "runs (upd_reservation k f s) = runs s"
  "intents (upd_reservation k f s) = intents s"
  "actions (upd_reservation k f s) = actions s"
  "action_reservations (upd_reservation k f s) = action_reservations s"
  "outbox (upd_reservation k f s) = outbox s"
  "dead_letters (upd_reservation k f s) = dead_letters s"
  "traces (upd_reservation k f s) = traces s"
  "pending_traces (upd_reservation k f s) = pending_traces s"
  "audits (upd_reservation k f s) = audits s"
  "evidence (upd_reservation k f s) = evidence s"
  "tool_calls (upd_reservation k f s) = tool_calls s"
  "executions (upd_reservation k f s) = executions s"
  "waits (upd_reservation k f s) = waits s"
  "subworkflow_calls (upd_reservation k f s) = subworkflow_calls s"
  "model_calls (upd_reservation k f s) = model_calls s"
  "model_call_links (upd_reservation k f s) = model_call_links s"
  "projects (upd_reservation k f s) = projects s"
  "environments (upd_reservation k f s) = environments s"
  "systems (upd_reservation k f s) = systems s"
  "workloads (upd_reservation k f s) = workloads s"
  "agents (upd_reservation k f s) = agents s"
  "policy_bundles (upd_reservation k f s) = policy_bundles s"
  "policy_decisions (upd_reservation k f s) = policy_decisions s"
  "budget_scopes (upd_reservation k f s) = budget_scopes s"
  "delegations (upd_reservation k f s) = delegations s"
  "workflows (upd_reservation k f s) = workflows s"
  "versions (upd_reservation k f s) = versions s"
  "deployments (upd_reservation k f s) = deployments s"
  "checkpoints (upd_reservation k f s) = checkpoints s"
  "node_policies (upd_reservation k f s) = node_policies s"
  "tools (upd_reservation k f s) = tools s"
  "model_routes (upd_reservation k f s) = model_routes s"
  "profiles (upd_reservation k f s) = profiles s"
  "simulation_calls (upd_reservation k f s) = simulation_calls s"
  "replays (upd_reservation k f s) = replays s"
  "attempts (upd_reservation k f s) = attempts s"
  by (simp_all add: upd_reservation_def)

lemma upd_model_call_frame [simp]:
  "now (upd_model_call k f s) = now s"
  "tenant (upd_model_call k f s) = tenant s"
  "autoflush (upd_model_call k f s) = autoflush s"
  "next_uuid (upd_model_call k f s) = next_uuid s"
  "budgets (upd_model_call k f s) = budgets s"
  "reservations (upd_model_call k f s) = reservations s"
  "approvals (upd_model_call k f s) = approvals s"
  "runs (upd_model_call k f s) = runs s"
  "intents (upd_model_call k f s) = intents s"
  "actions (upd_model_call k f s) = actions s"
  "action_reservations (upd_model_call k f s) = action_reservations s"
  "outbox (upd_model_call k f s) = outbox s"
  "dead_letters (upd_model_call k f s) = dead_letters s"
  "traces (upd_model_call k f s) = traces s"
  "pending_traces (upd_model_call k f s) = pending_traces s"
  "audits (upd_model_call k f s) = audits s"
  "evidence (upd_model_call k f s) = evidence s"
  "tool_calls (upd_model_call k f s) = tool_calls s"
  "executions (upd_model_call k f s) = executions s"
  "waits (upd_model_call k f s) = waits s"
  "subworkflow_calls (upd_model_call k f s) = subworkflow_calls s"
  "model_call_links (upd_model_call k f s) = model_call_links s"
  "projects (upd_model_call k f s) = projects s"
  "environments (upd_model_call k f s) = environments s"
  "systems (upd_model_call k f s) = systems s"
  "workloads (upd_model_call k f s) = workloads s"
  "agents (upd_model_call k f s) = agents s"
  "policy_bundles (upd_model_call k f s) = policy_bundles s"
  "policy_decisions (upd_model_call k f s) = policy_decisions s"
  "budget_scopes (upd_model_call k f s) = budget_scopes s"
  "delegations (upd_model_call k f s) = delegations s"
  "workflows (upd_model_call k f s) = workflows s"
  "versions (upd_model_call k f s) = versions s"
  "deployments (upd_model_call k f s) = deployments s"
  "checkpoints (upd_model_call k f s) = checkpoints s"
  "node_policies (upd_model_call k f s) = node_policies s"
  "tools (upd_model_call k f s) = tools s"
  "model_routes (upd_model_call k f s) = model_routes s"
  "profiles (upd_model_call k f s) = profiles s"
  "simulation_calls (upd_model_call k f s) = simulation_calls s"
  "replays (upd_model_call k f s) = replays s"
  "attempts (upd_model_call k f s) = attempts s"
  by (simp_all add: upd_model_call_def)

lemma upd_deployment_frame [simp]:
  "now (upd_deployment k f s) = now s"
  "tenant (upd_deployment k f s) = tenant s"
  "autoflush (upd_deployment k f s) = autoflush s"
  "next_uuid (upd_deployment k f s) = next_uuid s"
  "budgets (upd_deployment k f s) = budgets s"
  "reservations (upd_deployment k f s) = reservations s"
  "approvals (upd_deployment k f s) = approvals s"
  "runs (upd_deployment k f s) = runs s"
  "intents (upd_deployment k f s) = intents s"
  "actions (upd_deployment k f s) = actions s"
  "action_reservations (upd_deployment k f s) = action_reservations s"
  "outbox (upd_deployment k f s) = outbox s"
  "dead_letters (upd_deployment k f s) = dead_letters s"
  "traces (upd_deployment k f s) = traces s"
  "pending_traces (upd_deployment k f s) = pending_traces s"
  "audits (upd_deployment k f s) = audits s"
  "evidence (upd_deployment k f s) = evidence s"
  "tool_calls (upd_deployment k f s) = tool_calls s"
  "executions (upd_deployment k f s) = executions s"
  "waits (upd_deployment k f s) = waits s"
  "subworkflow_calls (upd_deployment k f s) = subworkflow_calls s"
  "model_calls (upd_deployment k f s) = model_calls s"
  "model_call_links (upd_deployment k f s) = model_call_links s"
  "projects (upd_deployment k f s) = projects s"
  "environments (upd_deployment k f s) = environments s"
  "systems (upd_deployment k f s) = systems s"
  "workloads (upd_deployment k f s) = workloads s"
  "agents (upd_deployment k f s) = agents s"
  "policy_bundles (upd_deployment k f s) = policy_bundles s"
  "policy_decisions (upd_deployment k f s) = policy_decisions s"
  "budget_scopes (upd_deployment k f s) = budget_scopes s"
  "delegations (upd_deployment k f s) = delegations s"
  "workflows (upd_deployment k f s) = workflows s"
  "versions (upd_deployment k f s) = versions s"
  "checkpoints (upd_deployment k f s) = checkpoints s"
  "node_policies (upd_deployment k f s) = node_policies s"
  "tools (upd_deployment k f s) = tools s"
  "model_routes (upd_deployment k f s) = model_routes s"
  "profiles (upd_deployment k f s) = profiles s"
  "simulation_calls (upd_deployment k f s) = simulation_calls s"
  "replays (upd_deployment k f s) = replays s"
  "attempts (upd_deployment k f s) = attempts s"
  by (simp_all add: upd_deployment_def)

lemma upd_version_frame [simp]:
  "now (upd_version k f s) = now s"
  "tenant (upd_version k f s) = tenant s"
  "autoflush (upd_version k f s) = autoflush s"
  "next_uuid (upd_version k f s) = next_uuid s"
  "budgets (upd_version k f s) = budgets s"
  "reservations (upd_version k f s) = reservations s"
  "approvals (upd_version k f s) = approvals s"
  "runs (upd_version k f s) = runs s"
  "intents (upd_version k f s) = intents s"
  "actions (upd_version k f s) = actions s"
  "action_reservations (upd_version k f s) = action_reservations s"
  "outbox (upd_version k f s) = outbox s"
  "dead_letters (upd_version k f s) = dead_letters s"
  "traces (upd_version k f s) = traces s"
  "pending_traces (upd_version k f s) = pending_traces s"
  "audits (upd_version k f s) = audits s"
  "evidence (upd_version k f s) = evidence s"
  "tool_calls (upd_version k f s) = tool_calls s"
  "executions (upd_version k f s) = executions s"
  "waits (upd_version k f s) = waits s"
  "subworkflow_calls (upd_version k f s) = subworkflow_calls s"
  "model_calls (upd_version k f s) = model_calls s"
  "model_call_links (upd_version k f s) = model_call_links s"
  "projects (upd_version k f s) = projects s"
  "environments (upd_version k f s) = environments s"
  "systems (upd_version k f s) = systems s"
  "workloads (upd_version k f s) = workloads s"
  "agents (upd_version k f s) = agents s"
  "policy_bundles (upd_version k f s) = policy_bundles s"
  "policy_decisions (upd_version k f s) = policy_decisions s"
  "budget_scopes (upd_version k f s) = budget_scopes s"
  "delegations (upd_version k f s) = delegations s"
  "workflows (upd_version k f s) = workflows s"
  "deployments (upd_version k f s) = deployments s"
  "checkpoints (upd_version k f s) = checkpoints s"
  "node_policies (upd_version k f s) = node_policies s"
  "tools (upd_version k f s) = tools s"
  "model_routes (upd_version k f s) = model_routes s"
  "profiles (upd_version k f s) = profiles s"
  "simulation_calls (upd_version k f s) = simulation_calls s"
  "replays (upd_version k f s) = replays s"
  "attempts (upd_version k f s) = attempts s"
  by (simp_all add: upd_version_def)

lemma upd_replay_frame [simp]:
  "now (upd_replay k f s) = now s"
  "tenant (upd_replay k f s) = tenant s"
  "autoflush (upd_replay k f s) = autoflush s"
  "next_uuid (upd_replay k f s) = next_uuid s"
  "budgets (upd_replay k f s) = budgets s"
  "reservations (upd_replay k f s) = reservations s"
  "approvals (upd_replay k f s) = approvals s"
  "runs (upd_replay k f s) = runs s"
  "intents (upd_replay k f s) = intents s"
  "actions (upd_replay k f s) = actions s"
  "action_reservations (upd_replay k f s) = action_reservations s"
  "outbox (upd_replay k f s) = outbox s"
  "dead_letters (upd_replay k f s) = dead_letters s"
  "traces (upd_replay k f s) = traces s"
  "pending_traces (upd_replay k f s) = pending_traces s"
  "audits (upd_replay k f s) = audits s"
  "evidence (upd_replay k f s) = evidence s"
  "tool_calls (upd_replay k f s) = tool_calls s"
  "executions (upd_replay k f s) = executions s"
  "waits (upd_replay k f s) = waits s"
  "subworkflow_calls (upd_replay k f s) = subworkflow_calls s"
  "model_calls (upd_replay k f s) = model_calls s"
  "model_call_links (upd_replay k f s) = model_call_links s"
  "projects (upd_replay k f s) = projects s"
  "environments (upd_replay k f s) = environments s"
  "systems (upd_replay k f s) = systems s"
  "workloads (upd_replay k f s) = workloads s"
  "agents (upd_replay k f s) = agents s"
  "policy_bundles (upd_replay k f s) = policy_bundles s"
  "policy_decisions (upd_replay k f s) = policy_decisions s"
  "budget_scopes (upd_replay k f s) = budget_scopes s"
  "delegations (upd_replay k f s) = delegations s"
  "workflows (upd_replay k f s) = workflows s"
  "versions (upd_replay k f s) = versions s"
  "deployments (upd_replay k f s) = deployments s"
  "checkpoints (upd_replay k f s) = checkpoints s"
  "node_policies (upd_replay k f s) = node_policies s"
  "tools (upd_replay k f s) = tools s"
  "model_routes (upd_replay k f s) = model_routes s"
  "profiles (upd_replay k f s) = profiles s"
  "simulation_calls (upd_replay k f s) = simulation_calls s"
  "attempts (upd_replay k f s) = attempts s"
  by (simp_all add: upd_replay_def)

lemma uuid4_frame [simp]:
  "now (snd (uuid4 s)) = now s"
  "tenant (snd (uuid4 s)) = tenant s"
  "autoflush (snd (uuid4 s)) = autoflush s"
  "budgets (snd (uuid4 s)) = budgets s"
  "reservations (snd (uuid4 s)) = reservations s"
  "approvals (snd (uuid4 s)) = approvals s"
  "runs (snd (uuid4 s)) = runs s"
  "intents (snd (uuid4 s)) = intents s"
  "actions (snd (uuid4 s)) = actions s"
  "action_reservations (snd (uuid4 s)) = action_reservations s"
  "outbox (snd (uuid4 s)) = outbox s"
  "dead_letters (snd (uuid4 s)) = dead_letters s"
  "traces (snd (uuid4 s)) = traces s"
  "pending_traces (snd (uuid4 s)) = pending_traces s"
  "audits (snd (uuid4 s)) = audits s"
  "evidence (snd (uuid4 s)) = evidence s"
  "tool_calls (snd (uuid4 s)) = tool_calls s"
  "executions (snd (uuid4 s)) = executions s"
  "waits (snd (uuid4 s)) = waits s"
  "subworkflow_calls (snd (uuid4 s)) = subworkflow_calls s"
  "model_calls (snd (uuid4 s)) = model_calls s"
  "model_call_links (snd (uuid4 s)) = model_call_links s"
  "projects (snd (uuid4 s)) = projects s"
  "environments (snd (uuid4 s)) = environments s"
  "systems (snd (uuid4 s)) = systems s"
  "workloads (snd (uuid4 s)) = workloads s"
  "agents (snd (uuid4 s)) = agents s"
  "policy_bundles (snd (uuid4 s)) = policy_bundles s"
  "policy_decisions (snd (uuid4 s)) = policy_decisions s"
  "budget_scopes (snd (uuid4 s)) = budget_scopes s"
  "delegations (snd (uuid4 s)) = delegations s"
  "workflows (snd (uuid4 s)) = workflows s"
  "versions (snd (uuid4 s)) = versions s"
  "deployments (snd (uuid4 s)) = deployments s"
  "checkpoints (snd (uuid4 s)) = checkpoints s"
  "node_policies (snd (uuid4 s)) = node_policies s"
  "tools (snd (uuid4 s)) = tools s"
  "model_routes (snd (uuid4 s)) = model_routes s"
  "profiles (snd (uuid4 s)) = profiles s"
  "simulation_calls (snd (uuid4 s)) = simulation_calls s"
  "replays (snd (uuid4 s)) = replays s"
  "attempts (snd (uuid4 s)) = attempts s"
  by (simp_all add: uuid4_def)

lemma add_outbox_frame [simp]:
  "now (add_outbox org topic at agg key pl av s) = now s"
  "tenant (add_outbox org topic at agg key pl av s) = tenant s"
  "autoflush (add_outbox org topic at agg key pl av s) = autoflush s"
  "budgets (add_outbox org topic at agg key pl av s) = budgets s"
  "reservations (add_outbox org topic at agg key pl av s) = reservations s"
  "approvals (add_outbox org topic at agg key pl av s) = approvals s"
  "runs (add_outbox org topic at agg key pl av s) = runs s"
  "intents (add_outbox org topic at agg key pl av s) = intents s"
  "actions (add_outbox org topic at agg key pl av s) = actions s"
  "action_reservations (add_outbox org topic at agg key pl av s) = action_reservations s"
  "dead_letters (add_outbox org topic at agg key pl av s) = dead_letters s"
  "traces (add_outbox org topic at agg key pl av s) = traces s"
  "pending_traces (add_outbox org topic at agg key pl av s) = pending_traces s"
  "audits (add_outbox org topic at agg key pl av s) = audits s"
  "evidence (add_outbox org topic at agg key pl av s) = evidence s"
  "tool_calls (add_outbox org topic at agg key pl av s) = tool_calls s"
  "executions (add_outbox org topic at agg key pl av s) = executions s"
  "waits (add_outbox org topic at agg key pl av s) = waits s"
  "subworkflow_calls (add_outbox org topic at agg key pl av s) = subworkflow_calls s"
  "model_calls (add_outbox org topic at agg key pl av s) = model_calls s"
  "model_call_links (add_outbox org topic at agg key pl av s) = model_call_links s"
  "projects (add_outbox org topic at agg key pl av s) = projects s"
  "environments (add_outbox org topic at agg key pl av s) = environments s"
  "systems (add_outbox org topic at agg key pl av s) = systems s"
  "workloads (add_outbox org topic at agg key pl av s) = workloads s"
  "agents (add_outbox org topic at agg key pl av s) = agents s"
  "policy_bundles (add_outbox org topic at agg key pl av s) = policy_bundles s"
  "policy_decisions (add_outbox org topic at agg key pl av s) = policy_decisions s"
  "budget_scopes (add_outbox org topic at agg key pl av s) = budget_scopes s"
  "delegations (add_outbox org topic at agg key pl av s) = delegations s"
  "workflows (add_outbox org topic at agg key pl av s) = workflows s"
  "versions (add_outbox org topic at agg key pl av s) = versions s"
  "deployments (add_outbox org topic at agg key pl av s) = deployments s"
  "checkpoints (add_outbox org topic at agg key pl av s) = checkpoints s"
  "node_policies (add_outbox org topic at agg key pl av s) = node_policies s"
  "tools (add_outbox org topic at agg key pl av s) = tools s"
  "model_routes (add_outbox org topic at agg key pl av s) = model_routes s"
  "profiles (add_outbox org topic at agg key pl av s) = profiles s"
  "simulation_calls (add_outbox org topic at agg key pl av s) = simulation_calls s"
  "replays (add_outbox org topic at agg key pl av s) = replays s"
  "attempts (add_outbox org topic at agg key pl av s) = attempts s"
  by (simp_all add: add_outbox_def uuid4_def Let_def)

lemma flush_frame [simp]:
  "now (flush s) = now s"
  "tenant (flush s) = tenant s"
  "autoflush (flush s) = autoflush s"
  "next_uuid (flush s) = next_uuid s"
  "budgets (flush s) = budgets s"
  "reservations (flush s) = reservations s"
  "approvals (flush s) = approvals s"
  "runs (flush s) = runs s"
  "intents (flush s) = intents s"
  "actions (flush s) = actions s"
  "action_reservations (flush s) = action_reservations s"
  "outbox (flush s) = outbox s"
  "dead_letters (flush s) = dead_letters s"
  "audits (flush s) = audits s"
  "evidence (flush s) = evidence s"
  "tool_calls (flush s) = tool_calls s"
  "executions (flush s) = executions s"
  "waits (flush s) = waits s"
  "subworkflow_calls (flush s) = subworkflow_calls s"
  "model_calls (flush s) = model_calls s"
  "model_call_links (flush s) = model_call_links s"
  "projects (flush s) = projects s"
  "environments (flush s) = environments s"
  "systems (flush s) = systems s"
  "workloads (flush s) = workloads s"
  "agents (flush s) = agents s"
  "policy_bundles (flush s) = policy_bundles s"
  "policy_decisions (flush s) = policy_decisions s"
  "budget_scopes (flush s) = budget_scopes s"
  "delegations (flush s) = delegations s"
  "workflows (flush s) = workflows s"
  "versions (flush s) = versions s"
  "deployments (flush s) = deployments s"
  "checkpoints (flush s) = checkpoints s"
  "node_policies (flush s) = node_policies s"
  "tools (flush s) = tools s"
  "model_routes (flush s) = model_routes s"
  "profiles (flush s) = profiles s"
  "simulation_calls (flush s) = simulation_calls s"
  "replays (flush s) = replays s"
  "attempts (flush s) = attempts s"
  by (simp_all add: flush_def)

lemma next_uuid_mono [simp]:
  "next_uuid (add_outbox org topic at agg key pl av s) = Suc (next_uuid s)"
  by (simp add: add_outbox_def uuid4_def Let_def)

lemma written_rows [simp]:
  "actions (upd_action k fa s) = tupd act_id k (\<lambda>a. (fa a)\<lparr>act_updated_at := now s\<rparr>) (actions s)"
  "runs (upd_run k fr s) = tupd run_id k (\<lambda>r. (fr r)\<lparr>run_updated_at := now s\<rparr>) (runs s)"
  "approvals (upd_approval k fp s) = tupd ap_id k fp (approvals s)"
  "intents (upd_intent k fi s) = tupd int_id k fi (intents s)"
  "outbox (upd_outbox k fo s) = tupd ob_id k fo (outbox s)"
  "dead_letters (upd_dead_letter k fd s) = tupd dl_id k (\<lambda>d. (fd d)\<lparr>dl_updated_at := now s\<rparr>) (dead_letters s)"
  "tool_calls (upd_tool_call k fc s) = tupd tc_id k fc (tool_calls s)"
  "budgets (upd_budget k fb s) = tupd bud_id k fb (budgets s)"
  "reservations (upd_reservation k fv s) = tupd rv_id k fv (reservations s)"
  by (simp_all add: upd_action_def upd_run_def upd_approval_def upd_intent_def upd_outbox_def
      upd_dead_letter_def upd_tool_call_def upd_budget_def upd_reservation_def)

text \<open>The rows written by the workflow services.\<close>

lemma written_workflow_rows:
  "executions (upd_execution k fe s) = tupd ex_id k fe (executions s)"
  "waits (upd_wait k fw s) = tupd wt_id k fw (waits s)"
  "subworkflow_calls (upd_subworkflow_call k fs s) = tupd sc_id k fs (subworkflow_calls s)"
  "model_calls (upd_model_call k fm s) = tupd mc_id k (\<lambda>c. (fm c)\<lparr>mc_updated_at := now s\<rparr>) (model_calls s)"
  "replays (upd_replay k fr s) = tupd rp_id k fr (replays s)"
  "evaluations (upd_evaluation k fv s) = tupd el_id k fv (evaluations s)"
  by (simp_all add: upd_execution_def upd_wait_def upd_subworkflow_call_def upd_model_call_def upd_replay_def upd_evaluation_def)

end
