(* ===== verification/RS_Routing.thy ===== *)
theory RS_Routing
  imports Complex_Main RS_Workflow_Contract RS_Store
begin

section \<open>Routing of a workflow execution\<close>

text \<open>
  Models the deterministic core of \<open>services/workflow_engine.py\<close>: the reading and comparison of
  condition values, which nodes are ready, where a node leads, and what the completion of a node
  does to the execution. State values are JSON; a float is its \<open>repr\<close>, so its exact value and the
  \<open>str\<close> of a list or an object, which no accepted definition uses, are parameters, and so is
  pydantic's reading of a stored definition and of the input of an action (\<open>Inl\<close> its errors).
  The step relation \<open>route_step\<close> is the abstract engine: one ready node is completed
  below the step limit.
\<close>

subsection \<open>Python values\<close>

record py_values =
  float_value :: "string \<Rightarrow> rat"
  container_str :: "json \<Rightarrow> string"
  parse_definition :: "json \<Rightarrow> wf_definition option"
  parse_action_input :: "json \<Rightarrow> json + governed_action_input"

fun num_value :: "py_values \<Rightarrow> json \<Rightarrow> rat option" where
  "num_value p (JInt i) = Some (of_int i)"
| "num_value p (JBool b) = Some (if b then 1 else 0)"
| "num_value p (JFloat t) = Some (float_value p t)"
| "num_value p _ = None"

text \<open>\<open>==\<close>: numbers by value, whatever their type; lists by items; objects without regard to order.\<close>

fun py_eq :: "py_values \<Rightarrow> json \<Rightarrow> json \<Rightarrow> bool"
  and py_eq_items :: "py_values \<Rightarrow> json list \<Rightarrow> json list \<Rightarrow> bool"
  and py_eq_members :: "py_values \<Rightarrow> (string \<times> json) list \<Rightarrow> (string \<times> json) list \<Rightarrow> bool" where
  "py_eq p JNull b = (b = JNull)"
| "py_eq p (JStr t) b = (b = JStr t)"
| "py_eq p (JInt i) b = (num_value p b = Some (of_int i))"
| "py_eq p (JBool x) b = (num_value p b = Some (if x then 1 else 0))"
| "py_eq p (JFloat t) b = (num_value p b = Some (float_value p t))"
| "py_eq p (JArr xs) b = (case b of JArr ys \<Rightarrow> py_eq_items p xs ys | _ \<Rightarrow> False)"
| "py_eq p (JObj kvs) b = (case b of JObj lvs \<Rightarrow> length kvs = length lvs \<and> py_eq_members p kvs lvs | _ \<Rightarrow> False)"
| "py_eq_items p [] ys = (ys = [])"
| "py_eq_items p (x # xs) ys = (case ys of [] \<Rightarrow> False | y # ys' \<Rightarrow> py_eq p x y \<and> py_eq_items p xs ys')"
| "py_eq_members p [] lvs = True"
| "py_eq_members p ((k, x) # kvs) lvs =
     ((case map_of lvs k of None \<Rightarrow> False | Some y \<Rightarrow> py_eq p x y) \<and> py_eq_members p kvs lvs)"

datatype py_order = Below | Same | Above

definition order_of :: "'a::linorder \<Rightarrow> 'a \<Rightarrow> py_order" where
  "order_of a b = (if a < b then Below else if a = b then Same else Above)"

text \<open>The order of \<open><\<close> and its kin; \<open>None\<close> is their \<open>TypeError\<close>.\<close>

fun py_cmp :: "py_values \<Rightarrow> json \<Rightarrow> json \<Rightarrow> py_order option"
  and py_cmp_items :: "py_values \<Rightarrow> json list \<Rightarrow> json list \<Rightarrow> py_order option" where
  "py_cmp p JNull b = None"
| "py_cmp p (JObj kvs) b = None"
| "py_cmp p (JStr t) b = (case b of JStr u \<Rightarrow> Some (order_of t u) | _ \<Rightarrow> None)"
| "py_cmp p (JInt i) b = map_option (order_of (of_int i)) (num_value p b)"
| "py_cmp p (JBool x) b = map_option (order_of (if x then 1 else 0)) (num_value p b)"
| "py_cmp p (JFloat t) b = map_option (order_of (float_value p t)) (num_value p b)"
| "py_cmp p (JArr xs) b = (case b of JArr ys \<Rightarrow> py_cmp_items p xs ys | _ \<Rightarrow> None)"
| "py_cmp_items p [] ys = Some (if ys = [] then Same else Below)"
| "py_cmp_items p (x # xs) ys =
     (case ys of [] \<Rightarrow> Some Above
      | y # ys' \<Rightarrow> if py_eq p x y then py_cmp_items p xs ys' else py_cmp p x y)"

definition py_str :: "py_values \<Rightarrow> json \<Rightarrow> string" where
  "py_str p j =
     (case j of JStr t \<Rightarrow> t | JInt i \<Rightarrow> int_str i | JBool b \<Rightarrow> if b then ''True'' else ''False''
      | JNull \<Rightarrow> ''None'' | JFloat t \<Rightarrow> t | _ \<Rightarrow> container_str p j)"

text \<open>\<open>int()\<close> of a text: surrounding white space, a sign, digits with single underscores between them.\<close>

fun dec_digits :: "string \<Rightarrow> bool" where
  "dec_digits [] = False"
| "dec_digits [c] = is_digit c"
| "dec_digits (c # d # cs) =
     (is_digit c \<and> (if d = CHR ''_'' then dec_digits cs else dec_digits (d # cs)))"

definition int_text :: "string \<Rightarrow> rs_error + int" where
  "int_text t =
     (let u = strip is_space t;
          (sign, w) = (case u of c # cs \<Rightarrow> if c = CHR ''-'' then (-1, cs) else if c = CHR ''+'' then (1, cs) else (1, u)
                       | [] \<Rightarrow> (1, u))
      in if dec_digits w then Inr (sign * int (nat_of_digits 0 (filter is_digit w)))
         else Inl (PyValueError ''invalid literal for int()''))"

definition py_int :: "py_values \<Rightarrow> json \<Rightarrow> rs_error + int" where
  "py_int p j =
     (case j of JInt i \<Rightarrow> Inr i | JBool b \<Rightarrow> Inr (if b then 1 else 0)
      | JFloat t \<Rightarrow> (let x = float_value p t in Inr (if 0 \<le> x then \<lfloor>x\<rfloor> else \<lceil>x\<rceil>))
      | JStr t \<Rightarrow> int_text t
      | _ \<Rightarrow> Inl (PyTypeError ''int() argument''))"

text \<open>\<open>text.split(".")\<close>\<close>

fun split_on :: "char \<Rightarrow> string \<Rightarrow> string list" where
  "split_on c [] = [[]]"
| "split_on c (x # xs) =
     (if x = c then [] # split_on c xs
      else case split_on c xs of [] \<Rightarrow> [[x]] | w # ws \<Rightarrow> (x # w) # ws)"

text \<open>Assignment to a key of a dictionary.\<close>

fun dict_set :: "'k \<Rightarrow> 'v \<Rightarrow> ('k \<times> 'v) list \<Rightarrow> ('k \<times> 'v) list" where
  "dict_set k v [] = [(k, v)]"
| "dict_set k v ((l, w) # kvs) = (if l = k then (l, v) # kvs else (l, w) # dict_set k v kvs)"

lemma map_of_dict_set: "map_of (dict_set k v kvs) = (map_of kvs)(k \<mapsto> v)"
  by (induction kvs) (auto simp: fun_eq_iff)

subsection \<open>Conditions\<close>

text \<open>\<open>node.config[k]\<close>, a \<open>KeyError\<close> where it is missing.\<close>

definition config_item :: "wf_node \<Rightarrow> string \<Rightarrow> (json \<Rightarrow> rs_error + 'a) \<Rightarrow> rs_error + 'a" where
  "config_item n k f = fetch (cfg n k) (PyKeyError k) f"

fun condition_path :: "json \<Rightarrow> string list \<Rightarrow> json" where
  "condition_path j [] = j"
| "condition_path j (part # parts) =
     (case jlookup part j of None \<Rightarrow> JNull | Some k \<Rightarrow> condition_path k parts)"

definition condition_value :: "json \<Rightarrow> string \<Rightarrow> json" where
  "condition_value state field = condition_path state (split_on (CHR ''.'') field)"

definition compare_values :: "py_values \<Rightarrow> json \<Rightarrow> string \<Rightarrow> json \<Rightarrow> rs_error + bool" where
  "compare_values p left operator right =
     (if operator = ''eq'' then Inr (py_eq p left right)
      else if operator = ''ne'' then Inr (\<not> py_eq p left right)
      else if operator = ''gt'' then Inr (py_cmp p left right = Some Above)
      else if operator = ''gte'' then Inr (py_cmp p left right \<in> {Some Above, Some Same})
      else if operator = ''lt'' then Inr (py_cmp p left right = Some Below)
      else if operator = ''lte'' then Inr (py_cmp p left right \<in> {Some Below, Some Same})
      else Inl (PyValueError (''unsupported condition operator: '' @ operator)))"

subsection \<open>Readiness and successors\<close>

definition node_ready :: "wf_node \<Rightarrow> wf_definition \<Rightarrow> string list \<Rightarrow> bool" where
  "node_ready n d completed \<longleftrightarrow>
     (node_type n \<noteq> JOIN \<or>
      list_all (\<lambda>e. edge_source e \<in> set completed) (filter (\<lambda>e. edge_target e = node_id n) (def_edges d)))"

definition branch_target :: "wf_edge list \<Rightarrow> string option \<Rightarrow> rs_error + string list" where
  "branch_target out branch =
     fetch (find (\<lambda>e. Some (edge_branch e) = branch) out) PyStopIteration (\<lambda>e. Inr [edge_target e])"

definition loop_count :: "(string \<times> int) list \<Rightarrow> string \<Rightarrow> int" where
  "loop_count counts v = (case map_of counts v of None \<Rightarrow> 0 | Some c \<Rightarrow> c)"

definition next_nodes ::
  "py_values \<Rightarrow> wf_node \<Rightarrow> wf_definition \<Rightarrow> json \<Rightarrow> (string \<times> int) list \<Rightarrow> string option \<Rightarrow>
     rs_error + string list \<times> (string \<times> int) list" where
  "next_nodes p n d state counts wait_resolution =
     (let out = filter (\<lambda>e. edge_source e = node_id n) (def_edges d) in
      case node_type n of
        OUTPUT \<Rightarrow> Inr ([], counts)
      | CONDITION \<Rightarrow>
          fetch (cfg n ''field'') (PyKeyError ''field'') (\<lambda>field.
          fetch (cfg n ''operator'') (PyKeyError ''operator'') (\<lambda>operator.
          fetch (cfg n ''value'') (PyKeyError ''value'') (\<lambda>value.
          rbind (compare_values p (condition_value state (py_str p field)) (py_str p operator) value) (\<lambda>holds.
          rbind (branch_target out (Some (if holds then ''true'' else ''false''))) (\<lambda>ts.
          Inr (ts, counts))))))
      | PARALLEL \<Rightarrow> Inr (sort (map edge_target out), counts)
      | BOUNDED_LOOP \<Rightarrow>
          fetch (cfg n ''max_iterations'') (PyKeyError ''max_iterations'') (\<lambda>limit.
          rbind (py_int p limit) (\<lambda>maximum.
          let count = loop_count counts (node_id n);
              (counts', branch) = (if count < maximum then (dict_set (node_id n) (count + 1) counts, ''continue'')
                                   else (counts, ''exit''))
          in rbind (branch_target out (Some branch)) (\<lambda>ts. Inr (ts, counts'))))
      | APPROVAL \<Rightarrow> rbind (branch_target out wait_resolution) (\<lambda>ts. Inr (ts, counts))
      | _ \<Rightarrow> (case out of [] \<Rightarrow> Inl PyIndexError | e # _ \<Rightarrow> Inr ([edge_target e], counts)))"

subsection \<open>The completion of a node\<close>

text \<open>The nodes of \<open>current_nodes\<close> that can run, in the order in which they are taken.\<close>

definition ready_nodes :: "wf_definition \<Rightarrow> execution_row \<Rightarrow> string list" where
  "ready_nodes d e =
     filter (\<lambda>v. case node_by_id d v of None \<Rightarrow> False | Some n \<Rightarrow> node_ready n d (ex_completed_nodes e))
       (sort (remdups (ex_current_nodes e)))"

definition complete_node :: "string \<Rightarrow> string list \<Rightarrow> (string \<times> int) list \<Rightarrow> execution_row \<Rightarrow> execution_row" where
  "complete_node v nexts counts e =
     e\<lparr>ex_current_nodes := sort (remdups (filter (\<lambda>w. w \<noteq> v) (ex_current_nodes e) @ nexts)),
       ex_completed_nodes := (if v \<in> set (ex_completed_nodes e) then ex_completed_nodes e
                              else ex_completed_nodes e @ [v]),
       ex_path := ex_path e @ [v], ex_loop_counts := counts, ex_step_count := ex_step_count e + 1,
       ex_version := ex_version e + 1, ex_claim_hash := None, ex_lease_expires_at := None\<rparr>"

text \<open>The abstract engine: below the step limit, the completion of one ready node.\<close>

inductive route_step :: "py_values \<Rightarrow> wf_definition \<Rightarrow> execution_row \<Rightarrow> execution_row \<Rightarrow> bool" for p d where
  complete: "ex_step_count e < ex_max_steps e \<Longrightarrow> v \<in> set (ready_nodes d e) \<Longrightarrow> node_by_id d v = Some n \<Longrightarrow>
    next_nodes p n d state (ex_loop_counts e) w = Inr (ts, counts) \<Longrightarrow>
    route_step p d e (complete_node v ts counts e)"

inductive_cases route_stepE: "route_step p d e e'"


subsection \<open>Accepted definitions can be routed\<close>

lemma no_errors_Cons: "no_errors (x # xs) \<longleftrightarrow> \<not> is_error x \<and> no_errors xs"
  by (simp add: no_errors_def)

lemma valid_type_issues:
  assumes "validate_workflow_definition H d dep = Inr r" and "result_valid r" and "n \<in> set (def_nodes d)"
  obtains typed where
    "type_issues n (filter (\<lambda>e. edge_source e = node_id n) (def_edges d))
       (filter (\<lambda>e. edge_target e = node_id n) (def_edges d)) (''nodes.'' @ node_id n) = Inr typed"
    and "no_errors typed"
proof -
  from assms(1,2) obtain per_node where "all_node_issues dep d (def_nodes d) = Inr per_node" "no_errors per_node"
    by (rule validate_parts)
  from all_node_issues_none [OF this assms(3)] obtain js where "node_issues dep d n = Inr js" "no_errors js"
    by blast
  with valid_known_edges [OF assms(1,2)] that show thesis
    by (auto simp: node_issues_def Let_def outgoing_def incoming_def no_errors_Cons split: sum.splits if_splits)
qed

lemma branch_target_ok:
  assumes "branches out = bs" and "b \<in> set bs"
  shows "\<exists>e \<in> set out. branch_target out (Some b) = Inr [edge_target e]"
proof -
  have "set bs = edge_branch ` set out" using assms(1) by (auto simp: branches_def)
  with assms(2) have "find (\<lambda>e. Some (edge_branch e) = Some b) out \<noteq> None"
    by (auto simp: find_None_iff)
  then show ?thesis by (auto simp: branch_target_def handler_eval dest: find_Some_iff')
qed

lemma compare_values_ok:
  "member_text (Some v) [''eq'', ''ne'', ''gt'', ''gte'', ''lt'', ''lte''] \<Longrightarrow>
     \<exists>b. compare_values p x (py_str p v) y = Inr b"
  by (auto simp: member_text_def compare_values_def py_str_def split: json.splits)

text \<open>
  A good answer: successors along the node's edges, none exactly for an output, and at most one more
  round of the node's own loop, within its limit.
\<close>

definition routed ::
  "wf_definition \<Rightarrow> wf_node \<Rightarrow> (string \<times> int) list \<Rightarrow> rs_error + string list \<times> (string \<times> int) list \<Rightarrow> bool" where
  "routed d n counts answer \<longleftrightarrow> (\<exists>ts counts'. answer = Inr (ts, counts') \<and>
     set ts \<subseteq> edge_target ` {e \<in> set (def_edges d). edge_source e = node_id n} \<and>
     (ts = [] \<longleftrightarrow> node_type n = OUTPUT) \<and>
     (counts' = counts \<or> (node_type n = BOUNDED_LOOP \<and> (\<exists>m. cfg n ''max_iterations'' = Some (JInt m) \<and>
        loop_count counts (node_id n) < m \<and>
        counts' = dict_set (node_id n) (loop_count counts (node_id n) + 1) counts))))"

lemma routed_along:
  "e \<in> set (filter (\<lambda>e. edge_source e = node_id n) (def_edges d)) \<Longrightarrow> node_type n \<noteq> OUTPUT \<Longrightarrow>
     routed d n counts (Inr ([edge_target e], counts))"
  by (auto simp: routed_def)

lemma routed_single:
  assumes "length (filter (\<lambda>e. edge_source e = node_id n) (def_edges d)) = 1"
    and "node_type n \<notin> {OUTPUT, CONDITION, PARALLEL, BOUNDED_LOOP, APPROVAL}"
  shows "routed d n counts (next_nodes p n d state counts w)"
proof -
  let ?out = "filter (\<lambda>e. edge_source e = node_id n) (def_edges d)"
  obtain e where e: "?out = [e]" using assms(1) by (auto simp: length_Suc_conv)
  have "next_nodes p n d state counts w = Inr ([edge_target e], counts)"
    using assms(2) e by (cases "node_type n") (simp_all add: next_nodes_def)
  with routed_along [of e n d counts] e assms(2) show ?thesis by simp
qed

lemma routed_condition:
  assumes "condition_issues n (filter (\<lambda>e. edge_source e = node_id n) (def_edges d)) loc = Inr typed"
    and "no_errors typed" and "node_type n = CONDITION"
  shows "routed d n counts (next_nodes p n d state counts w)"
proof -
  let ?out = "filter (\<lambda>e. edge_source e = node_id n) (def_edges d)"
  have br: "branches ?out = [''false'', ''true'']"
    and op: "member_text (cfg n ''operator'') [''eq'', ''ne'', ''gt'', ''gte'', ''lt'', ''lte'']"
    and "nonempty_text (cfg n ''field'')" "cfg n ''value'' \<noteq> None"
    using assms by (auto simp: condition_issues_def split: if_splits)
  then obtain field operator val where cfg: "cfg n ''field'' = Some field" "cfg n ''operator'' = Some operator"
    "cfg n ''value'' = Some val" by (auto simp: nonempty_text_def member_text_def split: option.splits)
  obtain b where b: "compare_values p (condition_value state (py_str p field)) (py_str p operator) val = Inr b"
    using compare_values_ok op cfg by metis
  have "(if b then ''true'' else ''false'') \<in> set [''false'', ''true'']" by simp
  from branch_target_ok [OF br this] obtain e where e: "e \<in> set ?out"
    "branch_target ?out (Some (if b then ''true'' else ''false'')) = Inr [edge_target e]" ..
  have "next_nodes p n d state counts w = Inr ([edge_target e], counts)"
    using assms(3) cfg b e(2) by (simp add: next_nodes_def handler_eval)
  with routed_along [OF e(1)] assms(3) show ?thesis by simp
qed

lemma routed_loop:
  assumes "no_errors (loop_issues n (filter (\<lambda>e. edge_source e = node_id n) (def_edges d)) loc)"
    and "node_type n = BOUNDED_LOOP"
  shows "routed d n counts (next_nodes p n d state counts w)"
proof -
  let ?out = "filter (\<lambda>e. edge_source e = node_id n) (def_edges d)"
  have br: "branches ?out = [''continue'', ''exit'']" and "positive_int (cfg n ''max_iterations'')"
    using assms(1) by (auto simp: loop_issues_def LOOP_LIMIT_KEYS_def)
  then obtain m where m: "cfg n ''max_iterations'' = Some (JInt m)"
    by (auto simp: positive_int_def split: option.splits json.splits)
  obtain e f where "e \<in> set ?out" "branch_target ?out (Some ''continue'') = Inr [edge_target e]"
    and "f \<in> set ?out" "branch_target ?out (Some ''exit'') = Inr [edge_target f]"
    using branch_target_ok [OF br] by (meson list.set_intros)
  with assms(2) m show ?thesis by (auto simp: routed_def next_nodes_def handler_eval py_int_def Let_def)
qed

lemma next_nodes_routed:
  assumes "validate_workflow_definition H d dep = Inr r" and "result_valid r" and "n \<in> set (def_nodes d)"
    and "node_type n = APPROVAL \<Longrightarrow> w \<in> {Some ''approved'', Some ''denied''}"
  shows "routed d n counts (next_nodes p n d state counts w)"
proof -
  let ?out = "filter (\<lambda>e. edge_source e = node_id n) (def_edges d)"
  from assms(1-3) obtain typed where typed:
      "type_issues n ?out (filter (\<lambda>e. edge_target e = node_id n) (def_edges d)) (''nodes.'' @ node_id n) = Inr typed"
      "no_errors typed" by (rule valid_type_issues)
  have default: "one_default es \<Longrightarrow> length es = 1" for es by (auto simp: one_default_def split: list.splits)
  consider "node_type n = OUTPUT" | "node_type n = CONDITION" | "node_type n = PARALLEL"
    | "node_type n = BOUNDED_LOOP" | "node_type n = APPROVAL"
    | "node_type n \<notin> {OUTPUT, CONDITION, PARALLEL, BOUNDED_LOOP, APPROVAL}" by blast
  then show ?thesis
  proof cases
    case 1
    then show ?thesis by (simp add: routed_def next_nodes_def)
  next
    case 2
    with typed show ?thesis using routed_condition by (simp add: type_issues_def)
  next
    case 3
    with typed have "?out \<noteq> []" by (auto simp: type_issues_def)
    with 3 show ?thesis by (auto simp: routed_def next_nodes_def sort_Nil_iff)
  next
    case 4
    with typed have "no_errors (loop_issues n ?out (''nodes.'' @ node_id n))" by (simp add: type_issues_def)
    then show ?thesis using 4 by (rule routed_loop)
  next
    case 5
    with typed have br: "branches ?out = [''approved'', ''denied'']"
      by (auto simp: type_issues_def approval_issues_def split: if_splits)
    obtain e where e: "e \<in> set ?out" "branch_target ?out w = Inr [edge_target e]"
      using branch_target_ok [OF br] assms(4) 5 by auto
    with 5 routed_along [OF e(1)] show ?thesis by (simp add: next_nodes_def handler_eval)
  next
    case 6
    have "length ?out = 1"
      using 6 typed by (cases "node_type n") (auto simp: type_issues_def agent_issues_def tool_issues_def
        subworkflow_issues_def timer_issues_def event_issues_def information_issues_def dest!: default)
    with 6 show ?thesis by (rule routed_single [rotated])
  qed
qed


subsection \<open>The walk of an execution\<close>

text \<open>An accepted definition, and an execution of it as it is created.\<close>

definition accepted :: "wf_definition \<Rightarrow> bool" where
  "accepted d \<longleftrightarrow> (\<exists>H dep r. validate_workflow_definition H d dep = Inr r \<and> result_valid r)"

definition started :: "wf_definition \<Rightarrow> execution_row \<Rightarrow> bool" where
  "started d e \<longleftrightarrow> ex_current_nodes e = [entry_node_id d] \<and> ex_completed_nodes e = [] \<and> ex_path e = [] \<and>
     ex_loop_counts e = [] \<and> ex_step_count e = 0 \<and> 0 \<le> ex_max_steps e"

text \<open>Where a node of a walk may come from: it is the entry or follows an edge from the walk so far.\<close>

definition follows :: "wf_definition \<Rightarrow> string list \<Rightarrow> string \<Rightarrow> bool" where
  "follows d path v \<longleftrightarrow> known d v \<and>
     (v = entry_node_id d \<or> (\<exists>u \<in> set path. (u, v) \<in> set (edge_pairs (def_edges d))))"

definition joined :: "wf_definition \<Rightarrow> string list \<Rightarrow> string \<Rightarrow> bool" where
  "joined d path v \<longleftrightarrow> (\<forall>n \<in> set (def_nodes d). node_id n = v \<longrightarrow> node_type n = JOIN \<longrightarrow>
     (\<forall>u. (u, v) \<in> set (edge_pairs (def_edges d)) \<longrightarrow> u \<in> set path))"

definition loops_bounded :: "wf_definition \<Rightarrow> execution_row \<Rightarrow> bool" where
  "loops_bounded d e \<longleftrightarrow> (\<forall>n \<in> set (def_nodes d). \<forall>m. node_type n = BOUNDED_LOOP \<longrightarrow>
     cfg n ''max_iterations'' = Some (JInt m) \<longrightarrow> loop_count (ex_loop_counts e) (node_id n) \<le> max m 0)"

definition walk_ok :: "wf_definition \<Rightarrow> execution_row \<Rightarrow> bool" where
  "walk_ok d e \<longleftrightarrow> accepted d \<and>
     (\<forall>v \<in> set (ex_current_nodes e). follows d (ex_path e) v) \<and>
     (\<forall>i < length (ex_path e). follows d (take i (ex_path e)) (ex_path e ! i) \<and>
        joined d (take i (ex_path e)) (ex_path e ! i)) \<and>
     distinct (ex_completed_nodes e) \<and> set (ex_completed_nodes e) = set (ex_path e) \<and>
     ex_step_count e = int (length (ex_path e)) \<and> ex_step_count e \<le> ex_max_steps e \<and> loops_bounded d e"

lemma accepted_node_by_id: "accepted d \<Longrightarrow> node_by_id d v = Some n \<Longrightarrow> m \<in> set (def_nodes d) \<Longrightarrow> node_id m = v \<Longrightarrow> m = n"
  unfolding accepted_def
  by (elim exE conjE validate_parts) (auto dest!: duplicate_node_issues_none node_by_id_SomeD intro: distinct_key_eq)

lemma accepted_known: "accepted d \<Longrightarrow> e \<in> set (def_edges d) \<Longrightarrow> known d (edge_target e)"
  unfolding accepted_def by (elim exE conjE validate_parts) (auto dest!: edge_issues_none)

lemma next_nodes_sound:
  assumes "next_nodes p n d state counts w = Inr (ts, counts')"
  shows "set ts \<subseteq> edge_target ` {e \<in> set (def_edges d). edge_source e = node_id n}"
    and "counts' = counts \<or> (node_type n = BOUNDED_LOOP \<and> (\<exists>limit m. cfg n ''max_iterations'' = Some limit \<and>
       py_int p limit = Inr m \<and> loop_count counts (node_id n) < m \<and>
       counts' = dict_set (node_id n) (loop_count counts (node_id n) + 1) counts))"
proof -
  have pick: "\<exists>e \<in> set (def_edges d). edge_source e = node_id n \<and> us = [edge_target e]"
    if "branch_target (filter (\<lambda>e. edge_source e = node_id n) (def_edges d)) b = Inr us" for b us
    using that by (auto simp: branch_target_def ok_iff dest!: find_Some_iff')
  have first: "\<exists>e \<in> set (def_edges d). edge_source e = node_id n \<and> us = [edge_target e]"
    if "(case filter (\<lambda>e. edge_source e = node_id n) (def_edges d) of [] \<Rightarrow> Inl PyIndexError
         | e # _ \<Rightarrow> Inr ([edge_target e], counts)) = Inr (us, counts')" for us
    using that filter_is_subset [of "\<lambda>e. edge_source e = node_id n" "def_edges d"]
    by (auto split: list.splits simp: filter_eq_Cons_iff)
  show "set ts \<subseteq> edge_target ` {e \<in> set (def_edges d). edge_source e = node_id n}"
    using assms unfolding next_nodes_def Let_def
    by (cases "node_type n") (auto simp: ok_iff dest!: pick first split: if_splits)
  show "counts' = counts \<or> (node_type n = BOUNDED_LOOP \<and> (\<exists>limit m. cfg n ''max_iterations'' = Some limit \<and>
       py_int p limit = Inr m \<and> loop_count counts (node_id n) < m \<and>
       counts' = dict_set (node_id n) (loop_count counts (node_id n) + 1) counts))"
    using assms unfolding next_nodes_def Let_def
    by (cases "node_type n") (auto simp: ok_iff split: if_splits list.splits)
qed

lemma follows_mono: "follows d path v \<Longrightarrow> follows d (path @ rest) v"
  by (auto simp: follows_def)

lemma loop_count_dict_set:
  "loop_count (dict_set k c counts) v = (if v = k then c else loop_count counts v)"
  by (simp add: loop_count_def map_of_dict_set)

lemma walk_step:
  assumes "route_step p d e e'" and ok: "walk_ok d e"
  shows "walk_ok d e'"
  using assms(1)
proof (cases rule: route_step.cases)
  case (complete v n state w ts counts)
  have acc: "accepted d" using ok by (simp add: walk_ok_def)
  have n: "n \<in> set (def_nodes d)" "node_id n = v" using complete(4) by (auto dest: node_by_id_SomeD)
  have v: "v \<in> set (ex_current_nodes e)" "node_ready n d (ex_completed_nodes e)"
    using complete(3,4) by (auto simp: ready_nodes_def)
  have path: "ex_path e' = ex_path e @ [v]" by (simp add: complete(1) complete_node_def)
  have current: "follows d (ex_path e') u" if "u \<in> set (ex_current_nodes e')" for u
  proof (cases "u \<in> set ts")
    case True
    then obtain a where "a \<in> set (def_edges d)" "edge_source a = v" "edge_target a = u"
      using next_nodes_sound(1) [OF complete(5)] n(2) by auto
    with accepted_known [OF acc] show ?thesis by (force simp: follows_def path edge_pairs_def)
  next
    case False
    with that ok show ?thesis by (auto simp: complete(1) complete_node_def walk_ok_def intro: follows_mono)
  qed
  have "joined d (ex_path e) v" unfolding joined_def
  proof (intro ballI allI impI)
    fix m u assume "m \<in> set (def_nodes d)" "node_id m = v" "node_type m = JOIN" "(u, v) \<in> set (edge_pairs (def_edges d))"
    moreover from this have "m = n" using accepted_node_by_id [OF acc complete(4)] by blast
    ultimately show "u \<in> set (ex_path e)"
      using v(2) ok n(2) by (auto simp: node_ready_def walk_ok_def list_all_iff edge_pairs_def)
  qed
  moreover have "follows d (ex_path e) v" using v(1) ok by (auto simp: walk_ok_def)
  ultimately have walked: "\<forall>i < length (ex_path e'). follows d (take i (ex_path e')) (ex_path e' ! i) \<and>
      joined d (take i (ex_path e')) (ex_path e' ! i)"
    using ok by (auto simp: path walk_ok_def nth_append less_Suc_eq)
  have "loops_bounded d e'" unfolding loops_bounded_def
  proof (intro ballI allI impI)
    fix m k assume m: "m \<in> set (def_nodes d)" "node_type m = BOUNDED_LOOP" "cfg m ''max_iterations'' = Some (JInt k)"
    then have "loop_count (ex_loop_counts e) (node_id m) \<le> max k 0" using ok by (auto simp: walk_ok_def loops_bounded_def)
    moreover have "m = n" if "node_id m = v" using that accepted_node_by_id [OF acc complete(4) m(1)] by blast
    ultimately show "loop_count (ex_loop_counts e') (node_id m) \<le> max k 0"
      using next_nodes_sound(2) [OF complete(5)] m n(2)
      by (auto simp: complete(1) complete_node_def loop_count_dict_set py_int_def)
  qed
  with acc current walked ok complete(2) show ?thesis
    by (auto simp: walk_ok_def complete(1) complete_node_def)
qed

lemma accepted_entry: "accepted d \<Longrightarrow> known d (entry_node_id d)"
  unfolding accepted_def known_def set_map
  by (elim exE conjE validate_parts, assumption) (drule entry_issues_none, metis imageI)

lemma walk_started: "accepted d \<Longrightarrow> started d e \<Longrightarrow> walk_ok d e"
  using accepted_entry
  by (auto simp: walk_ok_def started_def follows_def loops_bounded_def loop_count_def)

interpretation route: step_invariant "route_step p d" "walk_ok d" for p d
  by unfold_locales (rule walk_step)

subsection \<open>A deterministic run\<close>

text \<open>The engine on a fixed state, taking the first ready node each time.\<close>

definition take_first :: "py_values \<Rightarrow> wf_definition \<Rightarrow> json \<Rightarrow> execution_row \<Rightarrow> execution_row option" where
  "take_first p d state e =
     (if ex_step_count e \<ge> ex_max_steps e then None
      else case ready_nodes d e of [] \<Rightarrow> None
      | v # _ \<Rightarrow> (case node_by_id d v of None \<Rightarrow> None
          | Some n \<Rightarrow> (case next_nodes p n d state (ex_loop_counts e) None of Inl _ \<Rightarrow> None
              | Inr (ts, counts) \<Rightarrow> Some (complete_node v ts counts e))))"

fun take_steps :: "nat \<Rightarrow> py_values \<Rightarrow> wf_definition \<Rightarrow> json \<Rightarrow> execution_row \<Rightarrow> execution_row option" where
  "take_steps 0 p d state e = Some e"
| "take_steps (Suc k) p d state e = Option.bind (take_first p d state e) (take_steps k p d state)"

lemma take_first_route: "take_first p d state e = Some e' \<Longrightarrow> route_step p d e e'"
  by (auto simp: take_first_def split: if_splits list.splits option.splits sum.splits intro!: route_step.complete)

lemma take_steps_route: "take_steps k p d state e = Some e' \<Longrightarrow> (route_step p d ^^ k) e e'"
proof (induction k arbitrary: e)
  case (Suc k)
  then obtain f where "take_first p d state e = Some f" "take_steps k p d state f = Some e'"
    by (auto simp: bind_eq_Some_conv)
  with Suc.IH show ?case by (blast intro: relpowp_Suc_I2 take_first_route)
qed simp

definition sample_execution :: "string \<Rightarrow> int \<Rightarrow> execution_row" where
  "sample_execution entry steps = \<lparr>ex_id = 1, ex_org = 7, ex_run_id = 2, ex_version_id = 3, ex_deployment_id = 4,
     ex_evaluation_id = None, ex_scenario_id = None, ex_forked_from = None, ex_mode = ''live'', ex_profile_id = None,
     ex_status = ExQueued, ex_version = 1, ex_content_digest = ''c'', ex_encrypted_state = ''s'', ex_state_digest = ''d'',
     ex_current_nodes = [entry], ex_completed_nodes = [], ex_path = [], ex_loop_counts = [], ex_step_count = 0,
     ex_max_steps = steps, ex_deadline_at = 0, ex_worker_name = None, ex_claim_hash = None,
     ex_lease_expires_at = None, ex_started_at = None, ex_completed_at = None, ex_error_code = None\<rparr>"

definition sample_values :: py_values where
  "sample_values = \<lparr>float_value = (\<lambda>t. 0), container_str = (\<lambda>j. []),
     parse_definition = (\<lambda>j. if j = definition_json sample_definition then Some sample_definition else None),
     parse_action_input = (\<lambda>j. Inl (JArr []))\<rparr>"

subsection \<open>Properties\<close>

text \<open>
  C31. Routing never raises: for a node of an accepted definition (an approval node being given
  one of its two resolutions) the engine finds successors, all of them nodes of the definition one
  edge away, none exactly for an output node; it counts one more round at most, of this node, and
  only below its limit.
\<close>

theorem routing_total:
  assumes "validate_workflow_definition H d dep = Inr r" and "result_valid r" and "n \<in> set (def_nodes d)"
    and "node_type n = APPROVAL \<longrightarrow> w = Some ''approved'' \<or> w = Some ''denied''"
  shows "\<exists>ts counts'. next_nodes p n d state counts w = Inr (ts, counts') \<and> (ts = [] \<longleftrightarrow> node_type n = OUTPUT) \<and>
    (\<forall>t \<in> set ts. known d t \<and> (node_id n, t) \<in> set (edge_pairs (def_edges d))) \<and>
    (counts' = counts \<or> (\<exists>m. node_type n = BOUNDED_LOOP \<and> cfg n ''max_iterations'' = Some (JInt m) \<and>
       loop_count counts (node_id n) < m \<and>
       counts' = dict_set (node_id n) (loop_count counts (node_id n) + 1) counts))"
proof -
  have acc: "accepted d" using assms by (auto simp: accepted_def)
  have "routed d n counts (next_nodes p n d state counts w)"
    by (rule next_nodes_routed [OF assms(1-3)]) (use assms(4) in blast)
  then obtain ts counts' where answer: "next_nodes p n d state counts w = Inr (ts, counts')" "ts = [] \<longleftrightarrow> node_type n = OUTPUT"
      "set ts \<subseteq> edge_target ` {e \<in> set (def_edges d). edge_source e = node_id n}"
    and counts: "counts' = counts \<or> (node_type n = BOUNDED_LOOP \<and> (\<exists>m. cfg n ''max_iterations'' = Some (JInt m) \<and>
       loop_count counts (node_id n) < m \<and>
       counts' = dict_set (node_id n) (loop_count counts (node_id n) + 1) counts))"
    unfolding routed_def by (elim exE conjE)
  have "known d t \<and> (node_id n, t) \<in> set (edge_pairs (def_edges d))" if "t \<in> set ts" for t
    using that answer(3) accepted_known [OF acc] by (force simp: edge_pairs_def)
  with answer(1,2) counts show ?thesis by blast
qed

theorem routing_total_witness:
  "\<exists>ts counts'. next_nodes sample_values (sample_node ''a'' INPUT) sample_definition JNull [] None = Inr (ts, counts') \<and>
     ts \<noteq> []"
proof -
  obtain r where r: "validate_workflow_definition (\<lambda>s. s) sample_definition True = Inr r" "result_valid r"
    using sample_definition_valid by (auto split: sum.splits)
  have n: "sample_node ''a'' INPUT \<in> set (def_nodes sample_definition)" by (simp add: sample_definition_def)
  from routing_total [OF r n, of None sample_values JNull "[]"] show ?thesis by (auto simp: sample_node_def)
qed



text \<open>A definition with a loop around a fan-out of two conditions, joined before the next round.\<close>

definition sample_condition :: "string \<Rightarrow> wf_node" where
  "sample_condition v = (sample_node v CONDITION)
     \<lparr>node_config := [(''field'', JStr ''x''), (''operator'', JStr ''eq''), (''value'', JNull)]\<rparr>"

definition sample_loop :: "string \<Rightarrow> wf_node" where
  "sample_loop v = (sample_node v BOUNDED_LOOP)
     \<lparr>node_config := [(''max_iterations'', JInt 2), (''max_duration_seconds'', JInt 60),
        (''max_tokens'', JInt 1), (''max_cost_minor'', JInt 1)]\<rparr>"

definition fan_definition :: wf_definition where
  "fan_definition = sample_definition\<lparr>entry_node_id := ''in'',
     def_nodes := [sample_node ''in'' INPUT, sample_loop ''l'', sample_node ''p'' PARALLEL, sample_condition ''a'',
       sample_condition ''z'', sample_node ''j'' JOIN, sample_node ''out'' OUTPUT],
     def_edges := [sample_edge ''e1'' ''in'' ''l'' ''default'', sample_edge ''e2'' ''l'' ''p'' ''continue'',
       sample_edge ''e3'' ''l'' ''out'' ''exit'', sample_edge ''e4'' ''p'' ''a'' ''default'',
       sample_edge ''e5'' ''p'' ''z'' ''default'', sample_edge ''e6'' ''a'' ''j'' ''true'',
       sample_edge ''e7'' ''a'' ''j'' ''false'', sample_edge ''e8'' ''z'' ''j'' ''true'',
       sample_edge ''e9'' ''z'' ''j'' ''false'', sample_edge ''f1'' ''j'' ''l'' ''default'']\<rparr>"

definition cycle_definition :: wf_definition where
  "cycle_definition = sample_definition\<lparr>entry_node_id := ''in'',
     def_nodes := [sample_node ''in'' INPUT, sample_loop ''l'', sample_condition ''a'', sample_condition ''b'',
       sample_node ''out'' OUTPUT],
     def_edges := [sample_edge ''e1'' ''in'' ''l'' ''default'', sample_edge ''e2'' ''l'' ''a'' ''continue'',
       sample_edge ''e3'' ''l'' ''b'' ''exit'', sample_edge ''e4'' ''a'' ''l'' ''true'',
       sample_edge ''e5'' ''a'' ''out'' ''false'', sample_edge ''e6'' ''b'' ''l'' ''true'',
       sample_edge ''e7'' ''b'' ''out'' ''false'']\<rparr>"

definition executable_definition :: "wf_definition \<Rightarrow> bool" where
  "executable_definition d =
     (case validate_workflow_definition (\<lambda>s. s) d True of Inr r \<Rightarrow> result_valid r \<and> result_executable r | Inl _ \<Rightarrow> False)"

lemma executable_definitionI:
  assumes "all_node_issues True d (def_nodes d) = Inr []" and "duplicate_node_issues 0 [] (def_nodes d) = []"
    and "edge_issues d 0 [] (def_edges d) = []" and "entry_issues d = []" and "output_nodes d \<noteq> []"
    and "reachability_issues d = []" and "cycle_issues d = []" and "mix_issues d = []"
  shows "executable_definition d"
  using assms by (simp add: executable_definition_def validate_workflow_definition_def issue_if_def)

lemma fan_executable: "executable_definition fan_definition"
  by (rule executable_definitionI) code_simp+

lemma cycle_executable: "executable_definition cycle_definition"
  by (rule executable_definitionI) code_simp+

lemmas route_eval = take_first_def ready_nodes_def node_by_id_def tget_def node_ready_def next_nodes_def cfg_def
  handler_eval sample_definition_def sample_node_def sample_loop_def sample_condition_def sample_edge_def
  branch_target_def py_int_def loop_count_def complete_node_def condition_value_def compare_values_def jlookup_def
  py_str_def

lemma cycle_round:
  assumes "ex_current_nodes e = [''l'']" and "ex_loop_counts e = [(''l'', 2)]" and "ex_step_count e + 2 \<le> ex_max_steps e"
  obtains e' where "take_steps 2 sample_values cycle_definition JNull e = Some e'" "ex_current_nodes e' = [''l'']"
    "ex_loop_counts e' = [(''l'', 2)]" "ex_step_count e' = ex_step_count e + 2" "ex_max_steps e' = ex_max_steps e"
  using assms that by (simp add: route_eval cycle_definition_def numeral_2_eq_2)

lemma cycle_rounds:
  assumes "ex_current_nodes e = [''l'']" and "ex_loop_counts e = [(''l'', 2)]"
    and "ex_step_count e + 2 * int k \<le> ex_max_steps e"
  shows "\<exists>e'. (route_step sample_values cycle_definition ^^ (2 * k)) e e' \<and> ex_current_nodes e' = [''l''] \<and>
    ex_loop_counts e' = [(''l'', 2)]"
  using assms
proof (induction k arbitrary: e)
  case (Suc k)
  have "ex_step_count e + 2 \<le> ex_max_steps e" using Suc.prems(3) by simp
  from cycle_round [OF Suc.prems(1,2) this] obtain f where
    f: "take_steps 2 sample_values cycle_definition JNull e = Some f" "ex_current_nodes f = [''l'']"
    "ex_loop_counts f = [(''l'', 2)]" "ex_step_count f = ex_step_count e + 2" "ex_max_steps f = ex_max_steps e" .
  from Suc.IH [of f] Suc.prems(3) f(2-5) obtain e' where
    e': "(route_step sample_values cycle_definition ^^ (2 * k)) f e'" "ex_current_nodes e' = [''l'']"
    "ex_loop_counts e' = [(''l'', 2)]" by auto
  have "(route_step sample_values cycle_definition ^^ (2 + 2 * k)) e e'"
    unfolding relpowp_add using take_steps_route [OF f(1)] e'(1) by (rule relcomppI)
  with e'(2,3) show ?case by auto
qed auto

lemma cycle_start:
  obtains e where "take_steps 5 sample_values cycle_definition JNull (sample_execution ''in'' (5 + int k)) = Some e"
    "ex_current_nodes e = [''l'']" "ex_loop_counts e = [(''l'', 2)]" "ex_step_count e = 5" "ex_max_steps e = 5 + int k"
  using that by (simp add: route_eval cycle_definition_def sample_execution_def eval_nat_numeral)

lemma fan_start:
  obtains e where "take_steps 10 sample_values fan_definition JNull (sample_execution ''in'' 10) = Some e"
    "ex_path e = [''in'', ''l'', ''p'', ''a'', ''z'', ''j'', ''l'', ''p'', ''a'', ''j'']"
  using that by (simp add: route_eval fan_definition_def sample_execution_def eval_nat_numeral)




subsection \<open>Where loops do not do what they are meant to\<close>

text \<open>
  A loop's limit does not bound every cycle through it: the validator accepts a cycle that
  leaves the loop by its exit edge and comes back. There the engine goes round and round, with the
  loop's count standing at its limit of two, for as long as the step limit lets it.
\<close>

theorem exit_cycle_not_bounded:
  "executable_definition cycle_definition \<and>
   (\<forall>k. \<exists>e. (route_step sample_values cycle_definition ^^ (5 + 2 * k)) (sample_execution ''in'' (5 + int (2 * k))) e \<and>
      ex_current_nodes e = [''l''] \<and> loop_count (ex_loop_counts e) ''l'' = 2)"
proof (intro conjI allI)
  fix k
  obtain f where f: "take_steps 5 sample_values cycle_definition JNull (sample_execution ''in'' (5 + int (2 * k))) = Some f"
    "ex_current_nodes f = [''l'']" "ex_loop_counts f = [(''l'', 2)]" "ex_step_count f = 5" "ex_max_steps f = 5 + int (2 * k)"
    by (rule cycle_start)
  from cycle_rounds [OF f(2,3), of k] f(4,5) obtain e where
    e: "(route_step sample_values cycle_definition ^^ (2 * k)) f e" "ex_current_nodes e = [''l'']"
    "ex_loop_counts e = [(''l'', 2)]" by auto
  have "(route_step sample_values cycle_definition ^^ (5 + 2 * k)) (sample_execution ''in'' (5 + int (2 * k))) e"
    unfolding relpowp_add using take_steps_route [OF f(1)] e(1) by (rule relcomppI)
  with e(2,3) show "\<exists>e. (route_step sample_values cycle_definition ^^ (5 + 2 * k))
      (sample_execution ''in'' (5 + int (2 * k))) e \<and> ex_current_nodes e = [''l''] \<and> loop_count (ex_loop_counts e) ''l'' = 2"
    by (auto simp: loop_count_def)
qed (rule cycle_executable)

text \<open>
  A join inside a loop does not wait after the first round: completed nodes are never
  forgotten, so in the second round the join runs as soon as one of its predecessors has, before
  the other has run again.
\<close>

theorem join_does_not_wait_again:
  "executable_definition fan_definition \<and> (''z'', ''j'') \<in> set (edge_pairs (def_edges fan_definition)) \<and>
   (\<exists>e. (route_step sample_values fan_definition ^^ 10) (sample_execution ''in'' 10) e \<and>
      count_list (ex_path e) ''j'' = 2 \<and> count_list (ex_path e) ''z'' = 1)"
proof (intro conjI)
  show "(''z'', ''j'') \<in> set (edge_pairs (def_edges fan_definition))"
    by (simp add: edge_pairs_def fan_definition_def sample_edge_def)
  obtain e where "take_steps 10 sample_values fan_definition JNull (sample_execution ''in'' 10) = Some e"
    "ex_path e = [''in'', ''l'', ''p'', ''a'', ''z'', ''j'', ''l'', ''p'', ''a'', ''j'']" by (rule fan_start)
  then show "\<exists>e. (route_step sample_values fan_definition ^^ 10) (sample_execution ''in'' 10) e \<and>
      count_list (ex_path e) ''j'' = 2 \<and> count_list (ex_path e) ''z'' = 1"
    by (intro exI [of _ e]) (simp add: take_steps_route)
qed (rule fan_executable)

end
