(* ===== verification/RS_Policy.thy ===== *)
theory RS_Policy
  imports RS_Contracts
begin

section \<open>Policy evaluation\<close>

text \<open>
  Models \<open>packages/policy/runsigil_policy/engine.py\<close>. Reading the raw document into
  \<open>PolicyBundleDocument\<close> is pydantic's and is the environment's \<open>parse_bundle\<close>; the
  rest of \<open>evaluate\<close> is here: the fail-closed checks, the scan for the first rule that
  applies and the default denial.
\<close>

definition rule_applies :: "policy_context \<Rightarrow> policy_rule \<Rightarrow> bool" where
  "rule_applies c r \<longleftrightarrow>
     rule_action_type r = ctx_action_type c \<and>
     ctx_environment c \<in> set (rule_environments r) \<and> ctx_risk c \<in> set (rule_risks r) \<and>
     (case rule_maximum_amount_minor r of None \<Rightarrow> True | Some m \<Rightarrow> ctx_amount_minor c \<le> m)"

fun scan_rules :: "policy_context \<Rightarrow> digest \<Rightarrow> policy_rule list \<Rightarrow> policy_decision" where
  "scan_rules c dig [] =
     \<lparr>dec_effect = DENY, dec_reason_code = ''default_deny'',
      dec_reason = ''No policy rule authorizes this action.'',
      dec_policy_digest = dig, dec_expires_at = ctx_occurred_at c + minutes 10\<rparr>"
| "scan_rules c dig (r # rs) =
     (if \<not> rule_applies c r then scan_rules c dig rs
      else \<lparr>dec_effect = rule_effect r, dec_reason_code = rule_id r, dec_reason = rule_reason r,
            dec_policy_digest = dig, dec_expires_at = ctx_occurred_at c + minutes 10\<rparr>)"

definition evaluate :: "env \<Rightarrow> json option \<Rightarrow> policy_context \<Rightarrow> rs_error + policy_decision" where
  "evaluate v raw_bundle c =
     (case raw_bundle of
        None \<Rightarrow> Inl (rs_err POLICY_UNAVAILABLE ''No active policy bundle covers this action.'' 503)
      | Some raw \<Rightarrow>
         (case parse_bundle v raw of
            None \<Rightarrow> Inl (rs_err POLICY_UNAVAILABLE ''The active policy bundle is invalid.'' 503)
          | Some b \<Rightarrow>
              if \<not> bundle_enabled b
              then Inl (rs_err POLICY_UNAVAILABLE ''The active policy bundle is disabled.'' 503)
              else if (case bundle_valid_until b of None \<Rightarrow> False | Some t \<Rightarrow> t \<le> ctx_occurred_at c)
              then Inl (rs_err POLICY_UNAVAILABLE ''The active policy bundle has expired.'' 503)
              else Inr (scan_rules c (digest_of v (bundle_json b)) (bundle_rules b))))"

subsection \<open>The scan returns the first rule that applies\<close>

lemma scan_rules_common [simp]:
  "dec_policy_digest (scan_rules c dig rs) = dig"
  "dec_expires_at (scan_rules c dig rs) = ctx_occurred_at c + minutes 10"
  by (induction rs) auto

lemma scan_rules_effect:
  "dec_effect (scan_rules c dig rs) \<noteq> DENY \<Longrightarrow>
     \<exists>pre r post. rs = pre @ r # post \<and> (\<forall>q \<in> set pre. \<not> rule_applies c q) \<and> rule_applies c r \<and>
       dec_effect (scan_rules c dig rs) = rule_effect r \<and>
       dec_reason_code (scan_rules c dig rs) = rule_id r"
proof (induction rs)
  case (Cons r rs)
  show ?case
  proof (cases "rule_applies c r")
    case True
    then show ?thesis by (intro exI [of _ "[]"]) auto
  next
    case False
    with Cons obtain pre q post where "rs = pre @ q # post"
      "\<forall>p \<in> set pre. \<not> rule_applies c p" "rule_applies c q"
      "dec_effect (scan_rules c dig rs) = rule_effect q"
      "dec_reason_code (scan_rules c dig rs) = rule_id q" by auto
    with False show ?thesis by (intro exI [of _ "r # pre"]) auto
  qed
qed simp

lemma evaluate_InrD:
  "evaluate v raw c = Inr dec \<Longrightarrow>
     \<exists>j b. raw = Some j \<and> parse_bundle v j = Some b \<and> bundle_enabled b \<and>
       (\<forall>t. bundle_valid_until b = Some t \<longrightarrow> ctx_occurred_at c < t) \<and>
       dec = scan_rules c (digest_of v (bundle_json b)) (bundle_rules b)"
  by (auto simp: evaluate_def not_le split: option.splits if_splits)

subsection \<open>Properties\<close>

text \<open>
  C28. Policy evaluation is fail closed and first match: whenever it returns an effect
  other than denial, the document was present, readable, enabled and unexpired, and the
  effect is that of a rule that applies to the context (action type, environment, risk and
  amount) with no applicable rule before it; the decision carries the digest of that
  document and expires ten minutes later.
\<close>

theorem evaluate_fail_closed:
  assumes "evaluate v raw c = Inr dec" and "dec_effect dec \<noteq> DENY"
  shows "\<exists>j b pre r post. raw = Some j \<and> parse_bundle v j = Some b \<and> bundle_enabled b \<and>
    (\<forall>t. bundle_valid_until b = Some t \<longrightarrow> ctx_occurred_at c < t) \<and>
    bundle_rules b = pre @ r # post \<and> (\<forall>q \<in> set pre. \<not> rule_applies c q) \<and> rule_applies c r \<and>
    dec_effect dec = rule_effect r \<and> dec_reason_code dec = rule_id r \<and>
    dec_policy_digest dec = digest_of v (bundle_json b) \<and>
    dec_expires_at dec = ctx_occurred_at c + minutes 10"
proof -
  obtain j b where b: "raw = Some j" "parse_bundle v j = Some b" "bundle_enabled b"
    "\<forall>t. bundle_valid_until b = Some t \<longrightarrow> ctx_occurred_at c < t"
    and dec: "dec = scan_rules c (digest_of v (bundle_json b)) (bundle_rules b)"
    using evaluate_InrD [OF assms(1)] by blast
  with assms(2) scan_rules_effect [of c "digest_of v (bundle_json b)" "bundle_rules b"]
  obtain pre r post where "bundle_rules b = pre @ r # post"
    "\<forall>q \<in> set pre. \<not> rule_applies c q" "rule_applies c r"
    "dec_effect dec = rule_effect r" "dec_reason_code dec = rule_id r" by auto
  with b dec show ?thesis
    by (intro exI [of _ j] exI [of _ b] exI [of _ pre] exI [of _ r] exI [of _ post]) simp
qed

definition sample_context :: policy_context where
  "sample_context = \<lparr>ctx_action_type = ''demo.invoice.send'', ctx_resource = ''tool:demo.invoice.send'',
     ctx_environment = ''production'', ctx_risk = ''high'', ctx_data_classification = ''confidential'',
     ctx_actor_type = ''user'', ctx_amount_minor = 500, ctx_occurred_at = 0\<rparr>"

theorem evaluate_fail_closed_witness:
  "\<exists>j b pre r post. Some (bundle_json sample_bundle) = Some j \<and> parse_bundle sample_env j = Some b \<and>
    bundle_enabled b \<and>
    (\<forall>t. bundle_valid_until b = Some t \<longrightarrow> ctx_occurred_at sample_context < t) \<and>
    bundle_rules b = pre @ r # post \<and> (\<forall>q \<in> set pre. \<not> rule_applies sample_context q) \<and>
    rule_applies sample_context r \<and>
    dec_effect (projr (evaluate sample_env (Some (bundle_json sample_bundle)) sample_context)) = rule_effect r \<and>
    dec_reason_code (projr (evaluate sample_env (Some (bundle_json sample_bundle)) sample_context)) = rule_id r \<and>
    dec_policy_digest (projr (evaluate sample_env (Some (bundle_json sample_bundle)) sample_context)) =
      digest_of sample_env (bundle_json b) \<and>
    dec_expires_at (projr (evaluate sample_env (Some (bundle_json sample_bundle)) sample_context)) =
      ctx_occurred_at sample_context + minutes 10"
  by (rule evaluate_fail_closed)
    (simp_all add: evaluate_def sample_env_def sample_bundle_def sample_context_def rule_applies_def)

end
