(* ===== verification/RS_Ledger.thy ===== *)
theory RS_Ledger
  imports RS_Store
begin

section \<open>The trace and the audit chain\<close>

text \<open>
  Models \<open>_trace\<close> and \<open>_audit\<close> of \<open>services/governed_actions.py\<close> and
  \<open>current_trace_identifiers\<close> of \<open>packages/telemetry\<close>. A trace row takes the number
  after the largest one the run's \<^emph>\<open>stored\<close> rows have; an audit row takes the number after
  the organization's last one, the hash of that row, and the digest of its own document.
\<close>

definition current_trace_identifiers :: "env \<Rightarrow> uuid \<Rightarrow> string \<times> string \<times> string option" where
  "current_trace_identifiers v run =
     (case current_span v of
        Some (t, sp) \<Rightarrow> (hex_pad 32 t, hex_pad 16 sp, None)
      | None \<Rightarrow>
          (take 32 (sha256_hex v (''runsigil-run:'' @ uuid_str run)),
           take 16 (sha256_hex v (''runsigil-event:'' @ uuid_str run @ '':'' @ monotonic_text v)),
           None))"

text \<open>\<open>coalesce(max(sequence), 0)\<close> over the stored rows of a run that the session can read.\<close>

definition latest_sequence :: "db \<Rightarrow> uuid \<Rightarrow> int" where
  "latest_sequence s run =
     foldr (\<lambda>r m. max (tr_sequence r) m)
       (filter (\<lambda>r. tr_run_id r = run) (seen s tr_org (traces s))) 0"

definition trace_event ::
  "env \<Rightarrow> uuid \<Rightarrow> uuid \<Rightarrow> string \<Rightarrow> string \<Rightarrow> string \<Rightarrow> json \<Rightarrow> db \<Rightarrow> db" where
  "trace_event v org run node event_type status attributes s0 =
     (let s = (if autoflush s0 then flush s0 else s0);
          sequence = latest_sequence s run;
          (trace, span, parent) = current_trace_identifiers v run;
          (i, s) = uuid4 s
      in s\<lparr>pending_traces := pending_traces s @
             [\<lparr>tr_id = i, tr_org = org, tr_run_id = run, tr_node_id = node, tr_trace_id = trace,
               tr_span_id = span, tr_parent_span_id = parent, tr_event_type = event_type,
               tr_status = status, tr_sequence = sequence + 1, tr_attributes = attributes,
               tr_created_at = now s\<rparr>]\<rparr>)"

text \<open>The document a row hash is the digest of, and that digest.\<close>

definition audit_document :: "audit_row \<Rightarrow> json" where
  "audit_document r = JObj
     [(''organization_id'', juuid (au_org r)), (''sequence'', JInt (au_sequence r)),
      (''actor_id'', juuid (au_actor_id r)), (''event_type'', JStr (au_event_type r)),
      (''subject_type'', JStr (au_subject_type r)), (''subject_id'', juuid (au_subject_id r)),
      (''content_digest'', JStr (au_content_digest r)), (''metadata'', au_metadata r),
      (''previous_hash'', jopt JStr (au_previous_hash r)), (''created_at'', jtime (au_created_at r))]"

definition audit ::
  "env \<Rightarrow> uuid \<Rightarrow> uuid \<Rightarrow> string \<Rightarrow> string \<Rightarrow> uuid \<Rightarrow> digest \<Rightarrow> json \<Rightarrow> db \<Rightarrow> db" where
  "audit v org actor event_type subject_type subject content metadata s0 =
     (let s = flush s0;
          previous = last_by au_sequence (filter (\<lambda>r. au_org r = org) (seen s au_org (audits s)));
          sequence = (case previous of None \<Rightarrow> 1 | Some p \<Rightarrow> au_sequence p + 1);
          previous_hash = map_option au_row_hash previous;
          (i, s) = uuid4 s;
          row = \<lparr>au_id = i, au_org = org, au_sequence = sequence, au_actor_id = actor,
                 au_event_type = event_type, au_subject_type = subject_type,
                 au_subject_id = subject, au_content_digest = content, au_metadata = metadata,
                 au_previous_hash = previous_hash, au_row_hash = '''', au_created_at = now s\<rparr>
      in s\<lparr>audits := audits s @ [row\<lparr>au_row_hash := digest_of v (audit_document row)\<rparr>]\<rparr>)"

subsection \<open>What they leave alone\<close>

lemma trace_event_frame [simp]:
  "now (trace_event v org run node et st att s) = now s"
  "tenant (trace_event v org run node et st att s) = tenant s"
  "autoflush (trace_event v org run node et st att s) = autoflush s"
  "budgets (trace_event v org run node et st att s) = budgets s"
  "reservations (trace_event v org run node et st att s) = reservations s"
  "approvals (trace_event v org run node et st att s) = approvals s"
  "runs (trace_event v org run node et st att s) = runs s"
  "intents (trace_event v org run node et st att s) = intents s"
  "actions (trace_event v org run node et st att s) = actions s"
  "action_reservations (trace_event v org run node et st att s) = action_reservations s"
  "outbox (trace_event v org run node et st att s) = outbox s"
  "dead_letters (trace_event v org run node et st att s) = dead_letters s"
  "audits (trace_event v org run node et st att s) = audits s"
  "evidence (trace_event v org run node et st att s) = evidence s"
  "tool_calls (trace_event v org run node et st att s) = tool_calls s"
  "executions (trace_event v org run node et st att s) = executions s"
  "waits (trace_event v org run node et st att s) = waits s"
  "subworkflow_calls (trace_event v org run node et st att s) = subworkflow_calls s"
  "model_calls (trace_event v org run node et st att s) = model_calls s"
  "model_call_links (trace_event v org run node et st att s) = model_call_links s"
  "projects (trace_event v org run node et st att s) = projects s"
  "environments (trace_event v org run node et st att s) = environments s"
  "systems (trace_event v org run node et st att s) = systems s"
  "workloads (trace_event v org run node et st att s) = workloads s"
  "agents (trace_event v org run node et st att s) = agents s"
  "policy_bundles (trace_event v org run node et st att s) = policy_bundles s"
  "policy_decisions (trace_event v org run node et st att s) = policy_decisions s"
  "budget_scopes (trace_event v org run node et st att s) = budget_scopes s"
  "delegations (trace_event v org run node et st att s) = delegations s"
  "workflows (trace_event v org run node et st att s) = workflows s"
  "versions (trace_event v org run node et st att s) = versions s"
  "deployments (trace_event v org run node et st att s) = deployments s"
  "checkpoints (trace_event v org run node et st att s) = checkpoints s"
  "node_policies (trace_event v org run node et st att s) = node_policies s"
  "tools (trace_event v org run node et st att s) = tools s"
  "model_routes (trace_event v org run node et st att s) = model_routes s"
  "profiles (trace_event v org run node et st att s) = profiles s"
  "simulation_calls (trace_event v org run node et st att s) = simulation_calls s"
  "replays (trace_event v org run node et st att s) = replays s"
  "attempts (trace_event v org run node et st att s) = attempts s"
  by (simp_all add: trace_event_def uuid4_def Let_def split: prod.split)

lemma audit_frame [simp]:
  "now (audit v org actor et sty su cd md s) = now s"
  "tenant (audit v org actor et sty su cd md s) = tenant s"
  "autoflush (audit v org actor et sty su cd md s) = autoflush s"
  "budgets (audit v org actor et sty su cd md s) = budgets s"
  "reservations (audit v org actor et sty su cd md s) = reservations s"
  "approvals (audit v org actor et sty su cd md s) = approvals s"
  "runs (audit v org actor et sty su cd md s) = runs s"
  "intents (audit v org actor et sty su cd md s) = intents s"
  "actions (audit v org actor et sty su cd md s) = actions s"
  "action_reservations (audit v org actor et sty su cd md s) = action_reservations s"
  "outbox (audit v org actor et sty su cd md s) = outbox s"
  "dead_letters (audit v org actor et sty su cd md s) = dead_letters s"
  "evidence (audit v org actor et sty su cd md s) = evidence s"
  "tool_calls (audit v org actor et sty su cd md s) = tool_calls s"
  "executions (audit v org actor et sty su cd md s) = executions s"
  "waits (audit v org actor et sty su cd md s) = waits s"
  "subworkflow_calls (audit v org actor et sty su cd md s) = subworkflow_calls s"
  "model_calls (audit v org actor et sty su cd md s) = model_calls s"
  "model_call_links (audit v org actor et sty su cd md s) = model_call_links s"
  "projects (audit v org actor et sty su cd md s) = projects s"
  "environments (audit v org actor et sty su cd md s) = environments s"
  "systems (audit v org actor et sty su cd md s) = systems s"
  "workloads (audit v org actor et sty su cd md s) = workloads s"
  "agents (audit v org actor et sty su cd md s) = agents s"
  "policy_bundles (audit v org actor et sty su cd md s) = policy_bundles s"
  "policy_decisions (audit v org actor et sty su cd md s) = policy_decisions s"
  "budget_scopes (audit v org actor et sty su cd md s) = budget_scopes s"
  "delegations (audit v org actor et sty su cd md s) = delegations s"
  "workflows (audit v org actor et sty su cd md s) = workflows s"
  "versions (audit v org actor et sty su cd md s) = versions s"
  "deployments (audit v org actor et sty su cd md s) = deployments s"
  "checkpoints (audit v org actor et sty su cd md s) = checkpoints s"
  "node_policies (audit v org actor et sty su cd md s) = node_policies s"
  "tools (audit v org actor et sty su cd md s) = tools s"
  "model_routes (audit v org actor et sty su cd md s) = model_routes s"
  "profiles (audit v org actor et sty su cd md s) = profiles s"
  "simulation_calls (audit v org actor et sty su cd md s) = simulation_calls s"
  "replays (audit v org actor et sty su cd md s) = replays s"
  "attempts (audit v org actor et sty su cd md s) = attempts s"
  by (simp_all add: audit_def uuid4_def Let_def)

lemma ledger_next_uuid [simp]:
  "next_uuid (trace_event v org run node et st att s) = Suc (next_uuid s)"
  "next_uuid (audit v org actor et sty su cd md s) = Suc (next_uuid s)"
  by (simp_all add: trace_event_def audit_def uuid4_def Let_def split: prod.split)

subsection \<open>Trace numbering\<close>

lemma latest_sequence_ge:
  "r \<in> set (traces s) \<Longrightarrow> tr_run_id r = run \<Longrightarrow> rls s (tr_org r) \<Longrightarrow> tr_sequence r \<le> latest_sequence s run"
proof -
  have max: "q \<in> set rows \<Longrightarrow> tr_sequence q \<le> foldr (\<lambda>r m. max (tr_sequence r) m) rows 0" for q rows
    by (induction rows) auto
  assume "r \<in> set (traces s)" "tr_run_id r = run" "rls s (tr_org r)"
  then show ?thesis unfolding latest_sequence_def by (intro max) simp
qed

subsection \<open>The chain\<close>

text \<open>
  \<open>chained\<close> reads an organization's audit rows from the first: each has the next
  sequence number, the hash of the row before it, and the digest of its own document.
\<close>

fun chained :: "env \<Rightarrow> digest option \<Rightarrow> int \<Rightarrow> audit_row list \<Rightarrow> bool" where
  "chained v prev n [] = True"
| "chained v prev n (r # rs) =
     (au_sequence r = n \<and> au_previous_hash r = prev \<and>
      au_row_hash r = digest_of v (audit_document r) \<and>
      chained v (Some (au_row_hash r)) (n + 1) rs)"

definition audit_rows :: "db \<Rightarrow> uuid \<Rightarrow> audit_row list" where
  "audit_rows s org = filter (\<lambda>r. au_org r = org) (audits s)"

definition audit_ok :: "env \<Rightarrow> db \<Rightarrow> bool" where
  "audit_ok v s \<longleftrightarrow> (\<forall>org \<in> au_org ` set (audits s). chained v None 1 (audit_rows s org))"

lemma audit_okD: "audit_ok v s \<Longrightarrow> chained v None 1 (audit_rows s org)"
proof (cases "org \<in> au_org ` set (audits s)")
  case False
  then have "audit_rows s org = []" by (auto simp: audit_rows_def filter_empty_conv)
  then show ?thesis by simp
qed (auto simp: audit_ok_def)

lemma audit_okI: "(\<And>org. chained v None 1 (audit_rows s org)) \<Longrightarrow> audit_ok v s"
  by (simp add: audit_ok_def)

lemma chained_append:
  "chained v prev n (rs @ [r]) \<longleftrightarrow>
     chained v prev n rs \<and> au_sequence r = n + int (length rs) \<and>
     au_previous_hash r = (if rs = [] then prev else Some (au_row_hash (last rs))) \<and>
     au_row_hash r = digest_of v (audit_document r)"
  by (induction rs arbitrary: prev n) auto

lemma chained_last_by:
  assumes "chained v prev n rs"
  shows "last_by au_sequence rs = (if rs = [] then None else Some (last rs))"
  using assms
proof (induction rs arbitrary: prev n)
  case (Cons r rs)
  then have last: "last_by au_sequence rs = (if rs = [] then None else Some (last rs))"
    by auto
  have "rs \<noteq> [] \<Longrightarrow> au_sequence r < au_sequence (last rs)"
    using Cons.prems chained_append [of v "Some (au_row_hash r)" "n + 1" "butlast rs" "last rs"]
    by auto
  with last show ?case by auto
qed simp

lemma chained_last_sequence:
  "chained v prev n rs \<Longrightarrow> rs \<noteq> [] \<Longrightarrow> au_sequence (last rs) = n + int (length rs) - 1"
  using chained_append [of v prev n "butlast rs" "last rs"] by (auto simp: of_nat_diff Suc_le_eq)

lemma audit_rows_audit:
  assumes "chained v None 1 (audit_rows s org)" and "rls s org"
  shows "\<exists>r. audits (audit v org actor et sty su cd md s) = audits s @ [r] \<and> au_org r = org \<and>
     chained v None 1 (audit_rows s org @ [r]) \<and>
     au_actor_id r = actor \<and> au_event_type r = et \<and> au_subject_id r = su \<and>
     au_content_digest r = cd \<and> au_metadata r = md \<and> au_created_at r = now s"
proof -
  have same: "filter (\<lambda>r. au_org r = org) (seen (flush s) au_org (audits s)) = audit_rows s org"
    using assms(2) by (auto simp: seen_def audit_rows_def rls_def flush_def intro!: filter_cong)
  show ?thesis
    using assms(1) chained_last_by [OF assms(1)] chained_last_sequence [OF assms(1)]
    by (auto simp: audit_def uuid4_def Let_def same chained_append audit_document_def
        split: option.splits if_splits)
qed

lemma audit_ok_audit:
  assumes "audit_ok v s" and "rls s org"
  shows "audit_ok v (audit v org actor et sty su cd md s)"
proof (rule audit_okI)
  fix o'
  obtain r where "audits (audit v org actor et sty su cd md s) = audits s @ [r]" "au_org r = org"
    "chained v None 1 (audit_rows s org @ [r])"
    using audit_rows_audit [OF audit_okD [OF assms(1)] assms(2)] by blast
  then show "chained v None 1 (audit_rows (audit v org actor et sty su cd md s) o')"
    using audit_okD [OF assms(1), of o'] by (auto simp: audit_rows_def)
qed

lemma audit_ok_cong: "audits s' = audits s \<Longrightarrow> audit_ok v s' \<longleftrightarrow> audit_ok v s"
  by (simp add: audit_ok_def audit_rows_def)

subsection \<open>A row hash stands for the row\<close>

lemma audit_document_fields:
  assumes "sort_keys (audit_document r) = sort_keys (audit_document q)"
  shows "au_sequence r = au_sequence q \<and> au_previous_hash r = au_previous_hash q"
  using assms by (auto simp: audit_document_def jopt_def split: option.splits)

lemma row_hash_binds:
  assumes "\<And>a b. sha256_hex v a = sha256_hex v b \<Longrightarrow> a = b"
    and "wf_json (au_metadata r)" and "wf_json (au_metadata q)"
    and "digest_of v (audit_document r) = digest_of v (audit_document q)"
  shows "sort_keys (audit_document r) = sort_keys (audit_document q)"
proof (rule json_bytes_inject)
  show "wf_json (audit_document r)" "wf_json (audit_document q)"
    using assms(2,3) by (auto simp: audit_document_def juuid_def jtime_def jopt_def split: option.splits)
  show "json_bytes (audit_document r) = json_bytes (audit_document q)"
    using assms(1,4) by (simp add: digest_of_def json_digest_def)
qed

lemma chain_head_binds:
  assumes cf: "\<And>a b. sha256_hex v a = sha256_hex v b \<Longrightarrow> a = b"
    and "chained v None 1 xs" and "chained v None 1 ys" and "xs \<noteq> []" and "ys \<noteq> []"
    and "\<forall>r \<in> set xs. wf_json (au_metadata r)" and "\<forall>r \<in> set ys. wf_json (au_metadata r)"
    and "au_row_hash (last xs) = au_row_hash (last ys)"
  shows "map (\<lambda>r. sort_keys (audit_document r)) xs = map (\<lambda>r. sort_keys (audit_document r)) ys"
  using assms(2-)
proof (induction xs arbitrary: ys rule: rev_induct)
  case (snoc r xs)
  obtain zs q where ys: "ys = zs @ [q]" using snoc.prems(4) by (metis append_butlast_last_id)
  note ch = snoc.prems(1,2) [unfolded ys chained_append]
  have "digest_of v (audit_document r) = digest_of v (audit_document q)"
    using ch snoc.prems(7) by (simp add: ys)
  then have doc: "sort_keys (audit_document r) = sort_keys (audit_document q)"
    using row_hash_binds [OF cf] snoc.prems(5,6) by (simp add: ys)
  from audit_document_fields [OF doc] ch
  have len: "length xs = length zs" and prev: "au_previous_hash r = au_previous_hash q" by simp_all
  show ?case
  proof (cases "xs = []")
    case True
    then show ?thesis using len doc by (simp add: ys)
  next
    case False
    then have "zs \<noteq> []" using len by auto
    have "map (\<lambda>r. sort_keys (audit_document r)) xs = map (\<lambda>r. sort_keys (audit_document r)) zs"
      using False \<open>zs \<noteq> []\<close> ch prev snoc.prems(5,6) by (intro snoc.IH) (auto simp: ys)
    then show ?thesis using doc by (simp add: ys)
  qed
qed simp

subsection \<open>Properties\<close>

text \<open>
  The audit chain: if every organization's rows form a chain, appending an event for an
  organization the session may read keeps every organization's chain, and the new row is the
  last of its organization's chain, carrying the actor, event, subject, digest and metadata it was
  given and the transaction's time.
\<close>

theorem audit_extends_chain:
  assumes "audit_ok v s" and "rls s org"
  shows "audit_ok v (audit v org actor et sty su cd md s) \<and>
    (\<exists>r. audit_rows (audit v org actor et sty su cd md s) org = audit_rows s org @ [r] \<and>
       au_sequence r = int (length (audit_rows s org)) + 1 \<and>
       au_actor_id r = actor \<and> au_event_type r = et \<and> au_subject_id r = su \<and>
       au_content_digest r = cd \<and> au_metadata r = md \<and> au_created_at r = now s)"
proof -
  obtain r where "audits (audit v org actor et sty su cd md s) = audits s @ [r]" "au_org r = org"
    "chained v None 1 (audit_rows s org @ [r])" "au_actor_id r = actor" "au_event_type r = et"
    "au_subject_id r = su" "au_content_digest r = cd" "au_metadata r = md" "au_created_at r = now s"
    using audit_rows_audit [OF audit_okD [OF assms(1)] assms(2)] by blast
  then show ?thesis
    using audit_ok_audit [OF assms] by (auto simp: audit_rows_def chained_append)
qed

theorem audit_extends_chain_witness:
  "audit_ok sample_env (audit sample_env 7 1 ''e'' ''run'' 2 ''d'' (JObj []) (empty_db 100)) \<and>
    (\<exists>r. audit_rows (audit sample_env 7 1 ''e'' ''run'' 2 ''d'' (JObj []) (empty_db 100)) 7 =
         audit_rows (empty_db 100) 7 @ [r] \<and>
       au_sequence r = int (length (audit_rows (empty_db 100) 7)) + 1 \<and>
       au_actor_id r = 1 \<and> au_event_type r = ''e'' \<and> au_subject_id r = 2 \<and>
       au_content_digest r = ''d'' \<and> au_metadata r = JObj [] \<and> au_created_at r = now (empty_db 100))"
  by (rule audit_extends_chain) (simp_all add: audit_ok_def empty_db_def rls_def)


definition sample_audit :: "audit_row list" where
  "sample_audit = audits (audit sample_env 7 1 ''closed'' ''run'' 2 ''d'' (JObj [])
     (audit sample_env 7 1 ''opened'' ''run'' 2 ''d'' (JObj []) (empty_db 100)))"


end
