(* ===== verification/RS_Budgets.thy ===== *)
theory RS_Budgets
  imports RS_Store
begin

section \<open>Budgets and reservations\<close>

text \<open>
  Models \<open>services/budgets.py\<close>: which budgets apply to a request, the all-or-nothing
  reservation against every one of them, the links from an action or a model call to its
  reservations, and their release and settlement. The invariant \<open>budgets_ok\<close> says that a
  budget's reserved value is the sum of its active reservations and that spent and reserved
  value together stay within the limit.
\<close>

subsection \<open>Definitions\<close>

definition SUPPORTED_RESOURCES :: "string list" where
  "SUPPORTED_RESOURCES =
     [''currency:USD'', ''tokens'', ''requests'', ''concurrent_runs'', ''tool_actions'', ''model_calls'']"

definition RELEASABLE_RESOURCES :: "string list" where
  "RELEASABLE_RESOURCES = [''concurrent_runs'']"

record budget_context =
  bc_org :: uuid
  bc_project_id :: uuid
  bc_environment_id :: uuid
  bc_agent_id :: uuid
  bc_actor_id :: uuid
  bc_actor_type :: string
  bc_model_route_id :: "uuid option"

type_synonym estimates = "(string \<times> int) list"

definition scope_predicate :: "budget_context \<Rightarrow> budget_scope_row \<Rightarrow> bool" where
  "scope_predicate c sc \<longleftrightarrow>
     bs_type sc = ''organization'' \<or>
     (bs_type sc = ''project'' \<and> bs_project_id sc = Some (bc_project_id c)) \<or>
     (bs_type sc = ''environment'' \<and> bs_environment_id sc = Some (bc_environment_id c)) \<or>
     (bs_type sc = ''agent'' \<and> bs_agent_id sc = Some (bc_agent_id c)) \<or>
     (bc_actor_type c = ''user'' \<and> bs_type sc = ''user'' \<and> bs_user_id sc = Some (bc_actor_id c)) \<or>
     (bc_model_route_id c \<noteq> None \<and> bs_type sc = ''model_route'' \<and>
      bs_model_route_id sc = bc_model_route_id c)"

text \<open>The join of budgets with their scopes, in the order of the budget ids.\<close>

definition applicable_budgets :: "db \<Rightarrow> budget_context \<Rightarrow> estimates \<Rightarrow> budget_row list" where
  "applicable_budgets s c est =
     sort_key bud_id
       (filter (\<lambda>b. bud_org b = bc_org c \<and> bud_active b \<and> bud_resource b \<in> set (map fst est) \<and>
            list_ex (\<lambda>sc. bs_org sc = bud_org b \<and> bs_id sc = bud_scope_id b \<and> scope_predicate c sc)
              (seen s bs_org (budget_scopes s)))
          (seen s bud_org (budgets s)))"

definition estimate_for :: "estimates \<Rightarrow> budget_row \<Rightarrow> int" where
  "estimate_for est b = the (map_of est (bud_resource b))"

definition exceeds :: "estimates \<Rightarrow> budget_row \<Rightarrow> bool" where
  "exceeds est b \<longleftrightarrow> bud_spent b + bud_reserved b + estimate_for est b > bud_limit b"

fun add_reservations ::
  "uuid \<Rightarrow> uuid \<Rightarrow> estimates \<Rightarrow> timestamp \<Rightarrow> budget_row list \<Rightarrow> db \<Rightarrow> reservation_row list \<times> db" where
  "add_reservations org run est expires [] s = ([], s)"
| "add_reservations org run est expires (b # bs) s =
     (let e = estimate_for est b;
          s = upd_budget (bud_id b) (\<lambda>b. b\<lparr>bud_reserved := bud_reserved b + e\<rparr>) s;
          (i, s) = uuid4 s;
          r = \<lparr>rv_id = i, rv_org = org, rv_budget_id = bud_id b, rv_run_id = run,
               rv_resource = bud_resource b, rv_estimated = e, rv_actual = None,
               rv_status = ResActive, rv_expires_at = expires, rv_reconciled_at = None\<rparr>;
          s = s\<lparr>reservations := reservations s @ [r]\<rparr>;
          (rs, s) = add_reservations org run est expires bs s
      in (r # rs, s))"

definition reserve_budgets ::
  "budget_context \<Rightarrow> uuid \<Rightarrow> estimates \<Rightarrow> timestamp \<Rightarrow> int \<Rightarrow> db \<Rightarrow> rs_error + reservation_row list \<times> db" where
  "reserve_budgets c run est t ttl s =
     (if est = [] \<or> list_ex (\<lambda>(k, e). e \<le> 0) est
      then Inl (rs_err VALIDATION_FAILED ''Budget estimates must contain positive resource quantities.'' 422)
      else
        let unsupported = filter (\<lambda>k. k \<notin> set SUPPORTED_RESOURCES) (map fst est)
        in if unsupported \<noteq> []
           then Inl (RunSigilError VALIDATION_FAILED ''One or more budget resource units are unsupported.''
                  422 (JObj [(''resource_keys'', JArr (map JStr (sort unsupported)))]))
           else
             let bs = applicable_budgets s c est;
                 missing = filter (\<lambda>k. k \<notin> bud_resource ` set bs) (map fst est)
             in if missing \<noteq> []
                then Inl (RunSigilError BUDGET_EXHAUSTED
                       ''Required active budget coverage is unavailable; the provider was not called.''
                       409 (JObj [(''resource_keys'', JArr (map JStr (sort missing)))]))
                else case find (exceeds est) bs of
                       Some b \<Rightarrow> Inl (RunSigilError BUDGET_EXHAUSTED
                         ''An applicable budget is exhausted; the provider was not called.''
                         409 (JObj [(''resource_key'', JStr (bud_resource b))]))
                     | None \<Rightarrow> Inr (add_reservations (bc_org c) run est (t + ttl) bs s))"

definition link_action_reservations :: "uuid \<Rightarrow> uuid \<Rightarrow> reservation_row list \<Rightarrow> db \<Rightarrow> db" where
  "link_action_reservations org act rs s =
     s\<lparr>action_reservations := action_reservations s @
        map (\<lambda>r. \<lparr>ar_org = org, ar_action_id = act, ar_reservation_id = rv_id r\<rparr>) rs\<rparr>"

definition link_model_call_reservations :: "uuid \<Rightarrow> uuid \<Rightarrow> reservation_row list \<Rightarrow> db \<Rightarrow> db" where
  "link_model_call_reservations org mc rs s =
     s\<lparr>model_call_links := model_call_links s @
        map (\<lambda>r. \<lparr>mr_org = org, mr_model_call_id = mc, mr_reservation_id = rv_id r\<rparr>) rs\<rparr>"

definition reservations_of_action :: "db \<Rightarrow> uuid \<Rightarrow> uuid \<Rightarrow> reservation_row list" where
  "reservations_of_action s org act =
     sort_key rv_id
       (filter (\<lambda>r. list_ex (\<lambda>l. ar_org l = rv_org r \<and> ar_reservation_id l = rv_id r \<and>
              ar_org l = org \<and> ar_action_id l = act) (seen s ar_org (action_reservations s)))
          (seen s rv_org (reservations s)))"

definition reservations_of_model_call :: "db \<Rightarrow> uuid \<Rightarrow> uuid \<Rightarrow> reservation_row list" where
  "reservations_of_model_call s org mc =
     sort_key rv_id
       (filter (\<lambda>r. list_ex (\<lambda>l. mr_org l = rv_org r \<and> mr_reservation_id l = rv_id r \<and>
              mr_org l = org \<and> mr_model_call_id l = mc) (seen s mr_org (model_call_links s)))
          (seen s rv_org (reservations s)))"

text \<open>
  The loops over the loaded reservations. The budgets they need were loaded and locked, so a
  budget is read from the session's current state; one the session cannot read is missing.
\<close>

abbreviation get_budget where "get_budget s k \<equiv> tget bud_id k (seen s bud_org (budgets s))"

definition take_back :: "reservation_row \<Rightarrow> budget_row \<Rightarrow> db \<Rightarrow> db" where
  "take_back r b = upd_budget (bud_id b) (\<lambda>b. b\<lparr>bud_reserved := bud_reserved b - rv_estimated r\<rparr>)"

fun release_loop :: "timestamp \<Rightarrow> reservation_row list \<Rightarrow> db \<Rightarrow> rs_error + db" where
  "release_loop t [] s = Inr s"
| "release_loop t (r # rs) s =
     (if rv_status r \<noteq> ResActive then release_loop t rs s
      else
        case get_budget s (rv_budget_id r) of
          None \<Rightarrow> Inl (rs_err INVALID_TRANSITION ''A budget reservation cannot be released safely.'' 409)
        | Some b \<Rightarrow>
            if bud_reserved b < rv_estimated r
            then Inl (rs_err INVALID_TRANSITION ''A budget reservation cannot be released safely.'' 409)
            else release_loop t rs
                  (upd_reservation (rv_id r)
                    (\<lambda>r. r\<lparr>rv_actual := Some 0, rv_status := ResReleased, rv_reconciled_at := Some t\<rparr>)
                    (take_back r b s)))"

definition release_action_reservations ::
  "uuid \<Rightarrow> uuid \<Rightarrow> timestamp \<Rightarrow> db \<Rightarrow> rs_error + reservation_row list \<times> db" where
  "release_action_reservations org act t s =
     (case release_loop t (reservations_of_action s org act) s of
        Inl e \<Rightarrow> Inl e
      | Inr s' \<Rightarrow> Inr (reservations_of_action s' org act, s'))"

definition actual_of :: "estimates \<Rightarrow> bool \<Rightarrow> reservation_row \<Rightarrow> int" where
  "actual_of usage committed r =
     (case map_of usage (rv_resource r) of
        Some a \<Rightarrow> a
      | None \<Rightarrow> if committed then rv_estimated r else 0)"

definition keeps_spend :: "bool \<Rightarrow> reservation_row \<Rightarrow> bool" where
  "keeps_spend committed r \<longleftrightarrow> committed \<and> rv_resource r \<notin> set RELEASABLE_RESOURCES"

fun settle_loop ::
  "string \<Rightarrow> string \<Rightarrow> timestamp \<Rightarrow> bool \<Rightarrow> estimates \<Rightarrow> reservation_row list \<Rightarrow> db \<Rightarrow> rs_error + db" where
  "settle_loop unsafe negative t committed usage [] s = Inr s"
| "settle_loop unsafe negative t committed usage (r # rs) s =
     (if rv_status r \<noteq> ResActive then settle_loop unsafe negative t committed usage rs s
      else
        case get_budget s (rv_budget_id r) of
          None \<Rightarrow> Inl (rs_err INVALID_TRANSITION unsafe 409)
        | Some b \<Rightarrow>
            if bud_reserved b < rv_estimated r then Inl (rs_err INVALID_TRANSITION unsafe 409)
            else
              let s = take_back r b s; actual = actual_of usage committed r
              in if actual < 0 then Inl (rs_err INVALID_TRANSITION negative 409)
                 else
                   let spend = keeps_spend committed r;
                       s = upd_reservation (rv_id r) (\<lambda>r. r\<lparr>rv_actual := Some actual,
                             rv_status := (if spend then ResCommitted else ResReleased),
                             rv_reconciled_at := Some t\<rparr>) s;
                       s = (if spend
                            then upd_budget (bud_id b) (\<lambda>b. b\<lparr>bud_spent := bud_spent b + actual\<rparr>) s
                            else s)
                   in settle_loop unsafe negative t committed usage rs s)"

definition settle_action_reservations ::
  "uuid \<Rightarrow> uuid \<Rightarrow> timestamp \<Rightarrow> bool \<Rightarrow> estimates \<Rightarrow> db \<Rightarrow> rs_error + reservation_row list \<times> db" where
  "settle_action_reservations org act t committed usage s =
     (case settle_loop ''A budget reservation cannot be reconciled safely.''
             ''Actual budget usage cannot be negative.'' t committed usage
             (reservations_of_action s org act) s of
        Inl e \<Rightarrow> Inl e
      | Inr s' \<Rightarrow> Inr (reservations_of_action s' org act, s'))"

definition settle_model_call_reservations ::
  "uuid \<Rightarrow> uuid \<Rightarrow> timestamp \<Rightarrow> bool \<Rightarrow> estimates \<Rightarrow> db \<Rightarrow> rs_error + reservation_row list \<times> db" where
  "settle_model_call_reservations org mc t committed usage s =
     (case settle_loop ''A model-call budget reservation cannot be reconciled safely.''
             ''Actual model-call budget usage cannot be negative.'' t committed usage
             (reservations_of_model_call s org mc) s of
        Inl e \<Rightarrow> Inl e
      | Inr s' \<Rightarrow> Inr (reservations_of_model_call s' org mc, s'))"

subsection \<open>The invariant\<close>

definition weight :: "uuid \<Rightarrow> reservation_row \<Rightarrow> int" where
  "weight k r = (if rv_budget_id r = k \<and> rv_status r = ResActive then rv_estimated r else 0)"

definition held :: "reservation_row list \<Rightarrow> uuid \<Rightarrow> int" where
  "held rs k = sum_list (map (weight k) rs)"

definition budgets_wf :: "db \<Rightarrow> bool" where
  "budgets_wf s \<longleftrightarrow>
     distinct (map bud_id (budgets s)) \<and> distinct (map rv_id (reservations s)) \<and>
     (\<forall>r \<in> set (reservations s). rv_id r < next_uuid s \<and> 0 < rv_estimated r \<and>
        (rv_budget_id r, rv_org r) \<in> (\<lambda>b. (bud_id b, bud_org b)) ` set (budgets s)) \<and>
     (\<forall>b \<in> set (budgets s). 0 \<le> bud_spent b \<and> bud_reserved b = held (reservations s) (bud_id b))"

definition within_limits :: "db \<Rightarrow> bool" where
  "within_limits s \<longleftrightarrow> (\<forall>b \<in> set (budgets s). bud_spent b + bud_reserved b \<le> bud_limit b)"

definition budgets_ok :: "db \<Rightarrow> bool" where
  "budgets_ok s \<longleftrightarrow> budgets_wf s \<and> within_limits s"

lemma held_simps [simp]: "held [] k = 0" "held (r # rs) k = weight k r + held rs k"
  "held (rs @ qs) k = held rs k + held qs k"
  by (simp_all add: held_def)

lemma held_tupd:
  "distinct (map rv_id rs) \<Longrightarrow> r \<in> set rs \<Longrightarrow>
     held (tupd rv_id (rv_id r) f rs) k = held rs k - weight k r + weight k (f r)"
proof (induction rs)
  case (Cons q rs)
  have other: "rv_id r \<notin> rv_id ` set rs \<Longrightarrow> tupd rv_id (rv_id r) f rs = rs"
    by (rule tupd_id) (simp add: tget_None_iff)
  show ?case
  proof (cases "q = r")
    case True
    with Cons.prems other show ?thesis by (simp add: tupd_def)
  next
    case False
    then have "r \<in> set rs" "rv_id q \<noteq> rv_id r" using Cons.prems by force+
    with Cons show ?thesis by (simp add: tupd_def)
  qed
qed simp

lemma held_nonneg: "\<forall>r \<in> set rs. 0 < rv_estimated r \<Longrightarrow> 0 \<le> held rs k"
  by (induction rs) (auto simp: weight_def)

lemma weight_le_held: "\<forall>r \<in> set rs. 0 < rv_estimated r \<Longrightarrow> r \<in> set rs \<Longrightarrow> weight k r \<le> held rs k"
proof (induction rs)
  case (Cons q rs)
  then show ?case using held_nonneg [of rs k] by (auto simp: weight_def)
qed simp

lemma budgets_wf_parent:
  assumes "budgets_wf s" and "r \<in> set (reservations s)" and "rls s (rv_org r)"
  obtains b where "get_budget s (rv_budget_id r) = Some b" and "b \<in> set (budgets s)"
    and "bud_id b = rv_budget_id r" and "bud_org b = rv_org r"
proof -
  obtain b where b: "b \<in> set (budgets s)" "bud_id b = rv_budget_id r" "bud_org b = rv_org r"
    using assms(1,2) by (auto simp: budgets_wf_def)
  have "distinct (map bud_id (seen s bud_org (budgets s)))"
    using assms(1) by (simp add: budgets_wf_def seen_def distinct_map_filter)
  from distinct_tget [OF this, of b] b assms(3) have "get_budget s (rv_budget_id r) = Some b" by simp
  with b show ?thesis using that by blast
qed

subsection \<open>Closing one reservation\<close>

definition closing :: "timestamp \<Rightarrow> bool \<Rightarrow> estimates \<Rightarrow> reservation_row \<Rightarrow> reservation_row" where
  "closing t committed usage r = r\<lparr>rv_actual := Some (actual_of usage committed r),
     rv_status := (if keeps_spend committed r then ResCommitted else ResReleased),
     rv_reconciled_at := Some t\<rparr>"

definition spent_on :: "bool \<Rightarrow> estimates \<Rightarrow> reservation_row \<Rightarrow> int" where
  "spent_on committed usage r = (if keeps_spend committed r then actual_of usage committed r else 0)"

definition close_one :: "timestamp \<Rightarrow> bool \<Rightarrow> estimates \<Rightarrow> reservation_row \<Rightarrow> db \<Rightarrow> db" where
  "close_one t committed usage r s =
     s\<lparr>budgets := tupd bud_id (rv_budget_id r)
           (\<lambda>b. b\<lparr>bud_reserved := bud_reserved b - rv_estimated r,
                  bud_spent := bud_spent b + spent_on committed usage r\<rparr>) (budgets s),
        reservations := tupd rv_id (rv_id r) (\<lambda>_. closing t committed usage r) (reservations s)\<rparr>"

lemma closing_simps [simp]:
  "rv_id (closing t c u r) = rv_id r" "rv_org (closing t c u r) = rv_org r"
  "rv_budget_id (closing t c u r) = rv_budget_id r" "rv_run_id (closing t c u r) = rv_run_id r"
  "rv_estimated (closing t c u r) = rv_estimated r" "rv_resource (closing t c u r) = rv_resource r"
  "rv_status (closing t c u r) \<noteq> ResActive" "weight k (closing t c u r) = 0"
  by (simp_all add: closing_def weight_def)

lemma close_one_row:
  assumes "distinct (map rv_id rs)" and "r \<in> set rs" and "f r = g r"
  shows "tupd rv_id (rv_id r) f rs = tupd rv_id (rv_id r) g rs"
  using assms by (auto simp: tupd_def distinct_map inj_on_def intro!: map_cong) 

lemma budgets_wf_close_one:
  assumes wf: "budgets_wf s" and r: "r \<in> set (reservations s)" "rv_status r = ResActive"
    and "0 \<le> actual_of usage committed r"
  shows "budgets_wf (close_one t committed usage r s)"
proof -
  let ?s = "close_one t committed usage r s"
  have h: "held (reservations ?s) k = held (reservations s) k - weight k r" for k
    using wf r(1) by (simp add: close_one_def held_tupd budgets_wf_def)
  have ids: "map bud_id (budgets ?s) = map bud_id (budgets s)"
    "map rv_id (reservations ?s) = map rv_id (reservations s)"
    using r(1) by (auto simp: close_one_def tupd_def)
  have rows: "q \<in> set (reservations ?s) \<Longrightarrow> \<exists>p \<in> set (reservations s). rv_id q = rv_id p \<and>
      rv_estimated q = rv_estimated p \<and> rv_budget_id q = rv_budget_id p \<and> rv_org q = rv_org p" for q
    using r(1) by (auto simp: close_one_def dest!: set_tupd)
  have par: "(\<lambda>b. (bud_id b, bud_org b)) ` set (budgets ?s) = (\<lambda>b. (bud_id b, bud_org b)) ` set (budgets s)"
    by (simp add: close_one_def table_simps)
  have bud: "c \<in> set (budgets ?s) \<Longrightarrow> 0 \<le> bud_spent c \<and> bud_reserved c = held (reservations ?s) (bud_id c)" for c
    using wf assms(4) r(2) unfolding h
    by (auto simp: close_one_def budgets_wf_def spent_on_def weight_def dest!: set_tupd)
  have nu: "next_uuid ?s = next_uuid s" by (simp add: close_one_def)
  show ?thesis
    unfolding budgets_wf_def ids nu par
    using wf [unfolded budgets_wf_def] rows bud by metis
qed

lemma within_limits_close_one:
  assumes "within_limits s" and "spent_on committed usage r \<le> rv_estimated r"
  shows "within_limits (close_one t committed usage r s)"
  using assms by (fastforce simp: within_limits_def close_one_def dest!: set_tupd)

subsection \<open>The settlement loop\<close>

text \<open>Releasing is settling without commitment and without usage.\<close>

lemma close_one_alt:
  assumes "distinct (map rv_id (reservations s))" and "r \<in> set (reservations s)"
    and "bud_id b = rv_budget_id r"
  shows "(let s = take_back r b s; actual = actual_of usage committed r;
              spend = keeps_spend committed r;
              s = upd_reservation (rv_id r) (\<lambda>r. r\<lparr>rv_actual := Some actual,
                    rv_status := (if spend then ResCommitted else ResReleased),
                    rv_reconciled_at := Some t\<rparr>) s
          in if spend then upd_budget (bud_id b) (\<lambda>b. b\<lparr>bud_spent := bud_spent b + actual\<rparr>) s else s)
         = close_one t committed usage r s"
proof -
  have row: "tupd rv_id (rv_id r) (\<lambda>q. q\<lparr>rv_actual := Some (actual_of usage committed r),
        rv_status := (if keeps_spend committed r then ResCommitted else ResReleased),
        rv_reconciled_at := Some t\<rparr>) (reservations s)
      = tupd rv_id (rv_id r) (\<lambda>_. closing t committed usage r) (reservations s)"
    by (rule close_one_row [OF assms(1,2)]) (simp add: closing_def)
  have bud: "tupd bud_id k (\<lambda>b. b\<lparr>bud_spent := bud_spent b + x\<rparr>)
        (tupd bud_id k (\<lambda>b. b\<lparr>bud_reserved := bud_reserved b - y\<rparr>) rows)
      = tupd bud_id k (\<lambda>b. b\<lparr>bud_reserved := bud_reserved b - y, bud_spent := bud_spent b + x\<rparr>) rows"
    for k x y rows by (auto simp: tupd_def)
  show ?thesis
    using row
    by (cases "keeps_spend committed r")
      (simp_all add: Let_def take_back_def upd_reservation_def upd_budget_def close_one_def assms(3) bud
        spent_on_def)
qed

lemma release_loop_settle_loop:
  assumes "distinct (map rv_id (reservations s))" and "set rs \<subseteq> set (reservations s)"
  shows "release_loop t rs s =
    settle_loop ''A budget reservation cannot be released safely.'' neg t False [] rs s"
proof -
  have "actual_of [] False r = 0" "\<not> keeps_spend False r" for r
    by (simp_all add: actual_of_def keeps_spend_def)
  then show ?thesis
    by (induction t rs s rule: release_loop.induct) (simp_all add: Let_def split: option.split)
qed

definition close_all :: "timestamp \<Rightarrow> bool \<Rightarrow> estimates \<Rightarrow> reservation_row list \<Rightarrow> db \<Rightarrow> db" where
  "close_all t committed usage rs s =
     fold (close_one t committed usage) (filter (\<lambda>r. rv_status r = ResActive) rs) s"

lemma close_one_frame [simp]:
  "rls (close_one t c u r s) = rls s" "next_uuid (close_one t c u r s) = next_uuid s"
  by (auto simp: close_one_def rls_def)

lemma close_one_keeps:
  "q \<in> set (reservations s) \<Longrightarrow> rv_id q \<noteq> rv_id r \<Longrightarrow> q \<in> set (reservations (close_one t c u r s))"
  using tupd_memI [of q "reservations s" rv_id "rv_id r"] by (auto simp: close_one_def)

lemma settle_loop_total:
  assumes "budgets_wf s" and "distinct (map rv_id rs)"
    and "\<forall>r \<in> set rs. r \<in> set (reservations s) \<and> rls s (rv_org r) \<and>
      (rv_status r = ResActive \<longrightarrow> 0 \<le> actual_of usage committed r)"
  shows "settle_loop unsafe neg t committed usage rs s = Inr (close_all t committed usage rs s) \<and>
    budgets_wf (close_all t committed usage rs s)"
  using assms
proof (induction rs arbitrary: s)
  case (Cons r rs)
  show ?case
  proof (cases "rv_status r = ResActive")
    case False
    with Cons show ?thesis by (simp add: close_all_def)
  next
    case True
    let ?s = "close_one t committed usage r s"
    have rin: "r \<in> set (reservations s)" "rls s (rv_org r)" "0 \<le> actual_of usage committed r"
      using Cons.prems(3) True by auto
    have wf: "budgets_wf ?s" using budgets_wf_close_one Cons.prems(1) rin True by blast
    obtain b where b: "get_budget s (rv_budget_id r) = Some b" "b \<in> set (budgets s)"
      "bud_id b = rv_budget_id r"
      using budgets_wf_parent Cons.prems(1) rin(1,2) by metis
    have "rv_estimated r \<le> bud_reserved b"
      using weight_le_held [OF _ rin(1), of "bud_id b"] Cons.prems(1) b True
      by (auto simp: budgets_wf_def weight_def)
    then have one: "settle_loop unsafe neg t committed usage (r # rs) s =
        settle_loop unsafe neg t committed usage rs ?s"
      using True b(1) rin(3) close_one_alt [of s r b usage committed t] Cons.prems(1) rin(1) b(3)
      by (simp add: Let_def budgets_wf_def not_less)
    have "settle_loop unsafe neg t committed usage rs ?s = Inr (close_all t committed usage rs ?s) \<and>
      budgets_wf (close_all t committed usage rs ?s)"
    proof (rule Cons.IH)
      show "\<forall>q \<in> set rs. q \<in> set (reservations ?s) \<and> rls ?s (rv_org q) \<and>
          (rv_status q = ResActive \<longrightarrow> 0 \<le> actual_of usage committed q)"
        using Cons.prems(2,3) close_one_keeps [of _ s r] by (auto simp: image_iff)
    qed (use wf Cons.prems(2) in auto)
    then show ?thesis using one True by (simp add: close_all_def)
  qed
qed (simp add: close_all_def)

lemma close_all_frame:
  "close_all t c u rs s = s\<lparr>budgets := budgets (close_all t c u rs s),
     reservations := reservations (close_all t c u rs s)\<rparr>"
proof -
  have "fold (close_one t c u) ls s = s\<lparr>budgets := budgets (fold (close_one t c u) ls s),
     reservations := reservations (fold (close_one t c u) ls s)\<rparr>" for ls
  proof (induction ls arbitrary: s)
    case (Cons l ls)
    show ?case using Cons [of "close_one t c u l s"] by (simp add: close_one_def)
  qed simp
  then show ?thesis unfolding close_all_def .
qed

lemma close_all_fields [simp]:
  "now (close_all t c u rs s) = now s"
  "tenant (close_all t c u rs s) = tenant s"
  "autoflush (close_all t c u rs s) = autoflush s"
  "next_uuid (close_all t c u rs s) = next_uuid s"
  "approvals (close_all t c u rs s) = approvals s"
  "runs (close_all t c u rs s) = runs s"
  "intents (close_all t c u rs s) = intents s"
  "actions (close_all t c u rs s) = actions s"
  "action_reservations (close_all t c u rs s) = action_reservations s"
  "outbox (close_all t c u rs s) = outbox s"
  "dead_letters (close_all t c u rs s) = dead_letters s"
  "traces (close_all t c u rs s) = traces s"
  "pending_traces (close_all t c u rs s) = pending_traces s"
  "audits (close_all t c u rs s) = audits s"
  "evidence (close_all t c u rs s) = evidence s"
  "tool_calls (close_all t c u rs s) = tool_calls s"
  "executions (close_all t c u rs s) = executions s"
  "waits (close_all t c u rs s) = waits s"
  "subworkflow_calls (close_all t c u rs s) = subworkflow_calls s"
  "model_calls (close_all t c u rs s) = model_calls s"
  "model_call_links (close_all t c u rs s) = model_call_links s"
  "projects (close_all t c u rs s) = projects s"
  "environments (close_all t c u rs s) = environments s"
  "systems (close_all t c u rs s) = systems s"
  "workloads (close_all t c u rs s) = workloads s"
  "agents (close_all t c u rs s) = agents s"
  "policy_bundles (close_all t c u rs s) = policy_bundles s"
  "policy_decisions (close_all t c u rs s) = policy_decisions s"
  "budget_scopes (close_all t c u rs s) = budget_scopes s"
  "delegations (close_all t c u rs s) = delegations s"
  by (subst close_all_frame, simp)+

lemma close_all_reservations:
  assumes "distinct (map rv_id (reservations s))" and "distinct (map rv_id rs)"
    and "set rs \<subseteq> set (reservations s)"
  shows "reservations (close_all t c u rs s) =
    map (\<lambda>r. if r \<in> set rs \<and> rv_status r = ResActive then closing t c u r else r) (reservations s)"
proof -
  have "distinct (map rv_id ls) \<Longrightarrow> set ls \<subseteq> set (reservations s) \<Longrightarrow> distinct (map rv_id (reservations s)) \<Longrightarrow>
    reservations (fold (close_one t c u) ls s) =
      map (\<lambda>r. if rv_id r \<in> rv_id ` set ls then closing t c u r else r) (reservations s)" for ls
  proof (induction ls arbitrary: s)
    case (Cons l ls)
    let ?s = "close_one t c u l s"
    have one: "reservations ?s = map (\<lambda>r. if rv_id r = rv_id l then closing t c u r else r) (reservations s)"
      using close_one_row [OF Cons.prems(3), of l "\<lambda>_. closing t c u l" "closing t c u"] Cons.prems(2)
      by (simp add: close_one_def tupd_def)
    have "reservations (fold (close_one t c u) ls ?s) =
        map (\<lambda>r. if rv_id r \<in> rv_id ` set ls then closing t c u r else r) (reservations ?s)"
    proof (rule Cons.IH)
      show "set ls \<subseteq> set (reservations ?s)"
      proof
        fix x assume x: "x \<in> set ls"
        then have "rv_id x \<noteq> rv_id l" using Cons.prems(1) by (metis distinct.simps(2) image_eqI list.set_map list.simps(9))
        with x show "x \<in> set (reservations ?s)" using Cons.prems(2) by (intro close_one_keeps) auto
      qed
      show "distinct (map rv_id (reservations ?s))"
        using Cons.prems(3) by (simp add: one comp_def if_distrib cong: if_cong)
    qed (use Cons.prems(1) in simp)
    then show ?case using Cons.prems(1) unfolding one by (auto simp: image_iff)
  qed simp
  from this [of "filter (\<lambda>r. rv_status r = ResActive) rs"] assms
  have "reservations (close_all t c u rs s) =
    map (\<lambda>r. if rv_id r \<in> rv_id ` {r \<in> set rs. rv_status r = ResActive} then closing t c u r else r)
      (reservations s)" (is "_ = map ?f _")
    by (simp add: close_all_def distinct_map_filter subset_iff)
  also have "\<dots> = map (\<lambda>r. if r \<in> set rs \<and> rv_status r = ResActive then closing t c u r else r) (reservations s)"
    using assms(1,3) by (intro map_cong) (auto simp: distinct_map inj_on_def)
  finally show ?thesis .
qed

lemma reservations_of_action_props:
  assumes "distinct (map rv_id (reservations s))"
  shows "distinct (map rv_id (reservations_of_action s org act))"
    "set (reservations_of_action s org act) \<subseteq> set (reservations s)"
    "r \<in> set (reservations_of_action s org act) \<Longrightarrow> rls s (rv_org r) \<and> rv_org r = org"
proof -
  have "mset (map rv_id (reservations_of_action s org act)) =
    mset (map rv_id (filter (\<lambda>r. list_ex (\<lambda>l. ar_org l = rv_org r \<and> ar_reservation_id l = rv_id r \<and>
              ar_org l = org \<and> ar_action_id l = act) (seen s ar_org (action_reservations s)))
          (seen s rv_org (reservations s))))"
    by (simp add: reservations_of_action_def)
  then show "distinct (map rv_id (reservations_of_action s org act))"
    using assms by (metis (no_types, lifting) mset_eq_imp_distinct_iff distinct_map_filter seen_def)
qed (auto simp: reservations_of_action_def list_ex_iff)

lemma reservations_of_model_call_props:
  assumes "distinct (map rv_id (reservations s))"
  shows "distinct (map rv_id (reservations_of_model_call s org mc))"
    "set (reservations_of_model_call s org mc) \<subseteq> set (reservations s)"
    "r \<in> set (reservations_of_model_call s org mc) \<Longrightarrow> rls s (rv_org r) \<and> rv_org r = org"
proof -
  have "mset (map rv_id (reservations_of_model_call s org mc)) =
    mset (map rv_id (filter (\<lambda>r. list_ex (\<lambda>l. mr_org l = rv_org r \<and> mr_reservation_id l = rv_id r \<and>
              mr_org l = org \<and> mr_model_call_id l = mc) (seen s mr_org (model_call_links s)))
          (seen s rv_org (reservations s))))"
    by (simp add: reservations_of_model_call_def)
  then show "distinct (map rv_id (reservations_of_model_call s org mc))"
    using assms by (metis (no_types, lifting) mset_eq_imp_distinct_iff distinct_map_filter seen_def)
qed (auto simp: reservations_of_model_call_def list_ex_iff)

lemma within_limits_close_all:
  assumes "within_limits s" and "\<forall>r \<in> set rs. spent_on c u r \<le> rv_estimated r"
  shows "within_limits (close_all t c u rs s)"
proof -
  have "\<forall>r \<in> set ls. spent_on c u r \<le> rv_estimated r \<Longrightarrow> within_limits s \<Longrightarrow>
      within_limits (fold (close_one t c u) ls s)" for ls
    by (induction ls arbitrary: s) (simp_all add: within_limits_close_one)
  then show ?thesis using assms by (simp add: close_all_def)
qed

subsection \<open>Reserving\<close>

definition opened :: "uuid \<Rightarrow> uuid \<Rightarrow> estimates \<Rightarrow> timestamp \<Rightarrow> uuid \<Rightarrow> budget_row \<Rightarrow> reservation_row" where
  "opened org run est expires i b = \<lparr>rv_id = i, rv_org = org, rv_budget_id = bud_id b, rv_run_id = run,
     rv_resource = bud_resource b, rv_estimated = estimate_for est b, rv_actual = None,
     rv_status = ResActive, rv_expires_at = expires, rv_reconciled_at = None\<rparr>"

lemma add_reservations_eq:
  "distinct (map bud_id bs) \<Longrightarrow> add_reservations org run est expires bs s =
    (let rs = map2 (opened org run est expires) [next_uuid s ..< next_uuid s + length bs] bs
     in (rs, s\<lparr>next_uuid := next_uuid s + length bs,
        budgets := map (\<lambda>b. case tget bud_id (bud_id b) bs of None \<Rightarrow> b
           | Some c \<Rightarrow> b\<lparr>bud_reserved := bud_reserved b + estimate_for est c\<rparr>) (budgets s),
        reservations := reservations s @ rs\<rparr>))"
proof (induction bs arbitrary: s)
  case Nil
  then show ?case by (simp add: Let_def)
next
  case (Cons b bs)
  have no: "tget bud_id (bud_id b) bs = None" using Cons.prems by (auto simp: tget_None_iff)
  show ?case
    using Cons.prems
    by (simp add: Let_def Cons.IH upd_budget_def uuid4_def opened_def upt_conv_Cons tget_Cons tupd_def
        del: upt_Suc) (auto simp: no split: option.split)
qed

lemma applicable_budgets_props:
  assumes "distinct (map bud_id (budgets s))"
  shows "distinct (map bud_id (applicable_budgets s c est))"
    "b \<in> set (applicable_budgets s c est) \<Longrightarrow> b \<in> set (budgets s) \<and> bud_org b = bc_org c \<and>
       bud_active b \<and> bud_resource b \<in> fst ` set est"
proof -
  have "mset (map bud_id (applicable_budgets s c est)) =
    mset (map bud_id (filter (\<lambda>b. bud_org b = bc_org c \<and> bud_active b \<and> bud_resource b \<in> set (map fst est) \<and>
            list_ex (\<lambda>sc. bs_org sc = bud_org b \<and> bs_id sc = bud_scope_id b \<and> scope_predicate c sc)
              (seen s bs_org (budget_scopes s))) (seen s bud_org (budgets s))))"
    by (simp add: applicable_budgets_def)
  then show "distinct (map bud_id (applicable_budgets s c est))"
    using assms by (metis (no_types, lifting) mset_eq_imp_distinct_iff distinct_map_filter seen_def)
qed (auto simp: applicable_budgets_def)

definition reservable :: "db \<Rightarrow> budget_context \<Rightarrow> estimates \<Rightarrow> bool" where
  "reservable s c est \<longleftrightarrow>
     est \<noteq> [] \<and> (\<forall>(k, e) \<in> set est. 0 < e \<and> k \<in> set SUPPORTED_RESOURCES \<and>
        k \<in> bud_resource ` set (applicable_budgets s c est)) \<and>
     (\<forall>b \<in> set (applicable_budgets s c est). \<not> exceeds est b)"

lemma reserve_budgets_cases:
  "reserve_budgets c run est t ttl s = Inr x \<longleftrightarrow>
     reservable s c est \<and> x = add_reservations (bc_org c) run est (t + ttl) (applicable_budgets s c est) s"
  by (auto simp: reserve_budgets_def reservable_def Let_def list_ex_iff filter_empty_conv find_None_iff not_le
      split: option.splits) (auto simp: find_Some_iff)

lemma held_opened:
  assumes "distinct (map bud_id bs)"
  shows "held (map2 (opened org run est expires) is bs) k =
    (if length is = length bs then
      (case tget bud_id k bs of None \<Rightarrow> 0 | Some b \<Rightarrow> estimate_for est b)
     else held (map2 (opened org run est expires) is bs) k)"
proof (cases "length is = length bs")
  case True
  then have "held (map2 (opened org run est expires) is bs) k =
      (case tget bud_id k bs of None \<Rightarrow> 0 | Some b \<Rightarrow> estimate_for est b)"
    using assms
  proof (induction "is" bs rule: list_induct2)
    case (Cons i "is" b bs)
    have "tget bud_id (bud_id b) bs = None" using Cons.prems by (auto simp: tget_None_iff)
    with Cons show ?case by (auto simp: tget_Cons weight_def opened_def)
  qed simp
  then show ?thesis by simp
qed simp

lemma reserve_budgets_effect:
  assumes "distinct (map bud_id (budgets s))" and "reserve_budgets c run est t ttl s = Inr (rs, s')"
  defines "bs \<equiv> applicable_budgets s c est"
  shows "rs = map2 (opened (bc_org c) run est (t + ttl)) [next_uuid s ..< next_uuid s + length bs] bs \<and>
    s' = s\<lparr>next_uuid := next_uuid s + length bs,
       budgets := map (\<lambda>b. if b \<in> set bs then b\<lparr>bud_reserved := bud_reserved b + estimate_for est b\<rparr> else b)
         (budgets s),
       reservations := reservations s @ rs\<rparr>"
proof -
  have ab: "distinct (map bud_id bs)" "set bs \<subseteq> set (budgets s)"
    using applicable_budgets_props [OF assms(1)] by (auto simp: bs_def)
  have get: "tget bud_id (bud_id b) bs = (if b \<in> set bs then Some b else None)" if "b \<in> set (budgets s)" for b
  proof (cases "b \<in> set bs")
    case False
    then have "bud_id b \<notin> bud_id ` set bs"
      using that ab(2) distinct_key_eq [OF assms(1)] by (metis image_iff subsetD)
    then show ?thesis using False by (simp add: tget_None_iff)
  qed (simp add: distinct_tget [OF ab(1)])
  have "map (\<lambda>b. case tget bud_id (bud_id b) bs of None \<Rightarrow> b
        | Some c \<Rightarrow> b\<lparr>bud_reserved := bud_reserved b + estimate_for est c\<rparr>) (budgets s) =
      map (\<lambda>b. if b \<in> set bs then b\<lparr>bud_reserved := bud_reserved b + estimate_for est b\<rparr> else b) (budgets s)"
    by (rule map_cong [OF refl]) (simp add: get)
  then show ?thesis
    using assms(2) add_reservations_eq [OF ab(1), of "bc_org c" run est "t + ttl" s]
    by (simp add: reserve_budgets_cases bs_def [symmetric] Let_def)
qed

lemma estimate_pos:
  assumes "reservable s c est" and "distinct (map bud_id (budgets s))"
    and "b \<in> set (applicable_budgets s c est)"
  shows "0 < estimate_for est b"
proof -
  have "bud_resource b \<in> fst ` set est" using applicable_budgets_props(2) [OF assms(2,3)] by simp
  then obtain e where e: "map_of est (bud_resource b) = Some e"
    by (metis map_of_eq_None_iff not_None_eq)
  then have "(bud_resource b, e) \<in> set est" by (rule map_of_SomeD)
  then show ?thesis using assms(1) e by (auto simp: reservable_def estimate_for_def)
qed

lemma opened_rows:
  assumes "r \<in> set (map2 (opened org run est expires) is bs)"
  shows "\<exists>b \<in> set bs. rv_id r \<in> set is \<and> rv_org r = org \<and> rv_budget_id r = bud_id b \<and> rv_run_id r = run \<and>
    rv_resource r = bud_resource b \<and> rv_estimated r = estimate_for est b \<and> rv_status r = ResActive \<and>
    rv_expires_at r = expires"
  using assms by (auto simp: opened_def set_zip)

lemma opened_ids: "length is = length bs \<Longrightarrow> map rv_id (map2 (opened org run est expires) is bs) = is"
  by (induction "is" bs rule: list_induct2) (simp_all add: opened_def)

lemma budgets_ok_reserve:
  assumes "budgets_ok s" and "reserve_budgets c run est t ttl s = Inr (rs, s')"
  shows "budgets_ok s'"
proof -
  define bs where "bs = applicable_budgets s c est"
  have wf: "distinct (map bud_id (budgets s))" "distinct (map rv_id (reservations s))"
    and old: "\<And>r. r \<in> set (reservations s) \<Longrightarrow> rv_id r < next_uuid s \<and> 0 < rv_estimated r \<and>
        (rv_budget_id r, rv_org r) \<in> (\<lambda>b. (bud_id b, bud_org b)) ` set (budgets s)"
    and bal: "\<And>b. b \<in> set (budgets s) \<Longrightarrow> 0 \<le> bud_spent b \<and> bud_reserved b = held (reservations s) (bud_id b) \<and>
        bud_spent b + bud_reserved b \<le> bud_limit b"
    using assms(1) by (auto simp: budgets_ok_def budgets_wf_def within_limits_def)
  have ok: "reservable s c est" using assms(2) by (simp add: reserve_budgets_cases)
  have bs: "distinct (map bud_id bs)" "\<And>b. b \<in> set bs \<Longrightarrow> b \<in> set (budgets s) \<and> bud_org b = bc_org c"
    using applicable_budgets_props [OF wf(1)] by (auto simp: bs_def)
  have fits: "b \<in> set bs \<Longrightarrow> 0 < estimate_for est b \<and> bud_spent b + bud_reserved b + estimate_for est b \<le> bud_limit b" for b
    using ok estimate_pos [OF ok wf(1)] by (auto simp: bs_def reservable_def exceeds_def)
  let ?is = "[next_uuid s ..< next_uuid s + length bs]"
  let ?up = "\<lambda>b. if b \<in> set bs then b\<lparr>bud_reserved := bud_reserved b + estimate_for est b\<rparr> else b"
  have rs: "rs = map2 (opened (bc_org c) run est (t + ttl)) ?is bs"
    and s': "s' = s\<lparr>next_uuid := next_uuid s + length bs, budgets := map ?up (budgets s),
       reservations := reservations s @ rs\<rparr>"
    using reserve_budgets_effect [OF wf(1) assms(2)] by (simp_all add: bs_def)
  have ids: "map rv_id rs = ?is" unfolding rs by (rule opened_ids) simp
  define B where "B = map ?up (budgets s)"
  have "map bud_id B = map bud_id (budgets s)"
    "map (\<lambda>b. (bud_id b, bud_org b)) B = map (\<lambda>b. (bud_id b, bud_org b)) (budgets s)"
    by (simp_all add: B_def)
  then have fks: "distinct (map bud_id B)"
    "(\<lambda>b. (bud_id b, bud_org b)) ` set B = (\<lambda>b. (bud_id b, bud_org b)) ` set (budgets s)"
    using wf(1) by (metis list.set_map)+
  have new: "rv_id r < next_uuid s + length bs \<and> 0 < rv_estimated r \<and>
      (rv_budget_id r, rv_org r) \<in> (\<lambda>b. (bud_id b, bud_org b)) ` set (budgets s)" if "r \<in> set rs" for r
    using opened_rows [OF that [unfolded rs]] bs(2) fits by (auto simp: image_iff)
  have heldrs: "held rs (bud_id b) = (if b \<in> set bs then estimate_for est b else 0)" if "b \<in> set (budgets s)" for b
    using that held_opened [OF bs(1), of "bc_org c" run est "t + ttl" ?is "bud_id b"] distinct_tget [OF bs(1), of b]
      distinct_key_eq [OF wf(1)] bs(2)
    by (auto simp: rs tget_None_iff split: option.splits dest!: tget_SomeD)
  have "rv_id ` set rs = {next_uuid s ..< next_uuid s + length bs}"
    using ids by (metis list.set_map set_upt)
  then have "distinct (map rv_id (reservations s @ rs))"
    using wf(2) by (auto simp: ids dest: old)
  moreover have post: "0 \<le> bud_spent b \<and> bud_reserved b = held (reservations s @ rs) (bud_id b)"
      "bud_spent b + bud_reserved b \<le> bud_limit b" if "b \<in> set B" for b
  proof -
    from that obtain x where x: "x \<in> set (budgets s)" "b = ?up x" by (auto simp: B_def)
    then show "0 \<le> bud_spent b \<and> bud_reserved b = held (reservations s @ rs) (bud_id b)"
      "bud_spent b + bud_reserved b \<le> bud_limit b"
      using bal [OF x(1)] fits [of x] heldrs [OF x(1)] by (cases "x \<in> set bs"; simp)+
  qed
  moreover have s'': "s' = s\<lparr>next_uuid := next_uuid s + length bs, budgets := B, reservations := reservations s @ rs\<rparr>"
    by (simp add: s' B_def)
  ultimately have "budgets_wf s'"
    unfolding budgets_wf_def using fks old new by (simp add: ball_Un trans_less_add1)
  moreover have "within_limits s'" using post(2) by (simp add: within_limits_def s'')
  ultimately show ?thesis by (simp add: budgets_ok_def)
qed

subsection \<open>Settling and releasing\<close>

lemma settle_loop_rows:
  assumes "budgets_wf s" and "\<forall>e \<in> set usage. 0 \<le> snd e" and "distinct (map rv_id rs)"
    and "set rs \<subseteq> set (reservations s)" and "\<And>r. r \<in> set rs \<Longrightarrow> rls s (rv_org r)"
  shows "settle_loop unsafe neg t committed usage rs s = Inr (close_all t committed usage rs s) \<and>
    budgets_wf (close_all t committed usage rs s)"
proof (rule settle_loop_total [OF assms(1,3)])
  have "0 \<le> actual_of usage committed r" if "r \<in> set (reservations s)" for r
    using that assms(1,2) map_of_SomeD
    by (fastforce simp: actual_of_def budgets_wf_def less_imp_le split: option.split)
  then show "\<forall>r \<in> set rs. r \<in> set (reservations s) \<and> rls s (rv_org r) \<and>
      (rv_status r = ResActive \<longrightarrow> 0 \<le> actual_of usage committed r)"
    using assms(4,5) by auto
qed

lemma settle_action_eq:
  fixes t :: timestamp and committed :: bool and org act :: uuid
  assumes "budgets_wf s" and "\<forall>e \<in> set usage. 0 \<le> snd e"
  defines "s' \<equiv> close_all t committed usage (reservations_of_action s org act) s"
  shows "settle_action_reservations org act t committed usage s = Inr (reservations_of_action s' org act, s') \<and>
    budgets_wf s'"
proof -
  have d: "distinct (map rv_id (reservations s))" using assms(1) by (simp add: budgets_wf_def)
  have "settle_loop unsafe neg t committed usage (reservations_of_action s org act) s = Inr s' \<and> budgets_wf s'"
    for unsafe neg
    unfolding s'_def using reservations_of_action_props [OF d] by (intro settle_loop_rows [OF assms(1,2)]) blast+
  then show ?thesis by (simp add: settle_action_reservations_def)
qed

lemma settle_model_call_eq:
  fixes t :: timestamp and committed :: bool and org mc :: uuid
  assumes "budgets_wf s" and "\<forall>e \<in> set usage. 0 \<le> snd e"
  defines "s' \<equiv> close_all t committed usage (reservations_of_model_call s org mc) s"
  shows "settle_model_call_reservations org mc t committed usage s =
      Inr (reservations_of_model_call s' org mc, s') \<and> budgets_wf s'"
proof -
  have d: "distinct (map rv_id (reservations s))" using assms(1) by (simp add: budgets_wf_def)
  have "settle_loop unsafe neg t committed usage (reservations_of_model_call s org mc) s = Inr s' \<and> budgets_wf s'"
    for unsafe neg
    unfolding s'_def using reservations_of_model_call_props [OF d] by (intro settle_loop_rows [OF assms(1,2)]) blast+
  then show ?thesis by (simp add: settle_model_call_reservations_def)
qed

lemma release_action_eq:
  fixes t :: timestamp and org act :: uuid
  assumes "budgets_wf s"
  defines "s' \<equiv> close_all t False [] (reservations_of_action s org act) s"
  shows "release_action_reservations org act t s = Inr (reservations_of_action s' org act, s') \<and> budgets_wf s'"
proof -
  have d: "distinct (map rv_id (reservations s))" using assms(1) by (simp add: budgets_wf_def)
  note props = reservations_of_action_props [OF d, where org = org and act = act]
  have "settle_loop ''A budget reservation cannot be released safely.'' [] t False []
      (reservations_of_action s org act) s = Inr s' \<and> budgets_wf s'"
    unfolding s'_def using props by (intro settle_loop_total [OF assms(1)]) (auto simp: actual_of_def)
  then show ?thesis
    using release_loop_settle_loop [OF d props(2), of t "[]"]
    by (simp add: release_action_reservations_def)
qed

lemma spent_on_default: "0 < rv_estimated r \<Longrightarrow> spent_on committed [] r \<le> rv_estimated r"
  by (simp add: spent_on_def actual_of_def keeps_spend_def)

lemma budgets_ok_close_all:
  assumes "budgets_ok s" and "budgets_wf (close_all t committed [] rs s)" and "set rs \<subseteq> set (reservations s)"
  shows "budgets_ok (close_all t committed [] rs s)"
proof -
  have "\<forall>r \<in> set rs. spent_on committed [] r \<le> rv_estimated r"
    using assms(1,3) by (auto simp: budgets_ok_def budgets_wf_def intro!: spent_on_default)
  then show ?thesis using assms within_limits_close_all by (simp add: budgets_ok_def)
qed

text \<open>The contract the services rely on: releasing or settling an action's reservations.\<close>

lemma release_action_ok:
  assumes "budgets_ok s"
  shows "\<exists>rs s'. release_action_reservations org act t s = Inr (rs, s') \<and> budgets_ok s' \<and>
    s' = close_all t False [] (reservations_of_action s org act) s"
proof -
  have wf: "budgets_wf s" and d: "distinct (map rv_id (reservations s))"
    using assms by (simp_all add: budgets_ok_def budgets_wf_def)
  from release_action_eq [OF wf, where t = t and org = org and act = act]
    budgets_ok_close_all [OF assms _ reservations_of_action_props(2) [OF d]]
  show ?thesis by auto
qed

lemma settle_action_ok:
  assumes "budgets_ok s"
  shows "\<exists>rs s'. settle_action_reservations org act t committed [] s = Inr (rs, s') \<and> budgets_ok s' \<and>
    s' = close_all t committed [] (reservations_of_action s org act) s"
proof -
  have wf: "budgets_wf s" and d: "distinct (map rv_id (reservations s))"
    using assms by (simp_all add: budgets_ok_def budgets_wf_def)
  from settle_action_eq [OF wf, where t = t and committed = committed and org = org and act = act and usage = "[]"]
    budgets_ok_close_all [OF assms _ reservations_of_action_props(2) [OF d]]
  show ?thesis by auto
qed

lemma budgets_ok_mono:
  assumes "budgets_ok s" and "budgets s' = budgets s" and "reservations s' = reservations s"
    and "next_uuid s \<le> next_uuid s'"
  shows "budgets_ok s'"
proof -
  have "k < next_uuid s \<Longrightarrow> k < next_uuid s'" for k using assms(4) by simp
  then show ?thesis using assms(1) by (auto simp: budgets_ok_def budgets_wf_def within_limits_def assms(2,3))
qed

lemma release_result:
  "budgets_ok s \<Longrightarrow> release_action_reservations org act t s = Inr (rs, s') \<Longrightarrow>
     s' = close_all t False [] (reservations_of_action s org act) s \<and> budgets_ok s'"
  using release_action_ok [of s org act t] by auto

lemma settle_result:
  "budgets_ok s \<Longrightarrow> settle_action_reservations org act t committed [] s = Inr (rs, s') \<Longrightarrow>
     s' = close_all t committed [] (reservations_of_action s org act) s \<and> budgets_ok s'"
  using settle_action_ok [of s org act t committed] by auto

subsection \<open>Properties\<close>

text \<open>
  Budgets are never overcommitted by a reservation: from a state where every budget's
  reserved value is the sum of its active reservations and spent plus reserved value is within
  the limit, a successful reservation leads to such a state again.
\<close>

theorem reserve_keeps_budgets:
  assumes "budgets_ok s" and "reserve_budgets c run est t ttl s = Inr (rs, s')"
  shows "budgets_ok s'"
  by (rule budgets_ok_reserve [OF assms])

text \<open>
  C26. Exactly when a reservation succeeds, and what it does: it succeeds if and only if the
  estimates are non-empty, positive, supported and each covered by an applicable budget, and
  every applicable budget can take its estimate; it then raises the reserved value of exactly
  the applicable budgets by their estimates and opens one active reservation with a new id on
  each.
\<close>

theorem reserve_all_or_nothing:
  assumes "distinct (map bud_id (budgets s))"
  shows "case reserve_budgets c run est t ttl s of
      Inl e \<Rightarrow> \<not> reservable s c est
    | Inr (rs, s') \<Rightarrow> reservable s c est \<and>
        map rv_id rs = [next_uuid s ..< next_uuid s + length (applicable_budgets s c est)] \<and>
        map rv_budget_id rs = map bud_id (applicable_budgets s c est) \<and>
        map rv_estimated rs = map (estimate_for est) (applicable_budgets s c est) \<and>
        list_all (\<lambda>r. rv_status r = ResActive \<and> rv_run_id r = run \<and> rv_expires_at r = t + ttl) rs \<and>
        reservations s' = reservations s @ rs \<and>
        budgets s' = map (\<lambda>b. if b \<in> set (applicable_budgets s c est)
          then b\<lparr>bud_reserved := bud_reserved b + estimate_for est b\<rparr> else b) (budgets s)"
proof (cases "reserve_budgets c run est t ttl s")
  case (Inl e)
  then have "\<not> reservable s c est"
    using reserve_budgets_cases [of c run est t ttl s
      "add_reservations (bc_org c) run est (t + ttl) (applicable_budgets s c est) s"] by auto
  with Inl show ?thesis by simp
next
  case (Inr x)
  obtain rs s' where x: "x = (rs, s')" by (cases x)
  let ?bs = "applicable_budgets s c est"
  let ?is = "[next_uuid s ..< next_uuid s + length ?bs]"
  have rs: "rs = map2 (opened (bc_org c) run est (t + ttl)) ?is ?bs"
    and s': "reservations s' = reservations s @ rs" "budgets s' = map (\<lambda>b. if b \<in> set ?bs
          then b\<lparr>bud_reserved := bud_reserved b + estimate_for est b\<rparr> else b) (budgets s)"
    using reserve_budgets_effect [OF assms Inr [unfolded x]] by simp_all
  have "length is = length bs \<Longrightarrow>
      map rv_budget_id (map2 (opened (bc_org c) run est (t + ttl)) is bs) = map bud_id bs \<and>
      map rv_estimated (map2 (opened (bc_org c) run est (t + ttl)) is bs) = map (estimate_for est) bs" for "is" bs
    by (induction "is" bs rule: list_induct2) (simp_all add: opened_def)
  from this [of ?is ?bs] opened_ids [of ?is ?bs "bc_org c" run est "t + ttl"] opened_rows [of _ "bc_org c" run est "t + ttl" ?is ?bs]
  have "list_all (\<lambda>r. rv_status r = ResActive \<and> rv_run_id r = run \<and> rv_expires_at r = t + ttl) rs"
    "map rv_id rs = ?is" "map rv_budget_id rs = map bud_id ?bs" "map rv_estimated rs = map (estimate_for est) ?bs"
    by (auto simp: list_all_iff simp flip: rs)
  moreover have "reservable s c est" using Inr by (simp add: reserve_budgets_cases)
  ultimately show ?thesis using s' by (simp add: Inr x)
qed

text \<open>
  Closing an action's reservations never fails and never overcommits: from a consistent
  state, settling them (committed or not, without reported usage) returns normally into a
  consistent state in which none of them is active, no other reservation has changed, and no
  table but budgets and reservations has.
\<close>

theorem settle_action_reservations_total:
  assumes "budgets_ok s"
  shows "\<exists>rs s'. settle_action_reservations org act t committed [] s = Inr (rs, s') \<and> budgets_ok s' \<and>
    s' = s\<lparr>budgets := budgets s', reservations := reservations s'\<rparr> \<and>
    reservations s' = map (\<lambda>r. if r \<in> set (reservations_of_action s org act) \<and> rv_status r = ResActive
        then closing t committed [] r else r) (reservations s)"
proof -
  have d: "distinct (map rv_id (reservations s))" using assms by (simp add: budgets_ok_def budgets_wf_def)
  note props = reservations_of_action_props [OF d]
  show ?thesis
    using settle_action_ok [OF assms, of org act t committed] close_all_frame
      close_all_reservations [OF d props(1,2)]
    by metis
qed

text \<open>
  The same for the release of an action's reservations.
\<close>

theorem release_action_reservations_total:
  assumes "budgets_ok s"
  shows "\<exists>rs s'. release_action_reservations org act t s = Inr (rs, s') \<and> budgets_ok s' \<and>
    s' = s\<lparr>budgets := budgets s', reservations := reservations s'\<rparr> \<and>
    reservations s' = map (\<lambda>r. if r \<in> set (reservations_of_action s org act) \<and> rv_status r = ResActive
        then closing t False [] r else r) (reservations s)"
proof -
  have d: "distinct (map rv_id (reservations s))" using assms by (simp add: budgets_ok_def budgets_wf_def)
  note props = reservations_of_action_props [OF d]
  show ?thesis
    using release_action_ok [OF assms, of org act t] close_all_frame
      close_all_reservations [OF d props(1,2)]
    by metis
qed

subsection \<open>A concrete ledger\<close>

definition sample_budget :: "uuid \<Rightarrow> string \<Rightarrow> budget_row" where
  "sample_budget k res = \<lparr>bud_id = k, bud_org = 7, bud_scope_id = 30, bud_resource = res,
     bud_limit = 10, bud_reserved = 0, bud_spent = 0, bud_active = True\<rparr>"

definition sample_ledger :: db where
  "sample_ledger = (empty_db 100)\<lparr>next_uuid := 1000,
     budget_scopes := [\<lparr>bs_id = 30, bs_org = 7, bs_type = ''organization'', bs_project_id = None,
       bs_environment_id = None, bs_agent_id = None, bs_user_id = None, bs_model_route_id = None\<rparr>],
     budgets := [sample_budget 31 ''currency:USD'', sample_budget 32 ''requests'',
       sample_budget 33 ''concurrent_runs'', sample_budget 34 ''tool_actions'']\<rparr>"

definition sample_budget_context :: budget_context where
  "sample_budget_context = \<lparr>bc_org = 7, bc_project_id = 10, bc_environment_id = 11, bc_agent_id = 12,
     bc_actor_id = 13, bc_actor_type = ''user'', bc_model_route_id = None\<rparr>"

lemma sample_ledger_ok: "budgets_ok sample_ledger"
  by (simp add: budgets_ok_def budgets_wf_def within_limits_def sample_ledger_def sample_budget_def empty_db_def)

lemmas ledger_eval = sample_ledger_def sample_budget_def empty_db_def sample_budget_context_def
  reserve_budgets_def applicable_budgets_def scope_predicate_def seen_def rls_def SUPPORTED_RESOURCES_def
  exceeds_def estimate_for_def upd_budget_def tupd_def uuid4_def Let_def

lemma sample_reserve:
  "\<exists>rs. reserve_budgets sample_budget_context 50 [(''currency:USD'', 3), (''requests'', 1)] 100 5 sample_ledger =
     Inr (rs, snd (projr (reserve_budgets sample_budget_context 50 [(''currency:USD'', 3), (''requests'', 1)]
       100 5 sample_ledger)))"
  by (simp add: ledger_eval)

theorem reserve_keeps_budgets_witness:
  "budgets_ok (snd (projr (reserve_budgets sample_budget_context 50 [(''currency:USD'', 3), (''requests'', 1)]
     100 5 sample_ledger)))"
  using sample_reserve reserve_keeps_budgets [OF sample_ledger_ok] by blast

definition sample_reserved :: db where
  "sample_reserved =
     (case reserve_budgets sample_budget_context 50 [(''currency:USD'', 3), (''requests'', 1)] 100 5 sample_ledger of
        Inl _ \<Rightarrow> sample_ledger
      | Inr (rs, s) \<Rightarrow> link_model_call_reservations 7 41 rs (link_action_reservations 7 40 rs s))"

lemma budgets_ok_link [simp]:
  "budgets_ok (link_action_reservations org act rs s) = budgets_ok s"
  "budgets_ok (link_model_call_reservations org mc rs s) = budgets_ok s"
  by (simp_all add: budgets_ok_def budgets_wf_def within_limits_def link_action_reservations_def
      link_model_call_reservations_def)

lemma sample_reserved_ok: "budgets_ok sample_reserved"
  using budgets_ok_reserve [OF sample_ledger_ok] sample_ledger_ok
  by (auto simp: sample_reserved_def split: sum.split)

theorem reserve_all_or_nothing_witness:
  "case reserve_budgets sample_budget_context 50 [(''currency:USD'', 3), (''requests'', 1)] 100 5 sample_ledger of
      Inl e \<Rightarrow> \<not> reservable sample_ledger sample_budget_context [(''currency:USD'', 3), (''requests'', 1)]
    | Inr (rs, s') \<Rightarrow> reservable sample_ledger sample_budget_context [(''currency:USD'', 3), (''requests'', 1)] \<and>
        map rv_id rs = [next_uuid sample_ledger ..< next_uuid sample_ledger +
          length (applicable_budgets sample_ledger sample_budget_context [(''currency:USD'', 3), (''requests'', 1)])] \<and>
        map rv_budget_id rs =
          map bud_id (applicable_budgets sample_ledger sample_budget_context [(''currency:USD'', 3), (''requests'', 1)]) \<and>
        map rv_estimated rs = map (estimate_for [(''currency:USD'', 3), (''requests'', 1)])
          (applicable_budgets sample_ledger sample_budget_context [(''currency:USD'', 3), (''requests'', 1)]) \<and>
        list_all (\<lambda>r. rv_status r = ResActive \<and> rv_run_id r = 50 \<and> rv_expires_at r = 100 + 5) rs \<and>
        reservations s' = reservations sample_ledger @ rs \<and>
        budgets s' = map (\<lambda>b. if b \<in> set (applicable_budgets sample_ledger sample_budget_context
             [(''currency:USD'', 3), (''requests'', 1)])
          then b\<lparr>bud_reserved := bud_reserved b + estimate_for [(''currency:USD'', 3), (''requests'', 1)] b\<rparr>
          else b) (budgets sample_ledger)"
  by (rule reserve_all_or_nothing) (simp add: sample_ledger_def sample_budget_def)

theorem settle_action_reservations_total_witness:
  "\<exists>rs s'. settle_action_reservations 7 40 100 True [] sample_reserved = Inr (rs, s') \<and> budgets_ok s' \<and>
    s' = sample_reserved\<lparr>budgets := budgets s', reservations := reservations s'\<rparr> \<and>
    reservations s' = map (\<lambda>r. if r \<in> set (reservations_of_action sample_reserved 7 40) \<and>
      rv_status r = ResActive then closing 100 True [] r else r) (reservations sample_reserved)"
  by (rule settle_action_reservations_total [OF sample_reserved_ok])

theorem release_action_reservations_total_witness:
  "\<exists>rs s'. release_action_reservations 7 40 100 sample_reserved = Inr (rs, s') \<and> budgets_ok s' \<and>
    s' = sample_reserved\<lparr>budgets := budgets s', reservations := reservations s'\<rparr> \<and>
    reservations s' = map (\<lambda>r. if r \<in> set (reservations_of_action sample_reserved 7 40) \<and>
      rv_status r = ResActive then closing 100 False [] r else r) (reservations sample_reserved)"
  by (rule release_action_reservations_total [OF sample_reserved_ok])

text \<open>
  Settling with reported usage can overcommit: a model call whose provider reports more
  cost than was reserved for it settles normally, and its budget is then spent beyond its limit,
  although the state before was consistent.
\<close>

theorem reported_usage_can_exceed_limit:
  "budgets_ok sample_reserved \<and>
   (case settle_model_call_reservations 7 41 100 True [(''currency:USD'', 11)] sample_reserved of
      Inl e \<Rightarrow> False | Inr (rs, s') \<Rightarrow> \<not> within_limits s')"
proof -
  have "case settle_model_call_reservations 7 41 100 True [(''currency:USD'', 11)] sample_reserved of
      Inl e \<Rightarrow> False | Inr (rs, s') \<Rightarrow> \<not> within_limits s'"
    by (simp add: settle_model_call_reservations_def reservations_of_model_call_def sample_reserved_def
        link_action_reservations_def link_model_call_reservations_def ledger_eval tget_def take_back_def
        actual_of_def keeps_spend_def RELEASABLE_RESOURCES_def upd_reservation_def within_limits_def)
  then show ?thesis using sample_reserved_ok by simp
qed

end
