(* ===== verification/RS_Tool_Calls.thy ===== *)
theory RS_Tool_Calls
  imports RS_Ledger RS_Budgets
begin

section \<open>Workflow tool calls\<close>

text \<open>
  Models the settlement side of \<open>services/workflow_tools.py\<close>: what the worker, the
  approval service, the timeout and the cancellation of a workflow do to the tool call that waits
  for a governed action. A function that the code gives a loaded row takes that row; it writes
  through the row's id.
\<close>

definition TERMINAL_TOOL_CALL_STATUSES :: "tool_call_status list" where
  "TERMINAL_TOOL_CALL_STATUSES = [TcCompleted, TcFailed, TcCancelled, TcTimedOut]"

definition workflow_tool_call_summary :: "tool_call_row \<Rightarrow> json" where
  "workflow_tool_call_summary c = JObj
     [(''id'', juuid (tc_id c)), (''workflow_execution_id'', juuid (tc_execution_id c)),
      (''parent_run_id'', juuid (tc_parent_run_id c)), (''child_run_id'', juuid (tc_child_run_id c)),
      (''action_id'', juuid (tc_action_id c)), (''intent_id'', juuid (tc_intent_id c)),
      (''tool_id'', juuid (tc_tool_id c)), (''node_id'', JStr (tc_node_id c)),
      (''sequence'', JInt (tc_sequence c)), (''result_state_key'', JStr (tc_result_state_key c)),
      (''status'', JStr (tool_call_status_value (tc_status c))),
      (''arguments_digest'', JStr (tc_arguments_digest c)), (''tool_digest'', JStr (tc_tool_digest c)),
      (''action_content_digest'', JStr (tc_action_content_digest c)),
      (''result_digest'', jopt JStr (tc_result_digest c)),
      (''content_digest'', JStr (tc_content_digest c)), (''expires_at'', jtime (tc_expires_at c)),
      (''resolved_at'', jopt jtime (tc_resolved_at c)), (''created_at'', jtime (tc_created_at c))]"

definition safe_tool_result :: "action_row \<Rightarrow> json" where
  "safe_tool_result a = JObj
     [(''action_id'', juuid (act_id a)), (''run_id'', juuid (act_run_id a)),
      (''outcome'', JStr (action_state_value (act_state a))),
      (''provider_reference'', jopt JStr (act_provider_reference a)),
      (''receipt_preview'', (case act_receipt_preview a of None \<Rightarrow> JObj [] | Some j \<Rightarrow> j)),
      (''content_digest'', JStr (act_content_digest a))]"

definition lock_tool_timeout_event :: "db \<Rightarrow> uuid \<Rightarrow> outbox_row option" where
  "lock_tool_timeout_event s call =
     find (\<lambda>ev. ob_dedup_key ev = ''workflow.tool:'' @ uuid_str call @ '':timeout'')
       (seen s ob_org (outbox s))"

definition tool_call_for_action :: "db \<Rightarrow> uuid \<Rightarrow> tool_call_row option" where
  "tool_call_for_action s act = find (\<lambda>c. tc_action_id c = act) (seen s tc_org (tool_calls s))"

definition tool_call_id_for_action :: "db \<Rightarrow> uuid \<Rightarrow> uuid option" where
  "tool_call_id_for_action s act = map_option tc_id (tool_call_for_action s act)"

text \<open>The last \<open>action.ready\<close> event of an action.\<close>

definition action_ready_event :: "db \<Rightarrow> uuid \<Rightarrow> outbox_row option" where
  "action_ready_event s act =
     last_by ob_created_at
       (filter (\<lambda>ev. ob_aggregate_id ev = act \<and> ob_topic ev = ''action.ready'') (seen s ob_org (outbox s)))"

definition resume_workflow :: "tool_call_row \<Rightarrow> string \<Rightarrow> string \<Rightarrow> timestamp \<Rightarrow> db \<Rightarrow> db" where
  "resume_workflow c status reason t =
     add_outbox (tc_org c) ''workflow.ready'' ''workflow_execution'' (tc_execution_id c)
       (''workflow.tool:'' @ uuid_str (tc_id c) @ '':resume:'' @ status)
       (JObj [(''workflow_execution_id'', juuid (tc_execution_id c)),
              (''workflow_tool_call_id'', juuid (tc_id c)),
              (''content_digest'', JStr (tc_content_digest c)), (''reason'', JStr reason)]) t"

definition settle_workflow_tool_call ::
  "env \<Rightarrow> tool_call_row \<Rightarrow> action_row \<Rightarrow> timestamp \<Rightarrow> db \<Rightarrow> db" where
  "settle_workflow_tool_call v c a t s =
     (let finish = (\<lambda>status result.
            let s = upd_tool_call (tc_id c) (\<lambda>c. c\<lparr>tc_status := status, tc_result_digest := result,
                      tc_resolved_at := Some t\<rparr>) s;
                s = resume_workflow c (tool_call_status_value status) ''settled'' t s;
                s = trace_event v (tc_org c) (tc_parent_run_id c) (tc_node_id c)
                      ''workflow.tool_settled'' (tool_call_status_value status)
                      (JObj [(''workflow_tool_call_id'', juuid (tc_id c)),
                             (''child_run_id'', juuid (tc_child_run_id c)),
                             (''action_id'', juuid (act_id a)), (''result_digest'', jopt JStr result),
                             (''raw_content_captured'', JBool False)]) s
            in case get_run s (tc_parent_run_id c) of
                 None \<Rightarrow> s
               | Some p \<Rightarrow>
                   audit v (tc_org c) (run_actor_id p) ''workflow.tool_settled''
                     ''workflow_tool_call'' (tc_id c) (tc_content_digest c)
                     (JObj [(''workflow_execution_id'', juuid (tc_execution_id c)),
                            (''child_run_id'', juuid (tc_child_run_id c)),
                            (''action_id'', juuid (act_id a)),
                            (''status'', JStr (tool_call_status_value status)),
                            (''result_digest'', jopt JStr result),
                            (''raw_content_captured'', JBool False)]) s)
      in if tc_status c \<in> set TERMINAL_TOOL_CALL_STATUSES then s
         else case act_state a of
                ActCommitted \<Rightarrow> finish TcCompleted (Some (digest_of v (safe_tool_result a)))
              | ActFailed \<Rightarrow> finish TcFailed (tc_result_digest c)
              | DeadLettered \<Rightarrow> upd_tool_call (tc_id c) (\<lambda>c. c\<lparr>tc_status := TcDeadLettered\<rparr>) s
              | ReconciliationRequired \<Rightarrow>
                  upd_tool_call (tc_id c) (\<lambda>c. c\<lparr>tc_status := TcReconciliationRequired\<rparr>) s
              | _ \<Rightarrow> s)"

definition mark_processed :: "outbox_row option \<Rightarrow> timestamp \<Rightarrow> db \<Rightarrow> db" where
  "mark_processed event t s =
     (case event of
        Some ev \<Rightarrow> if ob_processed_at ev = None
                  then upd_outbox (ob_id ev) (\<lambda>ev. ev\<lparr>ob_processed_at := Some t\<rparr>) s else s
      | None \<Rightarrow> s)"

definition reject_workflow_tool_call :: "env \<Rightarrow> tool_call_row \<Rightarrow> timestamp \<Rightarrow> string \<Rightarrow> db \<Rightarrow> db" where
  "reject_workflow_tool_call v c t code s =
     (if tc_status c \<in> set TERMINAL_TOOL_CALL_STATUSES then s
      else
        let s = mark_processed (lock_tool_timeout_event s (tc_id c)) t s;
            s = upd_tool_call (tc_id c) (\<lambda>c. c\<lparr>tc_status := TcFailed, tc_resolved_at := Some t\<rparr>) s;
            s = resume_workflow c ''failed'' code t s
        in trace_event v (tc_org c) (tc_parent_run_id c) (tc_node_id c) ''workflow.tool_rejected'' ''failed''
             (JObj [(''workflow_tool_call_id'', juuid (tc_id c)),
                    (''child_run_id'', juuid (tc_child_run_id c)),
                    (''action_id'', juuid (tc_action_id c)), (''error_code'', JStr code),
                    (''raw_content_captured'', JBool False)]) s)"

text \<open>
  The timeout of a tool call. The approval is read only for an action still proposed; the
  action is cancelled only at a boundary where no effect can have started.
\<close>

definition withdraw_before_effect ::
  "env \<Rightarrow> uuid \<Rightarrow> tool_call_row \<Rightarrow> action_row \<Rightarrow> run_row \<Rightarrow> approval_row option \<Rightarrow> outbox_row option \<Rightarrow> timestamp \<Rightarrow>
   db \<Rightarrow> rs_error + tool_call_status \<times> db" where
  "withdraw_before_effect v call c a child approval action_ready t s =
     (let s = (case approval of
                 Some p \<Rightarrow> upd_approval (ap_id p) (\<lambda>p. p\<lparr>ap_status := ApExpired,
                   ap_decided_at := Some t,
                   ap_decision_reason := Some ''workflow tool node timeout''\<rparr>) s
               | None \<Rightarrow> s);
          s = (case action_ready of
                 Some ev \<Rightarrow> upd_outbox (ob_id ev) (\<lambda>ev. ev\<lparr>
                   ob_dispatched_at := (case ob_dispatched_at ev of None \<Rightarrow> Some t | Some d \<Rightarrow> Some d),
                   ob_processed_at := Some t, ob_attempts := ob_attempts ev + 1\<rparr>) s
               | None \<Rightarrow> s);
          s = upd_action (act_id a) (\<lambda>a. a\<lparr>act_state := Rejected,
                act_error_code := Some ''workflow_tool_timed_out_before_effect'',
                act_version := act_version a + 1\<rparr>) s;
          s = upd_run (run_id child) (\<lambda>r. r\<lparr>run_status := RunCancelled,
                run_error_code := Some ''workflow_tool_timed_out_before_effect'',
                run_active_node := None, run_completed_at := Some t\<rparr>) s
      in rbind (release_action_reservations (tc_org c) (act_id a) t s) (\<lambda>(_, s).
         let s = upd_tool_call call (\<lambda>c. c\<lparr>tc_status := TcTimedOut, tc_resolved_at := Some t\<rparr>) s
         in Inr (TcTimedOut,
              trace_event v (tc_org c) (tc_parent_run_id c) (tc_node_id c)
                ''workflow.tool_timed_out'' ''timed_out''
                (JObj [(''workflow_tool_call_id'', juuid (tc_id c)),
                       (''child_run_id'', juuid (tc_child_run_id c)),
                       (''action_id'', juuid (tc_action_id c)),
                       (''side_effect_started'', JBool False),
                       (''raw_content_captured'', JBool False)]) s)))"

definition expire_workflow_tool_call :: "env \<Rightarrow> uuid \<Rightarrow> timestamp \<Rightarrow> db \<Rightarrow> rs_error + tool_call_status \<times> db" where
  "expire_workflow_tool_call v call t s =
     (case get_tool_call s call of
        None \<Rightarrow> Inl (rs_err INVALID_TRANSITION ''The workflow tool call disappeared before timeout settlement.'' 409)
      | Some c \<Rightarrow>
         let action_ready = action_ready_event s (tc_action_id c)
         in if tc_status c \<in> set TERMINAL_TOOL_CALL_STATUSES then Inr (tc_status c, s)
            else
              let action = get_action s (tc_action_id c);
                  approval = (case action of
                      Some a \<Rightarrow> if act_state a = Proposed
                                then Option.bind (act_approval_id a) (get_approval s) else None
                    | None \<Rightarrow> None);
                  set_status = (\<lambda>st s. (st, upd_tool_call call (\<lambda>c. c\<lparr>tc_status := st\<rparr>) s))
              in case (action, get_run s (tc_child_run_id c)) of
                   (Some a, Some child) \<Rightarrow>
                     if act_state a = Executing then Inr (set_status TcExecuting s)
                     else if act_state a = Reconciling then Inr (set_status TcReconciling s)
                     else if act_state a = ReconciliationRequired then Inr (set_status TcReconciliationRequired s)
                     else if act_state a \<in> {ActCommitted, ActFailed, DeadLettered}
                     then let s' = settle_workflow_tool_call v c a t s
                          in Inr (case tget tc_id call (tool_calls s') of None \<Rightarrow> tc_status c | Some c' \<Rightarrow> tc_status c', s')
                     else if \<not> ((act_state a = Proposed \<and>
                                  (case approval of Some p \<Rightarrow> ap_status p = ApPending | None \<Rightarrow> False)) \<or>
                                (act_state a = Approved \<and>
                                  (case action_ready of Some ev \<Rightarrow> ob_dispatched_at ev = None | None \<Rightarrow> False)))
                     then Inr (set_status TcReconciliationRequired s)
                     else withdraw_before_effect v call c a child approval action_ready t s
                 | _ \<Rightarrow> Inl (rs_err INVALID_TRANSITION ''The governed tool action lineage is incomplete.'' 409))"

definition cancel_pending_workflow_tool_call ::
  "tool_call_row \<Rightarrow> uuid \<Rightarrow> timestamp \<Rightarrow> db \<Rightarrow> rs_error + db" where
  "cancel_pending_workflow_tool_call c actor t s =
     (let stale = rs_err INVALID_TRANSITION
            ''The workflow tool call is no longer at a cancelable pre-effect boundary.'' 409
      in fetch (get_action s (tc_action_id c)) stale (\<lambda>a.
         fetch (Option.bind (act_approval_id a) (get_approval s)) stale (\<lambda>p.
         fetch (get_run s (tc_child_run_id c)) stale (\<lambda>child.
         require (tc_status c = TcPendingApproval \<and> act_state a = Proposed \<and> ap_status p = ApPending) stale (
           let s = upd_approval (ap_id p) (\<lambda>p. p\<lparr>ap_status := ApDenied, ap_decided_at := Some t,
                     ap_decided_by := Some actor,
                     ap_decision_reason := Some ''parent workflow cancelled''\<rparr>) s;
               s = upd_action (act_id a) (\<lambda>a. a\<lparr>act_state := Rejected, act_version := act_version a + 1\<rparr>) s;
               s = upd_run (run_id child) (\<lambda>r. r\<lparr>run_status := RunCancelled,
                     run_error_code := Some ''parent_workflow_cancelled'',
                     run_active_node := None, run_completed_at := Some t\<rparr>) s
           in rbind (release_action_reservations (tc_org c) (act_id a) t s) (\<lambda>(_, s).
                Inr (upd_tool_call (tc_id c) (\<lambda>c. c\<lparr>tc_status := TcCancelled,
                       tc_resolved_at := Some t\<rparr>) s)))))))"

definition terminal_tool_call_evidence_digest :: "db \<Rightarrow> tool_call_row \<Rightarrow> digest option" where
  "terminal_tool_call_evidence_digest s c =
     map_option ev_content_digest (find (\<lambda>e. ev_run_id e = tc_child_run_id c) (seen s ev_org (evidence s)))"

subsection \<open>What the settlement of a tool call leaves alone\<close>

lemma resume_workflow_core [simp]:
  "now (resume_workflow c st re t s) = now s"
  "tenant (resume_workflow c st re t s) = tenant s"
  "autoflush (resume_workflow c st re t s) = autoflush s"
  "actions (resume_workflow c st re t s) = actions s"
  "approvals (resume_workflow c st re t s) = approvals s"
  "reservations (resume_workflow c st re t s) = reservations s"
  "budgets (resume_workflow c st re t s) = budgets s"
  "action_reservations (resume_workflow c st re t s) = action_reservations s"
  "next_uuid s \<le> next_uuid (resume_workflow c st re t s)"
  by (simp_all add: resume_workflow_def)

lemma mark_processed_core [simp]:
  "now (mark_processed ev t s) = now s"
  "tenant (mark_processed ev t s) = tenant s"
  "autoflush (mark_processed ev t s) = autoflush s"
  "actions (mark_processed ev t s) = actions s"
  "approvals (mark_processed ev t s) = approvals s"
  "reservations (mark_processed ev t s) = reservations s"
  "budgets (mark_processed ev t s) = budgets s"
  "action_reservations (mark_processed ev t s) = action_reservations s"
  "next_uuid s \<le> next_uuid (mark_processed ev t s)"
  by (simp_all add: mark_processed_def split: option.split)

lemma settle_workflow_tool_call_core [simp]:
  "now (settle_workflow_tool_call v c a t s) = now s"
  "tenant (settle_workflow_tool_call v c a t s) = tenant s"
  "autoflush (settle_workflow_tool_call v c a t s) = autoflush s"
  "actions (settle_workflow_tool_call v c a t s) = actions s"
  "approvals (settle_workflow_tool_call v c a t s) = approvals s"
  "reservations (settle_workflow_tool_call v c a t s) = reservations s"
  "budgets (settle_workflow_tool_call v c a t s) = budgets s"
  "action_reservations (settle_workflow_tool_call v c a t s) = action_reservations s"
  "next_uuid s \<le> next_uuid (settle_workflow_tool_call v c a t s)"
  by (simp_all add: settle_workflow_tool_call_def Let_def le_SucI resume_workflow_def split: option.split action_state.split)

lemma reject_workflow_tool_call_core [simp]:
  "now (reject_workflow_tool_call v c t code s) = now s"
  "tenant (reject_workflow_tool_call v c t code s) = tenant s"
  "autoflush (reject_workflow_tool_call v c t code s) = autoflush s"
  "actions (reject_workflow_tool_call v c t code s) = actions s"
  "approvals (reject_workflow_tool_call v c t code s) = approvals s"
  "reservations (reject_workflow_tool_call v c t code s) = reservations s"
  "budgets (reject_workflow_tool_call v c t code s) = budgets s"
  "action_reservations (reject_workflow_tool_call v c t code s) = action_reservations s"
  "next_uuid s \<le> next_uuid (reject_workflow_tool_call v c t code s)"
  by (simp_all add: reject_workflow_tool_call_def Let_def le_SucI resume_workflow_def mark_processed_def split: option.split)

end
