(* ===== verification/RS_Governed_Actions.thy ===== *)
theory RS_Governed_Actions
  imports RS_Policy RS_Tool_Calls
begin

section \<open>Governed actions\<close>

text \<open>
  Models \<open>services/governed_actions.py\<close>: the creation of a governed action (policy
  decision, budget reservation, approval request, sealed arguments, outbox event), the decision of
  an approval, the cancellation of a run and the final authorization of provider egress; and
  \<open>cancel_workflow_run\<close> of \<open>services/workflows.py\<close>, which the cancellation calls for a
  workflow run. The nonce of the sealed arguments is an argument of the creation.
\<close>

subsection \<open>Constants and helpers\<close>

definition ACTION_TYPE :: string where
  "ACTION_TYPE = ''demo.invoice.send''"

definition TOOL_NAME :: string where
  "TOOL_NAME = ''demo.invoice.send''"

definition ACTION_BUDGET_ESTIMATES :: estimates where
  "ACTION_BUDGET_ESTIMATES =
     [(''currency:USD'', 1), (''requests'', 1), (''concurrent_runs'', 1), (''tool_actions'', 1)]"

record actor_context =
  actor_org :: uuid
  actor_id :: uuid
  actor_type :: string

text \<open>
  \<open>local[:2]\<close> counts code points: \<open>take_chars\<close> takes whole UTF-8 sequences.
\<close>

definition continuation_byte :: "char \<Rightarrow> bool" where
  "continuation_byte c \<longleftrightarrow> 128 \<le> (of_char c :: nat) \<and> (of_char c :: nat) < 192"

fun take_chars :: "nat \<Rightarrow> string \<Rightarrow> string" where
  "take_chars n [] = []"
| "take_chars n (c # cs) =
     (if continuation_byte c then c # take_chars n cs
      else case n of 0 \<Rightarrow> [] | Suc m \<Rightarrow> c # take_chars m cs)"

definition char_count :: "string \<Rightarrow> nat" where
  "char_count s = length (filter (\<lambda>c. \<not> continuation_byte c) s)"

definition redacted_recipient :: "string \<Rightarrow> string" where
  "redacted_recipient recipient =
     (let local = takeWhile (\<lambda>c. c \<noteq> CHR ''@'') recipient;
          rest = dropWhile (\<lambda>c. c \<noteq> CHR ''@'') recipient
      in if rest = [] then ''[redacted]''
         else (if 2 < char_count local then take_chars 2 local else take_chars 1 local) @ ''***@'' @ tl rest)"

definition action_aad_values :: "uuid \<Rightarrow> uuid \<Rightarrow> digest \<Rightarrow> json" where
  "action_aad_values org act content = JObj
     [(''organization_id'', juuid org), (''action_id'', juuid act), (''content_digest'', JStr content)]"

definition action_aad :: "action_row \<Rightarrow> json" where
  "action_aad a = action_aad_values (act_org a) (act_id a) (act_content_digest a)"

definition decrypt_action_arguments :: "env \<Rightarrow> action_row \<Rightarrow> rs_error + json" where
  "decrypt_action_arguments v a =
     rbind (decode_aes256_key v (encryption_key_b64 v)) (\<lambda>key.
     rbind (open_json v (act_encrypted_arguments a) key (action_aad a)) (\<lambda>value.
     case value of
       JObj _ \<Rightarrow> Inr value
     | _ \<Rightarrow> Inl (rs_err ACTION_NOT_AUTHORIZED ''The durable action payload is invalid.'' 409)))"

definition require_catalog ::
  "db \<Rightarrow> governed_action_input \<Rightarrow> rs_error + project_row \<times> environment_row \<times> agent_row" where
  "require_catalog s req =
     (let missing = rs_err NOT_FOUND ''Project, environment, or agent not found.'' 404;
          foreign = rs_err NOT_FOUND ''Agent is not registered in this project.'' 404
      in fetch (get_project s (req_project_id req)) missing (\<lambda>p.
         fetch (get_environment s (req_environment_id req)) missing (\<lambda>e.
         fetch (get_agent s (req_agent_id req)) missing (\<lambda>a.
         fetch (get_system s (agt_system_id a)) foreign (\<lambda>sy.
         require (sys_project_id sy = prj_id p) foreign (Inr (p, e, a)))))))"

subsection \<open>Creating a governed action\<close>

definition request_arguments :: "governed_action_input \<Rightarrow> json" where
  "request_arguments req = JObj
     [(''recipient'', JStr (req_recipient req)), (''amount_cents'', JInt (req_amount_cents req)),
      (''description'', JStr (req_description req)),
      (''simulate_outcome'', JStr (req_simulate_outcome req))]"

definition input_document :: "env \<Rightarrow> governed_action_input \<Rightarrow> json" where
  "input_document v req = JObj
     [(''project_id'', juuid (req_project_id req)), (''environment_id'', juuid (req_environment_id req)),
      (''agent_id'', juuid (req_agent_id req)), (''action_type'', JStr ACTION_TYPE),
      (''arguments_digest'', JStr (digest_of v (request_arguments req)))]"

definition request_preview :: "bool \<Rightarrow> governed_action_input \<Rightarrow> json" where
  "request_preview bound req = JObj
     ([(''tool'', JStr TOOL_NAME), (''recipient'', JStr (redacted_recipient (req_recipient req))),
       (''amount_cents'', JInt (req_amount_cents req)), (''description'', JStr (req_description req))] @
      (if bound then [(''binding'', JStr ''exact-content'')] else []))"

definition active_bundle :: "db \<Rightarrow> uuid \<Rightarrow> policy_bundle_row option" where
  "active_bundle s project =
     last_by pb_created_at
       (filter (\<lambda>b. pb_project_id b = project \<and> pb_status b = ''active'') (seen s pb_org (policy_bundles s)))"

text \<open>pydantic's checks on a \<open>PolicyContext\<close> that its caller's values can fail.\<close>

definition policy_context_valid :: "policy_context \<Rightarrow> bool" where
  "policy_context_valid c \<longleftrightarrow> ctx_environment c \<noteq> [] \<and>
     ctx_actor_type c \<in> {''user'', ''service'', ''workload''} \<and> 0 \<le> ctx_amount_minor c"

definition action_policy_context :: "actor_context \<Rightarrow> governed_action_input \<Rightarrow> environment_row \<Rightarrow> timestamp \<Rightarrow> policy_context" where
  "action_policy_context c req e t = \<lparr>ctx_action_type = ACTION_TYPE,
     ctx_resource = ''tool:demo.invoice.send'', ctx_environment = envr_type e, ctx_risk = ''high'',
     ctx_data_classification = ''confidential'', ctx_actor_type = actor_type c,
     ctx_amount_minor = req_amount_cents req, ctx_occurred_at = t\<rparr>"

definition decide_policy ::
  "env \<Rightarrow> policy_bundle_row option \<Rightarrow> policy_context \<Rightarrow> rs_error + policy_bundle_row \<times> policy_decision" where
  "decide_policy v bundle pc =
     require (policy_context_valid pc) (PyValueError ''PolicyContext'') (
     rbind (evaluate v (map_option pb_document bundle) pc) (\<lambda>d.
     let mismatch = rs_err POLICY_UNAVAILABLE
           ''The active policy bundle digest does not match its content.'' 503
     in fetch bundle mismatch (\<lambda>b.
        require (pb_content_digest b = dec_policy_digest d) mismatch (
        require (dec_effect d \<noteq> DENY) (rs_err POLICY_DENIED (dec_reason d) 403) (
        require (dec_effect d \<in> {ALLOW, REQUIRE_APPROVAL})
          (rs_err POLICY_DENIED (''Decision '' @ effect_value (dec_effect d) @
             '' is not executable in this milestone.'') 403) (
        Inr (b, d)))))))"

text \<open>The run, delegation, intent and decision rows, with the ids the session draws for them.\<close>

definition intent_document ::
  "actor_context \<Rightarrow> governed_action_input \<Rightarrow> uuid \<Rightarrow> uuid \<Rightarrow> digest \<Rightarrow> json" where
  "intent_document c req run deleg arguments = JObj
     [(''organization_id'', juuid (actor_org c)), (''run_id'', juuid run),
      (''project_id'', juuid (req_project_id req)), (''environment_id'', juuid (req_environment_id req)),
      (''agent_id'', juuid (req_agent_id req)), (''actor_id'', juuid (actor_id c)),
      (''delegation_id'', juuid deleg), (''action_type'', JStr ACTION_TYPE),
      (''arguments_digest'', JStr arguments), (''idempotency_key'', JStr (req_idempotency_key req))]"

definition delegation_document :: "actor_context \<Rightarrow> agent_row \<Rightarrow> uuid \<Rightarrow> timestamp \<Rightarrow> json" where
  "delegation_document c a run valid_until = JObj
     [(''delegator_id'', juuid (actor_id c)), (''delegator_type'', JStr (actor_type c)),
      (''workload_identity_id'', juuid (agt_workload_id a)), (''action_types'', JArr [JStr ACTION_TYPE]),
      (''run_id'', juuid run), (''valid_until'', jtime valid_until)]"

definition new_run :: "env \<Rightarrow> actor_context \<Rightarrow> governed_action_input \<Rightarrow> uuid \<Rightarrow> timestamp \<Rightarrow> run_row" where
  "new_run v c req i t = \<lparr>run_id = i, run_org = actor_org c, run_project_id = req_project_id req,
     run_environment_id = req_environment_id req, run_agent_id = req_agent_id req,
     run_actor_id = actor_id c, run_actor_type = actor_type c, run_kind = ''governed_action'',
     run_status = RunAuthorizing, run_idempotency_key = req_idempotency_key req,
     run_input_digest = digest_of v (input_document v req), run_active_node = Some ''policy-check'',
     run_started_at = None, run_completed_at = None, run_error_code = None,
     run_created_at = t, run_updated_at = t\<rparr>"

definition add_lineage ::
  "env \<Rightarrow> actor_context \<Rightarrow> governed_action_input \<Rightarrow> agent_row \<Rightarrow> policy_bundle_row \<Rightarrow> policy_decision \<Rightarrow>
   policy_context \<Rightarrow> db \<Rightarrow> (uuid \<times> uuid \<times> uuid \<times> digest) \<times> db" where
  "add_lineage v c req a b d pc s =
     (let t = now s;
          arguments = digest_of v (request_arguments req);
          (run, s) = uuid4 s;
          s = s\<lparr>runs := runs s @ [new_run v c req run t]\<rparr>;
          (deleg, s) = uuid4 s;
          until = t + minutes 30;
          s = s\<lparr>delegations := delegations s @ [\<lparr>dlg_id = deleg, dlg_org = actor_org c,
                dlg_delegator_id = actor_id c, dlg_delegator_type = actor_type c,
                dlg_workload_id = agt_workload_id a, dlg_action_types = [ACTION_TYPE],
                dlg_valid_until = until,
                dlg_content_digest = digest_of v (delegation_document c a run until)\<rparr>]\<rparr>;
          content = digest_of v (intent_document c req run deleg arguments);
          (intent, s) = uuid4 s;
          s = s\<lparr>intents := intents s @ [\<lparr>int_id = intent, int_org = actor_org c, int_run_id = run,
                int_actor_id = actor_id c, int_delegation_id = deleg, int_action_type = ACTION_TYPE,
                int_arguments_digest = arguments, int_content_digest = content,
                int_idempotency_key = req_idempotency_key req, int_status = ''authorized''\<rparr>]\<rparr>;
          (dec, s) = uuid4 s;
          s = s\<lparr>policy_decisions := policy_decisions s @ [\<lparr>pd_id = dec, pd_org = actor_org c,
                pd_bundle_id = pb_id b, pd_effect = effect_value (dec_effect d),
                pd_reason_code = dec_reason_code d, pd_reason = dec_reason d,
                pd_input_digest = digest_of v (context_json pc),
                pd_policy_digest = dec_policy_digest d, pd_expires_at = dec_expires_at d\<rparr>]\<rparr>
      in ((run, intent, dec, content), s))"

definition action_budget_context :: "actor_context \<Rightarrow> governed_action_input \<Rightarrow> budget_context" where
  "action_budget_context c req = \<lparr>bc_org = actor_org c, bc_project_id = req_project_id req,
     bc_environment_id = req_environment_id req, bc_agent_id = req_agent_id req,
     bc_actor_id = actor_id c, bc_actor_type = actor_type c, bc_model_route_id = None\<rparr>"

definition add_approval ::
  "env \<Rightarrow> actor_context \<Rightarrow> governed_action_input \<Rightarrow> policy_decision \<Rightarrow> uuid \<Rightarrow> uuid \<Rightarrow> digest \<Rightarrow> db \<Rightarrow>
   uuid option \<times> db" where
  "add_approval v c req d run intent content s =
     (if dec_effect d \<noteq> REQUIRE_APPROVAL then (None, s)
      else let (i, s) = uuid4 s
           in (Some i, s\<lparr>approvals := approvals s @ [\<lparr>ap_id = i, ap_org = actor_org c, ap_run_id = run,
                 ap_intent_id = intent, ap_content_digest = content, ap_status = ApPending,
                 ap_risk = ''high'', ap_reason = dec_reason d,
                 ap_request_preview = request_preview True req,
                 ap_expires_at = now s + seconds (approval_ttl_seconds v), ap_decided_at = None,
                 ap_decided_by = None, ap_decision_reason = None\<rparr>]\<rparr>))"

definition new_action ::
  "env \<Rightarrow> actor_context \<Rightarrow> governed_action_input \<Rightarrow> uuid \<Rightarrow> uuid \<Rightarrow> uuid \<Rightarrow> uuid \<Rightarrow> uuid option \<Rightarrow> uuid \<Rightarrow>
   digest \<Rightarrow> string \<Rightarrow> timestamp \<Rightarrow> action_row" where
  "new_action v c req i run intent dec approval reservation content sealed t =
     \<lparr>act_id = i, act_org = actor_org c, act_run_id = run, act_intent_id = intent, act_decision_id = dec,
      act_approval_id = approval, act_reservation_id = reservation, act_tool_name = TOOL_NAME,
      act_state = (if approval = None then Approved else Proposed), act_version = 1,
      act_content_digest = content, act_encrypted_arguments = sealed,
      act_request_preview = request_preview (approval \<noteq> None) req,
      act_idempotency_key = ''rsa_'' @ uuid_hex run, act_worker_name = None, act_claim_hash = None,
      act_lease_expires_at = None, act_execute_attempts = 0, act_reconcile_attempts = 0,
      act_cycle_attempts = 0, act_next_reconcile_at = None, act_receipt_preview = None,
      act_provider_reference = None, act_error_code = None, act_updated_at = t\<rparr>"

definition announce_action ::
  "env \<Rightarrow> actor_context \<Rightarrow> policy_decision \<Rightarrow> uuid \<Rightarrow> uuid \<Rightarrow> uuid option \<Rightarrow> uuid \<Rightarrow> digest \<Rightarrow>
   reservation_row \<Rightarrow> reservation_row list \<Rightarrow> db \<Rightarrow> db" where
  "announce_action v c d run dec approval act content reservation rs s =
     (let t = now s;
          s = upd_run run (\<lambda>r. r\<lparr>
                run_status := (if approval = None then RunQueued else RunWaitingForApproval),
                run_active_node := Some (if approval = None then ''action-dispatch'' else ''human-approval'')\<rparr>) s;
          s = trace_event v (actor_org c) run ''policy-check'' ''guardrail.decision''
                (effect_value (dec_effect d))
                (JObj [(''decision_id'', juuid dec), (''effect'', JStr (effect_value (dec_effect d))),
                       (''reason_code'', JStr (dec_reason_code d)),
                       (''policy_digest'', JStr (dec_policy_digest d)),
                       (''content_digest'', JStr content), (''raw_content_captured'', JBool False)]) s;
          s = (case approval of
                 Some ap \<Rightarrow> trace_event v (actor_org c) run ''human-approval'' ''approval.requested'' ''waiting''
                   (JObj [(''approval_id'', juuid ap), (''content_digest'', JStr content),
                          (''expires_at'', jtime (t + seconds (approval_ttl_seconds v)))]) s
               | None \<Rightarrow> add_outbox (actor_org c) ''action.ready'' ''action'' act
                   (''action.ready:'' @ uuid_str act @ '':1'')
                   (JObj [(''action_id'', juuid act), (''content_digest'', JStr content)]) t s)
      in audit v (actor_org c) (actor_id c) ''intent.created'' ''run'' run content
           (JObj [(''decision'', JStr (effect_value (dec_effect d))),
                  (''approval_id'', jopt juuid approval),
                  (''budget_reservation_id'', juuid (rv_id reservation)),
                  (''budget_reservation_ids'', JArr (map (juuid \<circ> rv_id) rs)),
                  (''raw_content_captured'', JBool False)]) s)"

definition create_governed_action ::
  "env \<Rightarrow> actor_context \<Rightarrow> governed_action_input \<Rightarrow> string \<Rightarrow> db \<Rightarrow> rs_error + uuid \<times> db" where
  "create_governed_action v c req nonce s =
     rbind (require_catalog s req) (\<lambda>(p, e, a).
     case find (\<lambda>r. run_idempotency_key r = req_idempotency_key req) (seen s run_org (runs s)) of
       Some existing \<Rightarrow>
         require (run_input_digest existing = digest_of v (input_document v req))
           (rs_err VALIDATION_FAILED ''The idempotency key already belongs to different run content.'' 409)
           (Inr (run_id existing, s))
     | None \<Rightarrow>
         let pc = action_policy_context c req e (now s)
         in rbind (decide_policy v (active_bundle s (prj_id p)) pc) (\<lambda>(b, d).
            let ((run, intent, dec, content), s) = add_lineage v c req a b d pc s
            in rbind (reserve_budgets (action_budget_context c req) run ACTION_BUDGET_ESTIMATES
                        (now s) (minutes 30) s) (\<lambda>(rs, s).
               fetch (find (\<lambda>r. rv_resource r = ''currency:USD'') rs) PyStopIteration (\<lambda>reservation.
               let (approval, s) = add_approval v c req d run intent content s;
                   s = flush s;
                   (act, s) = uuid4 s
               in rbind (decode_aes256_key v (encryption_key_b64 v)) (\<lambda>key.
                  let sealed = seal_json v nonce (request_arguments req) key
                                 (action_aad_values (actor_org c) act content);
                      s = s\<lparr>actions := actions s @
                            [new_action v c req act run intent dec approval (rv_id reservation) content sealed (now s)]\<rparr>;
                      s = link_action_reservations (actor_org c) act rs s
                  in Inr (run, announce_action v c d run dec approval act content reservation rs s))))))"

subsection \<open>Deciding an approval\<close>

definition action_of_approval :: "db \<Rightarrow> uuid \<Rightarrow> action_row option" where
  "action_of_approval s ap = find (\<lambda>a. act_approval_id a = Some ap) (seen s act_org (actions s))"

definition deny_action ::
  "env \<Rightarrow> actor_context \<Rightarrow> uuid \<Rightarrow> action_row \<Rightarrow> intent_row \<Rightarrow> run_row \<Rightarrow> tool_call_row option \<Rightarrow> db \<Rightarrow> rs_error + db" where
  "deny_action v c ap a i r call s =
     (let t = now s;
          s = upd_approval ap (\<lambda>p. p\<lparr>ap_status := ApDenied\<rparr>) s;
          s = upd_action (act_id a) (\<lambda>a. a\<lparr>act_state := Rejected, act_version := act_version a + 1\<rparr>) s;
          s = upd_intent (int_id i) (\<lambda>i. i\<lparr>int_status := ''denied''\<rparr>) s;
          s = upd_run (run_id r) (\<lambda>r. r\<lparr>run_status := RunCancelled, run_completed_at := Some t,
                run_active_node := None\<rparr>) s
      in rbind (release_action_reservations (actor_org c) (act_id a) t s) (\<lambda>(_, s).
         Inr (case call of
                Some tc \<Rightarrow> reject_workflow_tool_call v tc t ''workflow_tool_approval_denied'' s
              | None \<Rightarrow> s)))"

definition approve_action ::
  "actor_context \<Rightarrow> uuid \<Rightarrow> action_row \<Rightarrow> run_row \<Rightarrow> tool_call_row option \<Rightarrow> db \<Rightarrow> rs_error + db" where
  "approve_action c ap a r call s =
     (let t = now s;
          s = upd_approval ap (\<lambda>p. p\<lparr>ap_status := ApApproved\<rparr>) s;
          s = upd_action (act_id a) (\<lambda>a. a\<lparr>act_state := Approved, act_version := act_version a + 1\<rparr>) s;
          s = upd_run (run_id r) (\<lambda>r. r\<lparr>run_status := RunQueued,
                run_active_node := Some ''action-dispatch''\<rparr>) s;
          s = add_outbox (actor_org c) ''action.ready'' ''action'' (act_id a)
                (''action.ready:'' @ uuid_str (act_id a) @ '':'' @ int_str (act_version a + 1))
                (JObj [(''action_id'', juuid (act_id a)), (''content_digest'', JStr (act_content_digest a))]) t s
      in case call of
           None \<Rightarrow> Inr s
         | Some tc \<Rightarrow>
             require (tc_status tc = TcPendingApproval)
               (rs_err INVALID_TRANSITION ''The workflow tool call is no longer waiting for this approval.'' 409)
               (Inr (upd_tool_call (tc_id tc) (\<lambda>tc. tc\<lparr>tc_status := TcQueued\<rparr>) s)))"

text \<open>
  The expired branch assigns \<open>approval.status\<close> before it raises; the session is rolled
  back, so the assignment is never stored.
\<close>

definition decide_approval ::
  "env \<Rightarrow> actor_context \<Rightarrow> uuid \<Rightarrow> digest \<Rightarrow> string \<Rightarrow> string \<Rightarrow> db \<Rightarrow> rs_error + uuid \<times> db" where
  "decide_approval v c approval submitted decision reason s =
     (let call = Option.bind (action_of_approval s approval) (\<lambda>a. tool_call_for_action s (act_id a));
          incomplete = rs_err ACTION_NOT_AUTHORIZED ''Approval lineage is incomplete.'' 409
      in fetch (get_approval s approval) (rs_err NOT_FOUND ''Approval not found.'' 404) (\<lambda>p.
         require (ap_status p = ApPending)
           (rs_err APPROVAL_REPLAYED ''This approval has already been decided and cannot be replayed.'' 409) (
         require (now s < ap_expires_at p)
           (rs_err APPROVAL_EXPIRED ''This approval has expired.'' 409) (
         fetch (action_of_approval s (ap_id p)) incomplete (\<lambda>a.
         fetch (get_intent s (ap_intent_id p)) incomplete (\<lambda>i.
         fetch (get_run s (ap_run_id p)) incomplete (\<lambda>r.
         rbind (decrypt_action_arguments v a) (\<lambda>arguments.
         require (submitted = ap_content_digest p \<and> act_content_digest a = ap_content_digest p \<and>
                  int_content_digest i = ap_content_digest p \<and>
                  digest_of v arguments = int_arguments_digest i)
           (rs_err APPROVAL_DIGEST_MISMATCH
              ''Approval is bound to exact action content; changed arguments require a new request.'' 409) (
         let s = upd_approval (ap_id p) (\<lambda>p. p\<lparr>ap_decided_at := Some (now s),
                   ap_decided_by := Some (actor_id c), ap_decision_reason := Some reason\<rparr>) s;
             status = (if decision = ''deny'' then ''denied'' else ''approved'')
         in rbind (if decision = ''deny'' then deny_action v c (ap_id p) a i r call s
                   else approve_action c (ap_id p) a r call s) (\<lambda>s.
            let s = trace_event v (actor_org c) (run_id r) ''human-approval'' (''approval.'' @ status) status
                      (JObj [(''approval_id'', juuid (ap_id p)),
                             (''content_digest'', JStr (ap_content_digest p)),
                             (''decided_by'', juuid (actor_id c))]) s
            in Inr (run_id r,
                 audit v (actor_org c) (actor_id c) (''approval.'' @ status) ''approval'' (ap_id p)
                   (ap_content_digest p)
                   (JObj [(''run_id'', juuid (run_id r)), (''decision_reason'', JStr reason)]) s)))))))))))"

subsection \<open>Cancelling a run\<close>

fun cancel_tool_calls :: "uuid \<Rightarrow> timestamp \<Rightarrow> tool_call_row list \<Rightarrow> db \<Rightarrow> rs_error + db" where
  "cancel_tool_calls actor t [] s = Inr s"
| "cancel_tool_calls actor t (c # cs) s =
     rbind (cancel_pending_workflow_tool_call c actor t s) (cancel_tool_calls actor t cs)"

definition cancel_wait :: "timestamp \<Rightarrow> wait_row \<Rightarrow> db \<Rightarrow> db" where
  "cancel_wait t w = upd_wait (wt_id w) (\<lambda>w. w\<lparr>wt_status := ''cancelled'',
     wt_resolution := Some ''cancelled'', wt_resolved_at := Some t\<rparr>)"

definition cancel_subworkflow_call :: "execution_row \<Rightarrow> timestamp \<Rightarrow> subworkflow_call_row \<Rightarrow> db \<Rightarrow> db" where
  "cancel_subworkflow_call ex t k s =
     add_outbox (ex_org ex) ''workflow.ready'' ''workflow_execution'' (sc_child_execution_id k)
       (''subworkflow.call:'' @ uuid_str (sc_id k) @ '':cancel-child'')
       (JObj [(''workflow_execution_id'', juuid (sc_child_execution_id k)),
              (''parent_subworkflow_call_id'', juuid (sc_id k)),
              (''content_digest'', JStr (sc_content_digest k))]) t
       (upd_subworkflow_call (sc_id k) (\<lambda>k. k\<lparr>sc_status := ''cancelled'', sc_resolved_at := Some t\<rparr>) s)"

definition finish_cancellation ::
  "env \<Rightarrow> actor_context \<Rightarrow> execution_row \<Rightarrow> run_row \<Rightarrow> tool_call_row list \<Rightarrow> db \<Rightarrow> db" where
  "finish_cancellation v c ex r calls s =
     (let t = now s;
          ws = filter (\<lambda>w. wt_execution_id w = ex_id ex \<and> wt_status w = ''pending'') (seen s wt_org (waits s));
          s = fold (cancel_wait t) ws s;
          subs = filter (\<lambda>k. sc_parent_execution_id k = ex_id ex \<and> sc_status k = ''pending'')
                   (seen s sc_org (subworkflow_calls s));
          s = fold (cancel_subworkflow_call ex t) subs s;
          s = upd_execution (ex_id ex) (\<lambda>e. e\<lparr>ex_status := ExCancelled,
                ex_error_code := Some ''workflow_cancelled'', ex_completed_at := Some t,
                ex_claim_hash := None, ex_lease_expires_at := None, ex_version := ex_version e + 1\<rparr>) s;
          s = upd_run (run_id r) (\<lambda>r. r\<lparr>run_status := RunCancelled,
                run_error_code := Some ''workflow_cancelled'', run_active_node := None,
                run_completed_at := Some t\<rparr>) s;
          s = add_outbox (ex_org ex) ''workflow.finalize'' ''workflow_execution'' (ex_id ex)
                (''workflow.finalize:'' @ uuid_str (ex_id ex) @ '':cancelled'')
                (JObj [(''workflow_execution_id'', juuid (ex_id ex)),
                       (''content_digest'', JStr (ex_content_digest ex))]) t s;
          counts = [(''workflow_execution_id'', juuid (ex_id ex)),
                    (''cancelled_wait_count'', JInt (int (length ws))),
                    (''cancelled_subworkflow_count'', JInt (int (length subs))),
                    (''cancelled_tool_call_count'', JInt (int (length calls))),
                    (''side_effect_started'', JBool False)];
          s = trace_event v (ex_org ex) (run_id r) ''workflow'' ''workflow.cancelled'' ''cancelled''
                (JObj (counts @ [(''raw_content_captured'', JBool False)])) s
      in audit v (ex_org ex) (actor_id c) ''workflow.cancelled'' ''run'' (run_id r)
           (ex_content_digest ex) (JObj counts) s)"

definition cancel_workflow_run :: "env \<Rightarrow> actor_context \<Rightarrow> run_row \<Rightarrow> db \<Rightarrow> rs_error + uuid \<times> db" where
  "cancel_workflow_run v c r s =
     (let idle = rs_err INVALID_TRANSITION
            ''Only an idle queued or waiting workflow can be cancelled safely.'' 409
      in fetch (find (\<lambda>e. ex_run_id e = run_id r) (seen s ex_org (executions s))) idle (\<lambda>ex.
         require (ex_status ex \<in> {ExQueued, ExWaiting}) idle (
         require (filter (\<lambda>m. mc_execution_id m = ex_id ex) (seen s mc_org (model_calls s)) = [])
           (rs_err INVALID_TRANSITION ''A workflow cannot be cancelled after an agent model call is queued.'' 409) (
         let calls = filter (\<lambda>k. tc_execution_id k = ex_id ex) (seen s tc_org (tool_calls s))
         in require (\<forall>k \<in> set calls. tc_status k = TcPendingApproval)
              (rs_err INVALID_TRANSITION ''A workflow cannot be cancelled after a tool effect became dispatchable.'' 409) (
            rbind (cancel_tool_calls (actor_id c) (now s) calls s) (\<lambda>s.
            Inr (run_id r, finish_cancellation v c ex r calls s)))))))"

definition cancel_run :: "env \<Rightarrow> actor_context \<Rightarrow> uuid \<Rightarrow> db \<Rightarrow> rs_error + uuid \<times> db" where
  "cancel_run v c run s =
     fetch (get_run s run) (rs_err NOT_FOUND ''Run not found.'' 404) (\<lambda>r.
     if run_kind r = ''workflow'' then cancel_workflow_run v c r s
     else
       let t = now s;
           boundary = rs_err INVALID_TRANSITION ''The run is not at a cancelable approval boundary.'' 409;
           stale = rs_err INVALID_TRANSITION ''Cancelable governance lineage is incomplete or stale.'' 409
       in require (run_status r = RunWaitingForApproval)
            (rs_err INVALID_TRANSITION ''Only a run waiting for approval can be cancelled safely.'' 409) (
          fetch (find (\<lambda>a. act_run_id a = run_id r) (seen s act_org (actions s))) boundary (\<lambda>a.
          require (act_state a = Proposed) boundary (
          fetch (act_approval_id a) boundary (\<lambda>ap.
          fetch (get_approval s ap) stale (\<lambda>p.
          fetch (get_intent s (act_intent_id a)) stale (\<lambda>i.
          require (ap_status p = ApPending) stale (
          let s = upd_approval (ap_id p) (\<lambda>p. p\<lparr>ap_status := ApDenied, ap_decided_at := Some t,
                    ap_decided_by := Some (actor_id c),
                    ap_decision_reason := Some ''Run cancelled before approval by authenticated caller.''\<rparr>) s;
              s = upd_action (act_id a) (\<lambda>a. a\<lparr>act_state := Rejected, act_version := act_version a + 1\<rparr>) s;
              s = upd_intent (int_id i) (\<lambda>i. i\<lparr>int_status := ''denied''\<rparr>) s
          in rbind (release_action_reservations (actor_org c) (act_id a) t s) (\<lambda>(rs, s).
             let s = upd_run (run_id r) (\<lambda>r. r\<lparr>run_status := RunCancelled, run_active_node := None,
                       run_completed_at := Some t\<rparr>) s;
                 s = trace_event v (actor_org c) (run_id r) ''human-approval'' ''run.cancelled'' ''cancelled''
                       (JObj [(''approval_id'', juuid (ap_id p)),
                              (''content_digest'', JStr (act_content_digest a)),
                              (''side_effect_started'', JBool False)]) s
             in Inr (run_id r,
                  audit v (actor_org c) (actor_id c) ''run.cancelled'' ''run'' (run_id r) (act_content_digest a)
                    (JObj [(''approval_id'', juuid (ap_id p)),
                           (''budget_reservation_ids'', JArr (map (juuid \<circ> rv_id) rs)),
                           (''side_effect_started'', JBool False)]) s))))))))))"

subsection \<open>Final authorization of provider egress\<close>

record internal_authorization =
  ia_organization_id :: uuid
  ia_run_id :: uuid
  ia_workload_subject :: string
  ia_audience :: string
  ia_content_digest :: digest
  ia_arguments_digest :: digest
  ia_decision_id :: uuid
  ia_approval_id :: "uuid option"
  ia_reservation_id :: uuid
  ia_reservation_ids :: "uuid list"

definition claim_hash :: "env \<Rightarrow> string \<Rightarrow> string" where
  "claim_hash v token = sha256_hex v token"

definition authorize_gateway_action ::
  "env \<Rightarrow> uuid \<Rightarrow> digest \<Rightarrow> string \<Rightarrow> string \<Rightarrow> db \<Rightarrow> rs_error + internal_authorization" where
  "authorize_gateway_action v action content token mode s =
     (let denied = rs_err ACTION_NOT_AUTHORIZED
      in fetch (get_action s action) (rs_err NOT_FOUND ''Action not found.'' 404) (\<lambda>a.
         require (act_state a = (if mode = ''execute'' then Executing else Reconciling))
           (denied ''Action is not in an executable state.'' 409) (
         require (case act_lease_expires_at a of None \<Rightarrow> False | Some l \<Rightarrow> now s < l)
           (denied ''Action worker lease is not live.'' 409) (
         require (act_claim_hash a = Some (claim_hash v token))
           (denied ''Action claim identity does not match.'' 409) (
         require (act_content_digest a = content)
           (denied ''Action content digest does not match.'' 409) (
         let incomplete = denied ''Action authorization lineage is incomplete.'' 409;
             rs = reservations_of_action s (act_org a) (act_id a)
         in fetch (get_intent s (act_intent_id a)) incomplete (\<lambda>i.
            fetch (get_decision s (act_decision_id a)) incomplete (\<lambda>d.
            fetch (get_run s (act_run_id a)) incomplete (\<lambda>r.
            require (rs \<noteq> [] \<and> act_reservation_id a \<in> rv_id ` set rs) incomplete (
            let inconsistent = denied ''Action governance lineage is unavailable or inconsistent.'' 409
            in fetch (get_bundle s (pd_bundle_id d)) inconsistent (\<lambda>b.
               require (pb_content_digest b = pd_policy_digest d) inconsistent (
               require (\<not> (mode = ''execute'' \<and>
                          (pd_expires_at d \<le> now s \<or> pb_status b \<noteq> ''active'' \<or>
                           (\<exists>q \<in> set rs. rv_status q \<noteq> ResActive \<or> rv_expires_at q \<le> now s))))
                 (denied ''Action governance is stale or unavailable.'' 409) (
               require (\<not> (mode = ''reconcile'' \<and> (\<exists>q \<in> set rs. rv_status q \<noteq> ResActive)))
                 (denied ''Ambiguous-effect budget lineage is no longer reserved.'' 409) (
               require (if pd_effect d = effect_value REQUIRE_APPROVAL
                        then (case Option.bind (act_approval_id a) (get_approval s) of
                                None \<Rightarrow> False
                              | Some p \<Rightarrow> ap_status p = ApApproved \<and>
                                          ap_content_digest p = act_content_digest a)
                        else True)
                 (denied ''Exact-content approval is not valid.'' 409) (
               require (pd_effect d = effect_value REQUIRE_APPROVAL \<or> pd_effect d = effect_value ALLOW)
                 (denied ''Policy does not allow this action.'' 409) (
               rbind (decrypt_action_arguments v a) (\<lambda>arguments.
               require (digest_of v arguments = int_arguments_digest i)
                 (denied ''Durable action content was modified.'' 409) (
               let unavailable = denied ''Workload identity is unavailable.'' 409
               in fetch (get_agent s (run_agent_id r)) unavailable (\<lambda>g.
                  fetch (get_workload s (agt_workload_id g)) unavailable (\<lambda>w.
                  require (wl_active w) unavailable (
                  Inr \<lparr>ia_organization_id = act_org a, ia_run_id = act_run_id a,
                       ia_workload_subject = wl_subject w, ia_audience = demo_provider_audience v,
                       ia_content_digest = act_content_digest a,
                       ia_arguments_digest = int_arguments_digest i, ia_decision_id = pd_id d,
                       ia_approval_id = act_approval_id a, ia_reservation_id = act_reservation_id a,
                       ia_reservation_ids = map rv_id rs\<rparr>)))))))))))))))))))))"

end
