(* ===== verification/RS_Registry.thy ===== *)
theory RS_Registry
  imports RS_Routing RS_Governed_Actions
begin

section \<open>Workflows, versions and deployments\<close>

text \<open>
  Models the registry part of \<open>services/workflows.py\<close>: drafts and immutable versions, the issues
  of a version's references (policies, model routes, tools, nested subworkflows), deployment with
  supersession, and the search for effectful tools below a deployment. What pydantic reads
  from a stored definition is the parameter \<open>parse_definition\<close>.
\<close>

subsection \<open>Validation\<close>

definition validated :: "env \<Rightarrow> wf_definition \<Rightarrow> bool \<Rightarrow> rs_error + validation_result" where
  "validated v d for_deployment =
     (case validate_workflow_definition (sha256_hex v) d for_deployment of
        Inl UnhashableValue \<Rightarrow> Inl (PyTypeError ''unhashable type'')
      | Inr r \<Rightarrow> Inr r)"

definition issue_json :: "issue \<Rightarrow> json" where
  "issue_json i = JObj
     [(''code'', JStr (issue_code i)), (''message'', JStr (issue_message i)), (''location'', JStr (issue_location i)),
      (''severity'', JStr (case issue_severity i of SevError \<Rightarrow> ''error'' | SevWarning \<Rightarrow> ''warning''))]"

definition validation_payload :: "validation_result \<Rightarrow> json list" where
  "validation_payload r = map issue_json (result_issues r)"

definition load_definition :: "py_values \<Rightarrow> json \<Rightarrow> rs_error + wf_definition" where
  "load_definition p j = fetch (parse_definition p j) (PyValueError ''validation error for WorkflowDefinition'') Inr"

text \<open>The items of a loop that appends to a list, up to the first exception.\<close>

fun collect :: "('a \<Rightarrow> 'e + 'b list) \<Rightarrow> 'a list \<Rightarrow> 'e + 'b list" where
  "collect f [] = Inr []"
| "collect f (x # xs) = rbind (f x) (\<lambda>ys. rbind (collect f xs) (\<lambda>zs. Inr (ys @ zs)))"

subsection \<open>Drafts and versions\<close>

definition new_version ::
  "actor_context \<Rightarrow> uuid \<Rightarrow> uuid \<Rightarrow> int \<Rightarrow> wf_definition \<Rightarrow> validation_result \<Rightarrow> version_row" where
  "new_version c i flow n d r =
     \<lparr>wv_id = i, wv_org = actor_org c, wv_workflow_id = flow, wv_version = n,
      wv_status = (if result_valid r then ''validated'' else ''invalid''), wv_definition = definition_json d,
      wv_definition_digest = result_definition_digest r, wv_validation = JArr (validation_payload r),
      wv_created_by = actor_id c\<rparr>"

definition create_workflow ::
  "env \<Rightarrow> actor_context \<Rightarrow> uuid \<Rightarrow> string \<Rightarrow> string \<Rightarrow> string \<Rightarrow> wf_definition \<Rightarrow> db \<Rightarrow> rs_error + uuid \<times> db" where
  "create_workflow v c project slug name description d s =
     fetch (get_project s project) (rs_err NOT_FOUND ''Project not found.'' 404) (\<lambda>pr.
     require (find (\<lambda>w. wf_project_id w = prj_id pr \<and> wf_slug w = slug) (seen s wf_org (workflows s)) = None)
       (rs_err VALIDATION_FAILED ''A workflow with this slug already exists in the project.'' 409) (
     rbind (validated v d False) (\<lambda>r.
     let (i, s) = uuid4 s;
         flow = \<lparr>wf_id = i, wf_org = actor_org c, wf_project_id = prj_id pr, wf_slug = slug, wf_name = name,
                 wf_description = description\<rparr>;
         s = flush (s\<lparr>workflows := workflows s @ [flow]\<rparr>);
         (j, s) = uuid4 s;
         s = s\<lparr>versions := versions s @ [new_version c j i 1 d r]\<rparr>
     in Inr (i, audit v (actor_org c) (actor_id c) ''workflow.created'' ''workflow'' i (result_definition_digest r)
          (JObj [(''version'', JInt 1), (''valid'', JBool (result_valid r)),
                 (''executable'', JBool (result_executable r))]) s))))"

definition versions_of :: "db \<Rightarrow> uuid \<Rightarrow> version_row list" where
  "versions_of s flow = filter (\<lambda>w. wv_workflow_id w = flow) (seen s wv_org (versions s))"

definition next_version :: "db \<Rightarrow> uuid \<Rightarrow> int" where
  "next_version s flow = (case last_by wv_version (versions_of s flow) of None \<Rightarrow> 0 | Some w \<Rightarrow> wv_version w) + 1"

definition create_workflow_version ::
  "env \<Rightarrow> actor_context \<Rightarrow> uuid \<Rightarrow> wf_definition \<Rightarrow> db \<Rightarrow> rs_error + version_row \<times> db" where
  "create_workflow_version v c flow d s =
     fetch (get_workflow s flow) (rs_err NOT_FOUND ''Workflow not found.'' 404) (\<lambda>w.
     rbind (validated v d False) (\<lambda>r.
     let n = next_version s (wf_id w);
         (i, s) = uuid4 s;
         row = new_version c i (wf_id w) n d r;
         s = s\<lparr>versions := versions s @ [row]\<rparr>
     in Inr (row, audit v (actor_org c) (actor_id c) ''workflow.version_created'' ''workflow_version'' i
          (wv_definition_digest row)
          (JObj [(''workflow_id'', juuid (wf_id w)), (''version'', JInt n), (''valid'', JBool (result_valid r)),
                 (''executable'', JBool (result_executable r))]) s)))"

subsection \<open>References of a definition\<close>

definition bundle_available :: "env \<Rightarrow> db \<Rightarrow> uuid \<Rightarrow> uuid \<Rightarrow> bool" where
  "bundle_available v s project bundle =
     (case get_bundle s bundle of None \<Rightarrow> False
      | Some pb \<Rightarrow> pb_status pb = ''active'' \<and> pb_project_id pb = project \<and>
          pb_content_digest pb = digest_of v (pb_document pb))"

definition policy_reference_issues :: "env \<Rightarrow> db \<Rightarrow> workflow_row \<Rightarrow> wf_definition \<Rightarrow> issue list" where
  "policy_reference_issues v s base d =
     concat (map (\<lambda>n. case node_policy_bundle_id n of None \<Rightarrow> []
       | Some b \<Rightarrow> issue_if (\<not> bundle_available v s (wf_project_id base) b) ''workflow_policy_unavailable''
           ''The node policy bundle must be active, digest-valid, and belong to the workflow project.''
           (''workflow.nodes.'' @ node_id n @ ''.policy_bundle_id'')) (def_nodes d))"

definition config_uuid :: "wf_node \<Rightarrow> string \<Rightarrow> uuid option" where
  "config_uuid n k = Option.bind (cfg n k) uuid_of"

definition tool_supported :: "tool_row \<Rightarrow> bool" where
  "tool_supported tool \<longleftrightarrow>
     tl_name tool = TOOL_NAME \<and> tl_effect_class tool = ''transactional'' \<and> tl_connector tool = ''runsigil-demo-provider-v1''"

definition tool_reference_issues :: "db \<Rightarrow> wf_definition \<Rightarrow> issue list" where
  "tool_reference_issues s d =
     concat (map (\<lambda>n. case config_uuid n ''tool_id'' of None \<Rightarrow> []
       | Some t \<Rightarrow> issue_if (\<not> (case get_tool s t of None \<Rightarrow> False | Some tool \<Rightarrow> tool_supported tool))
           ''workflow_tool_unavailable''
           ''The tool reference must resolve to the supported transactional RunSigil demo-provider catalog entry.''
           (''workflow.nodes.'' @ node_id n @ ''.config.tool_id''))
       (filter (\<lambda>n. node_type n = TOOL) (def_nodes d)))"

definition route_available :: "db \<Rightarrow> uuid \<Rightarrow> uuid \<Rightarrow> bool" where
  "route_available s project route =
     (case get_model_route s route of None \<Rightarrow> False
      | Some m \<Rightarrow> mrt_status m = ''active'' \<and> mrt_project_id m = project \<and> mrt_provider m = ''demo'' \<and>
          mrt_model m = ''demo-governed-model'')"

definition model_route_reference_issues :: "db \<Rightarrow> workflow_row \<Rightarrow> wf_definition \<Rightarrow> issue list" where
  "model_route_reference_issues s base d =
     concat (map (\<lambda>n. case node_model_route_id n of None \<Rightarrow> []
       | Some m \<Rightarrow> issue_if (\<not> route_available s (wf_project_id base) m) ''workflow_model_route_unavailable''
           ''The agent model route must resolve to the active RunSigil demo model route in the workflow project.''
           (''workflow.nodes.'' @ node_id n @ ''.model_route_id''))
       (filter (\<lambda>n. node_type n = AGENT) (def_nodes d)))"

text \<open>The deployment, version and workflow a subworkflow node refers to.\<close>

definition child_of :: "db \<Rightarrow> uuid \<Rightarrow> (deployment_row \<times> version_row \<times> workflow_row) option" where
  "child_of s dep =
     Option.bind (get_deployment s dep) (\<lambda>wd.
     Option.bind (get_version s (wd_version_id wd)) (\<lambda>ver.
     Option.bind (get_workflow s (wv_workflow_id ver)) (\<lambda>w. Some (wd, ver, w))))"

function subworkflow_visit ::
  "env \<Rightarrow> py_values \<Rightarrow> db \<Rightarrow> uuid \<times> uuid \<times> uuid \<Rightarrow> wf_definition \<Rightarrow> uuid list \<Rightarrow> string \<Rightarrow> nat \<Rightarrow> rs_error + issue list" where
  "subworkflow_visit v p s (project, environment, agent) current path prefix depth =
     (if 0 < depth \<and> has_type current [TOOL, AGENT] then
        Inr [issue ''nested_external_node_not_supported''
          ''Referenced subworkflows cannot contain effectful tool or agent nodes until descendant external-call cancellation is fenced.''
          prefix]
      else if 8 < depth then
        Inr [issue ''subworkflow_depth_exceeded'' ''Referenced subworkflows may be nested at most eight levels.'' prefix]
      else collect (\<lambda>n.
        let location = prefix @ ''.nodes.'' @ node_id n;
            found = (\<lambda>code message. Inr [issue code message (location @ ''.config.deployment_id'')])
        in case config_uuid n ''deployment_id'' of None \<Rightarrow> Inr []
           | Some dep \<Rightarrow>
               case child_of s dep of
                 None \<Rightarrow> found ''subworkflow_deployment_unavailable'' ''The referenced subworkflow deployment is not active.''
               | Some (wd, ver, w) \<Rightarrow>
                   if wd_status wd \<noteq> ''active'' then
                     found ''subworkflow_deployment_unavailable'' ''The referenced subworkflow deployment is not active.''
                   else if wf_project_id w \<noteq> project \<or> wd_environment_id wd \<noteq> environment \<or> wd_agent_id wd \<noteq> agent then
                     found ''subworkflow_scope_mismatch''
                       ''The referenced subworkflow must use the same project, environment, and agent as its parent deployment.''
                   else if wv_id ver \<in> set path then
                     found ''subworkflow_reference_cycle'' ''Referenced subworkflow deployments cannot form a cycle.''
                   else
                     rbind (load_definition p (wv_definition ver)) (\<lambda>d.
                     rbind (if digest_of v (definition_json d) \<noteq> wv_definition_digest ver then Inr False
                            else rbind (validated v d True) (\<lambda>r. Inr (result_executable r))) (\<lambda>ok.
                     if \<not> ok then
                       found ''subworkflow_definition_invalid'' ''The referenced subworkflow definition is no longer valid.''
                     else subworkflow_visit v p s (project, environment, agent) d (path @ [wv_id ver]) location (depth + 1))))
        (filter (\<lambda>n. node_type n = SUBWORKFLOW) (def_nodes current)))"
  by pat_completeness auto
termination
  by (relation "measure (\<lambda>(v, p, s, scope, current, path, prefix, depth). 9 - depth)") auto

declare subworkflow_visit.simps [simp del]

definition subworkflow_reference_issues ::
  "env \<Rightarrow> py_values \<Rightarrow> db \<Rightarrow> version_row \<Rightarrow> workflow_row \<Rightarrow> wf_definition \<Rightarrow> uuid \<Rightarrow> uuid \<Rightarrow> rs_error + issue list" where
  "subworkflow_reference_issues v p s ver base d environment agent =
     subworkflow_visit v p s (wf_project_id base, environment, agent) d [wv_id ver] ''workflow'' 0"

definition reference_issues ::
  "env \<Rightarrow> py_values \<Rightarrow> db \<Rightarrow> version_row \<Rightarrow> workflow_row \<Rightarrow> wf_definition \<Rightarrow> uuid \<Rightarrow> uuid \<Rightarrow> rs_error + issue list" where
  "reference_issues v p s ver base d environment agent =
     rbind (subworkflow_reference_issues v p s ver base d environment agent) (\<lambda>nested.
     Inr (policy_reference_issues v s base d @ model_route_reference_issues s base d @ tool_reference_issues s d @ nested))"

subsection \<open>Deployment\<close>

definition supersede :: "db \<Rightarrow> uuid \<Rightarrow> uuid \<Rightarrow> uuid \<Rightarrow> deployment_row \<Rightarrow> deployment_row" where
  "supersede s flow environment agent wd =
     (if rls s (wd_org wd) \<and> wd_environment_id wd = environment \<and> wd_agent_id wd = agent \<and> wd_status wd = ''active'' \<and>
         (\<exists>ver \<in> set (versions_of s flow). wv_id ver = wd_version_id wd)
      then wd\<lparr>wd_status := ''superseded''\<rparr> else wd)"

definition require_executable ::
  "env \<Rightarrow> py_values \<Rightarrow> db \<Rightarrow> version_row \<Rightarrow> workflow_row \<Rightarrow> uuid \<Rightarrow> uuid \<Rightarrow> rs_error + unit" where
  "require_executable v p s ver w environment agent =
     rbind (load_definition p (wv_definition ver)) (\<lambda>d.
     rbind (validated v d True) (\<lambda>r.
     rbind (if result_executable r then reference_issues v p s ver w d environment agent else Inr []) (\<lambda>refs.
     require (result_executable r \<and> refs = [])
       (RunSigilError VALIDATION_FAILED ''The workflow version is not executable.'' 422
          (JObj [(''issues'', JArr (validation_payload r @ map issue_json refs))])) (Inr ()))))"

definition record_deployment ::
  "env \<Rightarrow> actor_context \<Rightarrow> version_row \<Rightarrow> workflow_row \<Rightarrow> uuid \<Rightarrow> uuid \<Rightarrow> db \<Rightarrow> deployment_row \<times> db" where
  "record_deployment v c ver w environment agent s =
     (let s = s\<lparr>deployments := map (supersede s (wf_id w) environment agent) (deployments s)\<rparr>;
          (i, s) = uuid4 s;
          wd = \<lparr>wd_id = i, wd_org = actor_org c, wd_version_id = wv_id ver, wd_environment_id = environment,
                wd_agent_id = agent, wd_status = ''active'', wd_deployed_by = actor_id c, wd_deployed_at = now s\<rparr>;
          s = upd_version (wv_id ver) (\<lambda>w. w\<lparr>wv_status := ''deployed''\<rparr>) s;
          s = s\<lparr>deployments := deployments s @ [wd]\<rparr>
      in (wd, audit v (actor_org c) (actor_id c) ''workflow.deployed'' ''workflow_deployment'' i (wv_definition_digest ver)
           (JObj [(''workflow_version_id'', juuid (wv_id ver)), (''environment_id'', juuid environment),
                  (''agent_id'', juuid agent)]) s))"

definition deploy_workflow_version ::
  "env \<Rightarrow> py_values \<Rightarrow> actor_context \<Rightarrow> uuid \<Rightarrow> uuid \<Rightarrow> uuid \<Rightarrow> db \<Rightarrow> rs_error + deployment_row \<times> db" where
  "deploy_workflow_version v p c version environment agent s =
     (let missing = rs_err NOT_FOUND ''Workflow version, environment, or agent not found.'' 404;
          foreign = rs_err NOT_FOUND ''The workflow and agent do not belong to the same project.'' 404
      in fetch (get_version s version) missing (\<lambda>ver.
         fetch (get_environment s environment) missing (\<lambda>en.
         fetch (get_agent s agent) missing (\<lambda>a.
         fetch (get_workflow s (wv_workflow_id ver)) foreign (\<lambda>w.
         fetch (get_system s (agt_system_id a)) foreign (\<lambda>sy.
         require (sys_project_id sy = wf_project_id w) foreign (
         rbind (require_executable v p s ver w (envr_id en) (agt_id a)) (\<lambda>_.
         case find (\<lambda>wd. wd_version_id wd = wv_id ver \<and> wd_environment_id wd = envr_id en \<and> wd_agent_id wd = agt_id a)
                (seen s wd_org (deployments s)) of
           Some wd \<Rightarrow> Inr (wd, s)
         | None \<Rightarrow> Inr (record_deployment v c ver w (envr_id en) (agt_id a) s)))))))))"

definition deployment_summary :: "deployment_row \<Rightarrow> json" where
  "deployment_summary wd = JObj
     [(''id'', juuid (wd_id wd)), (''workflow_version_id'', juuid (wd_version_id wd)),
      (''environment_id'', juuid (wd_environment_id wd)), (''agent_id'', juuid (wd_agent_id wd)),
      (''status'', JStr (wd_status wd)), (''deployed_by'', juuid (wd_deployed_by wd)),
      (''deployed_at'', jtime (wd_deployed_at wd))]"

subsection \<open>Effectful tools below a deployment\<close>

text \<open>
  \<open>visit\<close> calls itself only after a version it had not visited, so its depth is bounded by the
  number of versions; the first argument counts that depth down, and \<open>None\<close> says it was exceeded.
\<close>

type_synonym effectful_state = "(rs_error + bool \<times> uuid set) option"

fun effectful_visit :: "nat \<Rightarrow> py_values \<Rightarrow> db \<Rightarrow> uuid set \<Rightarrow> deployment_row \<Rightarrow> effectful_state"
  and effectful_nodes :: "nat \<Rightarrow> py_values \<Rightarrow> db \<Rightarrow> uuid set \<Rightarrow> wf_node list \<Rightarrow> effectful_state" where
  "effectful_visit 0 p s visited wd = None"
| "effectful_visit (Suc k) p s visited wd =
     (case get_version s (wd_version_id wd) of
        None \<Rightarrow> Some (Inr (False, visited))
      | Some ver \<Rightarrow>
          if wv_id ver \<in> visited then Some (Inr (False, visited))
          else case load_definition p (wv_definition ver) of
                 Inl e \<Rightarrow> Some (Inl e)
               | Inr d \<Rightarrow>
                   if has_type d [TOOL] then Some (Inr (True, insert (wv_id ver) visited))
                   else effectful_nodes k p s (insert (wv_id ver) visited)
                          (filter (\<lambda>n. node_type n = SUBWORKFLOW) (def_nodes d)))"
| "effectful_nodes k p s visited [] = Some (Inr (False, visited))"
| "effectful_nodes k p s visited (n # ns) =
     (case Option.bind (config_uuid n ''deployment_id'') (\<lambda>i. get_deployment s i) of
        None \<Rightarrow> effectful_nodes k p s visited ns
      | Some child \<Rightarrow>
          case effectful_visit k p s visited child of
            None \<Rightarrow> None
          | Some (Inl e) \<Rightarrow> Some (Inl e)
          | Some (Inr (found, visited')) \<Rightarrow>
              if found then Some (Inr (True, visited')) else effectful_nodes k p s visited' ns)"

definition deployment_contains_effectful_tools :: "py_values \<Rightarrow> db \<Rightarrow> deployment_row \<Rightarrow> rs_error + bool" where
  "deployment_contains_effectful_tools p s wd =
     (case effectful_visit (Suc (length (versions s))) p s {} wd of
        None \<Rightarrow> Inl (PyRuntimeError ''maximum recursion depth exceeded'')
      | Some r \<Rightarrow> rbind r (\<lambda>(found, visited). Inr found))"

subsection \<open>What accepted references mean\<close>

lemma collect_Nil: "collect f xs = Inr [] \<longleftrightarrow> (\<forall>x \<in> set xs. f x = Inr [])"
  by (induction xs) (auto simp: ok_iff)

text \<open>The version a subworkflow node refers to, whatever the state of its deployment.\<close>

definition refers :: "py_values \<Rightarrow> db \<Rightarrow> wf_definition \<Rightarrow> deployment_row \<Rightarrow> version_row \<Rightarrow> wf_definition \<Rightarrow> bool" where
  "refers p s d wd ver d' \<longleftrightarrow>
     (\<exists>n \<in> set (def_nodes d). node_type n = SUBWORKFLOW \<and>
        (\<exists>i. config_uuid n ''deployment_id'' = Some i \<and> get_deployment s i = Some wd)) \<and>
     get_version s (wd_version_id wd) = Some ver \<and> load_definition p (wv_definition ver) = Inr d'"

text \<open>\<open>nested p s d vs d'\<close>: a chain of references through the versions \<open>vs\<close> leads from \<open>d\<close> to \<open>d'\<close>.\<close>

inductive nested :: "py_values \<Rightarrow> db \<Rightarrow> wf_definition \<Rightarrow> uuid list \<Rightarrow> wf_definition \<Rightarrow> bool" for p s where
  here: "nested p s d [] d"
| child: "refers p s d wd ver d' \<Longrightarrow> nested p s d' vs d'' \<Longrightarrow> nested p s d (wv_id ver # vs) d''"

inductive_cases nested_ConsE: "nested p s d (k # vs) d'"

definition child_ok :: "env \<Rightarrow> uuid \<times> uuid \<times> uuid \<Rightarrow> uuid list \<Rightarrow> deployment_row \<Rightarrow> version_row \<Rightarrow> wf_definition \<Rightarrow> bool" where
  "child_ok v scope path wd ver d \<longleftrightarrow>
     wd_status wd = ''active'' \<and> wd_environment_id wd = fst (snd scope) \<and> wd_agent_id wd = snd (snd scope) \<and>
     wv_id ver \<notin> set path \<and> digest_of v (definition_json d) = wv_definition_digest ver \<and>
     (\<exists>r. validated v d True = Inr r \<and> result_executable r)"

lemma visit_clean:
  assumes "subworkflow_visit v p s scope d path prefix depth = Inr []"
  shows "depth \<le> 8" and "0 < depth \<Longrightarrow> \<not> has_type d [TOOL, AGENT]"
    and "refers p s d wd ver d' \<Longrightarrow> child_ok v scope path wd ver d' \<and>
      (\<exists>prefix'. subworkflow_visit v p s scope d' (path @ [wv_id ver]) prefix' (depth + 1) = Inr [])"
proof -
  obtain project environment agent where scope: "scope = (project, environment, agent)" by (cases scope)
  note visit = assms [unfolded scope subworkflow_visit.simps [of v p s project environment agent d]]
  from visit show "depth \<le> 8" "0 < depth \<Longrightarrow> \<not> has_type d [TOOL, AGENT]" by (auto split: if_splits)
  assume "refers p s d wd ver d'"
  then obtain n i where n: "n \<in> set (def_nodes d)" "node_type n = SUBWORKFLOW"
    and i: "config_uuid n ''deployment_id'' = Some i" "get_deployment s i = Some wd"
    and ver: "get_version s (wd_version_id wd) = Some ver" "load_definition p (wv_definition ver) = Inr d'"
    by (auto simp: refers_def)
  have "\<not> (0 < depth \<and> has_type d [TOOL, AGENT])" "\<not> 8 < depth" using visit by (auto split: if_splits)
  note nodes = visit [unfolded if_not_P [OF this(1)] if_not_P [OF this(2)] collect_Nil]
  have "n \<in> set (filter (\<lambda>n. node_type n = SUBWORKFLOW) (def_nodes d))" using n by simp
  from bspec [OF nodes this] show "child_ok v scope path wd ver d' \<and>
      (\<exists>prefix'. subworkflow_visit v p s scope d' (path @ [wv_id ver]) prefix' (depth + 1) = Inr [])"
    by (auto simp: i child_of_def ver child_ok_def scope ok_iff Let_def bind_eq_Some_conv
        split: if_splits option.splits)
qed

lemma visit_nested:
  assumes "nested p s d vs d'" and "subworkflow_visit v p s scope d path prefix depth = Inr []"
    and "distinct path"
  shows "depth + length vs \<le> 8 \<and> distinct (path @ vs) \<and>
    (0 < depth + length vs \<longrightarrow> \<not> has_type d' [TOOL, AGENT]) \<and>
    (vs \<noteq> [] \<longrightarrow> (\<exists>r. validated v d' True = Inr r \<and> result_executable r))"
  using assms
proof (induction arbitrary: path prefix depth rule: nested.induct)
  case (here d)
  then show ?case using visit_clean(1,2) by auto
next
  case (child d wd ver d' vs d'')
  from visit_clean(3) [OF child.prems(1) child.hyps(1)] obtain prefix' where ok: "child_ok v scope path wd ver d'"
    and visit: "subworkflow_visit v p s scope d' (path @ [wv_id ver]) prefix' (depth + 1) = Inr []" by auto
  from ok child.prems(2) have "distinct (path @ [wv_id ver])" by (auto simp: child_ok_def)
  from child.IH [OF visit this] ok child.hyps(2) show ?case
    by (cases vs) (auto simp: child_ok_def elim: nested.cases)
qed

subsection \<open>The search for effectful tools\<close>

definition version_ids :: "db \<Rightarrow> uuid set" where
  "version_ids s = wv_id ` set (seen s wv_org (versions s))"

lemma get_version_id: "get_version s k = Some ver \<Longrightarrow> wv_id ver = k \<and> k \<in> version_ids s"
  by (auto simp: version_ids_def dest: tget_SomeD)

lemma finite_version_ids [simp]: "finite (version_ids s)" "card (version_ids s) \<le> length (versions s)"
proof -
  have "card (version_ids s) \<le> length (seen s wv_org (versions s))"
    by (metis version_ids_def card_image_le card_length finite_set le_trans)
  also have "\<dots> \<le> length (versions s)" by (simp add: seen_def)
  finally show "card (version_ids s) \<le> length (versions s)" .
qed (simp add: version_ids_def)

lemma effectful_total:
  "visited \<subseteq> version_ids s \<Longrightarrow> card (version_ids s) - card visited < k \<Longrightarrow>
     \<exists>r. effectful_visit k p s visited wd = Some r \<and>
       (\<forall>b visited'. r = Inr (b, visited') \<longrightarrow> visited \<subseteq> visited' \<and> visited' \<subseteq> version_ids s)"
  "visited \<subseteq> version_ids s \<Longrightarrow> card (version_ids s) - card visited < k \<Longrightarrow>
     \<exists>r. effectful_nodes k p s visited ns = Some r \<and>
       (\<forall>b visited'. r = Inr (b, visited') \<longrightarrow> visited \<subseteq> visited' \<and> visited' \<subseteq> version_ids s)"
proof (induction k p s visited wd and k p s visited ns rule: effectful_visit_effectful_nodes.induct)
  case (2 k p s visited wd)
  show ?case
  proof (cases "get_version s (wd_version_id wd)")
    case (Some ver)
    show ?thesis
    proof (cases "wv_id ver \<in> visited")
      case False
      have id: "wv_id ver \<in> version_ids s" using get_version_id [OF Some] by simp
      have fin: "finite visited" using 2(2) by (rule finite_subset) simp
      have "card (insert (wv_id ver) visited) \<le> card (version_ids s)" using 2(2) id by (intro card_mono) auto
      with 2(3) fin False have less: "card (version_ids s) - card (insert (wv_id ver) visited) < k" by simp
      show ?thesis
      proof (cases "load_definition p (wv_definition ver)")
        case (Inr d)
        show ?thesis
        proof (cases "has_type d [TOOL]")
          case notool: False
          from 2(1) [OF Some False Inr notool _ less] 2(2) id show ?thesis
            by (fastforce simp: Some False Inr notool)
        qed (use Some False Inr 2(2) id in auto)
      qed (use Some False in auto)
    qed (use Some 2(2) in auto)
  qed (use 2(2) in auto)
next
  case (4 k p s visited n ns)
  show ?case
  proof (cases "Option.bind (config_uuid n ''deployment_id'') (\<lambda>i. get_deployment s i)")
    case None
    then show ?thesis using 4(1) [OF None 4(4,5)] by simp
  next
    case (Some child)
    from 4(2) [OF Some 4(4,5)] obtain r where r: "effectful_visit k p s visited child = Some r"
      "\<forall>b visited'. r = Inr (b, visited') \<longrightarrow> visited \<subseteq> visited' \<and> visited' \<subseteq> version_ids s" by auto
    show ?thesis
    proof (cases r)
      case (Inr bv)
      obtain b visited' where bv: "bv = (b, visited')" by (cases bv)
      with r Inr have sub: "visited \<subseteq> visited'" "visited' \<subseteq> version_ids s" by auto
      have "card visited \<le> card visited'" using sub by (intro card_mono finite_subset [OF sub(2)]) auto
      with 4(5) have less: "card (version_ids s) - card visited' < k" by simp
      show ?thesis
      proof (cases b)
        case False
        from 4(3) [OF Some r(1) Inr bv [symmetric] False sub(2) less] sub show ?thesis
          by (fastforce simp: Some r(1) Inr bv False)
      qed (use Some r Inr bv sub in auto)
    qed (use Some r in auto)
  qed
qed auto

text \<open>A tool in the deployed definition or in one that a chain of references leads to.\<close>

definition contains_tool :: "py_values \<Rightarrow> db \<Rightarrow> deployment_row \<Rightarrow> bool" where
  "contains_tool p s wd \<longleftrightarrow>
     (\<exists>ver d vs d'. get_version s (wd_version_id wd) = Some ver \<and> load_definition p (wv_definition ver) = Inr d \<and>
        nested p s d vs d' \<and> has_type d' [TOOL])"

definition explored :: "py_values \<Rightarrow> db \<Rightarrow> uuid set \<Rightarrow> uuid \<Rightarrow> bool" where
  "explored p s X k \<longleftrightarrow>
     (\<exists>ver d. get_version s k = Some ver \<and> load_definition p (wv_definition ver) = Inr d \<and> \<not> has_type d [TOOL] \<and>
        (\<forall>wd ver' d'. refers p s d wd ver' d' \<longrightarrow> wv_id ver' \<in> X))"

lemma explored_mono: "explored p s X k \<Longrightarrow> X \<subseteq> Y \<Longrightarrow> explored p s Y k"
  by (fastforce simp: explored_def)

lemma effectful_exact:
  "effectful_visit k p s visited wd = Some (Inr (b, visited')) \<Longrightarrow>
     (if b then contains_tool p s wd
      else visited \<subseteq> visited' \<and> (\<forall>ver. get_version s (wd_version_id wd) = Some ver \<longrightarrow> wv_id ver \<in> visited') \<and>
        (\<forall>j \<in> visited' - visited. explored p s visited' j))"
  "effectful_nodes k p s visited ns = Some (Inr (b, visited')) \<Longrightarrow>
     (if b then \<exists>n \<in> set ns. \<exists>i wd. config_uuid n ''deployment_id'' = Some i \<and> get_deployment s i = Some wd \<and> contains_tool p s wd
      else visited \<subseteq> visited' \<and>
        (\<forall>n \<in> set ns. \<forall>i wd ver. config_uuid n ''deployment_id'' = Some i \<longrightarrow> get_deployment s i = Some wd \<longrightarrow>
           get_version s (wd_version_id wd) = Some ver \<longrightarrow> wv_id ver \<in> visited') \<and>
        (\<forall>j \<in> visited' - visited. explored p s visited' j))"
proof (induction k p s visited wd and k p s visited ns arbitrary: b visited' and b visited'
    rule: effectful_visit_effectful_nodes.induct)
  case (2 k p s visited wd)
  show ?case
  proof (cases "get_version s (wd_version_id wd)")
    case (Some ver)
    show ?thesis
    proof (cases "wv_id ver \<in> visited")
      case False
      with 2(2) Some obtain d where d: "load_definition p (wv_definition ver) = Inr d" by (auto split: sum.splits)
      show ?thesis
      proof (cases "has_type d [TOOL]")
        case True
        with 2(2) Some False d show ?thesis by (auto simp: contains_tool_def intro: nested.here)
      next
        case notool: False
        let ?subs = "filter (\<lambda>n. node_type n = SUBWORKFLOW) (def_nodes d)"
        from 2(2) Some False d notool
        have nodes: "effectful_nodes k p s (insert (wv_id ver) visited) ?subs = Some (Inr (b, visited'))" by simp
        note IH = 2(1) [OF Some False d notool nodes]
        show ?thesis
        proof (cases b)
          case True
          with IH obtain n i wd' where n: "n \<in> set (def_nodes d)" "node_type n = SUBWORKFLOW"
            "config_uuid n ''deployment_id'' = Some i" "get_deployment s i = Some wd'" "contains_tool p s wd'" by auto
          then obtain ver' d' vs d'' where "get_version s (wd_version_id wd') = Some ver'"
            "load_definition p (wv_definition ver') = Inr d'" and tool: "nested p s d' vs d''" "has_type d'' [TOOL]"
            by (auto simp: contains_tool_def)
          with n have "refers p s d wd' ver' d'" unfolding refers_def by blast
          from nested.child [OF this tool(1)] tool(2)
          show ?thesis using Some d True by (auto simp: contains_tool_def)
        next
          case False
          have id: "wv_id ver = wd_version_id wd" using get_version_id [OF Some] by simp
          from IH False have "explored p s visited' (wv_id ver)"
            using Some d notool unfolding explored_def refers_def id by fastforce
          with IH False Some show ?thesis by auto
        qed
      qed
    qed (use Some 2(2) in auto)
  qed (use 2(2) in auto)
next
  case (4 k p s visited n ns)
  show ?case
  proof (cases "Option.bind (config_uuid n ''deployment_id'') (\<lambda>i. get_deployment s i)")
    case None
    with 4(1) [OF None, of b visited'] 4(4) show ?thesis by (auto simp: bind_eq_None_conv)
  next
    case (Some child)
    with 4(4) obtain c seen' where child: "effectful_visit k p s visited child = Some (Inr (c, seen'))"
      by (auto split: option.splits sum.splits prod.splits)
    from Some obtain i where i: "config_uuid n ''deployment_id'' = Some i" "get_deployment s i = Some child"
      by (auto simp: bind_eq_Some_conv)
    note IH = 4(2) [OF Some child]
    show ?thesis
    proof (cases c)
      case True
      with 4(4) Some child IH i show ?thesis by auto
    next
      case False
      with 4(4) Some child have rest: "effectful_nodes k p s seen' ns = Some (Inr (b, visited'))" by simp
      note IH' = 4(3) [OF Some child refl refl False rest]
      show ?thesis
      proof (cases b)
        case True
        with IH' show ?thesis by auto
      next
        case b: False
        from IH False b IH' have sub: "visited \<subseteq> seen'" "seen' \<subseteq> visited'" by auto
        have "explored p s visited' j" if "j \<in> visited' - visited" for j
          using that IH IH' False b sub explored_mono [OF _ sub(2)] by (cases "j \<in> seen'") auto
        with IH IH' False b sub i show ?thesis by auto
      qed
    qed
  qed
qed auto

lemma explored_nested:
  assumes "nested p s d vs d'" and "\<forall>j \<in> X. explored p s X j" and "get_version s j = Some ver" and "j \<in> X"
    and "load_definition p (wv_definition ver) = Inr d"
  shows "\<not> has_type d' [TOOL]"
  using assms
proof (induction arbitrary: j ver rule: nested.induct)
  case (here d)
  then show ?case by (auto simp: explored_def)
next
  case (child d wd ver' d' vs d'')
  from child.prems child.hyps(1) have "wv_id ver' \<in> X" by (fastforce simp: explored_def)
  moreover from child.hyps(1) have "get_version s (wv_id ver') = Some ver'" "load_definition p (wv_definition ver') = Inr d'"
    using get_version_id by (auto simp: refers_def)
  ultimately show ?case using child.IH child.prems(1) by auto
qed

lemma effectful_terminates: "\<exists>r. effectful_visit (Suc (length (versions s))) p s {} wd = Some r"
proof -
  have "card (version_ids s) - card {} < Suc (length (versions s))"
    unfolding less_Suc_eq_le by (rule order_trans [OF diff_le_self finite_version_ids(2)])
  from effectful_total(1) [OF empty_subsetI this] show ?thesis by blast
qed

lemma effectful_tools:
  assumes "deployment_contains_effectful_tools p s wd = Inr b"
  shows "b \<longleftrightarrow> contains_tool p s wd"
proof -
  from assms obtain X where "effectful_visit (Suc (length (versions s))) p s {} wd = Some (Inr (b, X))"
    by (auto simp: deployment_contains_effectful_tools_def ok_iff split: option.splits)
  from effectful_exact(1) [OF this] show ?thesis
    using explored_nested [of p s _ _ _ X] get_version_id [where s = s and k = "wd_version_id wd"]
    by (auto simp: contains_tool_def split: if_splits)
qed

subsection \<open>What a deployment does\<close>

lemma reference_issues_Nil:
  assumes "reference_issues v p s ver w d environment agent = Inr []"
  shows "\<forall>n \<in> set (def_nodes d). \<forall>b. node_policy_bundle_id n = Some b \<longrightarrow> bundle_available v s (wf_project_id w) b"
    "\<forall>n \<in> set (def_nodes d). \<forall>m. node_type n = AGENT \<and> node_model_route_id n = Some m \<longrightarrow> route_available s (wf_project_id w) m"
    "\<forall>n \<in> set (def_nodes d). \<forall>t. node_type n = TOOL \<and> config_uuid n ''tool_id'' = Some t \<longrightarrow>
      (\<exists>tool. get_tool s t = Some tool \<and> tool_supported tool)"
    "subworkflow_visit v p s (wf_project_id w, environment, agent) d [wv_id ver] ''workflow'' 0 = Inr []"
proof -
  have refs: "policy_reference_issues v s w d = []" "model_route_reference_issues s w d = []" "tool_reference_issues s d = []"
    "subworkflow_reference_issues v p s ver w d environment agent = Inr []"
    using assms by (auto simp: reference_issues_def ok_iff)
  show "\<forall>n \<in> set (def_nodes d). \<forall>b. node_policy_bundle_id n = Some b \<longrightarrow> bundle_available v s (wf_project_id w) b"
    using refs(1) by (auto simp: policy_reference_issues_def issue_if_def split: option.splits if_splits)
  show "\<forall>n \<in> set (def_nodes d). \<forall>m. node_type n = AGENT \<and> node_model_route_id n = Some m \<longrightarrow> route_available s (wf_project_id w) m"
    using refs(2) by (auto simp: model_route_reference_issues_def issue_if_def split: option.splits if_splits)
  show "\<forall>n \<in> set (def_nodes d). \<forall>t. node_type n = TOOL \<and> config_uuid n ''tool_id'' = Some t \<longrightarrow>
      (\<exists>tool. get_tool s t = Some tool \<and> tool_supported tool)"
    using refs(3) by (fastforce simp: tool_reference_issues_def issue_if_def split: option.splits if_splits)
  show "subworkflow_visit v p s (wf_project_id w, environment, agent) d [wv_id ver] ''workflow'' 0 = Inr []"
    using refs(4) by (simp add: subworkflow_reference_issues_def)
qed

lemma require_executable_ok:
  assumes "require_executable v p s ver w environment agent = Inr u"
  obtains d r where "load_definition p (wv_definition ver) = Inr d" "validated v d True = Inr r" "result_executable r"
    "reference_issues v p s ver w d environment agent = Inr []"
  using assms by (auto simp: require_executable_def ok_iff split: if_splits)

lemma record_deployment_rows:
  assumes "record_deployment v c ver w environment agent s = (wd, s')"
  shows "wd_version_id wd = wv_id ver" "wd_environment_id wd = environment" "wd_agent_id wd = agent"
    "wd_status wd = ''active''" "tenant s' = tenant s"
    "versions s' = tupd wv_id (wv_id ver) (\<lambda>w. w\<lparr>wv_status := ''deployed''\<rparr>) (versions s)"
    "deployments s' = map (supersede s (wf_id w) environment agent) (deployments s) @ [wd]"
  using assms by (auto simp: record_deployment_def Let_def uuid4_def upd_version_def)

lemma deploy_result:
  assumes "deploy_workflow_version v p c version environment agent s = Inr (wd, s')"
  obtains ver :: version_row and w :: workflow_row where
    "get_version s version = Some ver" "get_workflow s (wv_workflow_id ver) = Some w"
    "require_executable v p s ver w environment agent = Inr ()"
    "(case find (\<lambda>wd. wd_version_id wd = version \<and> wd_environment_id wd = environment \<and> wd_agent_id wd = agent)
        (seen s wd_org (deployments s)) of
        Some wd \<Rightarrow> (wd, s) | None \<Rightarrow> record_deployment v c ver w environment agent s) = (wd, s')"
proof -
  from assms obtain ver :: version_row and w :: workflow_row and en :: environment_row and a :: agent_row and u where
    ver: "get_version s version = Some ver" "get_environment s environment = Some en" "get_agent s agent = Some a"
    "get_workflow s (wv_workflow_id ver) = Some w"
    and ok: "require_executable v p s ver w (envr_id en) (agt_id a) = Inr u"
    "(case find (\<lambda>wd. wd_version_id wd = wv_id ver \<and> wd_environment_id wd = envr_id en \<and> wd_agent_id wd = agt_id a)
        (seen s wd_org (deployments s)) of
        Some wd \<Rightarrow> Inr (wd, s) | None \<Rightarrow> Inr (record_deployment v c ver w (envr_id en) (agt_id a) s)) =
      (Inr (wd, s') :: rs_error + deployment_row \<times> db)"
    unfolding deploy_workflow_version_def Let_def ok_iff by blast
  have "wv_id ver = version" "envr_id en = environment" "agt_id a = agent" using ver by (auto dest: tget_SomeD)
  with ver ok show ?thesis by (intro that [of ver w]) (auto split: option.splits)
qed

lemma deploy_ok:
  assumes "deploy_workflow_version v p c version environment agent s = Inr (wd, s')"
  obtains ver :: version_row and w :: workflow_row where
    "get_version s version = Some ver" "get_workflow s (wv_workflow_id ver) = Some w"
    "require_executable v p s ver w environment agent = Inr ()"
    "wd_version_id wd = version" "wd_environment_id wd = environment" "wd_agent_id wd = agent"
    "(s' = s \<and> wd \<in> set (seen s wd_org (deployments s))) \<or> record_deployment v c ver w environment agent s = (wd, s')"
  using assms
proof (rule deploy_result)
  fix ver :: version_row and w :: workflow_row
  assume ver: "get_version s version = Some ver" "get_workflow s (wv_workflow_id ver) = Some w"
      "require_executable v p s ver w environment agent = Inr ()"
    and result: "(case find (\<lambda>wd. wd_version_id wd = version \<and> wd_environment_id wd = environment \<and> wd_agent_id wd = agent)
        (seen s wd_org (deployments s)) of
        Some wd \<Rightarrow> (wd, s) | None \<Rightarrow> record_deployment v c ver w environment agent s) = (wd, s')"
  have "wv_id ver = version" using ver by (auto dest: tget_SomeD)
  with result ver show thesis
    by (intro that [of ver w]) (auto split: option.splits dest: find_Some_iff' record_deployment_rows)
qed

text \<open>At most one active deployment of a workflow for an environment and an agent, as the tenant sees them.\<close>

definition version_flows :: "db \<Rightarrow> (uuid \<times> uuid) set" where
  "version_flows s = (\<lambda>w. (wv_id w, wv_workflow_id w)) ` set (seen s wv_org (versions s))"

definition same_slot :: "db \<Rightarrow> deployment_row \<Rightarrow> deployment_row \<Rightarrow> bool" where
  "same_slot s x y \<longleftrightarrow> wd_environment_id x = wd_environment_id y \<and> wd_agent_id x = wd_agent_id y \<and>
     (\<exists>flow. (wd_version_id x, flow) \<in> version_flows s \<and> (wd_version_id y, flow) \<in> version_flows s)"

definition one_active :: "db \<Rightarrow> bool" where
  "one_active s \<longleftrightarrow>
     (\<forall>x \<in> set (seen s wd_org (deployments s)). \<forall>y \<in> set (seen s wd_org (deployments s)).
        wd_status x = ''active'' \<longrightarrow> wd_status y = ''active'' \<longrightarrow> same_slot s x y \<longrightarrow> x = y)"

lemma version_flows_upd:
  assumes "tenant s' = tenant s" and "versions s' = tupd wv_id k (\<lambda>w. w\<lparr>wv_status := st\<rparr>) (versions s)"
  shows "version_flows s' = version_flows s"
proof -
  have "seen s' wv_org (versions s') = tupd wv_id k (\<lambda>w. w\<lparr>wv_status := st\<rparr>) (seen s wv_org (versions s))"
    unfolding assms(2) by (subst seen_tupd) (simp_all add: seen_def rls_def assms(1))
  then show ?thesis by (auto simp: version_flows_def image_tupd)
qed

lemma supersede_simps [simp]:
  "wd_org (supersede s flow en a wd) = wd_org wd" "wd_version_id (supersede s flow en a wd) = wd_version_id wd"
  "wd_environment_id (supersede s flow en a wd) = wd_environment_id wd" "wd_agent_id (supersede s flow en a wd) = wd_agent_id wd"
  by (simp_all add: supersede_def)

lemma supersede_active: "wd_status (supersede s flow en a wd) = ''active'' \<Longrightarrow> supersede s flow en a wd = wd"
  by (auto simp: supersede_def split: if_splits)

subsection \<open>Properties\<close>


lemma same_slot_sym: "same_slot s x y \<longleftrightarrow> same_slot s y x"
  by (auto simp: same_slot_def)

lemma active_after_deployment:
  assumes rec: "record_deployment v c ver w environment agent s = (wd, s')"
    and ver: "get_version s version = Some ver" "get_workflow s (wv_workflow_id ver) = Some w"
    and ids: "distinct (map wv_id (versions s))"
    and x: "x \<in> set (seen s' wd_org (deployments s'))" "wd_status x = ''active''"
  shows "x = wd \<or> x \<in> set (seen s wd_org (deployments s)) \<and> \<not> same_slot s x wd"
proof (cases "x = wd")
  case False
  note rows = record_deployment_rows [OF rec]
  let ?f = "supersede s (wf_id w) environment agent"
  have "seen s' wd_org (deployments s') = map ?f (seen s wd_org (deployments s)) @ (if rls s (wd_org wd) then [wd] else [])"
    unfolding rows(7) seen_cong [OF rows(5)] by (simp add: seen_def filter_map comp_def)
  with x(1) False obtain y where y: "y \<in> set (seen s wd_org (deployments s))" "x = ?f y" by (auto split: if_splits)
  with supersede_active [of s "wf_id w" environment agent y] x(2) have fixed: "?f x = x" "x = y" by simp_all
  have "\<not> same_slot s x wd"
  proof
    assume slot: "same_slot s x wd"
    moreover have "flow = wf_id w" if "(wv_id ver, flow) \<in> version_flows s" for flow
      using that ver ids by (fastforce simp: version_flows_def seen_def distinct_map inj_on_def dest: tget_SomeD)
    ultimately have "(wd_version_id x, wf_id w) \<in> version_flows s" by (auto simp: same_slot_def rows)
    then have "\<exists>ver \<in> set (versions_of s (wf_id w)). wv_id ver = wd_version_id x"
      by (auto simp: versions_of_def version_flows_def)
    moreover have "rls s (wd_org x)" using y(1) fixed(2) by (simp add: set_seen)
    ultimately have "wd_status (?f x) = ''superseded''"
      using slot x(2) by (simp add: supersede_def same_slot_def rows)
    with fixed(1) x(2) show False by simp
  qed
  with y fixed show ?thesis by simp
qed simp

text \<open>
  C35. One version is live: deploying keeps at most one active deployment of a workflow for an
  environment and an agent, as long as version ids are unique.
\<close>

theorem deploy_keeps_one_active:
  assumes "deploy_workflow_version v p c version environment agent s = Inr (wd, s')"
    and "one_active s" and "distinct (map wv_id (versions s))"
  shows "one_active s'"
  using assms(1)
proof (rule deploy_ok)
  fix ver :: version_row and w :: workflow_row
  assume ver: "get_version s version = Some ver" "get_workflow s (wv_workflow_id ver) = Some w"
    and effect: "s' = s \<and> wd \<in> set (seen s wd_org (deployments s)) \<or> record_deployment v c ver w environment agent s = (wd, s')"
  show ?thesis
  proof (cases "s' = s")
    case False
    with effect have rec: "record_deployment v c ver w environment agent s = (wd, s')" by simp
    have "version_flows s' = version_flows s" by (rule version_flows_upd [OF record_deployment_rows(5,6) [OF rec]])
    then have "same_slot s' x y \<longleftrightarrow> same_slot s x y" for x y by (simp add: same_slot_def)
    with active_after_deployment [OF rec ver assms(3)] assms(2) same_slot_sym show ?thesis
      unfolding one_active_def by metis
  qed (use assms(2) in simp)
qed

text \<open>
  There is no way back to an earlier version: deploying a version again, for the same
  environment and agent, returns its old deployment as it is, superseded or not, and changes
  nothing; the newer version stays the active one.
\<close>

theorem redeploy_does_not_reactivate:
  assumes "deploy_workflow_version v p c version environment agent s = Inr (wd, s')"
    and "old \<in> set (seen s wd_org (deployments s))" and "wd_version_id old = version"
    and "wd_environment_id old = environment" and "wd_agent_id old = agent" and "wd_status old = ''superseded''"
    and "\<forall>x \<in> set (seen s wd_org (deployments s)). wd_version_id x = version \<and> wd_environment_id x = environment \<and>
      wd_agent_id x = agent \<longrightarrow> x = old"
  shows "wd = old \<and> s' = s \<and> wd_status wd \<noteq> ''active''"
  using assms(1)
proof (rule deploy_result)
  fix ver w
  assume "(case find (\<lambda>wd. wd_version_id wd = version \<and> wd_environment_id wd = environment \<and> wd_agent_id wd = agent)
        (seen s wd_org (deployments s)) of
        Some wd \<Rightarrow> (wd, s) | None \<Rightarrow> record_deployment v c ver w environment agent s) = (wd, s')"
  with assms(2-7) show ?thesis by (fastforce simp: find_None_iff split: option.splits dest: find_Some_iff')
qed

subsection \<open>A registry with two versions\<close>

definition sample_version :: "uuid \<Rightarrow> version_row" where
  "sample_version i = \<lparr>wv_id = i, wv_org = 7, wv_workflow_id = 31, wv_version = int i, wv_status = ''validated'',
     wv_definition = definition_json sample_definition, wv_definition_digest = ''d'', wv_validation = JArr [],
     wv_created_by = 20\<rparr>"

definition sample_deployment :: "uuid \<Rightarrow> uuid \<Rightarrow> string \<Rightarrow> deployment_row" where
  "sample_deployment i ver status = \<lparr>wd_id = i, wd_org = 7, wd_version_id = ver, wd_environment_id = 11, wd_agent_id = 12,
     wd_status = status, wd_deployed_by = 20, wd_deployed_at = 0\<rparr>"

definition sample_workflow :: workflow_row where
  "sample_workflow = \<lparr>wf_id = 31, wf_org = 7, wf_project_id = 10, wf_slug = ''w'', wf_name = ''w'', wf_description = []\<rparr>"

definition registry_db :: "deployment_row list \<Rightarrow> db" where
  "registry_db wds = (empty_db 100)\<lparr>tenant := Some 7, projects := [\<lparr>prj_id = 10, prj_org = 7\<rparr>],
     environments := [\<lparr>envr_id = 11, envr_org = 7, envr_type = ''production''\<rparr>],
     agents := [\<lparr>agt_id = 12, agt_org = 7, agt_system_id = 13, agt_workload_id = 14\<rparr>],
     systems := [\<lparr>sys_id = 13, sys_org = 7, sys_project_id = 10\<rparr>], workflows := [sample_workflow],
     versions := [sample_version 30, sample_version 32], deployments := wds\<rparr>"

definition registry_actor :: actor_context where
  "registry_actor = \<lparr>actor_org = 7, actor_id = 20, actor_type = ''user''\<rparr>"

lemma sample_validated: obtains r where "validated sample_env sample_definition True = Inr r" "result_executable r"
  using that sample_definition_valid by (auto simp: validated_def sample_env_def split: sum.splits)

lemma sample_loads: "load_definition sample_values (definition_json sample_definition) = Inr sample_definition"
  by (simp add: load_definition_def sample_values_def handler_eval)

lemma registry_rows:
  "get_version (registry_db wds) 30 = Some (sample_version 30)"
  "get_environment (registry_db wds) 11 = Some \<lparr>envr_id = 11, envr_org = 7, envr_type = ''production''\<rparr>"
  "get_agent (registry_db wds) 12 = Some \<lparr>agt_id = 12, agt_org = 7, agt_system_id = 13, agt_workload_id = 14\<rparr>"
  "get_workflow (registry_db wds) 31 = Some sample_workflow"
  "get_system (registry_db wds) 13 = Some \<lparr>sys_id = 13, sys_org = 7, sys_project_id = 10\<rparr>"
  by (simp_all add: registry_db_def empty_db_def seen_def rls_def tget_def sample_version_def sample_workflow_def)

lemma registry_tables:
  "deployments (registry_db wds) = wds" "tenant (registry_db wds) = Some 7"
  "versions (registry_db wds) = [sample_version 30, sample_version 32]"
  by (simp_all add: registry_db_def)

lemma sample_row_fields [simp]:
  "wv_id (sample_version i) = i" "wv_workflow_id (sample_version i) = 31"
  "wv_definition (sample_version i) = definition_json sample_definition" "wf_project_id sample_workflow = 10"
  by (simp_all add: sample_version_def sample_workflow_def)

lemma registry_executable:
  "require_executable sample_env sample_values (registry_db wds) (sample_version 30) sample_workflow 11 12 = Inr ()"
proof -
  obtain r where r: "validated sample_env sample_definition True = Inr r" "result_executable r" by (rule sample_validated)
  have "reference_issues sample_env sample_values (registry_db wds) (sample_version 30) sample_workflow sample_definition 11 12 = Inr []"
    by (simp add: reference_issues_def policy_reference_issues_def model_route_reference_issues_def tool_reference_issues_def
        subworkflow_reference_issues_def subworkflow_visit.simps sample_definition_def sample_node_def handler_eval)
  with r show ?thesis by (simp add: require_executable_def sample_loads handler_eval)
qed

lemma registry_deploys:
  obtains wd s' where "deploy_workflow_version sample_env sample_values registry_actor 30 11 12 (registry_db wds) = Inr (wd, s')"
proof -
  have "\<exists>wd s'. deploy_workflow_version sample_env sample_values registry_actor 30 11 12 (registry_db wds) = Inr (wd, s')"
    using registry_executable [of wds]
    by (auto simp: deploy_workflow_version_def registry_rows handler_eval Let_def split: option.splits)
  then show thesis using that by blast
qed


theorem deploy_keeps_one_active_witness:
  "\<exists>wd s'. deploy_workflow_version sample_env sample_values registry_actor 30 11 12
       (registry_db [sample_deployment 41 32 ''active'']) = Inr (wd, s') \<and> one_active s'"
proof -
  let ?s = "registry_db [sample_deployment 41 32 ''active'']"
  obtain wd s' where ok: "deploy_workflow_version sample_env sample_values registry_actor 30 11 12 ?s = Inr (wd, s')"
    by (rule registry_deploys)
  have "one_active ?s" by (simp add: one_active_def registry_tables)
  from deploy_keeps_one_active [OF ok this] ok show ?thesis by (auto simp: registry_tables)
qed

theorem redeploy_does_not_reactivate_witness:
  "\<exists>wd s'. deploy_workflow_version sample_env sample_values registry_actor 30 11 12
       (registry_db [sample_deployment 40 30 ''superseded'', sample_deployment 41 32 ''active'']) = Inr (wd, s') \<and>
     wd_status wd = ''superseded''"
proof -
  let ?s = "registry_db [sample_deployment 40 30 ''superseded'', sample_deployment 41 32 ''active'']"
  obtain wd s' where ok: "deploy_workflow_version sample_env sample_values registry_actor 30 11 12 ?s = Inr (wd, s')"
    by (rule registry_deploys)
  have "wd = sample_deployment 40 30 ''superseded'' \<and> s' = ?s \<and> wd_status wd \<noteq> ''active''"
    by (rule redeploy_does_not_reactivate [OF ok]) (auto simp: registry_tables rls_def sample_deployment_def)
  with ok show ?thesis by (auto simp: sample_deployment_def)
qed

end
