(* ===== verification/RS_Simulation.thy ===== *)
theory RS_Simulation
  imports RS_Registry
begin

section \<open>Simulation of effectful tools\<close>

text \<open>
  Models \<open>services/workflow_simulation.py\<close> with \<open>tool_document\<close> of \<open>services/workflow_tools.py\<close>:
  profiles bound to a tool's exact content, the demand for a profile wherever tools may be reached,
  and the simulated call, whose result is a function of digests.
\<close>

definition SIMULATION_PROVIDER :: string where
  "SIMULATION_PROVIDER = ''runsigil-deterministic-tool-simulator-v1''"

definition SIMULATION_CONTRACT_VERSION :: string where
  "SIMULATION_CONTRACT_VERSION = ''1''"

definition tool_document :: "tool_row \<Rightarrow> json" where
  "tool_document tool = JObj
     [(''id'', juuid (tl_id tool)), (''name'', JStr (tl_name tool)), (''effect_class'', JStr (tl_effect_class tool)),
      (''connector'', JStr (tl_connector tool)), (''risk'', JStr (tl_risk tool)), (''input_schema'', tl_input_schema tool)]"

definition simulation_profile_summary :: "profile_row \<Rightarrow> json" where
  "simulation_profile_summary q = JObj
     [(''id'', juuid (sp_id q)), (''project_id'', juuid (sp_project_id q)), (''tool_id'', juuid (sp_tool_id q)),
      (''name'', JStr (sp_name q)), (''provider'', JStr (sp_provider q)), (''contract_version'', JStr (sp_contract_version q)),
      (''status'', JStr (sp_status q)), (''content_digest'', JStr (sp_content_digest q)),
      (''created_by'', juuid (sp_created_by q)), (''created_at'', jtime (sp_created_at q))]"

definition tool_simulation_call_summary :: "simulation_call_row \<Rightarrow> json" where
  "tool_simulation_call_summary k = JObj
     [(''id'', juuid (ts_id k)), (''workflow_execution_id'', juuid (ts_execution_id k)), (''run_id'', juuid (ts_run_id k)),
      (''simulation_profile_id'', juuid (ts_profile_id k)), (''tool_id'', juuid (ts_tool_id k)),
      (''node_id'', JStr (ts_node_id k)), (''sequence'', JInt (ts_sequence k)),
      (''result_state_key'', JStr (ts_result_state_key k)), (''status'', JStr (ts_status k)),
      (''arguments_digest'', JStr (ts_arguments_digest k)), (''tool_digest'', JStr (ts_tool_digest k)),
      (''profile_digest'', JStr (ts_profile_digest k)), (''result_digest'', JStr (ts_result_digest k)),
      (''content_digest'', JStr (ts_content_digest k)), (''completed_at'', jtime (ts_completed_at k)),
      (''created_at'', jtime (ts_created_at k))]"

subsection \<open>Profiles\<close>

definition profile_digest :: "env \<Rightarrow> uuid \<Rightarrow> uuid \<Rightarrow> uuid \<Rightarrow> tool_row \<Rightarrow> string \<Rightarrow> string \<Rightarrow> string \<Rightarrow> digest" where
  "profile_digest v org project tool_id tool name provider contract_version = digest_of v (JObj
     [(''organization_id'', juuid org), (''project_id'', juuid project), (''tool_id'', juuid tool_id),
      (''tool_digest'', JStr (digest_of v (tool_document tool))), (''name'', JStr name), (''provider'', JStr provider),
      (''contract_version'', JStr contract_version)])"

definition create_simulation_profile ::
  "env \<Rightarrow> actor_context \<Rightarrow> uuid \<Rightarrow> uuid \<Rightarrow> string \<Rightarrow> db \<Rightarrow> rs_error + profile_row \<times> db" where
  "create_simulation_profile v c project tool_id name s =
     (let missing = rs_err NOT_FOUND ''The simulation project or supported tool was not found.'' 404 in
      fetch (get_project s project) missing (\<lambda>pr.
      fetch (get_tool s tool_id) missing (\<lambda>tool.
      require (tool_supported tool) missing (
      let content = profile_digest v (actor_org c) (prj_id pr) (tl_id tool) tool name SIMULATION_PROVIDER
            SIMULATION_CONTRACT_VERSION
      in case find (\<lambda>q. sp_project_id q = prj_id pr \<and> sp_name q = name) (seen s sp_org (profiles s)) of
           Some q \<Rightarrow>
             require (sp_content_digest q = content)
               (rs_err VALIDATION_FAILED ''The simulation profile name belongs to different immutable content.'' 409)
               (Inr (q, s))
         | None \<Rightarrow>
             let (i, s) = uuid4 s;
                 q = \<lparr>sp_id = i, sp_org = actor_org c, sp_project_id = prj_id pr, sp_tool_id = tl_id tool, sp_name = name,
                      sp_provider = SIMULATION_PROVIDER, sp_contract_version = SIMULATION_CONTRACT_VERSION,
                      sp_status = ''active'', sp_content_digest = content, sp_created_by = actor_id c,
                      sp_created_at = now s\<rparr>;
                 s = s\<lparr>profiles := profiles s @ [q]\<rparr>
             in Inr (q, audit v (actor_org c) (actor_id c) ''workflow.simulation_profile_created''
                  ''workflow_simulation_profile'' i content
                  (JObj [(''project_id'', juuid (prj_id pr)), (''tool_id'', juuid (tl_id tool)),
                         (''provider'', JStr (sp_provider q)), (''raw_content_captured'', JBool False)]) s)))))"

definition require_simulation_profile ::
  "env \<Rightarrow> py_values \<Rightarrow> deployment_row \<Rightarrow> uuid option \<Rightarrow> db \<Rightarrow> rs_error + profile_row option" where
  "require_simulation_profile v p wd profile s =
     rbind (deployment_contains_effectful_tools p s wd) (\<lambda>effectful.
     if \<not> effectful then
       require (profile = None)
         (rs_err VALIDATION_FAILED ''A simulation profile is valid only for a deployment containing tools.'' 422) (Inr None)
     else
       let unavailable = rs_err INVALID_TRANSITION ''The simulation profile is unavailable or outside the workflow project.'' 409;
           stale = rs_err INVALID_TRANSITION ''The simulation profile content digest is stale or invalid.'' 409
       in fetch profile
            (rs_err INVALID_TRANSITION ''Effectful workflow execution requires an explicit simulation profile.'' 409) (\<lambda>k.
          fetch (get_profile s k) unavailable (\<lambda>q.
          require (sp_status q = ''active'' \<and> sp_provider q = SIMULATION_PROVIDER \<and>
                   sp_contract_version q = SIMULATION_CONTRACT_VERSION) unavailable (
          fetch (get_version s (wd_version_id wd)) unavailable (\<lambda>ver.
          fetch (get_workflow s (wv_workflow_id ver)) unavailable (\<lambda>w.
          require (sp_project_id q = wf_project_id w) unavailable (
          fetch (get_tool s (sp_tool_id q)) stale (\<lambda>tool.
          require (tl_name tool = TOOL_NAME \<and>
                   sp_content_digest q = profile_digest v (sp_org q) (sp_project_id q) (sp_tool_id q) tool (sp_name q)
                     (sp_provider q) (sp_contract_version q)) stale (Inr (Some q))))))))))"

subsection \<open>The simulated call\<close>

definition deterministic_tool_simulation_result :: "digest \<Rightarrow> digest \<Rightarrow> digest \<Rightarrow> json" where
  "deterministic_tool_simulation_result arguments tool profile = JObj
     [(''outcome'', JStr ''simulated''), (''arguments_digest'', JStr arguments), (''tool_digest'', JStr tool),
      (''simulation_profile_digest'', JStr profile),
      (''receipt_preview'', JObj [(''status'', JStr ''simulated''), (''side_effect_performed'', JBool False)])]"

definition config_uuid_item :: "wf_node \<Rightarrow> string \<Rightarrow> (uuid \<Rightarrow> rs_error + 'a) \<Rightarrow> rs_error + 'a" where
  "config_uuid_item n k f =
     config_item n k (\<lambda>j. fetch (uuid_of j) (PyValueError ''badly formed hexadecimal UUID string'') f)"

text \<open>The input of an action from the arguments in the state, completed from the run.\<close>

definition action_input_dict :: "(string \<times> json) list \<Rightarrow> run_row \<Rightarrow> string \<Rightarrow> json" where
  "action_input_dict args r key = JObj
     (dict_set ''idempotency_key'' (JStr key) (dict_set ''agent_id'' (juuid (run_agent_id r))
       (dict_set ''environment_id'' (juuid (run_environment_id r)) (dict_set ''project_id'' (juuid (run_project_id r)) args))))"

definition tool_call_key :: "string \<Rightarrow> execution_row \<Rightarrow> wf_node \<Rightarrow> string" where
  "tool_call_key kind e n = kind @ '':'' @ uuid_str (ex_id e) @ '':'' @ node_id n @ '':'' @ int_str (ex_step_count e)"

definition state_object :: "json \<Rightarrow> string \<Rightarrow> (string \<times> json) list option" where
  "state_object state k = (case jlookup k state of Some (JObj kvs) \<Rightarrow> Some kvs | _ \<Rightarrow> None)"

definition simulation_call ::
  "env \<Rightarrow> execution_row \<Rightarrow> wf_node \<Rightarrow> profile_row \<Rightarrow> tool_row \<Rightarrow> json \<Rightarrow> string \<Rightarrow> json \<Rightarrow> uuid \<Rightarrow> timestamp \<Rightarrow>
     simulation_call_row" where
  "simulation_call v e n q tool args result_key_text result_key i t =
     (let args_digest = digest_of v args;
          tool_digest = digest_of v (tool_document tool);
          result_digest = digest_of v (deterministic_tool_simulation_result args_digest tool_digest (sp_content_digest q))
      in \<lparr>ts_id = i, ts_org = ex_org e, ts_execution_id = ex_id e, ts_run_id = ex_run_id e, ts_profile_id = sp_id q,
          ts_tool_id = tl_id tool, ts_node_id = node_id n, ts_sequence = ex_step_count e,
          ts_result_state_key = result_key_text, ts_status = ''completed'', ts_arguments_digest = args_digest,
          ts_tool_digest = tool_digest, ts_profile_digest = sp_content_digest q, ts_result_digest = result_digest,
          ts_content_digest = digest_of v (JObj
            [(''organization_id'', juuid (ex_org e)), (''workflow_execution_id'', juuid (ex_id e)),
             (''run_id'', juuid (ex_run_id e)), (''simulation_profile_id'', juuid (sp_id q)),
             (''profile_digest'', JStr (sp_content_digest q)), (''tool_id'', juuid (tl_id tool)),
             (''tool_digest'', JStr tool_digest), (''node_id'', JStr (node_id n)), (''sequence'', JInt (ex_step_count e)),
             (''arguments_digest'', JStr args_digest), (''result_state_key'', result_key),
             (''result_digest'', JStr result_digest)]),
          ts_completed_at = t, ts_created_at = t\<rparr>)"

definition record_simulation :: "env \<Rightarrow> run_row \<Rightarrow> simulation_call_row \<Rightarrow> db \<Rightarrow> db" where
  "record_simulation v r k s =
     (let s = s\<lparr>simulation_calls := simulation_calls s @ [k]\<rparr>;
          s = trace_event v (ts_org k) (ts_run_id k) (ts_node_id k) ''workflow.tool_simulated'' ''completed''
                (JObj [(''workflow_tool_simulation_call_id'', juuid (ts_id k)),
                       (''simulation_profile_id'', juuid (ts_profile_id k)), (''tool_id'', juuid (ts_tool_id k)),
                       (''arguments_digest'', JStr (ts_arguments_digest k)), (''result_digest'', JStr (ts_result_digest k)),
                       (''side_effect_performed'', JBool False), (''raw_content_captured'', JBool False)]) s
      in audit v (ts_org k) (run_actor_id r) ''workflow.tool_simulated'' ''workflow_tool_simulation_call'' (ts_id k)
           (ts_content_digest k)
           (JObj [(''workflow_execution_id'', juuid (ts_execution_id k)), (''simulation_profile_id'', juuid (ts_profile_id k)),
                  (''result_digest'', JStr (ts_result_digest k)), (''side_effect_performed'', JBool False),
                  (''raw_content_captured'', JBool False)]) s)"

definition simulate_workflow_tool_call ::
  "env \<Rightarrow> py_values \<Rightarrow> execution_row \<Rightarrow> run_row \<Rightarrow> wf_node \<Rightarrow> json \<Rightarrow> db \<Rightarrow> rs_error + (simulation_call_row \<times> json) \<times> db" where
  "simulate_workflow_tool_call v p e r n state s =
     (let live = rs_err INVALID_TRANSITION ''A live workflow cannot use the simulation executor.'' 409;
          lineage = rs_err INVALID_TRANSITION ''The tool simulation lineage is unavailable.'' 409
      in require (ex_mode e = ''simulation'') live (
         fetch (ex_profile_id e) live (\<lambda>profile.
         config_uuid_item n ''tool_id'' (\<lambda>tool_id.
         fetch (get_profile s profile) lineage (\<lambda>q.
         require (sp_status q = ''active'' \<and> sp_tool_id q = tool_id) lineage (
         fetch (get_tool s tool_id) lineage (\<lambda>tool.
         require (tl_name tool = TOOL_NAME) lineage (
         config_item n ''arguments_state_key'' (\<lambda>key.
         fetch (state_object state (py_str p key))
           (rs_err VALIDATION_FAILED ''The simulated tool arguments state key must contain an object.'' 422) (\<lambda>args.
         case parse_action_input p (action_input_dict args r (tool_call_key ''workflow-tool-simulation'' e n)) of
           Inl errors \<Rightarrow>
             Inl (RunSigilError VALIDATION_FAILED
               ''The encrypted workflow state does not satisfy the simulated tool contract.'' 422 (JObj [(''issues'', errors)]))
         | Inr _ \<Rightarrow>
             config_item n ''result_state_key'' (\<lambda>result_key.
             let (i, s) = uuid4 s;
                 k = simulation_call v e n q tool (JObj args) (py_str p result_key) result_key i (now s);
                 result = deterministic_tool_simulation_result (ts_arguments_digest k) (ts_tool_digest k) (ts_profile_digest k)
             in Inr ((k, result), record_simulation v r k s))))))))))))"

subsection \<open>Lemmas\<close>

lemma record_simulation_frame [simp]:
  "actions (record_simulation v r k s) = actions s" "runs (record_simulation v r k s) = runs s"
  "outbox (record_simulation v r k s) = outbox s" "budgets (record_simulation v r k s) = budgets s"
  "reservations (record_simulation v r k s) = reservations s" "tool_calls (record_simulation v r k s) = tool_calls s"
  "model_calls (record_simulation v r k s) = model_calls s" "executions (record_simulation v r k s) = executions s"
  "simulation_calls (record_simulation v r k s) = simulation_calls s @ [k]"
  "approvals (record_simulation v r k s) = approvals s" "intents (record_simulation v r k s) = intents s"
  by (simp_all add: record_simulation_def Let_def)

lemma require_profile_ok:
  assumes "require_simulation_profile v p wd profile s = Inr q"
  shows "(q = None) \<longleftrightarrow> \<not> contains_tool p s wd"
proof -
  from assms obtain b where b: "deployment_contains_effectful_tools p s wd = Inr b"
    by (auto simp: require_simulation_profile_def ok_iff)
  from assms have "(q = None) \<longleftrightarrow> \<not> b"
    by (cases b) (auto simp: require_simulation_profile_def ok_iff b Let_def split: if_splits)
  with effectful_tools [OF b] show ?thesis by simp
qed

end
