(* ===== verification/RS_Evidence.thy ===== *)
theory RS_Evidence
  imports RS_Contracts
begin

section \<open>Signed evidence\<close>

text \<open>
  Models \<open>packages/evidence/runsigil_evidence/signing.py\<close>. The Ed25519 and base64
  primitives are the environment's; \<open>None\<close> for the envelope stands for one whose schema
  pydantic refuses.
\<close>

definition DOMAIN :: string where
  "DOMAIN = ''runsigil:evidence-bundle:v1'' @ [CHR 0x00]"

record evidence_envelope =
  env_manifest :: json
  env_content_digest :: digest
  env_signing_key_id :: string
  env_public_key_b64 :: string
  env_signature_b64 :: string

record verification_result =
  vr_valid :: bool
  vr_content_digest_valid :: bool
  vr_signature_valid :: bool
  vr_trusted_key :: bool
  vr_message :: string

text \<open>\<open>content_digest.encode("ascii")\<close> raises, and the signature is invalid, on other text.\<close>

definition is_ascii :: "char \<Rightarrow> bool" where
  "is_ascii c \<longleftrightarrow> (of_char c :: nat) < 128"

text \<open>A signer is its private key and its stripped key id.\<close>

definition evidence_signer :: "env \<Rightarrow> string \<Rightarrow> string \<Rightarrow> rs_error + string \<times> string" where
  "evidence_signer v private_key_b64 key_id =
     fetch (b64_decode v private_key_b64) (PyValueError ''base64'') (\<lambda>raw.
     require (length raw = 32)
       (PyValueError ''Ed25519 private key seed must contain exactly 32 bytes'') (
     require (strip is_space key_id \<noteq> [])
       (PyValueError ''evidence signing key id is required'') (
     Inr (raw, strip is_space key_id))))"

definition sign :: "env \<Rightarrow> string \<times> string \<Rightarrow> json \<Rightarrow> evidence_envelope" where
  "sign v signer manifest =
     (let digest = digest_of v manifest
      in \<lparr>env_manifest = manifest, env_content_digest = digest, env_signing_key_id = snd signer,
          env_public_key_b64 = b64_encode v (ed_public v (fst signer)),
          env_signature_b64 = b64_encode v (ed_sign v (fst signer) (DOMAIN @ digest))\<rparr>)"

definition verify ::
  "env \<Rightarrow> evidence_envelope option \<Rightarrow> (string \<times> string) list option \<Rightarrow> verification_result" where
  "verify v envelope trusted_public_keys =
     (case envelope of
        None \<Rightarrow> \<lparr>vr_valid = False, vr_content_digest_valid = False, vr_signature_valid = False,
                 vr_trusted_key = False, vr_message = ''Evidence envelope schema is invalid.''\<rparr>
      | Some e \<Rightarrow>
          let digest_valid = (digest_of v (env_manifest e) = env_content_digest e);
              signature_valid =
                (case (b64_decode v (env_public_key_b64 e), b64_decode v (env_signature_b64 e)) of
                   (Some public, Some sig) \<Rightarrow>
                     list_all is_ascii (env_content_digest e) \<and>
                     ed_verify v public (DOMAIN @ env_content_digest e) sig
                 | _ \<Rightarrow> False);
              (trusted, trust_message) =
                (case trusted_public_keys of
                   None \<Rightarrow> (True, ''signature is self-consistent; no external trust root was supplied'')
                 | Some keys \<Rightarrow>
                     if map_of keys (env_signing_key_id e) = Some (env_public_key_b64 e)
                     then (True, ''signing key is trusted'') else (False, ''signing key is not trusted''));
              valid = (digest_valid \<and> signature_valid \<and> trusted)
          in \<lparr>vr_valid = valid, vr_content_digest_valid = digest_valid,
              vr_signature_valid = signature_valid, vr_trusted_key = trusted,
              vr_message = (if valid then ''Evidence is valid ('' @ trust_message @ '').''
                else ''Evidence verification failed: content, signature, or trust root mismatch.'')\<rparr>)"

definition public_key_fingerprint :: "env \<Rightarrow> string \<Rightarrow> rs_error + string" where
  "public_key_fingerprint v public_key_b64 =
     fetch (b64_decode v public_key_b64) (PyValueError ''base64'') (\<lambda>raw. Inr (''sha256:'' @ sha256_hex v raw))"

subsection \<open>Properties\<close>

text \<open>
  Round trip of evidence: where base64 decodes what it encoded, the hash prints ASCII text
  and a signature verifies under the signing key's public half, an envelope this signer made verifies, under no trust root and
  under every trust root that lists its key.
\<close>

theorem sign_verify_roundtrip:
  assumes "\<And>s. b64_decode v (b64_encode v s) = Some s"
    and "\<And>m. ed_verify v (ed_public v (fst signer)) m (ed_sign v (fst signer) m)"
    and "list_all is_ascii (sha256_hex v (json_bytes manifest))"
    and "case roots of None \<Rightarrow> True
         | Some keys \<Rightarrow> map_of keys (snd signer) = Some (b64_encode v (ed_public v (fst signer)))"
  shows "vr_valid (verify v (Some (sign v signer manifest)) roots)"
  using assms
  by (auto simp: verify_def sign_def Let_def digest_of_def json_digest_def is_ascii_def split: option.splits)

theorem sign_verify_roundtrip_witness:
  "vr_valid (verify sample_env (Some (sign sample_env (sample_key, ''key'') (JObj [(''a'', JInt 1)])))
     (Some [(''key'', sample_key)]))"
  by (rule sign_verify_roundtrip)
    (simp_all add: sample_env_def json_bytes_def quoted_def escape_char_def int_str_def nat_str.simps digit_char_def is_ascii_def)

text \<open>
  Evidence is bound to content, signature and trust root: if an envelope verifies against a
  trust root, the root lists its key under its key id, its signature is that key's over its
  digest in the evidence domain, and, for a hash without collisions, any manifest with that
  digest is the envelope's own up to the order of members.
\<close>

theorem verify_sound:
  assumes "vr_valid (verify v (Some e) (Some keys))"
    and "\<And>a b. sha256_hex v a = sha256_hex v b \<Longrightarrow> a = b"
    and "wf_json (env_manifest e)" and "wf_json m" and "digest_of v m = env_content_digest e"
  shows "map_of keys (env_signing_key_id e) = Some (env_public_key_b64 e) \<and>
    (\<exists>public sig. b64_decode v (env_public_key_b64 e) = Some public \<and>
       b64_decode v (env_signature_b64 e) = Some sig \<and>
       ed_verify v public (DOMAIN @ env_content_digest e) sig) \<and>
    sort_keys m = sort_keys (env_manifest e)"
proof -
  have ok: "digest_of v (env_manifest e) = env_content_digest e"
    "map_of keys (env_signing_key_id e) = Some (env_public_key_b64 e)"
    "\<exists>public sig. b64_decode v (env_public_key_b64 e) = Some public \<and>
       b64_decode v (env_signature_b64 e) = Some sig \<and>
       ed_verify v public (DOMAIN @ env_content_digest e) sig"
    using assms(1) by (auto simp: verify_def Let_def split: option.splits if_splits)
  then have "json_bytes m = json_bytes (env_manifest e)"
    using assms(2,5) by (metis (no_types, lifting) append_same_eq digest_of_def json_digest_def same_append_eq)
  with ok show ?thesis using json_bytes_inject [OF assms(4,3)] by simp
qed

theorem verify_sound_witness:
  "map_of [(''key'', sample_key)]
      (env_signing_key_id (sign sample_env (sample_key, ''key'') (JObj []))) =
      Some (env_public_key_b64 (sign sample_env (sample_key, ''key'') (JObj []))) \<and>
    (\<exists>public sig. b64_decode sample_env
         (env_public_key_b64 (sign sample_env (sample_key, ''key'') (JObj []))) = Some public \<and>
       b64_decode sample_env
         (env_signature_b64 (sign sample_env (sample_key, ''key'') (JObj []))) = Some sig \<and>
       ed_verify sample_env public
         (DOMAIN @ env_content_digest (sign sample_env (sample_key, ''key'') (JObj []))) sig) \<and>
    sort_keys (JObj []) = sort_keys (env_manifest (sign sample_env (sample_key, ''key'') (JObj [])))"
  by (rule verify_sound)
    (simp_all add: verify_def sign_def sample_env_def Let_def digest_of_def json_digest_def json_bytes_def is_ascii_def)

end
