(* ===== verification/RS_Action_Worker.thy ===== *)
theory RS_Action_Worker
  imports RS_Governed_Actions RS_Evidence
begin

section \<open>The action worker\<close>

text \<open>
  Models \<open>apps/worker/runsigil_worker/service.py\<close> for actions: the claim of an approved
  action, the claim of one whose outcome is unknown, the settlement of a result, the dead letter and
  the sealed evidence; and \<open>services/dead_letters.py\<close>. The claim token, random in the code, is
  an argument. Row locks order concurrent transactions, and a claim that finds its row locked
  returns nothing; here the transactions run one after the other.
\<close>

subsection \<open>Claims\<close>

datatype claim_mode = Execute | Reconcile

fun mode_value :: "claim_mode \<Rightarrow> string" where
  "mode_value Execute = ''execute''"
| "mode_value Reconcile = ''reconcile''"

record claimed_action =
  cl_action_id :: uuid
  cl_organization_id :: uuid
  cl_run_id :: uuid
  cl_content_digest :: digest
  cl_idempotency_key :: string
  cl_claim_token :: string
  cl_mode :: claim_mode

definition claim_of :: "action_row \<Rightarrow> string \<Rightarrow> claim_mode \<Rightarrow> claimed_action" where
  "claim_of a token mode = \<lparr>cl_action_id = act_id a, cl_organization_id = act_org a,
     cl_run_id = act_run_id a, cl_content_digest = act_content_digest a,
     cl_idempotency_key = act_idempotency_key a, cl_claim_token = token, cl_mode = mode\<rparr>"

definition claim_ready :: "env \<Rightarrow> string \<Rightarrow> db \<Rightarrow> rs_error + claimed_action option \<times> db" where
  "claim_ready v token s =
     (let t = now s
      in case first_by ob_created_at (filter (\<lambda>ev. ob_topic ev = ''action.ready'' \<and> ob_dispatched_at ev = None \<and>
                ob_available_at ev \<le> t) (seen s ob_org (outbox s))) of
           None \<Rightarrow> Inr (None, s)
         | Some ev \<Rightarrow>
            let call = tool_call_for_action s (ob_aggregate_id ev)
            in case get_action s (ob_aggregate_id ev) of
                 Some a \<Rightarrow>
                   if act_state a \<noteq> Approved
                   then Inr (None, upd_outbox (ob_id ev) (\<lambda>ev. ev\<lparr>ob_dispatched_at := Some t,
                          ob_processed_at := Some t, ob_attempts := ob_attempts ev + 1\<rparr>) s)
                   else
                     let s = upd_action (act_id a) (\<lambda>a. a\<lparr>act_state := Executing,
                               act_version := act_version a + 1, act_worker_name := Some (worker_name v),
                               act_claim_hash := Some (claim_hash v token),
                               act_lease_expires_at := Some (t + seconds (action_lease_seconds v)),
                               act_execute_attempts := act_execute_attempts a + 1\<rparr>) s;
                         s = (case call of
                                Some c \<Rightarrow> upd_tool_call (tc_id c) (\<lambda>c. c\<lparr>tc_status := TcExecuting\<rparr>) s
                              | None \<Rightarrow> s);
                         s = upd_outbox (ob_id ev) (\<lambda>ev. ev\<lparr>ob_dispatched_at := Some t,
                               ob_attempts := ob_attempts ev + 1\<rparr>) s;
                         s = (case get_run s (act_run_id a) of
                                None \<Rightarrow> s
                              | Some r \<Rightarrow> upd_run (run_id r) (\<lambda>r. r\<lparr>run_status := RunRunning,
                                  run_active_node := Some ''action-dispatch'',
                                  run_started_at := (case run_started_at r of None \<Rightarrow> Some t | Some x \<Rightarrow> Some x)\<rparr>) s);
                         s = trace_event v (act_org a) (act_run_id a) ''action-dispatch'' ''action.claimed'' ''running''
                               (JObj [(''action_id'', juuid (act_id a)), (''worker'', JStr (worker_name v)),
                                      (''content_digest'', JStr (act_content_digest a)),
                                      (''durable_claim_committed_before_effect'', JBool True)]) s
                     in Inr (Some (claim_of a token Execute), s)
               | None \<Rightarrow> Inr (None, upd_outbox (ob_id ev) (\<lambda>ev. ev\<lparr>ob_dispatched_at := Some t,
                          ob_processed_at := Some t, ob_attempts := ob_attempts ev + 1\<rparr>) s))"

definition reconcilable :: "timestamp \<Rightarrow> action_row \<Rightarrow> bool" where
  "reconcilable t a \<longleftrightarrow>
     (act_state a = Executing \<and> (case act_lease_expires_at a of None \<Rightarrow> False | Some l \<Rightarrow> l < t)) \<or>
     (act_state a = ReconciliationRequired \<and>
       (case act_next_reconcile_at a of None \<Rightarrow> True | Some n \<Rightarrow> n \<le> t))"

definition claim_reconciliation :: "env \<Rightarrow> string \<Rightarrow> db \<Rightarrow> rs_error + claimed_action option \<times> db" where
  "claim_reconciliation v token s =
     (let t = now s
      in case first_by act_updated_at (filter (reconcilable t) (seen s act_org (actions s))) of
           None \<Rightarrow> Inr (None, s)
         | Some a \<Rightarrow>
             let call = tool_call_for_action s (act_id a);
                 s = upd_action (act_id a) (\<lambda>a. a\<lparr>act_state := Reconciling,
                       act_version := act_version a + 1, act_worker_name := Some (worker_name v),
                       act_claim_hash := Some (claim_hash v token),
                       act_lease_expires_at := Some (t + seconds (action_lease_seconds v)),
                       act_reconcile_attempts := act_reconcile_attempts a + 1,
                       act_cycle_attempts := act_cycle_attempts a + 1\<rparr>) s;
                 s = (case call of
                        Some c \<Rightarrow> upd_tool_call (tc_id c) (\<lambda>c. c\<lparr>tc_status := TcReconciling\<rparr>) s
                      | None \<Rightarrow> s);
                 s = trace_event v (act_org a) (act_run_id a) ''action-reconciliation''
                       ''action.reconciliation_claimed'' ''running''
                       (JObj [(''action_id'', juuid (act_id a)),
                              (''attempt'', JInt (act_reconcile_attempts a + 1)),
                              (''cycle_attempt'', JInt (act_cycle_attempts a + 1))]) s
             in Inr (Some (claim_of a token Reconcile), s))"

subsection \<open>Evidence\<close>

text \<open>The row as it stands after the writes of the transaction so far.\<close>

definition reload :: "db \<Rightarrow> action_row \<Rightarrow> action_row" where
  "reload s a = (case tget act_id (act_id a) (actions s) of None \<Rightarrow> a | Some b \<Rightarrow> b)"

definition dead_letter_of :: "db \<Rightarrow> uuid \<Rightarrow> dead_letter_row option" where
  "dead_letter_of s act = find (\<lambda>d. dl_action_id d = act) (seen s dl_org (dead_letters s))"

definition evidence_manifest ::
  "env \<Rightarrow> db \<Rightarrow> action_row \<Rightarrow> run_row \<Rightarrow> intent_row \<Rightarrow> policy_decision_row \<Rightarrow> json" where
  "evidence_manifest v s a r i d =
     (let approval = Option.bind (act_approval_id a) (get_approval s);
          trace = sort_key tr_sequence (filter (\<lambda>e. tr_run_id e = act_run_id a) (seen s tr_org (traces s)));
          audit = sort_key au_sequence (filter (\<lambda>e. au_org e = act_org a) (seen s au_org (audits s)))
      in JObj
       [(''schema'', JStr ''runsigil.evidence/v1''), (''organization_id'', juuid (act_org a)),
        (''run'', JObj [(''id'', juuid (run_id r)), (''status'', JStr (run_status_value (run_status r))),
           (''input_digest'', JStr (run_input_digest r)), (''started_at'', jopt jtime (run_started_at r)),
           (''completed_at'', jopt jtime (run_completed_at r))]),
        (''intent'', JObj [(''id'', juuid (int_id i)), (''action_type'', JStr (int_action_type i)),
           (''arguments_digest'', JStr (int_arguments_digest i)),
           (''content_digest'', JStr (int_content_digest i)),
           (''delegation_id'', juuid (int_delegation_id i))]),
        (''action'', JObj [(''id'', juuid (act_id a)), (''state'', JStr (action_state_value (act_state a))),
           (''content_digest'', JStr (act_content_digest a)),
           (''provider_idempotency_key'', JStr (act_idempotency_key a)),
           (''provider_reference'', jopt JStr (act_provider_reference a)),
           (''execute_attempts'', JInt (act_execute_attempts a)),
           (''reconcile_attempts'', JInt (act_reconcile_attempts a))]),
        (''policy'', JObj [(''decision_id'', juuid (pd_id d)), (''effect'', JStr (pd_effect d)),
           (''reason_code'', JStr (pd_reason_code d)), (''policy_digest'', JStr (pd_policy_digest d))]),
        (''approval'', jopt (\<lambda>p. JObj [(''id'', juuid (ap_id p)),
           (''status'', JStr (approval_status_value (ap_status p))),
           (''content_digest'', JStr (ap_content_digest p)),
           (''decided_at'', jopt jtime (ap_decided_at p)), (''decided_by'', jopt juuid (ap_decided_by p))]) approval),
        (''budgets'', JArr (map (\<lambda>q. JObj [(''reservation_id'', juuid (rv_id q)),
           (''resource_key'', JStr (rv_resource q)), (''estimated_value'', JInt (rv_estimated q)),
           (''actual_value'', jopt JInt (rv_actual q)),
           (''status'', JStr (reservation_status_value (rv_status q)))])
           (reservations_of_action s (act_org a) (act_id a)))),
        (''dead_letter'', jopt (\<lambda>x. JObj [(''id'', juuid (dl_id x)),
           (''status'', JStr (dead_letter_status_value (dl_status x))),
           (''reason_code'', JStr (dl_reason_code x)), (''attempt_count'', JInt (dl_attempt_count x)),
           (''redrive_count'', JInt (dl_redrive_count x)), (''max_redrives'', JInt (dl_max_redrives x)),
           (''version'', JInt (dl_version x))]) (dead_letter_of s (act_id a))),
        (''trace'', JArr (map (\<lambda>e. JObj [(''id'', juuid (tr_id e)), (''sequence'', JInt (tr_sequence e)),
           (''node_id'', JStr (tr_node_id e)), (''event_type'', JStr (tr_event_type e)),
           (''status'', JStr (tr_status e)),
           (''attributes_digest'', JStr (digest_of v (tr_attributes e)))]) trace)),
        (''audit_segment'', JArr (map (\<lambda>e. JObj [(''sequence'', JInt (au_sequence e)),
           (''event_type'', JStr (au_event_type e)), (''subject_id'', juuid (au_subject_id e)),
           (''previous_hash'', jopt JStr (au_previous_hash e)),
           (''row_hash'', JStr (au_row_hash e))]) audit)),
        (''privacy'', JObj [(''raw_content_captured'', JBool False), (''secret_values_included'', JBool False)])])"

definition create_evidence :: "env \<Rightarrow> action_row \<Rightarrow> db \<Rightarrow> rs_error + db" where
  "create_evidence v a s =
     (if find (\<lambda>e. ev_run_id e = act_run_id a) (seen s ev_org (evidence s)) \<noteq> None then Inr s
      else
        let incomplete = PyRuntimeError ''cannot seal incomplete action lineage'';
            s = flush s
        in fetch (get_run s (act_run_id a)) incomplete (\<lambda>r.
           fetch (get_intent s (act_intent_id a)) incomplete (\<lambda>i.
           fetch (get_decision s (act_decision_id a)) incomplete (\<lambda>d.
           require (reservations_of_action s (act_org a) (act_id a) \<noteq> []) incomplete (
           rbind (evidence_signer v (evidence_key_b64 v) (evidence_key_id v)) (\<lambda>signer.
           let e = sign v signer (evidence_manifest v s a r i d);
               (k, s) = uuid4 s
           in Inr (s\<lparr>evidence := evidence s @ [\<lparr>ev_id = k, ev_org = act_org a, ev_run_id = act_run_id a,
                ev_content_digest = env_content_digest e, ev_manifest = env_manifest e,
                ev_algorithm = ''ed25519'', ev_key_id = env_signing_key_id e,
                ev_public_key_b64 = env_public_key_b64 e, ev_signature_b64 = env_signature_b64 e,
                ev_export_status = ''local_only''\<rparr>]\<rparr>)))))))"

subsection \<open>Settlement\<close>

definition dead_letter_action :: "env \<Rightarrow> action_row \<Rightarrow> run_row option \<Rightarrow> db \<Rightarrow> db" where
  "dead_letter_action v a r s =
     (let t = now s;
          reason = (case act_error_code a of None \<Rightarrow> ''provider_outcome_ambiguous'' | Some e \<Rightarrow> e);
          s = (case dead_letter_of s (act_id a) of
                 None \<Rightarrow>
                   let (k, s) = uuid4 s
                   in s\<lparr>dead_letters := dead_letters s @ [\<lparr>dl_id = k, dl_org = act_org a,
                         dl_action_id = act_id a, dl_run_id = act_run_id a,
                         dl_outbox_id = map_option ob_id (action_ready_event s (act_id a)),
                         dl_source = ''action-reconciliation'', dl_reason_code = reason,
                         dl_status = DlOpen, dl_attempt_count = act_reconcile_attempts a,
                         dl_redrive_count = 0, dl_max_redrives = max_dlq_redrives v, dl_version = 1,
                         dl_content_digest = act_content_digest a, dl_resolved_at = None,
                         dl_created_at = t, dl_updated_at = t\<rparr>]\<rparr>
               | Some d \<Rightarrow>
                   upd_dead_letter (dl_id d) (\<lambda>d. d\<lparr>dl_status := DlOpen, dl_reason_code := reason,
                     dl_attempt_count := act_reconcile_attempts a, dl_version := dl_version d + 1,
                     dl_resolved_at := None\<rparr>) s);
          s = upd_action (act_id a) (\<lambda>a. a\<lparr>act_state := DeadLettered, act_next_reconcile_at := None\<rparr>) s
      in case r of
           None \<Rightarrow> s
         | Some r \<Rightarrow> upd_run (run_id r) (\<lambda>r. r\<lparr>run_status := RunDeadLettered, run_active_node := None,
             run_error_code := act_error_code a\<rparr>) s)"

definition upd_run_opt :: "run_row option \<Rightarrow> (run_row \<Rightarrow> run_row) \<Rightarrow> db \<Rightarrow> db" where
  "upd_run_opt r f s = (case r of None \<Rightarrow> s | Some r \<Rightarrow> upd_run (run_id r) f s)"

text \<open>
  The three outcomes: the new state of the action, its run and its reservations, and the status
  word the trace and the audit record.
\<close>

definition settle_outcome ::
  "env \<Rightarrow> claim_mode \<Rightarrow> action_execution_result \<Rightarrow> action_row \<Rightarrow> run_row option \<Rightarrow> db \<Rightarrow> rs_error + string \<times> db" where
  "settle_outcome v mode res a r s =
     (let t = now s
      in case res_outcome res of
           Committed \<Rightarrow>
             let s = upd_action (act_id a) (\<lambda>a. a\<lparr>act_state := ActCommitted,
                       act_receipt_preview := Some (res_receipt_preview res),
                       act_provider_reference := res_provider_reference res, act_error_code := None,
                       act_lease_expires_at := None\<rparr>) s;
                 s = upd_run_opt r (\<lambda>r. r\<lparr>run_status := RunCompleted, run_active_node := None,
                       run_completed_at := Some t\<rparr>) s
             in rbind (settle_action_reservations (act_org a) (act_id a) t True [] s)
                  (\<lambda>(_, s). Inr (''committed'', s))
         | Failed \<Rightarrow>
             let code = (case res_error_code res of None \<Rightarrow> ''provider_failed'' | Some e \<Rightarrow>
                           if e = [] then ''provider_failed'' else e);
                 s = upd_action (act_id a) (\<lambda>a. a\<lparr>act_state := ActFailed, act_error_code := Some code,
                       act_lease_expires_at := None\<rparr>) s;
                 s = upd_run_opt r (\<lambda>r. r\<lparr>run_status := RunFailed, run_active_node := None,
                       run_error_code := Some code, run_completed_at := Some t\<rparr>) s
             in rbind (settle_action_reservations (act_org a) (act_id a) t False [] s)
                  (\<lambda>(_, s). Inr (''failed'', s))
         | Ambiguous \<Rightarrow>
             let code = (case res_error_code res of None \<Rightarrow> ''provider_outcome_ambiguous'' | Some e \<Rightarrow>
                           if e = [] then ''provider_outcome_ambiguous'' else e);
                 s = upd_action (act_id a) (\<lambda>a. a\<lparr>act_error_code := Some code,
                       act_lease_expires_at := None\<rparr>) s
             in if mode = Reconcile \<and> max_reconciliation_attempts v \<le> act_cycle_attempts a
                then Inr (''dead_lettered'', dead_letter_action v (reload s a) r s)
                else
                  let s = upd_action (act_id a) (\<lambda>a. a\<lparr>act_state := ReconciliationRequired,
                            act_next_reconcile_at := Some (t + seconds (reconciliation_delay_seconds v))\<rparr>) s;
                      s = upd_run_opt r (\<lambda>r. r\<lparr>run_status := RunReconciliationRequired,
                            run_active_node := Some ''action-reconciliation'', run_error_code := Some code\<rparr>) s
                  in Inr (''ambiguous'', s))"

text \<open>The worker's own actor id, \<open>00000000-0000-4000-8000-000000000001\<close>.\<close>

definition WORKER_ACTOR :: uuid where
  "WORKER_ACTOR = 0x00000000000040008000000000000001"

definition resolve_dead_letter :: "uuid \<Rightarrow> db \<Rightarrow> db" where
  "resolve_dead_letter act s =
     (case dead_letter_of s act of
        None \<Rightarrow> s
      | Some d \<Rightarrow>
          if dl_status d = DlResolved then s
          else upd_dead_letter (dl_id d) (\<lambda>d. d\<lparr>dl_status := DlResolved, dl_resolved_at := Some (now s),
                 dl_version := dl_version d + 1\<rparr>) s)"

definition settle_tool_call :: "env \<Rightarrow> action_row \<Rightarrow> outbox_row option \<Rightarrow> tool_call_row option \<Rightarrow> db \<Rightarrow> db" where
  "settle_tool_call v a timeout_event call s =
     (case call of
        None \<Rightarrow> s
      | Some c \<Rightarrow>
          let s = settle_workflow_tool_call v c (reload s a) (now s) s
          in case tget tc_id (tc_id c) (tool_calls s) of
               None \<Rightarrow> s
             | Some c' \<Rightarrow>
                 if tc_status c' \<in> {TcCompleted, TcFailed} then mark_processed timeout_event (now s) s else s)"

text \<open>What every settlement records: the version, the processed event, the trace and the audit event.\<close>

definition record_settlement ::
  "env \<Rightarrow> claimed_action \<Rightarrow> action_execution_result \<Rightarrow> action_row \<Rightarrow> string \<Rightarrow> db \<Rightarrow> db" where
  "record_settlement v cl res a status s =
     (let t = now s;
          s = upd_action (act_id a) (\<lambda>a. a\<lparr>act_version := act_version a + 1\<rparr>) s;
          s = (case action_ready_event s (act_id a) of
                 None \<Rightarrow> s
               | Some ev \<Rightarrow>
                   if status \<in> {''committed'', ''failed'', ''dead_lettered''}
                   then upd_outbox (ob_id ev) (\<lambda>ev. ev\<lparr>ob_processed_at := Some t\<rparr>) s else s);
          s = trace_event v (act_org a) (act_run_id a)
                (if cl_mode cl = Execute then ''action-dispatch'' else ''action-reconciliation'')
                (''action.'' @ status) status
                (JObj [(''action_id'', juuid (act_id a)),
                       (''content_digest'', JStr (act_content_digest a)),
                       (''provider_reference'', jopt JStr (res_provider_reference res)),
                       (''raw_content_captured'', JBool False)]) s
      in audit v (act_org a) WORKER_ACTOR (''action.'' @ status) ''action'' (act_id a)
           (act_content_digest a)
           (JObj [(''run_id'', juuid (act_run_id a)), (''worker'', JStr (worker_name v)),
                  (''outcome'', JStr (outcome_value (res_outcome res))),
                  (''raw_content_captured'', JBool False)]) s)"

definition settle ::
  "env \<Rightarrow> claimed_action \<Rightarrow> action_execution_result \<Rightarrow> db \<Rightarrow> rs_error + unit \<times> db" where
  "settle v cl res s =
     (let call = tool_call_for_action s (cl_action_id cl);
          timeout_event = Option.bind call (\<lambda>c. lock_tool_timeout_event s (tc_id c))
      in case get_action s (cl_action_id cl) of
           None \<Rightarrow> Inr ((), s)
         | Some a \<Rightarrow>
             if act_state a \<noteq> (if cl_mode cl = Execute then Executing else Reconciling) \<or>
                act_claim_hash a \<noteq> Some (claim_hash v (cl_claim_token cl))
             then Inr ((), s)
             else
               rbind (settle_outcome v (cl_mode cl) res a (get_run s (act_run_id a)) s) (\<lambda>(status, s).
               let s = record_settlement v cl res a status s
               in rbind (if res_outcome res \<in> {Committed, Failed}
                         then let s = resolve_dead_letter (act_id a) s in create_evidence v (reload s a) s
                         else Inr s) (\<lambda>s.
                  Inr ((), settle_tool_call v a timeout_event call s))))"

subsection \<open>Redriving a dead letter\<close>

definition redrive_dead_letter ::
  "env \<Rightarrow> actor_context \<Rightarrow> uuid \<Rightarrow> int \<Rightarrow> string \<Rightarrow> db \<Rightarrow> rs_error + uuid \<times> db" where
  "redrive_dead_letter v c letter expected_version reason s =
     fetch (get_dead_letter s letter) (rs_err NOT_FOUND ''Dead letter not found.'' 404) (\<lambda>d.
     let call = tool_call_for_action s (dl_action_id d);
         stale = rs_err INVALID_TRANSITION ''Dead-letter lineage is incomplete, stale, or currently claimed.'' 409
     in require (dl_status d = DlOpen)
          (rs_err INVALID_TRANSITION ''Only an open dead letter can be redriven.'' 409) (
        require (dl_version d = expected_version)
          (RunSigilError INVALID_TRANSITION ''The dead letter version is stale.'' 409
             (JObj [(''current_version'', JInt (dl_version d))])) (
        require (dl_redrive_count d < dl_max_redrives d)
          (rs_err INVALID_TRANSITION ''The bounded dead-letter redrive limit is exhausted.'' 409) (
        fetch (get_action s (dl_action_id d)) stale (\<lambda>a.
        fetch (get_run s (dl_run_id d)) stale (\<lambda>r.
        require (act_state a = DeadLettered \<and> run_status r = RunDeadLettered \<and>
                 act_lease_expires_at a = None \<and> act_content_digest a = dl_content_digest d) stale (
        let t = now s;
            s = upd_dead_letter (dl_id d) (\<lambda>d. d\<lparr>dl_status := DlRedriven,
                  dl_redrive_count := dl_redrive_count d + 1, dl_version := dl_version d + 1,
                  dl_resolved_at := None\<rparr>) s;
            s = upd_action (act_id a) (\<lambda>a. a\<lparr>act_state := ReconciliationRequired, act_cycle_attempts := 0,
                  act_next_reconcile_at := Some t,
                  act_error_code := Some ''dlq_redrive_reconciliation_pending'',
                  act_version := act_version a + 1\<rparr>) s;
            s = upd_run (run_id r) (\<lambda>r. r\<lparr>run_status := RunReconciliationRequired,
                  run_active_node := Some ''action-reconciliation'',
                  run_error_code := Some ''dlq_redrive_reconciliation_pending''\<rparr>) s
        in rbind (case call of
                    None \<Rightarrow> Inr s
                  | Some k \<Rightarrow>
                      require (tc_status k = TcDeadLettered)
                        (rs_err INVALID_TRANSITION ''Workflow tool-call dead-letter lineage is stale.'' 409)
                        (Inr (upd_tool_call (tc_id k) (\<lambda>k. k\<lparr>tc_status := TcReconciliationRequired\<rparr>) s))) (\<lambda>s.
           let s = trace_event v (actor_org c) (run_id r) ''action-reconciliation'' ''dead_letter.redriven'' ''queued''
                     (JObj [(''dead_letter_id'', juuid (dl_id d)),
                            (''redrive_count'', JInt (dl_redrive_count d + 1)),
                            (''max_redrives'', JInt (dl_max_redrives d)), (''reconcile_only'', JBool True)]) s
           in Inr (dl_id d,
                audit v (actor_org c) (actor_id c) ''dead_letter.redriven'' ''dead_letter'' (dl_id d)
                  (dl_content_digest d)
                  (JObj [(''run_id'', juuid (run_id r)), (''action_id'', juuid (act_id a)),
                         (''redrive_count'', JInt (dl_redrive_count d + 1)),
                         (''max_redrives'', JInt (dl_max_redrives d)), (''reason'', JStr reason),
                         (''reconcile_only'', JBool True)]) s)))))))))"

definition dead_letter_summary :: "dead_letter_row \<Rightarrow> json" where
  "dead_letter_summary d = JObj
     [(''id'', juuid (dl_id d)), (''action_id'', juuid (dl_action_id d)), (''run_id'', juuid (dl_run_id d)),
      (''source'', JStr (dl_source d)), (''reason_code'', JStr (dl_reason_code d)),
      (''status'', JStr (dead_letter_status_value (dl_status d))),
      (''attempt_count'', JInt (dl_attempt_count d)), (''redrive_count'', JInt (dl_redrive_count d)),
      (''max_redrives'', JInt (dl_max_redrives d)), (''version'', JInt (dl_version d)),
      (''content_digest'', JStr (dl_content_digest d)), (''created_at'', jtime (dl_created_at d)),
      (''updated_at'', jtime (dl_updated_at d)), (''resolved_at'', jopt jtime (dl_resolved_at d))]"

end
