(* ===== verification/RS_Lifecycle.thy ===== *)
theory RS_Lifecycle
  imports RS_Store
begin

section \<open>The lifecycle of a governed action, abstractly\<close>

text \<open>
  The contract behind the services: how an action, its approval and its reservations may move
  together, as a step relation on the five things it speaks of. The services are shown to
  follow it in the system theory; here its invariant is proved once. An action's state moves along
  \<open>action_edge\<close>; its approval is decided at most once, with it; its reservations are opened
  with it and closed with it.
\<close>

subsection \<open>States and steps\<close>

record life =
  lf_next :: uuid
  lf_actions :: "action_row list"
  lf_approvals :: "approval_row list"
  lf_reservations :: "reservation_row list"
  lf_links :: "action_reservation_row list"

definition linked :: "life \<Rightarrow> action_row \<Rightarrow> reservation_row \<Rightarrow> bool" where
  "linked L a r \<longleftrightarrow> (\<exists>l \<in> set (lf_links L). ar_org l = rv_org r \<and> ar_org l = act_org a \<and>
     ar_reservation_id l = rv_id r \<and> ar_action_id l = act_id a)"

definition close_linked :: "life \<Rightarrow> action_row \<Rightarrow> (reservation_row \<Rightarrow> reservation_row) \<Rightarrow> reservation_row list" where
  "close_linked L a h =
     map (\<lambda>r. if linked L a r \<and> rv_status r = ResActive then h r else r) (lf_reservations L)"

definition same_lineage :: "action_row \<Rightarrow> action_row \<Rightarrow> bool" where
  "same_lineage a b \<longleftrightarrow> act_id b = act_id a \<and> act_org b = act_org a \<and> act_run_id b = act_run_id a \<and>
     act_intent_id b = act_intent_id a \<and> act_decision_id b = act_decision_id a \<and>
     act_approval_id b = act_approval_id a \<and> act_reservation_id b = act_reservation_id a \<and>
     act_content_digest b = act_content_digest a \<and>
     act_encrypted_arguments b = act_encrypted_arguments a \<and>
     act_idempotency_key b = act_idempotency_key a"

definition moves :: "(action_row \<Rightarrow> action_row) \<Rightarrow> action_state \<Rightarrow> int \<Rightarrow> bool" where
  "moves f st d \<longleftrightarrow> (\<forall>b. same_lineage b (f b) \<and> act_state (f b) = st \<and>
     act_execute_attempts (f b) = act_execute_attempts b + d)"

definition decides :: "(approval_row \<Rightarrow> approval_row) \<Rightarrow> approval_status \<Rightarrow> bool" where
  "decides g st \<longleftrightarrow> (\<forall>q. ap_id (g q) = ap_id q \<and> ap_content_digest (g q) = ap_content_digest q \<and> ap_status (g q) = st)"

definition closes :: "(reservation_row \<Rightarrow> reservation_row) \<Rightarrow> bool" where
  "closes h \<longleftrightarrow> (\<forall>r. rv_id (h r) = rv_id r \<and> rv_org (h r) = rv_org r \<and> rv_status (h r) \<noteq> ResActive)"

text \<open>Moves that neither decide an approval nor close a reservation, with the execute attempts they add.\<close>

fun advance_edge :: "action_state \<Rightarrow> action_state \<Rightarrow> int option" where
  "advance_edge Approved Executing = Some 1"
| "advance_edge Executing Reconciling = Some 0"
| "advance_edge ReconciliationRequired Reconciling = Some 0"
| "advance_edge Executing ReconciliationRequired = Some 0"
| "advance_edge Reconciling ReconciliationRequired = Some 0"
| "advance_edge Reconciling DeadLettered = Some 0"
| "advance_edge DeadLettered ReconciliationRequired = Some 0"
| "advance_edge _ _ = None"

inductive life_step :: "life \<Rightarrow> life \<Rightarrow> bool" where
  idle: "lf_next L \<le> n \<Longrightarrow> life_step L (L\<lparr>lf_next := n\<rparr>)"
| create:
  "\<lbrakk>act_id a \<in> {lf_next L ..< n}; act_execute_attempts a = 0;
    case act_approval_id a of
      None \<Rightarrow> act_state a = Approved \<and> aps = []
    | Some k \<Rightarrow> act_state a = Proposed \<and> k \<in> {lf_next L ..< n} \<and>
        (\<exists>p. aps = [p] \<and> ap_id p = k \<and> ap_status p = ApPending \<and> ap_content_digest p = act_content_digest a);
    distinct (map rv_id rs); rv_id ` set rs \<subseteq> {lf_next L ..< n}; \<forall>r \<in> set rs. rv_status r = ResActive\<rbrakk> \<Longrightarrow>
   life_step L (L\<lparr>lf_next := n, lf_actions := lf_actions L @ [a], lf_approvals := lf_approvals L @ aps,
     lf_reservations := lf_reservations L @ rs,
     lf_links := lf_links L @
       map (\<lambda>r. \<lparr>ar_org = act_org a, ar_action_id = act_id a, ar_reservation_id = rv_id r\<rparr>) rs\<rparr>)"
| approve:
  "\<lbrakk>lf_next L \<le> n; a \<in> set (lf_actions L); p \<in> set (lf_approvals L); act_approval_id a = Some (ap_id p);
    ap_status p = ApPending; ap_content_digest p = act_content_digest a; moves f Approved 0;
    decides g ApApproved\<rbrakk> \<Longrightarrow>
   life_step L (L\<lparr>lf_next := n, lf_actions := tupd act_id (act_id a) f (lf_actions L),
     lf_approvals := tupd ap_id (ap_id p) g (lf_approvals L)\<rparr>)"
| reject:
  "\<lbrakk>lf_next L \<le> n; a \<in> set (lf_actions L); p \<in> set (lf_approvals L); act_approval_id a = Some (ap_id p);
    ap_status p = ApPending; moves f Rejected 0; decides g ApDenied \<or> decides g ApExpired; closes h\<rbrakk> \<Longrightarrow>
   life_step L (L\<lparr>lf_next := n, lf_actions := tupd act_id (act_id a) f (lf_actions L),
     lf_approvals := tupd ap_id (ap_id p) g (lf_approvals L), lf_reservations := close_linked L a h\<rparr>)"
| withdraw:
  "\<lbrakk>lf_next L \<le> n; a \<in> set (lf_actions L); act_state a = Approved; moves f Rejected 0; closes h\<rbrakk> \<Longrightarrow>
   life_step L (L\<lparr>lf_next := n, lf_actions := tupd act_id (act_id a) f (lf_actions L),
     lf_reservations := close_linked L a h\<rparr>)"
| advance:
  "\<lbrakk>lf_next L \<le> n; a \<in> set (lf_actions L); advance_edge (act_state a) st = Some d; moves f st d\<rbrakk> \<Longrightarrow>
   life_step L (L\<lparr>lf_next := n, lf_actions := tupd act_id (act_id a) f (lf_actions L)\<rparr>)"
| finish:
  "\<lbrakk>lf_next L \<le> n; a \<in> set (lf_actions L); act_state a \<in> {Executing, Reconciling}; st \<in> {ActCommitted, ActFailed};
    moves f st 0; closes h\<rbrakk> \<Longrightarrow>
   life_step L (L\<lparr>lf_next := n, lf_actions := tupd act_id (act_id a) f (lf_actions L),
     lf_reservations := close_linked L a h\<rparr>)"

subsection \<open>The invariant\<close>

definition closed_state :: "action_state \<Rightarrow> bool" where
  "closed_state st \<longleftrightarrow> st \<in> {Rejected, ActCommitted, ActFailed}"

definition ids_ok :: "life \<Rightarrow> bool" where
  "ids_ok L \<longleftrightarrow> distinct (map act_id (lf_actions L)) \<and> distinct (map ap_id (lf_approvals L)) \<and>
     distinct (map rv_id (lf_reservations L)) \<and>
     list_all (\<lambda>(k, ap). k < lf_next L \<and> (case ap of None \<Rightarrow> True | Some j \<Rightarrow> j < lf_next L))
       (map (\<lambda>a. (act_id a, act_approval_id a)) (lf_actions L)) \<and>
     list_all (\<lambda>k. k < lf_next L) (map ap_id (lf_approvals L)) \<and>
     list_all (\<lambda>k. k < lf_next L) (map rv_id (lf_reservations L)) \<and>
     list_all (\<lambda>l. ar_action_id l < lf_next L \<and> ar_reservation_id l < lf_next L) (lf_links L)"

definition attempts_ok :: "life \<Rightarrow> bool" where
  "attempts_ok L \<longleftrightarrow> (\<forall>a \<in> set (lf_actions L).
     act_execute_attempts a = (if act_state a \<in> {Proposed, Approved, Rejected} then 0 else 1))"

definition approvals_ok :: "life \<Rightarrow> bool" where
  "approvals_ok L \<longleftrightarrow> (\<forall>a \<in> set (lf_actions L). \<forall>k. act_approval_id a = Some k \<longrightarrow>
     (\<forall>p \<in> set (lf_approvals L). ap_id p = k \<and> ap_status p = ApPending \<longrightarrow> act_state a = Proposed) \<and>
     (act_state a \<notin> {Proposed, Rejected} \<longrightarrow>
       (\<exists>p \<in> set (lf_approvals L). ap_id p = k \<and> ap_status p = ApApproved \<and>
          ap_content_digest p = act_content_digest a)))"

definition owners_ok :: "action_reservation_row list \<Rightarrow> bool" where
  "owners_ok ls \<longleftrightarrow> (\<forall>l \<in> set ls. \<forall>k \<in> set ls.
     ar_reservation_id l = ar_reservation_id k \<longrightarrow> ar_action_id l = ar_action_id k)"

definition holds_ok :: "life \<Rightarrow> bool" where
  "holds_ok L \<longleftrightarrow> owners_ok (lf_links L) \<and>
     (\<forall>a \<in> set (lf_actions L). \<forall>r \<in> set (lf_reservations L). linked L a r \<longrightarrow>
        (rv_status r = ResActive \<longleftrightarrow> \<not> closed_state (act_state a)))"

definition life_inv :: "life \<Rightarrow> bool" where
  "life_inv L \<longleftrightarrow> ids_ok L \<and> attempts_ok L \<and> approvals_ok L \<and> holds_ok L"

subsection \<open>It is kept\<close>

lemma movesD:
  assumes "moves f st d"
  shows "act_id (f b) = act_id b" "act_org (f b) = act_org b" "act_approval_id (f b) = act_approval_id b"
    "act_content_digest (f b) = act_content_digest b" "act_state (f b) = st"
    "act_execute_attempts (f b) = act_execute_attempts b + d"
  using assms by (simp_all add: moves_def same_lineage_def)

lemma decidesD:
  assumes "decides g st"
  shows "ap_id (g q) = ap_id q" "ap_content_digest (g q) = ap_content_digest q" "ap_status (g q) = st"
  using assms by (simp_all add: decides_def)

lemma closesD:
  assumes "closes h"
  shows "rv_id (h r) = rv_id r" "rv_org (h r) = rv_org r" "rv_status (h r) \<noteq> ResActive"
  using assms by (simp_all add: closes_def)

lemma ids_of_close_linked: "closes h \<Longrightarrow> map rv_id (close_linked L a h) = map rv_id (lf_reservations L)"
  by (simp add: close_linked_def closesD)

lemma ids_ok_mono:
  assumes "ids_ok L" and "map (\<lambda>a. (act_id a, act_approval_id a)) (lf_actions L') =
      map (\<lambda>a. (act_id a, act_approval_id a)) (lf_actions L)"
    and "map ap_id (lf_approvals L') = map ap_id (lf_approvals L)"
    and "map rv_id (lf_reservations L') = map rv_id (lf_reservations L)"
    and "lf_links L' = lf_links L" and "lf_next L \<le> lf_next L'"
  shows "ids_ok L'"
proof -
  have "map act_id (lf_actions L') = map act_id (lf_actions L)"
    using arg_cong [OF assms(2), of "map fst"] by (simp add: comp_def)
  moreover have "x < lf_next L \<Longrightarrow> x < lf_next L'" for x using assms(6) by simp
  ultimately show ?thesis
    using assms(1) unfolding ids_ok_def assms(2-5)
    by (auto elim!: list.pred_mono_strong split: option.splits)
qed

lemma ids_ok_step: "life_step L L' \<Longrightarrow> ids_ok L \<Longrightarrow> ids_ok L'"
proof (induction rule: life_step.induct)
  case (create a L n aps rs)
  have le: "lf_next L \<le> n" using create.hyps(1) by auto
  then have "ids_ok (L\<lparr>lf_next := n\<rparr>)" using create.prems by (auto intro: ids_ok_mono)
  moreover have "list_all (\<lambda>k. lf_next L \<le> k \<and> k < n) (map rv_id rs)"
    using create.hyps(5) by (auto simp: list_all_iff)
  moreover have "list_all (\<lambda>k. lf_next L \<le> k \<and> k < n) (map ap_id aps)" "distinct (map ap_id aps)"
    using create.hyps(3) by (auto split: option.splits)
  moreover have "case act_approval_id a of None \<Rightarrow> True | Some j \<Rightarrow> j < n"
    using create.hyps(3) by (auto split: option.splits)
  moreover have "act_id a \<notin> act_id ` set (lf_actions L)"
    using create.prems create.hyps(1) by (auto simp: ids_ok_def list_all_iff)
  moreover have "ap_id ` set (lf_approvals L) \<inter> ap_id ` set aps = {}"
    using create.prems create.hyps(3) by (force simp: ids_ok_def list_all_iff split: option.splits)
  moreover have "rv_id ` set (lf_reservations L) \<inter> rv_id ` set rs = {}"
    using create.prems create.hyps(5) by (force simp: ids_ok_def list_all_iff)
  ultimately show ?case
    using create.hyps(1,4) by (simp add: ids_ok_def list_all_iff ball_Un split: option.splits)
next
  case (approve L n a p f g)
  then show ?case by (elim ids_ok_mono) (simp_all add: map_key_tupd movesD [of f Approved 0] decidesD [of g ApApproved])
next
  case (reject L n a p f g h)
  then have "ap_id (g q) = ap_id q" for q by (auto simp: decides_def)
  with reject show ?case
    by (elim ids_ok_mono) (simp_all add: map_key_tupd ids_of_close_linked movesD [of f Rejected 0])
next
  case (withdraw L n a f h)
  then show ?case
    by (elim ids_ok_mono) (simp_all add: map_key_tupd ids_of_close_linked movesD [of f Rejected 0])
next
  case (advance L n a st d f)
  then show ?case by (elim ids_ok_mono) (simp_all add: map_key_tupd movesD [of f st d])
next
  case (finish L n a st f h)
  then show ?case
    by (elim ids_ok_mono) (simp_all add: map_key_tupd ids_of_close_linked movesD [of f st 0])
qed (auto elim: ids_ok_mono)

lemma ids_ok_distinct:
  "ids_ok L \<Longrightarrow> distinct (map act_id (lf_actions L))" "ids_ok L \<Longrightarrow> distinct (map ap_id (lf_approvals L))"
  "ids_ok L \<Longrightarrow> distinct (map rv_id (lf_reservations L))"
  by (simp_all add: ids_ok_def)

lemma attempts_ok_tupd:
  assumes "attempts_ok L" and "ids_ok L" and "a \<in> set (lf_actions L)" and "moves f st d"
    and "act_execute_attempts a + d = (if st \<in> {Proposed, Approved, Rejected} then 0 else 1)"
    and "lf_actions L' = tupd act_id (act_id a) f (lf_actions L)"
  shows "attempts_ok L'"
proof -
  have "act_execute_attempts b = (if act_state b \<in> {Proposed, Approved, Rejected} then 0 else 1)"
    if "b \<in> set (lf_actions L')" for b
    using assms(1,4,5)
    by (rule_tac tupd_rowE [OF that [unfolded assms(6)] ids_ok_distinct(1) [OF assms(2)] assms(3)])
      (simp_all add: attempts_ok_def movesD [OF assms(4)])
  then show ?thesis by (simp add: attempts_ok_def)
qed

lemma pending_proposed:
  "approvals_ok L \<Longrightarrow> a \<in> set (lf_actions L) \<Longrightarrow> p \<in> set (lf_approvals L) \<Longrightarrow>
     act_approval_id a = Some (ap_id p) \<Longrightarrow> ap_status p = ApPending \<Longrightarrow> act_state a = Proposed"
  by (auto simp: approvals_ok_def)

lemma attemptsD:
  "attempts_ok L \<Longrightarrow> a \<in> set (lf_actions L) \<Longrightarrow>
     act_execute_attempts a = (if act_state a \<in> {Proposed, Approved, Rejected} then 0 else 1)"
  by (simp add: attempts_ok_def)

lemma attempts_ok_step:
  "life_step L L' \<Longrightarrow> attempts_ok L \<Longrightarrow> approvals_ok L \<Longrightarrow> ids_ok L \<Longrightarrow> attempts_ok L'"
proof (induction rule: life_step.induct)
  case (create a L n aps rs)
  then show ?case by (auto simp: attempts_ok_def split: option.splits)
next
  case (approve L n a p f g)
  from pending_proposed [OF approve.prems(2) approve.hyps(2-5)] attemptsD [OF approve.prems(1) approve.hyps(2)]
  show ?case by (intro attempts_ok_tupd [OF approve.prems(1,3) approve.hyps(2,7)]) simp_all
next
  case (reject L n a p f g h)
  from pending_proposed [OF reject.prems(2) reject.hyps(2-5)] attemptsD [OF reject.prems(1) reject.hyps(2)]
  show ?case by (intro attempts_ok_tupd [OF reject.prems(1,3) reject.hyps(2,6)]) simp_all
next
  case (withdraw L n a f h)
  from attemptsD [OF withdraw.prems(1) withdraw.hyps(2)] withdraw.hyps(3)
  show ?case by (intro attempts_ok_tupd [OF withdraw.prems(1,3) withdraw.hyps(2,4)]) simp_all
next
  case (advance L n a st d f)
  have "act_execute_attempts a + d = (if st \<in> {Proposed, Approved, Rejected} then 0 else 1)"
    using attemptsD [OF advance.prems(1) advance.hyps(2)] advance.hyps(3)
    by (cases "act_state a"; cases st) auto
  then show ?case by (intro attempts_ok_tupd [OF advance.prems(1,3) advance.hyps(2,4)]) simp_all
next
  case (finish L n a st f h)
  from attemptsD [OF finish.prems(1) finish.hyps(2)] finish.hyps(3,4)
  show ?case by (intro attempts_ok_tupd [OF finish.prems(1,3) finish.hyps(2,5)]) auto
qed (simp add: attempts_ok_def)

lemma approvals_okD:
  assumes "approvals_ok L" and "a \<in> set (lf_actions L)" and "act_approval_id a = Some k"
    and "act_state a \<notin> {Proposed, Rejected}"
  obtains p where "p \<in> set (lf_approvals L)" and "ap_id p = k" and "ap_status p = ApApproved"
    and "ap_content_digest p = act_content_digest a"
  using assms unfolding approvals_ok_def by blast

text \<open>Moving an action whose approval is decided, or that has none, to a later state.\<close>

lemma approvals_ok_move:
  assumes "approvals_ok L" and "ids_ok L" and "a \<in> set (lf_actions L)" and "moves f st d"
    and "act_state a \<notin> {Proposed, Rejected}" and "st \<noteq> Proposed"
    and "lf_actions L' = tupd act_id (act_id a) f (lf_actions L)" and "lf_approvals L' = lf_approvals L"
  shows "approvals_ok L'"
proof -
  have decided: "p \<in> set (lf_approvals L) \<Longrightarrow> act_approval_id a = Some (ap_id p) \<Longrightarrow> ap_status p \<noteq> ApPending" for p
    using assms(1,3,5) pending_proposed [of L a p] by auto
  have "(\<forall>p \<in> set (lf_approvals L). ap_id p = k \<and> ap_status p = ApPending \<longrightarrow> act_state b = Proposed) \<and>
     (act_state b \<notin> {Proposed, Rejected} \<longrightarrow>
       (\<exists>p \<in> set (lf_approvals L). ap_id p = k \<and> ap_status p = ApApproved \<and>
          ap_content_digest p = act_content_digest b))"
    if b: "b \<in> set (lf_actions L')" "act_approval_id b = Some k" for b k
  proof (rule tupd_rowE [OF b(1) [unfolded assms(7)] ids_ok_distinct(1) [OF assms(2)] assms(3)])
    assume "b = f a"
    then show ?thesis
      using b(2) decided approvals_okD [OF assms(1,3) _ assms(5), of k]
      by (auto simp: movesD [OF assms(4)])
  next
    assume "b \<in> set (lf_actions L)"
    then show ?thesis using assms(1) b(2) by (simp add: approvals_ok_def)
  qed
  then show ?thesis by (simp add: approvals_ok_def assms(8))
qed

text \<open>Deciding a pending approval together with its action.\<close>

lemma approvals_ok_decide:
  assumes ok: "approvals_ok L" and ids: "ids_ok L" and a: "a \<in> set (lf_actions L)" and p: "p \<in> set (lf_approvals L)"
    and ap: "act_approval_id a = Some (ap_id p)" and pending: "ap_status p = ApPending"
    and f: "moves f st 0" and g: "decides g out"
    and fit: "st = Rejected \<and> out \<noteq> ApPending \<or>
      st = Approved \<and> out = ApApproved \<and> ap_content_digest p = act_content_digest a"
    and L': "lf_actions L' = tupd act_id (act_id a) f (lf_actions L)"
      "lf_approvals L' = tupd ap_id (ap_id p) g (lf_approvals L)"
  shows "approvals_ok L'"
proof -
  have out: "out \<noteq> ApPending" using fit by auto
  have gp: "g p \<in> set (lf_approvals L')" using p tupd_memI [of p "lf_approvals L" ap_id "ap_id p" g] by (simp add: L')
  have rows: "q \<in> set (lf_approvals L') \<Longrightarrow> q = g p \<or> q \<in> set (lf_approvals L) \<and> ap_id q \<noteq> ap_id p" for q
    unfolding L' using tupd_rowE [OF _ ids_ok_distinct(2) [OF ids] p] by metis
  have keep: "q \<in> set (lf_approvals L')" if q: "q \<in> set (lf_approvals L)" "ap_status q = ApApproved" for q
  proof -
    have "ap_id q \<noteq> ap_id p"
      using distinct_key_eq [OF ids_ok_distinct(2) [OF ids] q(1) p] q(2) pending by auto
    then show ?thesis using tupd_memI [OF q(1), of ap_id "ap_id p" g] by (simp add: L')
  qed
  have "(\<forall>q \<in> set (lf_approvals L'). ap_id q = k \<and> ap_status q = ApPending \<longrightarrow> act_state b = Proposed) \<and>
     (act_state b \<notin> {Proposed, Rejected} \<longrightarrow>
       (\<exists>q \<in> set (lf_approvals L'). ap_id q = k \<and> ap_status q = ApApproved \<and>
          ap_content_digest q = act_content_digest b))"
    if b: "b \<in> set (lf_actions L')" "act_approval_id b = Some k" for b k
  proof (rule tupd_rowE [OF b(1) [unfolded L'(1)] ids_ok_distinct(1) [OF ids] a])
    assume "b = f a"
    with b(2) ap have k: "k = ap_id p" "act_state b = st" "act_content_digest b = act_content_digest a"
      by (simp_all add: movesD [OF f])
    have "q \<in> set (lf_approvals L') \<Longrightarrow> ap_id q = k \<Longrightarrow> ap_status q \<noteq> ApPending" for q
      using rows [of q] out k(1) by (auto simp: decidesD [OF g])
    then show ?thesis using fit gp k by (auto simp: decidesD [OF g] intro!: bexI [OF _ gp])
  next
    assume b': "b \<in> set (lf_actions L)"
    have "q \<in> set (lf_approvals L') \<Longrightarrow> ap_id q = k \<Longrightarrow> ap_status q = ApPending \<Longrightarrow> act_state b = Proposed" for q
      using rows [of q] out b' b(2) pending_proposed [OF ok b'] by (auto simp: decidesD [OF g])
    moreover have "act_state b \<notin> {Proposed, Rejected} \<Longrightarrow> \<exists>q \<in> set (lf_approvals L'). ap_id q = k \<and>
        ap_status q = ApApproved \<and> ap_content_digest q = act_content_digest b"
      using approvals_okD [OF ok b' b(2)] keep by metis
    ultimately show ?thesis by blast
  qed
  then show ?thesis by (simp add: approvals_ok_def)
qed

lemma approvals_ok_create:
  assumes "approvals_ok L" and "ids_ok L"
    and new: "case act_approval_id a of None \<Rightarrow> act_state a = Approved \<and> aps = []
      | Some k \<Rightarrow> act_state a = Proposed \<and> lf_next L \<le> k \<and> (\<exists>p. aps = [p] \<and> ap_id p = k)"
    and "lf_actions L' = lf_actions L @ [a]" and "lf_approvals L' = lf_approvals L @ aps"
  shows "approvals_ok L'"
proof -
  have old: "b \<in> set (lf_actions L) \<Longrightarrow> act_approval_id b = Some k \<Longrightarrow> k < lf_next L" for b k
    using assms(2) by (force simp: ids_ok_def list_all_iff)
  have "b \<in> set (lf_actions L) \<Longrightarrow> act_approval_id b = Some k \<Longrightarrow> p \<in> set aps \<Longrightarrow> ap_id p \<noteq> k" for b k p
    using old [of b k] new by (auto split: option.splits)
  then show ?thesis
    using assms(1) new unfolding approvals_ok_def assms(4,5) by (fastforce split: option.splits)
qed

lemma approvals_ok_step:
  assumes "life_step L L'" and "approvals_ok L" and "ids_ok L"
  shows "approvals_ok L'"
  using assms
proof (induction rule: life_step.induct)
  case (create a L n aps rs)
  then show ?case by (intro approvals_ok_create [OF create.prems]) (auto split: option.splits)
next
  case (approve L n a p f g)
  then show ?case by (intro approvals_ok_decide [OF approve.prems approve.hyps(2-5,7,8)]) auto
next
  case (reject L n a p f g h)
  then show ?case
    using approvals_ok_decide [OF reject.prems reject.hyps(2-6)] by (elim disjE) auto
next
  case (withdraw L n a f h)
  then show ?case by (intro approvals_ok_move [OF withdraw.prems withdraw.hyps(2,4)]) auto
next
  case (advance L n a st d f)
  have "act_state a \<notin> {Proposed, Rejected}" "st \<noteq> Proposed"
    using advance.hyps(3) by (cases "act_state a"; cases st; simp)+
  then show ?case by (intro approvals_ok_move [OF advance.prems advance.hyps(2,4)]) auto
next
  case (finish L n a st f h)
  then show ?case by (intro approvals_ok_move [OF finish.prems finish.hyps(2,5)]) auto
qed (simp add: approvals_ok_def)

lemma holds_okD:
  "holds_ok L \<Longrightarrow> a \<in> set (lf_actions L) \<Longrightarrow> r \<in> set (lf_reservations L) \<Longrightarrow> linked L a r \<Longrightarrow>
     rv_status r = ResActive \<longleftrightarrow> \<not> closed_state (act_state a)"
  by (simp add: holds_ok_def)

lemma linked_owner:
  "holds_ok L \<Longrightarrow> linked L a r \<Longrightarrow> linked L b r \<Longrightarrow> act_id a = act_id b"
  unfolding holds_ok_def linked_def owners_ok_def by metis

lemma linked_cong:
  assumes "lf_links L' = lf_links L" and "act_id a' = act_id a" and "act_org a' = act_org a"
    and "rv_id r' = rv_id r" and "rv_org r' = rv_org r"
  shows "linked L' a' r' = linked L a r"
  using assms by (simp add: linked_def)

lemma holds_ok_move:
  assumes ok: "holds_ok L" and ids: "ids_ok L" and a: "a \<in> set (lf_actions L)" and f: "moves f st d"
    and same: "closed_state st = closed_state (act_state a)"
    and L': "lf_actions L' = tupd act_id (act_id a) f (lf_actions L)"
      "lf_reservations L' = lf_reservations L" "lf_links L' = lf_links L"
  shows "holds_ok L'"
proof -
  have "rv_status r = ResActive \<longleftrightarrow> \<not> closed_state (act_state b)"
    if b: "b \<in> set (lf_actions L')" and r: "r \<in> set (lf_reservations L)" "linked L' b r" for b r
  proof (rule tupd_rowE [OF b [unfolded L'(1)] ids_ok_distinct(1) [OF ids] a])
    assume "b = f a"
    then show ?thesis
      using holds_okD [OF ok a r(1)] r(2) same linked_cong [OF L'(3), of "f a" a r r]
      by (simp add: movesD [OF f])
  next
    assume "b \<in> set (lf_actions L)"
    then show ?thesis using holds_okD [OF ok _ r(1)] r(2) linked_cong [OF L'(3)] by simp
  qed
  then show ?thesis using ok by (simp add: holds_ok_def L')
qed

lemma holds_ok_close:
  assumes ok: "holds_ok L" and ids: "ids_ok L" and a: "a \<in> set (lf_actions L)" and f: "moves f st d"
    and st: "closed_state st" and h: "closes h"
    and L': "lf_actions L' = tupd act_id (act_id a) f (lf_actions L)"
      "lf_reservations L' = close_linked L a h" "lf_links L' = lf_links L"
  shows "holds_ok L'"
proof -
  have "rv_status r = ResActive \<longleftrightarrow> \<not> closed_state (act_state b)"
    if b: "b \<in> set (lf_actions L')" and r: "r \<in> set (lf_reservations L')" "linked L' b r" for b r
  proof -
    from r(1) obtain q where q: "q \<in> set (lf_reservations L)"
      "r = (if linked L a q \<and> rv_status q = ResActive then h q else q)"
      by (auto simp: L' close_linked_def)
    have qr: "rv_id r = rv_id q" "rv_org r = rv_org q" using closesD [OF h] by (simp_all add: q(2))
    show ?thesis
    proof (rule tupd_rowE [OF b [unfolded L'(1)] ids_ok_distinct(1) [OF ids] a])
      assume "b = f a"
      then have "linked L a q" "closed_state (act_state b)"
        using r(2) st linked_cong [OF L'(3), of b a r q] by (simp_all add: movesD [OF f] qr)
      then show ?thesis using closesD(3) [OF h] by (simp add: q(2))
    next
      assume b': "b \<in> set (lf_actions L)" "act_id b \<noteq> act_id a"
      then have lq: "linked L b q" using r(2) linked_cong [OF L'(3), of b b r q] by (simp add: qr)
      then have "r = q" using linked_owner [OF ok, of a q b] b'(2) by (auto simp: q(2))
      then show ?thesis using holds_okD [OF ok b'(1) q(1) lq] by simp
    qed
  qed
  then show ?thesis using ok by (simp add: holds_ok_def L')
qed

lemma holds_ok_create:
  assumes ok: "holds_ok L" and ids: "ids_ok L" and "lf_next L \<le> act_id a" and "\<not> closed_state (act_state a)"
    and rs: "\<forall>r \<in> set rs. lf_next L \<le> rv_id r \<and> rv_status r = ResActive"
    and L': "lf_actions L' = lf_actions L @ [a]" "lf_reservations L' = lf_reservations L @ rs"
      "lf_links L' = lf_links L @
       map (\<lambda>r. \<lparr>ar_org = act_org a, ar_action_id = act_id a, ar_reservation_id = rv_id r\<rparr>) rs"
  shows "holds_ok L'"
proof -
  have fresh: "l \<in> set (lf_links L) \<Longrightarrow> ar_action_id l < lf_next L \<and> ar_reservation_id l < lf_next L"
    "r \<in> set (lf_reservations L) \<Longrightarrow> rv_id r < lf_next L"
    "b \<in> set (lf_actions L) \<Longrightarrow> act_id b < lf_next L" for l r b
    using ids by (auto simp: ids_ok_def list_all_iff)
  have "owners_ok (lf_links L')"
    unfolding owners_ok_def
  proof (intro ballI impI)
    fix l k assume lk: "l \<in> set (lf_links L')" "k \<in> set (lf_links L')" "ar_reservation_id l = ar_reservation_id k"
    have new: "x \<in> set (lf_links L') \<Longrightarrow> x \<in> set (lf_links L) \<or> ar_action_id x = act_id a \<and> lf_next L \<le> ar_reservation_id x" for x
      using rs by (auto simp: L')
    show "ar_action_id l = ar_action_id k"
    proof (cases "l \<in> set (lf_links L)")
      case True
      then have "k \<in> set (lf_links L)" using new [OF lk(2)] lk(3) fresh(1) [of l] by auto
      then show ?thesis using True lk(3) ok unfolding holds_ok_def owners_ok_def by blast
    next
      case False
      then have "k \<notin> set (lf_links L)" using new [OF lk(1)] lk(3) fresh(1) [of k] by auto
      then show ?thesis using False new [OF lk(1)] new [OF lk(2)] by simp
    qed
  qed
  moreover have "rv_status r = ResActive \<longleftrightarrow> \<not> closed_state (act_state b)"
    if br: "b \<in> set (lf_actions L')" "r \<in> set (lf_reservations L')" "linked L' b r" for b r
  proof (cases "r \<in> set rs")
    case True
    then have "act_id b = act_id a"
      using br(3) rs fresh(1) by (force simp: linked_def L')
    then have "b = a" using br(1) fresh(3) [of b] assms(3) by (auto simp: L')
    then show ?thesis using True rs assms(4) by simp
  next
    case False
    then have r: "r \<in> set (lf_reservations L)" using br(2) by (simp add: L')
    have "linked L b r" using br(3) fresh(2) [OF r] rs by (force simp: linked_def L')
    moreover have "b \<in> set (lf_actions L)"
      using br(1) calculation fresh(1) assms(3) by (force simp: linked_def L')
    ultimately show ?thesis using holds_okD [OF ok _ r] by simp
  qed
  ultimately show ?thesis unfolding holds_ok_def by blast
qed

lemma holds_ok_step:
  assumes "life_step L L'" and "holds_ok L" and "ids_ok L" and "approvals_ok L"
  shows "holds_ok L'"
  using assms
proof (induction rule: life_step.induct)
  case (create a L n aps rs)
  then show ?case
    by (intro holds_ok_create [OF create.prems(1,2)]) (auto simp: closed_state_def split: option.splits)
next
  case (approve L n a p f g)
  then show ?case
    using pending_proposed [OF approve.prems(3) approve.hyps(2-5)]
    by (intro holds_ok_move [OF approve.prems(1,2) approve.hyps(2,7)]) (auto simp: closed_state_def)
next
  case (reject L n a p f g h)
  then show ?case by (intro holds_ok_close [OF reject.prems(1,2) reject.hyps(2,6)]) (auto simp: closed_state_def)
next
  case (withdraw L n a f h)
  then show ?case by (intro holds_ok_close [OF withdraw.prems(1,2) withdraw.hyps(2,4)]) (auto simp: closed_state_def)
next
  case (advance L n a st d f)
  have "closed_state st = closed_state (act_state a)"
    using advance.hyps(3) by (cases "act_state a"; cases st; simp add: closed_state_def)
  then show ?case by (intro holds_ok_move [OF advance.prems(1,2) advance.hyps(2,4)]) auto
next
  case (finish L n a st f h)
  then show ?case by (intro holds_ok_close [OF finish.prems(1,2) finish.hyps(2,5)]) (auto simp: closed_state_def)
qed (simp add: holds_ok_def linked_def)

lemma life_inv_step: "life_step L L' \<Longrightarrow> life_inv L \<Longrightarrow> life_inv L'"
  unfolding life_inv_def
  by (blast intro: ids_ok_step attempts_ok_step approvals_ok_step holds_ok_step)

interpretation life: step_invariant life_step life_inv
  by unfold_locales (rule life_inv_step)

subsection \<open>What no step undoes\<close>

text \<open>
  Actions are never deleted and keep their lineage; execute attempts never go down; a closed
  action is never written again.
\<close>

definition progress :: "life \<Rightarrow> life \<Rightarrow> bool" where
  "progress L L' \<longleftrightarrow> (\<forall>a \<in> set (lf_actions L). \<exists>b \<in> set (lf_actions L'). same_lineage a b \<and>
     act_execute_attempts a \<le> act_execute_attempts b \<and> (closed_state (act_state a) \<longrightarrow> b = a))"

definition origin :: "life \<Rightarrow> life \<Rightarrow> bool" where
  "origin L L' \<longleftrightarrow> lf_next L \<le> lf_next L' \<and> (\<forall>b \<in> set (lf_actions L').
     (\<exists>a \<in> set (lf_actions L). act_id a = act_id b \<and> act_org a = act_org b) \<or> lf_next L \<le> act_id b)"

lemma progress_tupd:
  assumes "ids_ok L" and "a \<in> set (lf_actions L)" and "moves f st d" and "0 \<le> d" and "\<not> closed_state (act_state a)"
    and "lf_actions L' = tupd act_id (act_id a) f (lf_actions L)"
  shows "progress L L'"
  unfolding progress_def
proof
  fix b assume b: "b \<in> set (lf_actions L)"
  show "\<exists>c \<in> set (lf_actions L'). same_lineage b c \<and> act_execute_attempts b \<le> act_execute_attempts c \<and>
      (closed_state (act_state b) \<longrightarrow> c = b)"
  proof (cases "act_id b = act_id a")
    case True
    then have "b = a" using distinct_key_eq [OF ids_ok_distinct(1) [OF assms(1)] b assms(2)] by simp
    moreover have "same_lineage a (f a)" using assms(3) by (simp add: moves_def)
    ultimately show ?thesis
      using tupd_memI [OF b, of act_id "act_id a" f] True assms(4,5) movesD(6) [OF assms(3), of a]
      by (intro bexI [of _ "f a"]) (auto simp: assms(6))
  next
    case False
    then show ?thesis
      using tupd_memI [OF b, of act_id "act_id a" f] by (intro bexI [of _ b]) (auto simp: assms(6) same_lineage_def)
  qed
qed

lemma progress_step:
  assumes "life_step L L'" and "life_inv L"
  shows "progress L L'"
  using assms
proof (induction rule: life_step.induct)
  case (approve L n a p f g)
  then show ?case
    using pending_proposed [of L a p]
    by (intro progress_tupd [of L a f Approved 0]) (auto simp: life_inv_def closed_state_def)
next
  case (reject L n a p f g h)
  then show ?case
    using pending_proposed [of L a p]
    by (intro progress_tupd [of L a f Rejected 0]) (auto simp: life_inv_def closed_state_def)
next
  case (withdraw L n a f h)
  then show ?case by (intro progress_tupd [of L a f Rejected 0]) (auto simp: life_inv_def closed_state_def)
next
  case (advance L n a st d f)
  have "0 \<le> d" "\<not> closed_state (act_state a)"
    using advance.hyps(3) by (cases "act_state a"; cases st; simp add: closed_state_def)+
  with advance show ?case by (intro progress_tupd [of L a f st d]) (auto simp: life_inv_def)
next
  case (finish L n a st f h)
  then show ?case by (intro progress_tupd [of L a f st 0]) (auto simp: life_inv_def closed_state_def)
qed (auto simp: progress_def same_lineage_def)

lemma origin_step: "life_step L L' \<Longrightarrow> origin L L'"
proof (induction rule: life_step.induct)
  case (create a L n aps rs)
  then show ?case by (auto simp: origin_def)
next
  case (approve L n a p f g)
  then show ?case by (auto simp: origin_def movesD dest!: set_tupd)
next
  case (reject L n a p f g h)
  then show ?case by (auto simp: origin_def movesD dest!: set_tupd)
next
  case (withdraw L n a f h)
  then show ?case by (auto simp: origin_def movesD dest!: set_tupd)
next
  case (advance L n a st d f)
  then show ?case by (auto simp: origin_def movesD dest!: set_tupd)
next
  case (finish L n a st f h)
  then show ?case by (auto simp: origin_def movesD dest!: set_tupd)
qed (auto simp: origin_def)

lemma same_lineage_trans: "same_lineage a b \<Longrightarrow> same_lineage b c \<Longrightarrow> same_lineage a c"
  by (simp add: same_lineage_def)

lemma progress_trans:
  assumes "progress L M" and "progress M N"
  shows "progress L N"
  unfolding progress_def
proof
  fix a assume "a \<in> set (lf_actions L)"
  then obtain b where b: "b \<in> set (lf_actions M)" "same_lineage a b"
    "act_execute_attempts a \<le> act_execute_attempts b" "closed_state (act_state a) \<longrightarrow> b = a"
    using assms(1) unfolding progress_def by blast
  then obtain c where "c \<in> set (lf_actions N)" "same_lineage b c"
    "act_execute_attempts b \<le> act_execute_attempts c" "closed_state (act_state b) \<longrightarrow> c = b"
    using assms(2) unfolding progress_def by blast
  with b same_lineage_trans [of a b c]
  show "\<exists>c \<in> set (lf_actions N). same_lineage a c \<and> act_execute_attempts a \<le> act_execute_attempts c \<and>
      (closed_state (act_state a) \<longrightarrow> c = a)"
    by (intro bexI [of _ c]) auto
qed

lemma origin_trans: "origin L M \<Longrightarrow> origin M N \<Longrightarrow> origin L N"
  unfolding origin_def by (metis order.trans)

interpretation progress: step_order life_step life_inv progress
  by unfold_locales (auto simp: progress_def [of s s for s] same_lineage_def intro: progress_trans progress_step)

interpretation origin: step_order life_step life_inv origin
  by unfold_locales (auto simp: origin_def [of s s for s] intro: origin_trans origin_step)

text \<open>Approvals are never deleted, and a decided approval is never written again.\<close>

definition decided :: "life \<Rightarrow> life \<Rightarrow> bool" where
  "decided L L' \<longleftrightarrow> (\<forall>p \<in> set (lf_approvals L). \<exists>q \<in> set (lf_approvals L'). ap_id q = ap_id p \<and>
     ap_content_digest q = ap_content_digest p \<and> (ap_status p \<noteq> ApPending \<longrightarrow> q = p))"

lemma decided_tupd:
  assumes "ids_ok L" and "p \<in> set (lf_approvals L)" and "ap_status p = ApPending" and "decides g st"
    and "lf_approvals L' = tupd ap_id (ap_id p) g (lf_approvals L)"
  shows "decided L L'"
  unfolding decided_def
proof
  fix b assume b: "b \<in> set (lf_approvals L)"
  have "ap_id b = ap_id p \<Longrightarrow> b = p" using distinct_key_eq [OF ids_ok_distinct(2) [OF assms(1)] b assms(2)] by simp
  with tupd_memI [OF b, of ap_id "ap_id p" g] assms(3)
  show "\<exists>q \<in> set (lf_approvals L'). ap_id q = ap_id b \<and> ap_content_digest q = ap_content_digest b \<and>
      (ap_status b \<noteq> ApPending \<longrightarrow> q = b)"
    by (intro bexI [of _ "if ap_id b = ap_id p then g b else b"]) (auto simp: assms(5) decidesD [OF assms(4)])
qed

lemma decided_step: "life_step L L' \<Longrightarrow> life_inv L \<Longrightarrow> decided L L'"
proof (induction rule: life_step.induct)
  case (approve L n a p f g)
  then show ?case by (intro decided_tupd [of L p g ApApproved]) (auto simp: life_inv_def)
next
  case (reject L n a p f g h)
  then show ?case
    using decided_tupd [of L p g ApDenied] decided_tupd [of L p g ApExpired] by (auto simp: life_inv_def)
qed (auto simp: decided_def)

lemma decided_trans:
  assumes "decided L M" and "decided M N"
  shows "decided L N"
  unfolding decided_def
proof
  fix p assume "p \<in> set (lf_approvals L)"
  then obtain q where q: "q \<in> set (lf_approvals M)" "ap_id q = ap_id p" "ap_content_digest q = ap_content_digest p"
    "ap_status p \<noteq> ApPending \<longrightarrow> q = p" using assms(1) unfolding decided_def by blast
  then obtain r where "r \<in> set (lf_approvals N)" "ap_id r = ap_id q" "ap_content_digest r = ap_content_digest q"
    "ap_status q \<noteq> ApPending \<longrightarrow> r = q" using assms(2) unfolding decided_def by blast
  with q show "\<exists>q \<in> set (lf_approvals N). ap_id q = ap_id p \<and> ap_content_digest q = ap_content_digest p \<and>
      (ap_status p \<noteq> ApPending \<longrightarrow> q = p)" by (intro bexI [of _ r]) auto
qed

interpretation decided: step_order life_step life_inv decided
  by unfold_locales (auto simp: decided_def [of s s for s] intro: decided_trans decided_step)

end
