(* ===== verification/RS_System.thy ===== *)
theory RS_System
  imports RS_Action_Worker RS_Lifecycle
begin

section \<open>The services follow the lifecycle\<close>

text \<open>
  Each service of the control plane and of the worker, run on a session that can read the
  organization it acts for, is one or more steps of the abstract lifecycle, and keeps the budgets
  and the audit chain consistent.
\<close>

subsection \<open>The abstract state of a database\<close>

definition life_of :: "db \<Rightarrow> life" where
  "life_of s = \<lparr>lf_next = next_uuid s, lf_actions = actions s, lf_approvals = approvals s,
     lf_reservations = reservations s, lf_links = action_reservations s\<rparr>"

lemma life_of_simps [simp]:
  "lf_next (life_of s) = next_uuid s" "lf_actions (life_of s) = actions s"
  "lf_approvals (life_of s) = approvals s" "lf_reservations (life_of s) = reservations s"
  "lf_links (life_of s) = action_reservations s"
  by (simp_all add: life_of_def)

lemma life_eqI:
  assumes "lf_next L = next_uuid s" and "lf_actions L = actions s" and "lf_approvals L = approvals s"
    and "lf_reservations L = reservations s" and "lf_links L = action_reservations s"
  shows "life_of s = L"
  using assms by (simp add: life_of_def)

lemma life_idleI:
  assumes "next_uuid s \<le> next_uuid s'" and "actions s' = actions s" and "approvals s' = approvals s"
    and "reservations s' = reservations s" and "action_reservations s' = action_reservations s"
  shows "life_step (life_of s) (life_of s')"
proof -
  have eq: "life_of s' = (life_of s)\<lparr>lf_next := next_uuid s'\<rparr>" using assms by (intro life_eqI) simp_all
  show ?thesis unfolding eq by (rule life_step.idle) (use assms in simp)
qed

lemma life_approveI:
  assumes "next_uuid s \<le> next_uuid s'" and "a \<in> set (actions s)" and "p \<in> set (approvals s)"
    and "act_approval_id a = Some (ap_id p)" and "ap_status p = ApPending"
    and "ap_content_digest p = act_content_digest a" and "moves f Approved 0" and "decides g ApApproved"
    and "actions s' = tupd act_id (act_id a) f (actions s)"
    and "approvals s' = tupd ap_id (ap_id p) g (approvals s)"
    and "reservations s' = reservations s" and "action_reservations s' = action_reservations s"
  shows "life_step (life_of s) (life_of s')"
proof -
  have eq: "life_of s' = (life_of s)\<lparr>lf_next := next_uuid s',
      lf_actions := tupd act_id (act_id a) f (lf_actions (life_of s)),
      lf_approvals := tupd ap_id (ap_id p) g (lf_approvals (life_of s))\<rparr>"
    using assms by (intro life_eqI) simp_all
  show ?thesis unfolding eq by (rule life_step.approve) (use assms in simp_all)
qed

lemma life_rejectI:
  assumes "next_uuid s \<le> next_uuid s'" and "a \<in> set (actions s)" and "p \<in> set (approvals s)"
    and "act_approval_id a = Some (ap_id p)" and "ap_status p = ApPending"
    and "moves f Rejected 0" and "decides g ApDenied \<or> decides g ApExpired" and "closes h"
    and "actions s' = tupd act_id (act_id a) f (actions s)"
    and "approvals s' = tupd ap_id (ap_id p) g (approvals s)"
    and "reservations s' = close_linked (life_of s) a h" and "action_reservations s' = action_reservations s"
  shows "life_step (life_of s) (life_of s')"
proof -
  have eq: "life_of s' = (life_of s)\<lparr>lf_next := next_uuid s',
      lf_actions := tupd act_id (act_id a) f (lf_actions (life_of s)),
      lf_approvals := tupd ap_id (ap_id p) g (lf_approvals (life_of s)),
      lf_reservations := close_linked (life_of s) a h\<rparr>"
    using assms by (intro life_eqI) simp_all
  show ?thesis unfolding eq by (rule life_step.reject) (use assms in simp_all)
qed

lemma life_withdrawI:
  assumes "next_uuid s \<le> next_uuid s'" and "a \<in> set (actions s)" and "act_state a = Approved"
    and "moves f Rejected 0" and "closes h"
    and "actions s' = tupd act_id (act_id a) f (actions s)" and "approvals s' = approvals s"
    and "reservations s' = close_linked (life_of s) a h" and "action_reservations s' = action_reservations s"
  shows "life_step (life_of s) (life_of s')"
proof -
  have eq: "life_of s' = (life_of s)\<lparr>lf_next := next_uuid s',
      lf_actions := tupd act_id (act_id a) f (lf_actions (life_of s)),
      lf_reservations := close_linked (life_of s) a h\<rparr>"
    using assms by (intro life_eqI) simp_all
  show ?thesis unfolding eq by (rule life_step.withdraw) (use assms in simp_all)
qed

lemma life_advanceI:
  assumes "next_uuid s \<le> next_uuid s'" and "a \<in> set (actions s)"
    and "advance_edge (act_state a) st = Some d" and "moves f st d"
    and "actions s' = tupd act_id (act_id a) f (actions s)" and "approvals s' = approvals s"
    and "reservations s' = reservations s" and "action_reservations s' = action_reservations s"
  shows "life_step (life_of s) (life_of s')"
proof -
  have eq: "life_of s' = (life_of s)\<lparr>lf_next := next_uuid s',
      lf_actions := tupd act_id (act_id a) f (lf_actions (life_of s))\<rparr>"
    using assms by (intro life_eqI) simp_all
  show ?thesis unfolding eq by (rule life_step.advance) (use assms in simp_all)
qed

lemma life_finishI:
  assumes "next_uuid s \<le> next_uuid s'" and "a \<in> set (actions s)" and "act_state a \<in> {Executing, Reconciling}"
    and "st \<in> {ActCommitted, ActFailed}" and "moves f st 0" and "closes h"
    and "actions s' = tupd act_id (act_id a) f (actions s)" and "approvals s' = approvals s"
    and "reservations s' = close_linked (life_of s) a h" and "action_reservations s' = action_reservations s"
  shows "life_step (life_of s) (life_of s')"
proof -
  have eq: "life_of s' = (life_of s)\<lparr>lf_next := next_uuid s',
      lf_actions := tupd act_id (act_id a) f (lf_actions (life_of s)),
      lf_reservations := close_linked (life_of s) a h\<rparr>"
    using assms by (intro life_eqI) simp_all
  show ?thesis unfolding eq by (rule life_step.finish) (use assms in simp_all)
qed

subsection \<open>Closing an action's reservations\<close>

lemma linked_reservations:
  assumes "rls s (act_org a)"
  shows "r \<in> set (reservations_of_action s (act_org a) (act_id a)) \<longleftrightarrow>
    r \<in> set (reservations s) \<and> linked (life_of s) a r"
  using assms by (auto simp: reservations_of_action_def linked_def list_ex_iff)

lemma close_all_linked:
  assumes "budgets_ok s" and "rls s (act_org a)"
  shows "reservations (close_all t c [] (reservations_of_action s (act_org a) (act_id a)) s) =
    close_linked (life_of s) a (closing t c [])"
proof -
  have d: "distinct (map rv_id (reservations s))" using assms(1) by (simp add: budgets_ok_def budgets_wf_def)
  note props = reservations_of_action_props [OF d]
  show ?thesis
    unfolding close_all_reservations [OF d props(1,2)] close_linked_def life_of_simps
    using linked_reservations [OF assms(2)] by (intro map_cong) auto
qed

lemma closes_closing [simp]: "closes (closing t c u)"
  by (simp add: closes_def)

lemma close_linked_cong:
  "action_reservations s' = action_reservations s \<Longrightarrow> reservations s' = reservations s \<Longrightarrow>
     close_linked (life_of s') = close_linked (life_of s)"
  by (intro ext) (simp add: close_linked_def linked_def)

lemma close_linked_row:
  "act_id b = act_id a \<Longrightarrow> act_org b = act_org a \<Longrightarrow> close_linked L b = close_linked L a"
  by (intro ext) (simp add: close_linked_def linked_def)

text \<open>
  Releasing or settling an action's reservations in a state that differs from \<open>s\<close> only
  outside the ledger.
\<close>

lemma release_step:
  assumes "release_action_reservations (act_org a) (act_id a) t s1 = Inr (rs, s2)"
    and "budgets_ok s" and "rls s (act_org a)" and "tenant s1 = tenant s"
    and "budgets s1 = budgets s" and "reservations s1 = reservations s" and "next_uuid s \<le> next_uuid s1"
    and "action_reservations s1 = action_reservations s"
  shows "\<exists>qs. s2 = close_all t False [] qs s1 \<and> budgets_ok s2 \<and>
    reservations s2 = close_linked (life_of s) a (closing t False [])"
proof -
  have ok: "budgets_ok s1" by (rule budgets_ok_mono [OF assms(2,5-7)])
  have "rls s1 (act_org a)" using assms(3,4) by (simp add: rls_def)
  from close_all_linked [OF ok this] release_result [OF ok assms(1)] close_linked_cong [OF assms(8,6)]
  show ?thesis by auto
qed

lemma settle_step:
  assumes "settle_action_reservations (act_org a) (act_id a) t committed [] s1 = Inr (rs, s2)"
    and "budgets_ok s" and "rls s (act_org a)" and "tenant s1 = tenant s"
    and "budgets s1 = budgets s" and "reservations s1 = reservations s" and "next_uuid s \<le> next_uuid s1"
    and "action_reservations s1 = action_reservations s"
  shows "\<exists>qs. s2 = close_all t committed [] qs s1 \<and> budgets_ok s2 \<and>
    reservations s2 = close_linked (life_of s) a (closing t committed [])"
proof -
  have ok: "budgets_ok s1" by (rule budgets_ok_mono [OF assms(2,5-7)])
  have "rls s1 (act_org a)" using assms(3,4) by (simp add: rls_def)
  from close_all_linked [OF ok this] settle_result [OF ok assms(1)] close_linked_cong [OF assms(8,6)]
  show ?thesis by auto
qed

subsection \<open>The invariant of the system and the contract of a service\<close>

text \<open>A tool call names an action of its own organization, run and content, and no other call names it.\<close>

definition calls_of :: "db \<Rightarrow> (uuid \<times> uuid \<times> uuid \<times> digest) list" where
  "calls_of s = map (\<lambda>c. (tc_org c, tc_action_id c, tc_child_run_id c, tc_action_content_digest c)) (tool_calls s)"

definition calls_ok :: "db \<Rightarrow> bool" where
  "calls_ok s \<longleftrightarrow> distinct (map (fst \<circ> snd) (calls_of s)) \<and>
     (\<forall>(org, k, run, dig) \<in> set (calls_of s). \<exists>a \<in> set (actions s).
        act_id a = k \<and> act_org a = org \<and> act_run_id a = run \<and> act_content_digest a = dig)"

definition sys_ok :: "env \<Rightarrow> db \<Rightarrow> bool" where
  "sys_ok v s \<longleftrightarrow> life_inv (life_of s) \<and> budgets_ok s \<and> audit_ok v s \<and> calls_ok s"

lemma calls_of_upd_tool_call [simp]:
  "(\<And>c. tc_org (f c) = tc_org c) \<Longrightarrow> (\<And>c. tc_action_id (f c) = tc_action_id c) \<Longrightarrow>
     (\<And>c. tc_child_run_id (f c) = tc_child_run_id c) \<Longrightarrow>
     (\<And>c. tc_action_content_digest (f c) = tc_action_content_digest c) \<Longrightarrow>
     calls_of (upd_tool_call k f s) = calls_of s"
  by (simp add: calls_of_def upd_tool_call_def map_key_tupd)

lemma calls_of_cong: "tool_calls s' = tool_calls s \<Longrightarrow> calls_of s' = calls_of s"
  by (simp add: calls_of_def)

lemma calls_of_frame [simp]:
  "calls_of (upd_action k fa s) = calls_of s" "calls_of (upd_run k fr s) = calls_of s"
  "calls_of (upd_approval k fp s) = calls_of s" "calls_of (upd_intent k fi s) = calls_of s"
  "calls_of (upd_outbox k fo s) = calls_of s" "calls_of (upd_dead_letter k fd s) = calls_of s"
  "calls_of (upd_wait k fw s) = calls_of s" "calls_of (upd_execution k fe s) = calls_of s"
  "calls_of (upd_subworkflow_call k fs s) = calls_of s"
  "calls_of (add_outbox org topic at agg key pl av s) = calls_of s" "calls_of (flush s) = calls_of s"
  "calls_of (trace_event v org run node et st att s) = calls_of s"
  "calls_of (audit v org actor et sty su cd md s) = calls_of s"
  "calls_of (close_all t c u rs s) = calls_of s"
  "calls_of (resume_workflow c' st re t s) = calls_of s"
  "calls_of (mark_processed ev t s) = calls_of s"
  by (simp_all add: calls_of_def resume_workflow_def mark_processed_def split: option.split)

lemma calls_of_tool_calls [simp]:
  "calls_of (settle_workflow_tool_call v c a t s) = calls_of s"
  "calls_of (reject_workflow_tool_call v c t code s) = calls_of s"
  by (simp_all add: settle_workflow_tool_call_def reject_workflow_tool_call_def Let_def
      split: option.split action_state.split)

lemma calls_ok_steps:
  assumes "calls_ok s" and "life_step\<^sup>*\<^sup>* (life_of s) (life_of s')" and "life_inv (life_of s)"
    and "calls_of s' = calls_of s"
  shows "calls_ok s'"
proof -
  have "progress (life_of s) (life_of s')" by (rule progress.steps_rel [OF assms(2,3)])
  then have "\<And>a. a \<in> set (actions s) \<Longrightarrow> \<exists>b \<in> set (actions s'). same_lineage a b" by (auto simp: progress_def)
  then show ?thesis
    using assms(1) unfolding calls_ok_def assms(4) same_lineage_def by fastforce
qed

lemma life_of_flush: "life_of (flush s) = life_of s"
  by (simp add: life_of_def)

lemma sys_ok_flush: "sys_ok v (flush s) \<longleftrightarrow> sys_ok v s"
  by (simp add: sys_ok_def life_of_flush calls_ok_def budgets_ok_def budgets_wf_def within_limits_def
      audit_ok_cong [of "flush s" s])

text \<open>The contract of a service, and the stronger one of a service that requests no tool call.\<close>

locale service =
  fixes v :: env and allowed :: "db \<Rightarrow> bool" and op :: "db \<Rightarrow> rs_error + 'a \<times> db"
  assumes keeps: "sys_ok v s \<Longrightarrow> allowed s \<Longrightarrow> op s = Inr (x, s') \<Longrightarrow>
    sys_ok v s' \<and> life_step\<^sup>*\<^sup>* (life_of s) (life_of s')"
begin

lemma transaction_follows:
  assumes "sys_ok v s" and "allowed s"
  shows "sys_ok v (snd (transaction op s)) \<and> life_step\<^sup>*\<^sup>* (life_of s) (life_of (snd (transaction op s)))"
proof (cases "op s")
  case (Inr y)
  obtain x s' where y: "y = (x, s')" by (cases y)
  have "op s = Inr (x, s')" using Inr y by simp
  with keeps [OF assms] show ?thesis by (auto simp: transaction_def y sys_ok_flush life_of_flush)
qed (simp add: transaction_def assms)

end

locale action_service =
  fixes v :: env and allowed :: "db \<Rightarrow> bool" and op :: "db \<Rightarrow> rs_error + 'a \<times> db"
  assumes follows: "sys_ok v s \<Longrightarrow> allowed s \<Longrightarrow> op s = Inr (x, s') \<Longrightarrow>
    life_step\<^sup>*\<^sup>* (life_of s) (life_of s') \<and> budgets_ok s' \<and> audit_ok v s' \<and> calls_of s' = calls_of s"

sublocale action_service \<subseteq> service v allowed op
proof
  fix s x s'
  assume s: "sys_ok v s" "allowed s" "op s = Inr (x, s')"
  note f = follows [OF s]
  with life.steps_inv [of "life_of s" "life_of s'"] calls_ok_steps [of s s'] s(1)
  show "sys_ok v s' \<and> life_step\<^sup>*\<^sup>* (life_of s) (life_of s')" by (simp add: sys_ok_def)
qed

subsection \<open>Deciding an approval\<close>

lemma audits_reject_workflow_tool_call [simp]:
  "audits (reject_workflow_tool_call v c t code s) = audits s"
  by (simp add: reject_workflow_tool_call_def Let_def resume_workflow_def mark_processed_def split: option.split)

lemma rls_cong: "tenant s' = tenant s \<Longrightarrow> rls s' = rls s"
  by (intro ext) (simp add: rls_def)

lemma audit_ok_through:
  assumes "audit_ok v s" and "audits s1 = audits s" and "tenant s1 = tenant s" and "rls s org"
  shows "audit_ok v (audit v org actor et sty su cd md s1)"
  using assms by (intro audit_ok_audit) (simp_all add: audit_ok_cong [of s1 s] rls_cong [of s1 s])

lemma deny_action_effect:
  assumes "deny_action v c ap a i r call s = Inr s'" and "budgets_ok s" and "rls s (act_org a)"
    and "actor_org c = act_org a"
  shows "actions s' = tupd act_id (act_id a) (\<lambda>a. a\<lparr>act_state := Rejected, act_version := act_version a + 1,
      act_updated_at := now s\<rparr>) (actions s) \<and>
    approvals s' = tupd ap_id ap (\<lambda>p. p\<lparr>ap_status := ApDenied\<rparr>) (approvals s) \<and>
    reservations s' = close_linked (life_of s) a (closing (now s) False []) \<and>
    action_reservations s' = action_reservations s \<and> budgets_ok s' \<and> next_uuid s \<le> next_uuid s' \<and>
    audits s' = audits s \<and> tenant s' = tenant s \<and> calls_of s' = calls_of s"
proof -
  let ?s1 = "upd_run (run_id r) (\<lambda>r. r\<lparr>run_status := RunCancelled, run_completed_at := Some (now s),
      run_active_node := None\<rparr>) (upd_intent (int_id i) (\<lambda>i. i\<lparr>int_status := ''denied''\<rparr>)
      (upd_action (act_id a) (\<lambda>a. a\<lparr>act_state := Rejected, act_version := act_version a + 1\<rparr>)
      (upd_approval ap (\<lambda>p. p\<lparr>ap_status := ApDenied\<rparr>) s)))"
  obtain rs s2 where rel: "release_action_reservations (act_org a) (act_id a) (now s) ?s1 = Inr (rs, s2)"
    and s': "s' = (case call of Some tc \<Rightarrow> reject_workflow_tool_call v tc (now s) ''workflow_tool_approval_denied'' s2
        | None \<Rightarrow> s2)"
    using assms(1,4) by (auto simp: deny_action_def Let_def ok_iff)
  obtain qs where s2: "s2 = close_all (now s) False [] qs ?s1" "budgets_ok s2"
    "reservations s2 = close_linked (life_of s) a (closing (now s) False [])"
    using release_step [OF rel assms(2,3)] by auto
  have after: "actions s' = actions s2" "approvals s' = approvals s2" "reservations s' = reservations s2"
    "action_reservations s' = action_reservations s2" "budgets s' = budgets s2" "next_uuid s2 \<le> next_uuid s'"
    "audits s' = audits s2" "tenant s' = tenant s2" "calls_of s' = calls_of s2"
    by (simp_all add: s' split: option.split)
  have "budgets_ok s'" by (rule budgets_ok_mono [OF s2(2) after(5,3,6)])
  then show ?thesis
    using s2(3) after by (simp add: s2(1))
qed

lemma approve_action_effect:
  assumes "approve_action c ap a r call s = Inr s'"
  shows "actions s' = tupd act_id (act_id a) (\<lambda>a. a\<lparr>act_state := Approved, act_version := act_version a + 1,
      act_updated_at := now s\<rparr>) (actions s) \<and>
    approvals s' = tupd ap_id ap (\<lambda>p. p\<lparr>ap_status := ApApproved\<rparr>) (approvals s) \<and>
    reservations s' = reservations s \<and> budgets s' = budgets s \<and>
    action_reservations s' = action_reservations s \<and> next_uuid s \<le> next_uuid s' \<and>
    audits s' = audits s \<and> tenant s' = tenant s \<and> calls_of s' = calls_of s"
  using assms
  by (auto simp: approve_action_def Let_def ok_iff split: option.splits)

lemma visible_row:
  "tget key k (seen s org rows) = Some r \<Longrightarrow> r \<in> set rows \<and> rls s (org r) \<and> key r = k"
  by (auto dest: tget_SomeD)

lemma action_of_approvalD:
  "action_of_approval s ap = Some a \<Longrightarrow> a \<in> set (actions s) \<and> rls s (act_org a) \<and> act_approval_id a = Some ap"
  by (auto simp: action_of_approval_def dest: find_Some_iff')

abbreviation stamped :: "uuid \<Rightarrow> uuid \<Rightarrow> string \<Rightarrow> db \<Rightarrow> db" where
  "stamped ap actor reason s \<equiv> upd_approval ap (\<lambda>p. p\<lparr>ap_decided_at := Some (now s),
     ap_decided_by := Some actor, ap_decision_reason := Some reason\<rparr>) s"

lemma decide_approval_ok:
  "decide_approval v c ap sub dec reason s = Inr (x, s') \<longleftrightarrow>
   (\<exists>p a i r args s1. get_approval s ap = Some p \<and> ap_status p = ApPending \<and> now s < ap_expires_at p \<and>
      action_of_approval s (ap_id p) = Some a \<and> get_intent s (ap_intent_id p) = Some i \<and>
      get_run s (ap_run_id p) = Some r \<and> decrypt_action_arguments v a = Inr args \<and>
      sub = ap_content_digest p \<and> act_content_digest a = ap_content_digest p \<and>
      int_content_digest i = ap_content_digest p \<and> digest_of v args = int_arguments_digest i \<and>
      (if dec = ''deny''
       then deny_action v c (ap_id p) a i r
              (Option.bind (action_of_approval s ap) (\<lambda>a. tool_call_for_action s (act_id a)))
              (stamped (ap_id p) (actor_id c) reason s)
       else approve_action c (ap_id p) a r
              (Option.bind (action_of_approval s ap) (\<lambda>a. tool_call_for_action s (act_id a)))
              (stamped (ap_id p) (actor_id c) reason s)) = Inr s1 \<and>
      x = run_id r \<and>
      (let status = (if dec = ''deny'' then ''denied'' else ''approved'')
       in s' = audit v (actor_org c) (actor_id c) (''approval.'' @ status) ''approval'' (ap_id p)
            (ap_content_digest p) (JObj [(''run_id'', juuid (run_id r)), (''decision_reason'', JStr reason)])
            (trace_event v (actor_org c) (run_id r) ''human-approval'' (''approval.'' @ status) status
               (JObj [(''approval_id'', juuid (ap_id p)), (''content_digest'', JStr (ap_content_digest p)),
                      (''decided_by'', juuid (actor_id c))]) s1)))"
  unfolding decide_approval_def Let_def ok_iff by (auto simp del: append_Cons)

lemma decide_follows:
  assumes ok: "sys_ok v s" and ten: "tenant s = Some (actor_org c)"
    and op: "decide_approval v c ap sub dec reason s = Inr (x, s')"
  shows "life_step\<^sup>*\<^sup>* (life_of s) (life_of s') \<and> budgets_ok s' \<and> audit_ok v s' \<and> calls_of s' = calls_of s"
proof -
  obtain p a i r s1 call et md nd tt st att where p: "get_approval s ap = Some p" "ap_status p = ApPending"
    and a: "action_of_approval s (ap_id p) = Some a" "act_content_digest a = ap_content_digest p"
    and s1: "(if dec = ''deny'' then deny_action v c (ap_id p) a i r call (stamped (ap_id p) (actor_id c) reason s)
         else approve_action c (ap_id p) a r call (stamped (ap_id p) (actor_id c) reason s)) = Inr s1"
    and s': "s' = audit v (actor_org c) (actor_id c) et ''approval'' (ap_id p) (ap_content_digest p) md
           (trace_event v (actor_org c) (run_id r) nd tt st att s1)"
    using op unfolding decide_approval_ok Let_def by blast
  have bok: "budgets_ok s" and aok: "audit_ok v s" using ok by (simp_all add: sys_ok_def)
  have pin: "p \<in> set (approvals s)" using visible_row [OF p(1)] by simp
  have ain: "a \<in> set (actions s)" "rls s (act_org a)" "act_approval_id a = Some (ap_id p)"
    using action_of_approvalD [OF a(1)] by simp_all
  have org: "actor_org c = act_org a" using ain(2) ten by (simp add: rls_def)
  let ?s0 = "stamped (ap_id p) (actor_id c) reason s"
  have b0: "budgets_ok ?s0" by (rule budgets_ok_mono [OF bok]) simp_all
  have r0: "rls ?s0 (act_org a)" using ain(2) by (simp add: rls_cong [of ?s0 s])
  have cl: "close_linked (life_of ?s0) = close_linked (life_of s)" by (rule close_linked_cong) simp_all
  have rest: "audits s1 = audits s \<Longrightarrow> tenant s1 = tenant s \<Longrightarrow> audit_ok v s'"
    unfolding s' using ain(2) org by (intro audit_ok_through [OF aok]) simp_all
  show ?thesis
  proof (cases "dec = ''deny''")
    case True
    note eff = deny_action_effect [OF s1 [unfolded if_P [OF True]] b0 r0 org]
    have "life_step (life_of s) (life_of s')"
      using eff pin ain p(2)
      by (intro life_rejectI [of s s' a p _ "\<lambda>p. p\<lparr>ap_decided_at := Some (now s),
           ap_decided_by := Some (actor_id c), ap_decision_reason := Some reason, ap_status := ApDenied\<rparr>"])
        (auto simp: s' cl moves_def same_lineage_def decides_def tupd_tupd)
    moreover have "budgets_ok s'" using eff by (intro budgets_ok_mono [of s1 s']) (simp_all add: s')
    ultimately show ?thesis using eff rest by (auto simp: s')
  next
    case False
    note eff = approve_action_effect [OF s1 [unfolded if_not_P [OF False]]]
    have "life_step (life_of s) (life_of s')"
      using eff pin ain p(2) a(2)
      by (intro life_approveI [of s s' a p _ "\<lambda>p. p\<lparr>ap_decided_at := Some (now s),
           ap_decided_by := Some (actor_id c), ap_decision_reason := Some reason, ap_status := ApApproved\<rparr>"])
        (auto simp: s' moves_def same_lineage_def decides_def tupd_tupd)
    moreover have "budgets_ok s'" using eff by (intro budgets_ok_mono [OF bok]) (simp_all add: s')
    ultimately show ?thesis using eff rest by (auto simp: s')
  qed
qed

interpretation decide: action_service v "\<lambda>s. tenant s = Some (actor_org c)" "decide_approval v c ap sub dec reason"
  for v c ap sub dec reason
  by unfold_locales (rule decide_follows)

end
