(* ===== verification/RS_Services.thy ===== *)
theory RS_Services
  imports RS_System
begin

section \<open>The worker and the remaining services follow the lifecycle\<close>

text \<open>
  The claims and the settlement of the worker, the redrive of a dead letter, the cancellation of a
  run, the timeout of a tool call and the creation of an action, each shown to be steps of the
  abstract lifecycle that keep the budgets and the audit chain; each interprets the contract of a
  service.
\<close>

subsection \<open>Claiming\<close>

lemma unchanged_follows:
  assumes "sys_ok v s" and "next_uuid s \<le> next_uuid s'" and "actions s' = actions s"
    and "approvals s' = approvals s" and "reservations s' = reservations s"
    and "action_reservations s' = action_reservations s" and "budgets s' = budgets s"
    and "audits s' = audits s" and "calls_of s' = calls_of s"
  shows "life_step\<^sup>*\<^sup>* (life_of s) (life_of s') \<and> budgets_ok s' \<and> audit_ok v s' \<and> calls_of s' = calls_of s"
  using life_idleI [OF assms(2-6)] budgets_ok_mono [of s s'] audit_ok_cong [of s' s] assms
  by (auto simp: sys_ok_def)

text \<open>One action advances and nothing else of the lifecycle, the budgets or the audit changes.\<close>

lemma advance_follows:
  assumes "sys_ok v s" and "next_uuid s \<le> next_uuid s'" and "a \<in> set (actions s)"
    and "advance_edge (act_state a) st = Some d" and "moves f st d"
    and "actions s' = tupd act_id (act_id a) f (actions s)"
    and "approvals s' = approvals s" and "reservations s' = reservations s"
    and "action_reservations s' = action_reservations s" and "budgets s' = budgets s"
    and "audit_ok v s'" and "calls_of s' = calls_of s"
  shows "life_step\<^sup>*\<^sup>* (life_of s) (life_of s') \<and> budgets_ok s' \<and> audit_ok v s' \<and> calls_of s' = calls_of s"
  using life_advanceI [OF assms(2-9)] budgets_ok_mono [of s s'] assms
  by (auto simp: sys_ok_def)

lemma claim_ready_follows:
  assumes ok: "sys_ok v s" and op: "claim_ready v token s = Inr (x, s')"
  shows "life_step\<^sup>*\<^sup>* (life_of s) (life_of s') \<and> budgets_ok s' \<and> audit_ok v s' \<and> calls_of s' = calls_of s"
proof (cases "first_by ob_created_at (filter (\<lambda>ev. ob_topic ev = ''action.ready'' \<and> ob_dispatched_at ev = None \<and>
                ob_available_at ev \<le> now s) (seen s ob_org (outbox s)))")
  case None
  with op have "s' = s" by (simp add: claim_ready_def)
  then show ?thesis by (intro unchanged_follows [OF ok]) simp_all
next
  case (Some ev)
  show ?thesis
  proof (cases "\<exists>a. get_action s (ob_aggregate_id ev) = Some a \<and> act_state a = Approved")
    case True
    then obtain a where a: "get_action s (ob_aggregate_id ev) = Some a" "act_state a = Approved" by blast
    have ain: "a \<in> set (actions s)" using visible_row [OF a(1)] by simp
    show ?thesis
      using op ok Some a audit_ok_cong [of s' s v]
      by (intro advance_follows [OF ok _ ain, of s' Executing 1 "\<lambda>b. b\<lparr>act_state := Executing,
             act_version := act_version b + 1, act_worker_name := Some (worker_name v),
             act_claim_hash := Some (claim_hash v token),
             act_lease_expires_at := Some (now s + seconds (action_lease_seconds v)),
             act_execute_attempts := act_execute_attempts b + 1, act_updated_at := now s\<rparr>"])
        (auto simp: claim_ready_def Let_def moves_def same_lineage_def sys_ok_def
          split: option.split)
  next
    case False
    then show ?thesis
      using op Some by (intro unchanged_follows [OF ok]) (auto simp: claim_ready_def Let_def split: option.splits)
  qed
qed

lemma claim_reconciliation_follows:
  assumes ok: "sys_ok v s" and op: "claim_reconciliation v token s = Inr (x, s')"
  shows "life_step\<^sup>*\<^sup>* (life_of s) (life_of s') \<and> budgets_ok s' \<and> audit_ok v s' \<and> calls_of s' = calls_of s"
proof (cases "first_by act_updated_at (filter (reconcilable (now s)) (seen s act_org (actions s)))")
  case None
  with op have "s' = s" by (simp add: claim_reconciliation_def)
  then show ?thesis by (intro unchanged_follows [OF ok]) simp_all
next
  case (Some a)
  have a: "a \<in> set (actions s)" "advance_edge (act_state a) Reconciling = Some 0"
    using first_by_SomeD [OF Some] by (auto simp: reconcilable_def)
  show ?thesis
    using op ok Some a audit_ok_cong [of s' s v]
    by (intro advance_follows [OF ok _ a(1), of s' Reconciling 0 "\<lambda>b. b\<lparr>act_state := Reconciling,
             act_version := act_version b + 1, act_worker_name := Some (worker_name v),
             act_claim_hash := Some (claim_hash v token),
             act_lease_expires_at := Some (now s + seconds (action_lease_seconds v)),
             act_reconcile_attempts := act_reconcile_attempts b + 1,
             act_cycle_attempts := act_cycle_attempts b + 1, act_updated_at := now s\<rparr>"])
      (auto simp: claim_reconciliation_def Let_def moves_def same_lineage_def sys_ok_def
        split: option.split)
qed

interpretation claim_ready: action_service v "\<lambda>s. tenant s = None" "claim_ready v token" for v token
  by unfold_locales (rule claim_ready_follows)

interpretation claim_reconciliation: action_service v "\<lambda>s. tenant s = None" "claim_reconciliation v token" for v token
  by unfold_locales (rule claim_reconciliation_follows)

subsection \<open>Redriving a dead letter\<close>

definition redriven :: "dead_letter_row \<Rightarrow> action_row \<Rightarrow> run_row \<Rightarrow> tool_call_row option \<Rightarrow> db \<Rightarrow> db" where
  "redriven d a r k s =
     (let s1 = upd_run (run_id r) (\<lambda>r. r\<lparr>run_status := RunReconciliationRequired,
                  run_active_node := Some ''action-reconciliation'',
                  run_error_code := Some ''dlq_redrive_reconciliation_pending''\<rparr>)
       (upd_action (act_id a) (\<lambda>a. a\<lparr>act_state := ReconciliationRequired, act_cycle_attempts := 0,
                  act_next_reconcile_at := Some (now s),
                  act_error_code := Some ''dlq_redrive_reconciliation_pending'',
                  act_version := act_version a + 1\<rparr>)
       (upd_dead_letter (dl_id d) (\<lambda>d. d\<lparr>dl_status := DlRedriven,
                  dl_redrive_count := dl_redrive_count d + 1, dl_version := dl_version d + 1,
                  dl_resolved_at := None\<rparr>) s))
      in case k of None \<Rightarrow> s1
         | Some k \<Rightarrow> upd_tool_call (tc_id k) (\<lambda>k. k\<lparr>tc_status := TcReconciliationRequired\<rparr>) s1)"

lemma redrive_ok:
  assumes "redrive_dead_letter v c letter version reason s = Inr (x, s')"
  obtains d a r md att where "get_dead_letter s letter = Some d" "dl_status d = DlOpen" "dl_version d = version"
    "dl_redrive_count d < dl_max_redrives d" "get_action s (dl_action_id d) = Some a" "act_state a = DeadLettered"
    "act_content_digest a = dl_content_digest d" "get_run s (dl_run_id d) = Some r" "run_status r = RunDeadLettered"
    "s' = audit v (actor_org c) (actor_id c) ''dead_letter.redriven'' ''dead_letter'' (dl_id d)
          (dl_content_digest d) md
        (trace_event v (actor_org c) (run_id r) ''action-reconciliation'' ''dead_letter.redriven'' ''queued'' att
          (redriven d a r (tool_call_for_action s (dl_action_id d)) s))"
    "x = dl_id d"
proof -
  have once: "(case k of None \<Rightarrow> Inr s1 | Some k \<Rightarrow> require (p k) e (Inr (g k))) = Inr s2 \<longleftrightarrow>
      (\<forall>q. k = Some q \<longrightarrow> p q) \<and> s2 = (case k of None \<Rightarrow> s1 | Some k \<Rightarrow> g k)"
    for k and s1 s2 :: db and p :: "tool_call_row \<Rightarrow> bool" and e :: rs_error and g
    by (auto simp: ok_iff split: option.split)
  show ?thesis
    using assms
    unfolding redrive_dead_letter_def Let_def ok_iff once redriven_def [unfolded Let_def, symmetric]
      sum.inject prod.inject
    by - (elim exE conjE, hypsubst, rule that, (assumption | rule refl | rule sym, assumption)+)
qed

lemma redriven_frame [simp]:
  "actions (redriven d a r k s) = tupd act_id (act_id a) (\<lambda>b. b\<lparr>act_state := ReconciliationRequired,
        act_cycle_attempts := 0, act_next_reconcile_at := Some (now s),
        act_error_code := Some ''dlq_redrive_reconciliation_pending'',
        act_version := act_version b + 1, act_updated_at := now s\<rparr>) (actions s)"
  "approvals (redriven d a r k s) = approvals s" "reservations (redriven d a r k s) = reservations s"
  "action_reservations (redriven d a r k s) = action_reservations s" "budgets (redriven d a r k s) = budgets s"
  "next_uuid (redriven d a r k s) = next_uuid s" "audits (redriven d a r k s) = audits s"
  "tenant (redriven d a r k s) = tenant s" "now (redriven d a r k s) = now s"
  "calls_of (redriven d a r k s) = calls_of s"
  by (simp_all add: redriven_def Let_def split: option.split)

lemma redrive_follows:
  assumes ok: "sys_ok v s" and ten: "tenant s = Some (actor_org c)"
    and op: "redrive_dead_letter v c letter version reason s = Inr (x, s')"
  shows "life_step\<^sup>*\<^sup>* (life_of s) (life_of s') \<and> budgets_ok s' \<and> audit_ok v s' \<and> calls_of s' = calls_of s"
proof -
  obtain d a r md att where a: "get_action s (dl_action_id d) = Some a" "act_state a = DeadLettered"
    and s': "s' = audit v (actor_org c) (actor_id c) ''dead_letter.redriven'' ''dead_letter'' (dl_id d)
          (dl_content_digest d) md
        (trace_event v (actor_org c) (run_id r) ''action-reconciliation'' ''dead_letter.redriven'' ''queued'' att
          (redriven d a r (tool_call_for_action s (dl_action_id d)) s))"
    by (rule redrive_ok [OF op])
  have ain: "a \<in> set (actions s)" using visible_row [OF a(1)] by simp
  have "audit_ok v s'"
    unfolding s' using ok ten by (intro audit_ok_through [of v s]) (simp_all add: sys_ok_def rls_def)
  then show ?thesis
    using a(2) by (intro advance_follows [OF ok _ ain, of s' ReconciliationRequired 0 "\<lambda>b. b\<lparr>act_state := ReconciliationRequired,
        act_cycle_attempts := 0, act_next_reconcile_at := Some (now s),
        act_error_code := Some ''dlq_redrive_reconciliation_pending'',
        act_version := act_version b + 1, act_updated_at := now s\<rparr>"])
      (simp_all add: s' moves_def same_lineage_def)
qed

interpretation redrive: action_service v "\<lambda>s. tenant s = Some (actor_org c)" "redrive_dead_letter v c letter version reason"
  for v c letter version reason
  by unfold_locales (rule redrive_follows)

subsection \<open>Settling\<close>

lemma upd_run_opt_frame [simp]:
  "actions (upd_run_opt r f s) = actions s" "approvals (upd_run_opt r f s) = approvals s"
  "reservations (upd_run_opt r f s) = reservations s" "budgets (upd_run_opt r f s) = budgets s"
  "action_reservations (upd_run_opt r f s) = action_reservations s" "audits (upd_run_opt r f s) = audits s"
  "tenant (upd_run_opt r f s) = tenant s" "next_uuid (upd_run_opt r f s) = next_uuid s"
  "now (upd_run_opt r f s) = now s" "calls_of (upd_run_opt r f s) = calls_of s"
  by (simp_all add: upd_run_opt_def split: option.split)

lemma resolve_dead_letter_frame [simp]:
  "actions (resolve_dead_letter k s) = actions s" "approvals (resolve_dead_letter k s) = approvals s"
  "reservations (resolve_dead_letter k s) = reservations s" "budgets (resolve_dead_letter k s) = budgets s"
  "action_reservations (resolve_dead_letter k s) = action_reservations s" "audits (resolve_dead_letter k s) = audits s"
  "tenant (resolve_dead_letter k s) = tenant s" "next_uuid (resolve_dead_letter k s) = next_uuid s"
  "now (resolve_dead_letter k s) = now s" "calls_of (resolve_dead_letter k s) = calls_of s"
  by (simp_all add: resolve_dead_letter_def split: option.split)

lemma create_evidence_frame:
  assumes "create_evidence v a s = Inr s'"
  shows "actions s' = actions s" "approvals s' = approvals s" "reservations s' = reservations s"
    "budgets s' = budgets s" "action_reservations s' = action_reservations s" "audits s' = audits s"
    "tenant s' = tenant s" "next_uuid s \<le> next_uuid s'" "now s' = now s" "calls_of s' = calls_of s"
  using assms
  by (auto simp: create_evidence_def Let_def ok_iff uuid4_def calls_of_def split: if_splits)

lemma settle_tool_call_frame [simp]:
  "actions (settle_tool_call v a ev k s) = actions s" "approvals (settle_tool_call v a ev k s) = approvals s"
  "reservations (settle_tool_call v a ev k s) = reservations s" "budgets (settle_tool_call v a ev k s) = budgets s"
  "action_reservations (settle_tool_call v a ev k s) = action_reservations s"
  "tenant (settle_tool_call v a ev k s) = tenant s" "next_uuid s \<le> next_uuid (settle_tool_call v a ev k s)"
  "calls_of (settle_tool_call v a ev k s) = calls_of s"
  by (simp_all add: settle_tool_call_def Let_def mark_processed_def split: option.split)

lemma dead_letter_action_frame [simp]:
  "actions (dead_letter_action v a r s) = tupd act_id (act_id a)
     (\<lambda>b. b\<lparr>act_state := DeadLettered, act_next_reconcile_at := None, act_updated_at := now s\<rparr>) (actions s)"
  "approvals (dead_letter_action v a r s) = approvals s" "reservations (dead_letter_action v a r s) = reservations s"
  "budgets (dead_letter_action v a r s) = budgets s"
  "action_reservations (dead_letter_action v a r s) = action_reservations s"
  "audits (dead_letter_action v a r s) = audits s" "tenant (dead_letter_action v a r s) = tenant s"
  "n \<le> next_uuid s \<Longrightarrow> n \<le> next_uuid (dead_letter_action v a r s)" "calls_of (dead_letter_action v a r s) = calls_of s"
  "now (dead_letter_action v a r s) = now s"
  by (simp_all add: dead_letter_action_def Let_def uuid4_def calls_of_def split: option.split)

lemma reload_id [simp]: "act_id (reload s a) = act_id a"
  by (auto simp: reload_def dest: tget_SomeD split: option.split)

lemma settle_outcome_ambiguous:
  assumes "settle_outcome v mode res a r s = Inr (status, s1)" and "res_outcome res = Ambiguous"
  shows "\<exists>f. moves f (if mode = Reconcile \<and> max_reconciliation_attempts v \<le> act_cycle_attempts a
        then DeadLettered else ReconciliationRequired) 0 \<and> actions s1 = tupd act_id (act_id a) f (actions s)"
    and "approvals s1 = approvals s" "reservations s1 = reservations s" "budgets s1 = budgets s"
    "action_reservations s1 = action_reservations s" "audits s1 = audits s" "tenant s1 = tenant s"
    "next_uuid s \<le> next_uuid s1" "calls_of s1 = calls_of s"
proof -
  let ?dead = "mode = Reconcile \<and> max_reconciliation_attempts v \<le> act_cycle_attempts a"
  let ?code = "case res_error_code res of None \<Rightarrow> ''provider_outcome_ambiguous'' | Some e \<Rightarrow>
                           if e = [] then ''provider_outcome_ambiguous'' else e"
  let ?f = "\<lambda>b. if ?dead
      then b\<lparr>act_error_code := Some ?code, act_lease_expires_at := None, act_state := DeadLettered,
             act_next_reconcile_at := None, act_updated_at := now s\<rparr>
      else b\<lparr>act_error_code := Some ?code, act_lease_expires_at := None, act_state := ReconciliationRequired,
             act_next_reconcile_at := Some (now s + seconds (reconciliation_delay_seconds v)), act_updated_at := now s\<rparr>"
  have "actions s1 = tupd act_id (act_id a) ?f (actions s)"
    using assms by (auto simp: settle_outcome_def Let_def tupd_tupd split: if_splits)
  moreover have "moves ?f (if ?dead then DeadLettered else ReconciliationRequired) 0"
    by (simp add: moves_def same_lineage_def)
  ultimately show "\<exists>f. moves f (if ?dead then DeadLettered else ReconciliationRequired) 0 \<and>
      actions s1 = tupd act_id (act_id a) f (actions s)"
    by (intro exI conjI)
qed (use assms in \<open>auto simp: settle_outcome_def Let_def split: if_splits\<close>)

lemma settle_outcome_final:
  assumes "settle_outcome v mode res a r s = Inr (status, s1)" and "res_outcome res \<noteq> Ambiguous"
    and ok: "budgets_ok s" and see: "rls s (act_org a)"
  shows "\<exists>f h. moves f (if res_outcome res = Committed then ActCommitted else ActFailed) 0 \<and> closes h \<and>
      actions s1 = tupd act_id (act_id a) f (actions s) \<and> reservations s1 = close_linked (life_of s) a h \<and>
      budgets_ok s1 \<and> approvals s1 = approvals s \<and> action_reservations s1 = action_reservations s \<and>
      audits s1 = audits s \<and> tenant s1 = tenant s \<and> next_uuid s1 = next_uuid s \<and> calls_of s1 = calls_of s"
proof -
  define com where "com = (res_outcome res = Committed)"
  define code where "code = (case res_error_code res of None \<Rightarrow> ''provider_failed'' | Some e \<Rightarrow>
                           if e = [] then ''provider_failed'' else e)"
  let ?f = "\<lambda>b. if com
      then b\<lparr>act_state := ActCommitted, act_receipt_preview := Some (res_receipt_preview res),
             act_provider_reference := res_provider_reference res, act_error_code := None,
             act_lease_expires_at := None, act_updated_at := now s\<rparr>
      else b\<lparr>act_state := ActFailed, act_error_code := Some code, act_lease_expires_at := None,
             act_updated_at := now s\<rparr>"
  obtain s0 rs where set: "settle_action_reservations (act_org a) (act_id a) (now s) com [] s0 = Inr (rs, s1)"
    and s0: "actions s0 = tupd act_id (act_id a) ?f (actions s)" "approvals s0 = approvals s"
      "reservations s0 = reservations s" "budgets s0 = budgets s" "audits s0 = audits s" "tenant s0 = tenant s"
      "action_reservations s0 = action_reservations s" "next_uuid s0 = next_uuid s" "calls_of s0 = calls_of s"
    using assms(1,2) unfolding settle_outcome_def Let_def code_def com_def
    by (cases "res_outcome res") (auto simp: ok_iff)
  obtain qs where s1: "s1 = close_all (now s) com [] qs s0" "budgets_ok s1"
    "reservations s1 = close_linked (life_of s) a (closing (now s) com [])"
    using settle_step [OF set ok see s0(6,4,3)] s0 by auto
  have "moves ?f (if com then ActCommitted else ActFailed) 0" by (simp add: moves_def same_lineage_def)
  then show ?thesis
    using s1(2,3) s0 unfolding s1(1)
    by (intro exI [of _ ?f] exI [of _ "closing (now s) com []"]) (auto simp: com_def)
qed

lemma audits_resume_workflow [simp]: "audits (resume_workflow c st re t s) = audits s"
  by (simp add: resume_workflow_def)

lemma settle_workflow_tool_call_audits:
  "audits (settle_workflow_tool_call v c a t s) = audits s \<or>
   (\<exists>actor et md s1. settle_workflow_tool_call v c a t s =
        audit v (tc_org c) actor et ''workflow_tool_call'' (tc_id c) (tc_content_digest c) md s1 \<and>
      audits s1 = audits s \<and> tenant s1 = tenant s)"
proof -
  have opt: "audits (case k of None \<Rightarrow> s1 | Some p \<Rightarrow> audit v org (act p) et sty su cd md s1) = audits s \<or>
      (\<exists>actor et' md' s2. (case k of None \<Rightarrow> s1 | Some p \<Rightarrow> audit v org (act p) et sty su cd md s1) =
         audit v org actor et' sty su cd md' s2 \<and> audits s2 = audits s \<and> tenant s2 = tenant s)"
    if "audits s1 = audits s" "tenant s1 = tenant s" for k :: "run_row option" and s1 org act et sty su cd md
    using that by (cases k) auto
  show ?thesis
    unfolding settle_workflow_tool_call_def Let_def
    by (split if_split, intro conjI impI, simp)
      (cases "act_state a"; simp only: action_state.case; (rule opt)?; simp)
qed

lemma audit_ok_settle_workflow_tool_call:
  assumes "audit_ok v s" and "rls s (tc_org c)"
  shows "audit_ok v (settle_workflow_tool_call v c a t s)"
  using settle_workflow_tool_call_audits [of v c a t s] audit_ok_through [OF assms(1) _ _ assms(2)]
    audit_ok_cong [of "settle_workflow_tool_call v c a t s" s v] assms(1) by auto

lemma audit_ok_settle_tool_call:
  assumes "audit_ok v s" and "tenant s = None"
  shows "audit_ok v (settle_tool_call v a ev k s)"
  using audit_ok_settle_workflow_tool_call [OF assms(1), of _ "reload s a" "now s"] assms
  by (auto simp: settle_tool_call_def Let_def rls_def mark_processed_def
      audit_ok_cong [of "upd_outbox _ _ s" s for s] split: option.split)

lemma record_settlement_frame [simp]:
  "actions (record_settlement v cl res a st s) = tupd act_id (act_id a)
     (\<lambda>b. b\<lparr>act_version := act_version b + 1, act_updated_at := now s\<rparr>) (actions s)"
  "approvals (record_settlement v cl res a st s) = approvals s"
  "reservations (record_settlement v cl res a st s) = reservations s"
  "budgets (record_settlement v cl res a st s) = budgets s"
  "action_reservations (record_settlement v cl res a st s) = action_reservations s"
  "tenant (record_settlement v cl res a st s) = tenant s"
  "n \<le> next_uuid s \<Longrightarrow> n \<le> next_uuid (record_settlement v cl res a st s)"
  "calls_of (record_settlement v cl res a st s) = calls_of s"
  by (simp_all add: record_settlement_def Let_def split: option.split)

lemma audit_ok_record_settlement:
  "audit_ok v s \<Longrightarrow> rls s (act_org a) \<Longrightarrow> audit_ok v (record_settlement v cl res a st s)"
  unfolding record_settlement_def Let_def
  by (rule audit_ok_through [of v s]) (simp_all split: option.split)

lemma settle_ok:
  assumes "settle v cl res s = Inr (x, s')"
  obtains "s' = s" |
    a status s1 s2 ev k where "get_action s (cl_action_id cl) = Some a"
     "act_state a = (if cl_mode cl = Execute then Executing else Reconciling)"
     "act_claim_hash a = Some (claim_hash v (cl_claim_token cl))"
     "settle_outcome v (cl_mode cl) res a (get_run s (act_run_id a)) s = Inr (status, s1)"
     "if res_outcome res \<in> {Committed, Failed}
      then create_evidence v (reload (resolve_dead_letter (act_id a) (record_settlement v cl res a status s1)) a)
             (resolve_dead_letter (act_id a) (record_settlement v cl res a status s1)) = Inr s2
      else s2 = record_settlement v cl res a status s1"
     "s' = settle_tool_call v a ev k s2"
proof (cases "\<exists>a. get_action s (cl_action_id cl) = Some a \<and>
     act_state a = (if cl_mode cl = Execute then Executing else Reconciling) \<and>
     act_claim_hash a = Some (claim_hash v (cl_claim_token cl))")
  case True
  then obtain a where a: "get_action s (cl_action_id cl) = Some a"
     "act_state a = (if cl_mode cl = Execute then Executing else Reconciling)"
     "act_claim_hash a = Some (claim_hash v (cl_claim_token cl))" by blast
  from assms a obtain status s1 where out:
      "settle_outcome v (cl_mode cl) res a (get_run s (act_run_id a)) s = Inr (status, s1)"
    and rest: "rbind (if res_outcome res \<in> {Committed, Failed}
         then let s = resolve_dead_letter (act_id a) (record_settlement v cl res a status s1)
              in create_evidence v (reload s a) s
         else Inr (record_settlement v cl res a status s1))
       (\<lambda>s2. Inr ((), settle_tool_call v a
         (Option.bind (tool_call_for_action s (cl_action_id cl)) (\<lambda>c. lock_tool_timeout_event s (tc_id c)))
         (tool_call_for_action s (cl_action_id cl)) s2)) = Inr (x, s')"
    by (auto simp: settle_def rbind_ok Let_def)
  from rest show ?thesis unfolding rbind_ok Let_def
    by (elim exE conjE) (rule that(2) [OF a out], auto split: if_splits)
next
  case False
  then show ?thesis using assms that(1) by (auto simp: settle_def Let_def split: option.splits if_splits)
qed

lemma settle_follows:
  assumes ok: "sys_ok v s" and ten: "tenant s = None" and op: "settle v cl res s = Inr (x, s')"
  shows "life_step\<^sup>*\<^sup>* (life_of s) (life_of s') \<and> budgets_ok s' \<and> audit_ok v s' \<and> calls_of s' = calls_of s"
  using op
proof (cases rule: settle_ok)
  case 1
  then show ?thesis by (intro unchanged_follows [OF ok]) simp_all
next
  case (2 a status s1 s2 ev k)
  have ain: "a \<in> set (actions s)" and see: "rls s (act_org a)" using visible_row [OF 2(1)] by simp_all
  let ?s0 = "record_settlement v cl res a status s1"
  let ?bump = "\<lambda>b. b\<lparr>act_version := act_version b + 1, act_updated_at := now s1\<rparr>"
  have s2: "actions s2 = actions ?s0" "approvals s2 = approvals ?s0" "reservations s2 = reservations ?s0"
    "budgets s2 = budgets ?s0" "action_reservations s2 = action_reservations ?s0" "audits s2 = audits ?s0"
    "tenant s2 = tenant ?s0" "calls_of s2 = calls_of ?s0" "next_uuid ?s0 \<le> next_uuid s2"
    using 2(5) by (auto dest: create_evidence_frame split: if_splits)
  have "next_uuid s1 \<le> next_uuid ?s0" by simp
  also have "\<dots> \<le> next_uuid s2" by (rule s2(9))
  also have "\<dots> \<le> next_uuid s'" by (simp add: 2(6))
  finally have le: "next_uuid s1 \<le> next_uuid s'" .
  have aud: "audit_ok v s'" if "audits s1 = audits s" "tenant s1 = tenant s"
  proof -
    have "audit_ok v ?s0" using that ok ten
      by (intro audit_ok_record_settlement) (simp_all add: sys_ok_def rls_def audit_ok_cong [of s1 s])
    then show ?thesis
      unfolding 2(6) using that s2 ten by (intro audit_ok_settle_tool_call) (simp_all add: audit_ok_cong [of s2 ?s0])
  qed
  show ?thesis
  proof (cases "res_outcome res = Ambiguous")
    case True
    note eff = settle_outcome_ambiguous [OF 2(4) True]
    let ?st = "if cl_mode cl = Reconcile \<and> max_reconciliation_attempts v \<le> act_cycle_attempts a
        then DeadLettered else ReconciliationRequired"
    obtain f where f: "moves f ?st 0" "actions s1 = tupd act_id (act_id a) f (actions s)" using eff(1) by blast
    show ?thesis
    proof (rule advance_follows [OF ok _ ain, of s' ?st 0 "\<lambda>b. ?bump (f b)"])
      show "advance_edge (act_state a) ?st = Some 0" using 2(2) by (auto split: if_splits)
      show "moves (\<lambda>b. ?bump (f b)) ?st 0" using f(1) by (simp add: moves_def same_lineage_def)
      show "actions s' = tupd act_id (act_id a) (\<lambda>b. ?bump (f b)) (actions s)"
        using s2(1) f(1,2) by (simp add: 2(6) tupd_tupd movesD)
    qed (use eff s2 le aud in \<open>simp_all add: 2(6)\<close>)
  next
    case False
    let ?st = "if res_outcome res = Committed then ActCommitted else ActFailed"
    obtain f h where eff: "moves f ?st 0" "closes h" "?st \<in> {ActCommitted, ActFailed}"
      "actions s1 = tupd act_id (act_id a) f (actions s)" "reservations s1 = close_linked (life_of s) a h"
      "budgets_ok s1" "approvals s1 = approvals s" "action_reservations s1 = action_reservations s"
      "audits s1 = audits s" "tenant s1 = tenant s" "next_uuid s1 = next_uuid s" "calls_of s1 = calls_of s"
      using settle_outcome_final [OF 2(4) False _ see] ok by (auto simp: sys_ok_def)
    have "life_step (life_of s) (life_of s')"
    proof (rule life_finishI [OF _ ain, of s' ?st "\<lambda>b. ?bump (f b)" h])
      show "act_state a \<in> {Executing, Reconciling}" using 2(2) by (simp split: if_splits)
      show "moves (\<lambda>b. ?bump (f b)) ?st 0" using eff(1) by (simp add: moves_def same_lineage_def)
      show "actions s' = tupd act_id (act_id a) (\<lambda>b. ?bump (f b)) (actions s)"
        using s2(1) eff(1,4) by (simp add: 2(6) tupd_tupd movesD)
    qed (use eff s2 le in \<open>simp_all add: 2(6)\<close>)
    moreover have "budgets_ok s'"
      using s2 le by (intro budgets_ok_mono [OF eff(6)]) (simp_all add: 2(6))
    ultimately show ?thesis using aud eff s2 by (simp add: 2(6) r_into_rtranclp)
  qed
qed

interpretation settle: action_service v "\<lambda>s. tenant s = None" "settle v cl res" for v cl res
  by unfold_locales (rule settle_follows)

subsection \<open>Cancelling\<close>

lemma follows_sys_ok:
  assumes "sys_ok v s"
    and "life_step\<^sup>*\<^sup>* (life_of s) (life_of s') \<and> budgets_ok s' \<and> audit_ok v s' \<and> calls_of s' = calls_of s"
  shows "sys_ok v s'"
  using assms life.steps_inv [of "life_of s" "life_of s'"] calls_ok_steps [of s s'] by (simp add: sys_ok_def)

text \<open>An undecided action is closed: its approval decided against, its reservations released.\<close>

lemma reject_follows:
  assumes ok: "sys_ok v s" and ain: "a \<in> set (actions s)" and see: "rls s (act_org a)"
    and p: "p \<in> set (approvals s)" "act_approval_id a = Some (ap_id p)" "ap_status p = ApPending"
    and f: "moves f Rejected 0" and g: "decides g ApDenied \<or> decides g ApExpired"
    and rel: "release_action_reservations (act_org a) (act_id a) t s1 = Inr (rs, s2)"
    and s1: "actions s1 = tupd act_id (act_id a) f (actions s)"
      "approvals s1 = tupd ap_id (ap_id p) g (approvals s)" "tenant s1 = tenant s" "budgets s1 = budgets s"
      "reservations s1 = reservations s" "next_uuid s \<le> next_uuid s1" "action_reservations s1 = action_reservations s"
      "calls_of s1 = calls_of s"
    and s': "actions s' = actions s2" "approvals s' = approvals s2" "budgets s' = budgets s2"
      "reservations s' = reservations s2" "next_uuid s2 \<le> next_uuid s'"
      "action_reservations s' = action_reservations s2" "calls_of s' = calls_of s2" "audit_ok v s'"
  shows "life_step\<^sup>*\<^sup>* (life_of s) (life_of s') \<and> budgets_ok s' \<and> audit_ok v s' \<and> calls_of s' = calls_of s"
proof -
  obtain qs where s2: "s2 = close_all t False [] qs s1" "budgets_ok s2"
    "reservations s2 = close_linked (life_of s) a (closing t False [])"
    using release_step [OF rel _ see s1(3-7)] ok by (auto simp: sys_ok_def)
  have "life_step (life_of s) (life_of s')"
    using s1 s' s2(3) ain p f g
    by (intro life_rejectI [of s s' a p f g "closing t False []"]) (simp_all add: s2(1))
  moreover have "budgets_ok s'" by (rule budgets_ok_mono [OF s2(2) s'(3-5)])
  moreover have "calls_of s' = calls_of s" using s1(8) s'(7) by (simp add: s2(1))
  ultimately show ?thesis using s'(8) by (simp add: r_into_rtranclp)
qed

lemma release_audits:
  assumes "release_action_reservations org k t s1 = Inr (rs, s2)" and "budgets_ok s1"
  shows "audits s2 = audits s1" "tenant s2 = tenant s1" "now s2 = now s1"
  using release_result [OF assms(2,1)] by auto

lemma cancel_pending_follows:
  assumes ok: "sys_ok v s" and op: "cancel_pending_workflow_tool_call c actor t s = Inr s'"
    and org: "\<And>a. get_action s (tc_action_id c) = Some a \<Longrightarrow> act_org a = tc_org c"
  shows "life_step\<^sup>*\<^sup>* (life_of s) (life_of s') \<and> budgets_ok s' \<and> audit_ok v s' \<and> calls_of s' = calls_of s"
    and "tenant s' = tenant s" and "audits s' = audits s"
proof -
  obtain a p and child :: run_row and rs s2 where a: "get_action s (tc_action_id c) = Some a" "act_state a = Proposed"
    and p: "Option.bind (act_approval_id a) (get_approval s) = Some p" "ap_status p = ApPending"
    and rel: "release_action_reservations (tc_org c) (act_id a) t
      (upd_run (run_id child) (\<lambda>r. r\<lparr>run_status := RunCancelled, run_error_code := Some ''parent_workflow_cancelled'',
                     run_active_node := None, run_completed_at := Some t\<rparr>)
      (upd_action (act_id a) (\<lambda>a. a\<lparr>act_state := Rejected, act_version := act_version a + 1\<rparr>)
      (upd_approval (ap_id p) (\<lambda>p. p\<lparr>ap_status := ApDenied, ap_decided_at := Some t, ap_decided_by := Some actor,
                     ap_decision_reason := Some ''parent workflow cancelled''\<rparr>) s))) = Inr (rs, s2)"
      (is "release_action_reservations _ _ _ ?s1 = _")
    and s': "s' = upd_tool_call (tc_id c) (\<lambda>c. c\<lparr>tc_status := TcCancelled, tc_resolved_at := Some t\<rparr>) s2"
    using op unfolding cancel_pending_workflow_tool_call_def Let_def ok_iff split_paired_Ex prod.case sum.inject
    by - (elim exE conjE, rule that, (assumption | rule sym, assumption)+)
  have ain: "a \<in> set (actions s)" "rls s (act_org a)" using visible_row [OF a(1)] by simp_all
  obtain k where k: "act_approval_id a = Some k" "get_approval s k = Some p"
    using p(1) by (cases "act_approval_id a") simp_all
  have pin: "p \<in> set (approvals s)" "act_approval_id a = Some (ap_id p)"
    using visible_row [OF k(2)] k(1) by simp_all
  have bok: "budgets_ok ?s1" by (rule budgets_ok_mono [of s]) (use ok in \<open>simp_all add: sys_ok_def\<close>)
  note aud = release_audits [OF rel bok]
  have "audits s' = audits s" using aud by (simp add: s')
  then have aok: "audit_ok v s'" using ok by (simp add: audit_ok_cong [of s' s] sys_ok_def)
  show "life_step\<^sup>*\<^sup>* (life_of s) (life_of s') \<and> budgets_ok s' \<and> audit_ok v s' \<and> calls_of s' = calls_of s"
    by (rule reject_follows [OF ok ain pin p(2) _ _ rel [folded org [OF a(1)]]])
      (use aok in \<open>simp_all add: s' moves_def same_lineage_def decides_def\<close>)
  show "tenant s' = tenant s" "audits s' = audits s" using aud by (simp_all add: s')
qed

lemma follows_trans:
  assumes "life_step\<^sup>*\<^sup>* (life_of s) (life_of s1) \<and> budgets_ok s1 \<and> audit_ok v s1 \<and> calls_of s1 = calls_of s"
    and "life_step\<^sup>*\<^sup>* (life_of s1) (life_of s2) \<and> budgets_ok s2 \<and> audit_ok v s2 \<and> calls_of s2 = calls_of s1"
  shows "life_step\<^sup>*\<^sup>* (life_of s) (life_of s2) \<and> budgets_ok s2 \<and> audit_ok v s2 \<and> calls_of s2 = calls_of s"
  using assms by auto

lemma cancel_tool_calls_follows:
  assumes "sys_ok v s" and "tenant s = Some org" and "\<And>k. k \<in> set ks \<Longrightarrow> tc_org k = org"
    and "cancel_tool_calls actor t ks s = Inr s'"
  shows "(life_step\<^sup>*\<^sup>* (life_of s) (life_of s') \<and> budgets_ok s' \<and> audit_ok v s' \<and> calls_of s' = calls_of s) \<and>
    tenant s' = tenant s"
  using assms
proof (induction ks arbitrary: s)
  case Nil
  then show ?case by (simp add: sys_ok_def)
next
  case (Cons k ks)
  obtain s1 where s1: "cancel_pending_workflow_tool_call k actor t s = Inr s1" "cancel_tool_calls actor t ks s1 = Inr s'"
    using Cons.prems(4) by (auto simp: ok_iff)
  have "act_org a = tc_org k" if "get_action s (tc_action_id k) = Some a" for a
    using visible_row [OF that] Cons.prems(2,3) by (simp add: rls_def)
  note one = cancel_pending_follows [OF Cons.prems(1) s1(1) this]
  have "sys_ok v s1" by (rule follows_sys_ok [OF Cons.prems(1) one(1)])
  from Cons.IH [OF this _ _ s1(2)] one(2) Cons.prems(2,3)
  have rest: "life_step\<^sup>*\<^sup>* (life_of s1) (life_of s') \<and> budgets_ok s' \<and> audit_ok v s' \<and> calls_of s' = calls_of s1"
    and "tenant s' = tenant s" by simp_all
  then show ?case using follows_trans [OF one(1) rest] by simp
qed

lemma fold_keeps: "(\<And>x s. p (f x s) = p s) \<Longrightarrow> p (fold f xs s) = p s"
  by (induction xs arbitrary: s) simp_all

lemma fold_grows:
  fixes p :: "'s \<Rightarrow> nat"
  assumes "\<And>x s. p s \<le> p (f x s)"
  shows "p s \<le> p (fold f xs s)"
  by (induction xs arbitrary: s) (auto intro: order.trans [OF assms])

lemma cancel_waits_frame:
  assumes "\<And>k g s. p (upd_wait k g s) = p s"
  shows "p (fold (cancel_wait t) ws s) = p s"
  by (rule fold_keeps) (simp add: cancel_wait_def assms)

lemma cancel_subworkflows_frame:
  assumes "\<And>k g s. p (upd_subworkflow_call k g s) = p s"
    and "\<And>org topic at agg key pl av s. p (add_outbox org topic at agg key pl av s) = p s"
  shows "p (fold (cancel_subworkflow_call ex t) ks s) = p s"
  by (rule fold_keeps) (simp add: cancel_subworkflow_call_def assms)

lemmas cancel_frames =
  cancel_waits_frame [of actions] cancel_waits_frame [of approvals] cancel_waits_frame [of reservations]
  cancel_waits_frame [of budgets] cancel_waits_frame [of action_reservations] cancel_waits_frame [of audits]
  cancel_waits_frame [of tenant] cancel_waits_frame [of calls_of] cancel_waits_frame [of next_uuid]
  cancel_subworkflows_frame [of actions] cancel_subworkflows_frame [of approvals]
  cancel_subworkflows_frame [of reservations] cancel_subworkflows_frame [of budgets]
  cancel_subworkflows_frame [of action_reservations] cancel_subworkflows_frame [of audits]
  cancel_subworkflows_frame [of tenant] cancel_subworkflows_frame [of calls_of]

lemma cancel_subworkflows_grows: "n \<le> next_uuid s \<Longrightarrow> n \<le> next_uuid (fold (cancel_subworkflow_call ex t) ks s)"
  by (rule order.trans, assumption, rule fold_grows) (simp add: cancel_subworkflow_call_def)

lemma finish_cancellation_frame [simp]:
  "actions (finish_cancellation v c ex r ks s) = actions s"
  "approvals (finish_cancellation v c ex r ks s) = approvals s"
  "reservations (finish_cancellation v c ex r ks s) = reservations s"
  "budgets (finish_cancellation v c ex r ks s) = budgets s"
  "action_reservations (finish_cancellation v c ex r ks s) = action_reservations s"
  "calls_of (finish_cancellation v c ex r ks s) = calls_of s"
  "n \<le> next_uuid s \<Longrightarrow> n \<le> next_uuid (finish_cancellation v c ex r ks s)"
  by (simp_all add: finish_cancellation_def Let_def cancel_frames cancel_subworkflows_grows le_SucI)

lemma audit_ok_finish_cancellation:
  "audit_ok v s \<Longrightarrow> rls s (ex_org ex) \<Longrightarrow> audit_ok v (finish_cancellation v c ex r ks s)"
  unfolding finish_cancellation_def Let_def
  by (rule audit_ok_through [of v s]) (simp_all add: cancel_frames)

lemma cancel_workflow_run_follows:
  assumes ok: "sys_ok v s" and ten: "tenant s = Some (actor_org c)" and op: "cancel_workflow_run v c r s = Inr (x, s')"
  shows "life_step\<^sup>*\<^sup>* (life_of s) (life_of s') \<and> budgets_ok s' \<and> audit_ok v s' \<and> calls_of s' = calls_of s"
proof -
  obtain ex s1 where ex: "find (\<lambda>e. ex_run_id e = run_id r) (seen s ex_org (executions s)) = Some ex"
    and s1: "cancel_tool_calls (actor_id c) (now s)
        (filter (\<lambda>k. tc_execution_id k = ex_id ex) (seen s tc_org (tool_calls s))) s = Inr s1"
    and s': "s' = finish_cancellation v c ex r
        (filter (\<lambda>k. tc_execution_id k = ex_id ex) (seen s tc_org (tool_calls s))) s1"
    using op unfolding cancel_workflow_run_def Let_def ok_iff sum.inject prod.inject
    by - (elim exE conjE, rule that, (assumption | rule sym, assumption)+)
  have "rls s (ex_org ex)" using ex by (auto dest: find_Some_iff')
  then have see: "rls s1 (ex_org ex)" if "tenant s1 = tenant s" using that by (simp add: rls_def)
  have calls: "life_step\<^sup>*\<^sup>* (life_of s) (life_of s1) \<and> budgets_ok s1 \<and> audit_ok v s1 \<and> calls_of s1 = calls_of s"
    "tenant s1 = tenant s"
    using cancel_tool_calls_follows [OF ok ten _ s1] ten by (auto simp: rls_def)
  have "sys_ok v s1" by (rule follows_sys_ok [OF ok calls(1)])
  moreover have "life_step (life_of s1) (life_of s')" by (rule life_idleI) (simp_all add: s')
  moreover have "budgets_ok s'" by (rule budgets_ok_mono [of s1]) (use calls in \<open>simp_all add: s'\<close>)
  moreover have "audit_ok v s'" unfolding s' using calls see by (intro audit_ok_finish_cancellation) auto
  ultimately show ?thesis using calls(1) by (auto simp: s')
qed

lemma cancel_run_follows:
  assumes ok: "sys_ok v s" and ten: "tenant s = Some (actor_org c)" and op: "cancel_run v c run s = Inr (x, s')"
  shows "life_step\<^sup>*\<^sup>* (life_of s) (life_of s') \<and> budgets_ok s' \<and> audit_ok v s' \<and> calls_of s' = calls_of s"
proof -
  obtain r where r: "get_run s run = Some r" using op by (auto simp: cancel_run_def ok_iff)
  show ?thesis
  proof (cases "run_kind r = ''workflow''")
    case True
    then have "cancel_workflow_run v c r s = Inr (x, s')" using op r by (simp add: cancel_run_def handler_eval)
    then show ?thesis by (rule cancel_workflow_run_follows [OF ok ten])
  next
    case False
    obtain a ap p i rs s2 md att where a: "find (\<lambda>a. act_run_id a = run_id r) (seen s act_org (actions s)) = Some a"
      and p: "act_approval_id a = Some ap" "get_approval s ap = Some p" "ap_status p = ApPending"
      and i: "get_intent s (act_intent_id a) = Some i"
      and rel: "release_action_reservations (actor_org c) (act_id a) (now s)
        (upd_intent (int_id i) (\<lambda>i. i\<lparr>int_status := ''denied''\<rparr>)
        (upd_action (act_id a) (\<lambda>a. a\<lparr>act_state := Rejected, act_version := act_version a + 1\<rparr>)
        (upd_approval (ap_id p) (\<lambda>p. p\<lparr>ap_status := ApDenied, ap_decided_at := Some (now s),
           ap_decided_by := Some (actor_id c),
           ap_decision_reason := Some ''Run cancelled before approval by authenticated caller.''\<rparr>) s))) = Inr (rs, s2)"
        (is "release_action_reservations _ _ _ ?s1 = _")
      and s': "s' = audit v (actor_org c) (actor_id c) ''run.cancelled'' ''run'' (run_id r) (act_content_digest a) md
          (trace_event v (actor_org c) (run_id r) ''human-approval'' ''run.cancelled'' ''cancelled'' att
          (upd_run (run_id r) (\<lambda>r. r\<lparr>run_status := RunCancelled, run_active_node := None,
             run_completed_at := Some (now s)\<rparr>) s2))"
      using op unfolding cancel_run_def Let_def r handler_eval if_not_P [OF False] ok_iff split_paired_Ex prod.case
        sum.inject prod.inject
      by - (elim exE conjE, rule that, (assumption | rule sym, assumption)+)
    have ain: "a \<in> set (actions s)" "rls s (act_org a)" using a by (auto dest: find_Some_iff')
    have org: "act_org a = actor_org c" using ain(2) ten by (simp add: rls_def)
    have pin: "p \<in> set (approvals s)" "act_approval_id a = Some (ap_id p)" using visible_row [OF p(2)] p(1) by simp_all
    have bok: "budgets_ok ?s1" by (rule budgets_ok_mono [of s]) (use ok in \<open>simp_all add: sys_ok_def\<close>)
    note aud = release_audits [OF rel bok]
    have aok: "audit_ok v s'"
      unfolding s' using ok aud ten by (intro audit_ok_through [of v s]) (simp_all add: sys_ok_def rls_def)
    show ?thesis
      by (rule reject_follows [OF ok ain pin p(3) _ _ rel [folded org]])
        (use aok in \<open>simp_all add: s' moves_def same_lineage_def decides_def\<close>)
  qed
qed

interpretation cancel: action_service v "\<lambda>s. tenant s = Some (actor_org c)" "cancel_run v c run" for v c run
  by unfold_locales (rule cancel_run_follows)

subsection \<open>The timeout of a tool call\<close>

lemma withdraw_follows:
  assumes ok: "sys_ok v s" and ain: "a \<in> set (actions s)" and see: "rls s (act_org a)"
    and st: "act_state a = Approved" and f: "moves f Rejected 0"
    and rel: "release_action_reservations (act_org a) (act_id a) t s1 = Inr (rs, s2)"
    and s1: "actions s1 = tupd act_id (act_id a) f (actions s)"
      "approvals s1 = approvals s" "tenant s1 = tenant s" "budgets s1 = budgets s"
      "reservations s1 = reservations s" "next_uuid s \<le> next_uuid s1" "action_reservations s1 = action_reservations s"
      "calls_of s1 = calls_of s"
    and s': "actions s' = actions s2" "approvals s' = approvals s2" "budgets s' = budgets s2"
      "reservations s' = reservations s2" "next_uuid s2 \<le> next_uuid s'"
      "action_reservations s' = action_reservations s2" "calls_of s' = calls_of s2" "audit_ok v s'"
  shows "life_step\<^sup>*\<^sup>* (life_of s) (life_of s') \<and> budgets_ok s' \<and> audit_ok v s' \<and> calls_of s' = calls_of s"
proof -
  obtain qs where s2: "s2 = close_all t False [] qs s1" "budgets_ok s2"
    "reservations s2 = close_linked (life_of s) a (closing t False [])"
    using release_step [OF rel _ see s1(3-7)] ok by (auto simp: sys_ok_def)
  have "life_step (life_of s) (life_of s')"
    using s1 s' s2(3) ain st f
    by (intro life_withdrawI [of s s' a f "closing t False []"]) (simp_all add: s2(1))
  moreover have "budgets_ok s'" by (rule budgets_ok_mono [OF s2(2) s'(3-5)])
  moreover have "calls_of s' = calls_of s" using s1(8) s'(7) by (simp add: s2(1))
  ultimately show ?thesis using s'(8) by (simp add: r_into_rtranclp)
qed

lemma calls_ok_org:
  assumes "sys_ok v s" and "c \<in> set (tool_calls s)" and "a \<in> set (actions s)" and "act_id a = tc_action_id c"
  shows "act_org a = tc_org c"
proof -
  have "distinct (map act_id (actions s))" using assms(1) by (simp add: sys_ok_def life_inv_def ids_ok_def)
  moreover obtain b where "b \<in> set (actions s)" "act_id b = tc_action_id c" "act_org b = tc_org c"
    using assms(1,2) by (force simp: sys_ok_def calls_ok_def calls_of_def)
  ultimately show ?thesis using distinct_key_eq [of act_id "actions s" a b] assms(3,4) by simp
qed

text \<open>The writes of \<open>withdraw_before_effect\<close> before the release.\<close>

definition withdrawn :: "timestamp \<Rightarrow> action_row \<Rightarrow> run_row \<Rightarrow> approval_row option \<Rightarrow> outbox_row option \<Rightarrow> db \<Rightarrow> db" where
  "withdrawn t a child approval ready s = upd_run (run_id child) (\<lambda>r. r\<lparr>run_status := RunCancelled,
       run_error_code := Some ''workflow_tool_timed_out_before_effect'',
       run_active_node := None, run_completed_at := Some t\<rparr>)
     (upd_action (act_id a) (\<lambda>a. a\<lparr>act_state := Rejected,
       act_error_code := Some ''workflow_tool_timed_out_before_effect'', act_version := act_version a + 1\<rparr>)
     (let s = (case approval of
                 Some p \<Rightarrow> upd_approval (ap_id p) (\<lambda>p. p\<lparr>ap_status := ApExpired,
                   ap_decided_at := Some t,
                   ap_decision_reason := Some ''workflow tool node timeout''\<rparr>) s
               | None \<Rightarrow> s)
      in case ready of Some ev \<Rightarrow> upd_outbox (ob_id ev) (\<lambda>ev. ev\<lparr>
           ob_dispatched_at := (case ob_dispatched_at ev of None \<Rightarrow> Some t | Some d \<Rightarrow> Some d),
           ob_processed_at := Some t, ob_attempts := ob_attempts ev + 1\<rparr>) s | None \<Rightarrow> s))"

lemma withdrawn_frame [simp]:
  "actions (withdrawn t a child p ready s) = tupd act_id (act_id a) (\<lambda>b. b\<lparr>act_state := Rejected,
     act_error_code := Some ''workflow_tool_timed_out_before_effect'', act_version := act_version b + 1,
     act_updated_at := now s\<rparr>) (actions s)"
  "approvals (withdrawn t a child p ready s) = (case p of None \<Rightarrow> approvals s
     | Some p \<Rightarrow> tupd ap_id (ap_id p) (\<lambda>p. p\<lparr>ap_status := ApExpired, ap_decided_at := Some t,
         ap_decision_reason := Some ''workflow tool node timeout''\<rparr>) (approvals s))"
  "reservations (withdrawn t a child p ready s) = reservations s"
  "budgets (withdrawn t a child p ready s) = budgets s" "tenant (withdrawn t a child p ready s) = tenant s"
  "action_reservations (withdrawn t a child p ready s) = action_reservations s"
  "audits (withdrawn t a child p ready s) = audits s" "next_uuid (withdrawn t a child p ready s) = next_uuid s"
  "calls_of (withdrawn t a child p ready s) = calls_of s"
  by (simp_all add: withdrawn_def Let_def split: option.split)

lemma withdraw_before_effect_follows:
  assumes ok: "sys_ok v s" and ain: "a \<in> set (actions s)" "rls s (act_org a)" and org: "act_org a = tc_org c"
    and at: "case approval of None \<Rightarrow> act_state a = Approved
      | Some p \<Rightarrow> p \<in> set (approvals s) \<and> act_approval_id a = Some (ap_id p) \<and> ap_status p = ApPending"
    and op: "withdraw_before_effect v call c a child approval ready t s = Inr (x, s')"
  shows "life_step\<^sup>*\<^sup>* (life_of s) (life_of s') \<and> budgets_ok s' \<and> audit_ok v s' \<and> calls_of s' = calls_of s"
proof -
  let ?f = "\<lambda>b. b\<lparr>act_state := Rejected, act_error_code := Some ''workflow_tool_timed_out_before_effect'',
      act_version := act_version b + 1, act_updated_at := now s\<rparr>"
  let ?g = "\<lambda>p. p\<lparr>ap_status := ApExpired, ap_decided_at := Some t,
      ap_decision_reason := Some ''workflow tool node timeout''\<rparr>"
  obtain rs s2 att where
      rel: "release_action_reservations (tc_org c) (act_id a) t (withdrawn t a child approval ready s) = Inr (rs, s2)"
    and s': "s' = trace_event v (tc_org c) (tc_parent_run_id c) (tc_node_id c)
                ''workflow.tool_timed_out'' ''timed_out'' att
        (upd_tool_call call (\<lambda>c. c\<lparr>tc_status := TcTimedOut, tc_resolved_at := Some t\<rparr>) s2)"
    using op unfolding withdraw_before_effect_def Let_def ok_iff split_paired_Ex prod.case sum.inject prod.inject
      withdrawn_def [unfolded Let_def, symmetric]
    by - (elim exE conjE, rule that, (assumption | rule sym, assumption)+)
  have f: "moves ?f Rejected 0" by (simp add: moves_def same_lineage_def)
  have g: "decides ?g ApDenied \<or> decides ?g ApExpired" by (simp add: decides_def)
  have bok: "budgets_ok (withdrawn t a child approval ready s)"
    by (rule budgets_ok_mono [of s]) (use ok in \<open>auto simp: sys_ok_def\<close>)
  have "audits s' = audits s" using release_audits(1) [OF rel bok] by (simp add: s')
  then have aok: "audit_ok v s'" using ok by (simp add: audit_ok_cong [of s' s] sys_ok_def)
  show ?thesis
  proof (cases approval)
    case None
    then have "act_state a = Approved" using at by simp
    show ?thesis
      by (rule withdraw_follows [OF ok ain \<open>act_state a = Approved\<close> f rel [folded org]]) (use aok None in \<open>simp_all add: s'\<close>)
  next
    case (Some p)
    then have p: "p \<in> set (approvals s)" "act_approval_id a = Some (ap_id p)" "ap_status p = ApPending" using at by simp_all
    show ?thesis
      by (rule reject_follows [OF ok ain p f g rel [folded org]]) (use aok Some in \<open>simp_all add: s'\<close>)
  qed
qed

lemma expire_follows:
  assumes ok: "sys_ok v s" and ten: "tenant s = None" and op: "expire_workflow_tool_call v call t s = Inr (x, s')"
  shows "life_step\<^sup>*\<^sup>* (life_of s) (life_of s') \<and> budgets_ok s' \<and> audit_ok v s' \<and> calls_of s' = calls_of s"
proof -
  obtain c where c: "get_tool_call s call = Some c" using op by (auto simp: expire_workflow_tool_call_def split: option.splits)
  show ?thesis
  proof (cases "tc_status c \<in> set TERMINAL_TOOL_CALL_STATUSES")
    case True
    then have "s' = s" using op c by (simp add: expire_workflow_tool_call_def Let_def)
    then show ?thesis by (intro unchanged_follows [OF ok]) simp_all
  next
    case live: False
    obtain a child where a: "get_action s (tc_action_id c) = Some a" and child: "get_run s (tc_child_run_id c) = Some child"
      using op c live by (auto simp: expire_workflow_tool_call_def Let_def split: option.splits)
    have ain: "a \<in> set (actions s)" "rls s (act_org a)" "act_id a = tc_action_id c" using visible_row [OF a] by simp_all
    have cin: "c \<in> set (tool_calls s)" using visible_row [OF c] by simp
    have org: "act_org a = tc_org c" by (rule calls_ok_org [OF ok cin ain(1,3)])
    note expand = op [unfolded expire_workflow_tool_call_def Let_def c option.case if_not_P [OF live] a child prod.case]
    consider (run) "act_state a \<in> {Executing, Reconciling, ReconciliationRequired}"
      | (over) "act_state a \<in> {ActCommitted, ActFailed, DeadLettered}"
      | (early) "act_state a \<in> {Proposed, Approved, Rejected}"
      by (cases "act_state a") auto
    then show ?thesis
    proof cases
      case run
      then show ?thesis using expand by (intro unchanged_follows [OF ok]) (auto split: if_splits)
    next
      case over
      then have s': "s' = settle_workflow_tool_call v c a t s" using expand by (auto split: if_splits)
      have "audit_ok v s'" unfolding s' using ok ten by (intro audit_ok_settle_workflow_tool_call) (simp_all add: sys_ok_def rls_def)
      moreover have "life_step (life_of s) (life_of s')" by (rule life_idleI) (simp_all add: s')
      moreover have "budgets_ok s'" by (rule budgets_ok_mono [of s]) (use ok in \<open>simp_all add: s' sys_ok_def\<close>)
      ultimately show ?thesis by (simp add: s' r_into_rtranclp)
    next
      case early
      let ?ap = "if act_state a = Proposed then Option.bind (act_approval_id a) (get_approval s) else None"
      let ?safe = "act_state a = Proposed \<and> (case ?ap of Some p \<Rightarrow> ap_status p = ApPending | None \<Rightarrow> False) \<or>
          act_state a = Approved \<and> (case action_ready_event s (tc_action_id c) of
             Some ev \<Rightarrow> ob_dispatched_at ev = None | None \<Rightarrow> False)"
      show ?thesis
      proof (cases ?safe)
        case False
        then show ?thesis using expand early by (intro unchanged_follows [OF ok]) (auto split: if_splits)
      next
        case True
        then have op': "withdraw_before_effect v call c a child ?ap (action_ready_event s (tc_action_id c)) t s = Inr (x, s')"
          using expand early by (auto split: if_splits)
        have "case ?ap of None \<Rightarrow> act_state a = Approved
          | Some p \<Rightarrow> p \<in> set (approvals s) \<and> act_approval_id a = Some (ap_id p) \<and> ap_status p = ApPending"
          using True by (cases "act_approval_id a") (auto split: option.splits dest: visible_row)
        from withdraw_before_effect_follows [OF ok ain(1,2) org this op'] show ?thesis .
      qed
    qed
  qed
qed

interpretation expire: action_service v "\<lambda>s. tenant s = None" "expire_workflow_tool_call v call t" for v call t
  by unfold_locales (rule expire_follows)

subsection \<open>Creating an action\<close>

lemma life_createI:
  assumes "act_id a \<in> {next_uuid s ..< next_uuid s'}" and "act_execute_attempts a = 0"
    and "case act_approval_id a of
      None \<Rightarrow> act_state a = Approved \<and> aps = []
    | Some k \<Rightarrow> act_state a = Proposed \<and> k \<in> {next_uuid s ..< next_uuid s'} \<and>
        (\<exists>p. aps = [p] \<and> ap_id p = k \<and> ap_status p = ApPending \<and> ap_content_digest p = act_content_digest a)"
    and "distinct (map rv_id rs)" and "rv_id ` set rs \<subseteq> {next_uuid s ..< next_uuid s'}"
    and "\<forall>r \<in> set rs. rv_status r = ResActive"
    and "actions s' = actions s @ [a]" and "approvals s' = approvals s @ aps" and "reservations s' = reservations s @ rs"
    and "action_reservations s' = action_reservations s @
       map (\<lambda>r. \<lparr>ar_org = act_org a, ar_action_id = act_id a, ar_reservation_id = rv_id r\<rparr>) rs"
  shows "life_step (life_of s) (life_of s')"
proof -
  have eq: "life_of s' = (life_of s)\<lparr>lf_next := next_uuid s', lf_actions := lf_actions (life_of s) @ [a],
      lf_approvals := lf_approvals (life_of s) @ aps, lf_reservations := lf_reservations (life_of s) @ rs,
      lf_links := lf_links (life_of s) @
       map (\<lambda>r. \<lparr>ar_org = act_org a, ar_action_id = act_id a, ar_reservation_id = rv_id r\<rparr>) rs\<rparr>"
    using assms by (intro life_eqI) simp_all
  show ?thesis unfolding eq by (rule life_step.create) (use assms in \<open>simp_all split: option.splits\<close>)
qed

lemma add_lineage_frame:
  assumes "add_lineage v c req a b d pc s = (ids, s')"
  shows "actions s' = actions s" "approvals s' = approvals s" "reservations s' = reservations s"
    "budgets s' = budgets s" "action_reservations s' = action_reservations s" "audits s' = audits s"
    "tenant s' = tenant s" "next_uuid s \<le> next_uuid s'" "calls_of s' = calls_of s" "now s' = now s"
  using assms by (auto simp: add_lineage_def Let_def uuid4_def calls_of_def)

lemma reserve_frame:
  assumes "budgets_ok s" and "reserve_budgets c run est t ttl s = Inr (rs, s')"
  shows "reservations s' = reservations s @ rs" "distinct (map rv_id rs)"
    "rv_id ` set rs \<subseteq> {next_uuid s ..< next_uuid s'}" "\<forall>r \<in> set rs. rv_status r = ResActive"
    "next_uuid s \<le> next_uuid s'" "actions s' = actions s" "approvals s' = approvals s"
    "action_reservations s' = action_reservations s" "audits s' = audits s" "tenant s' = tenant s"
    "calls_of s' = calls_of s" "now s' = now s"
proof -
  have d: "distinct (map bud_id (budgets s))" using assms(1) by (simp add: budgets_ok_def budgets_wf_def)
  let ?bs = "applicable_budgets s c est"
  let ?is = "[next_uuid s ..< next_uuid s + length ?bs]"
  note eff = reserve_budgets_effect [OF d assms(2)]
  have ids: "map rv_id rs = ?is" using eff opened_ids [of ?is ?bs] by auto
  show "distinct (map rv_id rs)" by (simp add: ids)
  have "next_uuid s' = next_uuid s + length ?bs" using eff by simp
  then show "rv_id ` set rs \<subseteq> {next_uuid s ..< next_uuid s'}" using arg_cong [OF ids, of set] by simp
  show "\<forall>r \<in> set rs. rv_status r = ResActive"
  proof
    fix r assume "r \<in> set rs"
    from opened_rows [OF this [unfolded conjunct1 [OF eff]]] show "rv_status r = ResActive" by blast
  qed
qed (use reserve_budgets_effect [OF _ assms(2)] assms(1) in \<open>auto simp: budgets_ok_def budgets_wf_def calls_of_def\<close>)

lemma add_approval_frame:
  assumes "add_approval v c req d run intent content s = (approval, s')"
  shows "actions s' = actions s" "reservations s' = reservations s"
    "budgets s' = budgets s" "action_reservations s' = action_reservations s" "audits s' = audits s"
    "tenant s' = tenant s" "next_uuid s \<le> next_uuid s'" "calls_of s' = calls_of s" "now s' = now s"
    "case approval of None \<Rightarrow> approvals s' = approvals s
     | Some k \<Rightarrow> k \<in> {next_uuid s ..< next_uuid s'} \<and> (\<exists>p. approvals s' = approvals s @ [p] \<and> ap_id p = k \<and>
         ap_status p = ApPending \<and> ap_content_digest p = content)"
  using assms by (auto simp: add_approval_def Let_def uuid4_def calls_of_def split: if_splits)

lemma announce_action_frame [simp]:
  "actions (announce_action v c d run dec approval act content r rs s) = actions s"
  "approvals (announce_action v c d run dec approval act content r rs s) = approvals s"
  "reservations (announce_action v c d run dec approval act content r rs s) = reservations s"
  "budgets (announce_action v c d run dec approval act content r rs s) = budgets s"
  "action_reservations (announce_action v c d run dec approval act content r rs s) = action_reservations s"
  "calls_of (announce_action v c d run dec approval act content r rs s) = calls_of s"
  "n \<le> next_uuid s \<Longrightarrow> n \<le> next_uuid (announce_action v c d run dec approval act content r rs s)"
  by (simp_all add: announce_action_def Let_def le_SucI split: option.split)

lemma audit_ok_announce:
  assumes "audit_ok v s" and "rls s (actor_org c)"
  shows "audit_ok v (announce_action v c d run dec approval act content r rs s)"
  unfolding announce_action_def Let_def
  by (rule audit_ok_through [OF assms(1) _ _ assms(2)]) (simp_all split: option.split)

text \<open>
  The creation either replays an earlier run with the same key and content and changes nothing,
  or it adds one action, its reservations, their links and, if asked for, its approval.
\<close>

lemma create_ok:
  assumes "create_governed_action v c req nonce s = Inr (x, s')"
  obtains (replay) r where "find (\<lambda>r. run_idempotency_key r = req_idempotency_key req) (seen s run_org (runs s)) = Some r"
      "run_input_digest r = digest_of v (input_document v req)" "x = run_id r" "s' = s"
  | (new) p e a b d run intent dec content s1 rs s2 reservation approval s3 key where
      "find (\<lambda>r. run_idempotency_key r = req_idempotency_key req) (seen s run_org (runs s)) = None"
      "require_catalog s req = Inr (p, e, a)"
      "decide_policy v (active_bundle s (prj_id p)) (action_policy_context c req e (now s)) = Inr (b, d)"
      "add_lineage v c req a b d (action_policy_context c req e (now s)) s = ((run, intent, dec, content), s1)"
      "reserve_budgets (action_budget_context c req) run ACTION_BUDGET_ESTIMATES (now s1) (minutes 30) s1 = Inr (rs, s2)"
      "find (\<lambda>r. rv_resource r = ''currency:USD'') rs = Some reservation"
      "add_approval v c req d run intent content s2 = (approval, s3)"
      "decode_aes256_key v (encryption_key_b64 v) = Inr key" "x = run"
      "s' = announce_action v c d run dec approval (next_uuid s3) content reservation rs
         (link_action_reservations (actor_org c) (next_uuid s3) rs
           ((flush s3)\<lparr>next_uuid := Suc (next_uuid s3), actions := actions s3 @
              [new_action v c req (next_uuid s3) run intent dec approval (rv_id reservation) content
                 (seal_json v nonce (request_arguments req) key (action_aad_values (actor_org c) (next_uuid s3) content))
                 (now s3)]\<rparr>))"
proof -
  obtain p e a where cat: "require_catalog s req = Inr (p, e, a)"
    using assms by (auto simp: create_governed_action_def ok_iff)
  show ?thesis
  proof (cases "find (\<lambda>r. run_idempotency_key r = req_idempotency_key req) (seen s run_org (runs s))")
    case (Some r)
    then have "run_input_digest r = digest_of v (input_document v req)" "x = run_id r" "s' = s"
      using assms cat by (simp_all add: create_governed_action_def ok_iff)
    then show ?thesis by (rule replay [OF Some])
  next
    case None
    obtain q where "decide_policy v (active_bundle s (prj_id p)) (action_policy_context c req e (now s)) = Inr q"
      using assms cat None unfolding create_governed_action_def Let_def by (auto simp: rbind_ok)
    then obtain b d where pol: "decide_policy v (active_bundle s (prj_id p)) (action_policy_context c req e (now s)) = Inr (b, d)"
      by (cases q) auto
    obtain run intent dec content s1 where lin:
        "add_lineage v c req a b d (action_policy_context c req e (now s)) s = ((run, intent, dec, content), s1)"
      by (metis prod.exhaust)
    obtain q where "reserve_budgets (action_budget_context c req) run ACTION_BUDGET_ESTIMATES (now s1) (minutes 30) s1 = Inr q"
      using assms unfolding create_governed_action_def Let_def cat None pol handler_eval option.case prod.case lin
      unfolding rbind_ok by blast
    then obtain rs s2 where res: "reserve_budgets (action_budget_context c req) run ACTION_BUDGET_ESTIMATES (now s1) (minutes 30) s1
        = Inr (rs, s2)"
      by (cases q) auto
    obtain approval s3 where ap: "add_approval v c req d run intent content s2 = (approval, s3)" by fastforce
    have "fetch (find (\<lambda>r. rv_resource r = ''currency:USD'') rs) PyStopIteration (\<lambda>reservation.
        rbind (decode_aes256_key v (encryption_key_b64 v)) (\<lambda>key.
        Inr (run, announce_action v c d run dec approval (next_uuid s3) content reservation rs
         (link_action_reservations (actor_org c) (next_uuid s3) rs
           ((flush s3)\<lparr>next_uuid := Suc (next_uuid s3), actions := actions s3 @
              [new_action v c req (next_uuid s3) run intent dec approval (rv_id reservation) content
                 (seal_json v nonce (request_arguments req) key (action_aad_values (actor_org c) (next_uuid s3) content))
                 (now s3)]\<rparr>))))) = Inr (x, s')"
      using assms by (simp add: create_governed_action_def cat None pol lin res ap handler_eval uuid4_def)
    then obtain reservation key where "find (\<lambda>r. rv_resource r = ''currency:USD'') rs = Some reservation"
      "decode_aes256_key v (encryption_key_b64 v) = Inr key" "run = x"
      "announce_action v c d run dec approval (next_uuid s3) content reservation rs
         (link_action_reservations (actor_org c) (next_uuid s3) rs
           ((flush s3)\<lparr>next_uuid := Suc (next_uuid s3), actions := actions s3 @
              [new_action v c req (next_uuid s3) run intent dec approval (rv_id reservation) content
                 (seal_json v nonce (request_arguments req) key (action_aad_values (actor_org c) (next_uuid s3) content))
                 (now s3)]\<rparr>)) = s'"
      unfolding ok_iff sum.inject prod.inject by blast
    from new [OF None cat pol lin res this(1) ap this(2) this(3) [symmetric] this(4) [symmetric]] show ?thesis .
  qed
qed

lemma link_action_reservations_frame [simp]:
  "actions (link_action_reservations org k rs s) = actions s"
  "approvals (link_action_reservations org k rs s) = approvals s"
  "reservations (link_action_reservations org k rs s) = reservations s"
  "budgets (link_action_reservations org k rs s) = budgets s"
  "audits (link_action_reservations org k rs s) = audits s"
  "tenant (link_action_reservations org k rs s) = tenant s"
  "next_uuid (link_action_reservations org k rs s) = next_uuid s"
  "calls_of (link_action_reservations org k rs s) = calls_of s"
  "action_reservations (link_action_reservations org k rs s) = action_reservations s @
     map (\<lambda>r. \<lparr>ar_org = org, ar_action_id = k, ar_reservation_id = rv_id r\<rparr>) rs"
  by (simp_all add: link_action_reservations_def calls_of_def)

lemma create_follows:
  assumes ok: "sys_ok v s" and vis: "rls s (actor_org c)"
    and op: "create_governed_action v c req nonce s = Inr (x, s')"
  shows "life_step\<^sup>*\<^sup>* (life_of s) (life_of s') \<and> budgets_ok s' \<and> audit_ok v s' \<and> calls_of s' = calls_of s"
  using op
proof (cases rule: create_ok)
  case (replay r)
  then show ?thesis by (intro unchanged_follows [OF ok]) simp_all
next
  case (new p e a b d run intent dec content s1 rs s2 reservation approval s3 key)
  note lin = add_lineage_frame [OF new(4)]
  have bok1: "budgets_ok s1" by (rule budgets_ok_mono [of s]) (use ok lin in \<open>simp_all add: sys_ok_def\<close>)
  note res = reserve_frame [OF bok1 new(5)]
  note ap = add_approval_frame [OF new(7)]
  let ?act = "new_action v c req (next_uuid s3) run intent dec approval (rv_id reservation) content
      (seal_json v nonce (request_arguments req) key (action_aad_values (actor_org c) (next_uuid s3) content)) (now s3)"
  let ?aps = "drop (length (approvals s)) (approvals s3)"
  have le: "next_uuid s \<le> next_uuid s1" "next_uuid s1 \<le> next_uuid s2" "next_uuid s2 \<le> next_uuid s3"
    "Suc (next_uuid s3) \<le> next_uuid s'"
    using lin(8) res(5) ap(7) by (simp_all add: new(10))
  have calls [simp]: "calls_of (s\<lparr>next_uuid := n, actions := as\<rparr>) = calls_of s" for n as s by (simp add: calls_of_def)
  have "life_step (life_of s) (life_of s')"
  proof (rule life_createI [of ?act s s' ?aps rs])
    show "case act_approval_id ?act of
      None \<Rightarrow> act_state ?act = Approved \<and> ?aps = []
    | Some k \<Rightarrow> act_state ?act = Proposed \<and> k \<in> {next_uuid s ..< next_uuid s'} \<and>
        (\<exists>p. ?aps = [p] \<and> ap_id p = k \<and> ap_status p = ApPending \<and> ap_content_digest p = act_content_digest ?act)"
      using ap(10) le res(7) lin(2) by (auto simp: new_action_def split: option.splits)
    show "approvals s' = approvals s @ ?aps"
      using ap(10) res(7) lin(2) by (auto simp: new(10) split: option.splits)
    show "rv_id ` set rs \<subseteq> {next_uuid s ..< next_uuid s'}" using res(3) le by force
    show "act_id ?act \<in> {next_uuid s ..< next_uuid s'}" using le by (simp add: new_action_def)
  qed (use le res ap lin in \<open>simp_all add: new(10) new_action_def\<close>)
  moreover have "budgets_ok s'"
    by (rule budgets_ok_mono [OF budgets_ok_reserve [OF bok1 new(5)]]) (use ap le in \<open>simp_all add: new(10)\<close>)
  moreover have "audit_ok v s'"
    unfolding new(10) using ok vis lin res ap
    by (intro audit_ok_announce) (auto simp: sys_ok_def rls_def intro: audit_ok_cong [THEN iffD2])
  moreover have "calls_of s' = calls_of s" using lin res ap by (simp add: new(10))
  ultimately show ?thesis by (simp add: r_into_rtranclp)
qed

interpretation create: action_service v "\<lambda>s. rls s (actor_org c)" "create_governed_action v c req nonce"
  for v c req nonce
  by unfold_locales (rule create_follows)

end
