(* ===== verification/RS_Tool_Requests.thy ===== *)
theory RS_Tool_Requests
  imports RS_Simulation RS_Services
begin

section \<open>Requesting a tool call\<close>

text \<open>
  Models \<open>create_workflow_tool_call\<close> of \<open>services/workflow_tools.py\<close>: a tool node of a live
  execution becomes a governed action, under a key that binds it to the execution, node and step,
  and a tool call that names the action. The constraints of \<open>workflow_tool_calls\<close> that the flush
  enforces are part of the model, since the worker's session is not bound to a tenant.
\<close>

definition new_tool_call ::
  "env \<Rightarrow> execution_row \<Rightarrow> wf_node \<Rightarrow> tool_row \<Rightarrow> uuid \<Rightarrow> action_row \<Rightarrow> intent_row \<Rightarrow> string \<Rightarrow> json \<Rightarrow> uuid \<Rightarrow>
     timestamp \<Rightarrow> tool_call_row" where
  "new_tool_call v e n tool child a i result_key_text result_key k t =
     (let expires = min (t + seconds (node_timeout_seconds n)) (ex_deadline_at e);
          tool_digest = digest_of v (tool_document tool)
      in \<lparr>tc_id = k, tc_org = ex_org e, tc_execution_id = ex_id e, tc_parent_run_id = ex_run_id e, tc_child_run_id = child,
          tc_action_id = act_id a, tc_intent_id = int_id i, tc_tool_id = tl_id tool, tc_node_id = node_id n,
          tc_sequence = ex_step_count e, tc_result_state_key = result_key_text,
          tc_status = (if act_state a = Proposed then TcPendingApproval else TcQueued),
          tc_arguments_digest = int_arguments_digest i, tc_tool_digest = tool_digest,
          tc_action_content_digest = act_content_digest a, tc_result_digest = None,
          tc_content_digest = digest_of v (JObj
            [(''organization_id'', juuid (ex_org e)), (''workflow_execution_id'', juuid (ex_id e)),
             (''parent_run_id'', juuid (ex_run_id e)), (''child_run_id'', juuid child), (''action_id'', juuid (act_id a)),
             (''intent_id'', juuid (int_id i)), (''tool_id'', juuid (tl_id tool)), (''tool_digest'', JStr tool_digest),
             (''node_id'', JStr (node_id n)), (''sequence'', JInt (ex_step_count e)), (''result_state_key'', result_key),
             (''arguments_digest'', JStr (int_arguments_digest i)), (''action_content_digest'', JStr (act_content_digest a)),
             (''expires_at'', jtime expires)]),
          tc_expires_at = expires, tc_resolved_at = None, tc_created_at = t\<rparr>)"

text \<open>The keys and foreign keys of \<open>workflow_tool_calls\<close>.\<close>

definition tool_call_integrity :: "db \<Rightarrow> tool_call_row \<Rightarrow> bool" where
  "tool_call_integrity s k \<longleftrightarrow>
     list_all (\<lambda>c. tc_org c = tc_org k \<longrightarrow>
       \<not> (tc_execution_id c = tc_execution_id k \<and> tc_node_id c = tc_node_id k \<and> tc_sequence c = tc_sequence k) \<and>
       tc_child_run_id c \<noteq> tc_child_run_id k \<and> tc_action_id c \<noteq> tc_action_id k) (tool_calls s) \<and>
     list_ex (\<lambda>x. ex_org x = tc_org k \<and> ex_id x = tc_execution_id k \<and> ex_run_id x = tc_parent_run_id k) (executions s) \<and>
     list_ex (\<lambda>r. run_org r = tc_org k \<and> run_id r = tc_child_run_id k) (runs s) \<and>
     list_ex (\<lambda>a. act_org a = tc_org k \<and> act_id a = tc_action_id k \<and> act_run_id a = tc_child_run_id k) (actions s) \<and>
     list_ex (\<lambda>i. int_org i = tc_org k \<and> int_id i = tc_intent_id k \<and> int_run_id i = tc_child_run_id k) (intents s) \<and>
     list_ex (\<lambda>t. tl_org t = tc_org k \<and> tl_id t = tc_tool_id k) (tools s)"

text \<open>The timeout event, the waiting execution and run, the processed event, the trace and the audit.\<close>

definition announce_tool_call :: "env \<Rightarrow> execution_row \<Rightarrow> run_row \<Rightarrow> outbox_row \<Rightarrow> tool_call_row \<Rightarrow> db \<Rightarrow> db" where
  "announce_tool_call v e r ev k s =
     (let s = add_outbox (ex_org e) ''workflow.ready'' ''workflow_execution'' (ex_id e)
            (''workflow.tool:'' @ uuid_str (tc_id k) @ '':timeout'')
            (JObj [(''workflow_execution_id'', juuid (ex_id e)), (''workflow_tool_call_id'', juuid (tc_id k)),
                   (''content_digest'', JStr (tc_content_digest k)), (''reason'', JStr ''timeout'')]) (tc_expires_at k) s;
          s = upd_execution (ex_id e) (\<lambda>e. e\<lparr>ex_status := ExWaiting, ex_claim_hash := None, ex_lease_expires_at := None\<rparr>) s;
          s = upd_run (run_id r) (\<lambda>r. r\<lparr>run_status := RunWaiting, run_active_node := Some (tc_node_id k)\<rparr>) s;
          s = upd_outbox (ob_id ev) (\<lambda>ev. ev\<lparr>ob_processed_at := Some (now s)\<rparr>) s;
          s = trace_event v (ex_org e) (ex_run_id e) (tc_node_id k) ''workflow.tool_requested''
                (tool_call_status_value (tc_status k))
                (JObj [(''workflow_tool_call_id'', juuid (tc_id k)), (''child_run_id'', juuid (tc_child_run_id k)),
                       (''action_id'', juuid (tc_action_id k)), (''tool_id'', juuid (tc_tool_id k)),
                       (''tool_digest'', JStr (tc_tool_digest k)), (''arguments_digest'', JStr (tc_arguments_digest k)),
                       (''action_content_digest'', JStr (tc_action_content_digest k)),
                       (''raw_content_captured'', JBool False)]) s
      in audit v (ex_org e) (run_actor_id r) ''workflow.tool_requested'' ''workflow_tool_call'' (tc_id k) (tc_content_digest k)
           (JObj [(''workflow_execution_id'', juuid (ex_id e)), (''parent_run_id'', juuid (ex_run_id e)),
                  (''child_run_id'', juuid (tc_child_run_id k)), (''action_id'', juuid (tc_action_id k)),
                  (''status'', JStr (tool_call_status_value (tc_status k))), (''raw_content_captured'', JBool False)]) s)"

definition tool_actor :: "execution_row \<Rightarrow> run_row \<Rightarrow> actor_context" where
  "tool_actor e r = \<lparr>actor_org = ex_org e, actor_id = run_actor_id r, actor_type = run_actor_type r\<rparr>"

text \<open>The tool, the arguments in the state and the request they make.\<close>

definition tool_request ::
  "py_values \<Rightarrow> execution_row \<Rightarrow> run_row \<Rightarrow> wf_node \<Rightarrow> json \<Rightarrow> db \<Rightarrow> rs_error + tool_row \<times> governed_action_input" where
  "tool_request p e r n state s =
     (let unavailable =
            rs_err INVALID_TRANSITION ''The referenced tool is unavailable or is not supported by this executor.'' 409
      in config_uuid_item n ''tool_id'' (\<lambda>tool_id.
         fetch (get_tool s tool_id) unavailable (\<lambda>tool.
         require (tool_supported tool) unavailable (
         config_item n ''arguments_state_key'' (\<lambda>key.
         fetch (state_object state (py_str p key))
           (rs_err VALIDATION_FAILED ''The tool arguments state key must contain an object.'' 422) (\<lambda>args.
         case parse_action_input p (action_input_dict args r (tool_call_key ''workflow-tool'' e n)) of
           Inl errors \<Rightarrow>
             Inl (RunSigilError VALIDATION_FAILED
               ''The encrypted workflow state does not satisfy the tool input contract.'' 422 (JObj [(''issues'', errors)]))
         | Inr req \<Rightarrow> Inr (tool, req)))))))"

definition create_workflow_tool_call ::
  "env \<Rightarrow> py_values \<Rightarrow> string \<Rightarrow> execution_row \<Rightarrow> run_row \<Rightarrow> wf_node \<Rightarrow> json \<Rightarrow> outbox_row \<Rightarrow> db \<Rightarrow>
     rs_error + tool_call_row \<times> db" where
  "create_workflow_tool_call v p nonce e r n state ev s =
     rbind (tool_request p e r n state s) (\<lambda>(tool, req).
     rbind (create_governed_action v (tool_actor e r) req nonce s) (\<lambda>(child, s).
     fetch (find (\<lambda>a. act_run_id a = child) (seen s act_org (actions s)))
       (PyRuntimeError ''governed workflow tool action was not persisted'') (\<lambda>a.
     fetch (get_intent s (act_intent_id a)) (PyRuntimeError ''governed workflow tool intent was not persisted'') (\<lambda>i.
     config_item n ''result_state_key'' (\<lambda>result_key.
     let (k, s) = uuid4 s;
         call = new_tool_call v e n tool child a i (py_str p result_key) result_key k (now s)
     in require (tool_call_integrity s call) PyIntegrityError (
        Inr (call, announce_tool_call v e r ev call (flush (s\<lparr>tool_calls := tool_calls s @ [call]\<rparr>)))))))))"

subsection \<open>The request follows the lifecycle\<close>

lemma announce_tool_call_frame [simp]:
  "actions (announce_tool_call v e r ev k s) = actions s" "approvals (announce_tool_call v e r ev k s) = approvals s"
  "reservations (announce_tool_call v e r ev k s) = reservations s" "budgets (announce_tool_call v e r ev k s) = budgets s"
  "action_reservations (announce_tool_call v e r ev k s) = action_reservations s"
  "tool_calls (announce_tool_call v e r ev k s) = tool_calls s" "intents (announce_tool_call v e r ev k s) = intents s"
  "tenant (announce_tool_call v e r ev k s) = tenant s" "next_uuid s \<le> next_uuid (announce_tool_call v e r ev k s)"
  by (simp_all add: announce_tool_call_def Let_def)

lemma audit_ok_announce_tool_call:
  assumes "audit_ok v s" and "rls s (ex_org e)"
  shows "audit_ok v (announce_tool_call v e r ev k s)"
  unfolding announce_tool_call_def Let_def by (rule audit_ok_through [OF assms(1) _ _ assms(2)]) simp_all

lemma request_ok:
  assumes "create_workflow_tool_call v p nonce e r n state ev s = Inr (call, s')"
  obtains tool req child s1 a i result_key where "tool_request p e r n state s = Inr (tool, req)"
    "create_governed_action v (tool_actor e r) req nonce s = Inr (child, s1)"
    "find (\<lambda>a. act_run_id a = child) (seen s1 act_org (actions s1)) = Some a" "get_intent s1 (act_intent_id a) = Some i"
    "call = new_tool_call v e n tool child a i (py_str p result_key) result_key (next_uuid s1) (now s1)"
    "tool_call_integrity (s1\<lparr>next_uuid := Suc (next_uuid s1)\<rparr>) call"
    "s' = announce_tool_call v e r ev call (flush (s1\<lparr>next_uuid := Suc (next_uuid s1), tool_calls := tool_calls s1 @ [call]\<rparr>))"
  using assms by (auto simp: create_workflow_tool_call_def config_item_def ok_iff uuid4_def Let_def)

lemma announce_action_tenant: "tenant (announce_action v c d run dec approval act content r rs s) = tenant s"
  by (simp add: announce_action_def Let_def split: option.split)

lemma create_tenant:
  assumes "budgets_ok s" and "create_governed_action v c req nonce s = Inr (x, s')"
  shows "tenant s' = tenant s" "tool_calls s' = tool_calls s" "\<exists>new. actions s' = actions s @ new \<and> length new \<le> 1"
  using assms(2)
proof (atomize (full), cases rule: create_ok)
  case (new p e a b d run intent dec content s1 rs s2 reservation approval s3 key)
  have tables: "tool_calls s1 = tool_calls s" using new(4) by (auto simp: add_lineage_def Let_def uuid4_def)
  note lin = add_lineage_frame [OF new(4)]
  have bok: "budgets_ok s1" by (rule budgets_ok_mono [of s]) (use assms(1) lin in simp_all)
  note res = reserve_frame [OF bok new(5)] and ap = add_approval_frame [OF new(7)]
  have "tool_calls s2 = tool_calls s1"
    using reserve_budgets_effect [OF _ new(5)] bok by (auto simp: budgets_ok_def budgets_wf_def)
  moreover have "tool_calls s3 = tool_calls s2" using new(7) by (auto simp: add_approval_def Let_def uuid4_def split: if_splits)
  moreover have "tool_calls (announce_action v c d run dec approval k content reservation rs z) = tool_calls z" for k z
    by (simp add: announce_action_def Let_def split: option.split)
  ultimately show "tenant s' = tenant s \<and> tool_calls s' = tool_calls s \<and> (\<exists>new. actions s' = actions s @ new \<and> length new \<le> 1)"
    using lin res ap tables by (simp add: new(10) announce_action_tenant link_action_reservations_def)
qed simp

lemma new_call_names:
  assumes ok: "sys_ok v s" and a: "find (\<lambda>a. act_run_id a = child) (seen s act_org (actions s)) = Some a"
    and call: "call = new_tool_call v e n tool child a i kt key k t"
    and integrity: "tool_call_integrity (s\<lparr>next_uuid := j\<rparr>) call"
  shows "tc_action_id call \<notin> (fst \<circ> snd) ` set (calls_of s)"
    "\<exists>b \<in> set (actions s). act_id b = tc_action_id call \<and> act_org b = tc_org call \<and> act_run_id b = tc_child_run_id call \<and>
       act_content_digest b = tc_action_content_digest call"
proof -
  have d: "distinct (map act_id (actions s))" using ok by (simp add: sys_ok_def life_inv_def ids_ok_def)
  have a': "a \<in> set (actions s)" "act_run_id a = child" using a by (auto dest: find_Some_iff')
  have fields: "tc_action_id call = act_id a" "tc_child_run_id call = child" "tc_action_content_digest call = act_content_digest a"
    by (simp_all add: call new_tool_call_def Let_def)
  obtain b where "b \<in> set (actions s)" "act_id b = act_id a" "act_org b = tc_org call"
    using integrity fields by (auto simp: tool_call_integrity_def list_ex_iff)
  then have org: "act_org a = tc_org call" using distinct_key_eq [OF d _ a'(1), of b] by simp
  with a' fields show "\<exists>b \<in> set (actions s). act_id b = tc_action_id call \<and> act_org b = tc_org call \<and>
       act_run_id b = tc_child_run_id call \<and> act_content_digest b = tc_action_content_digest call" by auto
  have "tc_action_id c \<noteq> tc_action_id call" if "c \<in> set (tool_calls s)" for c
  proof
    assume "tc_action_id c = tc_action_id call"
    then have "tc_org c = tc_org call" using calls_ok_org [OF ok that a'(1)] fields org by simp
    with integrity that \<open>tc_action_id c = tc_action_id call\<close> show False by (auto simp: tool_call_integrity_def list_all_iff)
  qed
  then show "tc_action_id call \<notin> (fst \<circ> snd) ` set (calls_of s)" by (fastforce simp: calls_of_def)
qed

lemma request_keeps:
  assumes ok: "sys_ok v s" and vis: "rls s (ex_org e)"
    and op: "create_workflow_tool_call v p nonce e r n state ev s = Inr (call, s')"
  shows "sys_ok v s' \<and> life_step\<^sup>*\<^sup>* (life_of s) (life_of s')"
  using op
proof (rule request_ok)
  fix tool req child s1 a i result_key
  assume create: "create_governed_action v (tool_actor e r) req nonce s = Inr (child, s1)"
    and a: "find (\<lambda>a. act_run_id a = child) (seen s1 act_org (actions s1)) = Some a"
    and call: "call = new_tool_call v e n tool child a i (py_str p result_key) result_key (next_uuid s1) (now s1)"
    and integrity: "tool_call_integrity (s1\<lparr>next_uuid := Suc (next_uuid s1)\<rparr>) call"
    and s': "s' = announce_tool_call v e r ev call (flush (s1\<lparr>next_uuid := Suc (next_uuid s1), tool_calls := tool_calls s1 @ [call]\<rparr>))"
  have "rls s (actor_org (tool_actor e r))" using vis by (simp add: tool_actor_def)
  note follows = create_follows [OF ok this create]
  have ok1: "sys_ok v s1" by (rule follows_sys_ok [OF ok follows])
  have bok: "budgets_ok s" using ok by (simp add: sys_ok_def)
  have ten: "tenant s1 = tenant s" by (rule create_tenant(1) [OF bok create])
  have le: "Suc (next_uuid s1) \<le> next_uuid s'"
    using announce_tool_call_frame(9) [of "flush (s1\<lparr>next_uuid := Suc (next_uuid s1), tool_calls := tool_calls s1 @ [call]\<rparr>)"]
    by (simp add: s')
  have step: "life_step (life_of s1) (life_of s')" by (rule life_idleI) (use le in \<open>simp_all add: s'\<close>)
  have calls: "calls_of s' = calls_of s1 @ [(tc_org call, tc_action_id call, tc_child_run_id call, tc_action_content_digest call)]"
    "actions s' = actions s1" "calls_ok s1" using ok1 by (simp_all add: s' calls_of_def sys_ok_def)
  have "calls_ok s'" using new_call_names [OF ok1 a call integrity] calls by (auto simp: calls_ok_def)
  moreover have "audit_ok v s'"
    unfolding s'
  proof (rule audit_ok_announce_tool_call)
    show "audit_ok v (flush (s1\<lparr>next_uuid := Suc (next_uuid s1), tool_calls := tool_calls s1 @ [call]\<rparr>))"
      by (rule audit_ok_cong [of _ s1, THEN iffD2]) (use ok1 in \<open>auto simp: sys_ok_def\<close>)
  qed (use vis ten in \<open>simp add: rls_def\<close>)
  moreover have "budgets_ok s'" by (rule budgets_ok_mono [of s1]) (use ok1 le in \<open>simp_all add: s' sys_ok_def\<close>)
  moreover have "life_inv (life_of s')" using ok1 life.steps_inv [OF r_into_rtranclp [of life_step, OF step]] by (simp add: sys_ok_def)
  ultimately show ?thesis using rtranclp.rtrancl_into_rtrancl [OF conjunct1 [OF follows] step] by (simp add: sys_ok_def)
qed

interpretation request: service v "\<lambda>s. rls s (ex_org e)" "create_workflow_tool_call v p nonce e r n state ev"
  for v p nonce e r n state ev
  by unfold_locales (rule request_keeps)

end
