(* ===== verification/RS_Protocol.thy ===== *)
theory RS_Protocol
  imports RS_Tool_Requests
begin

section \<open>The running system\<close>

text \<open>
  The control API and the worker as one transition system over the database: every request and
  every worker pass is a transaction on it, in any order and any number, on sessions opened
  for any tenant (the API) or for none (the worker), while the catalog, the policies and the
  workflow tables change as they please. Its reachable states satisfy what the lifecycle promises.
\<close>

subsection \<open>Steps\<close>

inductive sys_step :: "env \<Rightarrow> db \<Rightarrow> db \<Rightarrow> bool" for v where
  session: "now s \<le> t \<Longrightarrow> sys_step v s (s\<lparr>now := t, tenant := org, autoflush := flag\<rparr>)"
| catalog: "sys_step v s (s\<lparr>projects := ps, environments := es, systems := ss, workloads := ws, agents := ags,
    policy_bundles := pbs, budget_scopes := bss, tools := tls, model_routes := mrs\<rparr>)"
| workflow: "sys_step v s (s\<lparr>executions := exs, waits := wts, subworkflow_calls := scs, model_calls := mcs,
    model_call_links := mls, workflows := wfs, versions := vers, deployments := deps, checkpoints := cps,
    node_policies := nps, profiles := prs, simulation_calls := sims, replays := reps, attempts := atts,
    datasets := dts, dataset_versions := dvs, scenarios := scens, evaluations := evs, evaluation_results := ers,
    annotations := ans\<rparr>)"
| create: "tenant s = Some (actor_org c) \<Longrightarrow>
    sys_step v s (snd (transaction (create_governed_action v c req nonce) s))"
| decide: "tenant s = Some (actor_org c) \<Longrightarrow>
    sys_step v s (snd (transaction (decide_approval v c ap sub dec reason) s))"
| cancel: "tenant s = Some (actor_org c) \<Longrightarrow> sys_step v s (snd (transaction (cancel_run v c run) s))"
| redrive: "tenant s = Some (actor_org c) \<Longrightarrow>
    sys_step v s (snd (transaction (redrive_dead_letter v c letter version reason) s))"
| claim_ready: "tenant s = None \<Longrightarrow> sys_step v s (snd (transaction (claim_ready v token) s))"
| claim_reconciliation: "tenant s = None \<Longrightarrow> sys_step v s (snd (transaction (claim_reconciliation v token) s))"
| settle: "tenant s = None \<Longrightarrow> sys_step v s (snd (transaction (settle v cl res) s))"
| request_tool: "tenant s = None \<Longrightarrow>
    sys_step v s (snd (transaction (create_workflow_tool_call v p nonce e r n state ev) s))"
| expire: "tenant s = None \<Longrightarrow> sys_step v s (snd (transaction (expire_workflow_tool_call v call t) s))"

definition sys_init :: "db \<Rightarrow> bool" where
  "sys_init s \<longleftrightarrow> actions s = [] \<and> approvals s = [] \<and> reservations s = [] \<and> action_reservations s = [] \<and>
     audits s = [] \<and> tool_calls s = [] \<and> distinct (map bud_id (budgets s)) \<and>
     (\<forall>b \<in> set (budgets s). bud_reserved b = 0 \<and> 0 \<le> bud_spent b \<and> bud_spent b \<le> bud_limit b)"

definition reachable :: "env \<Rightarrow> db \<Rightarrow> bool" where
  "reachable v s \<longleftrightarrow> (\<exists>s0. sys_init s0 \<and> (sys_step v)\<^sup>*\<^sup>* s0 s)"

subsection \<open>The system keeps its invariant and follows the lifecycle\<close>

lemma sys_init_ok: "sys_init s \<Longrightarrow> sys_ok v s"
  by (auto simp: sys_init_def sys_ok_def life_inv_def ids_ok_def attempts_ok_def approvals_ok_def holds_ok_def
      owners_ok_def budgets_ok_def budgets_wf_def within_limits_def audit_ok_def audit_rows_def calls_ok_def calls_of_def
      held_def)

lemma quiet_step:
  assumes "sys_ok v s" and "life_of s' = life_of s" and "budgets s' = budgets s" and "audits s' = audits s"
    and "tool_calls s' = tool_calls s"
  shows "sys_ok v s' \<and> life_step\<^sup>*\<^sup>* (life_of s) (life_of s')"
proof -
  have "next_uuid s' = next_uuid s" "reservations s' = reservations s" "actions s' = actions s"
    using arg_cong [OF assms(2), of lf_next] arg_cong [OF assms(2), of lf_reservations]
      arg_cong [OF assms(2), of lf_actions] by simp_all
  with assms budgets_ok_mono [of s s'] show ?thesis
    by (simp add: sys_ok_def audit_ok_cong [of s' s] calls_ok_def calls_of_def)
qed

lemma sys_step_follows:
  assumes "sys_step v s s'" and "sys_ok v s"
  shows "sys_ok v s' \<and> life_step\<^sup>*\<^sup>* (life_of s) (life_of s')"
  using assms
proof cases
  case (session t org flag)
  then show ?thesis using quiet_step [OF assms(2), of s'] by (simp add: life_of_def)
next
  case (catalog ps es ss ws ags pbs bss tls mrs)
  then show ?thesis using quiet_step [OF assms(2), of s'] by (simp add: life_of_def)
next
  case (workflow exs wts scs mcs mls wfs vers deps cps nps prs sims reps atts)
  then show ?thesis using quiet_step [OF assms(2), of s'] by (simp add: life_of_def)
next
  case (create c req nonce)
  have "rls s (actor_org c)" using create(2) by (simp add: rls_def)
  then show ?thesis unfolding create(1) by (rule create.transaction_follows [OF assms(2)])
next
  case (decide c ap sub dec reason)
  show ?thesis unfolding decide(1) by (rule decide.transaction_follows [OF assms(2) decide(2)])
next
  case (cancel c run)
  show ?thesis unfolding cancel(1) by (rule cancel.transaction_follows [OF assms(2) cancel(2)])
next
  case (redrive c letter version reason)
  show ?thesis unfolding redrive(1) by (rule redrive.transaction_follows [OF assms(2) redrive(2)])
next
  case (claim_ready token)
  show ?thesis unfolding claim_ready(1) by (rule claim_ready.transaction_follows [OF assms(2) claim_ready(2)])
next
  case (claim_reconciliation token)
  show ?thesis unfolding claim_reconciliation(1)
    by (rule claim_reconciliation.transaction_follows [OF assms(2) claim_reconciliation(2)])
next
  case (settle cl res)
  show ?thesis unfolding settle(1) by (rule settle.transaction_follows [OF assms(2) settle(2)])
next
  case (request_tool p nonce e r n state ev)
  have "rls s (ex_org e)" using request_tool(2) by (simp add: rls_def)
  then show ?thesis unfolding request_tool(1) by (rule request.transaction_follows [OF assms(2)])
next
  case (expire call t)
  show ?thesis unfolding expire(1) by (rule expire.transaction_follows [OF assms(2) expire(2)])
qed

interpretation sys: step_invariant "sys_step v" "sys_ok v" for v
  by unfold_locales (use sys_step_follows in blast)

lemma sys_steps_follow: "(sys_step v)\<^sup>*\<^sup>* s s' \<Longrightarrow> sys_ok v s \<Longrightarrow> life_step\<^sup>*\<^sup>* (life_of s) (life_of s')"
proof (induction rule: rtranclp_induct)
  case (step t u)
  then show ?case using sys_step_follows sys.steps_inv by (meson rtranclp_trans)
qed simp

lemma reachable_ok: "reachable v s \<Longrightarrow> sys_ok v s"
  using sys_init_ok sys.steps_inv by (auto simp: reachable_def)

lemma reachable_steps: "reachable v s \<Longrightarrow> (sys_step v)\<^sup>*\<^sup>* s s' \<Longrightarrow> reachable v s'"
  unfolding reachable_def by (meson rtranclp_trans)

end
