(* ===== verification/RS_Sample_Run.thy ===== *)
theory RS_Sample_Run
  imports RS_Protocol
begin

section \<open>A sample run\<close>

text \<open>
  A concrete run of the system, from an initial database over the creation of an action that needs
  approval, its approval and its claim by the worker. The properties of the running system are
  applied to its states. Its environment answers with constants where the services only compare
  digests or open payloads they sealed.
\<close>

definition demo_env :: env where
  "demo_env = sample_env\<lparr>sha256_hex := (\<lambda>s. ''h''), json_loads := (\<lambda>s. Some (JObj [])),
     parse_bundle := (\<lambda>j. Some sample_bundle)\<rparr>"

definition demo_db :: db where
  "demo_db = sample_ledger\<lparr>tenant := Some 7,
     projects := [\<lparr>prj_id = 10, prj_org = 7\<rparr>],
     environments := [\<lparr>envr_id = 11, envr_org = 7, envr_type = ''production''\<rparr>],
     systems := [\<lparr>sys_id = 12, sys_org = 7, sys_project_id = 10\<rparr>],
     workloads := [\<lparr>wl_id = 13, wl_org = 7, wl_subject = ''spiffe'', wl_active = True\<rparr>],
     agents := [\<lparr>agt_id = 14, agt_org = 7, agt_system_id = 12, agt_workload_id = 13\<rparr>],
     policy_bundles := [\<lparr>pb_id = 15, pb_org = 7, pb_project_id = 10, pb_status = ''active'',
        pb_document = bundle_json sample_bundle, pb_content_digest = ''sha256:h'', pb_created_at = 1\<rparr>]\<rparr>"

definition demo_actor :: actor_context where
  "demo_actor = \<lparr>actor_org = 7, actor_id = 20, actor_type = ''user''\<rparr>"

definition demo_request :: governed_action_input where
  "demo_request = \<lparr>req_project_id = 10, req_environment_id = 11, req_agent_id = 14, req_recipient = ''ann@example.com'', req_amount_cents = 500, req_description = ''d'',
     req_idempotency_key = ''key-1'', req_simulate_outcome = ''committed''\<rparr>"

definition demo_1 :: db where
  "demo_1 = snd (transaction (create_governed_action demo_env demo_actor demo_request ''abcdefghijkl'') demo_db)"

lemma demo_digest [simp]: "digest_of demo_env j = ''sha256:h''"
  by (simp add: digest_of_def demo_env_def json_digest_def)

lemma demo_env_simps [simp]:
  "parse_bundle demo_env j = Some sample_bundle" "b64_decode demo_env x = Some x"
  "encryption_key_b64 demo_env = sample_key" "json_loads demo_env x = Some (JObj [])"
  "approval_ttl_seconds demo_env = 900" "current_span demo_env = None"
  "b64url_encode demo_env x = x" "b64url_decode demo_env x = Some x"
  "aes_decrypt demo_env k n c d = Some (take (length c - 16) c)"
  by (simp_all add: demo_env_def sample_env_def)

lemmas demo_eval = handler_eval Let_def seen_def rls_def tget_def tupd_def uuid4_def flush_def transaction_def

abbreviation demo_bundle_row :: policy_bundle_row where
  "demo_bundle_row \<equiv> \<lparr>pb_id = 15, pb_org = 7, pb_project_id = 10, pb_status = ''active'',
        pb_document = bundle_json sample_bundle, pb_content_digest = ''sha256:h'', pb_created_at = 1\<rparr>"

abbreviation demo_agent :: agent_row where
  "demo_agent \<equiv> \<lparr>agt_id = 14, agt_org = 7, agt_system_id = 12, agt_workload_id = 13\<rparr>"

abbreviation demo_environment :: environment_row where
  "demo_environment \<equiv> \<lparr>envr_id = 11, envr_org = 7, envr_type = ''production''\<rparr>"

abbreviation demo_decision :: policy_decision where
  "demo_decision \<equiv> \<lparr>dec_effect = REQUIRE_APPROVAL, dec_reason_code = ''review'', dec_reason = ''review'',
       dec_policy_digest = ''sha256:h'', dec_expires_at = 100 + minutes 10\<rparr>"

lemma demo_actor_simps [simp]: "actor_org demo_actor = 7" "actor_id demo_actor = 20" "actor_type demo_actor = ''user''"
  by (simp_all add: demo_actor_def)

lemma demo_db_fields [simp]:
  "now demo_db = 100" "tenant demo_db = Some 7" "autoflush demo_db = False" "next_uuid demo_db = 1000"
  "runs demo_db = []" "approvals demo_db = []" "actions demo_db = []" "outbox demo_db = []" "tool_calls demo_db = []"
  "intents demo_db = []" "budgets demo_db = budgets sample_ledger" "budget_scopes demo_db = budget_scopes sample_ledger"
  "reservations demo_db = []" "dead_letters demo_db = []" "traces demo_db = []" "pending_traces demo_db = []"
  by (simp_all add: demo_db_def sample_ledger_def empty_db_def)

lemma demo_catalog: "require_catalog demo_db demo_request =
   Inr (\<lparr>prj_id = 10, prj_org = 7\<rparr>, demo_environment, demo_agent)"
  by (simp add: require_catalog_def demo_eval demo_db_def demo_request_def)

lemma demo_bundle: "active_bundle demo_db 10 = Some demo_bundle_row"
  by (simp add: active_bundle_def demo_eval demo_db_def)

lemma demo_policy:
  "decide_policy demo_env (Some demo_bundle_row) (action_policy_context demo_actor demo_request demo_environment 100) =
   Inr (demo_bundle_row, demo_decision)"
  by (simp add: decide_policy_def evaluate_def handler_eval Let_def policy_context_valid_def action_policy_context_def
   demo_request_def sample_bundle_def rule_applies_def ACTION_TYPE_def)

lemma demo_applicable:
  assumes "budgets s = budgets sample_ledger" "budget_scopes s = budget_scopes sample_ledger" "tenant s = Some 7"
  shows "applicable_budgets s (action_budget_context demo_actor demo_request) ACTION_BUDGET_ESTIMATES =
    budgets sample_ledger"
  using assms
  by (simp add: ledger_eval ACTION_BUDGET_ESTIMATES_def action_budget_context_def demo_actor_def demo_request_def)

lemma demo_reserve:
  assumes "budgets s = budgets sample_ledger" "budget_scopes s = budget_scopes sample_ledger" "tenant s = Some 7"
  shows "reserve_budgets (action_budget_context demo_actor demo_request) run ACTION_BUDGET_ESTIMATES t ttl s =
    Inr (add_reservations 7 run ACTION_BUDGET_ESTIMATES (t + ttl) (budgets sample_ledger) s)"
  unfolding reserve_budgets_def demo_applicable [OF assms]
  by (simp add: ledger_eval ACTION_BUDGET_ESTIMATES_def action_budget_context_def demo_actor_def)

definition demo_lin :: db where
  "demo_lin = snd (add_lineage demo_env demo_actor demo_request demo_agent demo_bundle_row demo_decision
        (action_policy_context demo_actor demo_request demo_environment 100) demo_db)"

abbreviation demo_intent :: intent_row where
  "demo_intent \<equiv> \<lparr>int_id = 1002, int_org = 7, int_run_id = 1000, int_actor_id = 20, int_delegation_id = 1001,
     int_action_type = ACTION_TYPE, int_arguments_digest = ''sha256:h'', int_content_digest = ''sha256:h'',
     int_idempotency_key = ''key-1'', int_status = ''authorized''\<rparr>"

lemma demo_lineage:
  "add_lineage demo_env demo_actor demo_request demo_agent demo_bundle_row demo_decision
     (action_policy_context demo_actor demo_request demo_environment 100) demo_db =
   ((1000, 1002, 1003, ''sha256:h''), demo_lin)"
  by (simp add: demo_lin_def add_lineage_def Let_def uuid4_def)

lemma demo_lin_fields [simp]:
  "now demo_lin = 100" "tenant demo_lin = Some 7" "autoflush demo_lin = False" "next_uuid demo_lin = 1004"
  "runs demo_lin = [new_run demo_env demo_actor demo_request 1000 100]" "approvals demo_lin = []" "actions demo_lin = []"
  "outbox demo_lin = []" "tool_calls demo_lin = []" "intents demo_lin = [demo_intent]"
  "budgets demo_lin = budgets sample_ledger" "budget_scopes demo_lin = budget_scopes sample_ledger"
  "reservations demo_lin = []" "dead_letters demo_lin = []" "traces demo_lin = []" "pending_traces demo_lin = []"
  by (simp_all add: demo_lin_def add_lineage_def Let_def uuid4_def demo_request_def)

definition demo_rs :: "reservation_row list" where
  "demo_rs = fst (add_reservations 7 1000 ACTION_BUDGET_ESTIMATES (100 + minutes 30) (budgets sample_ledger) demo_lin)"

definition demo_res :: db where
  "demo_res = snd (add_reservations 7 1000 ACTION_BUDGET_ESTIMATES (100 + minutes 30) (budgets sample_ledger) demo_lin)"

lemma demo_reserved:
  "reserve_budgets (action_budget_context demo_actor demo_request) 1000 ACTION_BUDGET_ESTIMATES 100 (minutes 30) demo_lin =
    Inr (demo_rs, demo_res)"
  by (simp add: demo_reserve demo_rs_def demo_res_def)

lemma demo_res_fields [simp]:
  "now demo_res = 100" "tenant demo_res = Some 7" "autoflush demo_res = False" "next_uuid demo_res = 1008"
  "runs demo_res = [new_run demo_env demo_actor demo_request 1000 100]" "approvals demo_res = []" "actions demo_res = []"
  "outbox demo_res = []" "tool_calls demo_res = []" "intents demo_res = [demo_intent]"
  "dead_letters demo_res = []" "traces demo_res = []" "pending_traces demo_res = []"
  by (simp_all add: demo_res_def sample_ledger_def sample_budget_def Let_def uuid4_def)

lemma demo_rs_head: "\<exists>r. find (\<lambda>r. rv_resource r = ''currency:USD'') demo_rs = Some r \<and> rv_id r = 1004"
  by (simp add: demo_rs_def sample_ledger_def sample_budget_def Let_def uuid4_def)

definition demo_usd :: reservation_row where
  "demo_usd = the (find (\<lambda>r. rv_resource r = ''currency:USD'') demo_rs)"

lemma demo_usd: "find (\<lambda>r. rv_resource r = ''currency:USD'') demo_rs = Some demo_usd" "rv_id demo_usd = 1004"
  using demo_rs_head by (auto simp: demo_usd_def)

abbreviation demo_approval :: approval_row where
  "demo_approval \<equiv> \<lparr>ap_id = 1008, ap_org = 7, ap_run_id = 1000, ap_intent_id = 1002, ap_content_digest = ''sha256:h'',
     ap_status = ApPending, ap_risk = ''high'', ap_reason = ''review'', ap_request_preview = request_preview True demo_request,
     ap_expires_at = 100 + seconds 900, ap_decided_at = None, ap_decided_by = None, ap_decision_reason = None\<rparr>"

definition demo_action :: action_row where
  "demo_action = new_action demo_env demo_actor demo_request 1009 1000 1002 1003 (Some 1008) 1004 ''sha256:h''
     (seal_json demo_env ''abcdefghijkl'' (request_arguments demo_request) sample_key
        (action_aad_values 7 1009 ''sha256:h'')) 100"

lemma demo_created:
  "create_governed_action demo_env demo_actor demo_request ''abcdefghijkl'' demo_db =
   Inr (1000, announce_action demo_env demo_actor demo_decision 1000 1003 (Some 1008) 1009 ''sha256:h'' demo_usd demo_rs
     (link_action_reservations 7 1009 demo_rs
       ((flush (demo_res\<lparr>next_uuid := 1009, approvals := [demo_approval]\<rparr>))\<lparr>next_uuid := 1010, actions := [demo_action]\<rparr>)))"
  by (simp add: create_governed_action_def handler_eval demo_catalog demo_bundle demo_policy demo_lineage demo_reserved
      demo_usd add_approval_def uuid4_def seen_def decode_aes256_key_def sample_key_def demo_action_def)

lemma demo_1_fields [simp]:
  "now demo_1 = 100" "tenant demo_1 = Some 7" "autoflush demo_1 = False" "actions demo_1 = [demo_action]"
  "approvals demo_1 = [demo_approval]" "intents demo_1 = [demo_intent]" "tool_calls demo_1 = []" "outbox demo_1 = []"
  "dead_letters demo_1 = []"
  "runs demo_1 = [(new_run demo_env demo_actor demo_request 1000 100)\<lparr>run_status := RunWaitingForApproval,
     run_active_node := Some ''human-approval'', run_updated_at := 100\<rparr>]"
  by (simp_all add: demo_1_def transaction_def demo_created announce_action_def Let_def flush_def link_action_reservations_def
     upd_run_def tupd_def new_run_def)

lemma demo_rs_rows: "reservations demo_res = demo_rs"
  "budgets demo_res = map (\<lambda>b. b\<lparr>bud_reserved := 1\<rparr>) (budgets sample_ledger)"
  by (simp_all add: demo_res_def demo_rs_def sample_ledger_def sample_budget_def Let_def uuid4_def upd_budget_def tupd_def
      estimate_for_def ACTION_BUDGET_ESTIMATES_def)

lemma demo_1_reservations [simp]: "reservations demo_1 = demo_rs"
  "action_reservations demo_1 = map (\<lambda>r. \<lparr>ar_org = 7, ar_action_id = 1009, ar_reservation_id = rv_id r\<rparr>) demo_rs"
  "budgets demo_1 = map (\<lambda>b. b\<lparr>bud_reserved := 1\<rparr>) (budgets sample_ledger)"
  by (simp_all add: demo_1_def transaction_def demo_created flush_def demo_rs_rows)
   (simp add: demo_res_def demo_lin_def add_lineage_def Let_def uuid4_def demo_db_def sample_ledger_def empty_db_def)

lemma demo_usd_row: "demo_usd \<in> set demo_rs" "rv_org demo_usd = 7"
proof -
  show "demo_usd \<in> set demo_rs" using find_Some_iff' [OF demo_usd(1)] by simp
  moreover have "\<forall>r \<in> set demo_rs. rv_org r = 7"
    by (simp add: demo_rs_def sample_ledger_def sample_budget_def Let_def uuid4_def)
  ultimately show "rv_org demo_usd = 7" by blast
qed

lemma demo_1_budgets: "(sample_budget 31 ''currency:USD'')\<lparr>bud_reserved := 1\<rparr> \<in> set (budgets demo_1)"
  by (simp add: sample_ledger_def)

definition demo_2 :: db where
  "demo_2 = snd (transaction (decide_approval demo_env demo_actor 1008 ''sha256:h'' ''approve'' ''ok'') demo_1)"

lemma demo_action_simps [simp]:
  "act_id demo_action = 1009" "act_org demo_action = 7" "act_run_id demo_action = 1000" "act_approval_id demo_action = Some 1008"
  "act_intent_id demo_action = 1002" "act_state demo_action = Proposed" "act_content_digest demo_action = ''sha256:h''"
  "act_execute_attempts demo_action = 0" "act_version demo_action = 1"
  by (simp_all add: demo_action_def new_action_def)

lemma demo_decrypt: "decrypt_action_arguments demo_env demo_action = Inr (JObj [])"
proof -
  have "take 7 (act_encrypted_arguments demo_action) = ''rsenc1:''" "29 \<le> length (drop 7 (act_encrypted_arguments demo_action))"
    using json_bytes_nonempty [of "request_arguments demo_request"]
    by (simp_all add: demo_action_def new_action_def seal_json_def demo_env_def sample_env_def sample_key_def request_arguments_def)
  then show ?thesis by (simp add: decrypt_action_arguments_def decode_aes256_key_def sample_key_def handler_eval open_json_def)
qed

lemma demo_2_fields [simp]:
  "now demo_2 = 100" "tenant demo_2 = Some 7" "tool_calls demo_2 = []"
  "actions demo_2 = [demo_action\<lparr>act_state := Approved, act_version := 2, act_updated_at := 100\<rparr>]"
  "\<exists>ev. outbox demo_2 = [ev] \<and> ob_topic ev = ''action.ready'' \<and> ob_dispatched_at ev = None \<and> ob_available_at ev = 100 \<and>
     ob_aggregate_id ev = 1009 \<and> ob_org ev = 7"
  "map ap_status (approvals demo_2) = [ApApproved]"
  by (simp_all add: demo_2_def transaction_def decide_approval_def Let_def handler_eval action_of_approval_def demo_decrypt
      approve_action_def tool_call_for_action_def seconds_def seen_def rls_def tget_def flush_def upd_action_def tupd_def
      new_run_def add_outbox_def uuid4_def upd_approval_def)

definition demo_3 :: db where
  "demo_3 = snd (transaction (claim_ready demo_env ''token'') (demo_2\<lparr>now := 100, tenant := None, autoflush := True\<rparr>))"

lemma demo_env_worker [simp]: "worker_name demo_env = ''worker''" "sha256_hex demo_env x = ''h''" "action_lease_seconds demo_env = 60"
  by (simp_all add: demo_env_def sample_env_def)

definition demo_executing :: action_row where
  "demo_executing = demo_action\<lparr>act_state := Executing, act_version := 3, act_updated_at := 100,
     act_worker_name := Some ''worker'', act_claim_hash := Some ''h'',
     act_lease_expires_at := Some (100 + seconds 60), act_execute_attempts := 1\<rparr>"

lemma demo_3_fields [simp]: "actions demo_3 = [demo_executing]" "approvals demo_3 = approvals demo_2" "tenant demo_3 = None"
proof -
  obtain ev where "outbox demo_2 = [ev] \<and> ob_topic ev = ''action.ready'' \<and> ob_dispatched_at ev = None \<and>
      ob_available_at ev = 100 \<and> ob_aggregate_id ev = 1009 \<and> ob_org ev = 7" using demo_2_fields(5) by blast
  then show "actions demo_3 = [demo_executing]" "approvals demo_3 = approvals demo_2" "tenant demo_3 = None"
    by (simp_all add: demo_3_def transaction_def claim_ready_def Let_def seen_def rls_def tget_def flush_def
      tool_call_for_action_def upd_action_def tupd_def claim_hash_def demo_executing_def split: option.split)
qed

lemma demo_init: "sys_init demo_db"
  by (simp add: sys_init_def) (simp add: demo_db_def sample_ledger_def sample_budget_def empty_db_def)

lemma reachable_step: "reachable v s \<Longrightarrow> sys_step v s s' \<Longrightarrow> reachable v s'"
  using reachable_steps [of v s s'] by blast

lemma demo_reachable: "reachable demo_env demo_db" "reachable demo_env demo_1" "reachable demo_env demo_2" "reachable demo_env demo_3"
proof -
  show 0: "reachable demo_env demo_db" using demo_init unfolding reachable_def by blast
  show 1: "reachable demo_env demo_1"
    unfolding demo_1_def by (rule reachable_step [OF 0 sys_step.create]) simp
  show 2: "reachable demo_env demo_2"
    unfolding demo_2_def by (rule reachable_step [OF 1 sys_step.decide]) simp
  have "reachable demo_env (demo_2\<lparr>now := 100, tenant := None, autoflush := True\<rparr>)"
    by (rule reachable_step [OF 2 sys_step.session]) simp
  then show "reachable demo_env demo_3"
    unfolding demo_3_def by (rule reachable_step [OF _ sys_step.claim_ready]) simp
qed

text \<open>The same action denied instead.\<close>

definition demo_denied :: db where
  "demo_denied = snd (transaction (decide_approval demo_env demo_actor 1008 ''sha256:h'' ''deny'' ''no'') demo_1)"

lemma demo_denied_reachable: "(sys_step demo_env)\<^sup>*\<^sup>* demo_1 demo_denied" "reachable demo_env demo_denied"
proof -
  have "sys_step demo_env demo_1 demo_denied" unfolding demo_denied_def by (rule sys_step.decide) simp
  then show "(sys_step demo_env)\<^sup>*\<^sup>* demo_1 demo_denied" "reachable demo_env demo_denied"
    using reachable_step [OF demo_reachable(2)] by blast+
qed

lemma demo_denied_ok: "\<exists>s. decide_approval demo_env demo_actor 1008 ''sha256:h'' ''deny'' ''no'' demo_1 = Inr (1000, s)"
proof -
  have ok: "budgets_ok demo_1" using reachable_ok [OF demo_reachable(2)] by (simp add: sys_ok_def)
  have rel: "release_action_reservations org k t s \<noteq> Inl e" if "budgets s = budgets demo_1"
    "reservations s = reservations demo_1" "next_uuid s = next_uuid demo_1" for org k t s e
    using release_action_ok [OF budgets_ok_mono [OF ok that(1,2)], of org k t] that(3) by auto
  show ?thesis
    by (simp add: decide_approval_def Let_def handler_eval action_of_approval_def demo_decrypt
      deny_action_def tool_call_for_action_def seconds_def seen_def rls_def tget_def new_run_def)
     (auto simp: rbind_def rel split: sum.split)
qed

lemma demo_tables_1:
  "policy_bundles demo_1 = [demo_bundle_row]" "agents demo_1 = [demo_agent]"
  "workloads demo_1 = [\<lparr>wl_id = 13, wl_org = 7, wl_subject = ''spiffe'', wl_active = True\<rparr>]"
  "policy_decisions demo_1 = [\<lparr>pd_id = 1003, pd_org = 7, pd_bundle_id = 15, pd_effect = effect_value REQUIRE_APPROVAL,
      pd_reason_code = ''review'', pd_reason = ''review'', pd_input_digest = ''sha256:h'', pd_policy_digest = ''sha256:h'',
      pd_expires_at = 100 + minutes 10\<rparr>]"
  unfolding demo_1_def transaction_def demo_created
  by (simp_all add: flush_def announce_action_def Let_def link_action_reservations_def
      demo_res_def sample_ledger_def sample_budget_def uuid4_def demo_lin_def add_lineage_def demo_db_def empty_db_def)

lemma demo_tables_2:
  "policy_bundles demo_2 = policy_bundles demo_1" "agents demo_2 = agents demo_1" "workloads demo_2 = workloads demo_1"
  "policy_decisions demo_2 = policy_decisions demo_1" "intents demo_2 = intents demo_1"
  "reservations demo_2 = reservations demo_1" "action_reservations demo_2 = action_reservations demo_1"
  "map (\<lambda>r. (run_id r, run_org r, run_agent_id r)) (runs demo_2) = [(1000, 7, 14)]"
  "map (\<lambda>p. (ap_id p, ap_org p, ap_status p, ap_content_digest p)) (approvals demo_2) = [(1008, 7, ApApproved, ''sha256:h'')]"
  by (simp_all add: demo_2_def transaction_def decide_approval_def Let_def handler_eval action_of_approval_def demo_decrypt
      approve_action_def tool_call_for_action_def seconds_def seen_def rls_def tget_def flush_def upd_run_def tupd_def
      new_run_def add_outbox_def uuid4_def upd_approval_def demo_request_def)

lemma demo_tables_3:
  "policy_bundles demo_3 = policy_bundles demo_1" "agents demo_3 = agents demo_1" "workloads demo_3 = workloads demo_1"
  "policy_decisions demo_3 = policy_decisions demo_1" "intents demo_3 = intents demo_1" "now demo_3 = 100"
  "reservations demo_3 = reservations demo_1" "action_reservations demo_3 = action_reservations demo_1"
  "map (\<lambda>r. (run_id r, run_org r, run_agent_id r)) (runs demo_3) = [(1000, 7, 14)]"
proof -
  obtain ev where ev: "outbox demo_2 = [ev] \<and> ob_topic ev = ''action.ready'' \<and> ob_dispatched_at ev = None \<and>
      ob_available_at ev = 100 \<and> ob_aggregate_id ev = 1009 \<and> ob_org ev = 7" using demo_2_fields(5) by blast
  obtain r where r: "runs demo_2 = [r]" "run_id r = 1000" "run_org r = 7" "run_agent_id r = 14"
    using demo_tables_2(8) by (auto simp: map_eq_Cons_conv)
  show "policy_bundles demo_3 = policy_bundles demo_1" "agents demo_3 = agents demo_1" "workloads demo_3 = workloads demo_1"
  "policy_decisions demo_3 = policy_decisions demo_1" "intents demo_3 = intents demo_1" "now demo_3 = 100"
  "reservations demo_3 = reservations demo_1" "action_reservations demo_3 = action_reservations demo_1"
  "map (\<lambda>r. (run_id r, run_org r, run_agent_id r)) (runs demo_3) = [(1000, 7, 14)]"
    using ev r demo_tables_2
    by (simp_all add: demo_3_def transaction_def claim_ready_def Let_def seen_def rls_def tget_def flush_def
      tool_call_for_action_def upd_run_def tupd_def)
qed

lemma demo_3_reservations: "reservations_of_action demo_3 7 1009 = demo_rs"
  by (simp add: reservations_of_action_def demo_tables_3 seen_def rls_def demo_1_reservations)
   (simp add: demo_rs_def sample_ledger_def sample_budget_def Let_def uuid4_def)

lemma demo_authorized: "\<exists>ia. authorize_gateway_action demo_env 1009 ''sha256:h'' ''token'' ''execute'' demo_3 = Inr ia"
proof -
  obtain r where r: "runs demo_3 = [r]" "run_id r = 1000" "run_org r = 7" "run_agent_id r = 14"
    using demo_tables_3(9) by (auto simp: map_eq_Cons_conv)
  obtain p where p: "approvals demo_2 = [p]" "ap_id p = 1008" "ap_org p = 7" "ap_status p = ApApproved" "ap_content_digest p = ''sha256:h''"
    using demo_tables_2(9) by (auto simp: map_eq_Cons_conv)
  have dec: "decrypt_action_arguments demo_env demo_executing = Inr (JObj [])"
    using demo_decrypt by (simp add: decrypt_action_arguments_def demo_executing_def action_aad_def)
  have rs: "demo_rs \<noteq> []" "1004 \<in> rv_id ` set demo_rs" "\<forall>q \<in> set demo_rs. rv_status q = ResActive \<and> \<not> rv_expires_at q \<le> 100"
    by (simp_all add: demo_rs_def sample_ledger_def sample_budget_def Let_def uuid4_def minutes_def seconds_def)
  have ids: "act_decision_id demo_action = 1003" "act_reservation_id demo_action = 1004"
    by (simp_all add: demo_action_def new_action_def)
  show ?thesis
    using r p dec demo_3_reservations rs
    by (simp add: ids seconds_def minutes_def authorize_gateway_action_def handler_eval Let_def seen_def rls_def tget_def demo_tables_3 demo_tables_1
      demo_executing_def claim_hash_def)
qed

text \<open>The tool node of a workflow execution, whose request finds the action already created under its key.\<close>

definition demo_tool :: tool_row where
  "demo_tool = \<lparr>tl_id = 70, tl_org = 7, tl_name = TOOL_NAME, tl_effect_class = ''transactional'', tl_risk = ''high'',
     tl_connector = ''runsigil-demo-provider-v1'', tl_input_schema = JObj []\<rparr>"

definition demo_node :: wf_node where
  "demo_node = (sample_node ''send'' TOOL)\<lparr>node_config := [(''tool_id'', JStr (uuid_str 70)),
     (''arguments_state_key'', JStr ''args''), (''result_state_key'', JStr ''result'')]\<rparr>"

definition demo_values :: py_values where
  "demo_values = sample_values\<lparr>parse_action_input := (\<lambda>j. Inr demo_request)\<rparr>"

definition demo_event :: outbox_row where
  "demo_event = \<lparr>ob_id = 71, ob_org = 7, ob_topic = ''workflow.ready'', ob_aggregate_type = ''workflow_execution'',
     ob_aggregate_id = 1, ob_dedup_key = ''k'', ob_payload = JObj [], ob_available_at = 0, ob_dispatched_at = None,
     ob_processed_at = None, ob_attempts = 0, ob_created_at = 0\<rparr>"

definition demo_waiting :: db where
  "demo_waiting = demo_1\<lparr>now := 100, tenant := None, autoflush := True, executions := [sample_execution ''send'' 10], tools := [demo_tool]\<rparr>"

definition demo_called :: db where
  "demo_called = snd (transaction (create_workflow_tool_call demo_env demo_values ''abcdefghijkl'' (sample_execution ''send'' 10)
     (new_run demo_env demo_actor demo_request 2 100) demo_node (JObj [(''args'', JObj [])]) demo_event) demo_waiting)"

definition demo_call :: tool_call_row where
  "demo_call = new_tool_call demo_env (sample_execution ''send'' 10) demo_node demo_tool 1000 demo_action demo_intent ''result''
     (JStr ''result'') (next_uuid demo_1) 100"

lemma demo_waiting_reachable: "reachable demo_env demo_waiting"
proof -
  let ?a = "demo_1\<lparr>now := 100, tenant := None, autoflush := True\<rparr>"
  have "reachable demo_env ?a" by (rule reachable_step [OF demo_reachable(2) sys_step.session]) simp
  from reachable_step [OF this sys_step.workflow [where exs = "[sample_execution ''send'' 10]" and wts = "waits ?a"
      and scs = "subworkflow_calls ?a" and mcs = "model_calls ?a" and mls = "model_call_links ?a" and wfs = "workflows ?a"
      and vers = "versions ?a" and deps = "deployments ?a" and cps = "checkpoints ?a" and nps = "node_policies ?a"
      and prs = "profiles ?a" and sims = "simulation_calls ?a" and reps = "replays ?a" and atts = "attempts ?a"
      and dts = "datasets ?a" and dvs = "dataset_versions ?a" and scens = "scenarios ?a" and evs = "evaluations ?a"
      and ers = "evaluation_results ?a" and ans = "annotations ?a"]]
  have "reachable demo_env (?a\<lparr>executions := [sample_execution ''send'' 10]\<rparr>)" (is "reachable _ ?b") by simp
  from reachable_step [OF this sys_step.catalog [where ps = "projects ?b" and es = "environments ?b" and ss = "systems ?b"
      and ws = "workloads ?b" and ags = "agents ?b" and pbs = "policy_bundles ?b" and bss = "budget_scopes ?b"
      and tls = "[demo_tool]" and mrs = "model_routes ?b"]]
  show ?thesis by (simp add: demo_waiting_def)
qed

lemma demo_node_tool: "uuid_of (JStr (uuid_str 70)) = Some 70"
  by code_simp

lemma demo_catalog_1:
  "projects demo_1 = [\<lparr>prj_id = 10, prj_org = 7\<rparr>]" "environments demo_1 = [demo_environment]"
  "systems demo_1 = [\<lparr>sys_id = 12, sys_org = 7, sys_project_id = 10\<rparr>]"
  unfolding demo_1_def transaction_def demo_created
  by (simp_all add: flush_def announce_action_def Let_def link_action_reservations_def
      demo_res_def sample_ledger_def sample_budget_def uuid4_def demo_lin_def add_lineage_def demo_db_def empty_db_def)

lemma demo_requested:
  "create_workflow_tool_call demo_env demo_values ''abcdefghijkl'' (sample_execution ''send'' 10)
     (new_run demo_env demo_actor demo_request 2 100) demo_node (JObj [(''args'', JObj [])]) demo_event demo_waiting =
   Inr (demo_call, announce_tool_call demo_env (sample_execution ''send'' 10) (new_run demo_env demo_actor demo_request 2 100)
     demo_event demo_call (flush (demo_waiting\<lparr>next_uuid := Suc (next_uuid demo_1), tool_calls := [demo_call]\<rparr>)))"
proof -
  have request: "tool_request demo_values (sample_execution ''send'' 10) (new_run demo_env demo_actor demo_request 2 100) demo_node
      (JObj [(''args'', JObj [])]) demo_waiting = Inr (demo_tool, demo_request)"
    by (simp add: tool_request_def config_uuid_item_def config_item_def cfg_def demo_node_def handler_eval demo_node_tool
        demo_waiting_def seen_def rls_def tget_def demo_tool_def tool_supported_def state_object_def jlookup_def py_str_def
        demo_values_def)
  have create: "create_governed_action demo_env c demo_request nonce demo_waiting = Inr (1000, demo_waiting)" for c nonce
    by (simp add: create_governed_action_def require_catalog_def demo_waiting_def seen_def rls_def tget_def demo_catalog_1
        demo_tables_1 demo_request_def handler_eval new_run_def)
  have "tool_call_integrity (demo_waiting\<lparr>next_uuid := Suc (next_uuid demo_1)\<rparr>) demo_call"
    by (simp add: tool_call_integrity_def demo_call_def new_tool_call_def Let_def demo_waiting_def sample_execution_def demo_tool_def
        demo_node_def sample_node_def new_run_def)
  moreover have "find (\<lambda>a. act_run_id a = 1000) (seen demo_waiting act_org (actions demo_waiting)) = Some demo_action"
    "get_intent demo_waiting 1002 = Some demo_intent" "next_uuid demo_waiting = next_uuid demo_1" "now demo_waiting = 100"
    "tool_calls demo_waiting = []" by (simp_all add: demo_waiting_def seen_def rls_def tget_def)
  moreover have "cfg demo_node ''result_state_key'' = Some (JStr ''result'')" by (simp add: demo_node_def cfg_def)
  ultimately show ?thesis
    using request create
    by (simp add: create_workflow_tool_call_def handler_eval config_item_def uuid4_def py_str_def demo_call_def Let_def)
qed

end
