(* ===== verification/RS_Guarantees.thy ===== *)
theory RS_Guarantees
  imports RS_Sample_Run
begin

section \<open>What the running system guarantees\<close>

text \<open>
  The properties of the control plane and the worker together: of every reachable state, of every
  pair of states one of which leads to the other, and of the single operations whose guards they
  rest on.
\<close>

lemma reachable_life: "reachable v s \<Longrightarrow> life_inv (life_of s)"
  using reachable_ok by (auto simp: sys_ok_def)

subsection \<open>Every reachable state\<close>



text \<open>
  C2. At most one execution: in every reachable state an action has been claimed for execution
  at most once, and exactly once if it has left the states in which no effect can have started.
\<close>

theorem execute_at_most_once:
  assumes "reachable v s" and "a \<in> set (actions s)"
  shows "act_execute_attempts a = (if act_state a \<in> {Proposed, Approved, Rejected} then 0 else 1)"
  using reachable_life [OF assms(1)] assms(2) by (auto simp: life_inv_def attempts_ok_def)

theorem execute_at_most_once_witness:
  "act_execute_attempts demo_executing =
     (if act_state demo_executing \<in> {Proposed, Approved, Rejected} then 0 else 1)"
  by (rule execute_at_most_once [OF demo_reachable(4)]) simp

text \<open>
  C3. No effect without an exact approval: in every reachable state, an action that was created
  with an approval request and has been claimed for execution has that request approved, for
  exactly the content digest of the action.
\<close>

theorem no_execution_without_exact_approval:
  assumes "reachable v s" and "a \<in> set (actions s)" and "act_approval_id a = Some k" and "0 < act_execute_attempts a"
  shows "\<exists>p \<in> set (approvals s). ap_id p = k \<and> ap_status p = ApApproved \<and> ap_content_digest p = act_content_digest a"
proof -
  have inv: "attempts_ok (life_of s)" "approvals_ok (life_of s)"
    using reachable_life [OF assms(1)] by (simp_all add: life_inv_def)
  have "act_state a \<notin> {Proposed, Rejected}" using inv(1) assms(2,4) by (auto simp: attempts_ok_def split: if_splits)
  then show ?thesis using inv(2) assms(2,3) unfolding approvals_ok_def by auto
qed

theorem no_execution_without_exact_approval_witness:
  "\<exists>p \<in> set (approvals demo_3). ap_id p = 1008 \<and> ap_status p = ApApproved \<and>
     ap_content_digest p = act_content_digest demo_executing"
  by (rule no_execution_without_exact_approval [OF demo_reachable(4)]) (simp_all add: demo_executing_def)







text \<open>
  C9. Tool calls are governed: in every reachable state each tool call of a workflow names an action
  of its own organization, with the run and the content digest the call was made with, and no two
  calls name the same action. Together with the guarantees on actions, the effect of a tool node
  happens at most once and only as approved.
\<close>

theorem tool_calls_governed:
  assumes "reachable v s"
  shows "(\<forall>c \<in> set (tool_calls s). \<exists>a \<in> set (actions s). act_id a = tc_action_id c \<and> act_org a = tc_org c \<and>
      act_run_id a = tc_child_run_id c \<and> act_content_digest a = tc_action_content_digest c) \<and>
    distinct (map tc_action_id (tool_calls s))"
proof -
  have "map (fst \<circ> snd) (calls_of s) = map tc_action_id (tool_calls s)" by (simp add: calls_of_def)
  moreover have "calls_ok s" using reachable_ok [OF assms] by (simp add: sys_ok_def)
  ultimately show ?thesis by (auto simp: calls_ok_def calls_of_def comp_def)
qed

theorem tool_calls_governed_witness:
  "\<exists>a \<in> set (actions demo_called). act_id a = tc_action_id demo_call \<and> act_content_digest a = tc_action_content_digest demo_call"
proof -
  have "reachable demo_env demo_called"
    unfolding demo_called_def by (rule reachable_step [OF demo_waiting_reachable sys_step.request_tool]) (simp add: demo_waiting_def)
  moreover have "demo_call \<in> set (tool_calls demo_called)"
    unfolding demo_called_def transaction_def demo_requested by (simp add: flush_def)
  ultimately show ?thesis using tool_calls_governed by blast
qed

subsection \<open>What no later step undoes\<close>

lemma reachable_orders:
  assumes "reachable v s" and "(sys_step v)\<^sup>*\<^sup>* s s'"
  shows "progress (life_of s) (life_of s')" "decided (life_of s) (life_of s')"
  using sys_steps_follow [OF assms(2) reachable_ok [OF assms(1)]] reachable_life [OF assms(1)]
  by (simp_all add: progress.steps_rel decided.steps_rel)

text \<open>
  C7. Closed actions are final and lineage is immutable: whatever happens after a reachable
  state, each of its actions is still there with the same organization, run, intent, decision,
  approval, reservation, content digest, sealed arguments and provider key, its execution
  attempts have not gone down, and if it was rejected, committed or failed it has not changed at
  all.
\<close>

theorem closed_actions_final:
  assumes "reachable v s" and "(sys_step v)\<^sup>*\<^sup>* s s'" and "a \<in> set (actions s)"
  shows "\<exists>b \<in> set (actions s'). same_lineage a b \<and> act_execute_attempts a \<le> act_execute_attempts b \<and>
    (act_state a \<in> {Rejected, ActCommitted, ActFailed} \<longrightarrow> b = a)"
  using reachable_orders(1) [OF assms(1,2)] assms(3) by (auto simp: progress_def closed_state_def)

theorem closed_actions_final_witness:
  "\<exists>b \<in> set (actions demo_denied). same_lineage demo_action b \<and>
     act_execute_attempts demo_action \<le> act_execute_attempts b \<and>
     (act_state demo_action \<in> {Rejected, ActCommitted, ActFailed} \<longrightarrow> b = demo_action)"
  by (rule closed_actions_final [OF demo_reachable(2) demo_denied_reachable(1)]) simp

lemma decide_settles_approval:
  assumes ok: "sys_ok v s" and ten: "tenant s = Some (actor_org c)"
    and op: "decide_approval v c ap sub dec reason s = Inr (x, s')"
  shows "\<exists>p \<in> set (approvals s'). ap_id p = ap \<and> ap_status p \<noteq> ApPending"
proof -
  obtain p a i r s1 call et md nd tt st att where p: "get_approval s ap = Some p"
    and a: "action_of_approval s (ap_id p) = Some a"
    and s1: "(if dec = ''deny'' then deny_action v c (ap_id p) a i r call (stamped (ap_id p) (actor_id c) reason s)
         else approve_action c (ap_id p) a r call (stamped (ap_id p) (actor_id c) reason s)) = Inr s1"
    and s': "s' = audit v (actor_org c) (actor_id c) et ''approval'' (ap_id p) (ap_content_digest p) md
           (trace_event v (actor_org c) (run_id r) nd tt st att s1)"
    using op unfolding decide_approval_ok Let_def by blast
  have pin: "p \<in> set (approvals s)" "ap_id p = ap" using visible_row [OF p] by simp_all
  have ain: "rls s (act_org a)" using action_of_approvalD [OF a] by simp
  let ?s0 = "stamped (ap_id p) (actor_id c) reason s"
  have b0: "budgets_ok ?s0" by (rule budgets_ok_mono [of s]) (use ok in \<open>simp_all add: sys_ok_def\<close>)
  have r0: "rls ?s0 (act_org a)" using ain by (simp add: rls_cong [of ?s0 s])
  have org: "actor_org c = act_org a" using ain ten by (simp add: rls_def)
  obtain g where g: "approvals s1 = tupd ap_id (ap_id p) g (approvals s)" "\<And>q. ap_id (g q) = ap_id q" "\<And>q. ap_status (g q) \<noteq> ApPending"
  proof (cases "dec = ''deny''")
    case True
    then show ?thesis
      using deny_action_effect [OF s1 [unfolded if_P [OF True]] b0 r0 org]
      by (intro that [of "\<lambda>p. p\<lparr>ap_decided_at := Some (now s), ap_decided_by := Some (actor_id c),
            ap_decision_reason := Some reason, ap_status := ApDenied\<rparr>"]) (auto simp: tupd_tupd)
  next
    case False
    then show ?thesis
      using approve_action_effect [OF s1 [unfolded if_not_P [OF False]]]
      by (intro that [of "\<lambda>p. p\<lparr>ap_decided_at := Some (now s), ap_decided_by := Some (actor_id c),
            ap_decision_reason := Some reason, ap_status := ApApproved\<rparr>"]) (auto simp: tupd_tupd)
  qed
  have "g p \<in> set (approvals s')" using tupd_memI [OF pin(1), of ap_id "ap_id p" g] by (simp add: s' g(1))
  then show ?thesis using g(2,3) pin(2) by blast
qed

text \<open>
  C6. An approval is used at most once: after a decision on it has been committed, no later
  decision on the same approval succeeds, whoever submits it, whatever it says and whatever the
  system has done in between.
\<close>

theorem approval_single_use:
  assumes "reachable v s" and "tenant s = Some (actor_org c)"
    and "decide_approval v c ap sub dec reason s = Inr (x, s1)" and "(sys_step v)\<^sup>*\<^sup>* (flush s1) s2"
  shows "\<exists>e. decide_approval v c' ap sub' dec' reason' s2 = Inl e"
proof -
  have step: "sys_step v s (flush s1)"
    using sys_step.decide [of s c v ap sub dec reason] assms(2,3) by (simp add: transaction_def)
  have r1: "reachable v (flush s1)" by (rule reachable_step [OF assms(1) step])
  obtain p where p: "p \<in> set (approvals (flush s1))" "ap_id p = ap" "ap_status p \<noteq> ApPending"
    using decide_settles_approval [OF reachable_ok [OF assms(1)] assms(2,3)] by auto
  then have q: "p \<in> set (approvals s2)"
    using reachable_orders(2) [OF r1 assms(4)] unfolding decided_def by fastforce
  have d: "distinct (map ap_id (approvals s2))"
    using reachable_life [OF reachable_steps [OF r1 assms(4)]] by (simp add: life_inv_def ids_ok_def)
  show ?thesis
  proof (cases "decide_approval v c' ap sub' dec' reason' s2")
    case (Inr y)
    then obtain p' where "get_approval s2 ap = Some p'" "ap_status p' = ApPending"
      by (cases y) (auto simp: decide_approval_ok)
    then have "p' = p" using visible_row [of ap_id ap s2 ap_org "approvals s2" p'] distinct_key_eq [OF d q, of p'] p(2) by simp
    then show ?thesis using p(3) \<open>ap_status p' = ApPending\<close> by simp
  qed blast
qed

theorem approval_single_use_witness:
  "\<exists>e. decide_approval demo_env demo_actor 1008 ''sha256:h'' ''approve'' ''ok'' demo_denied = Inl e"
proof -
  obtain s where s: "decide_approval demo_env demo_actor 1008 ''sha256:h'' ''deny'' ''no'' demo_1 = Inr (1000, s)"
    using demo_denied_ok by blast
  then have "demo_denied = flush s" by (simp add: demo_denied_def transaction_def)
  then show ?thesis using approval_single_use [OF demo_reachable(2) _ s, of demo_denied] by simp
qed

end
