(* ===== verification/RS_Guards.thy ===== *)
theory RS_Guards
  imports RS_Sample_Run
begin

section \<open>The guards of the single operations\<close>

text \<open>
  What each operation of the control plane and of the worker checks before it writes, what it does
  on each outcome, and three behaviours the source does not intend.
\<close>

subsection \<open>Approvals\<close>

text \<open>
  C17. A decision is bound to exact content: it succeeds only on a pending, unexpired approval,
  for the digest the approval was requested for, which is the digest of the action and of the
  intent, and only if the sealed arguments still open to the arguments the intent was made for.
\<close>

theorem decide_exact_content:
  assumes "decide_approval v c ap sub dec reason s = Inr (x, s')"
  shows "\<exists>p a i args. get_approval s ap = Some p \<and> ap_status p = ApPending \<and> now s < ap_expires_at p \<and>
    action_of_approval s ap = Some a \<and> get_intent s (ap_intent_id p) = Some i \<and>
    sub = ap_content_digest p \<and> act_content_digest a = sub \<and> int_content_digest i = sub \<and>
    decrypt_action_arguments v a = Inr args \<and> digest_of v args = int_arguments_digest i"
proof -
  obtain p a i args where *: "get_approval s ap = Some p" "ap_status p = ApPending" "now s < ap_expires_at p"
    "action_of_approval s (ap_id p) = Some a" "get_intent s (ap_intent_id p) = Some i"
    "decrypt_action_arguments v a = Inr args" "sub = ap_content_digest p" "act_content_digest a = ap_content_digest p"
    "int_content_digest i = ap_content_digest p" "digest_of v args = int_arguments_digest i"
    using assms unfolding decide_approval_ok by blast
  moreover have "ap_id p = ap" using visible_row [OF *(1)] by simp
  ultimately show ?thesis by auto
qed

theorem decide_exact_content_witness:
  "\<exists>p a i args. get_approval demo_1 1008 = Some p \<and> ap_status p = ApPending \<and> now demo_1 < ap_expires_at p \<and>
    action_of_approval demo_1 1008 = Some a \<and> get_intent demo_1 (ap_intent_id p) = Some i \<and>
    ''sha256:h'' = ap_content_digest p \<and> act_content_digest a = ''sha256:h'' \<and> int_content_digest i = ''sha256:h'' \<and>
    decrypt_action_arguments demo_env a = Inr args \<and> digest_of demo_env args = int_arguments_digest i"
proof -
  obtain s where "decide_approval demo_env demo_actor 1008 ''sha256:h'' ''deny'' ''no'' demo_1 = Inr (1000, s)"
    using demo_denied_ok by blast
  then show ?thesis by (rule decide_exact_content)
qed

text \<open>
  An expired approval cannot be decided, but is not recorded as expired either: the
  request fails, the transaction is rolled back with the assignment of the status, and the
  database is the one before.
\<close>

theorem expired_approval_not_recorded:
  assumes "get_approval s ap = Some p" and "ap_status p = ApPending" and "ap_expires_at p \<le> now s"
  shows "transaction (decide_approval v c ap sub dec reason) s =
    (Inl (rs_err APPROVAL_EXPIRED ''This approval has expired.'' 409), s)"
  using assms by (simp add: transaction_def decide_approval_def handler_eval)

theorem expired_approval_not_recorded_witness:
  "transaction (decide_approval demo_env demo_actor 1008 ''sha256:h'' ''approve'' ''late'') (demo_1\<lparr>now := 10^12\<rparr>) =
    (Inl (rs_err APPROVAL_EXPIRED ''This approval has expired.'' 409), demo_1\<lparr>now := 10^12\<rparr>)"
  by (rule expired_approval_not_recorded [where p = demo_approval])
    (simp_all add: seen_def rls_def tget_def seconds_def)

subsection \<open>Authorization of the provider call\<close>

text \<open>
  C16. The gateway is told to go ahead only for the claim that holds the action: the action is in
  the state of the mode, under a live lease of the presented claim token, for the presented
  digest; its reservations exist and are all active; its policy decision allows it, or requires
  an approval that is approved for this digest; its sealed arguments open to what the intent was
  made for. For an execution the decision has not expired, its policy bundle is still active and
  unchanged, and no reservation has expired.
\<close>

theorem authorization_sound:
  assumes "authorize_gateway_action v action content token mode s = Inr ia"
  shows "\<exists>a i d b args. get_action s action = Some a \<and>
    act_state a = (if mode = ''execute'' then Executing else Reconciling) \<and>
    (\<exists>l. act_lease_expires_at a = Some l \<and> now s < l) \<and>
    act_claim_hash a = Some (claim_hash v token) \<and> act_content_digest a = content \<and>
    get_intent s (act_intent_id a) = Some i \<and> get_decision s (act_decision_id a) = Some d \<and>
    get_bundle s (pd_bundle_id d) = Some b \<and> pb_content_digest b = pd_policy_digest d \<and>
    act_reservation_id a \<in> rv_id ` set (reservations_of_action s (act_org a) (act_id a)) \<and>
    (mode \<in> {''execute'', ''reconcile''} \<longrightarrow>
       (\<forall>q \<in> set (reservations_of_action s (act_org a) (act_id a)). rv_status q = ResActive)) \<and>
    (mode = ''execute'' \<longrightarrow> now s < pd_expires_at d \<and> pb_status b = ''active'' \<and>
       (\<forall>q \<in> set (reservations_of_action s (act_org a) (act_id a)). now s < rv_expires_at q)) \<and>
    (pd_effect d = effect_value ALLOW \<or>
     pd_effect d = effect_value REQUIRE_APPROVAL \<and>
       (\<exists>k p. act_approval_id a = Some k \<and> get_approval s k = Some p \<and> ap_status p = ApApproved \<and>
          ap_content_digest p = content)) \<and>
    decrypt_action_arguments v a = Inr args \<and> digest_of v args = int_arguments_digest i \<and>
    ia_organization_id ia = act_org a \<and> ia_content_digest ia = content \<and>
    ia_arguments_digest ia = int_arguments_digest i"
proof -
  from assms obtain a i d r b args g w where
    1: "get_action s action = Some a" "act_state a = (if mode = ''execute'' then Executing else Reconciling)"
      "case act_lease_expires_at a of None \<Rightarrow> False | Some l \<Rightarrow> now s < l"
      "act_claim_hash a = Some (claim_hash v token)" "act_content_digest a = content"
      "get_intent s (act_intent_id a) = Some i" "get_decision s (act_decision_id a) = Some d"
      "get_run s (act_run_id a) = Some r" "get_bundle s (pd_bundle_id d) = Some b" "pb_content_digest b = pd_policy_digest d"
    and 2: "act_reservation_id a \<in> rv_id ` set (reservations_of_action s (act_org a) (act_id a))"
      "\<not> (mode = ''execute'' \<and> (pd_expires_at d \<le> now s \<or> pb_status b \<noteq> ''active'' \<or>
         (\<exists>q \<in> set (reservations_of_action s (act_org a) (act_id a)). rv_status q \<noteq> ResActive \<or> rv_expires_at q \<le> now s)))"
      "\<not> (mode = ''reconcile'' \<and> (\<exists>q \<in> set (reservations_of_action s (act_org a) (act_id a)). rv_status q \<noteq> ResActive))"
    and 3: "if pd_effect d = effect_value REQUIRE_APPROVAL
        then (case Option.bind (act_approval_id a) (get_approval s) of None \<Rightarrow> False
              | Some p \<Rightarrow> ap_status p = ApApproved \<and> ap_content_digest p = act_content_digest a)
        else True"
      "pd_effect d = effect_value REQUIRE_APPROVAL \<or> pd_effect d = effect_value ALLOW"
    and 4: "decrypt_action_arguments v a = Inr args" "digest_of v args = int_arguments_digest i"
      "ia_organization_id ia = act_org a" "ia_content_digest ia = act_content_digest a"
      "ia_arguments_digest ia = int_arguments_digest i"
    unfolding authorize_gateway_action_def Let_def ok_iff by auto
  have lease: "\<exists>l. act_lease_expires_at a = Some l \<and> now s < l" using 1(3) by (auto split: option.splits)
  have appr: "pd_effect d = effect_value ALLOW \<or>
     pd_effect d = effect_value REQUIRE_APPROVAL \<and>
       (\<exists>k p. act_approval_id a = Some k \<and> get_approval s k = Some p \<and> ap_status p = ApApproved \<and>
          ap_content_digest p = content)"
    using 3 1(5) by (cases "act_approval_id a") (auto split: if_splits option.splits)
  have "mode \<in> {''execute'', ''reconcile''} \<longrightarrow>
       (\<forall>q \<in> set (reservations_of_action s (act_org a) (act_id a)). rv_status q = ResActive)"
    "mode = ''execute'' \<longrightarrow> now s < pd_expires_at d \<and> pb_status b = ''active'' \<and>
       (\<forall>q \<in> set (reservations_of_action s (act_org a) (act_id a)). now s < rv_expires_at q)"
    using 2(2,3) by (auto simp: not_le)
  with 1 2(1) 4 lease appr show ?thesis by blast
qed

theorem authorization_sound_witness:
  "\<exists>ia a i d b args. authorize_gateway_action demo_env 1009 ''sha256:h'' ''token'' ''execute'' demo_3 = Inr ia \<and>
    get_action demo_3 1009 = Some a \<and> act_state a = (if ''execute'' = ''execute'' then Executing else Reconciling) \<and>
    get_intent demo_3 (act_intent_id a) = Some i \<and> get_decision demo_3 (act_decision_id a) = Some d \<and>
    get_bundle demo_3 (pd_bundle_id d) = Some b \<and> decrypt_action_arguments demo_env a = Inr args \<and>
    digest_of demo_env args = int_arguments_digest i"
proof -
  obtain ia where ia: "authorize_gateway_action demo_env 1009 ''sha256:h'' ''token'' ''execute'' demo_3 = Inr ia"
    using demo_authorized by blast
  from authorization_sound [OF ia] ia show ?thesis by blast
qed

subsection \<open>Settlement\<close>

text \<open>
  A stale claim settles nothing: if the action is no longer in the state of the claim's mode,
  or is held under another claim token, the settlement returns and leaves the database as it was.
\<close>

theorem stale_claim_settles_nothing:
  assumes "get_action s (cl_action_id cl) = Some a"
    and "act_state a \<noteq> (if cl_mode cl = Execute then Executing else Reconciling) \<or>
      act_claim_hash a \<noteq> Some (claim_hash v (cl_claim_token cl))"
  shows "settle v cl res s = Inr ((), s)"
  using assms by (auto simp: settle_def Let_def)

theorem stale_claim_settles_nothing_witness:
  "settle demo_env (claim_of demo_executing ''token'' Reconcile) (plain_result Committed ''x'') demo_3 = Inr ((), demo_3)"
  by (rule stale_claim_settles_nothing [where a = demo_executing])
    (simp_all add: claim_of_def seen_def rls_def tget_def demo_executing_def)

lemma settle_actions:
  assumes a: "get_action s (cl_action_id cl) = Some a"
    and live: "act_state a = (if cl_mode cl = Execute then Executing else Reconciling)"
      "act_claim_hash a = Some (claim_hash v (cl_claim_token cl))"
    and op: "settle v cl res s = Inr (x, s')" and bok: "budgets_ok s"
  shows "\<exists>f. moves f (case res_outcome res of Committed \<Rightarrow> ActCommitted | Failed \<Rightarrow> ActFailed
      | Ambiguous \<Rightarrow> if cl_mode cl = Reconcile \<and> max_reconciliation_attempts v \<le> act_cycle_attempts a
                    then DeadLettered else ReconciliationRequired) 0 \<and>
    actions s' = tupd act_id (act_id a) f (actions s)"
proof -
  have see: "rls s (act_org a)" using visible_row [OF a] by simp
  let ?st = "case res_outcome res of Committed \<Rightarrow> ActCommitted | Failed \<Rightarrow> ActFailed
      | Ambiguous \<Rightarrow> if cl_mode cl = Reconcile \<and> max_reconciliation_attempts v \<le> act_cycle_attempts a
                    then DeadLettered else ReconciliationRequired"
  obtain status s1 where out: "settle_outcome v (cl_mode cl) res a (get_run s (act_run_id a)) s = Inr (status, s1)"
    using op a live by (auto simp: settle_def Let_def ok_iff)
  then have rest: "actions s' = actions (record_settlement v cl res a status s1)"
    using op a live
    by (auto simp: settle_def Let_def rbind_ok dest: create_evidence_frame(1) split: if_splits)
  obtain f where f: "moves f ?st 0" "actions s1 = tupd act_id (act_id a) f (actions s)"
  proof (cases "res_outcome res = Ambiguous")
    case True
    then show ?thesis using settle_outcome_ambiguous(1) [OF out True] that by auto
  next
    case False
    then show ?thesis using settle_outcome_final [OF out False bok see] that by (cases "res_outcome res") auto
  qed
  let ?g = "\<lambda>b. (f b)\<lparr>act_version := act_version (f b) + 1, act_updated_at := now s1\<rparr>"
  have "actions s' = tupd act_id (act_id a) ?g (actions s)" using rest f by (auto simp: tupd_tupd movesD)
  moreover have "moves ?g ?st 0" using f(1) by (simp add: moves_def same_lineage_def)
  ultimately show ?thesis by blast
qed

text \<open>
  C18. What a settlement does: a live claim moves its action to committed or failed as the provider
  reported; on an ambiguous outcome the action waits for reconciliation, unless this was the last
  reconciliation attempt of the cycle, in which case it is dead lettered. The execution attempts
  do not change.
\<close>

theorem settle_applies_outcome:
  assumes "get_action s (cl_action_id cl) = Some a"
    and "act_state a = (if cl_mode cl = Execute then Executing else Reconciling)"
    and "act_claim_hash a = Some (claim_hash v (cl_claim_token cl))"
    and "settle v cl res s = Inr (x, s')" and "budgets_ok s"
  shows "\<exists>b \<in> set (actions s'). same_lineage a b \<and> act_execute_attempts b = act_execute_attempts a \<and>
    act_state b = (case res_outcome res of Committed \<Rightarrow> ActCommitted | Failed \<Rightarrow> ActFailed
      | Ambiguous \<Rightarrow> if cl_mode cl = Reconcile \<and> max_reconciliation_attempts v \<le> act_cycle_attempts a
                    then DeadLettered else ReconciliationRequired)"
proof -
  obtain f where f: "moves f (case res_outcome res of Committed \<Rightarrow> ActCommitted | Failed \<Rightarrow> ActFailed
      | Ambiguous \<Rightarrow> if cl_mode cl = Reconcile \<and> max_reconciliation_attempts v \<le> act_cycle_attempts a
                    then DeadLettered else ReconciliationRequired) 0"
    "actions s' = tupd act_id (act_id a) f (actions s)"
    using settle_actions [OF assms] by blast
  have "a \<in> set (actions s)" using visible_row [OF assms(1)] by simp
  from tupd_memI [OF this, of act_id "act_id a" f] have "f a \<in> set (actions s')" by (simp add: f(2))
  then show ?thesis using f(1) by (intro bexI [of _ "f a"]) (simp_all add: moves_def)
qed

theorem settle_applies_outcome_witness:
  "\<exists>s'. settle demo_env (claim_of demo_executing ''token'' Execute) (plain_result Ambiguous ''timeout'') demo_3 = Inr ((), s') \<and>
    (\<exists>b \<in> set (actions s'). same_lineage demo_executing b \<and> act_execute_attempts b = act_execute_attempts demo_executing \<and>
      act_state b = (case res_outcome (plain_result Ambiguous ''timeout'') of Committed \<Rightarrow> ActCommitted | Failed \<Rightarrow> ActFailed
      | Ambiguous \<Rightarrow> if Execute = Reconcile \<and> max_reconciliation_attempts demo_env \<le> act_cycle_attempts demo_executing
                    then DeadLettered else ReconciliationRequired))"
proof -
  let ?cl = "claim_of demo_executing ''token'' Execute"
  have a: "get_action demo_3 (cl_action_id ?cl) = Some demo_executing" "act_state demo_executing = Executing"
    "act_claim_hash demo_executing = Some (claim_hash demo_env (cl_claim_token ?cl))" "cl_mode ?cl = Execute"
    by (simp_all add: claim_of_def seen_def rls_def tget_def demo_executing_def claim_hash_def)
  then obtain s' where s': "settle demo_env ?cl (plain_result Ambiguous ''timeout'') demo_3 = Inr ((), s')"
    by (simp add: settle_def settle_outcome_def Let_def plain_result_def handler_eval)
  have "budgets_ok demo_3" using reachable_ok [OF demo_reachable(4)] by (simp add: sys_ok_def)
  from settle_applies_outcome [OF a(1) _ a(3) s' this] s' a(2,4) show ?thesis by auto
qed

subsection \<open>Dead letters\<close>

text \<open>
  C19. Redrives are bounded and fenced by version: a redrive succeeds only on an open dead letter,
  for its current version, while its redrive count is below its limit, and for an action that is
  dead lettered; it only schedules reconciliation (no new execution), raises the count by one,
  and repeating the same request fails.
\<close>

theorem redrive_bounded_and_fenced:
  assumes "redrive_dead_letter v c letter version reason s = Inr (x, s')"
  shows "\<exists>d a. get_dead_letter s letter = Some d \<and> dl_status d = DlOpen \<and> dl_version d = version \<and>
      dl_redrive_count d < dl_max_redrives d \<and> get_action s (dl_action_id d) = Some a \<and> act_state a = DeadLettered \<and>
      get_dead_letter s' letter = Some (d\<lparr>dl_status := DlRedriven, dl_redrive_count := dl_redrive_count d + 1,
        dl_version := version + 1, dl_resolved_at := None, dl_updated_at := now s\<rparr>) \<and>
      (\<exists>b \<in> set (actions s'). same_lineage a b \<and> act_state b = ReconciliationRequired \<and> act_cycle_attempts b = 0 \<and>
         act_execute_attempts b = act_execute_attempts a) \<and>
      (\<forall>c' reason'. \<exists>e. redrive_dead_letter v c' letter version reason' s' = Inl e)"
proof -
  obtain d a r md att where d: "get_dead_letter s letter = Some d" "dl_status d = DlOpen" "dl_version d = version"
      "dl_redrive_count d < dl_max_redrives d"
    and a: "get_action s (dl_action_id d) = Some a" "act_state a = DeadLettered"
    and s': "s' = audit v (actor_org c) (actor_id c) ''dead_letter.redriven'' ''dead_letter'' (dl_id d)
          (dl_content_digest d) md
        (trace_event v (actor_org c) (run_id r) ''action-reconciliation'' ''dead_letter.redriven'' ''queued'' att
          (redriven d a r (tool_call_for_action s (dl_action_id d)) s))"
    by (rule redrive_ok [OF assms])
  have id: "dl_id d = letter" using visible_row [OF d(1)] by simp
  let ?g = "\<lambda>d. d\<lparr>dl_status := DlRedriven, dl_redrive_count := dl_redrive_count d + 1,
                  dl_version := dl_version d + 1, dl_resolved_at := None, dl_updated_at := now s\<rparr>"
  have letters: "dead_letters s' = tupd dl_id letter ?g (dead_letters s)"
    by (simp add: s' redriven_def Let_def id upd_dead_letter_def split: option.split)
  have see: "rls s' = rls s" by (rule rls_cong) (simp add: s')
  have "seen s' dl_org (tupd dl_id letter ?g rows) = tupd dl_id letter ?g (seen s dl_org rows)" for rows :: "dead_letter_row list"
    by (induction rows) (simp_all add: seen_def see tupd_def)
  then have new: "get_dead_letter s' letter = Some (?g d)" using d(1) by (simp add: letters tget_tupd)
  have "a \<in> set (actions s)" using visible_row [OF a(1)] by simp
  from tupd_memI [OF this, of act_id "act_id a" "\<lambda>b. b\<lparr>act_state := ReconciliationRequired, act_cycle_attempts := 0,
      act_next_reconcile_at := Some (now s), act_error_code := Some ''dlq_redrive_reconciliation_pending'',
      act_version := act_version b + 1, act_updated_at := now s\<rparr>"]
  have "\<exists>b \<in> set (actions s'). same_lineage a b \<and> act_state b = ReconciliationRequired \<and> act_cycle_attempts b = 0 \<and>
         act_execute_attempts b = act_execute_attempts a"
    by (intro bexI [rotated], simp add: s') (simp add: same_lineage_def)
  moreover have "\<exists>e. redrive_dead_letter v c' letter version reason' s' = Inl e" for c' reason'
    by (simp add: redrive_dead_letter_def new handler_eval Let_def)
  ultimately show ?thesis using d a new by auto
qed

definition demo_letter :: dead_letter_row where
  "demo_letter = \<lparr>dl_id = 60, dl_org = 7, dl_action_id = 1009, dl_run_id = 1000, dl_outbox_id = None,
     dl_source = ''action-reconciliation'', dl_reason_code = ''provider_outcome_ambiguous'', dl_status = DlOpen,
     dl_attempt_count = 3, dl_redrive_count = 0, dl_max_redrives = 2, dl_version = 1,
     dl_content_digest = ''sha256:h'', dl_resolved_at = None, dl_created_at = 90, dl_updated_at = 90\<rparr>"

definition demo_dead :: db where
  "demo_dead = demo_1\<lparr>dead_letters := [demo_letter],
     actions := [demo_action\<lparr>act_state := DeadLettered, act_execute_attempts := 1\<rparr>],
     runs := [(hd (runs demo_1))\<lparr>run_status := RunDeadLettered\<rparr>]\<rparr>"

theorem redrive_bounded_and_fenced_witness:
  "\<exists>s'. redrive_dead_letter demo_env demo_actor 60 1 ''again'' demo_dead = Inr (60, s') \<and>
    (\<exists>d a. get_dead_letter demo_dead 60 = Some d \<and> dl_status d = DlOpen \<and> dl_version d = 1 \<and>
      dl_redrive_count d < dl_max_redrives d \<and> get_action demo_dead (dl_action_id d) = Some a \<and> act_state a = DeadLettered \<and>
      get_dead_letter s' 60 = Some (d\<lparr>dl_status := DlRedriven, dl_redrive_count := dl_redrive_count d + 1,
        dl_version := 1 + 1, dl_resolved_at := None, dl_updated_at := now demo_dead\<rparr>) \<and>
      (\<exists>b \<in> set (actions s'). same_lineage a b \<and> act_state b = ReconciliationRequired \<and> act_cycle_attempts b = 0 \<and>
         act_execute_attempts b = act_execute_attempts a) \<and>
      (\<forall>c' reason'. \<exists>e. redrive_dead_letter demo_env c' 60 1 reason' s' = Inl e))"
proof -
  have "act_lease_expires_at demo_action = None" by (simp add: demo_action_def new_action_def)
  then obtain s' where s': "redrive_dead_letter demo_env demo_actor 60 1 ''again'' demo_dead = Inr (60, s')"
    by (simp add: redrive_dead_letter_def demo_dead_def demo_letter_def seen_def rls_def tget_def handler_eval Let_def
        tool_call_for_action_def new_run_def)
  from redrive_bounded_and_fenced [OF this] s' show ?thesis by blast
qed

subsection \<open>Idempotent creation\<close>

lemma require_catalog_cong:
  assumes "projects s' = projects s" "environments s' = environments s" "agents s' = agents s" "systems s' = systems s"
    "tenant s' = tenant s"
  shows "require_catalog s' req = require_catalog s req"
  using assms by (simp add: require_catalog_def seen_def rls_def)

lemma create_tables:
  assumes "add_lineage v c req a b d pc s = ((run, intent, dec, content), s1)" and "budgets_ok s1"
    and "reserve_budgets bc run est t ttl s1 = Inr (rs, s2)" and "add_approval v c req d run intent content s2 = (approval, s3)"
  shows "projects s3 = projects s" "environments s3 = environments s" "agents s3 = agents s" "systems s3 = systems s"
    "tenant s3 = tenant s" "runs s3 = runs s @ [new_run v c req run (now s)]"
proof -
  have "projects s1 = projects s \<and> environments s1 = environments s \<and> agents s1 = agents s \<and> systems s1 = systems s \<and>
      tenant s1 = tenant s \<and> runs s1 = runs s @ [new_run v c req run (now s)]"
    using assms(1) by (auto simp: add_lineage_def Let_def uuid4_def)
  moreover have "distinct (map bud_id (budgets s1))" using assms(2) by (simp add: budgets_ok_def budgets_wf_def)
  then have "projects s2 = projects s1 \<and> environments s2 = environments s1 \<and> agents s2 = agents s1 \<and> systems s2 = systems s1 \<and>
      tenant s2 = tenant s1 \<and> runs s2 = runs s1"
    using reserve_budgets_effect [OF _ assms(3)] by simp
  moreover have "projects s3 = projects s2 \<and> environments s3 = environments s2 \<and> agents s3 = agents s2 \<and> systems s3 = systems s2 \<and>
      tenant s3 = tenant s2 \<and> runs s3 = runs s2"
    using assms(4) by (auto simp: add_approval_def Let_def uuid4_def split: if_splits)
  ultimately show "projects s3 = projects s" "environments s3 = environments s" "agents s3 = agents s" "systems s3 = systems s"
    "tenant s3 = tenant s" "runs s3 = runs s @ [new_run v c req run (now s)]" by simp_all
qed

lemma announce_tables:
  "projects (announce_action v c d run dec approval act content r rs s) = projects s"
  "environments (announce_action v c d run dec approval act content r rs s) = environments s"
  "agents (announce_action v c d run dec approval act content r rs s) = agents s"
  "systems (announce_action v c d run dec approval act content r rs s) = systems s"
  "tenant (announce_action v c d run dec approval act content r rs s) = tenant s"
  "runs (announce_action v c d run dec approval act content r rs s) = tupd run_id run (\<lambda>r. r\<lparr>
     run_status := (if approval = None then RunQueued else RunWaitingForApproval),
     run_active_node := Some (if approval = None then ''action-dispatch'' else ''human-approval''),
     run_updated_at := now s\<rparr>) (runs s)"
  by (simp_all add: announce_action_def Let_def upd_run_def split: option.split)

text \<open>
  Creating an action is idempotent: after a creation has committed, submitting the same request
  again in the same organization returns the same run and changes nothing (no second action,
  reservation, approval or event), whatever nonce it draws.
\<close>

theorem create_replay_idempotent:
  assumes "create_governed_action v c req nonce s = Inr (run, s')" and "tenant s = Some (actor_org c)" and "budgets_ok s"
  shows "create_governed_action v c req nonce' (flush s') = Inr (run, flush s')"
  using assms(1)
proof (cases rule: create_ok)
  case (replay r)
  have "require_catalog (flush s) req = require_catalog s req" by (rule require_catalog_cong) (simp_all add: flush_def)
  moreover have "seen (flush s) run_org (runs (flush s)) = seen s run_org (runs s)" by (simp add: seen_def rls_def flush_def)
  ultimately show ?thesis using assms(1) replay
    by (auto simp: create_governed_action_def ok_iff)
next
  case (new p e a b d run' intent dec content s1 rs s2 reservation approval s3 key)
  have "budgets_ok s1" by (rule budgets_ok_mono [of s]) (use assms(3) add_lineage_frame [OF new(4)] in simp_all)
  note tabs = create_tables [OF new(4) this new(5,7)]
  let ?P = "\<lambda>r. run_idempotency_key r = req_idempotency_key req"
  have catalog: "require_catalog (flush s') req = require_catalog s req"
    by (rule require_catalog_cong) (simp_all add: new(10) announce_tables link_action_reservations_def flush_def tabs)
  have ten: "tenant (flush s') = tenant s" by (simp add: new(10) announce_tables link_action_reservations_def flush_def tabs)
  have rows: "runs (flush s') = tupd run_id run' (\<lambda>r. r\<lparr>run_status := (if approval = None then RunQueued else RunWaitingForApproval),
     run_active_node := Some (if approval = None then ''action-dispatch'' else ''human-approval''),
     run_updated_at := now s3\<rparr>) (runs s @ [new_run v c req run' (now s)])" (is "_ = tupd _ _ ?f _")
    by (simp add: new(10) announce_tables link_action_reservations_def flush_def tabs)
  have "seen (flush s') run_org (runs s @ [new_run v c req run' (now s)]) =
      seen s run_org (runs s) @ [new_run v c req run' (now s)]"
    using ten assms(2) by (simp add: seen_def rls_def new_run_def)
  then have "find ?P (seen (flush s') run_org (runs (flush s'))) = Some (?f (new_run v c req run' (now s)))"
    unfolding rows using find_snoc [OF new(1), of "new_run v c req run' (now s)"]
    by (simp add: seen_tupd find_tupd new_run_def)
  then show ?thesis
    using new(2,9) by (simp add: create_governed_action_def catalog handler_eval new_run_def)
qed

theorem create_replay_idempotent_witness:
  "\<exists>s'. create_governed_action demo_env demo_actor demo_request ''abcdefghijkl'' demo_db = Inr (1000, s') \<and>
     create_governed_action demo_env demo_actor demo_request ''another nonce'' (flush s') = Inr (1000, flush s')"
proof -
  have "budgets_ok demo_db" using reachable_ok [OF demo_reachable(1)] by (simp add: sys_ok_def)
  with create_replay_idempotent [OF demo_created, of "''another nonce''"] show ?thesis unfolding demo_created by simp
qed

subsection \<open>Behaviours the source does not intend\<close>

text \<open>
  A crashed reconciliation is never taken up again: the worker's reconciliation claim skips
  every action in the reconciling state, however long its lease has expired. If no action is
  executing or waiting for reconciliation, the claim returns nothing and changes nothing.
\<close>

theorem expired_reconciliation_not_reclaimed:
  assumes "\<forall>a \<in> set (actions s). act_state a \<notin> {Executing, ReconciliationRequired}"
  shows "claim_reconciliation v token s = Inr (None, s)"
proof -
  have "filter (reconcilable (now s)) (seen s act_org (actions s)) = []"
    using assms by (auto simp: filter_empty_conv reconcilable_def seen_def)
  then show ?thesis by (simp add: claim_reconciliation_def)
qed

theorem expired_reconciliation_not_reclaimed_witness:
  "let s = demo_3\<lparr>now := 10^12, actions := [demo_executing\<lparr>act_state := Reconciling, act_lease_expires_at := Some 0\<rparr>]\<rparr>
   in claim_reconciliation demo_env ''token'' s = Inr (None, s)"
  unfolding Let_def by (rule expired_reconciliation_not_reclaimed) simp

text \<open>
  Trace sequence numbers can repeat: on a session without autoflush (the API's), two events
  traced in one transaction for a run get the same sequence number, because the second does not
  see the first.
\<close>

theorem trace_sequence_repeats:
  assumes "autoflush s = False"
  shows "let s' = trace_event v org run n2 e2 st2 att2 (trace_event v org run n1 e1 st1 att1 s) in
    \<exists>t1 t2. pending_traces s' = pending_traces s @ [t1, t2] \<and> tr_run_id t1 = run \<and> tr_run_id t2 = run \<and>
      tr_sequence t1 = tr_sequence t2"
  using assms by (simp add: trace_event_def Let_def latest_sequence_def uuid4_def seen_def rls_def split: prod.split option.split)

theorem trace_sequence_repeats_witness:
  "let s' = trace_event demo_env 7 1000 ''b'' ''b'' ''b'' JNull (trace_event demo_env 7 1000 ''a'' ''a'' ''a'' JNull demo_db) in
    \<exists>t1 t2. pending_traces s' = pending_traces demo_db @ [t1, t2] \<and> tr_run_id t1 = 1000 \<and> tr_run_id t2 = 1000 \<and>
      tr_sequence t1 = tr_sequence t2"
  by (rule trace_sequence_repeats) simp

end
