(* ===== verification/RS_Waits.thy ===== *)
theory RS_Waits
  imports RS_Routing RS_Governed_Actions
begin

section \<open>Durable waits\<close>

text \<open>
  Models \<open>services/workflow_waits.py\<close>: a timer, event, approval or information node suspends
  its execution on a wait row that binds the exact request; the wait is resolved once, by its timer
  or by a response bound to its digest, and a payload is sealed under the wait's identity. The nonce
  of the sealed response is an argument.
\<close>

subsection \<open>Digests and associated data\<close>

definition response_aad :: "wait_row \<Rightarrow> rs_error + json" where
  "response_aad w =
     fetch (wt_response_digest w) (PyValueError ''workflow wait response digest is unavailable'') (\<lambda>rd.
     Inr (JObj [(''organization_id'', juuid (wt_org w)), (''workflow_wait_id'', juuid (wt_id w)),
       (''content_digest'', JStr (wt_content_digest w)), (''response_digest'', JStr rd)]))"

definition response_digest :: "env \<Rightarrow> wait_row \<Rightarrow> string \<Rightarrow> digest option \<Rightarrow> uuid option \<Rightarrow> digest" where
  "response_digest v w resolution payload_digest resolved_by =
     digest_of v (JObj [(''workflow_wait_id'', juuid (wt_id w)), (''content_digest'', JStr (wt_content_digest w)),
       (''resolution'', JStr resolution), (''payload_digest'', jopt JStr payload_digest),
       (''resolved_by'', jopt juuid resolved_by)])"

definition workflow_wait_summary :: "wait_row \<Rightarrow> json" where
  "workflow_wait_summary w = JObj
     [(''id'', juuid (wt_id w)), (''run_id'', juuid (wt_run_id w)),
      (''workflow_execution_id'', juuid (wt_execution_id w)), (''node_id'', JStr (wt_node_id w)),
      (''sequence'', JInt (wt_sequence w)), (''wait_type'', JStr (wt_type w)), (''status'', JStr (wt_status w)),
      (''resolution'', jopt JStr (wt_resolution w)), (''content_digest'', JStr (wt_content_digest w)),
      (''state_digest'', JStr (wt_state_digest w)), (''request_metadata'', wt_request_metadata w),
      (''event_key'', jopt JStr (wt_event_key w)), (''due_at'', jopt jtime (wt_due_at w)),
      (''expires_at'', jtime (wt_expires_at w)), (''response_digest'', jopt JStr (wt_response_digest w)),
      (''resolved_by'', jopt juuid (wt_resolved_by w)), (''resolved_at'', jopt jtime (wt_resolved_at w)),
      (''created_at'', jtime (wt_created_at w))]"

subsection \<open>Creation\<close>

definition request_metadata :: "wf_node \<Rightarrow> rs_error + json" where
  "request_metadata n =
     (let name = (''node_name'', JStr (node_name n)) in
      case node_type n of
        APPROVAL \<Rightarrow> config_item n ''risk'' (\<lambda>risk. config_item n ''reason_code'' (\<lambda>reason.
          Inr (JObj [name, (''risk'', risk), (''reason_code'', reason)])))
      | REQUEST_INFORMATION \<Rightarrow> config_item n ''reason_code'' (\<lambda>reason. config_item n ''state_key'' (\<lambda>state_key.
          Inr (JObj [name, (''reason_code'', reason), (''state_key'', state_key)])))
      | EVENT \<Rightarrow> config_item n ''event_key'' (\<lambda>event_key. config_item n ''state_key'' (\<lambda>state_key.
          Inr (JObj [name, (''event_key'', event_key), (''state_key'', state_key)])))
      | _ \<Rightarrow> config_item n ''delay_seconds'' (\<lambda>delay. Inr (JObj [name, (''delay_seconds'', delay)])))"

text \<open>The due time of a timer; the other waits have none.\<close>

definition wait_due :: "py_values \<Rightarrow> wf_node \<Rightarrow> timestamp \<Rightarrow> rs_error + timestamp option" where
  "wait_due p n t =
     (if node_type n = TIMER
      then config_item n ''delay_seconds'' (\<lambda>delay. rbind (py_int p delay) (\<lambda>d. Inr (Some (t + seconds d))))
      else Inr None)"

definition new_wait ::
  "env \<Rightarrow> py_values \<Rightarrow> execution_row \<Rightarrow> wf_node \<Rightarrow> uuid \<Rightarrow> timestamp \<Rightarrow> timestamp option \<Rightarrow> json \<Rightarrow> wait_row" where
  "new_wait v p e n i t due metadata =
     (let expires = (case due of Some d \<Rightarrow> d
                     | None \<Rightarrow> min (t + seconds (node_timeout_seconds n)) (ex_deadline_at e))
      in \<lparr>wt_id = i, wt_org = ex_org e, wt_execution_id = ex_id e, wt_run_id = ex_run_id e, wt_node_id = node_id n,
          wt_sequence = ex_step_count e, wt_type = node_type_value (node_type n), wt_status = ''pending'',
          wt_resolution = None,
          wt_content_digest = digest_of v (JObj
            [(''organization_id'', juuid (ex_org e)), (''workflow_execution_id'', juuid (ex_id e)),
             (''run_id'', juuid (ex_run_id e)), (''node_id'', JStr (node_id n)), (''sequence'', JInt (ex_step_count e)),
             (''wait_type'', JStr (node_type_value (node_type n))), (''state_digest'', JStr (ex_state_digest e)),
             (''request_metadata'', metadata), (''due_at'', jopt jtime due), (''expires_at'', jtime expires)]),
          wt_state_digest = ex_state_digest e, wt_request_metadata = metadata,
          wt_event_key = (if node_type n = EVENT then map_option (py_str p) (cfg n ''event_key'') else None),
          wt_due_at = due, wt_expires_at = expires, wt_response_digest = None, wt_encrypted_response = None,
          wt_resolved_by = None, wt_resolved_at = None, wt_created_at = t\<rparr>)"

definition wake_payload :: "wait_row \<Rightarrow> json" where
  "wake_payload w = JObj
     [(''workflow_execution_id'', juuid (wt_execution_id w)), (''workflow_wait_id'', juuid (wt_id w)),
      (''wait_sequence'', JInt (wt_sequence w)), (''content_digest'', JStr (wt_content_digest w))]"

definition create_workflow_wait ::
  "env \<Rightarrow> py_values \<Rightarrow> execution_row \<Rightarrow> run_row \<Rightarrow> wf_node \<Rightarrow> outbox_row \<Rightarrow> db \<Rightarrow> rs_error + wait_row \<times> db" where
  "create_workflow_wait v p e r n ev s =
     require (node_type n \<in> set WAIT_NODE_TYPES) (PyValueError ''node is not a durable wait'') (
     let t = now s in
     rbind (wait_due p n t) (\<lambda>due.
     let (i, s) = uuid4 s in
     rbind (request_metadata n) (\<lambda>metadata.
     let w = new_wait v p e n i t due metadata;
         s = s\<lparr>waits := waits s @ [w]\<rparr>;
         s = upd_execution (ex_id e) (\<lambda>e. e\<lparr>ex_status := ExWaiting, ex_version := ex_version e + 1,
               ex_claim_hash := None, ex_lease_expires_at := None\<rparr>) s;
         s = upd_run (run_id r) (\<lambda>r. r\<lparr>run_status := if node_type n = APPROVAL then RunWaitingForApproval else RunWaiting,
               run_active_node := Some (node_id n)\<rparr>) s;
         s = upd_outbox (ob_id ev) (\<lambda>ev. ev\<lparr>ob_processed_at := Some t\<rparr>) s;
         s = add_outbox (ex_org e) ''workflow.ready'' ''workflow_execution'' (ex_id e)
               (''workflow.wait:'' @ uuid_str i @ '':wake'') (wake_payload w) (wt_expires_at w) s;
         s = trace_event v (ex_org e) (ex_run_id e) (node_id n) ''workflow.wait_created'' ''waiting''
               (JObj [(''workflow_wait_id'', juuid i), (''wait_type'', JStr (wt_type w)),
                      (''content_digest'', JStr (wt_content_digest w)), (''expires_at'', jtime (wt_expires_at w)),
                      (''raw_content_captured'', JBool False)]) s
     in Inr (w, audit v (ex_org e) (run_actor_id r) ''workflow.wait_created'' ''workflow_wait'' i (wt_content_digest w)
          (JObj [(''run_id'', juuid (wt_run_id w)), (''node_id'', JStr (wt_node_id w)),
                 (''wait_type'', JStr (wt_type w)), (''raw_content_captured'', JBool False)]) s))))"

subsection \<open>Resolution\<close>

definition resolve_timer_wait :: "env \<Rightarrow> wait_row \<Rightarrow> db \<Rightarrow> db" where
  "resolve_timer_wait v w s =
     upd_wait (wt_id w) (\<lambda>w. w\<lparr>wt_status := ''resolved'', wt_resolution := Some ''elapsed'',
       wt_response_digest := Some (response_digest v w ''elapsed'' None None), wt_resolved_at := Some (now s)\<rparr>) s"

definition incomplete_resolution :: rs_error where
  "incomplete_resolution = rs_err INVALID_TRANSITION ''The workflow wait resolution is incomplete.'' 409"

definition verify_wait_resolution :: "env \<Rightarrow> wait_row \<Rightarrow> rs_error + unit" where
  "verify_wait_resolution v w =
     fetch (wt_resolution w) incomplete_resolution (\<lambda>resolution.
     fetch (wt_response_digest w) incomplete_resolution (\<lambda>rd.
     if wt_type w \<in> {node_type_value EVENT, node_type_value REQUEST_INFORMATION} then Inr ()
     else require (response_digest v w resolution None (wt_resolved_by w) = rd)
       (rs_err INVALID_TRANSITION ''The workflow wait resolution digest does not match.'' 409) (Inr ())))"

definition decrypt_wait_response :: "env \<Rightarrow> wait_row \<Rightarrow> rs_error + json" where
  "decrypt_wait_response v w =
     (let unavailable = rs_err INVALID_TRANSITION ''The workflow wait response is unavailable.'' 409 in
      fetch (wt_encrypted_response w) unavailable (\<lambda>sealed.
      fetch (wt_response_digest w) unavailable (\<lambda>rd.
      rbind (decode_aes256_key v (encryption_key_b64 v)) (\<lambda>key.
      rbind (response_aad w) (\<lambda>aad.
      rbind (open_json v sealed key aad) (\<lambda>payload.
      case payload of
        JObj _ \<Rightarrow>
          require (response_digest v w (case wt_resolution w of None \<Rightarrow> ''None'' | Some x \<Rightarrow> x)
                     (Some (digest_of v payload)) (wt_resolved_by w) = rd)
            (rs_err INVALID_TRANSITION ''The workflow wait response digest does not match.'' 409) (Inr payload)
      | _ \<Rightarrow> Inl (rs_err INVALID_TRANSITION ''The workflow wait response is invalid.'' 409)))))))"

text \<open>The wait as a response leaves it, before and after its payload is sealed.\<close>

definition answered :: "env \<Rightarrow> actor_context \<Rightarrow> string \<Rightarrow> json option \<Rightarrow> timestamp \<Rightarrow> wait_row \<Rightarrow> wait_row" where
  "answered v c resolution payload t w =
     w\<lparr>wt_status := ''resolved'', wt_resolution := Some resolution,
       wt_response_digest := Some (response_digest v w resolution (map_option (digest_of v) payload) (Some (actor_id c))),
       wt_resolved_by := Some (actor_id c), wt_resolved_at := Some t\<rparr>"

definition seal_response :: "env \<Rightarrow> string \<Rightarrow> json option \<Rightarrow> wait_row \<Rightarrow> rs_error + wait_row" where
  "seal_response v nonce payload w =
     (case payload of None \<Rightarrow> Inr w
      | Some j \<Rightarrow>
          rbind (decode_aes256_key v (encryption_key_b64 v)) (\<lambda>key.
          rbind (response_aad w) (\<lambda>aad. Inr (w\<lparr>wt_encrypted_response := Some (seal_json v nonce j key aad)\<rparr>))))"

definition assign_response :: "wait_row \<Rightarrow> wait_row \<Rightarrow> wait_row" where
  "assign_response w' w =
     w\<lparr>wt_status := wt_status w', wt_resolution := wt_resolution w', wt_response_digest := wt_response_digest w',
       wt_resolved_by := wt_resolved_by w', wt_resolved_at := wt_resolved_at w',
       wt_encrypted_response := wt_encrypted_response w'\<rparr>"

text \<open>The writes of a response: the wait, its timeout event, the resume event, the trace and the audit.\<close>

definition record_response ::
  "env \<Rightarrow> actor_context \<Rightarrow> wait_row \<Rightarrow> wait_row \<Rightarrow> execution_row \<Rightarrow> outbox_row option \<Rightarrow> db \<Rightarrow> db" where
  "record_response v c w w' e timeout_event s =
     (let t = now s;
          s = upd_wait (wt_id w) (assign_response w') s;
          s = (case timeout_event of None \<Rightarrow> s
               | Some ev \<Rightarrow> if ob_processed_at ev = None
                   then upd_outbox (ob_id ev) (\<lambda>ev. ev\<lparr>ob_processed_at := Some t\<rparr>) s else s);
          s = add_outbox (wt_org w) ''workflow.ready'' ''workflow_execution'' (ex_id e)
                (''workflow.wait:'' @ uuid_str (wt_id w) @ '':resume'') (wake_payload w) t s;
          facts = [(''resolution'', jopt JStr (wt_resolution w')), (''response_digest'', jopt JStr (wt_response_digest w')),
                   (''raw_content_captured'', JBool False)];
          s = trace_event v (wt_org w) (wt_run_id w) (wt_node_id w) ''workflow.wait_resolved'' ''completed''
                (JObj ([(''workflow_wait_id'', juuid (wt_id w)), (''wait_type'', JStr (wt_type w))] @ facts)) s
      in audit v (wt_org w) (actor_id c) ''workflow.wait_resolved'' ''workflow_wait'' (wt_id w)
           (wt_content_digest w) (JObj facts) s)"

definition resolve_workflow_wait ::
  "env \<Rightarrow> actor_context \<Rightarrow> string \<Rightarrow> uuid \<Rightarrow> string \<Rightarrow> digest \<Rightarrow> string \<Rightarrow> json option \<Rightarrow> string option \<Rightarrow>
     db \<Rightarrow> rs_error + wait_row \<times> db" where
  "resolve_workflow_wait v c nonce wait expected_type submitted resolution payload event_key s =
     (let timeout_event = find (\<lambda>ev. ob_dedup_key ev = ''workflow.wait:'' @ uuid_str wait @ '':wake'')
            (seen s ob_org (outbox s));
          t = now s;
          elsewhere = rs_err INVALID_TRANSITION ''The workflow execution is no longer waiting at this node.'' 409
      in fetch (get_wait s wait) (rs_err NOT_FOUND ''Workflow wait not found.'' 404) (\<lambda>w.
         require (wt_type w = expected_type)
           (rs_err INVALID_TRANSITION ''The workflow wait does not accept this response type.'' 409) (
         require (wt_status w = ''pending'')
           (rs_err APPROVAL_REPLAYED ''The workflow wait has already been resolved and cannot be replayed.'' 409) (
         require (t < wt_expires_at w) (rs_err APPROVAL_EXPIRED ''The workflow wait has expired.'' 409) (
         require (submitted = wt_content_digest w)
           (rs_err APPROVAL_DIGEST_MISMATCH ''The workflow wait content digest does not match.'' 409) (
         require (expected_type = node_type_value EVENT \<longrightarrow>
                  event_key = Some (case wt_event_key w of None \<Rightarrow> '''' | Some k \<Rightarrow> k))
           (rs_err VALIDATION_FAILED ''The workflow event key does not match the pending wait.'' 409) (
         fetch (get_execution s (wt_execution_id w)) elsewhere (\<lambda>e.
         fetch (get_run s (wt_run_id w)) elsewhere (\<lambda>r.
         require (ex_status e = ExWaiting \<and> wt_node_id w \<in> set (ex_current_nodes e) \<and>
                  wt_sequence w = ex_step_count e) elsewhere (
         rbind (seal_response v nonce payload (answered v c resolution payload t w)) (\<lambda>w'.
         Inr (w', record_response v c w w' e timeout_event s))))))))))))"

subsection \<open>What a resolution does\<close>

lemma seal_response_ok:
  assumes "seal_response v nonce payload w = Inr w'"
  shows "w' = w\<lparr>wt_encrypted_response := wt_encrypted_response w'\<rparr>"
  using assms by (auto simp: seal_response_def ok_iff split: option.splits)

lemma answered_simps [simp]:
  "wt_id (answered v c x j t w) = wt_id w" "wt_org (answered v c x j t w) = wt_org w"
  "wt_type (answered v c x j t w) = wt_type w" "wt_status (answered v c x j t w) = ''resolved''"
  "wt_resolution (answered v c x j t w) = Some x" "wt_content_digest (answered v c x j t w) = wt_content_digest w"
  "wt_resolved_by (answered v c x j t w) = Some (actor_id c)"
  "wt_response_digest (answered v c x j t w) =
     Some (response_digest v w x (map_option (digest_of v) j) (Some (actor_id c)))"
  by (simp_all add: answered_def)

lemma assign_answered:
  assumes "seal_response v nonce payload (answered v c x j t w) = Inr w'"
  shows "assign_response w' w = w'"
  by (subst (2) seal_response_ok [OF assms], subst seal_response_ok [OF assms])
     (simp add: assign_response_def answered_def)

lemma assign_response_simps [simp]:
  "wt_id (assign_response w' w) = wt_id w" "wt_org (assign_response w' w) = wt_org w"
  by (simp_all add: assign_response_def)

lemma record_response_frame [simp]:
  "waits (record_response v c w w' e ev s) = tupd wt_id (wt_id w) (assign_response w') (waits s)"
  "tenant (record_response v c w w' e ev s) = tenant s" "now (record_response v c w w' e ev s) = now s"
  by (simp_all add: record_response_def Let_def upd_wait_def split: option.split)

lemma resolve_ok:
  assumes op: "resolve_workflow_wait v c nonce wait ty sub res payload key s = Inr (w', s')"
  obtains w e where "get_wait s wait = Some w" "wt_type w = ty" "wt_status w = ''pending''" "now s < wt_expires_at w"
    "sub = wt_content_digest w"
    "ty = node_type_value EVENT \<longrightarrow> key = Some (case wt_event_key w of None \<Rightarrow> '''' | Some k \<Rightarrow> k)"
    "get_execution s (wt_execution_id w) = Some e" "ex_status e = ExWaiting"
    "wt_node_id w \<in> set (ex_current_nodes e)" "wt_sequence w = ex_step_count e"
    "seal_response v nonce payload (answered v c res payload (now s) w) = Inr w'"
    "waits s' = tupd wt_id (wt_id w) (assign_response w') (waits s)" "tenant s' = tenant s" "now s' = now s"
  using op unfolding resolve_workflow_wait_def Let_def ok_iff split_paired_Ex prod.case sum.inject prod.inject
  by - (elim exE conjE, rule that, (assumption | rule refl | rule sym, assumption |
      (hypsubst, simp only: record_response_frame))+)

lemma get_wait_resolved:
  assumes "get_wait s k = Some w" and "waits s' = tupd wt_id (wt_id w) (assign_response w') (waits s)"
    and "tenant s' = tenant s"
  shows "get_wait s' k = Some (assign_response w' w)"
proof -
  have "wt_id w = k" using assms(1) by (auto dest: tget_SomeD)
  with assms show ?thesis by (simp add: seen_cong [OF assms(3)] seen_tupd tget_tupd)
qed

lemma response_digest_cong:
  "wt_id w' = wt_id w \<Longrightarrow> wt_content_digest w' = wt_content_digest w \<Longrightarrow> response_digest v w' = response_digest v w"
  by (simp add: response_digest_def fun_eq_iff)

subsection \<open>Properties\<close>

text \<open>
  C39. A wait is resolved once, for its exact content: a response is taken only for a pending,
  unexpired wait of the expected type, with the wait's own digest and event key, while its
  execution waits at that very step; the stored wait then carries the response and who gave it,
  and no second response of any kind is accepted.
\<close>

theorem wait_resolved_once:
  assumes "resolve_workflow_wait v c nonce wait ty sub res payload key s = Inr (w', s')"
  shows "(\<exists>w e. get_wait s wait = Some w \<and> wt_type w = ty \<and> wt_status w = ''pending'' \<and> now s < wt_expires_at w \<and>
      wt_content_digest w = sub \<and> (ty = ''event'' \<longrightarrow> key = Some (case wt_event_key w of None \<Rightarrow> '''' | Some k \<Rightarrow> k)) \<and>
      get_execution s (wt_execution_id w) = Some e \<and> ex_status e = ExWaiting \<and>
      wt_node_id w \<in> set (ex_current_nodes e) \<and> wt_sequence w = ex_step_count e) \<and>
    get_wait s' wait = Some w' \<and> wt_status w' = ''resolved'' \<and> wt_resolution w' = Some res \<and>
    wt_resolved_by w' = Some (actor_id c) \<and> wt_content_digest w' = sub \<and>
    (\<forall>v' c' nonce' ty' sub' res' payload' key'. \<exists>err.
       resolve_workflow_wait v' c' nonce' wait ty' sub' res' payload' key' s' = Inl err)"
  using assms
proof (rule resolve_ok)
  fix w e
  assume w: "get_wait s wait = Some w" "wt_type w = ty" "wt_status w = ''pending''" "now s < wt_expires_at w"
    "sub = wt_content_digest w"
    "ty = node_type_value EVENT \<longrightarrow> key = Some (case wt_event_key w of None \<Rightarrow> '''' | Some k \<Rightarrow> k)"
    and e: "get_execution s (wt_execution_id w) = Some e" "ex_status e = ExWaiting"
    "wt_node_id w \<in> set (ex_current_nodes e)" "wt_sequence w = ex_step_count e"
    and sealed: "seal_response v nonce payload (answered v c res payload (now s) w) = Inr w'"
    and s': "waits s' = tupd wt_id (wt_id w) (assign_response w') (waits s)" "tenant s' = tenant s"
  have stored: "get_wait s' wait = Some w'"
    using get_wait_resolved [OF w(1) s'] by (simp add: assign_answered [OF sealed])
  have row: "wt_status w' = ''resolved''" "wt_resolution w' = Some res" "wt_resolved_by w' = Some (actor_id c)"
    "wt_content_digest w' = wt_content_digest w"
    by (subst seal_response_ok [OF sealed], simp)+
  have "\<exists>err. resolve_workflow_wait v' c' nonce' wait ty' sub' res' payload' key' s' = Inl err"
    for v' c' nonce' ty' sub' res' payload' key'
  proof (cases "resolve_workflow_wait v' c' nonce' wait ty' sub' res' payload' key' s'")
    case (Inr y)
    obtain w'' s'' where "y = (w'', s'')" by (cases y)
    with Inr have "resolve_workflow_wait v' c' nonce' wait ty' sub' res' payload' key' s' = Inr (w'', s'')" by simp
    then show ?thesis by (rule resolve_ok) (use stored row(1) in simp)
  qed simp
  with w e stored row show ?thesis by auto
qed

text \<open>
  Round trip of a response: where the cipher, base64 and the JSON reader invert what they
  are given, the payload a client sent with a response is what the engine later opens from the
  resolved wait, with its members in canonical order.
\<close>

theorem wait_response_roundtrip:
  assumes "resolve_workflow_wait v c nonce wait ty sub res (Some (JObj kvs)) key s = Inr (w', s')"
    and aes_inverse: "\<And>k aad. aes_decrypt v k nonce (aes_encrypt v k nonce (json_bytes (JObj kvs)) aad) aad = Some (json_bytes (JObj kvs))"
    and aes_tag: "\<And>k aad. length (aes_encrypt v k nonce (json_bytes (JObj kvs)) aad) = length (json_bytes (JObj kvs)) + 16"
    and b64_inverse: "\<And>s. b64url_decode v (b64url_encode v s) = Some s"
    and loads_inverse: "json_loads v (json_bytes (JObj kvs)) = Some (sort_keys (JObj kvs))"
    and "length nonce = 12" and "wf_json (JObj kvs)"
  shows "decrypt_wait_response v w' = Inr (sort_keys (JObj kvs))"
  using assms(1)
proof (rule resolve_ok)
  fix w
  let ?j = "JObj kvs" and ?w = "answered v c res (Some (JObj kvs)) (now s) w"
  assume "seal_response v nonce (Some ?j) ?w = Inr w'"
  then obtain k aad where k: "decode_aes256_key v (encryption_key_b64 v) = Inr k" and aad: "response_aad ?w = Inr aad"
    and w': "w' = ?w\<lparr>wt_encrypted_response := Some (seal_json v nonce ?j k aad)\<rparr>"
    by (auto simp: seal_response_def ok_iff)
  obtain lvs where sorted: "sort_keys ?j = JObj lvs" by simp
  have "open_json v (seal_json v nonce ?j k aad) k aad = Inr (JObj lvs)"
    unfolding sorted [symmetric] by (rule open_seal) (use assms in simp_all)
  moreover have "response_aad w' = Inr aad" using aad by (simp add: w' response_aad_def)
  moreover have "response_digest v w' = response_digest v w" by (rule response_digest_cong) (simp_all add: w')
  moreover have "digest_of v (JObj lvs) = digest_of v ?j" using digest_of_sort_keys [of v ?j] by (simp only: sorted)
  moreover have "wt_encrypted_response w' = Some (seal_json v nonce ?j k aad)" "wt_resolution w' = Some res"
    "wt_response_digest w' = Some (response_digest v w res (Some (digest_of v ?j)) (Some (actor_id c)))"
    "wt_resolved_by w' = Some (actor_id c)" by (simp_all add: w')
  ultimately show ?thesis unfolding sorted using k by (simp add: decrypt_wait_response_def handler_eval)
qed

subsection \<open>A waiting execution\<close>

definition waiting_execution :: execution_row where
  "waiting_execution = (sample_execution ''ask'' 10)\<lparr>ex_status := ExWaiting\<rparr>"

definition waiting_run :: run_row where
  "waiting_run = \<lparr>run_id = 2, run_org = 7, run_project_id = 10, run_environment_id = 11, run_agent_id = 12,
     run_actor_id = 20, run_actor_type = ''user'', run_kind = ''workflow'', run_status = RunWaiting,
     run_idempotency_key = ''k'', run_input_digest = ''d'', run_active_node = Some ''ask'', run_started_at = None,
     run_completed_at = None, run_error_code = None, run_created_at = 0, run_updated_at = 0\<rparr>"

definition sample_wait :: wait_row where
  "sample_wait = \<lparr>wt_id = 50, wt_org = 7, wt_execution_id = 1, wt_run_id = 2, wt_node_id = ''ask'', wt_sequence = 0,
     wt_type = ''request_information'', wt_status = ''pending'', wt_resolution = None, wt_content_digest = ''w'',
     wt_state_digest = ''d'', wt_request_metadata = JObj [], wt_event_key = None, wt_due_at = None, wt_expires_at = 500,
     wt_response_digest = None, wt_encrypted_response = None, wt_resolved_by = None, wt_resolved_at = None,
     wt_created_at = 0\<rparr>"

definition waiting_db :: db where
  "waiting_db = (empty_db 100)\<lparr>tenant := Some 7, executions := [waiting_execution], runs := [waiting_run],
     waits := [sample_wait]\<rparr>"

definition answer_env :: env where
  "answer_env = sample_env\<lparr>aes_encrypt := (\<lambda>k nonce p aad. p @ replicate 16 CHR ''t'')\<rparr>"

definition answering_actor :: actor_context where
  "answering_actor = \<lparr>actor_org = 7, actor_id = 20, actor_type = ''user''\<rparr>"

lemma sample_resolution:
  obtains w' s' where "resolve_workflow_wait answer_env answering_actor ''abcdefghijkl'' 50 ''request_information'' ''w''
    ''received'' (Some (JObj [])) None waiting_db = Inr (w', s')"
proof -
  have rows: "get_wait waiting_db 50 = Some sample_wait" "get_execution waiting_db (Suc 0) = Some waiting_execution"
    "get_run waiting_db 2 = Some waiting_run" "now waiting_db = 100"
    by (simp_all add: waiting_db_def seen_def rls_def tget_def sample_wait_def waiting_execution_def sample_execution_def
        waiting_run_def empty_db_def)
  have "decode_aes256_key answer_env (encryption_key_b64 answer_env) = Inr sample_key"
    by (simp add: decode_aes256_key_def answer_env_def sample_env_def sample_key_def)
  then show thesis
    using that by (simp add: resolve_workflow_wait_def Let_def rows seal_response_def response_aad_def handler_eval
        waiting_execution_def sample_execution_def sample_wait_def)
qed

theorem wait_resolved_once_witness:
  "\<exists>w' s' err. get_wait s' 50 = Some w' \<and> wt_resolution w' = Some ''received'' \<and>
     resolve_workflow_wait answer_env answering_actor ''abcdefghijkl'' 50 ''request_information'' ''w''
       ''received'' None None s' = Inl err"
proof -
  obtain w' s' where ok: "resolve_workflow_wait answer_env answering_actor ''abcdefghijkl'' 50 ''request_information'' ''w''
    ''received'' (Some (JObj [])) None waiting_db = Inr (w', s')" by (rule sample_resolution)
  show ?thesis using wait_resolved_once [OF ok] by blast
qed

theorem wait_response_roundtrip_witness:
  "\<exists>w' s'. resolve_workflow_wait answer_env answering_actor ''abcdefghijkl'' 50 ''request_information'' ''w''
       ''received'' (Some (JObj [])) None waiting_db = Inr (w', s') \<and>
     decrypt_wait_response answer_env w' = Inr (JObj [])"
proof -
  obtain w' s' where ok: "resolve_workflow_wait answer_env answering_actor ''abcdefghijkl'' 50 ''request_information'' ''w''
    ''received'' (Some (JObj [])) None waiting_db = Inr (w', s')" by (rule sample_resolution)
  have "decrypt_wait_response answer_env w' = Inr (sort_keys (JObj []))"
    by (rule wait_response_roundtrip [OF ok]) (simp_all add: answer_env_def sample_env_def json_bytes_def)
  with ok show ?thesis by auto
qed

end
