(* ===== verification/RS_Executions.thy ===== *)
theory RS_Executions
  imports RS_Simulation
begin

section \<open>Executions and checkpoints\<close>

text \<open>
  Models the part of \<open>services/workflows.py\<close> that creates runs of a deployed workflow: the
  sealed state of an execution, its checkpoints, the records of a new execution, the start of a run
  and the fork of a run at a checkpoint. The nonces of the sealed states are arguments.
\<close>

subsection \<open>Sealed state\<close>

definition execution_aad :: "uuid \<Rightarrow> uuid \<Rightarrow> digest \<Rightarrow> json" where
  "execution_aad org e content = JObj
     [(''organization_id'', juuid org), (''workflow_execution_id'', juuid e), (''content_digest'', JStr content)]"

definition checkpoint_aad :: "uuid \<Rightarrow> uuid \<Rightarrow> digest \<Rightarrow> json" where
  "checkpoint_aad org cp content = JObj
     [(''organization_id'', juuid org), (''checkpoint_id'', juuid cp), (''content_digest'', JStr content)]"

definition encrypt_execution_state :: "env \<Rightarrow> string \<Rightarrow> json \<Rightarrow> execution_row \<Rightarrow> rs_error + string" where
  "encrypt_execution_state v nonce state e =
     rbind (decode_aes256_key v (encryption_key_b64 v)) (\<lambda>key.
     Inr (seal_json v nonce state key (execution_aad (ex_org e) (ex_id e) (ex_content_digest e))))"

text \<open>\<open>open_json\<close> and the two checks that follow it.\<close>

definition open_state :: "env \<Rightarrow> string \<Rightarrow> json \<Rightarrow> digest \<Rightarrow> string \<Rightarrow> rs_error + json" where
  "open_state v sealed aad dig message =
     rbind (decode_aes256_key v (encryption_key_b64 v)) (\<lambda>key.
     rbind (open_json v sealed key aad) (\<lambda>state.
     require ((case state of JObj _ \<Rightarrow> True | _ \<Rightarrow> False) \<and> digest_of v state = dig)
       (rs_err INVALID_TRANSITION message 409) (Inr state)))"

definition decrypt_execution_state :: "env \<Rightarrow> execution_row \<Rightarrow> rs_error + json" where
  "decrypt_execution_state v e =
     open_state v (ex_encrypted_state e) (execution_aad (ex_org e) (ex_id e) (ex_content_digest e)) (ex_state_digest e)
       ''The durable workflow state is invalid or has been modified.''"

definition decrypt_checkpoint_state :: "env \<Rightarrow> checkpoint_row \<Rightarrow> rs_error + json" where
  "decrypt_checkpoint_state v cp =
     open_state v (cp_encrypted_state cp) (checkpoint_aad (cp_org cp) (cp_id cp) (cp_content_digest cp)) (cp_state_digest cp)
       ''The durable workflow checkpoint is invalid or has been modified.''"

subsection \<open>Checkpoints\<close>

definition jtexts :: "string list \<Rightarrow> json" where
  "jtexts ts = JArr (map JStr ts)"

definition jcounts :: "(string \<times> int) list \<Rightarrow> json" where
  "jcounts cs = JObj (map (\<lambda>(k, c). (k, JInt c)) cs)"

definition create_checkpoint ::
  "env \<Rightarrow> string \<Rightarrow> execution_row \<Rightarrow> json \<Rightarrow> string \<Rightarrow> uuid option \<Rightarrow> db \<Rightarrow> rs_error + checkpoint_row \<times> db" where
  "create_checkpoint v nonce e state node given_parent s =
     (let parent = (case given_parent of Some k \<Rightarrow> Some k
            | None \<Rightarrow> map_option cp_id (last_by cp_sequence
                (filter (\<lambda>cp. cp_execution_id cp = ex_id e) (seen s cp_org (checkpoints s)))));
          state_digest = digest_of v state;
          content = digest_of v (JObj
            [(''organization_id'', juuid (ex_org e)), (''run_id'', juuid (ex_run_id e)),
             (''workflow_execution_id'', juuid (ex_id e)), (''workflow_version_id'', juuid (ex_version_id e)),
             (''sequence'', JInt (ex_step_count e)), (''node_id'', JStr node), (''state_digest'', JStr state_digest),
             (''active_nodes'', jtexts (ex_current_nodes e)), (''completed_nodes'', jtexts (ex_completed_nodes e)),
             (''path'', jtexts (ex_path e)), (''loop_counts'', jcounts (ex_loop_counts e)),
             (''parent_checkpoint_id'', jopt juuid parent)]);
          (i, s) = uuid4 s
      in rbind (decode_aes256_key v (encryption_key_b64 v)) (\<lambda>key.
         let cp = \<lparr>cp_id = i, cp_org = ex_org e, cp_execution_id = ex_id e, cp_run_id = ex_run_id e,
                   cp_sequence = ex_step_count e, cp_node_id = node,
                   cp_encrypted_state = seal_json v nonce state key (checkpoint_aad (ex_org e) i content),
                   cp_state_digest = state_digest, cp_active_nodes = ex_current_nodes e,
                   cp_completed_nodes = ex_completed_nodes e, cp_path = ex_path e, cp_loop_counts = ex_loop_counts e,
                   cp_content_digest = content, cp_parent_id = parent, cp_created_at = now s\<rparr>
         in Inr (cp, s\<lparr>checkpoints := checkpoints s @ [cp]\<rparr>)))"

subsection \<open>The records of a new execution\<close>

text \<open>The keyword arguments of \<open>_create_execution_records\<close>, with their defaults.\<close>

record execution_request =
  xr_state :: json
  xr_idempotency_key :: string
  xr_evaluation_id :: "uuid option"
  xr_scenario_id :: "uuid option"
  xr_forked_from :: "uuid option"
  xr_initial_nodes :: "string list option"
  xr_completed_nodes :: "string list"
  xr_path :: "string list"
  xr_loop_counts :: "(string \<times> int) list"
  xr_purpose :: string
  xr_mode :: string
  xr_profile_id :: "uuid option"

definition run_request :: "json \<Rightarrow> string \<Rightarrow> execution_request" where
  "run_request state key = \<lparr>xr_state = state, xr_idempotency_key = key, xr_evaluation_id = None, xr_scenario_id = None,
     xr_forked_from = None, xr_initial_nodes = None, xr_completed_nodes = [], xr_path = [], xr_loop_counts = [],
     xr_purpose = ''run'', xr_mode = ''live'', xr_profile_id = None\<rparr>"

definition execution_input_digest :: "env \<Rightarrow> deployment_row \<Rightarrow> version_row \<Rightarrow> execution_request \<Rightarrow> digest" where
  "execution_input_digest v dep ver x = digest_of v (JObj
     [(''deployment_id'', juuid (wd_id dep)), (''workflow_version_id'', juuid (wv_id ver)),
      (''definition_digest'', JStr (wv_definition_digest ver)), (''state_digest'', JStr (digest_of v (xr_state x))),
      (''forked_from_checkpoint_id'', jopt juuid (xr_forked_from x)), (''evaluation_id'', jopt juuid (xr_evaluation_id x)),
      (''evaluation_scenario_id'', jopt juuid (xr_scenario_id x)), (''execution_purpose'', JStr (xr_purpose x)),
      (''execution_mode'', JStr (xr_mode x)), (''simulation_profile_id'', jopt juuid (xr_profile_id x))])"

definition execution_content_digest ::
  "env \<Rightarrow> actor_context \<Rightarrow> uuid \<Rightarrow> uuid \<Rightarrow> deployment_row \<Rightarrow> version_row \<Rightarrow> execution_request \<Rightarrow> digest" where
  "execution_content_digest v c run ex dep ver x = digest_of v (JObj
     [(''organization_id'', juuid (actor_org c)), (''run_id'', juuid run), (''workflow_execution_id'', juuid ex),
      (''workflow_version_id'', juuid (wv_id ver)), (''deployment_id'', juuid (wd_id dep)),
      (''definition_digest'', JStr (wv_definition_digest ver)),
      (''input_digest'', JStr (execution_input_digest v dep ver x)), (''execution_purpose'', JStr (xr_purpose x)),
      (''execution_mode'', JStr (xr_mode x)), (''simulation_profile_id'', jopt juuid (xr_profile_id x))])"

definition active_nodes :: "wf_definition \<Rightarrow> execution_request \<Rightarrow> string list" where
  "active_nodes d x = (case xr_initial_nodes x of Some ns \<Rightarrow> ns | None \<Rightarrow> [entry_node_id d])"

definition new_workflow_run ::
  "env \<Rightarrow> actor_context \<Rightarrow> uuid \<Rightarrow> workflow_row \<Rightarrow> deployment_row \<Rightarrow> version_row \<Rightarrow> wf_definition \<Rightarrow>
     execution_request \<Rightarrow> timestamp \<Rightarrow> run_row" where
  "new_workflow_run v c i flow dep ver d x t =
     \<lparr>run_id = i, run_org = actor_org c, run_project_id = wf_project_id flow, run_environment_id = wd_environment_id dep,
      run_agent_id = wd_agent_id dep, run_actor_id = actor_id c, run_actor_type = actor_type c, run_kind = ''workflow'',
      run_status = RunQueued, run_idempotency_key = xr_idempotency_key x,
      run_input_digest = execution_input_digest v dep ver x,
      run_active_node = (case sort (active_nodes d x) of [] \<Rightarrow> None | n # _ \<Rightarrow> Some n), run_started_at = None,
      run_completed_at = None, run_error_code = None, run_created_at = t, run_updated_at = t\<rparr>"

definition new_execution ::
  "env \<Rightarrow> actor_context \<Rightarrow> uuid \<Rightarrow> uuid \<Rightarrow> deployment_row \<Rightarrow> version_row \<Rightarrow> wf_definition \<Rightarrow> execution_request \<Rightarrow>
     timestamp \<Rightarrow> execution_row" where
  "new_execution v c i run dep ver d x t =
     \<lparr>ex_id = i, ex_org = actor_org c, ex_run_id = run, ex_version_id = wv_id ver, ex_deployment_id = wd_id dep,
      ex_evaluation_id = xr_evaluation_id x, ex_scenario_id = xr_scenario_id x, ex_forked_from = xr_forked_from x,
      ex_mode = xr_mode x, ex_profile_id = xr_profile_id x, ex_status = ExQueued, ex_version = 1,
      ex_content_digest = execution_content_digest v c run i dep ver x, ex_encrypted_state = ''pending'',
      ex_state_digest = digest_of v (xr_state x), ex_current_nodes = active_nodes d x,
      ex_completed_nodes = xr_completed_nodes x, ex_path = xr_path x, ex_loop_counts = xr_loop_counts x,
      ex_step_count = int (length (xr_path x)), ex_max_steps = max_steps (def_limits d),
      ex_deadline_at = t + seconds (max_duration_seconds (def_limits d)), ex_worker_name = None, ex_claim_hash = None,
      ex_lease_expires_at = None, ex_started_at = None, ex_completed_at = None, ex_error_code = None\<rparr>"

text \<open>The ready event, the trace and the audit of a new run.\<close>

definition announce_execution ::
  "env \<Rightarrow> actor_context \<Rightarrow> run_row \<Rightarrow> execution_row \<Rightarrow> version_row \<Rightarrow> execution_request \<Rightarrow> db \<Rightarrow> db" where
  "announce_execution v c r e ver x s =
     (let s = add_outbox (actor_org c) ''workflow.ready'' ''workflow_execution'' (ex_id e)
            (''workflow.ready:'' @ uuid_str (ex_id e) @ '':1'')
            (JObj [(''workflow_execution_id'', juuid (ex_id e)), (''content_digest'', JStr (ex_content_digest e))]) (now s) s;
          how = [(''raw_content_captured'', JBool False), (''execution_purpose'', JStr (xr_purpose x)),
                 (''execution_mode'', JStr (xr_mode x)), (''simulation_profile_id'', jopt juuid (xr_profile_id x))];
          s = trace_event v (actor_org c) (run_id r)
                (case run_active_node r of Some n \<Rightarrow> if n = '''' then ''workflow'' else n | None \<Rightarrow> ''workflow'')
                ''workflow.queued'' ''queued''
                (JObj ([(''workflow_execution_id'', juuid (ex_id e)), (''workflow_version_id'', juuid (wv_id ver)),
                        (''definition_digest'', JStr (wv_definition_digest ver)),
                        (''state_digest'', JStr (ex_state_digest e))] @ how)) s
      in audit v (actor_org c) (actor_id c) ''workflow.run_created'' ''run'' (run_id r) (ex_content_digest e)
           (JObj ([(''workflow_execution_id'', juuid (ex_id e)), (''workflow_version_id'', juuid (wv_id ver)),
                   (''forked_from_checkpoint_id'', jopt juuid (xr_forked_from x))] @ how)) s)"

definition create_execution_records ::
  "env \<Rightarrow> py_values \<Rightarrow> actor_context \<Rightarrow> string \<times> string \<Rightarrow> deployment_row \<Rightarrow> execution_request \<Rightarrow> db \<Rightarrow>
     rs_error + uuid \<times> db" where
  "create_execution_records v p c nonces dep x s =
     fetch (get_version s (wd_version_id dep))
       (rs_err INVALID_TRANSITION ''The deployed workflow version is unavailable.'' 409) (\<lambda>ver.
     fetch (get_workflow s (wv_workflow_id ver))
       (rs_err INVALID_TRANSITION ''The deployed workflow is unavailable.'' 409) (\<lambda>flow.
     rbind (load_definition p (wv_definition ver)) (\<lambda>d.
     case find (\<lambda>r. run_idempotency_key r = xr_idempotency_key x) (seen s run_org (runs s)) of
       Some r \<Rightarrow>
         require (run_kind r = ''workflow'' \<and> run_input_digest r = execution_input_digest v dep ver x)
           (rs_err VALIDATION_FAILED ''The idempotency key belongs to different workflow content.'' 409)
           (Inr (run_id r, s))
     | None \<Rightarrow>
         let t = now s;
             (run, s) = uuid4 s;
             (i, s) = uuid4 s;
             r = new_workflow_run v c run flow dep ver d x t;
             e = new_execution v c i run dep ver d x t
         in rbind (encrypt_execution_state v (fst nonces) (xr_state x) e) (\<lambda>sealed.
            let e = e\<lparr>ex_encrypted_state := sealed\<rparr>;
                s = flush (s\<lparr>runs := runs s @ [r], executions := executions s @ [e]\<rparr>)
            in rbind (create_checkpoint v (snd nonces) e (xr_state x)
                    (case xr_forked_from x of Some _ \<Rightarrow> ''__fork__'' | None \<Rightarrow> ''__start__'') (xr_forked_from x) s)
                 (\<lambda>(cp, s). Inr (run, announce_execution v c r e ver x s))))))"

definition start_workflow_run ::
  "env \<Rightarrow> py_values \<Rightarrow> actor_context \<Rightarrow> string \<times> string \<Rightarrow> uuid \<Rightarrow> json \<Rightarrow> string \<Rightarrow> db \<Rightarrow> rs_error + uuid \<times> db" where
  "start_workflow_run v p c nonces deployment input key s =
     (let missing = rs_err NOT_FOUND ''Active workflow deployment not found.'' 404 in
      fetch (get_deployment s deployment) missing (\<lambda>dep.
      require (wd_status dep = ''active'') missing (
      create_execution_records v p c nonces dep (run_request input key) s)))"

definition fork_request :: "checkpoint_row \<Rightarrow> json \<Rightarrow> string \<Rightarrow> profile_row option \<Rightarrow> execution_request" where
  "fork_request cp state key q = (run_request state key)\<lparr>xr_forked_from := Some (cp_id cp),
     xr_initial_nodes := Some (cp_active_nodes cp), xr_completed_nodes := cp_completed_nodes cp, xr_path := cp_path cp,
     xr_loop_counts := cp_loop_counts cp, xr_purpose := ''fork'',
     xr_mode := (case q of None \<Rightarrow> ''live'' | Some _ \<Rightarrow> ''simulation''), xr_profile_id := map_option sp_id q\<rparr>"

definition fork_workflow_run ::
  "env \<Rightarrow> py_values \<Rightarrow> actor_context \<Rightarrow> string \<times> string \<Rightarrow> uuid \<Rightarrow> uuid \<Rightarrow> string \<Rightarrow> uuid option \<Rightarrow> db \<Rightarrow>
     rs_error + uuid \<times> db" where
  "fork_workflow_run v p c nonces run checkpoint key profile s =
     (let missing = rs_err NOT_FOUND ''Workflow checkpoint not found for this run.'' 404;
          unavailable = rs_err INVALID_TRANSITION ''The checkpoint deployment is unavailable.'' 409
      in fetch (find (\<lambda>e. ex_run_id e = run) (seen s ex_org (executions s))) missing (\<lambda>e.
         fetch (get_checkpoint s checkpoint) missing (\<lambda>cp.
         require (cp_execution_id cp = ex_id e \<and> cp_run_id cp = run) missing (
         fetch (get_deployment s (ex_deployment_id e)) unavailable (\<lambda>dep.
         require (wd_status dep = ''active'' \<or> wd_status dep = ''superseded'') unavailable (
         rbind (require_simulation_profile v p dep profile s) (\<lambda>q.
         require (cp_active_nodes cp \<noteq> [])
           (rs_err INVALID_TRANSITION ''A terminal checkpoint has no remaining execution to fork.'' 409) (
         rbind (decrypt_checkpoint_state v cp) (\<lambda>state.
         create_execution_records v p c nonces dep (fork_request cp state key q) s)))))))))"

subsection \<open>What a new execution is\<close>

lemma announce_frame [simp]:
  "runs (announce_execution v c r e ver x s) = runs s" "executions (announce_execution v c r e ver x s) = executions s"
  "checkpoints (announce_execution v c r e ver x s) = checkpoints s" "tenant (announce_execution v c r e ver x s) = tenant s"
  "versions (announce_execution v c r e ver x s) = versions s" "workflows (announce_execution v c r e ver x s) = workflows s"
  "deployments (announce_execution v c r e ver x s) = deployments s" "now (announce_execution v c r e ver x s) = now s"
  "actions (announce_execution v c r e ver x s) = actions s" "tool_calls (announce_execution v c r e ver x s) = tool_calls s"
  by (simp_all add: announce_execution_def Let_def)

lemma create_checkpoint_ok:
  assumes "create_checkpoint v nonce e state node parent s = Inr (cp, s')"
  obtains key where "decode_aes256_key v (encryption_key_b64 v) = Inr key" "s' = s\<lparr>next_uuid := next_uuid s', checkpoints := checkpoints s @ [cp]\<rparr>"
    "cp_execution_id cp = ex_id e" "cp_run_id cp = ex_run_id e" "cp_sequence cp = ex_step_count e" "cp_org cp = ex_org e"
    "cp_active_nodes cp = ex_current_nodes e" "cp_completed_nodes cp = ex_completed_nodes e" "cp_path cp = ex_path e"
    "cp_loop_counts cp = ex_loop_counts e" "cp_state_digest cp = digest_of v state"
    "cp_encrypted_state cp = seal_json v nonce state key (checkpoint_aad (cp_org cp) (cp_id cp) (cp_content_digest cp))"
  using assms by (auto simp: create_checkpoint_def Let_def ok_iff uuid4_def)

definition fresh_key :: "db \<Rightarrow> string \<Rightarrow> bool" where
  "fresh_key s key \<longleftrightarrow> (\<forall>r \<in> set (seen s run_org (runs s)). run_idempotency_key r \<noteq> key)"

lemma fresh_key_find: "fresh_key s key \<Longrightarrow> find (\<lambda>r. run_idempotency_key r = key) (seen s run_org (runs s)) = None"
  by (auto simp: fresh_key_def find_None_iff)

text \<open>The rows a creation under a fresh key adds.\<close>

lemma create_fresh:
  assumes create: "create_execution_records v p c nonces dep x s = Inr (run, s')" and fresh: "fresh_key s (xr_idempotency_key x)"
  obtains ver :: version_row and flow :: workflow_row and d i key cp where
    "get_version s (wd_version_id dep) = Some ver" "get_workflow s (wv_workflow_id ver) = Some flow"
    "load_definition p (wv_definition ver) = Inr d" "decode_aes256_key v (encryption_key_b64 v) = Inr key"
    "runs s' = runs s @ [new_workflow_run v c run flow dep ver d x (now s)]"
    "executions s' = executions s @ [(new_execution v c i run dep ver d x (now s))\<lparr>ex_encrypted_state :=
       seal_json v (fst nonces) (xr_state x) key
         (execution_aad (actor_org c) i (execution_content_digest v c run i dep ver x))\<rparr>]"
    "checkpoints s' = checkpoints s @ [cp]" "cp_execution_id cp = i" "cp_state_digest cp = digest_of v (xr_state x)"
    "cp_encrypted_state cp = seal_json v (snd nonces) (xr_state x) key (checkpoint_aad (cp_org cp) (cp_id cp) (cp_content_digest cp))"
    "tenant s' = tenant s" "versions s' = versions s" "workflows s' = workflows s" "deployments s' = deployments s"
proof -
  let ?t = "now s" and ?run = "next_uuid s" and ?i = "Suc (next_uuid s)"
  from create obtain ver :: version_row and flow :: workflow_row and d where
    ver: "get_version s (wd_version_id dep) = Some ver" "get_workflow s (wv_workflow_id ver) = Some flow"
    "load_definition p (wv_definition ver) = Inr d" by (auto simp: create_execution_records_def ok_iff)
  let ?e = "new_execution v c ?i ?run dep ver d x ?t"
  from create ver fresh_key_find [OF fresh] obtain sealed cp s1 where
    sealed: "encrypt_execution_state v (fst nonces) (xr_state x) ?e = Inr sealed" and run: "run = ?run"
    and cp: "create_checkpoint v (snd nonces) (?e\<lparr>ex_encrypted_state := sealed\<rparr>) (xr_state x)
        (case xr_forked_from x of Some _ \<Rightarrow> ''__fork__'' | None \<Rightarrow> ''__start__'') (xr_forked_from x)
        (flush (s\<lparr>next_uuid := Suc ?i, runs := runs s @ [new_workflow_run v c ?run flow dep ver d x ?t],
           executions := executions s @ [?e\<lparr>ex_encrypted_state := sealed\<rparr>]\<rparr>)) = Inr (cp, s1)"
    and s': "s' = announce_execution v c (new_workflow_run v c ?run flow dep ver d x ?t) (?e\<lparr>ex_encrypted_state := sealed\<rparr>) ver x s1"
    by (auto simp: create_execution_records_def handler_eval Let_def uuid4_def ok_iff)
  from cp obtain key where key: "decode_aes256_key v (encryption_key_b64 v) = Inr key" and rows: "s1 = flush (s\<lparr>next_uuid := Suc ?i,
           runs := runs s @ [new_workflow_run v c ?run flow dep ver d x ?t],
           executions := executions s @ [?e\<lparr>ex_encrypted_state := sealed\<rparr>]\<rparr>)\<lparr>next_uuid := next_uuid s1, checkpoints := checkpoints s @ [cp]\<rparr>"
    and cps: "cp_execution_id cp = ?i" "cp_state_digest cp = digest_of v (xr_state x)"
      "cp_encrypted_state cp = seal_json v (snd nonces) (xr_state x) key (checkpoint_aad (cp_org cp) (cp_id cp) (cp_content_digest cp))"
    by (rule create_checkpoint_ok) (auto simp: new_execution_def flush_def)
  have "sealed = seal_json v (fst nonces) (xr_state x) key
      (execution_aad (actor_org c) ?i (execution_content_digest v c ?run ?i dep ver x))"
    using sealed key by (simp add: encrypt_execution_state_def handler_eval new_execution_def)
  with ver key cps show ?thesis
    by (intro that [of ver flow d key ?i cp]) (simp_all add: s' run, (subst rows, simp add: flush_def)+)
qed

text \<open>What the ciphers and codecs outside the repository promise for one value and one nonce.\<close>

definition seals :: "env \<Rightarrow> string \<Rightarrow> json \<Rightarrow> bool" where
  "seals v nonce j \<longleftrightarrow>
     (\<forall>k aad. aes_decrypt v k nonce (aes_encrypt v k nonce (json_bytes j) aad) aad = Some (json_bytes j) \<and>
        length (aes_encrypt v k nonce (json_bytes j) aad) = length (json_bytes j) + 16) \<and>
     (\<forall>t. b64url_decode v (b64url_encode v t) = Some t) \<and> json_loads v (json_bytes j) = Some (sort_keys j) \<and>
     length nonce = 12 \<and> wf_json j"

lemma open_state_sealed:
  assumes "seals v nonce (JObj kvs)" and "decode_aes256_key v (encryption_key_b64 v) = Inr key"
  shows "open_state v (seal_json v nonce (JObj kvs) key aad) aad (digest_of v (JObj kvs)) message = Inr (sort_keys (JObj kvs))"
proof -
  have opened: "open_json v (seal_json v nonce (JObj kvs) key aad) key aad = Inr (sort_keys (JObj kvs))"
    by (rule open_seal) (use assms(1) in \<open>auto simp: seals_def\<close>)
  obtain lvs where "sort_keys (JObj kvs) = JObj lvs" by simp
  moreover have "digest_of v (sort_keys (JObj kvs)) = digest_of v (JObj kvs)"
    by (rule digest_of_sort_keys)
  ultimately show ?thesis using opened assms(2) by (simp add: open_state_def handler_eval)
qed

lemma start_ok:
  assumes "start_workflow_run v p c nonces deployment input key s = Inr (run, s')"
  obtains dep where "get_deployment s deployment = Some dep" "wd_status dep = ''active''"
    "create_execution_records v p c nonces dep (run_request input key) s = Inr (run, s')"
  using assms by (auto simp: start_workflow_run_def ok_iff Let_def)

lemma run_request_simps [simp]:
  "xr_state (run_request state key) = state" "xr_idempotency_key (run_request state key) = key"
  "xr_forked_from (run_request state key) = None" "xr_initial_nodes (run_request state key) = None"
  "xr_completed_nodes (run_request state key) = []" "xr_path (run_request state key) = []"
  "xr_loop_counts (run_request state key) = []" "xr_purpose (run_request state key) = ''run''"
  "xr_mode (run_request state key) = ''live''" "xr_profile_id (run_request state key) = None"
  by (simp_all add: run_request_def)

lemma fork_request_simps [simp]:
  "xr_state (fork_request cp state key q) = state" "xr_idempotency_key (fork_request cp state key q) = key"
  "xr_initial_nodes (fork_request cp state key q) = Some (cp_active_nodes cp)"
  "xr_completed_nodes (fork_request cp state key q) = cp_completed_nodes cp" "xr_path (fork_request cp state key q) = cp_path cp"
  "xr_loop_counts (fork_request cp state key q) = cp_loop_counts cp"
  "xr_mode (fork_request cp state key q) = (case q of None \<Rightarrow> ''live'' | Some _ \<Rightarrow> ''simulation'')"
  "xr_profile_id (fork_request cp state key q) = map_option sp_id q"
  by (simp_all add: fork_request_def)

lemma new_execution_simps [simp]:
  "ex_id (new_execution v c i run dep ver d x t) = i" "ex_org (new_execution v c i run dep ver d x t) = actor_org c"
  "ex_run_id (new_execution v c i run dep ver d x t) = run" "ex_deployment_id (new_execution v c i run dep ver d x t) = wd_id dep"
  "ex_mode (new_execution v c i run dep ver d x t) = xr_mode x" "ex_status (new_execution v c i run dep ver d x t) = ExQueued"
  "ex_profile_id (new_execution v c i run dep ver d x t) = xr_profile_id x"
  "ex_content_digest (new_execution v c i run dep ver d x t) = execution_content_digest v c run i dep ver x"
  "ex_state_digest (new_execution v c i run dep ver d x t) = digest_of v (xr_state x)"
  "ex_current_nodes (new_execution v c i run dep ver d x t) = active_nodes d x"
  "ex_completed_nodes (new_execution v c i run dep ver d x t) = xr_completed_nodes x"
  "ex_path (new_execution v c i run dep ver d x t) = xr_path x" "ex_loop_counts (new_execution v c i run dep ver d x t) = xr_loop_counts x"
  "ex_step_count (new_execution v c i run dep ver d x t) = int (length (xr_path x))"
  "ex_max_steps (new_execution v c i run dep ver d x t) = max_steps (def_limits d)"
  by (simp_all add: new_execution_def)

lemma new_workflow_run_simps [simp]:
  "run_id (new_workflow_run v c i flow dep ver d x t) = i" "run_org (new_workflow_run v c i flow dep ver d x t) = actor_org c"
  "run_kind (new_workflow_run v c i flow dep ver d x t) = ''workflow''"
  "run_idempotency_key (new_workflow_run v c i flow dep ver d x t) = xr_idempotency_key x"
  "run_input_digest (new_workflow_run v c i flow dep ver d x t) = execution_input_digest v dep ver x"
  by (simp_all add: new_workflow_run_def)

lemma seen_snoc: "seen s org (rows @ [r]) = seen s org rows @ (if rls s (org r) then [r] else [])"
  by (simp add: seen_def)

subsection \<open>Properties\<close>

text \<open>
  C36. What starting a run does: only an active deployment runs; under a fresh key one queued live
  execution is added, at the entry of the deployed definition and with its step limit, whose sealed
  state, and that of its first checkpoint, open to the input. The ciphers are assumed to invert, and
  pydantic to enforce the declared bounds of a stored definition.
\<close>

theorem run_started:
  assumes "start_workflow_run v p c nonces deployment (JObj kvs) key s = Inr (run, s')" and "fresh_key s key"
    and seals: "seals v (fst nonces) (JObj kvs)" "seals v (snd nonces) (JObj kvs)"
    and schema: "\<forall>j d. parse_definition p j = Some d \<longrightarrow> definition_schema_ok d"
  shows "\<exists>dep ver d e cp. get_deployment s deployment = Some dep \<and> wd_status dep = ''active'' \<and>
    get_version s (wd_version_id dep) = Some ver \<and> load_definition p (wv_definition ver) = Inr d \<and>
    executions s' = executions s @ [e] \<and> ex_run_id e = run \<and> ex_deployment_id e = deployment \<and> ex_status e = ExQueued \<and>
    ex_mode e = ''live'' \<and> started d e \<and> ex_max_steps e = max_steps (def_limits d) \<and>
    checkpoints s' = checkpoints s @ [cp] \<and> cp_execution_id cp = ex_id e \<and>
    decrypt_execution_state v e = Inr (sort_keys (JObj kvs)) \<and> decrypt_checkpoint_state v cp = Inr (sort_keys (JObj kvs))"
  using assms(1)
proof (rule start_ok)
  fix dep
  assume dep: "get_deployment s deployment = Some dep" "wd_status dep = ''active''"
    and create: "create_execution_records v p c nonces dep (run_request (JObj kvs) key) s = Inr (run, s')"
  have id: "wd_id dep = deployment" using dep(1) by (auto dest: tget_SomeD)
  from create obtain ver :: version_row and flow :: workflow_row and d i k cp where
    ver: "get_version s (wd_version_id dep) = Some ver" "load_definition p (wv_definition ver) = Inr d"
    and k: "decode_aes256_key v (encryption_key_b64 v) = Inr k"
    and e: "executions s' = executions s @ [(new_execution v c i run dep ver d (run_request (JObj kvs) key) (now s))\<lparr>ex_encrypted_state :=
       seal_json v (fst nonces) (JObj kvs) k (execution_aad (actor_org c) i
         (execution_content_digest v c run i dep ver (run_request (JObj kvs) key)))\<rparr>]"
    and cp: "checkpoints s' = checkpoints s @ [cp]" "cp_execution_id cp = i" "cp_state_digest cp = digest_of v (JObj kvs)"
      "cp_encrypted_state cp = seal_json v (snd nonces) (JObj kvs) k (checkpoint_aad (cp_org cp) (cp_id cp) (cp_content_digest cp))"
    by (rule create_fresh) (use assms(2) in simp_all)
  have "0 \<le> max_steps (def_limits d)"
    using schema ver(2) by (fastforce simp: load_definition_def ok_iff definition_schema_ok_def limits_schema_ok_def)
  then have "started d ((new_execution v c i run dep ver d (run_request (JObj kvs) key) (now s))\<lparr>ex_encrypted_state := z\<rparr>)" for z
    by (simp add: started_def active_nodes_def)
  with dep ver e cp open_state_sealed [OF seals(1) k] open_state_sealed [OF seals(2) k] id show ?thesis
    by (auto simp: decrypt_execution_state_def decrypt_checkpoint_state_def)
qed

text \<open>
  Starting is idempotent: the same request again, whatever nonces it draws, returns the same run
  and changes nothing, and the same key with an input of another digest is refused.
\<close>

theorem run_start_idempotent:
  assumes "start_workflow_run v p c nonces deployment input key s = Inr (run, s')" and "fresh_key s key"
    and "tenant s = Some (actor_org c)"
  shows "start_workflow_run v p c nonces' deployment input key s' = Inr (run, s') \<and>
    (\<exists>dep ver. \<forall>input'. execution_input_digest v dep ver (run_request input' key) \<noteq> execution_input_digest v dep ver (run_request input key) \<longrightarrow>
       start_workflow_run v p c nonces' deployment input' key s' =
         Inl (rs_err VALIDATION_FAILED ''The idempotency key belongs to different workflow content.'' 409))"
  using assms(1)
proof (rule start_ok)
  fix dep
  assume dep: "get_deployment s deployment = Some dep" "wd_status dep = ''active''"
    and create: "create_execution_records v p c nonces dep (run_request input key) s = Inr (run, s')"
  from create obtain ver :: version_row and flow :: workflow_row and d where
    ver: "get_version s (wd_version_id dep) = Some ver" "get_workflow s (wv_workflow_id ver) = Some flow"
      "load_definition p (wv_definition ver) = Inr d"
    and runs: "runs s' = runs s @ [new_workflow_run v c run flow dep ver d (run_request input key) (now s)]"
    and same: "tenant s' = tenant s" "versions s' = versions s" "workflows s' = workflows s" "deployments s' = deployments s"
    by (rule create_fresh) (use assms(2) in simp_all)
  have "find (\<lambda>r. run_idempotency_key r = key) (seen s' run_org (runs s')) =
      Some (new_workflow_run v c run flow dep ver d (run_request input key) (now s))"
    using fresh_key_find [OF assms(2)] assms(3)
    by (simp add: seen_cong [OF same(1)] runs seen_snoc find_snoc) (simp add: rls_def same(1))
  then have again: "start_workflow_run v p c nonces' deployment input' key s' =
      require (execution_input_digest v dep ver (run_request input key) = execution_input_digest v dep ver (run_request input' key))
        (rs_err VALIDATION_FAILED ''The idempotency key belongs to different workflow content.'' 409) (Inr (run, s'))" for input'
    using dep ver by (simp add: start_workflow_run_def create_execution_records_def seen_cong [OF same(1)] same(2-4) handler_eval Let_def)
  show ?thesis unfolding again by (intro conjI exI [of _ dep] exI [of _ ver]) (auto simp: require_def)
qed

text \<open>
  C37. A fork goes on from its checkpoint and repeats no effect: the new execution has the nodes, the
  path, the loop counts and the sealed state of a checkpoint of that run, and it is a simulation
  exactly when a tool can be reached from its deployment, through whatever chain of subworkflows.
\<close>

theorem fork_continues_without_effects:
  assumes "fork_workflow_run v p c nonces run checkpoint key profile s = Inr (run', s')" and "fresh_key s key"
  shows "\<exists>e cp dep state e' sealed. e \<in> set (executions s) \<and> ex_run_id e = run \<and> get_checkpoint s checkpoint = Some cp \<and>
    cp_execution_id cp = ex_id e \<and> get_deployment s (ex_deployment_id e) = Some dep \<and> decrypt_checkpoint_state v cp = Inr state \<and>
    executions s' = executions s @ [e'] \<and> ex_run_id e' = run' \<and> ex_deployment_id e' = ex_deployment_id e \<and>
    ex_current_nodes e' = cp_active_nodes cp \<and> cp_active_nodes cp \<noteq> [] \<and> ex_completed_nodes e' = cp_completed_nodes cp \<and>
    ex_path e' = cp_path cp \<and> ex_loop_counts e' = cp_loop_counts cp \<and> ex_step_count e' = int (length (cp_path cp)) \<and>
    encrypt_execution_state v (fst nonces) state e' = Inr sealed \<and> ex_encrypted_state e' = sealed \<and>
    ex_mode e' = (if contains_tool p s dep then ''simulation'' else ''live'') \<and> (ex_profile_id e' = None \<longleftrightarrow> \<not> contains_tool p s dep)"
proof -
  from assms(1) obtain e cp dep q state where
    e: "find (\<lambda>e. ex_run_id e = run) (seen s ex_org (executions s)) = Some e" and cp: "get_checkpoint s checkpoint = Some cp"
    "cp_execution_id cp = ex_id e" "cp_active_nodes cp \<noteq> []" "decrypt_checkpoint_state v cp = Inr state"
    and dep: "get_deployment s (ex_deployment_id e) = Some dep" and q: "require_simulation_profile v p dep profile s = Inr q"
    and create: "create_execution_records v p c nonces dep (fork_request cp state key q) s = Inr (run', s')"
    unfolding fork_workflow_run_def Let_def ok_iff by blast
  from create obtain ver :: version_row and flow :: workflow_row and d i k where
    k: "decode_aes256_key v (encryption_key_b64 v) = Inr k"
    and e': "executions s' = executions s @ [(new_execution v c i run' dep ver d (fork_request cp state key q) (now s))\<lparr>ex_encrypted_state :=
       seal_json v (fst nonces) state k (execution_aad (actor_org c) i
         (execution_content_digest v c run' i dep ver (fork_request cp state key q)))\<rparr>]"
    by (rule create_fresh) (use assms(2) in simp_all)
  have "e \<in> set (executions s)" "ex_run_id e = run" "wd_id dep = ex_deployment_id e"
    using e dep by (auto dest: find_Some_iff' tget_SomeD)
  with cp dep e' k require_profile_ok [OF q] show ?thesis
    by (auto simp: active_nodes_def encrypt_execution_state_def handler_eval split: option.splits
        intro!: exI [of _ e] exI [of _ cp] exI [of _ dep])
qed

subsection \<open>Runs of a sample deployment\<close>

definition run_env :: env where
  "run_env = sample_env\<lparr>aes_encrypt := (\<lambda>k nonce p aad. p @ replicate 16 CHR ''t'')\<rparr>"

definition run_nonces :: "string \<times> string" where
  "run_nonces = (''abcdefghijkl'', ''mnopqrstuvwx'')"

definition run_db :: db where
  "run_db = registry_db [sample_deployment 41 30 ''active'']"

definition forked_checkpoint :: checkpoint_row where
  "forked_checkpoint = \<lparr>cp_id = 60, cp_org = 7, cp_execution_id = 1, cp_run_id = 2, cp_sequence = 1, cp_node_id = ''a'',
     cp_encrypted_state = seal_json run_env ''abcdefghijkl'' (JObj []) sample_key (checkpoint_aad 7 60 ''c''),
     cp_state_digest = digest_of run_env (JObj []), cp_active_nodes = [''b''], cp_completed_nodes = [''a''], cp_path = [''a''],
     cp_loop_counts = [], cp_content_digest = ''c'', cp_parent_id = None, cp_created_at = 0\<rparr>"

definition fork_db :: db where
  "fork_db = run_db\<lparr>executions := [(sample_execution ''a'' 10)\<lparr>ex_deployment_id := 41\<rparr>], checkpoints := [forked_checkpoint]\<rparr>"

lemma run_env_seals: "length nonce = 12 \<Longrightarrow> seals run_env nonce (JObj [])"
  by (simp add: seals_def run_env_def sample_env_def json_bytes_def)

lemma run_env_key: "decode_aes256_key run_env (encryption_key_b64 run_env) = Inr sample_key"
  by (simp add: decode_aes256_key_def run_env_def sample_env_def sample_key_def)

lemma sample_schema: "parse_definition sample_values j = Some d \<Longrightarrow> definition_schema_ok d"
proof -
  have "definition_schema_ok sample_definition" by code_simp
  then show "parse_definition sample_values j = Some d \<Longrightarrow> definition_schema_ok d"
    by (auto simp: sample_values_def split: if_splits)
qed

lemma run_db_rows:
  "get_deployment run_db 41 = Some (sample_deployment 41 30 ''active'')" "get_version run_db 30 = Some (sample_version 30)"
  "get_workflow run_db 31 = Some sample_workflow" "runs run_db = []" "tenant run_db = Some 7"
  by (simp_all add: run_db_def registry_rows) (simp_all add: registry_db_def seen_def rls_def tget_def sample_deployment_def empty_db_def)

lemma sample_creates:
  assumes "tenant s = tenant run_db" "runs s = []" "versions s = versions run_db" "workflows s = workflows run_db"
  obtains run s' where "create_execution_records run_env sample_values registry_actor run_nonces
    (sample_deployment 41 30 ''active'') x s = Inr (run, s')"
proof -
  have rows: "get_version s 30 = Some (sample_version 30)" "get_workflow s 31 = Some sample_workflow"
    using run_db_rows(2,3) by (simp_all add: assms seen_cong [OF assms(1)])
  have "wd_version_id (sample_deployment 41 30 ''active'') = 30" by (simp add: sample_deployment_def)
  then show thesis using that rows assms(2)
    by (simp add: create_execution_records_def sample_loads handler_eval encrypt_execution_state_def run_env_key
        create_checkpoint_def Let_def uuid4_def seen_def)
qed

lemma sample_run:
  obtains run s' where "start_workflow_run run_env sample_values registry_actor run_nonces 41 (JObj []) ''key'' run_db = Inr (run, s')"
proof -
  obtain run s' where "create_execution_records run_env sample_values registry_actor run_nonces
    (sample_deployment 41 30 ''active'') (run_request (JObj []) ''key'') run_db = Inr (run, s')"
    by (rule sample_creates) (simp_all add: run_db_rows)
  then show thesis using that by (simp add: start_workflow_run_def run_db_rows handler_eval sample_deployment_def)
qed

lemma fresh_sample: "runs s = [] \<Longrightarrow> fresh_key s key"
  by (simp add: fresh_key_def seen_def)

theorem run_started_witness:
  "\<exists>run s' e. start_workflow_run run_env sample_values registry_actor run_nonces 41 (JObj []) ''key'' run_db = Inr (run, s') \<and>
     executions s' = executions run_db @ [e] \<and> started sample_definition e \<and> decrypt_execution_state run_env e = Inr (JObj [])"
proof -
  obtain run s' where ok: "start_workflow_run run_env sample_values registry_actor run_nonces 41 (JObj []) ''key'' run_db = Inr (run, s')"
    by (rule sample_run)
  have nonces: "length (fst run_nonces) = 12" "length (snd run_nonces) = 12" by (simp_all add: run_nonces_def)
  have schema: "\<forall>j d. parse_definition sample_values j = Some d \<longrightarrow> definition_schema_ok d" by (blast intro: sample_schema)
  from run_started [OF ok fresh_sample [OF run_db_rows(4)] run_env_seals [OF nonces(1)] run_env_seals [OF nonces(2)] schema] ok
  show ?thesis by (auto simp: run_db_rows sample_deployment_def sample_loads)
qed

theorem run_start_idempotent_witness:
  "\<exists>run s'. start_workflow_run run_env sample_values registry_actor run_nonces 41 (JObj []) ''key'' run_db = Inr (run, s') \<and>
     start_workflow_run run_env sample_values registry_actor (''n'', ''n'') 41 (JObj []) ''key'' s' = Inr (run, s')"
proof -
  obtain run s' where ok: "start_workflow_run run_env sample_values registry_actor run_nonces 41 (JObj []) ''key'' run_db = Inr (run, s')"
    by (rule sample_run)
  have "tenant run_db = Some (actor_org registry_actor)" by (simp add: run_db_rows registry_actor_def)
  from run_start_idempotent [OF ok fresh_sample [OF run_db_rows(4)] this] ok show ?thesis by blast
qed

lemma fork_db_rows:
  "tenant fork_db = tenant run_db" "runs fork_db = []" "versions fork_db = versions run_db" "workflows fork_db = workflows run_db"
  "deployments fork_db = deployments run_db" "checkpoints fork_db = [forked_checkpoint]"
  "executions fork_db = [(sample_execution ''a'' 10)\<lparr>ex_deployment_id := 41\<rparr>]"
  by (simp_all add: fork_db_def run_db_rows)

lemma sample_fork:
  obtains run s' where "fork_workflow_run run_env sample_values registry_actor run_nonces 2 60 ''fork-key'' None fork_db = Inr (run, s')"
proof -
  obtain run s' where create: "create_execution_records run_env sample_values registry_actor run_nonces
    (sample_deployment 41 30 ''active'') (fork_request forked_checkpoint (JObj []) ''fork-key'' None) fork_db = Inr (run, s')"
    by (rule sample_creates [where s = fork_db]) (simp_all only: fork_db_rows)
  note see = seen_cong [OF fork_db_rows(1)]
  have rows: "get_deployment fork_db 41 = Some (sample_deployment 41 30 ''active'')" "get_version fork_db 30 = Some (sample_version 30)"
    "get_checkpoint fork_db 60 = Some forked_checkpoint"
    "find (\<lambda>e. ex_run_id e = 2) (seen fork_db ex_org (executions fork_db)) = Some ((sample_execution ''a'' 10)\<lparr>ex_deployment_id := 41\<rparr>)"
    using run_db_rows(1,2) by (simp_all add: see fork_db_rows, simp_all add: seen_def rls_def run_db_rows forked_checkpoint_def tget_def sample_execution_def)
  have "deployment_contains_effectful_tools sample_values fork_db (sample_deployment 41 30 ''active'') = Inr False"
    by (simp add: deployment_contains_effectful_tools_def rows sample_deployment_def sample_loads handler_eval, simp add: sample_definition_def sample_node_def has_type_def handler_eval)
  then have profile: "require_simulation_profile run_env sample_values (sample_deployment 41 30 ''active'') None fork_db = Inr None"
    by (simp add: require_simulation_profile_def handler_eval)
  have "decrypt_checkpoint_state run_env forked_checkpoint = Inr (sort_keys (JObj []))"
    unfolding decrypt_checkpoint_state_def forked_checkpoint_def
    by (simp only: checkpoint_row.select_convs) (rule open_state_sealed [OF run_env_seals run_env_key], simp)
  then have "decrypt_checkpoint_state run_env forked_checkpoint = Inr (JObj [])" by simp
  with create profile rows show thesis
    by (intro that [of run s']) (simp add: fork_workflow_run_def handler_eval, simp add: forked_checkpoint_def sample_execution_def handler_eval sample_deployment_def)
qed

theorem fork_continues_without_effects_witness:
  "\<exists>run s' e'. fork_workflow_run run_env sample_values registry_actor run_nonces 2 60 ''fork-key'' None fork_db = Inr (run, s') \<and>
     executions s' = executions fork_db @ [e'] \<and> ex_path e' = [''a''] \<and> ex_current_nodes e' = [''b'']"
proof -
  obtain run s' where ok: "fork_workflow_run run_env sample_values registry_actor run_nonces 2 60 ''fork-key'' None fork_db = Inr (run, s')"
    by (rule sample_fork)
  have "get_checkpoint fork_db 60 = Some forked_checkpoint"
    by (simp add: fork_db_rows seen_def rls_def run_db_rows forked_checkpoint_def tget_def)
  with fork_continues_without_effects [OF ok fresh_sample [OF fork_db_rows(2)]] ok show ?thesis
    by (auto simp: forked_checkpoint_def)
qed

end
