(* ===== verification/RS_Subworkflows.thy ===== *)
theory RS_Subworkflows
  imports RS_Executions
begin

section \<open>Subworkflow calls\<close>

text \<open>
  Models \<open>services/workflow_subworkflows.py\<close>: a subworkflow node starts a child execution of the
  referenced deployment on a copy of the state and waits for it; the end of the child, whatever
  it is, settles the call once and wakes the parent.
\<close>

definition subworkflow_call_summary :: "subworkflow_call_row \<Rightarrow> json" where
  "subworkflow_call_summary k = JObj
     [(''id'', juuid (sc_id k)), (''parent_workflow_execution_id'', juuid (sc_parent_execution_id k)),
      (''parent_run_id'', juuid (sc_parent_run_id k)), (''node_id'', JStr (sc_node_id k)), (''sequence'', JInt (sc_sequence k)),
      (''deployment_id'', juuid (sc_deployment_id k)), (''child_workflow_execution_id'', juuid (sc_child_execution_id k)),
      (''child_run_id'', juuid (sc_child_run_id k)), (''result_state_key'', JStr (sc_result_state_key k)),
      (''status'', JStr (sc_status k)), (''input_state_digest'', JStr (sc_input_state_digest k)),
      (''child_execution_content_digest'', JStr (sc_child_content_digest k)),
      (''result_state_digest'', jopt JStr (sc_result_state_digest k)), (''content_digest'', JStr (sc_content_digest k)),
      (''expires_at'', jtime (sc_expires_at k)), (''resolved_at'', jopt jtime (sc_resolved_at k)),
      (''created_at'', jtime (sc_created_at k))]"

subsection \<open>Creation\<close>

text \<open>The child's deployment with its version, in the project, environment and agent of the parent.\<close>

definition child_in_scope :: "execution_row \<Rightarrow> wf_node \<Rightarrow> db \<Rightarrow> rs_error + deployment_row \<times> version_row" where
  "child_in_scope e n s =
     (let outside = rs_err INVALID_TRANSITION
            ''The referenced subworkflow deployment is unavailable or outside the parent scope.'' 409
      in config_uuid_item n ''deployment_id'' (\<lambda>dep.
         fetch (get_deployment s dep) outside (\<lambda>child.
         require (wd_status child = ''active'' \<or> wd_status child = ''superseded'') outside (
         fetch (get_deployment s (ex_deployment_id e)) outside (\<lambda>parent.
         fetch (get_version s (wd_version_id child)) outside (\<lambda>child_version.
         fetch (get_workflow s (wv_workflow_id child_version)) outside (\<lambda>child_workflow.
         fetch (Option.bind (get_version s (ex_version_id e)) (\<lambda>ver. get_workflow s (wv_workflow_id ver))) outside (\<lambda>parent_workflow.
         require (wf_project_id child_workflow = wf_project_id parent_workflow \<and>
                  wd_environment_id child = wd_environment_id parent \<and> wd_agent_id child = wd_agent_id parent) outside (
         Inr (child, child_version))))))))))"

definition child_request :: "execution_row \<Rightarrow> wf_node \<Rightarrow> json \<Rightarrow> execution_request" where
  "child_request e n state = (run_request state (tool_call_key ''subworkflow'' e n))\<lparr>xr_purpose := ''subworkflow''\<rparr>"

definition child_actor :: "execution_row \<Rightarrow> run_row \<Rightarrow> actor_context" where
  "child_actor e r = \<lparr>actor_org = ex_org e, actor_id = run_actor_id r, actor_type = run_actor_type r\<rparr>"

definition new_subworkflow_call ::
  "env \<Rightarrow> execution_row \<Rightarrow> wf_node \<Rightarrow> deployment_row \<Rightarrow> version_row \<Rightarrow> execution_row \<Rightarrow> uuid \<Rightarrow> string \<Rightarrow> json \<Rightarrow> uuid \<Rightarrow>
     timestamp \<Rightarrow> subworkflow_call_row" where
  "new_subworkflow_call v e n child ver x child_run result_text result_key k t =
     (let expires = min (t + seconds (node_timeout_seconds n)) (ex_deadline_at e)
      in \<lparr>sc_id = k, sc_org = ex_org e, sc_parent_execution_id = ex_id e, sc_parent_run_id = ex_run_id e, sc_node_id = node_id n,
          sc_sequence = ex_step_count e, sc_deployment_id = wd_id child, sc_child_execution_id = ex_id x,
          sc_child_run_id = child_run, sc_result_state_key = result_text, sc_status = ''pending'',
          sc_input_state_digest = ex_state_digest e, sc_child_content_digest = ex_content_digest x,
          sc_result_state_digest = None,
          sc_content_digest = digest_of v (JObj
            [(''organization_id'', juuid (ex_org e)), (''parent_workflow_execution_id'', juuid (ex_id e)),
             (''parent_run_id'', juuid (ex_run_id e)), (''node_id'', JStr (node_id n)), (''sequence'', JInt (ex_step_count e)),
             (''deployment_id'', juuid (wd_id child)), (''child_workflow_version_id'', juuid (wv_id ver)),
             (''child_definition_digest'', JStr (wv_definition_digest ver)),
             (''child_workflow_execution_id'', juuid (ex_id x)), (''child_run_id'', juuid child_run),
             (''child_execution_content_digest'', JStr (ex_content_digest x)),
             (''input_state_digest'', JStr (ex_state_digest e)), (''result_state_key'', result_key),
             (''expires_at'', jtime expires)]),
          sc_expires_at = expires, sc_resolved_at = None, sc_created_at = t\<rparr>)"

definition subworkflow_payload :: "subworkflow_call_row \<Rightarrow> json" where
  "subworkflow_payload k = JObj
     [(''workflow_execution_id'', juuid (sc_parent_execution_id k)), (''workflow_subworkflow_call_id'', juuid (sc_id k)),
      (''content_digest'', JStr (sc_content_digest k))]"

definition announce_subworkflow_call :: "env \<Rightarrow> execution_row \<Rightarrow> run_row \<Rightarrow> outbox_row \<Rightarrow> subworkflow_call_row \<Rightarrow> db \<Rightarrow> db" where
  "announce_subworkflow_call v e r ev k s =
     (let t = now s;
          s = upd_execution (ex_id e) (\<lambda>e. e\<lparr>ex_status := ExWaiting, ex_version := ex_version e + 1,
                ex_claim_hash := None, ex_lease_expires_at := None\<rparr>) s;
          s = upd_run (run_id r) (\<lambda>r. r\<lparr>run_status := RunWaiting, run_active_node := Some (sc_node_id k)\<rparr>) s;
          s = upd_outbox (ob_id ev) (\<lambda>ev. ev\<lparr>ob_processed_at := Some t\<rparr>) s;
          s = add_outbox (ex_org e) ''workflow.ready'' ''workflow_execution'' (ex_id e)
                (''subworkflow.call:'' @ uuid_str (sc_id k) @ '':timeout'') (subworkflow_payload k) (sc_expires_at k) s;
          s = trace_event v (sc_org k) (sc_parent_run_id k) (sc_node_id k) ''workflow.subworkflow_started'' ''waiting''
                (JObj [(''subworkflow_call_id'', juuid (sc_id k)), (''child_run_id'', juuid (sc_child_run_id k)),
                       (''child_workflow_execution_id'', juuid (sc_child_execution_id k)),
                       (''content_digest'', JStr (sc_content_digest k)), (''raw_content_captured'', JBool False)]) s
      in audit v (sc_org k) (run_actor_id r) ''workflow.subworkflow_started'' ''workflow_subworkflow_call'' (sc_id k)
           (sc_content_digest k)
           (JObj [(''parent_run_id'', juuid (sc_parent_run_id k)), (''child_run_id'', juuid (sc_child_run_id k)),
                  (''node_id'', JStr (sc_node_id k)), (''raw_content_captured'', JBool False)]) s)"

definition create_subworkflow_call ::
  "env \<Rightarrow> py_values \<Rightarrow> string \<times> string \<Rightarrow> execution_row \<Rightarrow> run_row \<Rightarrow> wf_node \<Rightarrow> json \<Rightarrow> outbox_row \<Rightarrow> db \<Rightarrow>
     rs_error + subworkflow_call_row \<times> db" where
  "create_subworkflow_call v p nonces e r n state ev s =
     rbind (child_in_scope e n s) (\<lambda>(child, ver).
     rbind (create_execution_records v p (child_actor e r) nonces child (child_request e n state) s) (\<lambda>(child_run, s).
     fetch (find (\<lambda>x. ex_run_id x = child_run) (seen s ex_org (executions s)))
       (PyRuntimeError ''subworkflow child execution was not persisted'') (\<lambda>x.
     config_item n ''result_state_key'' (\<lambda>result_key.
     let (k, s) = uuid4 s;
         call = new_subworkflow_call v e n child ver x child_run (py_str p result_key) result_key k (now s)
     in Inr (call, announce_subworkflow_call v e r ev call (s\<lparr>subworkflow_calls := subworkflow_calls s @ [call]\<rparr>))))))"

subsection \<open>Settlement\<close>

definition settled :: "execution_row \<Rightarrow> timestamp \<Rightarrow> subworkflow_call_row \<Rightarrow> subworkflow_call_row" where
  "settled x t k =
     k\<lparr>sc_status := (case ex_status x of ExCompleted \<Rightarrow> ''completed'' | ExCancelled \<Rightarrow> ''cancelled'' | _ \<Rightarrow> ''failed''),
       sc_result_state_digest := (if ex_status x = ExCompleted then Some (ex_state_digest x) else None),
       sc_resolved_at := Some t\<rparr>"

definition record_settled :: "env \<Rightarrow> subworkflow_call_row \<Rightarrow> execution_row \<Rightarrow> run_row \<Rightarrow> outbox_row option \<Rightarrow> db \<Rightarrow> db" where
  "record_settled v k x r timeout_event s =
     (let t = now s;
          s = (case timeout_event of None \<Rightarrow> s
               | Some ev \<Rightarrow> if ob_processed_at ev = None
                   then upd_outbox (ob_id ev) (\<lambda>ev. ev\<lparr>ob_processed_at := Some t\<rparr>) s else s);
          s = upd_subworkflow_call (sc_id k) (settled x t) s;
          k = settled x t k;
          s = add_outbox (sc_org k) ''workflow.ready'' ''workflow_execution'' (sc_parent_execution_id k)
                (''subworkflow.call:'' @ uuid_str (sc_id k) @ '':resume'') (subworkflow_payload k) t s
      in trace_event v (sc_org k) (sc_parent_run_id k) (sc_node_id k) ''workflow.subworkflow_settled'' (sc_status k)
           (JObj [(''subworkflow_call_id'', juuid (sc_id k)), (''child_run_id'', juuid (run_id r)),
                  (''status'', JStr (sc_status k)), (''result_state_digest'', jopt JStr (sc_result_state_digest k)),
                  (''raw_content_captured'', JBool False)]) s)"

definition settle_parent_subworkflow_call :: "env \<Rightarrow> execution_row \<Rightarrow> run_row \<Rightarrow> db \<Rightarrow> db" where
  "settle_parent_subworkflow_call v x r s =
     (case find (\<lambda>k. sc_child_execution_id k = ex_id x) (seen s sc_org (subworkflow_calls s)) of
        None \<Rightarrow> s
      | Some k \<Rightarrow>
          if sc_status k \<noteq> ''pending'' then s
          else record_settled v k x r
                 (find (\<lambda>ev. ob_dedup_key ev = ''subworkflow.call:'' @ uuid_str (sc_id k) @ '':timeout'') (seen s ob_org (outbox s))) s)"

subsection \<open>Lemmas\<close>

lemma settled_simps [simp]:
  "sc_id (settled x t k) = sc_id k" "sc_org (settled x t k) = sc_org k"
  "sc_child_execution_id (settled x t k) = sc_child_execution_id k" "sc_status (settled x t k) \<noteq> ''pending''"
  "sc_content_digest (settled x t k) = sc_content_digest k"
  by (simp_all add: settled_def split: execution_status.split)

lemma record_settled_frame [simp]:
  "subworkflow_calls (record_settled v k x r ev s) = tupd sc_id (sc_id k) (settled x (now s)) (subworkflow_calls s)"
  "tenant (record_settled v k x r ev s) = tenant s" "executions (record_settled v k x r ev s) = executions s"
  "runs (record_settled v k x r ev s) = runs s"
  by (simp_all add: record_settled_def Let_def upd_subworkflow_call_def split: option.split)

subsection \<open>Properties\<close>

text \<open>
  A subworkflow call is settled once, with the end of its child: a pending call becomes
  completed, with the state digest of the child, exactly when the child completed, and failed or
  cancelled without one otherwise; a second settlement, or one after a timeout, changes nothing.
\<close>

theorem subworkflow_settled_once:
  assumes "find (\<lambda>k. sc_child_execution_id k = ex_id x) (seen s sc_org (subworkflow_calls s)) = Some k"
    and "distinct (map sc_id (subworkflow_calls s))"
  shows "let s' = settle_parent_subworkflow_call v x r s;
             k' = (if sc_status k = ''pending'' then settled x (now s) k else k)
         in find (\<lambda>k. sc_child_execution_id k = ex_id x) (seen s' sc_org (subworkflow_calls s')) = Some k' \<and>
            (sc_status k \<noteq> ''pending'' \<longrightarrow> s' = s) \<and>
            (sc_status k = ''pending'' \<longrightarrow>
               (sc_status k' = ''completed'' \<longleftrightarrow> ex_status x = ExCompleted) \<and>
               (ex_status x = ExCompleted \<longrightarrow> sc_result_state_digest k' = Some (ex_state_digest x)) \<and>
               (ex_status x \<noteq> ExCompleted \<longrightarrow> sc_result_state_digest k' = None)) \<and>
            settle_parent_subworkflow_call v' x r' s' = s'"
proof (cases "sc_status k = ''pending''")
  case True
  let ?s = "settle_parent_subworkflow_call v x r s"
  have calls: "subworkflow_calls ?s = tupd sc_id (sc_id k) (settled x (now s)) (subworkflow_calls s)" "tenant ?s = tenant s"
    using assms(1) True by (simp_all add: settle_parent_subworkflow_call_def)
  have "find (\<lambda>k. sc_child_execution_id k = ex_id x) (seen ?s sc_org (subworkflow_calls ?s)) = Some (settled x (now s) k)"
    unfolding calls(1) seen_cong [OF calls(2)] by (simp add: seen_tupd find_tupd assms(1))
  then show ?thesis using True by (simp add: settle_parent_subworkflow_call_def [of v']) (simp add: settled_def split: execution_status.split)
next
  case False
  then have "settle_parent_subworkflow_call w x q s = s" for w q using assms(1) by (simp add: settle_parent_subworkflow_call_def)
  with False assms(1) show ?thesis by simp
qed

definition called_child :: subworkflow_call_row where
  "called_child = \<lparr>sc_id = 80, sc_org = 7, sc_parent_execution_id = 90, sc_parent_run_id = 91, sc_node_id = ''sub'', sc_sequence = 2,
     sc_deployment_id = 41, sc_child_execution_id = 1, sc_child_run_id = 2, sc_result_state_key = ''result'',
     sc_status = ''pending'', sc_input_state_digest = ''d'', sc_child_content_digest = ''c'', sc_result_state_digest = None,
     sc_content_digest = ''k'', sc_expires_at = 500, sc_resolved_at = None, sc_created_at = 0\<rparr>"

definition calling_db :: db where
  "calling_db = (empty_db 100)\<lparr>tenant := None, subworkflow_calls := [called_child]\<rparr>"

definition finished_child :: execution_row where
  "finished_child = (sample_execution ''a'' 10)\<lparr>ex_status := ExCompleted, ex_state_digest := ''final''\<rparr>"

definition sample_child_run :: run_row where
  "sample_child_run = \<lparr>run_id = 2, run_org = 7, run_project_id = 10, run_environment_id = 11, run_agent_id = 12, run_actor_id = 9,
     run_actor_type = ''user'', run_kind = ''workflow'', run_status = RunCompleted, run_idempotency_key = ''subworkflow'',
     run_input_digest = ''d'', run_active_node = None, run_started_at = Some 10, run_completed_at = Some 100,
     run_error_code = None, run_created_at = 10, run_updated_at = 100\<rparr>"

theorem subworkflow_settled_once_witness:
  "let s' = settle_parent_subworkflow_call sample_env finished_child sample_child_run calling_db
   in find (\<lambda>k. sc_child_execution_id k = 1) (seen s' sc_org (subworkflow_calls s')) =
        Some (called_child\<lparr>sc_status := ''completed'', sc_result_state_digest := Some ''final'', sc_resolved_at := Some 100\<rparr>) \<and>
      settle_parent_subworkflow_call sample_env finished_child sample_child_run s' = s'"
proof -
  have child: "ex_id finished_child = 1" "ex_status finished_child = ExCompleted" "ex_state_digest finished_child = ''final''"
    by (simp_all add: finished_child_def sample_execution_def)
  have db: "now calling_db = 100" "sc_status called_child = ''pending''"
    by (simp_all add: calling_db_def called_child_def empty_db_def)
  have "find (\<lambda>k. sc_child_execution_id k = ex_id finished_child) (seen calling_db sc_org (subworkflow_calls calling_db)) = Some called_child"
    "distinct (map sc_id (subworkflow_calls calling_db))"
    by (simp_all add: child calling_db_def called_child_def seen_def rls_def empty_db_def)
  from subworkflow_settled_once [OF this, of sample_env sample_child_run sample_env sample_child_run]
  show ?thesis by (simp add: child db settled_def)
qed

end
