(* ===== verification/RS_Node_Policies.thy ===== *)
theory RS_Node_Policies
  imports RS_Simulation
begin

section \<open>Policies of workflow nodes\<close>

text \<open>
  Models \<open>services/workflow_policies.py\<close>: before a node with a policy bundle runs, the bundle is
  evaluated on the node's context, or the latest decision on the same input and policy is reused
  while it lasts; only an allowing decision lets the node run.
\<close>

definition workflow_policy_decision_summary :: "node_policy_row \<Rightarrow> json" where
  "workflow_policy_decision_summary d = JObj
     [(''id'', juuid (np_id d)), (''node_id'', JStr (np_node_id d)), (''sequence'', JInt (np_sequence d)),
      (''evaluation'', JInt (np_evaluation d)), (''policy_bundle_id'', juuid (np_bundle_id d)), (''effect'', JStr (np_effect d)),
      (''reason_code'', JStr (np_reason_code d)), (''input_digest'', JStr (np_input_digest d)),
      (''policy_digest'', JStr (np_policy_digest d)), (''content_digest'', JStr (np_content_digest d)),
      (''expires_at'', jtime (np_expires_at d)), (''created_at'', jtime (np_created_at d))]"

subsection \<open>The context of a node\<close>

definition config_choice :: "py_values \<Rightarrow> wf_node \<Rightarrow> string \<Rightarrow> string list \<Rightarrow> string \<Rightarrow> string" where
  "config_choice p n k choices fallback =
     (let value = (case cfg n k of None \<Rightarrow> fallback | Some j \<Rightarrow> py_str p j)
      in if value \<in> set choices then value else fallback)"

definition node_policy_context :: "py_values \<Rightarrow> wf_node \<Rightarrow> environment_row \<Rightarrow> timestamp \<Rightarrow> policy_context" where
  "node_policy_context p n environment t =
     \<lparr>ctx_action_type = ''workflow.node.execute'', ctx_resource = ''workflow-node:'' @ node_type_value (node_type n),
      ctx_environment = envr_type environment,
      ctx_risk = config_choice p n ''risk'' [''low'', ''medium'', ''high'', ''critical''] ''low'',
      ctx_data_classification =
        config_choice p n ''data_classification'' [''public'', ''internal'', ''confidential'', ''restricted''] ''internal'',
      ctx_actor_type = ''workload'', ctx_amount_minor = 0, ctx_occurred_at = t\<rparr>"

definition stable_context :: "policy_context \<Rightarrow> json" where
  "stable_context c = JObj
     [(''action_type'', JStr (ctx_action_type c)), (''resource'', JStr (ctx_resource c)),
      (''environment'', JStr (ctx_environment c)), (''risk'', JStr (ctx_risk c)),
      (''data_classification'', JStr (ctx_data_classification c)),
      (''actor_type'', JStr (ctx_actor_type c)), (''amount_minor'', JInt (ctx_amount_minor c))]"

definition node_input_digest :: "env \<Rightarrow> policy_context \<Rightarrow> execution_row \<Rightarrow> wf_node \<Rightarrow> digest" where
  "node_input_digest v c e n = digest_of v (JObj
     [(''policy_context'', stable_context c), (''workflow_execution_id'', juuid (ex_id e)), (''node_id'', JStr (node_id n)),
      (''sequence'', JInt (ex_step_count e)), (''state_digest'', JStr (ex_state_digest e))])"

text \<open>The node's bundle with the environment it is evaluated for; without them there is no decision.\<close>

definition node_bundle :: "env \<Rightarrow> execution_row \<Rightarrow> uuid \<Rightarrow> db \<Rightarrow> rs_error + policy_bundle_row \<times> environment_row" where
  "node_bundle v e bundle_id s =
     (let missing = rs_err POLICY_UNAVAILABLE ''The workflow node policy is missing, stale, or outside the workflow project.'' 503
      in fetch (get_bundle s bundle_id) missing (\<lambda>bundle.
         require (pb_status bundle = ''active'') missing (
         fetch (get_deployment s (ex_deployment_id e)) missing (\<lambda>deployment.
         fetch (Option.bind (get_version s (ex_version_id e)) (\<lambda>ver. get_workflow s (wv_workflow_id ver))) missing (\<lambda>flow.
         fetch (get_environment s (wd_environment_id deployment)) missing (\<lambda>environment.
         require (pb_project_id bundle = wf_project_id flow) missing (
         require (pb_content_digest bundle = digest_of v (pb_document bundle)) missing (
         Inr (bundle, environment)))))))))"

subsection \<open>Evaluation\<close>

definition node_decisions :: "execution_row \<Rightarrow> wf_node \<Rightarrow> db \<Rightarrow> node_policy_row list" where
  "node_decisions e n s = filter (\<lambda>d. np_execution_id d = ex_id e \<and> np_node_id d = node_id n \<and> np_sequence d = ex_step_count e)
     (seen s np_org (node_policies s))"

definition reusable :: "policy_bundle_row \<Rightarrow> digest \<Rightarrow> timestamp \<Rightarrow> node_policy_row \<Rightarrow> bool" where
  "reusable bundle input_dig t d \<longleftrightarrow> np_expires_at d > t \<and> np_policy_digest d = pb_content_digest bundle \<and> np_input_digest d = input_dig"

definition new_node_decision ::
  "env \<Rightarrow> execution_row \<Rightarrow> wf_node \<Rightarrow> policy_bundle_row \<Rightarrow> digest \<Rightarrow> policy_decision \<Rightarrow> int \<Rightarrow> uuid \<Rightarrow> timestamp \<Rightarrow> node_policy_row" where
  "new_node_decision v e n bundle input_dig dec evaluation k t =
     \<lparr>np_id = k, np_org = ex_org e, np_execution_id = ex_id e, np_run_id = ex_run_id e, np_node_id = node_id n,
      np_sequence = ex_step_count e, np_evaluation = evaluation, np_bundle_id = pb_id bundle,
      np_effect = effect_value (dec_effect dec), np_reason_code = dec_reason_code dec, np_input_digest = input_dig,
      np_policy_digest = dec_policy_digest dec,
      np_content_digest = digest_of v (JObj
        [(''organization_id'', juuid (ex_org e)), (''workflow_execution_id'', juuid (ex_id e)), (''run_id'', juuid (ex_run_id e)),
         (''node_id'', JStr (node_id n)), (''sequence'', JInt (ex_step_count e)), (''evaluation'', JInt evaluation),
         (''policy_bundle_id'', juuid (pb_id bundle)), (''effect'', JStr (effect_value (dec_effect dec))),
         (''reason_code'', JStr (dec_reason_code dec)), (''input_digest'', JStr input_dig),
         (''policy_digest'', JStr (dec_policy_digest dec)), (''expires_at'', jtime (dec_expires_at dec))]),
      np_expires_at = dec_expires_at dec, np_created_at = t\<rparr>"

definition announce_node_decision :: "env \<Rightarrow> run_row \<Rightarrow> node_policy_row \<Rightarrow> db \<Rightarrow> db" where
  "announce_node_decision v r d s =
     audit v (np_org d) (run_actor_id r) ''workflow.policy_decision'' ''workflow_policy_decision'' (np_id d) (np_content_digest d)
       (JObj [(''node_id'', JStr (np_node_id d)), (''effect'', JStr (np_effect d)), (''reason_code'', JStr (np_reason_code d)),
              (''raw_content_captured'', JBool False)])
       (trace_event v (np_org d) (np_run_id d) (np_node_id d) ''workflow.policy_decision'' (np_effect d)
         (JObj [(''workflow_policy_decision_id'', juuid (np_id d)), (''effect'', JStr (np_effect d)),
                (''reason_code'', JStr (np_reason_code d)), (''policy_digest'', JStr (np_policy_digest d)),
                (''raw_content_captured'', JBool False)]) s)"

definition decide_node ::
  "env \<Rightarrow> execution_row \<Rightarrow> run_row \<Rightarrow> wf_node \<Rightarrow> policy_bundle_row \<Rightarrow> policy_context \<Rightarrow> digest \<Rightarrow> int \<Rightarrow> db \<Rightarrow>
     rs_error + node_policy_row option \<times> db" where
  "decide_node v e r n bundle c input_dig evaluation s =
     rbind (evaluate v (Some (pb_document bundle)) c) (\<lambda>dec.
     require (dec_policy_digest dec = pb_content_digest bundle)
       (rs_err POLICY_UNAVAILABLE ''The workflow node policy digest does not match its active bundle.'' 503) (
     let (k, s) = uuid4 s;
         d = new_node_decision v e n bundle input_dig dec evaluation k (now s)
     in Inr (Some d, announce_node_decision v r d (s\<lparr>node_policies := node_policies s @ [d]\<rparr>))))"

definition evaluate_workflow_node_policy ::
  "env \<Rightarrow> py_values \<Rightarrow> execution_row \<Rightarrow> run_row \<Rightarrow> wf_node \<Rightarrow> db \<Rightarrow> rs_error + node_policy_row option \<times> db" where
  "evaluate_workflow_node_policy v p e r n s =
     (case node_policy_bundle_id n of
        None \<Rightarrow> Inr (None, s)
      | Some bundle_id \<Rightarrow>
          rbind (node_bundle v e bundle_id s) (\<lambda>(bundle, environment).
          let c = node_policy_context p n environment (now s);
              input_dig = node_input_digest v c e n;
              latest = last_by np_evaluation (node_decisions e n s)
          in require (policy_context_valid c) (PyValueError ''PolicyContext'') (
             case latest of
               Some d \<Rightarrow>
                 if reusable bundle input_dig (now s) d then Inr (Some d, s)
                 else decide_node v e r n bundle c input_dig (np_evaluation d + 1) s
             | None \<Rightarrow> decide_node v e r n bundle c input_dig 1 s)))"

definition require_executable_policy_effect :: "node_policy_row option \<Rightarrow> rs_error + unit" where
  "require_executable_policy_effect d =
     (case d of
        None \<Rightarrow> Inr ()
      | Some d \<Rightarrow> require (np_effect d = ''allow'')
          (rs_err POLICY_DENIED (''Workflow node policy returned non-executable effect '' @ [CHR 0x27] @ np_effect d @ [CHR 0x27] @ ''.'') 403) (Inr ()))"

subsection \<open>Where decisions come from\<close>

text \<open>
  A stored decision is the verdict of an evaluation: of a document with the decision's policy
  digest, on the node and execution it names, ten minutes before it expires.
\<close>

definition decided_by :: "env \<Rightarrow> json \<Rightarrow> policy_context \<Rightarrow> node_policy_row \<Rightarrow> bool" where
  "decided_by v raw c d \<longleftrightarrow>
     (\<exists>dec. evaluate v (Some raw) c = Inr dec \<and> np_effect d = effect_value (dec_effect dec) \<and>
        np_reason_code d = dec_reason_code dec) \<and>
     np_policy_digest d = digest_of v raw \<and>
     (\<exists>e n. node_id n = np_node_id d \<and> ex_id e = np_execution_id d \<and> ex_step_count e = np_sequence d \<and>
        np_input_digest d = node_input_digest v c e n) \<and>
     np_expires_at d = ctx_occurred_at c + minutes 10"

definition decisions_ok :: "env \<Rightarrow> db \<Rightarrow> bool" where
  "decisions_ok v s \<longleftrightarrow> (\<forall>d \<in> set (node_policies s). \<exists>raw c. decided_by v raw c d)"

lemma announce_node_decision_policies [simp]: "node_policies (announce_node_decision v r d s) = node_policies s"
  by (simp add: announce_node_decision_def)

lemma effect_value_allow [simp]:
  "effect_value x = ''allow'' \<longleftrightarrow> x = ALLOW" "''allow'' = effect_value x \<longleftrightarrow> x = ALLOW"
  by (cases x; simp)+

lemma node_bundleD:
  assumes "node_bundle v e k s = Inr (pb, environment)"
  shows "pb \<in> set (policy_bundles s) \<and> pb_id pb = k \<and> pb_status pb = ''active'' \<and>
    pb_content_digest pb = digest_of v (pb_document pb)"
  using assms unfolding node_bundle_def Let_def ok_iff by (auto dest!: tget_SomeD)

lemma decide_nodeD:
  assumes "decide_node v e r n pb c (node_input_digest v c e n) k s = Inr (x, s')"
    and "pb_content_digest pb = digest_of v (pb_document pb)"
  shows "\<exists>d. x = Some d \<and> node_policies s' = node_policies s @ [d] \<and> decided_by v (pb_document pb) c d \<and>
    np_node_id d = node_id n \<and> np_execution_id d = ex_id e \<and> np_sequence d = ex_step_count e \<and> np_input_digest d = node_input_digest v c e n"
proof -
  obtain dec where dec: "evaluate v (Some (pb_document pb)) c = Inr dec" "dec_policy_digest dec = pb_content_digest pb"
    and x: "(let (k', s) = uuid4 s; d = new_node_decision v e n pb (node_input_digest v c e n) dec k k' (now s)
       in Inr (Some d, announce_node_decision v r d (s\<lparr>node_policies := node_policies s @ [d]\<rparr>)) :: rs_error + _) = Inr (x, s')"
    using assms(1) unfolding decide_node_def ok_iff by blast
  have "dec_expires_at dec = ctx_occurred_at c + minutes 10" using evaluate_InrD [OF dec(1)] by auto
  with x dec assms(2) show ?thesis
    by (auto simp: new_node_decision_def decided_by_def Let_def uuid4_def intro!: exI [of _ dec] exI [of _ e] exI [of _ n])
qed

lemma node_policyE:
  assumes "evaluate_workflow_node_policy v p e r n s = Inr (x, s')" and "node_policy_bundle_id n = Some k"
  obtains d pb environment c where "x = Some d" "node_bundle v e k s = Inr (pb, environment)"
    "c = node_policy_context p n environment (now s)"
    "s' = s \<and> d \<in> set (node_decisions e n s) \<and> reusable pb (node_input_digest v c e n) (now s) d \<or>
     node_policies s' = node_policies s @ [d] \<and> decided_by v (pb_document pb) c d \<and>
       np_node_id d = node_id n \<and> np_execution_id d = ex_id e \<and> np_sequence d = ex_step_count e \<and> np_input_digest d = node_input_digest v c e n"
proof -
  obtain pb environment where b: "node_bundle v e k s = Inr (pb, environment)"
    and x: "(case last_by np_evaluation (node_decisions e n s) of
       Some d \<Rightarrow> if reusable pb (node_input_digest v (node_policy_context p n environment (now s)) e n) (now s) d then Inr (Some d, s)
         else decide_node v e r n pb (node_policy_context p n environment (now s))
           (node_input_digest v (node_policy_context p n environment (now s)) e n) (np_evaluation d + 1) s
     | None \<Rightarrow> decide_node v e r n pb (node_policy_context p n environment (now s))
           (node_input_digest v (node_policy_context p n environment (now s)) e n) 1 s) = Inr (x, s')"
    using assms by (auto simp: evaluate_workflow_node_policy_def Let_def ok_iff)
  have dig: "pb_content_digest pb = digest_of v (pb_document pb)" using node_bundleD [OF b] by simp
  show ?thesis
  proof (cases "last_by np_evaluation (node_decisions e n s)")
    case None
    with x show ?thesis using that [OF _ b refl] by (auto dest!: decide_nodeD [OF _ dig])
  next
    case (Some d)
    have "d \<in> set (node_decisions e n s)" using last_by_SomeD [OF Some] by simp
    with x [unfolded Some option.case] show ?thesis
      using that [OF _ b refl] by (auto split: if_splits dest!: decide_nodeD [OF _ dig])
  qed
qed

lemma decided_byD:
  assumes "decided_by v raw c d" and "np_effect d = ''allow''"
  shows "\<exists>b q. parse_bundle v raw = Some b \<and> bundle_enabled b \<and> q \<in> set (bundle_rules b) \<and> rule_applies c q \<and>
    rule_effect q = ALLOW \<and> np_reason_code d = rule_id q"
proof -
  obtain dec where dec: "evaluate v (Some raw) c = Inr dec" "dec_effect dec = ALLOW" "np_reason_code d = dec_reason_code dec"
    using assms by (auto simp: decided_by_def)
  obtain b where b: "parse_bundle v raw = Some b" "bundle_enabled b"
    "dec = scan_rules c (digest_of v (bundle_json b)) (bundle_rules b)"
    using evaluate_InrD [OF dec(1)] by auto
  show ?thesis using scan_rules_effect [of c "digest_of v (bundle_json b)" "bundle_rules b"] b dec by auto
qed

subsection \<open>Properties\<close>


definition gate_bundle :: policy_bundle_document where
  "gate_bundle = sample_bundle\<lparr>bundle_rules :=
     [\<lparr>rule_id = ''nodes'', rule_action_type = ''workflow.node.execute'', rule_environments = [''production''],
       rule_risks = [''low'', ''high''], rule_maximum_amount_minor = None, rule_effect = ALLOW, rule_reason = ''nodes''\<rparr>]\<rparr>"

definition gate_env :: env where
  "gate_env = sample_env\<lparr>parse_bundle := \<lambda>j. if j = bundle_json gate_bundle then Some gate_bundle else None\<rparr>"

definition gate_db :: db where
  "gate_db = (registry_db [sample_deployment 4 30 ''active''])\<lparr>policy_bundles :=
     [\<lparr>pb_id = 50, pb_org = 7, pb_project_id = 10, pb_status = ''active'', pb_document = bundle_json gate_bundle,
       pb_content_digest = digest_of gate_env (bundle_json gate_bundle), pb_created_at = 0\<rparr>]\<rparr>"

definition gate_node :: wf_node where
  "gate_node = \<lparr>node_id = ''agent'', node_type = AGENT, node_name = ''agent'', node_config = [(''risk'', JStr ''high'')],
     node_model_route_id = None, node_policy_bundle_id = Some 50, node_timeout_seconds = 60, node_retry_limit = 0, node_position = None\<rparr>"

definition gate_execution :: execution_row where
  "gate_execution = (sample_execution ''agent'' 10)\<lparr>ex_version_id := 30\<rparr>"

definition gate_run :: run_row where
  "gate_run = \<lparr>run_id = 2, run_org = 7, run_project_id = 10, run_environment_id = 11, run_agent_id = 12, run_actor_id = 9,
     run_actor_type = ''user'', run_kind = ''workflow'', run_status = RunRunning, run_idempotency_key = ''k'',
     run_input_digest = ''d'', run_active_node = None, run_started_at = Some 10, run_completed_at = None,
     run_error_code = None, run_created_at = 10, run_updated_at = 10\<rparr>"


end
