(* ===== verification/RS_Model_Calls.thy ===== *)
theory RS_Model_Calls
  imports RS_Node_Policies RS_Action_Worker RS_Executions
begin

section \<open>Model calls of agent nodes\<close>

text \<open>
  Models \<open>services/workflow_models.py\<close> and the claims and settlement of
  \<open>apps/worker/runsigil_worker/model_calls.py\<close>: an agent node of a live execution becomes a model
  call with a sealed request, a delegation and reserved budgets; a worker claims it, the gateway
  asks for authorization, and the outcome is settled, reconciled or timed out.
\<close>

definition MODEL_ACTION_TYPE :: string where
  "MODEL_ACTION_TYPE = ''model.generate''"

definition MODEL_PROVIDER :: string where
  "MODEL_PROVIDER = ''demo''"

definition MODEL_NAME :: string where
  "MODEL_NAME = ''demo-governed-model''"

definition MODEL_AUDIENCE :: string where
  "MODEL_AUDIENCE = ''runsigil-demo-provider''"

definition model_route_document :: "model_route_row \<Rightarrow> json" where
  "model_route_document m = JObj
     [(''id'', juuid (mrt_id m)), (''project_id'', juuid (mrt_project_id m)), (''name'', JStr (mrt_name m)),
      (''provider'', JStr (mrt_provider m)), (''model'', JStr (mrt_model m)), (''status'', JStr (mrt_status m))]"

subsection \<open>Sealed requests and outputs\<close>

definition model_call_aad :: "model_call_row \<Rightarrow> string \<Rightarrow> json" where
  "model_call_aad k content_kind = JObj
     [(''organization_id'', juuid (mc_org k)), (''model_call_id'', juuid (mc_id k)),
      (''content_digest'', JStr (mc_content_digest k)), (''content_kind'', JStr content_kind)]"

definition open_model_content :: "env \<Rightarrow> model_call_row \<Rightarrow> string \<Rightarrow> string \<Rightarrow> digest \<Rightarrow> string \<Rightarrow> rs_error + json" where
  "open_model_content v k content_kind sealed dig message =
     rbind (decode_aes256_key v (encryption_key_b64 v)) (\<lambda>key.
     rbind (open_json v sealed key (model_call_aad k content_kind)) (\<lambda>value.
     require ((case value of JObj _ \<Rightarrow> True | _ \<Rightarrow> False) \<and> digest_of v value = dig)
       (rs_err INVALID_TRANSITION message 409) (Inr value)))"

definition decrypt_model_request :: "env \<Rightarrow> model_call_row \<Rightarrow> rs_error + json" where
  "decrypt_model_request v k =
     open_model_content v k ''request'' (mc_encrypted_request k) (mc_request_digest k)
       ''The encrypted model request is invalid or has been modified.''"

definition decrypt_model_output :: "env \<Rightarrow> model_call_row \<Rightarrow> rs_error + json" where
  "decrypt_model_output v k =
     (let incomplete = rs_err INVALID_TRANSITION ''The model output is incomplete.'' 409
      in fetch (mc_encrypted_output k) incomplete (\<lambda>sealed.
         fetch (mc_output_digest k) incomplete (\<lambda>dig.
         open_model_content v k ''output'' sealed dig ''The encrypted model output is invalid or has been modified.'')))"

definition encrypt_model_output :: "env \<Rightarrow> string \<Rightarrow> model_call_row \<Rightarrow> json \<Rightarrow> rs_error + string" where
  "encrypt_model_output v nonce k output =
     rbind (decode_aes256_key v (encryption_key_b64 v)) (\<lambda>key. Inr (seal_json v nonce output key (model_call_aad k ''output'')))"

definition model_call_summary :: "model_call_row \<Rightarrow> json" where
  "model_call_summary k = JObj
     [(''id'', juuid (mc_id k)), (''workflow_execution_id'', juuid (mc_execution_id k)), (''run_id'', juuid (mc_run_id k)),
      (''model_route_id'', juuid (mc_model_route_id k)), (''delegation_id'', juuid (mc_delegation_id k)),
      (''policy_decision_id'', juuid (mc_decision_id k)), (''node_id'', JStr (mc_node_id k)), (''sequence'', JInt (mc_sequence k)),
      (''result_state_key'', JStr (mc_result_state_key k)), (''status'', JStr (mc_status k)),
      (''request_digest'', JStr (mc_request_digest k)), (''route_digest'', JStr (mc_route_digest k)),
      (''content_digest'', JStr (mc_content_digest k)), (''output_digest'', jopt JStr (mc_output_digest k)),
      (''provider_reference'', jopt JStr (mc_provider_reference k)), (''max_output_tokens'', JInt (mc_max_output_tokens k)),
      (''input_tokens'', jopt JInt (mc_input_tokens k)), (''output_tokens'', jopt JInt (mc_output_tokens k)),
      (''cost_minor'', jopt JInt (mc_cost_minor k)), (''execute_attempts'', JInt (mc_execute_attempts k)),
      (''reconcile_attempts'', JInt (mc_reconcile_attempts k)), (''expires_at'', jtime (mc_expires_at k)),
      (''completed_at'', jopt jtime (mc_completed_at k)), (''error_code'', jopt JStr (mc_error_code k)),
      (''created_at'', jtime (mc_created_at k))]"

subsection \<open>Creation\<close>

text \<open>
  The checks of \<open>create_workflow_model_call\<close>, which precede every write: the route, the request in
  the state, the output limit and the workload that calls.
\<close>

definition model_request ::
  "py_values \<Rightarrow> execution_row \<Rightarrow> run_row \<Rightarrow> wf_node \<Rightarrow> node_policy_row option \<Rightarrow> json \<Rightarrow> db \<Rightarrow>
     rs_error + node_policy_row \<times> model_route_row \<times> (string \<times> json) list \<times> int \<times> workload_row" where
  "model_request p e r n decision state s =
     (let denied = rs_err POLICY_DENIED ''An agent node requires an exact allow policy decision.'' 403;
          unavailable = rs_err INVALID_TRANSITION ''The referenced model route is unavailable or unsupported.'' 409;
          identity = rs_err ACTION_NOT_AUTHORIZED ''The workflow workload identity is unavailable.'' 409
      in require (ex_mode e = ''live'')
           (rs_err INVALID_TRANSITION ''Agent model calls are not executed inside tool-simulation runs.'' 409) (
         fetch decision denied (\<lambda>d.
         require (np_effect d = effect_value ALLOW) denied (
         fetch (node_model_route_id n) (rs_err VALIDATION_FAILED ''The agent node model route is missing.'' 422) (\<lambda>route_id.
         fetch (get_model_route s route_id) unavailable (\<lambda>m.
         require (mrt_status m = ''active'' \<and> mrt_project_id m = run_project_id r \<and> mrt_provider m = MODEL_PROVIDER \<and>
                  mrt_model m = MODEL_NAME) unavailable (
         config_item n ''input_state_key'' (\<lambda>key.
         fetch (state_object state (py_str p key))
           (rs_err VALIDATION_FAILED ''The agent input state key must contain an object.'' 422) (\<lambda>req.
         config_item n ''max_output_tokens'' (\<lambda>limit.
         rbind (py_int p limit) (\<lambda>max_output_tokens.
         fetch (Option.bind (get_agent s (run_agent_id r)) (\<lambda>a. get_workload s (agt_workload_id a))) identity (\<lambda>w.
         require (wl_active w) identity (
         Inr (d, m, req, max_output_tokens, w))))))))))))))"

definition model_delegation :: "env \<Rightarrow> execution_row \<Rightarrow> run_row \<Rightarrow> wf_node \<Rightarrow> workload_row \<Rightarrow> uuid \<Rightarrow> timestamp \<Rightarrow> delegation_row" where
  "model_delegation v e r n w i t =
     (let until = min (t + minutes 30) (ex_deadline_at e)
      in \<lparr>dlg_id = i, dlg_org = ex_org e, dlg_delegator_id = run_actor_id r, dlg_delegator_type = run_actor_type r,
          dlg_workload_id = wl_id w, dlg_action_types = [MODEL_ACTION_TYPE], dlg_valid_until = until,
          dlg_content_digest = digest_of v (JObj
            [(''organization_id'', juuid (ex_org e)), (''delegation_id'', juuid i), (''delegator_id'', juuid (run_actor_id r)),
             (''delegator_type'', JStr (run_actor_type r)), (''workload_identity_id'', juuid (wl_id w)),
             (''action_types'', JArr [JStr MODEL_ACTION_TYPE]), (''workflow_execution_id'', juuid (ex_id e)),
             (''node_id'', JStr (node_id n)), (''sequence'', JInt (ex_step_count e)), (''valid_until'', jtime until)])\<rparr>)"

definition new_model_call ::
  "env \<Rightarrow> py_values \<Rightarrow> execution_row \<Rightarrow> wf_node \<Rightarrow> node_policy_row \<Rightarrow> model_route_row \<Rightarrow> delegation_row \<Rightarrow> json \<Rightarrow> json \<Rightarrow> json \<Rightarrow>
     int \<Rightarrow> uuid \<Rightarrow> timestamp \<Rightarrow> model_call_row" where
  "new_model_call v p e n d m dlg req input_key result_key max_output_tokens k t =
     (let expires = min (t + seconds (node_timeout_seconds n)) (ex_deadline_at e);
          request_digest = digest_of v req;
          route_digest = digest_of v (model_route_document m)
      in \<lparr>mc_id = k, mc_org = ex_org e, mc_execution_id = ex_id e, mc_run_id = ex_run_id e, mc_model_route_id = mrt_id m,
          mc_delegation_id = dlg_id dlg, mc_decision_id = np_id d, mc_node_id = node_id n, mc_sequence = ex_step_count e,
          mc_input_state_key = py_str p input_key, mc_result_state_key = py_str p result_key, mc_status = ''queued'',
          mc_request_digest = request_digest, mc_route_digest = route_digest,
          mc_content_digest = digest_of v (JObj
            [(''organization_id'', juuid (ex_org e)), (''model_call_id'', juuid k), (''workflow_execution_id'', juuid (ex_id e)),
             (''run_id'', juuid (ex_run_id e)), (''model_route_id'', juuid (mrt_id m)), (''route_digest'', JStr route_digest),
             (''delegation_id'', juuid (dlg_id dlg)), (''delegation_digest'', JStr (dlg_content_digest dlg)),
             (''policy_decision_id'', juuid (np_id d)), (''policy_decision_digest'', JStr (np_content_digest d)),
             (''node_id'', JStr (node_id n)), (''sequence'', JInt (ex_step_count e)), (''input_state_key'', input_key),
             (''result_state_key'', result_key), (''request_digest'', JStr request_digest),
             (''max_output_tokens'', JInt max_output_tokens), (''idempotency_key'', JStr (tool_call_key ''workflow-model'' e n)),
             (''expires_at'', jtime expires)]),
          mc_encrypted_request = ''pending'', mc_output_digest = None, mc_encrypted_output = None,
          mc_provider_reference = None, mc_idempotency_key = tool_call_key ''workflow-model'' e n,
          mc_max_output_tokens = max_output_tokens, mc_input_tokens = None, mc_output_tokens = None, mc_cost_minor = None,
          mc_worker_name = None, mc_claim_hash = None, mc_lease_expires_at = None, mc_execute_attempts = 0,
          mc_reconcile_attempts = 0, mc_next_reconcile_at = None, mc_expires_at = expires, mc_completed_at = None,
          mc_error_code = None, mc_created_at = t, mc_updated_at = t\<rparr>)"

text \<open>The delegation and the call, flushed before the budgets are reserved.\<close>

definition add_model_call ::
  "env \<Rightarrow> py_values \<Rightarrow> string \<Rightarrow> execution_row \<Rightarrow> run_row \<Rightarrow> wf_node \<Rightarrow> node_policy_row option \<Rightarrow> json \<Rightarrow> db \<Rightarrow>
     rs_error + (model_call_row \<times> json) \<times> db" where
  "add_model_call v p nonce e r n decision state s =
     rbind (model_request p e r n decision state s) (\<lambda>(d, m, req, max_output_tokens, w).
     let (i, s) = uuid4 s;
         dlg = model_delegation v e r n w i (now s);
         s = flush (s\<lparr>delegations := delegations s @ [dlg]\<rparr>);
         (k, s) = uuid4 s
     in config_item n ''input_state_key'' (\<lambda>input_key.
        config_item n ''result_state_key'' (\<lambda>result_key.
        let call = new_model_call v p e n d m dlg (JObj req) input_key result_key max_output_tokens k (now s)
        in rbind (decode_aes256_key v (encryption_key_b64 v)) (\<lambda>key.
           let call = call\<lparr>mc_encrypted_request := seal_json v nonce (JObj req) key (model_call_aad call ''request'')\<rparr>
           in Inr ((call, JObj req), flush (s\<lparr>model_calls := model_calls s @ [call]\<rparr>))))))"

definition model_budget_context :: "execution_row \<Rightarrow> run_row \<Rightarrow> model_call_row \<Rightarrow> budget_context" where
  "model_budget_context e r k = \<lparr>bc_org = ex_org e, bc_project_id = run_project_id r, bc_environment_id = run_environment_id r,
     bc_agent_id = run_agent_id r, bc_actor_id = run_actor_id r, bc_actor_type = run_actor_type r,
     bc_model_route_id = Some (mc_model_route_id k)\<rparr>"

definition model_estimates :: "json \<Rightarrow> int \<Rightarrow> estimates" where
  "model_estimates req max_output_tokens =
     [(''currency:USD'', 1), (''tokens'', max 1 ((int (length (json_bytes req)) + 3) div 4) + max_output_tokens),
      (''requests'', 1), (''model_calls'', 1)]"

definition announce_model_call :: "env \<Rightarrow> execution_row \<Rightarrow> run_row \<Rightarrow> outbox_row \<Rightarrow> model_call_row \<Rightarrow> reservation_row list \<Rightarrow> db \<Rightarrow> db" where
  "announce_model_call v e r ev k rs s =
     (let t = now s;
          s = add_outbox (ex_org e) ''model.ready'' ''model_call'' (mc_id k) (''model.ready:'' @ uuid_str (mc_id k) @ '':1'')
                (JObj [(''model_call_id'', juuid (mc_id k)), (''content_digest'', JStr (mc_content_digest k))]) t s;
          s = add_outbox (ex_org e) ''workflow.ready'' ''workflow_execution'' (ex_id e)
                (''workflow.model:'' @ uuid_str (mc_id k) @ '':timeout'')
                (JObj [(''workflow_execution_id'', juuid (ex_id e)), (''model_call_id'', juuid (mc_id k)),
                       (''content_digest'', JStr (mc_content_digest k)), (''reason'', JStr ''timeout'')]) (mc_expires_at k) s;
          s = upd_execution (ex_id e) (\<lambda>e. e\<lparr>ex_status := ExWaiting, ex_claim_hash := None, ex_lease_expires_at := None\<rparr>) s;
          s = upd_run (run_id r) (\<lambda>r. r\<lparr>run_status := RunWaiting, run_active_node := Some (mc_node_id k)\<rparr>) s;
          s = upd_outbox (ob_id ev) (\<lambda>ev. ev\<lparr>ob_processed_at := Some t\<rparr>) s;
          s = trace_event v (ex_org e) (run_id r) (mc_node_id k) ''model.call_queued'' ''queued''
                (JObj [(''model_call_id'', juuid (mc_id k)), (''model_route_id'', juuid (mc_model_route_id k)),
                       (''delegation_id'', juuid (mc_delegation_id k)), (''request_digest'', JStr (mc_request_digest k)),
                       (''route_digest'', JStr (mc_route_digest k)),
                       (''budget_reservation_ids'', JArr (map (juuid \<circ> rv_id) rs)), (''raw_content_captured'', JBool False)]) s
      in audit v (ex_org e) (run_actor_id r) ''model.call_queued'' ''model_call'' (mc_id k) (mc_content_digest k)
           (JObj [(''workflow_execution_id'', juuid (ex_id e)), (''model_route_id'', juuid (mc_model_route_id k)),
                  (''delegation_id'', juuid (mc_delegation_id k)), (''request_digest'', JStr (mc_request_digest k)),
                  (''raw_content_captured'', JBool False)]) s)"

definition create_workflow_model_call ::
  "env \<Rightarrow> py_values \<Rightarrow> string \<Rightarrow> execution_row \<Rightarrow> run_row \<Rightarrow> wf_node \<Rightarrow> node_policy_row option \<Rightarrow> json \<Rightarrow> outbox_row \<Rightarrow> db \<Rightarrow>
     rs_error + model_call_row \<times> db" where
  "create_workflow_model_call v p nonce e r n decision state ev s =
     rbind (add_model_call v p nonce e r n decision state s) (\<lambda>((call, req), s).
     rbind (reserve_budgets (model_budget_context e r call) (run_id r) (model_estimates req (mc_max_output_tokens call))
              (now s) (max (seconds 1) (mc_expires_at call - now s)) s) (\<lambda>(rs, s).
     Inr (call, announce_model_call v e r ev call rs (link_model_call_reservations (ex_org e) (mc_id call) rs (flush s)))))"

text \<open>What an exception leaves in the session of a caller that catches it: the call when its budgets are refused.\<close>

definition model_call_residue ::
  "env \<Rightarrow> py_values \<Rightarrow> string \<Rightarrow> execution_row \<Rightarrow> run_row \<Rightarrow> wf_node \<Rightarrow> node_policy_row option \<Rightarrow> json \<Rightarrow> db \<Rightarrow> db" where
  "model_call_residue v p nonce e r n decision state s =
     (case add_model_call v p nonce e r n decision state s of Inl _ \<Rightarrow> s | Inr (_, s') \<Rightarrow> s')"

subsection \<open>Timeout\<close>

definition model_timeout_event :: "db \<Rightarrow> uuid \<Rightarrow> outbox_row option" where
  "model_timeout_event s k = find (\<lambda>ev. ob_dedup_key ev = ''workflow.model:'' @ uuid_str k @ '':timeout'') (seen s ob_org (outbox s))"

definition model_ready_event :: "db \<Rightarrow> uuid \<Rightarrow> outbox_row option" where
  "model_ready_event s k =
     last_by ob_created_at (filter (\<lambda>ev. ob_aggregate_id ev = k \<and> ob_topic ev = ''model.ready'') (seen s ob_org (outbox s)))"

definition TERMINAL_MODEL_CALL_STATUSES :: "string list" where
  "TERMINAL_MODEL_CALL_STATUSES = [''completed'', ''failed'', ''timed_out'']"

definition settle_model_call_and_wake :: "model_call_row \<Rightarrow> db \<Rightarrow> db" where
  "settle_model_call_and_wake k s =
     (if mc_status k \<notin> set TERMINAL_MODEL_CALL_STATUSES then s
      else add_outbox (mc_org k) ''workflow.ready'' ''workflow_execution'' (mc_execution_id k)
        (''workflow.model:'' @ uuid_str (mc_id k) @ '':resume:'' @ mc_status k)
        (JObj [(''workflow_execution_id'', juuid (mc_execution_id k)), (''model_call_id'', juuid (mc_id k)),
               (''content_digest'', JStr (mc_content_digest k)), (''reason'', JStr ''settled'')]) (now s) s)"

definition unresolved :: "timestamp \<Rightarrow> model_call_row \<Rightarrow> model_call_row" where
  "unresolved t k = k\<lparr>mc_status := ''reconciliation_required'', mc_next_reconcile_at := Some t\<rparr>"

definition timed_out :: "timestamp \<Rightarrow> model_call_row \<Rightarrow> model_call_row" where
  "timed_out t k = k\<lparr>mc_status := ''timed_out'', mc_error_code := Some ''model_call_timed_out_before_dispatch'', mc_completed_at := Some t\<rparr>"

text \<open>The writes before the reservations are settled.\<close>

definition withdraw_model_call :: "model_call_row \<Rightarrow> outbox_row \<Rightarrow> db \<Rightarrow> db" where
  "withdraw_model_call k ready s =
     (let t = now s
      in upd_model_call (mc_id k) (timed_out t)
           (upd_outbox (ob_id ready) (\<lambda>ev. ev\<lparr>ob_dispatched_at := Some t, ob_processed_at := Some t, ob_attempts := ob_attempts ev + 1\<rparr>) s))"

definition expire_model_call :: "env \<Rightarrow> uuid \<Rightarrow> db \<Rightarrow> rs_error + model_call_row \<times> db" where
  "expire_model_call v call_id s =
     fetch (get_model_call s call_id)
       (rs_err INVALID_TRANSITION ''The model call disappeared before timeout settlement.'' 409) (\<lambda>k.
     let t = now s; ready = model_ready_event s call_id in
     if mc_status k \<in> set TERMINAL_MODEL_CALL_STATUSES then Inr (k, s)
     else if mc_status k \<in> {''executing'', ''reconciling'', ''reconciliation_required''} then
       (if mc_status k = ''executing'' then Inr (unresolved t k, upd_model_call (mc_id k) (unresolved t) s) else Inr (k, s))
     else case ready of
       None \<Rightarrow> Inr (unresolved t k, upd_model_call (mc_id k) (unresolved t) s)
     | Some ev \<Rightarrow>
         if mc_status k \<noteq> ''queued'' \<or> ob_dispatched_at ev \<noteq> None
         then Inr (unresolved t k, upd_model_call (mc_id k) (unresolved t) s)
         else
           rbind (settle_model_call_reservations (mc_org k) (mc_id k) t False [] (withdraw_model_call k ev s)) (\<lambda>(_, s).
           Inr (timed_out t k,
                trace_event v (mc_org k) (mc_run_id k) (mc_node_id k) ''model.call_timed_out'' ''timed_out''
                  (JObj [(''model_call_id'', juuid (mc_id k)), (''provider_request_started'', JBool False),
                         (''raw_content_captured'', JBool False)]) s)))"

subsection \<open>Authorization\<close>

record model_authorization =
  ma_organization_id :: uuid
  ma_run_id :: uuid
  ma_workload_subject :: string
  ma_audience :: string
  ma_content_digest :: digest
  ma_request_digest :: digest
  ma_model_route_id :: uuid
  ma_provider :: string
  ma_model :: string
  ma_decision_id :: uuid
  ma_delegation_id :: uuid
  ma_reservation_ids :: "uuid list"

definition authorize_gateway_model_call ::
  "env \<Rightarrow> uuid \<Rightarrow> digest \<Rightarrow> string \<Rightarrow> string \<Rightarrow> db \<Rightarrow> rs_error + model_authorization" where
  "authorize_gateway_model_call v call_id content token mode s =
     (let stale = rs_err ACTION_NOT_AUTHORIZED ''The model-call claim is stale, mismatched, or not executable.'' 409;
          incomplete = rs_err ACTION_NOT_AUTHORIZED ''The model-call governance lineage is incomplete or unavailable.'' 409
      in fetch (get_model_call s call_id) (rs_err NOT_FOUND ''Model call not found.'' 404) (\<lambda>k.
         require (mc_status k = (if mode = ''execute'' then ''executing'' else ''reconciling'') \<and>
                  (case mc_lease_expires_at k of None \<Rightarrow> False | Some l \<Rightarrow> now s < l) \<and>
                  mc_claim_hash k = Some (claim_hash v token) \<and> mc_content_digest k = content) stale (
         let rs = reservations_of_model_call s (mc_org k) (mc_id k)
         in fetch (get_model_route s (mc_model_route_id k)) incomplete (\<lambda>m.
            require (mrt_status m = ''active'' \<and> mrt_provider m = MODEL_PROVIDER \<and> mrt_model m = MODEL_NAME \<and>
                     mc_route_digest k = digest_of v (model_route_document m)) incomplete (
            fetch (get_node_policy s (mc_decision_id k)) incomplete (\<lambda>d.
            require (np_effect d = effect_value ALLOW) incomplete (
            fetch (tget dlg_id (mc_delegation_id k) (seen s dlg_org (delegations s))) incomplete (\<lambda>dlg.
            require (MODEL_ACTION_TYPE \<in> set (dlg_action_types dlg)) incomplete (
            fetch (get_run s (mc_run_id k)) incomplete (\<lambda>r.
            fetch (Option.bind (get_agent s (run_agent_id r)) (\<lambda>a. get_workload s (agt_workload_id a))) incomplete (\<lambda>w.
            require (wl_active w \<and> rs \<noteq> [] \<and> list_all (\<lambda>q. rv_status q = ResActive) rs) incomplete (
            require (\<not> (mode = ''execute'' \<and>
                       (np_expires_at d \<le> now s \<or> dlg_valid_until dlg \<le> now s \<or> list_ex (\<lambda>q. rv_expires_at q \<le> now s) rs)))
              (rs_err ACTION_NOT_AUTHORIZED ''The model-call policy, delegation, or budget reservation has expired.'' 409) (
            Inr \<lparr>ma_organization_id = mc_org k, ma_run_id = mc_run_id k, ma_workload_subject = wl_subject w,
                 ma_audience = MODEL_AUDIENCE, ma_content_digest = mc_content_digest k, ma_request_digest = mc_request_digest k,
                 ma_model_route_id = mrt_id m, ma_provider = mrt_provider m, ma_model = mrt_model m, ma_decision_id = np_id d,
                 ma_delegation_id = dlg_id dlg, ma_reservation_ids = map rv_id rs\<rparr>)))))))))))))"

subsection \<open>The worker\<close>

record claimed_model_call =
  cm_call_id :: uuid
  cm_org :: uuid
  cm_run_id :: uuid
  cm_content_digest :: digest
  cm_idempotency_key :: string
  cm_model :: string
  cm_max_output_tokens :: int
  cm_token :: string
  cm_mode :: claim_mode

definition claimed_model :: "model_call_row \<Rightarrow> string \<Rightarrow> claim_mode \<Rightarrow> claimed_model_call" where
  "claimed_model k token mode = \<lparr>cm_call_id = mc_id k, cm_org = mc_org k, cm_run_id = mc_run_id k, cm_content_digest = mc_content_digest k,
     cm_idempotency_key = mc_idempotency_key k, cm_model = ''demo-governed-model'', cm_max_output_tokens = mc_max_output_tokens k,
     cm_token = token, cm_mode = mode\<rparr>"

definition take_model_call :: "env \<Rightarrow> string \<Rightarrow> timestamp \<Rightarrow> string \<Rightarrow> model_call_row \<Rightarrow> model_call_row" where
  "take_model_call v token t status k = k\<lparr>mc_status := status, mc_worker_name := Some (worker_name v),
     mc_claim_hash := Some (claim_hash v token), mc_lease_expires_at := Some (t + seconds (action_lease_seconds v))\<rparr>"

definition start_call :: "env \<Rightarrow> string \<Rightarrow> timestamp \<Rightarrow> model_call_row \<Rightarrow> model_call_row" where
  "start_call v token t k = (take_model_call v token t ''executing'' k)\<lparr>mc_execute_attempts := mc_execute_attempts k + 1\<rparr>"

definition start_reconciliation :: "env \<Rightarrow> string \<Rightarrow> timestamp \<Rightarrow> model_call_row \<Rightarrow> model_call_row" where
  "start_reconciliation v token t k = (take_model_call v token t ''reconciling'' k)\<lparr>mc_reconcile_attempts := mc_reconcile_attempts k + 1\<rparr>"

definition claim_model_ready :: "env \<Rightarrow> string \<Rightarrow> db \<Rightarrow> claimed_model_call option \<times> db" where
  "claim_model_ready v token s =
     (let t = now s
      in case first_by ob_created_at (filter (\<lambda>ev. ob_topic ev = ''model.ready'' \<and> ob_dispatched_at ev = None \<and> ob_available_at ev \<le> t)
                 (seen s ob_org (outbox s))) of
           None \<Rightarrow> (None, s)
         | Some ev \<Rightarrow>
             case get_model_call s (ob_aggregate_id ev) of
               Some k \<Rightarrow>
                 if mc_status k \<noteq> ''queued''
                 then (None, upd_outbox (ob_id ev) (\<lambda>ev. ev\<lparr>ob_dispatched_at := Some t, ob_processed_at := Some t,
                         ob_attempts := ob_attempts ev + 1\<rparr>) s)
                 else
                   let s = upd_model_call (mc_id k) (start_call v token t) s;
                       s = upd_outbox (ob_id ev) (\<lambda>ev. ev\<lparr>ob_dispatched_at := Some t, ob_attempts := ob_attempts ev + 1\<rparr>) s;
                       s = trace_event v (mc_org k) (mc_run_id k) (mc_node_id k) ''model.call_claimed'' ''running''
                             (JObj [(''model_call_id'', juuid (mc_id k)), (''model_route_id'', juuid (mc_model_route_id k)),
                                    (''durable_claim_committed_before_provider'', JBool True), (''raw_content_captured'', JBool False)]) s
                   in (Some (claimed_model k token Execute), s)
             | None \<Rightarrow> (None, upd_outbox (ob_id ev) (\<lambda>ev. ev\<lparr>ob_dispatched_at := Some t, ob_processed_at := Some t,
                         ob_attempts := ob_attempts ev + 1\<rparr>) s))"

definition reconcilable_model :: "timestamp \<Rightarrow> model_call_row \<Rightarrow> bool" where
  "reconcilable_model t k \<longleftrightarrow>
     (mc_status k = ''executing'' \<and> (case mc_lease_expires_at k of None \<Rightarrow> False | Some l \<Rightarrow> l < t)) \<or>
     (mc_status k = ''reconciliation_required'' \<and> (case mc_next_reconcile_at k of None \<Rightarrow> True | Some n \<Rightarrow> n \<le> t))"

definition claim_model_reconciliation :: "env \<Rightarrow> string \<Rightarrow> db \<Rightarrow> claimed_model_call option \<times> db" where
  "claim_model_reconciliation v token s =
     (let t = now s
      in case first_by mc_updated_at (filter (reconcilable_model t) (seen s mc_org (model_calls s))) of
           None \<Rightarrow> (None, s)
         | Some k \<Rightarrow>
             let s = upd_model_call (mc_id k) (start_reconciliation v token t) s;
                 s = trace_event v (mc_org k) (mc_run_id k) (mc_node_id k) ''model.reconciliation_claimed'' ''running''
                       (JObj [(''model_call_id'', juuid (mc_id k)), (''attempt'', JInt (mc_reconcile_attempts k + 1)),
                              (''raw_content_captured'', JBool False)]) s
             in (Some (claimed_model k token Reconcile), s))"

text \<open>\<open>ModelExecutionResult\<close>, with the bounds pydantic puts on it.\<close>

datatype model_outcome = ModelCompleted | ModelFailed | ModelAmbiguous

fun model_outcome_value :: "model_outcome \<Rightarrow> string" where
  "model_outcome_value ModelCompleted = ''completed''"
| "model_outcome_value ModelFailed = ''failed''"
| "model_outcome_value ModelAmbiguous = ''ambiguous''"

record model_execution_result =
  mx_outcome :: model_outcome
  mx_output :: json
  mx_provider_reference :: "string option"
  mx_input_tokens :: int
  mx_output_tokens :: int
  mx_cost_minor :: int
  mx_error_code :: "string option"

text \<open>\<open>code or fallback\<close>\<close>

definition code_or :: "string option \<Rightarrow> string \<Rightarrow> string" where
  "code_or code fallback = (case code of None \<Rightarrow> fallback | Some c \<Rightarrow> if c = [] then fallback else c)"

definition model_usage :: "model_execution_result \<Rightarrow> estimates" where
  "model_usage res = [(''currency:USD'', mx_cost_minor res), (''tokens'', mx_input_tokens res + mx_output_tokens res),
     (''requests'', 1), (''model_calls'', 1)]"

text \<open>
  The four outcomes: the new row, how its reservations are settled, if they are, and the word for the
  trace and the audit.
\<close>

definition model_settlement ::
  "env \<Rightarrow> string \<Rightarrow> claimed_model_call \<Rightarrow> model_execution_result \<Rightarrow> timestamp \<Rightarrow> model_call_row \<Rightarrow>
     rs_error + model_call_row \<times> (bool \<times> estimates) option \<times> string" where
  "model_settlement v nonce cl res t k =
     (case mx_outcome res of
        ModelCompleted \<Rightarrow>
          rbind (encrypt_model_output v nonce k (mx_output res)) (\<lambda>sealed.
          Inr (k\<lparr>mc_status := ''completed'', mc_output_digest := Some (digest_of v (mx_output res)), mc_encrypted_output := Some sealed,
                 mc_provider_reference := mx_provider_reference res, mc_input_tokens := Some (mx_input_tokens res),
                 mc_output_tokens := Some (mx_output_tokens res), mc_cost_minor := Some (mx_cost_minor res),
                 mc_completed_at := Some t, mc_error_code := None, mc_lease_expires_at := None\<rparr>,
               Some (True, model_usage res), ''completed''))
      | ModelFailed \<Rightarrow>
          Inr (k\<lparr>mc_status := ''failed'', mc_error_code := Some (code_or (mx_error_code res) ''model_provider_failed''),
                 mc_completed_at := Some t, mc_lease_expires_at := None\<rparr>, Some (False, []), ''failed'')
      | ModelAmbiguous \<Rightarrow>
          if cm_mode cl = Reconcile \<and> max_reconciliation_attempts v \<le> mc_reconcile_attempts k
          then Inr (k\<lparr>mc_status := ''failed'', mc_error_code := Some (code_or (mx_error_code res) ''model_outcome_unresolved''),
                      mc_completed_at := Some t, mc_lease_expires_at := None\<rparr>, Some (True, []), ''failed'')
          else Inr (k\<lparr>mc_status := ''reconciliation_required'',
                      mc_error_code := Some (code_or (mx_error_code res) ''model_outcome_unknown''),
                      mc_next_reconcile_at := Some (t + seconds (reconciliation_delay_seconds v)),
                      mc_lease_expires_at := None\<rparr>, None, ''ambiguous''))"

definition record_model_settlement ::
  "env \<Rightarrow> claimed_model_call \<Rightarrow> model_execution_result \<Rightarrow> outbox_row option \<Rightarrow> model_call_row \<Rightarrow> string \<Rightarrow> bool \<Rightarrow> db \<Rightarrow> db" where
  "record_model_settlement v cl res timeout_event k status terminal s =
     (let t = now s;
          s = (case model_ready_event s (mc_id k) of
                 Some ev \<Rightarrow> if terminal then upd_outbox (ob_id ev) (\<lambda>ev. ev\<lparr>ob_processed_at := Some t\<rparr>) s else s
               | None \<Rightarrow> s);
          s = (if terminal then mark_processed timeout_event t s else s);
          s = trace_event v (mc_org k) (mc_run_id k) (mc_node_id k) (''model.call_'' @ status) status
                (JObj [(''model_call_id'', juuid (mc_id k)), (''model_route_id'', juuid (mc_model_route_id k)),
                       (''output_digest'', jopt JStr (mc_output_digest k)), (''input_tokens'', jopt JInt (mc_input_tokens k)),
                       (''output_tokens'', jopt JInt (mc_output_tokens k)), (''cost_minor'', jopt JInt (mc_cost_minor k)),
                       (''raw_content_captured'', JBool False)]) s;
          s = audit v (mc_org k) WORKER_ACTOR (''model.call_'' @ status) ''model_call'' (mc_id k) (mc_content_digest k)
                (JObj [(''workflow_execution_id'', juuid (mc_execution_id k)),
                       (''mode'', JStr (case cm_mode cl of Execute \<Rightarrow> ''execute'' | Reconcile \<Rightarrow> ''reconcile'')),
                       (''outcome'', JStr (model_outcome_value (mx_outcome res))), (''raw_content_captured'', JBool False)]) s
      in if terminal then settle_model_call_and_wake k s else s)"

definition settle_model_call ::
  "env \<Rightarrow> string \<Rightarrow> claimed_model_call \<Rightarrow> model_execution_result \<Rightarrow> db \<Rightarrow> rs_error + unit \<times> db" where
  "settle_model_call v nonce cl res s =
     (case get_model_call s (cm_call_id cl) of
        None \<Rightarrow> Inr ((), s)
      | Some k \<Rightarrow>
          if mc_status k \<noteq> (if cm_mode cl = Execute then ''executing'' else ''reconciling'') \<or>
             mc_claim_hash k \<noteq> Some (claim_hash v (cm_token cl))
          then Inr ((), s)
          else
            rbind (model_settlement v nonce cl res (now s) k) (\<lambda>(k', settled, status).
            let timeout_event = model_timeout_event s (cm_call_id cl);
                s = upd_model_call (mc_id k) (\<lambda>_. k') s
            in rbind (case settled of
                        None \<Rightarrow> Inr s
                      | Some (committed, usage) \<Rightarrow>
                          rbind (settle_model_call_reservations (mc_org k) (mc_id k) (now s) committed usage s) (\<lambda>(_, s). Inr s)) (\<lambda>s.
               Inr ((), record_model_settlement v cl res timeout_event k' status (settled \<noteq> None) s))))"

subsection \<open>The life of a model call\<close>

text \<open>
  Every pass of the engine or of the worker that touches a model call, in any order; the rest of the
  system leaves the calls alone.
\<close>

inductive model_step :: "env \<Rightarrow> db \<Rightarrow> db \<Rightarrow> bool" for v where
  other: "model_calls s' = model_calls s \<Longrightarrow> next_uuid s \<le> next_uuid s' \<Longrightarrow> model_step v s s'"
| create: "create_workflow_model_call v p nonce e r n decision state ev s = Inr (k, s') \<Longrightarrow> model_step v s s'"
| refused: "model_step v s (model_call_residue v p nonce e r n decision state s)"
| claim: "model_step v s (snd (claim_model_ready v token s))"
| reconcile: "model_step v s (snd (claim_model_reconciliation v token s))"
| settle: "settle_model_call v nonce cl res s = Inr ((), s') \<Longrightarrow> model_step v s s'"
| expire: "expire_model_call v call s = Inr (k, s') \<Longrightarrow> model_step v s s'"

definition terminal_call :: "model_call_row \<Rightarrow> bool" where
  "terminal_call k \<longleftrightarrow> mc_status k \<in> set TERMINAL_MODEL_CALL_STATUSES"

definition attempts_ok :: "model_call_row \<Rightarrow> bool" where
  "attempts_ok k \<longleftrightarrow> 0 \<le> mc_execute_attempts k \<and> mc_execute_attempts k \<le> 1 \<and>
     (mc_status k = ''queued'' \<or> mc_status k = ''timed_out'' \<longrightarrow> mc_execute_attempts k = 0)"

definition model_calls_ok :: "db \<Rightarrow> bool" where
  "model_calls_ok s \<longleftrightarrow> distinct (map mc_id (model_calls s)) \<and> (\<forall>k \<in> set (model_calls s). mc_id k < next_uuid s \<and> attempts_ok k)"

definition calls_kept :: "db \<Rightarrow> db \<Rightarrow> bool" where
  "calls_kept s s' \<longleftrightarrow> (\<forall>k \<in> set (model_calls s). (\<exists>k' \<in> set (model_calls s'). mc_id k' = mc_id k \<and>
     mc_content_digest k' = mc_content_digest k \<and> mc_execute_attempts k \<le> mc_execute_attempts k' \<and> (terminal_call k \<longrightarrow> k' = k)))"

text \<open>One call is rewritten, and it was not closed.\<close>

definition call_written :: "db \<Rightarrow> model_call_row \<Rightarrow> (model_call_row \<Rightarrow> model_call_row) \<Rightarrow> db \<Rightarrow> bool" where
  "call_written s k f s' \<longleftrightarrow> k \<in> set (model_calls s) \<and> \<not> terminal_call k \<and> model_calls s' = tupd mc_id (mc_id k) f (model_calls s) \<and>
     next_uuid s \<le> next_uuid s' \<and> mc_id (f k) = mc_id k \<and> mc_content_digest (f k) = mc_content_digest k \<and>
     mc_execute_attempts k \<le> mc_execute_attempts (f k) \<and> (attempts_ok k \<longrightarrow> attempts_ok (f k))"

lemma call_written_ok:
  assumes "call_written s k f s'" and "model_calls_ok s"
  shows "model_calls_ok s'" and "calls_kept s s'"
proof -
  have d: "distinct (map mc_id (model_calls s))" and k: "k \<in> set (model_calls s)" "mc_id (f k) = mc_id k"
    and rows: "model_calls s' = tupd mc_id (mc_id k) f (model_calls s)"
    using assms by (auto simp: call_written_def model_calls_ok_def)
  have only: "q = k" if "q \<in> set (model_calls s)" "mc_id q = mc_id k" for q
    using distinct_key_eq [OF d that(1) k(1) that(2)] .
  have "map mc_id (model_calls s') = map mc_id (model_calls s)"
    unfolding rows tupd_def using only k(2) by (auto simp: comp_def intro!: map_cong)
  moreover have "mc_id q < next_uuid s' \<and> attempts_ok q" if "q \<in> set (model_calls s')" for q
    using tupd_rowE [OF that [unfolded rows] d k(1)]
  proof cases
    case 1
    then show ?thesis using assms k by (auto simp: call_written_def model_calls_ok_def intro: less_le_trans)
  next
    case 2
    then show ?thesis using assms by (auto simp: call_written_def model_calls_ok_def intro: less_le_trans)
  qed
  ultimately show "model_calls_ok s'" using d by (simp add: model_calls_ok_def)
  show "calls_kept s s'"
    unfolding calls_kept_def
  proof
    fix q assume q: "q \<in> set (model_calls s)"
    from tupd_memI [OF q, of mc_id "mc_id k" f] have "(if mc_id q = mc_id k then f q else q) \<in> set (model_calls s')"
      by (simp add: rows)
    with only [OF q] assms(1)
    show "\<exists>k' \<in> set (model_calls s'). mc_id k' = mc_id q \<and> mc_content_digest k' = mc_content_digest q \<and>
        mc_execute_attempts q \<le> mc_execute_attempts k' \<and> (terminal_call q \<longrightarrow> k' = q)"
      by (intro bexI [of _ "if mc_id q = mc_id k then f q else q"]) (auto simp: call_written_def)
  qed
qed

lemma calls_kept_same: "model_calls s' = model_calls s \<Longrightarrow> calls_kept s s'"
  by (auto simp: calls_kept_def)

lemma calls_same_ok: "model_calls s' = model_calls s \<Longrightarrow> next_uuid s \<le> next_uuid s' \<Longrightarrow> model_calls_ok s \<Longrightarrow> model_calls_ok s'"
  by (fastforce simp: model_calls_ok_def)

lemma settle_loop_frame:
  "settle_loop unsafe negative t committed usage rs s = Inr s' \<Longrightarrow> model_calls s' = model_calls s \<and> next_uuid s' = next_uuid s"
  by (induction rs arbitrary: s) (auto simp: Let_def take_back_def split: if_splits option.splits)

lemma settle_model_frame:
  "settle_model_call_reservations org k t committed usage s = Inr (rs, s') \<Longrightarrow>
     model_calls s' = model_calls s \<and> next_uuid s' = next_uuid s"
  by (auto simp: settle_model_call_reservations_def split: sum.splits dest!: settle_loop_frame)

lemma add_reservations_calls:
  "model_calls (snd (add_reservations org run est expires bs s)) = model_calls s"
  "next_uuid s \<le> next_uuid (snd (add_reservations org run est expires bs s))"
proof -
  show "model_calls (snd (add_reservations org run est expires bs s)) = model_calls s"
    by (induction bs arbitrary: s) (simp_all add: Let_def uuid4_def split_beta)
  show "next_uuid s \<le> next_uuid (snd (add_reservations org run est expires bs s))"
  proof (induction bs arbitrary: s)
    case (Cons b bs)
    show ?case by (simp add: Let_def uuid4_def split_beta) (rule order_trans [OF _ Cons], simp)
  qed simp
qed

lemma reserve_calls:
  assumes "reserve_budgets c run est t ttl s = Inr (rs, s')"
  shows "model_calls s' = model_calls s" and "next_uuid s \<le> next_uuid s'"
proof -
  from assms have "s' = snd (add_reservations (bc_org c) run est (t + ttl) (applicable_budgets s c est) s)"
    by (metis reserve_budgets_cases snd_conv)
  then show "model_calls s' = model_calls s" and "next_uuid s \<le> next_uuid s'" by (simp_all add: add_reservations_calls)
qed

subsection \<open>Every pass writes at most one open call\<close>

lemma announce_model_calls [simp]:
  "model_calls (announce_model_call v e r ev k rs s) = model_calls s" "next_uuid s \<le> next_uuid (announce_model_call v e r ev k rs s)"
  by (simp_all add: announce_model_call_def Let_def)

lemma link_model_calls [simp]:
  "model_calls (link_model_call_reservations org k rs s) = model_calls s" "next_uuid (link_model_call_reservations org k rs s) = next_uuid s"
  by (simp_all add: link_model_call_reservations_def)

definition call_added :: "db \<Rightarrow> model_call_row \<Rightarrow> db \<Rightarrow> bool" where
  "call_added s k s' \<longleftrightarrow> model_calls s' = model_calls s @ [k] \<and> next_uuid s \<le> mc_id k \<and> mc_id k < next_uuid s' \<and>
     mc_status k = ''queued'' \<and> mc_execute_attempts k = 0"

lemma call_added_ok:
  assumes "call_added s k s'" and "model_calls_ok s"
  shows "model_calls_ok s'" and "calls_kept s s'"
  using assms by (fastforce simp: call_added_def model_calls_ok_def attempts_ok_def, auto simp: call_added_def calls_kept_def)

lemma add_model_call_added:
  assumes "add_model_call v p nonce e r n decision state s = Inr ((k, req), s')"
  shows "call_added s k s'"
proof -
  obtain d m kvs limit w input_key result_key key where
    "k = (let call = new_model_call v p e n d m (model_delegation v e r n w (next_uuid s) (now s)) (JObj kvs) input_key result_key limit
            (Suc (next_uuid s)) (now s)
          in call\<lparr>mc_encrypted_request := seal_json v nonce (JObj kvs) key (model_call_aad call ''request'')\<rparr>)"
    "model_calls s' = model_calls s @ [k]" "next_uuid s' = Suc (Suc (next_uuid s))"
    using assms by (auto simp: add_model_call_def config_item_def ok_iff uuid4_def Let_def)
  then show ?thesis by (simp add: call_added_def new_model_call_def Let_def)
qed

lemma create_model_call_added:
  assumes "create_workflow_model_call v p nonce e r n decision state ev s = Inr (k, s')"
  shows "call_added s k s'"
proof -
  obtain req s1 rs s2 where "add_model_call v p nonce e r n decision state s = Inr ((k, req), s1)"
    and s2: "reserve_budgets (model_budget_context e r k) (run_id r) (model_estimates req (mc_max_output_tokens k))
              (now s1) (max (seconds 1) (mc_expires_at k - now s1)) s1 = Inr (rs, s2)"
    and s': "s' = announce_model_call v e r ev k rs (link_model_call_reservations (ex_org e) (mc_id k) rs (flush s2))"
    using assms by (auto simp: create_workflow_model_call_def ok_iff)
  from this(1) have "call_added s k s1" by (rule add_model_call_added)
  then show ?thesis
    using reserve_calls [OF s2] order_trans [OF reserve_calls(2) [OF s2] announce_model_calls(2)
        [of "link_model_call_reservations (ex_org e) (mc_id k) rs (flush s2)" v e r ev k rs, simplified]]
    by (auto simp: call_added_def s')
qed

lemma seen_model_call: "get_model_call s i = Some k \<Longrightarrow> k \<in> set (model_calls s) \<and> mc_id k = i"
  by (auto dest!: tget_SomeD)

definition passes :: "db \<Rightarrow> db \<Rightarrow> bool" where
  "passes s s' \<longleftrightarrow> (model_calls_ok s \<longrightarrow> model_calls_ok s' \<and> calls_kept s s')"

lemma passes_same: "model_calls s' = model_calls s \<Longrightarrow> next_uuid s \<le> next_uuid s' \<Longrightarrow> passes s s'"
  by (simp add: passes_def calls_kept_same calls_same_ok)

lemma passes_written: "call_written s k f s' \<Longrightarrow> passes s s'"
  by (simp add: passes_def call_written_ok)

lemma passes_added: "call_added s k s' \<Longrightarrow> passes s s'"
  by (simp add: passes_def call_added_ok)

lemma passes_upd:
  assumes "get_model_call s i = Some k" and "\<not> terminal_call k" and "model_calls s' = model_calls (upd_model_call (mc_id k) f s)"
    and "next_uuid s \<le> next_uuid s'" and "mc_id (f k) = mc_id k" and "mc_content_digest (f k) = mc_content_digest k"
    and "mc_execute_attempts k \<le> mc_execute_attempts (f k)" and "attempts_ok k \<Longrightarrow> attempts_ok (f k)"
  shows "passes s s'"
  using assms
  by (intro passes_written [of s k "\<lambda>c. (f c)\<lparr>mc_updated_at := now s\<rparr>"])
    (auto simp: call_written_def written_workflow_rows attempts_ok_def dest!: seen_model_call)

lemmas call_rules = terminal_call_def TERMINAL_MODEL_CALL_STATUSES_def attempts_ok_def start_call_def start_reconciliation_def
  take_model_call_def unresolved_def timed_out_def

lemma claim_model_passes: "passes s (snd (claim_model_ready v token s))"
proof -
  have written: "passes s s'" if "get_model_call s i = Some k" "mc_status k = ''queued''"
    "model_calls s' = model_calls (upd_model_call (mc_id k) (start_call v token (now s)) s)" "next_uuid s \<le> next_uuid s'" for i k s'
    using that(1) _ that(3,4) by (rule passes_upd) (use that(2) in \<open>simp_all add: call_rules\<close>)
  show ?thesis
    by (auto simp: claim_model_ready_def Let_def split: option.split intro: passes_same written)
qed

lemma claim_model_reconciliation_passes: "passes s (snd (claim_model_reconciliation v token s))"
proof (cases "first_by mc_updated_at (filter (reconcilable_model (now s)) (seen s mc_org (model_calls s)))")
  case None
  then show ?thesis by (simp add: claim_model_reconciliation_def passes_same)
next
  case (Some k)
  then have k: "k \<in> set (model_calls s)" "reconcilable_model (now s) k" by (auto dest!: first_by_SomeD)
  show ?thesis
    by (rule passes_written [of s k "\<lambda>c. (start_reconciliation v token (now s) c)\<lparr>mc_updated_at := now s\<rparr>"])
      (use k in \<open>auto simp: Some claim_model_reconciliation_def Let_def written_workflow_rows call_written_def call_rules
        reconcilable_model_def\<close>)
qed

lemma expire_model_callE:
  assumes "expire_model_call v call s = Inr (k, s')"
  obtains (kept) "s' = s"
  | (again) c where "get_model_call s call = Some c" "\<not> terminal_call c" "s' = upd_model_call (mc_id c) (unresolved (now s)) s"
  | (out) c ev rs s1 data where "get_model_call s call = Some c" "mc_status c = ''queued''"
      "settle_model_call_reservations (mc_org c) (mc_id c) (now s) False [] (withdraw_model_call c ev s) = Inr (rs, s1)"
      "s' = trace_event v (mc_org c) (mc_run_id c) (mc_node_id c) ''model.call_timed_out'' ''timed_out'' data s1"
proof -
  obtain c where c: "get_model_call s call = Some c" using assms by (auto simp: expire_model_call_def ok_iff)
  note step = assms [unfolded expire_model_call_def c fetch_def, simplified Let_def option.case]
  show ?thesis
  proof (cases "terminal_call c")
    case True
    with step that(1) show ?thesis by (simp add: terminal_call_def)
  next
    case False
    then have open_call: "mc_status c \<notin> set TERMINAL_MODEL_CALL_STATUSES" by (simp add: terminal_call_def)
    show ?thesis
    proof (cases "mc_status c \<in> {''executing'', ''reconciling'', ''reconciliation_required''}")
      case True
      note step = step [unfolded if_not_P [OF open_call] if_P [OF True]]
      from step have "s' = s \<or> s' = upd_model_call (mc_id c) (unresolved (now s)) s"
        by (cases "mc_status c = ''executing''") auto
      with that(1) that(2) [OF c False] show ?thesis by blast
    next
      case other: False
      note step = step [unfolded if_not_P [OF open_call] if_not_P [OF other]]
      show ?thesis
      proof (cases "model_ready_event s call")
        case None
        with step that(2) [OF c False] show ?thesis by simp
      next
        case (Some ev)
        show ?thesis
        proof (cases "mc_status c \<noteq> ''queued'' \<or> ob_dispatched_at ev \<noteq> None")
          case True
          with step Some that(2) [OF c False] show ?thesis by simp
        next
          case ready: False
          with step Some obtain rs s1 where
            "settle_model_call_reservations (mc_org c) (mc_id c) (now s) False [] (withdraw_model_call c ev s) = Inr (rs, s1)"
            "s' = trace_event v (mc_org c) (mc_run_id c) (mc_node_id c) ''model.call_timed_out'' ''timed_out''
               (JObj [(''model_call_id'', juuid (mc_id c)), (''provider_request_started'', JBool False),
                      (''raw_content_captured'', JBool False)]) s1"
            by (auto simp: ok_iff)
          with that(3) [OF c] ready show ?thesis by blast
        qed
      qed
    qed
  qed
qed

lemma expire_model_passes:
  assumes "expire_model_call v call s = Inr (k, s')"
  shows "passes s s'"
  using assms
proof (cases rule: expire_model_callE)
  case kept
  then show ?thesis by (simp add: passes_same)
next
  case (again c)
  then show ?thesis
    by (intro passes_upd [where f = "unresolved (now s)", OF again(1,2)]) (auto simp: call_rules)
next
  case (out c ev rs s1 data)
  then show ?thesis
    by (intro passes_upd [where f = "timed_out (now s)", OF out(1)])
      (use settle_model_frame [OF out(3)] in \<open>auto simp: withdraw_model_call_def Let_def call_rules upd_model_call_def\<close>)
qed

lemma record_model_settlement_calls [simp]:
  "model_calls (record_model_settlement v cl res ev k status terminal s) = model_calls s"
  "next_uuid s \<le> next_uuid (record_model_settlement v cl res ev k status terminal s)"
  by (auto simp: record_model_settlement_def Let_def settle_model_call_and_wake_def mark_processed_def split: option.split)

lemma model_settlement_row:
  assumes "model_settlement v nonce cl res t k = Inr (k', settled, status)"
  shows "mc_id k' = mc_id k" "mc_content_digest k' = mc_content_digest k" "mc_execute_attempts k' = mc_execute_attempts k"
    "attempts_ok k \<Longrightarrow> attempts_ok k'"
  using assms by (auto simp: model_settlement_def attempts_ok_def ok_iff split: model_outcome.splits if_splits)

lemma settle_model_passes:
  assumes "settle_model_call v nonce cl res s = Inr ((), s')"
  shows "passes s s'"
proof (cases "get_model_call s (cm_call_id cl)")
  case None
  with assms show ?thesis by (simp add: settle_model_call_def passes_same)
next
  case (Some k)
  show ?thesis
  proof (cases "mc_status k \<noteq> (if cm_mode cl = Execute then ''executing'' else ''reconciling'') \<or>
             mc_claim_hash k \<noteq> Some (claim_hash v (cm_token cl))")
    case True
    with assms Some show ?thesis by (simp add: settle_model_call_def passes_same)
  next
    case False
    with assms Some obtain k' settled status s1 where
      row: "model_settlement v nonce cl res (now s) k = Inr (k', settled, status)"
      and s1: "model_calls s1 = model_calls (upd_model_call (mc_id k) (\<lambda>_. k') s)" "next_uuid s1 = next_uuid s"
      and s': "s' = record_model_settlement v cl res (model_timeout_event s (cm_call_id cl)) k' status (settled \<noteq> None) s1"
      by (fastforce simp: settle_model_call_def ok_iff Let_def split: option.splits dest: settle_model_frame)
    have "\<not> terminal_call k" using False by (auto simp: terminal_call_def TERMINAL_MODEL_CALL_STATUSES_def split: if_splits)
    then show ?thesis
      by (rule passes_upd [OF Some, where f = "\<lambda>_. k'"])
        (use model_settlement_row [OF row] s1 record_model_settlement_calls(2) [of s1] in \<open>simp_all add: s'\<close>)
  qed
qed

lemma model_step_passes: "model_step v s s' \<Longrightarrow> passes s s'"
proof (induction rule: model_step.induct)
  case (refused s p nonce e r n decision state)
  show ?case
    by (auto simp: model_call_residue_def split: sum.split intro: passes_same passes_added [OF add_model_call_added])
qed (auto intro: passes_same passes_added create_model_call_added claim_model_passes claim_model_reconciliation_passes
      settle_model_passes expire_model_passes)

lemma calls_kept_trans: "calls_kept s t \<Longrightarrow> calls_kept t u \<Longrightarrow> calls_kept s u"
  unfolding calls_kept_def by (metis order_trans)

interpretation calls: step_order "model_step v" model_calls_ok calls_kept for v
  by unfold_locales (auto simp: passes_def calls_kept_same intro: calls_kept_trans dest: model_step_passes)

lemma reservations_of_model_call_cong:
  "reservations s' = reservations s \<Longrightarrow> model_call_links s' = model_call_links s \<Longrightarrow> tenant s' = tenant s \<Longrightarrow>
     reservations_of_model_call s' org mc = reservations_of_model_call s org mc"
  by (simp add: reservations_of_model_call_def seen_def rls_def)

lemma budgets_wf_cong:
  "budgets s' = budgets s \<Longrightarrow> reservations s' = reservations s \<Longrightarrow> next_uuid s' = next_uuid s \<Longrightarrow> budgets_wf s' = budgets_wf s"
  by (simp add: budgets_wf_def)

lemma record_model_settlement_reservations [simp]:
  "reservations (record_model_settlement v cl res ev k status terminal s) = reservations s"
  by (auto simp: record_model_settlement_def Let_def settle_model_call_and_wake_def mark_processed_def split: option.split)

lemma model_output_roundtrip:
  assumes "seals v nonce (JObj kvs)" and "decode_aes256_key v (encryption_key_b64 v) = Inr key"
  shows "decrypt_model_output v (k\<lparr>mc_output_digest := Some (digest_of v (JObj kvs)),
    mc_encrypted_output := Some (seal_json v nonce (JObj kvs) key (model_call_aad k ''output''))\<rparr>) = Inr (sort_keys (JObj kvs))"
  using open_state_sealed [OF assms, of "model_call_aad k ''output''" "''The encrypted model output is invalid or has been modified.''"]
  by (simp add: decrypt_model_output_def open_model_content_def open_state_def model_call_aad_def handler_eval)

text \<open>
  A settlement of a live claim, outcome by outcome: the row it leaves, and the reservations as they
  were or closed.
\<close>

lemma model_settlement_outcome:
  assumes "model_settlement v nonce cl res t k = Inr (k', settled, status)"
    and "decode_aes256_key v (encryption_key_b64 v) = Inr key"
    and "mx_outcome res = ModelCompleted \<Longrightarrow> \<exists>kvs. mx_output res = JObj kvs \<and> seals v nonce (JObj kvs)"
  shows "mc_status k' = (case mx_outcome res of ModelCompleted \<Rightarrow> ''completed'' | ModelFailed \<Rightarrow> ''failed''
      | ModelAmbiguous \<Rightarrow> if cm_mode cl = Reconcile \<and> max_reconciliation_attempts v \<le> mc_reconcile_attempts k
          then ''failed'' else ''reconciliation_required'')"
    and "settled = (if mc_status k' = ''reconciliation_required'' then None
      else Some (mx_outcome res \<noteq> ModelFailed, if mx_outcome res = ModelCompleted then model_usage res else []))"
    and "mx_outcome res = ModelCompleted \<Longrightarrow> decrypt_model_output v k' = Inr (sort_keys (mx_output res))"
proof -
  show "mc_status k' = (case mx_outcome res of ModelCompleted \<Rightarrow> ''completed'' | ModelFailed \<Rightarrow> ''failed''
      | ModelAmbiguous \<Rightarrow> if cm_mode cl = Reconcile \<and> max_reconciliation_attempts v \<le> mc_reconcile_attempts k
          then ''failed'' else ''reconciliation_required'')"
    "settled = (if mc_status k' = ''reconciliation_required'' then None
      else Some (mx_outcome res \<noteq> ModelFailed, if mx_outcome res = ModelCompleted then model_usage res else []))"
    using assms(1) by (auto simp: model_settlement_def ok_iff split: model_outcome.splits if_splits)
  show "decrypt_model_output v k' = Inr (sort_keys (mx_output res))" if c: "mx_outcome res = ModelCompleted"
  proof -
    obtain kvs where kvs: "mx_output res = JObj kvs" "seals v nonce (JObj kvs)" using assms(3) c by blast
    from assms(1,2) c kvs(1) show ?thesis
      using model_output_roundtrip [OF kvs(2) assms(2), of k]
      by (auto simp: model_settlement_def encrypt_model_output_def handler_eval decrypt_model_output_def open_model_content_def
          model_call_aad_def)
  qed
qed

lemma model_settlement_total:
  assumes "decode_aes256_key v (encryption_key_b64 v) = Inr key"
  obtains k' settled status where "model_settlement v nonce cl res t k = Inr (k', settled, status)"
proof -
  have "\<exists>x. model_settlement v nonce cl res t k = Inr x"
    using assms by (cases "mx_outcome res") (simp_all add: model_settlement_def encrypt_model_output_def handler_eval)
  then show ?thesis using that by fast
qed

subsection \<open>Properties\<close>

text \<open>
  C20. A model call is executed at most once: over any sequence of creations, refusals, claims,
  settlements, reconciliation claims and timeouts, in any order, no call is ever claimed for execution
  a second time, a call that timed out was never claimed, and a completed, failed or timed out call
  keeps its row for ever.
\<close>

theorem model_call_executed_once:
  assumes "(model_step v)\<^sup>*\<^sup>* s s'" and "model_calls_ok s"
  shows "(\<forall>k \<in> set (model_calls s'). mc_execute_attempts k \<le> 1 \<and> (mc_status k = ''timed_out'' \<longrightarrow> mc_execute_attempts k = 0)) \<and>
    (\<forall>k \<in> set (model_calls s). \<exists>k' \<in> set (model_calls s'). mc_id k' = mc_id k \<and> mc_content_digest k' = mc_content_digest k \<and>
       (mc_status k \<in> {''completed'', ''failed'', ''timed_out''} \<longrightarrow> k' = k))"
  using calls.steps_inv [OF assms] calls.steps_rel [OF assms]
  by (fastforce simp: model_calls_ok_def attempts_ok_def calls_kept_def terminal_call_def TERMINAL_MODEL_CALL_STATUSES_def)

lemma model_settlement_run:
  assumes "get_model_call s (cm_call_id cl) = Some k"
    and "mc_status k = (if cm_mode cl = Execute then ''executing'' else ''reconciling'')"
    and "mc_claim_hash k = Some (claim_hash v (cm_token cl))"
    and "model_settlement v nonce cl res (now s) k = Inr (k', settled, status)"
    and "settled = (if open_ended then None else Some (committed, usage))" and "budgets_wf s" and "\<forall>e \<in> set usage. 0 \<le> snd e"
  obtains s' where "settle_model_call v nonce cl res s = Inr ((), s')"
    "model_calls s' = model_calls (upd_model_call (mc_id k) (\<lambda>_. k') s)"
    "reservations s' = (if open_ended then reservations s
      else map (\<lambda>q. if q \<in> set (reservations_of_model_call s (mc_org k) (mc_id k)) \<and> rv_status q = ResActive
          then closing (now s) committed usage q else q) (reservations s))"
proof -
  let ?s = "upd_model_call (mc_id k) (\<lambda>_. k') s" and ?rs = "reservations_of_model_call s (mc_org k) (mc_id k)"
  let ?c = "close_all (now s) committed usage ?rs ?s"
  have wf: "budgets_wf ?s" using assms(6) by (simp add: budgets_wf_cong [of ?s s])
  from settle_model_call_eq [OF wf assms(7), of "mc_org k" "mc_id k" "now s" committed]
  have closed: "settle_model_call_reservations (mc_org k) (mc_id k) (now s) committed usage ?s = Inr (reservations_of_model_call ?c (mc_org k) (mc_id k), ?c)"
    by (simp add: reservations_of_model_call_cong [of ?s s])
  have d: "distinct (map rv_id (reservations ?s))" using wf by (simp add: budgets_wf_def)
  have rows: "reservations ?c =
      map (\<lambda>q. if q \<in> set ?rs \<and> rv_status q = ResActive then closing (now s) committed usage q else q) (reservations s)"
    using close_all_reservations [OF d reservations_of_model_call_props(1,2) [OF d, of "mc_org k" "mc_id k"]]
    by (simp add: reservations_of_model_call_cong [of ?s s])
  show thesis
  proof (cases open_ended)
    case True
    with assms(1-5) have "settle_model_call v nonce cl res s =
        Inr ((), record_model_settlement v cl res (model_timeout_event s (cm_call_id cl)) k' status False ?s)"
      by (simp add: settle_model_call_def handler_eval Let_def)
    then show ?thesis by (rule that) (simp_all add: True)
  next
    case False
    with assms(1-5) closed have "settle_model_call v nonce cl res s =
        Inr ((), record_model_settlement v cl res (model_timeout_event s (cm_call_id cl)) k' status True ?c)"
      by (simp add: settle_model_call_def handler_eval Let_def)
    then show ?thesis by (rule that) (use settle_model_frame [OF closed] in \<open>simp_all add: False rows\<close>)
  qed
qed


text \<open>
  C22. The gateway may call the provider only for the claim that holds the model call: the call is in the
  state of the mode, under a live lease of the presented token, for the presented digest; its route is
  active, supported and unchanged since the call was made; its node was allowed by policy; its
  delegation covers model calls; its workload is active; it has reservations and all are active. For an
  execution the decision, the delegation and every reservation are still valid.
\<close>

theorem model_authorization_sound:
  assumes "authorize_gateway_model_call v call content token mode s = Inr ma"
  shows "\<exists>k m d dlg r a w. get_model_call s call = Some k \<and>
    mc_status k = (if mode = ''execute'' then ''executing'' else ''reconciling'') \<and>
    (\<exists>l. mc_lease_expires_at k = Some l \<and> now s < l) \<and> mc_claim_hash k = Some (claim_hash v token) \<and>
    mc_content_digest k = content \<and>
    get_model_route s (mc_model_route_id k) = Some m \<and> mrt_status m = ''active'' \<and> mrt_provider m = MODEL_PROVIDER \<and>
    mrt_model m = MODEL_NAME \<and> mc_route_digest k = digest_of v (model_route_document m) \<and>
    get_node_policy s (mc_decision_id k) = Some d \<and> np_effect d = effect_value ALLOW \<and>
    get_delegation s (mc_delegation_id k) = Some dlg \<and> MODEL_ACTION_TYPE \<in> set (dlg_action_types dlg) \<and>
    get_run s (mc_run_id k) = Some r \<and> get_agent s (run_agent_id r) = Some a \<and>
    get_workload s (agt_workload_id a) = Some w \<and> wl_active w \<and>
    reservations_of_model_call s (mc_org k) (mc_id k) \<noteq> [] \<and>
    (\<forall>q \<in> set (reservations_of_model_call s (mc_org k) (mc_id k)). rv_status q = ResActive) \<and>
    (mode = ''execute'' \<longrightarrow> now s < np_expires_at d \<and> now s < dlg_valid_until dlg \<and>
       (\<forall>q \<in> set (reservations_of_model_call s (mc_org k) (mc_id k)). now s < rv_expires_at q)) \<and>
    ma_organization_id ma = mc_org k \<and> ma_workload_subject ma = wl_subject w \<and> ma_content_digest ma = content \<and>
    ma_request_digest ma = mc_request_digest k \<and> ma_model_route_id ma = mrt_id m"
proof -
  from assms obtain k m d dlg r w where
    1: "get_model_call s call = Some k" "mc_status k = (if mode = ''execute'' then ''executing'' else ''reconciling'')"
      "case mc_lease_expires_at k of None \<Rightarrow> False | Some l \<Rightarrow> now s < l" "mc_claim_hash k = Some (claim_hash v token)"
      "mc_content_digest k = content"
    and 2: "get_model_route s (mc_model_route_id k) = Some m" "mrt_status m = ''active''" "mrt_provider m = MODEL_PROVIDER"
      "mrt_model m = MODEL_NAME" "mc_route_digest k = digest_of v (model_route_document m)"
      "get_node_policy s (mc_decision_id k) = Some d" "np_effect d = effect_value ALLOW"
      "get_delegation s (mc_delegation_id k) = Some dlg" "MODEL_ACTION_TYPE \<in> set (dlg_action_types dlg)"
    and 3: "get_run s (mc_run_id k) = Some r"
      "Option.bind (get_agent s (run_agent_id r)) (\<lambda>a. get_workload s (agt_workload_id a)) = Some w" "wl_active w"
    and 4: "reservations_of_model_call s (mc_org k) (mc_id k) \<noteq> []"
      "list_all (\<lambda>q. rv_status q = ResActive) (reservations_of_model_call s (mc_org k) (mc_id k))"
      "\<not> (mode = ''execute'' \<and> (np_expires_at d \<le> now s \<or> dlg_valid_until dlg \<le> now s \<or>
         list_ex (\<lambda>q. rv_expires_at q \<le> now s) (reservations_of_model_call s (mc_org k) (mc_id k))))"
    and 5: "ma_organization_id ma = mc_org k" "ma_workload_subject ma = wl_subject w" "ma_content_digest ma = mc_content_digest k"
      "ma_request_digest ma = mc_request_digest k" "ma_model_route_id ma = mrt_id m"
    unfolding authorize_gateway_model_call_def Let_def ok_iff by auto
  from 3(2) obtain a where a: "get_agent s (run_agent_id r) = Some a" "get_workload s (agt_workload_id a) = Some w"
    by (auto split: bind_splits)
  have lease: "\<exists>l. mc_lease_expires_at k = Some l \<and> now s < l" using 1(3) by (auto split: option.splits)
  have "\<forall>q \<in> set (reservations_of_model_call s (mc_org k) (mc_id k)). rv_status q = ResActive"
    "mode = ''execute'' \<longrightarrow> now s < np_expires_at d \<and> now s < dlg_valid_until dlg \<and>
       (\<forall>q \<in> set (reservations_of_model_call s (mc_org k) (mc_id k)). now s < rv_expires_at q)"
    using 4(2,3) by (auto simp: list_all_iff list_ex_iff not_le)
  with 1 2 3 4(1) 5 a lease show ?thesis by blast
qed

text \<open>
  A model call whose budgets are refused is left behind: the delegation and the queued call are
  flushed before the budgets are reserved, so a caller that catches the refusal and commits keeps a
  queued call with no reservation and no event that would ever claim it or time it out.
\<close>

theorem refused_model_call_left_queued:
  assumes "add_model_call v p nonce e r n decision state s = Inr ((k, req), s1)"
    and "create_workflow_model_call v p nonce e r n decision state ev s = Inl err"
  shows "let s' = model_call_residue v p nonce e r n decision state s in
    model_calls s' = model_calls s @ [k] \<and> mc_status k = ''queued'' \<and> outbox s' = outbox s \<and> reservations s' = reservations s \<and>
    model_call_links s' = model_call_links s \<and>
    \<not> reservable s' (model_budget_context e r k) (model_estimates req (mc_max_output_tokens k))"
proof -
  have added: "call_added s k s1" by (rule add_model_call_added [OF assms(1)])
  have frame: "outbox s1 = outbox s" "reservations s1 = reservations s" "model_call_links s1 = model_call_links s"
    using assms(1) by (auto simp: add_model_call_def config_item_def ok_iff uuid4_def Let_def)
  have "\<not> reservable s1 (model_budget_context e r k) (model_estimates req (mc_max_output_tokens k))"
  proof
    assume "reservable s1 (model_budget_context e r k) (model_estimates req (mc_max_output_tokens k))"
    then obtain x where "reserve_budgets (model_budget_context e r k) (run_id r) (model_estimates req (mc_max_output_tokens k))
        (now s1) (max (seconds 1) (mc_expires_at k - now s1)) s1 = Inr x"
      by (simp add: reserve_budgets_cases)
    with assms show False by (cases x) (simp add: create_workflow_model_call_def handler_eval)
  qed
  with added frame show ?thesis by (simp add: model_call_residue_def assms(1) call_added_def)
qed

subsection \<open>A sample call\<close>

definition model_node :: wf_node where
  "model_node = gate_node\<lparr>node_model_route_id := Some 60, node_config :=
     [(''input_state_key'', JStr ''in''), (''max_output_tokens'', JInt 5), (''result_state_key'', JStr ''out'')]\<rparr>"

definition model_route :: model_route_row where
  "model_route = \<lparr>mrt_id = 60, mrt_org = 7, mrt_project_id = 10, mrt_name = ''route'', mrt_provider = ''demo'',
     mrt_model = ''demo-governed-model'', mrt_status = ''active''\<rparr>"

definition model_decision :: node_policy_row where
  "model_decision = \<lparr>np_id = 61, np_org = 7, np_execution_id = 1, np_run_id = 2, np_node_id = ''agent'', np_sequence = 0,
     np_evaluation = 1, np_bundle_id = 50, np_effect = ''allow'', np_reason_code = ''nodes'', np_input_digest = ''i'',
     np_policy_digest = ''p'', np_content_digest = ''c'', np_expires_at = 700, np_created_at = 100\<rparr>"

definition model_workload :: workload_row where
  "model_workload = \<lparr>wl_id = 14, wl_org = 7, wl_subject = ''workload'', wl_active = True\<rparr>"

definition called_delegation :: delegation_row where
  "called_delegation = model_delegation run_env (gate_execution\<lparr>ex_deadline_at := 500\<rparr>) gate_run model_node model_workload 62 100"

definition sample_call :: "string \<Rightarrow> model_call_row" where
  "sample_call status = (new_model_call run_env sample_values gate_execution model_node model_decision model_route called_delegation
     (JObj []) (JStr ''in'') (JStr ''out'') 5 41 100)\<lparr>mc_status := status, mc_claim_hash := Some (claim_hash run_env ''token''),
       mc_lease_expires_at := Some 200\<rparr>"

definition call_db :: "string \<Rightarrow> db" where
  "call_db status = sample_reserved\<lparr>model_calls := [sample_call status], model_routes := [model_route],
     node_policies := [model_decision], delegations := [called_delegation], runs := [gate_run], workloads := [model_workload],
     agents := [\<lparr>agt_id = 12, agt_org = 7, agt_system_id = 13, agt_workload_id = 14\<rparr>],
     outbox := [\<lparr>ob_id = 70, ob_org = 7, ob_topic = ''model.ready'', ob_aggregate_type = ''model_call'', ob_aggregate_id = 41,
       ob_dedup_key = ''k'', ob_payload = JObj [], ob_available_at = 0, ob_dispatched_at = None, ob_processed_at = None,
       ob_attempts = 0, ob_created_at = 0\<rparr>]\<rparr>"

lemma sample_call_fields [simp]:
  "mc_id (sample_call st) = 41" "mc_org (sample_call st) = 7" "mc_status (sample_call st) = st" "mc_execute_attempts (sample_call st) = 0"
  "mc_claim_hash (sample_call st) = Some (claim_hash run_env ''token'')" "mc_lease_expires_at (sample_call st) = Some 200"
  "mc_model_route_id (sample_call st) = 60" "mc_decision_id (sample_call st) = 61" "mc_delegation_id (sample_call st) = 62"
  "mc_run_id (sample_call st) = 2" "mc_route_digest (sample_call st) = digest_of run_env (model_route_document model_route)"
  by (simp_all add: sample_call_def new_model_call_def Let_def model_route_def called_delegation_def model_delegation_def
      model_decision_def gate_execution_def sample_execution_def)

lemma sample_reserved_fields [simp]:
  "tenant sample_reserved = None" "next_uuid sample_reserved = 1002" "now sample_reserved = 100"
  by (simp_all add: sample_reserved_def ledger_eval link_model_call_reservations_def link_action_reservations_def)

lemma call_db_rows [simp]:
  "model_calls (call_db st) = [sample_call st]" "tenant (call_db st) = None" "next_uuid (call_db st) = 1002" "now (call_db st) = 100"
  "model_routes (call_db st) = [model_route]" "node_policies (call_db st) = [model_decision]"
  "delegations (call_db st) = [called_delegation]" "runs (call_db st) = [gate_run]" "workloads (call_db st) = [model_workload]"
  "agents (call_db st) = [\<lparr>agt_id = 12, agt_org = 7, agt_system_id = 13, agt_workload_id = 14\<rparr>]"
  by (simp_all add: call_db_def)

lemma call_db_seen [simp]: "seen (call_db st) f rows = rows"
  by (simp add: seen_def rls_def)

lemma sample_rows [simp]:
  "mrt_id model_route = 60" "np_id model_decision = 61" "dlg_id called_delegation = 62" "run_id gate_run = 2" "wl_id model_workload = 14"
  "run_agent_id gate_run = 12" "dlg_action_types called_delegation = [MODEL_ACTION_TYPE]" "dlg_valid_until called_delegation = 500"
  "np_effect model_decision = ''allow''" "np_expires_at model_decision = 700" "mrt_status model_route = ''active''"
  "mrt_provider model_route = MODEL_PROVIDER" "mrt_model model_route = MODEL_NAME" "wl_active model_workload"
  by (simp_all add: model_route_def model_decision_def called_delegation_def model_delegation_def gate_run_def model_workload_def
      gate_execution_def minutes_def seconds_def MODEL_PROVIDER_def MODEL_NAME_def)

theorem model_call_executed_once_witness:
  "let s = call_db ''queued''; s' = snd (claim_model_ready run_env ''token'' s)
   in (\<forall>k \<in> set (model_calls s'). mc_execute_attempts k \<le> 1 \<and> (mc_status k = ''timed_out'' \<longrightarrow> mc_execute_attempts k = 0)) \<and>
      mc_execute_attempts (hd (model_calls s')) = 1 \<and>
      (\<exists>k' \<in> set (model_calls s'). mc_id k' = 41)"
proof -
  let ?s = "call_db ''queued''" and ?t = "snd (claim_model_ready run_env ''token'' (call_db ''queued''))"
  have steps: "(model_step run_env)\<^sup>*\<^sup>* ?s ?t" by (rule r_into_rtranclp) (rule model_step.claim)
  have ok: "model_calls_ok ?s" by (simp add: model_calls_ok_def attempts_ok_def)
  have "mc_execute_attempts (hd (model_calls ?t)) = 1"
    by (simp add: claim_model_ready_def Let_def call_db_def seen_def rls_def tget_def upd_model_call_def tupd_def start_call_def)
  with model_call_executed_once [OF steps ok] show ?thesis unfolding Let_def by auto
qed

lemma call_db_budgets: "budgets_wf (call_db st)"
  using sample_reserved_ok budgets_wf_cong [of "call_db st" sample_reserved] by (simp add: budgets_ok_def call_db_def)


lemma call_db_reservations:
  "reservations_of_model_call (call_db st) 7 41 \<noteq> []"
  "list_all (\<lambda>q. rv_status q = ResActive \<and> rv_expires_at q = 105) (reservations_of_model_call (call_db st) 7 41)"
  by (simp_all add: reservations_of_model_call_def call_db_def sample_reserved_def ledger_eval link_model_call_reservations_def
      link_action_reservations_def)

theorem model_authorization_sound_witness:
  "\<exists>ma k. authorize_gateway_model_call run_env 41 (mc_content_digest (sample_call ''executing'')) ''token'' ''execute'' (call_db ''executing'') = Inr ma \<and>
    get_model_call (call_db ''executing'') 41 = Some k \<and> mc_status k = ''executing'' \<and>
    ma_request_digest ma = mc_request_digest k"
proof -
  obtain ma where ma: "authorize_gateway_model_call run_env 41 (mc_content_digest (sample_call ''executing'')) ''token'' ''execute''
      (call_db ''executing'') = Inr ma"
    using call_db_reservations [of "''executing''"]
    by (auto simp: authorize_gateway_model_call_def Let_def handler_eval tget_def list_all_iff list_ex_iff)
  from model_authorization_sound [OF ma] ma show ?thesis by auto
qed

definition unfunded_db :: db where
  "unfunded_db = (call_db ''queued'')\<lparr>model_calls := [], budgets := [], outbox := []\<rparr>"

lemma unfunded_rows [simp]:
  "model_calls unfunded_db = []" "tenant unfunded_db = None" "budgets unfunded_db = []" "now unfunded_db = 100" "outbox unfunded_db = []"
  "model_routes unfunded_db = [model_route]" "workloads unfunded_db = [model_workload]"
  "agents unfunded_db = [\<lparr>agt_id = 12, agt_org = 7, agt_system_id = 13, agt_workload_id = 14\<rparr>]"
  by (simp_all add: unfunded_db_def)

lemma model_node_config [simp]:
  "cfg model_node ''input_state_key'' = Some (JStr ''in'')" "cfg model_node ''max_output_tokens'' = Some (JInt 5)"
  "cfg model_node ''result_state_key'' = Some (JStr ''out'')" "node_model_route_id model_node = Some 60"
  by (simp_all add: model_node_def cfg_def)

lemma model_request_sample:
  "model_request sample_values gate_execution gate_run model_node (Some model_decision) (JObj [(''in'', JObj [])]) unfunded_db =
     Inr (model_decision, model_route, [], 5, model_workload)"
proof -
  have "mrt_project_id model_route = run_project_id gate_run" by (simp add: model_route_def gate_run_def)
  moreover have "ex_mode gate_execution = ''live''" by (simp add: gate_execution_def sample_execution_def)
  ultimately show ?thesis
    by (simp add: model_request_def handler_eval seen_def rls_def tget_def config_item_def state_object_def jlookup_def py_str_def py_int_def)
qed

lemma add_model_call_budgets:
  "add_model_call v p nonce e r n decision state s = Inr ((k, req), s1) \<Longrightarrow> budgets s1 = budgets s"
  by (auto simp: add_model_call_def config_item_def ok_iff uuid4_def Let_def)

theorem refused_model_call_left_queued_witness:
  "\<exists>k req s1 err. add_model_call run_env sample_values ''abcdefghijkl'' gate_execution gate_run model_node (Some model_decision)
      (JObj [(''in'', JObj [])]) unfunded_db = Inr ((k, req), s1) \<and>
    create_workflow_model_call run_env sample_values ''abcdefghijkl'' gate_execution gate_run model_node (Some model_decision)
      (JObj [(''in'', JObj [])]) (hd (outbox (call_db ''queued''))) unfunded_db = Inl err \<and>
    (let s' = model_call_residue run_env sample_values ''abcdefghijkl'' gate_execution gate_run model_node (Some model_decision)
        (JObj [(''in'', JObj [])]) unfunded_db
     in model_calls s' = [k] \<and> mc_status k = ''queued'' \<and> outbox s' = [])"
proof -
  let ?state = "JObj [(''in'', JObj [])]" and ?ev = "hd (outbox (call_db ''queued''))"
  obtain k req s1 where added: "add_model_call run_env sample_values ''abcdefghijkl'' gate_execution gate_run model_node (Some model_decision)
      ?state unfunded_db = Inr ((k, req), s1)"
    by (simp add: add_model_call_def model_request_sample handler_eval config_item_def uuid4_def Let_def run_env_key)
  have "\<not> reservable s1 c (model_estimates req m)" for c m
    using add_model_call_budgets [OF added] by (auto simp: reservable_def applicable_budgets_def seen_def model_estimates_def)
  then obtain err where err: "create_workflow_model_call run_env sample_values ''abcdefghijkl'' gate_execution gate_run model_node
      (Some model_decision) ?state ?ev unfunded_db = Inl err"
    by (cases "create_workflow_model_call run_env sample_values ''abcdefghijkl'' gate_execution gate_run model_node
      (Some model_decision) ?state ?ev unfunded_db") (auto simp: create_workflow_model_call_def ok_iff added reserve_budgets_cases)
  from refused_model_call_left_queued [OF added err] added err show ?thesis unfolding Let_def by auto
qed

end
