(* ===== verification/RS_Replays.thy ===== *)
theory RS_Replays
  imports RS_Executions
begin

section \<open>Replays\<close>

text \<open>
  Models \<open>services/workflow_replays.py\<close>: a completed execution is run again from one of its
  checkpoints, and the end of the replay compares its state and path with the source's by digest.
\<close>

definition workflow_replay_summary :: "replay_row \<Rightarrow> json" where
  "workflow_replay_summary q = JObj
     [(''id'', juuid (rp_id q)), (''source_workflow_execution_id'', juuid (rp_source_execution_id q)),
      (''source_run_id'', juuid (rp_source_run_id q)), (''source_checkpoint_id'', juuid (rp_source_checkpoint_id q)),
      (''replay_workflow_execution_id'', juuid (rp_execution_id q)), (''replay_run_id'', juuid (rp_run_id q)),
      (''status'', JStr (rp_status q)), (''source_state_digest'', JStr (rp_source_state_digest q)),
      (''source_path_digest'', JStr (rp_source_path_digest q)), (''replay_state_digest'', jopt JStr (rp_state_digest q)),
      (''replay_path_digest'', jopt JStr (rp_path_digest q)), (''content_digest'', JStr (rp_content_digest q)),
      (''completed_at'', jopt jtime (rp_completed_at q)), (''created_at'', jtime (rp_created_at q))]"

definition path_digest :: "env \<Rightarrow> execution_row \<Rightarrow> digest" where
  "path_digest v e = digest_of v (jtexts (ex_path e))"

definition replay_request :: "checkpoint_row \<Rightarrow> json \<Rightarrow> string \<Rightarrow> profile_row option \<Rightarrow> execution_request" where
  "replay_request cp state key q = (fork_request cp state key q)\<lparr>xr_purpose := ''replay''\<rparr>"

definition replay_content_digest ::
  "env \<Rightarrow> execution_row \<Rightarrow> checkpoint_row \<Rightarrow> execution_row \<Rightarrow> uuid \<Rightarrow> profile_row option \<Rightarrow> digest" where
  "replay_content_digest v source cp x run profile = digest_of v (JObj
     [(''organization_id'', juuid (ex_org source)), (''source_workflow_execution_id'', juuid (ex_id source)),
      (''source_run_id'', juuid (ex_run_id source)), (''source_checkpoint_id'', juuid (cp_id cp)),
      (''replay_workflow_execution_id'', juuid (ex_id x)), (''replay_run_id'', juuid run),
      (''source_state_digest'', JStr (ex_state_digest source)), (''source_path_digest'', JStr (path_digest v source)),
      (''simulation_profile_id'', jopt (juuid \<circ> sp_id) profile)])"

definition record_replay ::
  "env \<Rightarrow> actor_context \<Rightarrow> execution_row \<Rightarrow> checkpoint_row \<Rightarrow> execution_row \<Rightarrow> uuid \<Rightarrow> digest \<Rightarrow> db \<Rightarrow> db" where
  "record_replay v c source cp x run content s =
     (let (i, s) = uuid4 s;
          q = \<lparr>rp_id = i, rp_org = ex_org source, rp_source_execution_id = ex_id source, rp_source_run_id = ex_run_id source,
               rp_source_checkpoint_id = cp_id cp, rp_execution_id = ex_id x, rp_run_id = run, rp_status = ''running'',
               rp_source_state_digest = ex_state_digest source, rp_source_path_digest = path_digest v source,
               rp_state_digest = None, rp_path_digest = None, rp_content_digest = content, rp_completed_at = None,
               rp_created_at = now s\<rparr>;
          s = s\<lparr>replays := replays s @ [q]\<rparr>;
          s = trace_event v (ex_org source) run ''replay'' ''workflow.replay_started'' ''running''
                (JObj [(''workflow_replay_id'', juuid i), (''source_run_id'', juuid (ex_run_id source)),
                       (''source_checkpoint_id'', juuid (cp_id cp)), (''content_digest'', JStr content),
                       (''raw_content_captured'', JBool False)]) s
      in audit v (ex_org source) (actor_id c) ''workflow.replay_started'' ''workflow_replay'' i content
           (JObj [(''source_run_id'', juuid (ex_run_id source)), (''replay_run_id'', juuid run),
                  (''source_checkpoint_id'', juuid (cp_id cp)), (''raw_content_captured'', JBool False)]) s)"

text \<open>The replay of a run: the one that is recorded, which must have the same content, or a new one.\<close>

definition ensure_replay ::
  "env \<Rightarrow> actor_context \<Rightarrow> execution_row \<Rightarrow> checkpoint_row \<Rightarrow> profile_row option \<Rightarrow> uuid \<Rightarrow> db \<Rightarrow> rs_error + uuid \<times> db" where
  "ensure_replay v c source cp profile run s =
     fetch (find (\<lambda>e. ex_run_id e = run) (seen s ex_org (executions s)))
       (PyRuntimeError ''replay workflow execution was not persisted'') (\<lambda>x.
     let content = replay_content_digest v source cp x run profile
     in case find (\<lambda>q. rp_run_id q = run) (seen s rp_org (replays s)) of
          Some q \<Rightarrow>
            require (rp_content_digest q = content)
              (rs_err VALIDATION_FAILED ''The idempotency key belongs to different replay content.'' 409) (Inr (run, s))
        | None \<Rightarrow> Inr (run, record_replay v c source cp x run content s))"

definition create_workflow_replay ::
  "env \<Rightarrow> py_values \<Rightarrow> actor_context \<Rightarrow> string \<times> string \<Rightarrow> uuid \<Rightarrow> uuid \<Rightarrow> string \<Rightarrow> uuid option \<Rightarrow> db \<Rightarrow>
     rs_error + uuid \<times> db" where
  "create_workflow_replay v p c nonces source_run checkpoint key profile_id s =
     (let unavailable = rs_err INVALID_TRANSITION ''The source deployment is unavailable for replay.'' 409
      in fetch (find (\<lambda>e. ex_run_id e = source_run) (seen s ex_org (executions s)))
           (rs_err NOT_FOUND ''Workflow run not found.'' 404) (\<lambda>source.
         require (ex_status source = ExCompleted)
           (rs_err INVALID_TRANSITION ''Only a completed workflow execution can be replayed.'' 409) (
         fetch (find (\<lambda>cp. cp_id cp = checkpoint \<and> cp_execution_id cp = ex_id source \<and> cp_run_id cp = ex_run_id source)
                  (seen s cp_org (checkpoints s)))
           (rs_err NOT_FOUND ''Workflow checkpoint not found for the source run.'' 404) (\<lambda>cp.
         require (cp_active_nodes cp \<noteq> [])
           (rs_err INVALID_TRANSITION ''A terminal checkpoint has no remaining execution to replay.'' 409) (
         fetch (get_deployment s (ex_deployment_id source)) unavailable (\<lambda>dep.
         require (wd_status dep = ''active'' \<or> wd_status dep = ''superseded'') unavailable (
         rbind (require_simulation_profile v p dep profile_id s) (\<lambda>profile.
         rbind (decrypt_checkpoint_state v cp) (\<lambda>state.
         rbind (create_execution_records v p c nonces dep (replay_request cp state key profile) s) (\<lambda>(run, s).
         ensure_replay v c source cp profile run s))))))))))"

subsection \<open>Settlement\<close>

definition compared :: "env \<Rightarrow> execution_row \<Rightarrow> timestamp \<Rightarrow> replay_row \<Rightarrow> replay_row" where
  "compared v e t q =
     (case ex_status e of
        ExCompleted \<Rightarrow> q\<lparr>rp_state_digest := Some (ex_state_digest e), rp_path_digest := Some (path_digest v e),
          rp_status := (if rp_source_state_digest q = ex_state_digest e \<and> rp_source_path_digest q = path_digest v e
            then ''matched'' else ''diverged''), rp_completed_at := Some t\<rparr>
      | ExCancelled \<Rightarrow> q\<lparr>rp_status := ''cancelled'', rp_completed_at := Some t\<rparr>
      | _ \<Rightarrow> q\<lparr>rp_status := ''failed'', rp_completed_at := Some t\<rparr>)"

definition settle_workflow_replay :: "env \<Rightarrow> execution_row \<Rightarrow> db \<Rightarrow> db" where
  "settle_workflow_replay v e s =
     (case find (\<lambda>q. rp_execution_id q = ex_id e) (seen s rp_org (replays s)) of
        None \<Rightarrow> s
      | Some q \<Rightarrow>
          if rp_status q \<noteq> ''running'' then s
          else
            let s' = upd_replay (rp_id q) (compared v e (now s)) s;
                q = compared v e (now s) q
            in trace_event v (ex_org e) (ex_run_id e) ''replay'' ''workflow.replay_settled'' (rp_status q)
                 (JObj [(''workflow_replay_id'', juuid (rp_id q)), (''source_run_id'', juuid (rp_source_run_id q)),
                        (''status'', JStr (rp_status q)), (''replay_state_digest'', jopt JStr (rp_state_digest q)),
                        (''replay_path_digest'', jopt JStr (rp_path_digest q)), (''raw_content_captured'', JBool False)]) s')"

subsection \<open>A match is a match\<close>

lemma sort_keys_texts: "sort_keys (jtexts ts) = jtexts ts" "wf_json (jtexts ts)"
  by (simp_all add: jtexts_def comp_def list_all_iff)

lemma path_digest_inject:
  assumes "\<forall>a b. sha256_hex v a = sha256_hex v b \<longrightarrow> a = b" and "path_digest v e = path_digest v f"
  shows "ex_path e = ex_path f"
proof -
  from assms have "json_bytes (jtexts (ex_path e)) = json_bytes (jtexts (ex_path f))"
    by (simp add: path_digest_def digest_of_def json_digest_def)
  then have "jtexts (ex_path e) = jtexts (ex_path f)"
    using json_bytes_inject [OF sort_keys_texts(2) sort_keys_texts(2)] by (simp add: sort_keys_texts)
  then have "map JStr (ex_path e) = map JStr (ex_path f)" by (simp add: jtexts_def)
  then show ?thesis by (rule map_injective) (simp add: inj_def)
qed

lemma compared_matched:
  assumes "\<forall>a b. sha256_hex v a = sha256_hex v b \<longrightarrow> a = b" and "rp_status q = ''running''"
    and "rp_source_state_digest q = ex_state_digest source" and "rp_source_path_digest q = path_digest v source"
  shows "rp_id (compared v e t q) = rp_id q"
    and "rp_status (compared v e t q) = ''matched'' \<longleftrightarrow>
      ex_status e = ExCompleted \<and> ex_state_digest e = ex_state_digest source \<and> ex_path e = ex_path source"
  using assms(3,4) path_digest_inject [OF assms(1), of source e]
  by (auto simp: compared_def path_digest_def split: execution_status.split)

lemma settle_replay_row:
  assumes "find (\<lambda>q. rp_execution_id q = ex_id e) (seen s rp_org (replays s)) = Some q" and "rp_status q = ''running''"
  shows "compared v e (now s) q \<in> set (replays (settle_workflow_replay v e s))"
proof -
  have "q \<in> set (replays s)" using assms(1) by (auto simp: find_Some_iff seen_def dest: nth_mem)
  from tupd_memI [OF this, of rp_id "rp_id q" "compared v e (now s)"] show ?thesis
    by (simp add: settle_workflow_replay_def assms Let_def upd_replay_def)
qed

lemma replay_request_simps [simp]:
  "xr_state (replay_request cp state key q) = state" "xr_idempotency_key (replay_request cp state key q) = key"
  "xr_initial_nodes (replay_request cp state key q) = Some (cp_active_nodes cp)"
  "xr_completed_nodes (replay_request cp state key q) = cp_completed_nodes cp" "xr_path (replay_request cp state key q) = cp_path cp"
  "xr_loop_counts (replay_request cp state key q) = cp_loop_counts cp"
  "xr_mode (replay_request cp state key q) = (case q of None \<Rightarrow> ''live'' | Some _ \<Rightarrow> ''simulation'')"
  "xr_profile_id (replay_request cp state key q) = map_option sp_id q"
  by (simp_all add: replay_request_def)

lemma create_replays:
  assumes "create_execution_records v p c nonces dep x s = Inr (run, s')"
  shows "replays s' = replays s"
  using assms
  by (auto simp: create_execution_records_def ok_iff Let_def uuid4_def create_checkpoint_def announce_execution_def split: option.splits)

lemma record_replay_rows:
  obtains q where "replays (record_replay v c source cp x run content s) = replays s @ [q]" "rp_status q = ''running''"
    "rp_execution_id q = ex_id x" "rp_run_id q = run" "rp_source_state_digest q = ex_state_digest source"
    "rp_source_path_digest q = path_digest v source" "executions (record_replay v c source cp x run content s) = executions s"
  by (simp add: record_replay_def uuid4_def Let_def)


subsection \<open>A sample replay\<close>

definition replay_db :: db where
  "replay_db = fork_db\<lparr>executions := [(sample_execution ''a'' 10)\<lparr>ex_deployment_id := 41, ex_status := ExCompleted\<rparr>]\<rparr>"

lemma replay_db_rows:
  "tenant replay_db = tenant run_db" "runs replay_db = []" "versions replay_db = versions run_db" "workflows replay_db = workflows run_db"
  "deployments replay_db = deployments run_db" "checkpoints replay_db = [forked_checkpoint]" "replays replay_db = []"
  "executions replay_db = [(sample_execution ''a'' 10)\<lparr>ex_deployment_id := 41, ex_status := ExCompleted\<rparr>]" "next_uuid replay_db = 1"
  by (simp_all add: replay_db_def fork_db_rows) (simp_all add: fork_db_def run_db_def registry_db_def empty_db_def)

lemma create_run_id:
  assumes "create_execution_records v p c nonces dep x s = Inr (run, s')" and "fresh_key s (xr_idempotency_key x)"
  shows "run = next_uuid s"
  using assms fresh_key_find [OF assms(2)]
  by (auto simp: create_execution_records_def ok_iff Let_def uuid4_def split: option.splits)

lemma sample_replay:
  obtains s' where "create_workflow_replay run_env sample_values registry_actor run_nonces 2 60 ''replay-key'' None replay_db = Inr (1, s')"
proof -
  let ?q = "replay_request forked_checkpoint (JObj []) ''replay-key'' None"
  obtain run s' where create: "create_execution_records run_env sample_values registry_actor run_nonces
    (sample_deployment 41 30 ''active'') ?q replay_db = Inr (run, s')"
    by (rule sample_creates [where s = replay_db]) (simp_all only: replay_db_rows)
  have fresh: "fresh_key replay_db (xr_idempotency_key ?q)" by (rule fresh_sample [OF replay_db_rows(2)])
  have run: "run = 1" using create_run_id [OF create fresh] by (simp add: replay_db_rows)
  note see = seen_cong [OF replay_db_rows(1)]
  let ?e = "(sample_execution ''a'' 10)\<lparr>ex_deployment_id := 41, ex_status := ExCompleted\<rparr>"
  have rows: "get_deployment replay_db 41 = Some (sample_deployment 41 30 ''active'')" "get_version replay_db 30 = Some (sample_version 30)"
    "find (\<lambda>cp. cp_id cp = 60 \<and> cp_execution_id cp = 1 \<and> cp_run_id cp = 2) (seen replay_db cp_org (checkpoints replay_db)) =
       Some forked_checkpoint"
    "find (\<lambda>e. ex_run_id e = 2) (seen replay_db ex_org (executions replay_db)) = Some ?e"
    using run_db_rows(1,2)
    by (simp_all add: see replay_db_rows, simp_all add: seen_def rls_def run_db_rows forked_checkpoint_def tget_def sample_execution_def)
  have "deployment_contains_effectful_tools sample_values replay_db (sample_deployment 41 30 ''active'') = Inr False"
    by (simp add: deployment_contains_effectful_tools_def rows sample_deployment_def sample_loads handler_eval, simp add: sample_definition_def sample_node_def has_type_def handler_eval)
  then have profile: "require_simulation_profile run_env sample_values (sample_deployment 41 30 ''active'') None replay_db = Inr None"
    by (simp add: require_simulation_profile_def handler_eval)
  have "decrypt_checkpoint_state run_env forked_checkpoint = Inr (sort_keys (JObj []))"
    unfolding decrypt_checkpoint_state_def forked_checkpoint_def
    by (simp only: checkpoint_row.select_convs) (rule open_state_sealed [OF run_env_seals run_env_key], simp)
  then have state: "decrypt_checkpoint_state run_env forked_checkpoint = Inr (JObj [])" by simp
  have start: "ex_status ?e = ExCompleted" "ex_deployment_id ?e = 41" "ex_id ?e = 1" "ex_run_id ?e = 2"
    "cp_active_nodes forked_checkpoint \<noteq> []" "wd_status (sample_deployment 41 30 ''active'') = ''active''"
    by (simp_all add: sample_execution_def forked_checkpoint_def sample_deployment_def)
  from create obtain ver :: version_row and flow :: workflow_row and d i k where
    exs: "executions s' = executions replay_db @ [(new_execution run_env registry_actor i run (sample_deployment 41 30 ''active'') ver d ?q
        (now replay_db))\<lparr>ex_encrypted_state := seal_json run_env (fst run_nonces) (xr_state ?q) k (execution_aad (actor_org registry_actor) i
         (execution_content_digest run_env registry_actor run i (sample_deployment 41 30 ''active'') ver ?q))\<rparr>]"
      (is "_ = _ @ [?y]")
    and same: "tenant s' = tenant replay_db"
    by (rule create_fresh) (use fresh in simp_all)
  have "?y \<in> set (seen s' ex_org (executions s'))" "ex_run_id ?y = run"
    by (simp_all add: exs seen_def rls_def same replay_db_rows run_db_rows registry_actor_def)
  then have "find (\<lambda>e. ex_run_id e = run) (seen s' ex_org (executions s')) \<noteq> None" unfolding find_None_iff by blast
  moreover have "find (\<lambda>q. rp_run_id q = run) (seen s' rp_org (replays s')) = None"
    by (simp add: create_replays [OF create] replay_db_rows seen_def)
  ultimately obtain s'' where "ensure_replay run_env registry_actor ?e forked_checkpoint None run s' = Inr (1, s'')"
    by (auto simp: ensure_replay_def handler_eval run)
  then show thesis using that start rows create profile state
    by (simp add: create_workflow_replay_def handler_eval)
qed


end
