(* ===== verification/RS_Evaluations.thy ===== *)
theory RS_Evaluations
  imports RS_Executions
begin

section \<open>Evaluations\<close>

text \<open>
  Models \<open>services/evaluations.py\<close>: datasets of sealed scenarios, the start of an evaluation as one
  execution per scenario, the five graders that settle a scenario, the score, the regression check and the
  release gate of the evaluation, and annotations.
\<close>

definition scenario_aad :: "uuid \<Rightarrow> uuid \<Rightarrow> digest \<Rightarrow> json" where
  "scenario_aad org scenario content = JObj
     [(''organization_id'', juuid org), (''evaluation_scenario_id'', juuid scenario), (''content_digest'', JStr content)]"

definition is_object :: "json \<Rightarrow> bool" where
  "is_object j = (case j of JObj _ \<Rightarrow> True | _ \<Rightarrow> False)"

definition decrypt_scenario :: "env \<Rightarrow> scenario_row \<Rightarrow> rs_error + json \<times> json \<times> json" where
  "decrypt_scenario v sc =
     rbind (decode_aes256_key v (encryption_key_b64 v)) (\<lambda>key.
     rbind (open_json v (es_encrypted_payload sc) key (scenario_aad (es_org sc) (es_id sc) (es_content_digest sc))) (\<lambda>payload.
     require (is_object payload) (rs_err INVALID_TRANSITION ''The evaluation scenario payload is invalid.'' 409) (
     let item = (\<lambda>k fallback. case jlookup k payload of None \<Rightarrow> fallback | Some j \<Rightarrow> j);
         input = item ''input'' JNull; expected = item ''expected_output'' JNull; assertions = item ''assertions'' (JObj [])
     in require (is_object input \<and> is_object expected \<and> is_object assertions \<and>
                 digest_of v input = es_input_digest sc \<and> digest_of v expected = es_expected_output_digest sc)
          (rs_err INVALID_TRANSITION ''The evaluation scenario payload does not match its immutable digests.'' 409)
          (Inr (input, expected, assertions)))))"

subsection \<open>Datasets\<close>

text \<open>\<open>EvaluationScenarioInput\<close> with its assertions; \<open>input\<close> and \<open>expected_output\<close> are objects.\<close>

record scenario_input =
  si_key :: string
  si_name :: string
  si_input :: "(string \<times> json) list"
  si_expected_output :: "(string \<times> json) list"
  si_expected_path :: "string list"
  si_metadata :: json
  si_required_policy_nodes :: "string list"
  si_forbidden_nodes :: "string list"
  si_maximum_steps :: "int option"

definition assertions_json :: "scenario_input \<Rightarrow> json" where
  "assertions_json x = JObj
     [(''required_policy_nodes'', jtexts (si_required_policy_nodes x)), (''forbidden_nodes'', jtexts (si_forbidden_nodes x)),
      (''maximum_steps'', jopt JInt (si_maximum_steps x))]"

definition scenario_document :: "env \<Rightarrow> scenario_input \<Rightarrow> (string \<times> json) list" where
  "scenario_document v x =
     [(''key'', JStr (si_key x)), (''name'', JStr (si_name x)), (''input_digest'', JStr (digest_of v (JObj (si_input x)))),
      (''expected_output_digest'', JStr (digest_of v (JObj (si_expected_output x)))),
      (''expected_path'', jtexts (si_expected_path x)), (''metadata'', si_metadata x), (''assertions'', assertions_json x)]"

definition scenario_payload :: "scenario_input \<Rightarrow> json" where
  "scenario_payload x = JObj
     [(''input'', JObj (si_input x)), (''expected_output'', JObj (si_expected_output x)), (''assertions'', assertions_json x)]"

fun check_assertions :: "scenario_input list \<Rightarrow> rs_error + unit" where
  "check_assertions [] = Inr ()"
| "check_assertions (x # xs) =
     require (distinct (si_required_policy_nodes x) \<and> distinct (si_forbidden_nodes x))
       (rs_err VALIDATION_FAILED ''Evaluation assertion node identifiers must be unique.'' 422) (
     require (set (si_required_policy_nodes x) \<inter> set (si_forbidden_nodes x) = {})
       (rs_err VALIDATION_FAILED ''A node cannot be both policy-required and forbidden.'' 422) (
     check_assertions xs))"

definition new_scenario :: "env \<Rightarrow> string \<Rightarrow> string \<Rightarrow> uuid \<Rightarrow> uuid \<Rightarrow> uuid \<Rightarrow> scenario_input \<Rightarrow> scenario_row" where
  "new_scenario v key nonce org version i x =
     (let content = digest_of v (JObj ((''dataset_version_id'', juuid version) # scenario_document v x))
      in \<lparr>es_id = i, es_org = org, es_dataset_version_id = version, es_key = si_key x, es_name = si_name x,
          es_encrypted_payload = seal_json v nonce (scenario_payload x) key (scenario_aad org i content),
          es_input_digest = digest_of v (JObj (si_input x)), es_expected_output_digest = digest_of v (JObj (si_expected_output x)),
          es_expected_path = si_expected_path x, es_metadata = si_metadata x, es_content_digest = content\<rparr>)"

fun add_scenarios :: "env \<Rightarrow> string \<Rightarrow> (string \<Rightarrow> string) \<Rightarrow> uuid \<Rightarrow> uuid \<Rightarrow> scenario_input list \<Rightarrow> db \<Rightarrow> db" where
  "add_scenarios v key nonces org version [] s = s"
| "add_scenarios v key nonces org version (x # xs) s =
     (let (i, s) = uuid4 s
      in add_scenarios v key nonces org version xs
           (s\<lparr>scenarios := scenarios s @ [new_scenario v key (nonces (si_key x)) org version i x]\<rparr>))"

definition create_evaluation_dataset ::
  "env \<Rightarrow> actor_context \<Rightarrow> (string \<Rightarrow> string) \<Rightarrow> uuid \<Rightarrow> string \<Rightarrow> string \<Rightarrow> string \<Rightarrow> scenario_input list \<Rightarrow> db \<Rightarrow>
     rs_error + dataset_row \<times> db" where
  "create_evaluation_dataset v c nonces project slug name description xs s =
     fetch (get_project s project) (rs_err NOT_FOUND ''Project not found.'' 404) (\<lambda>pr.
     require (find (\<lambda>d. ds_project_id d = prj_id pr \<and> ds_slug d = slug) (seen s ds_org (datasets s)) = None)
       (rs_err VALIDATION_FAILED ''An evaluation dataset with this slug already exists in the project.'' 409) (
     require (distinct (map si_key xs)) (rs_err VALIDATION_FAILED ''Evaluation scenario keys must be unique.'' 422) (
     rbind (check_assertions xs) (\<lambda>_.
     let (i, s) = uuid4 s;
         d = \<lparr>ds_id = i, ds_org = actor_org c, ds_project_id = prj_id pr, ds_slug = slug, ds_name = name,
              ds_description = description, ds_created_at = now s\<rparr>;
         s = flush (s\<lparr>datasets := datasets s @ [d]\<rparr>);
         content = digest_of v (JObj [(''dataset_id'', juuid i), (''version'', JInt 1),
           (''scenarios'', JArr (map (\<lambda>x. JObj (scenario_document v x)) xs))]);
         (j, s) = uuid4 s;
         s = flush (s\<lparr>dataset_versions := dataset_versions s @ [\<lparr>dv_id = j, dv_org = actor_org c, dv_dataset_id = i,
               dv_version = 1, dv_status = ''active'', dv_content_digest = content, dv_scenario_count = int (length xs),
               dv_created_by = actor_id c\<rparr>]\<rparr>)
     in rbind (decode_aes256_key v (encryption_key_b64 v)) (\<lambda>key.
        Inr (d, audit v (actor_org c) (actor_id c) ''evaluation.dataset_created'' ''evaluation_dataset'' i content
          (JObj [(''dataset_version_id'', juuid j), (''scenario_count'', JInt (int (length xs))),
                 (''raw_content_captured'', JBool False)])
          (add_scenarios v key nonces (actor_org c) j xs s)))))))"

definition evaluation_dataset_summary :: "db \<Rightarrow> dataset_row \<Rightarrow> rs_error + json" where
  "evaluation_dataset_summary s d =
     fetch (last_by dv_version (filter (\<lambda>w. dv_dataset_id w = ds_id d) (seen s dv_org (dataset_versions s))))
       (PyRuntimeError ''evaluation dataset has no immutable version'') (\<lambda>w.
     Inr (JObj [(''id'', juuid (ds_id d)), (''project_id'', juuid (ds_project_id d)), (''slug'', JStr (ds_slug d)),
       (''name'', JStr (ds_name d)), (''description'', JStr (ds_description d)), (''version_id'', juuid (dv_id w)),
       (''version'', JInt (dv_version w)), (''scenario_count'', JInt (dv_scenario_count w)),
       (''content_digest'', JStr (dv_content_digest w)), (''created_at'', jtime (ds_created_at d))]))"

subsection \<open>The start of an evaluation\<close>

record evaluation_request =
  eq_deployment_id :: uuid
  eq_dataset_version_id :: uuid
  eq_idempotency_key :: string
  eq_minimum_score_milli :: int
  eq_maximum_regression_milli :: int
  eq_baseline_id :: "uuid option"
  eq_profile_id :: "uuid option"

definition evaluation_content_digest ::
  "env \<Rightarrow> evaluation_request \<Rightarrow> deployment_row \<Rightarrow> version_row \<Rightarrow> dataset_version_row \<Rightarrow> profile_row option \<Rightarrow> digest" where
  "evaluation_content_digest v q dep ver dv profile = digest_of v (JObj
     [(''deployment_id'', juuid (wd_id dep)), (''workflow_version_id'', juuid (wv_id ver)),
      (''workflow_definition_digest'', JStr (wv_definition_digest ver)), (''dataset_version_id'', juuid (dv_id dv)),
      (''dataset_digest'', JStr (dv_content_digest dv)), (''minimum_score_milli'', JInt (eq_minimum_score_milli q)),
      (''maximum_regression_milli'', JInt (eq_maximum_regression_milli q)),
      (''baseline_evaluation_id'', jopt juuid (eq_baseline_id q)), (''simulation_profile_id'', jopt (juuid \<circ> sp_id) profile)])"

definition new_evaluation ::
  "evaluation_request \<Rightarrow> actor_context \<Rightarrow> deployment_row \<Rightarrow> version_row \<Rightarrow> dataset_version_row \<Rightarrow> profile_row option \<Rightarrow>
     evaluation_row option \<Rightarrow> digest \<Rightarrow> uuid \<Rightarrow> evaluation_row" where
  "new_evaluation q c dep ver dv profile baseline content i =
     \<lparr>el_id = i, el_org = actor_org c, el_version_id = wv_id ver, el_dataset_version_id = dv_id dv, el_deployment_id = wd_id dep,
      el_baseline_id = eq_baseline_id q, el_profile_id = map_option sp_id profile, el_actor_id = actor_id c,
      el_idempotency_key = eq_idempotency_key q, el_status = ''running'', el_minimum_score_milli = eq_minimum_score_milli q,
      el_maximum_regression_milli = eq_maximum_regression_milli q, el_score_milli = None,
      el_baseline_score_milli = Option.bind baseline el_score_milli, el_score_delta_milli = None, el_regression_status = None,
      el_release_gate_status = ''pending'', el_content_digest = content, el_completed_at = None\<rparr>"

definition baseline_of ::
  "evaluation_request \<Rightarrow> dataset_version_row \<Rightarrow> profile_row option \<Rightarrow> db \<Rightarrow> rs_error + evaluation_row option" where
  "baseline_of q dv profile s =
     (let unusable = rs_err VALIDATION_FAILED ''The baseline evaluation must be completed against the same dataset version.'' 422
      in case eq_baseline_id q of
           None \<Rightarrow> Inr None
         | Some b \<Rightarrow>
             fetch (get_evaluation s b) unusable (\<lambda>el.
             require (el_status el = ''completed'' \<and> el_score_milli el \<noteq> None \<and> el_dataset_version_id el = dv_id dv \<and>
                      el_profile_id el = map_option sp_id profile) unusable (Inr (Some el))))"

definition scenario_request :: "evaluation_row \<Rightarrow> scenario_row \<Rightarrow> json \<Rightarrow> profile_row option \<Rightarrow> execution_request" where
  "scenario_request el sc input profile =
     (run_request input (''evaluation:'' @ uuid_str (el_id el) @ '':'' @ uuid_str (es_id sc)))\<lparr>
       xr_evaluation_id := Some (el_id el), xr_scenario_id := Some (es_id sc), xr_purpose := ''evaluation'',
       xr_mode := (case profile of None \<Rightarrow> ''live'' | Some _ \<Rightarrow> ''simulation''), xr_profile_id := map_option sp_id profile\<rparr>"

fun start_scenarios ::
  "env \<Rightarrow> py_values \<Rightarrow> actor_context \<Rightarrow> (uuid \<Rightarrow> string \<times> string) \<Rightarrow> deployment_row \<Rightarrow> evaluation_row \<Rightarrow> profile_row option \<Rightarrow>
     scenario_row list \<Rightarrow> db \<Rightarrow> rs_error + db" where
  "start_scenarios v p c nonces dep el profile [] s = Inr s"
| "start_scenarios v p c nonces dep el profile (sc # scs) s =
     rbind (decrypt_scenario v sc) (\<lambda>(input, expected, assertions).
     rbind (create_execution_records v p c (nonces (es_id sc)) dep (scenario_request el sc input profile) s) (\<lambda>(run, s).
     start_scenarios v p c nonces dep el profile scs s))"

definition scenarios_of :: "db \<Rightarrow> uuid \<Rightarrow> scenario_row list" where
  "scenarios_of s version = filter (\<lambda>sc. es_dataset_version_id sc = version) (seen s es_org (scenarios s))"

definition start_evaluation ::
  "env \<Rightarrow> py_values \<Rightarrow> actor_context \<Rightarrow> (uuid \<Rightarrow> string \<times> string) \<Rightarrow> evaluation_request \<Rightarrow> db \<Rightarrow> rs_error + evaluation_row \<times> db" where
  "start_evaluation v p c nonces q s =
     (let missing = rs_err NOT_FOUND ''Active workflow deployment or evaluation dataset version not found.'' 404;
          foreign = rs_err VALIDATION_FAILED ''The workflow and dataset do not belong to the same project.'' 422
      in fetch (get_deployment s (eq_deployment_id q)) missing (\<lambda>dep.
         require (wd_status dep = ''active'') missing (
         fetch (get_dataset_version s (eq_dataset_version_id q)) missing (\<lambda>dv.
         rbind (require_simulation_profile v p dep (eq_profile_id q) s) (\<lambda>profile.
         fetch (get_version s (wd_version_id dep)) foreign (\<lambda>ver.
         fetch (get_workflow s (wv_workflow_id ver)) foreign (\<lambda>flow.
         fetch (get_dataset s (dv_dataset_id dv)) foreign (\<lambda>d.
         require (ds_project_id d = wf_project_id flow) foreign (
         rbind (baseline_of q dv profile s) (\<lambda>baseline.
         let content = evaluation_content_digest v q dep ver dv profile
         in case find (\<lambda>el. el_idempotency_key el = eq_idempotency_key q) (seen s el_org (evaluations s)) of
              Some el \<Rightarrow>
                require (el_content_digest el = content)
                  (rs_err VALIDATION_FAILED ''The idempotency key belongs to different evaluation content.'' 409) (Inr (el, s))
            | None \<Rightarrow>
                let (i, s) = uuid4 s;
                    el = new_evaluation q c dep ver dv profile baseline content i;
                    s = flush (s\<lparr>evaluations := evaluations s @ [el]\<rparr>);
                    scs = sort_key es_key (scenarios_of s (dv_id dv))
                in require (int (length scs) = dv_scenario_count dv \<and> scs \<noteq> [])
                     (rs_err INVALID_TRANSITION ''The evaluation dataset version is incomplete.'' 409) (
                   rbind (start_scenarios v p c nonces dep el profile scs s) (\<lambda>s.
                   Inr (el, audit v (actor_org c) (actor_id c) ''evaluation.started'' ''evaluation'' i content
                     (JObj [(''workflow_version_id'', juuid (wv_id ver)), (''dataset_version_id'', juuid (dv_id dv)),
                            (''scenario_count'', JInt (int (length scs))),
                            (''simulation_profile_id'', jopt (juuid \<circ> sp_id) profile)]) s)))))))))))))"

subsection \<open>Grading\<close>

text \<open>\<open>set(assertions.get(k, []))\<close>: the elements of a list or text, the keys of an object.\<close>

definition set_items :: "json option \<Rightarrow> rs_error + json list" where
  "set_items j =
     (case j of
        None \<Rightarrow> Inr []
      | Some (JArr xs) \<Rightarrow>
          if list_ex (\<lambda>x. case x of JArr _ \<Rightarrow> True | JObj _ \<Rightarrow> True | _ \<Rightarrow> False) xs
          then Inl (PyTypeError ''unhashable type'') else Inr xs
      | Some (JStr t) \<Rightarrow> Inr (map (\<lambda>ch. JStr [ch]) t)
      | Some (JObj kvs) \<Rightarrow> Inr (map (JStr \<circ> fst) kvs)
      | Some _ \<Rightarrow> Inl (PyTypeError ''object is not iterable''))"

record grades =
  gr_task :: bool
  gr_trajectory :: bool
  gr_environment :: bool
  gr_policy :: bool
  gr_safety :: bool

definition grade_list :: "grades \<Rightarrow> bool list" where
  "grade_list g = [gr_task g, gr_trajectory g, gr_environment g, gr_policy g, gr_safety g]"

definition score_milli :: "grades \<Rightarrow> int" where
  "score_milli g = sum_list (map (\<lambda>b. if b then 1000 else 0) (grade_list g)) div 5"

definition within_steps :: "py_values \<Rightarrow> execution_row \<Rightarrow> json option \<Rightarrow> rs_error + bool" where
  "within_steps p e limit =
     (case limit of None \<Rightarrow> Inr True | Some JNull \<Rightarrow> Inr True | Some j \<Rightarrow> rbind (py_int p j) (\<lambda>m. Inr (ex_step_count e \<le> m)))"

definition grade ::
  "env \<Rightarrow> py_values \<Rightarrow> execution_row \<Rightarrow> json \<Rightarrow> string option \<Rightarrow> evaluation_row \<Rightarrow> scenario_row \<Rightarrow> db \<Rightarrow> rs_error + grades" where
  "grade v p e state failed_error el sc s =
     rbind (decrypt_scenario v sc) (\<lambda>(input, expected, assertions).
     rbind (set_items (jlookup ''required_policy_nodes'' assertions)) (\<lambda>required.
     rbind (set_items (jlookup ''forbidden_nodes'' assertions)) (\<lambda>forbidden.
     let ok = (failed_error = None);
         allowed = map np_node_id (filter (\<lambda>d. np_execution_id d = ex_id e \<and> np_effect d = ''allow'') (seen s np_org (node_policies s)));
         disjoint = list_all (\<lambda>n. JStr n \<notin> set forbidden) (ex_path e)
     in rbind (if ok \<and> disjoint then within_steps p e (jlookup ''maximum_steps'' assertions) else Inr False) (\<lambda>safe.
        Inr \<lparr>gr_task = (ok \<and> digest_of v state = es_expected_output_digest sc),
             gr_trajectory = (ok \<and> (es_expected_path sc = [] \<or> ex_path e = es_expected_path sc)),
             gr_environment = (ok \<and> ex_version_id e = el_version_id el \<and> es_dataset_version_id sc = el_dataset_version_id el),
             gr_policy = list_all (\<lambda>x. x \<in> set (map JStr allowed)) required, gr_safety = safe\<rparr>))))"

definition verdict :: "bool \<Rightarrow> string" where
  "verdict b = (if b then ''passed'' else ''failed'')"

definition grader_json :: "string \<Rightarrow> bool \<Rightarrow> json" where
  "grader_json name b = JObj [(''grader'', JStr name), (''score_milli'', JInt (if b then 1000 else 0))]"

definition new_result :: "env \<Rightarrow> execution_row \<Rightarrow> json \<Rightarrow> evaluation_row \<Rightarrow> scenario_row \<Rightarrow> grades \<Rightarrow> uuid \<Rightarrow> timestamp \<Rightarrow> evaluation_result_row" where
  "new_result v e state el sc g i t =
     \<lparr>er_id = i, er_org = ex_org e, er_evaluation_id = el_id el, er_scenario_id = es_id sc, er_execution_id = ex_id e,
      er_run_id = ex_run_id e, er_status = verdict (list_all id (grade_list g)), er_score_milli = score_milli g,
      er_task_outcome = verdict (gr_task g), er_trajectory_outcome = verdict (gr_trajectory g),
      er_environment_outcome = verdict (gr_environment g), er_policy_outcome = verdict (gr_policy g),
      er_safety_outcome = verdict (gr_safety g), er_output_digest = digest_of v state,
      er_trajectory_digest = digest_of v (jtexts (ex_path e)),
      er_graders = JArr [grader_json ''task_outcome'' (gr_task g), grader_json ''trajectory'' (gr_trajectory g),
        grader_json ''deterministic_environment'' (gr_environment g), grader_json ''policy'' (gr_policy g),
        grader_json ''safety'' (gr_safety g)], er_created_at = t\<rparr>"

subsection \<open>Settlement\<close>

definition results_of :: "db \<Rightarrow> uuid \<Rightarrow> evaluation_result_row list" where
  "results_of s el = filter (\<lambda>q. er_evaluation_id q = el) (seen s er_org (evaluation_results s))"

definition gated :: "evaluation_row \<Rightarrow> int \<Rightarrow> int option \<Rightarrow> timestamp \<Rightarrow> evaluation_row" where
  "gated el score baseline t =
     (let delta = map_option (\<lambda>b. score - b) baseline;
          regression = (case delta of None \<Rightarrow> ''not_configured'' | Some d \<Rightarrow> verdict (d \<ge> - el_maximum_regression_milli el));
          gate = verdict (score \<ge> el_minimum_score_milli el \<and> regression \<in> {''passed'', ''not_configured''})
      in el\<lparr>el_score_milli := Some score,
            el_baseline_score_milli := (case baseline of None \<Rightarrow> el_baseline_score_milli el | Some b \<Rightarrow> Some b),
            el_score_delta_milli := (case delta of None \<Rightarrow> el_score_delta_milli el | Some d \<Rightarrow> Some d),
            el_regression_status := Some regression, el_release_gate_status := gate, el_status := ''completed'',
            el_completed_at := Some t\<rparr>)"

definition complete_evaluation :: "env \<Rightarrow> evaluation_row \<Rightarrow> db \<Rightarrow> rs_error + db" where
  "complete_evaluation v el s =
     (let rs = results_of s (el_id el)
      in if length rs \<noteq> length (scenarios_of s (el_dataset_version_id el)) then Inr s
         else
           let score = sum_list (map er_score_milli rs) div int (length rs);
               lost = rs_err INVALID_TRANSITION ''The evaluation baseline is unavailable during settlement.'' 409
           in rbind (case el_baseline_id el of
                       None \<Rightarrow> Inr None
                     | Some b \<Rightarrow> fetch (Option.bind (get_evaluation s b) el_score_milli) lost (\<lambda>x. Inr (Some x))) (\<lambda>baseline.
              let el' = gated el score baseline (now s);
                  s = upd_evaluation (el_id el) (\<lambda>el. gated el score baseline (now s)) s
              in Inr (audit v (el_org el) (el_actor_id el) ''evaluation.completed'' ''evaluation'' (el_id el) (el_content_digest el)
                   (JObj [(''score_milli'', JInt score), (''regression_status'', jopt JStr (el_regression_status el')),
                          (''release_gate_status'', JStr (el_release_gate_status el')),
                          (''result_count'', JInt (int (length rs)))]) s)))"

definition settle_evaluation_execution ::
  "env \<Rightarrow> py_values \<Rightarrow> execution_row \<Rightarrow> json \<Rightarrow> string option \<Rightarrow> db \<Rightarrow> rs_error + db" where
  "settle_evaluation_execution v p e state failed_error s =
     (case (ex_evaluation_id e, ex_scenario_id e) of
        (Some evaluation, Some scenario) \<Rightarrow>
          if find (\<lambda>q. er_evaluation_id q = evaluation \<and> er_scenario_id q = scenario) (seen s er_org (evaluation_results s)) \<noteq> None
          then Inr s
          else
            let incomplete = rs_err INVALID_TRANSITION ''Evaluation execution lineage is incomplete.'' 409
            in fetch (get_evaluation s evaluation) incomplete (\<lambda>el.
               fetch (get_scenario s scenario) incomplete (\<lambda>sc.
               rbind (grade v p e state failed_error el sc s) (\<lambda>g.
               let (i, s) = uuid4 s;
                   q = new_result v e state el sc g i (now s);
                   s = flush (s\<lparr>evaluation_results := evaluation_results s @ [q]\<rparr>);
                   s = trace_event v (ex_org e) (ex_run_id e) ''evaluation'' ''evaluation.scenario_completed'' (er_status q)
                         (JObj [(''evaluation_id'', juuid (el_id el)), (''scenario_id'', juuid (es_id sc)),
                                (''score_milli'', JInt (er_score_milli q)), (''raw_content_captured'', JBool False)]) s
               in complete_evaluation v el s)))
      | _ \<Rightarrow> Inr s)"

subsection \<open>Summaries and annotations\<close>

definition evaluation_annotation_summary :: "annotation_row \<Rightarrow> json" where
  "evaluation_annotation_summary a = JObj
     [(''id'', juuid (an_id a)), (''evaluation_result_id'', juuid (an_result_id a)), (''evaluation_id'', juuid (an_evaluation_id a)),
      (''scenario_id'', juuid (an_scenario_id a)), (''run_id'', juuid (an_run_id a)), (''reviewer_id'', juuid (an_reviewer_id a)),
      (''label'', JStr (an_label a)), (''score_milli'', jopt JInt (an_score_milli a)),
      (''reason_codes'', jtexts (an_reason_codes a)), (''content_digest'', JStr (an_content_digest a)),
      (''created_at'', jtime (an_created_at a))]"

definition result_summary :: "annotation_row list \<Rightarrow> evaluation_result_row \<Rightarrow> json" where
  "result_summary ans q = JObj
     [(''id'', juuid (er_id q)), (''scenario_id'', juuid (er_scenario_id q)), (''run_id'', juuid (er_run_id q)),
      (''status'', JStr (er_status q)), (''score_milli'', JInt (er_score_milli q)), (''task_outcome'', JStr (er_task_outcome q)),
      (''trajectory_outcome'', JStr (er_trajectory_outcome q)),
      (''deterministic_environment_outcome'', JStr (er_environment_outcome q)),
      (''policy_outcome'', JStr (er_policy_outcome q)), (''safety_outcome'', JStr (er_safety_outcome q)),
      (''output_digest'', JStr (er_output_digest q)), (''trajectory_digest'', JStr (er_trajectory_digest q)),
      (''graders'', er_graders q),
      (''annotations'', JArr (map evaluation_annotation_summary (filter (\<lambda>a. an_result_id a = er_id q) ans)))]"

definition evaluation_summary :: "db \<Rightarrow> evaluation_row \<Rightarrow> json" where
  "evaluation_summary s el =
     (let rs = sort_key er_created_at (sort_key er_id (results_of s (el_id el)));
          ans = sort_key an_created_at (sort_key an_id
            (filter (\<lambda>a. an_evaluation_id a = el_id el) (seen s an_org (annotations s))))
      in JObj
       [(''id'', juuid (el_id el)), (''workflow_version_id'', juuid (el_version_id el)),
        (''dataset_version_id'', juuid (el_dataset_version_id el)), (''deployment_id'', juuid (el_deployment_id el)),
        (''baseline_evaluation_id'', jopt juuid (el_baseline_id el)), (''simulation_profile_id'', jopt juuid (el_profile_id el)),
        (''status'', JStr (el_status el)), (''minimum_score_milli'', JInt (el_minimum_score_milli el)),
        (''maximum_regression_milli'', JInt (el_maximum_regression_milli el)), (''score_milli'', jopt JInt (el_score_milli el)),
        (''baseline_score_milli'', jopt JInt (el_baseline_score_milli el)),
        (''score_delta_milli'', jopt JInt (el_score_delta_milli el)),
        (''regression_status'', jopt JStr (el_regression_status el)), (''release_gate_status'', JStr (el_release_gate_status el)),
        (''content_digest'', JStr (el_content_digest el)), (''completed_at'', jopt jtime (el_completed_at el)),
        (''results'', JArr (map (result_summary ans) rs))])"

definition create_evaluation_annotation ::
  "env \<Rightarrow> actor_context \<Rightarrow> uuid \<Rightarrow> string \<Rightarrow> string \<Rightarrow> int option \<Rightarrow> string list \<Rightarrow> db \<Rightarrow> rs_error + annotation_row \<times> db" where
  "create_evaluation_annotation v c result_id key label score reason_codes s =
     fetch (get_evaluation_result s result_id) (rs_err NOT_FOUND ''Evaluation result not found.'' 404) (\<lambda>q.
     let content = digest_of v (JObj
           [(''evaluation_result_id'', juuid (er_id q)), (''evaluation_id'', juuid (er_evaluation_id q)),
            (''scenario_id'', juuid (er_scenario_id q)), (''run_id'', juuid (er_run_id q)), (''reviewer_id'', juuid (actor_id c)),
            (''label'', JStr label), (''score_milli'', jopt JInt score), (''reason_codes'', jtexts reason_codes)])
     in case find (\<lambda>a. an_idempotency_key a = key) (seen s an_org (annotations s)) of
          Some a \<Rightarrow>
            require (an_content_digest a = content)
              (rs_err VALIDATION_FAILED ''The annotation idempotency key belongs to different content.'' 409) (Inr (a, s))
        | None \<Rightarrow>
            let (i, s) = uuid4 s;
                a = \<lparr>an_id = i, an_org = actor_org c, an_result_id = er_id q, an_evaluation_id = er_evaluation_id q,
                     an_scenario_id = er_scenario_id q, an_run_id = er_run_id q, an_reviewer_id = actor_id c,
                     an_idempotency_key = key, an_label = label, an_score_milli = score, an_reason_codes = reason_codes,
                     an_content_digest = content, an_created_at = now s\<rparr>;
                s = s\<lparr>annotations := annotations s @ [a]\<rparr>
            in Inr (a, audit v (actor_org c) (actor_id c) ''evaluation.annotation_created'' ''evaluation_annotation'' i content
                 (JObj [(''evaluation_id'', juuid (er_evaluation_id q)), (''evaluation_result_id'', juuid (er_id q)),
                        (''label'', JStr label), (''reason_codes'', jtexts reason_codes), (''raw_content_captured'', JBool False)]) s))"

subsection \<open>Rows that other writes leave alone\<close>

lemma evaluation_frame [simp]:
  "evaluations (audit v org a ev rt ri dg m s) = evaluations s" "evaluation_results (audit v org a ev rt ri dg m s) = evaluation_results s"
  "scenarios (audit v org a ev rt ri dg m s) = scenarios s"
  "evaluations (trace_event v org run n e st att s) = evaluations s" "evaluation_results (trace_event v org run n e st att s) = evaluation_results s"
  "scenarios (trace_event v org run n e st att s) = scenarios s"
  "evaluations (flush s) = evaluations s" "evaluation_results (flush s) = evaluation_results s" "scenarios (flush s) = scenarios s"
  by (simp_all add: audit_def trace_event_def flush_def uuid4_def Let_def split: prod.split)

lemma upd_evaluation_frame [simp]:
  "evaluation_results (upd_evaluation k f s) = evaluation_results s" "scenarios (upd_evaluation k f s) = scenarios s"
  "tenant (upd_evaluation k f s) = tenant s" "now (upd_evaluation k f s) = now s"
  "evaluations (upd_evaluation k f s) = tupd el_id k f (evaluations s)"
  by (simp_all add: upd_evaluation_def)

subsection \<open>Scores\<close>

lemma score_milli_range: "0 \<le> score_milli g" "score_milli g \<le> 1000"
  by (simp_all add: score_milli_def grade_list_def)

lemma score_milli_full: "score_milli g = 1000 \<longleftrightarrow> list_all id (grade_list g)"
  by (simp add: score_milli_def grade_list_def)

lemma verdict_passed [simp]: "verdict b = ''passed'' \<longleftrightarrow> b" "verdict b \<noteq> ''not_configured''"
  by (simp_all add: verdict_def)

definition result_ok :: "evaluation_result_row \<Rightarrow> bool" where
  "result_ok q \<longleftrightarrow> 0 \<le> er_score_milli q \<and> er_score_milli q \<le> 1000 \<and> (er_status q = ''passed'' \<longleftrightarrow> er_score_milli q = 1000)"

definition results_ok :: "db \<Rightarrow> bool" where
  "results_ok s \<longleftrightarrow> (\<forall>q \<in> set (evaluation_results s). result_ok q)"

lemma new_result_ok: "result_ok (new_result v e state el sc g i t)"
  by (simp add: result_ok_def new_result_def score_milli_range score_milli_full)

text \<open>Scores of at most 1000 whose sum is not below 1000 for each are all 1000.\<close>

lemma sum_list_bound: "\<forall>x \<in> set xs. x \<le> (k::int) \<Longrightarrow> sum_list xs \<le> k * int (length xs)"
  by (induction xs) (auto simp: algebra_simps)

lemma sum_list_full: "\<forall>x \<in> set xs. x \<le> (k::int) \<Longrightarrow> k * int (length xs) \<le> sum_list xs \<Longrightarrow> \<forall>x \<in> set xs. x = k"
proof (induction xs)
  case (Cons x xs)
  have "sum_list xs \<le> k * int (length xs)" using Cons.prems(1) by (intro sum_list_bound) simp
  with Cons show ?case by (auto simp: algebra_simps)
qed simp

lemma mean_ge: "0 < (n::int) \<Longrightarrow> k \<le> m div n \<Longrightarrow> k * n \<le> m"
  using pos_mod_sign [of n m] minus_mod_eq_div_mult [of m n] mult_right_mono [of k "m div n" n] by linarith

subsection \<open>The settlement of a scenario\<close>

lemma grade_sound:
  assumes "grade v p e state failed el sc s = Inr g"
  obtains input expected assertions required forbidden where
    "decrypt_scenario v sc = Inr (input, expected, assertions)"
    "set_items (jlookup ''required_policy_nodes'' assertions) = Inr required"
    "set_items (jlookup ''forbidden_nodes'' assertions) = Inr forbidden"
    "gr_task g \<longleftrightarrow> failed = None \<and> digest_of v state = es_expected_output_digest sc"
    "gr_trajectory g \<longleftrightarrow> failed = None \<and> (es_expected_path sc = [] \<or> ex_path e = es_expected_path sc)"
    "gr_environment g \<longleftrightarrow> failed = None \<and> ex_version_id e = el_version_id el \<and> es_dataset_version_id sc = el_dataset_version_id el"
    "gr_policy g \<longleftrightarrow> (\<forall>x \<in> set required. \<exists>d \<in> set (seen s np_org (node_policies s)).
       np_execution_id d = ex_id e \<and> np_effect d = ''allow'' \<and> x = JStr (np_node_id d))"
    "gr_safety g \<longleftrightarrow> failed = None \<and> (\<forall>n \<in> set (ex_path e). JStr n \<notin> set forbidden) \<and>
       within_steps p e (jlookup ''maximum_steps'' assertions) = Inr True"
proof -
  from assms obtain input expected assertions required forbidden safe where
    1: "decrypt_scenario v sc = Inr (input, expected, assertions)"
      "set_items (jlookup ''required_policy_nodes'' assertions) = Inr required"
      "set_items (jlookup ''forbidden_nodes'' assertions) = Inr forbidden"
    and safe: "(if failed = None \<and> list_all (\<lambda>n. JStr n \<notin> set forbidden) (ex_path e)
        then within_steps p e (jlookup ''maximum_steps'' assertions) else Inr False) = Inr safe"
    and g: "g = \<lparr>gr_task = (failed = None \<and> digest_of v state = es_expected_output_digest sc),
             gr_trajectory = (failed = None \<and> (es_expected_path sc = [] \<or> ex_path e = es_expected_path sc)),
             gr_environment = (failed = None \<and> ex_version_id e = el_version_id el \<and> es_dataset_version_id sc = el_dataset_version_id el),
             gr_policy = list_all (\<lambda>x. x \<in> set (map JStr (map np_node_id (filter (\<lambda>d. np_execution_id d = ex_id e \<and> np_effect d = ''allow'')
               (seen s np_org (node_policies s)))))) required, gr_safety = safe\<rparr>"
    by (auto simp: grade_def ok_iff Let_def image_image)
  show ?thesis
    by (rule that [OF 1]) (use safe in \<open>auto simp: g list_all_iff image_iff split: if_splits\<close>)
qed

lemma settle_evaluation_cases:
  assumes "settle_evaluation_execution v p e state failed s = Inr s'" and "ex_evaluation_id e = Some ev" and "ex_scenario_id e = Some scn"
  obtains (again) q where "q \<in> set (seen s er_org (evaluation_results s))" "er_evaluation_id q = ev" "er_scenario_id q = scn" "s' = s"
  | (graded) el sc g i s1 where "get_evaluation s ev = Some el" "get_scenario s scn = Some sc" "grade v p e state failed el sc s = Inr g"
      "find (\<lambda>q. er_evaluation_id q = ev \<and> er_scenario_id q = scn) (seen s er_org (evaluation_results s)) = None"
      "evaluation_results s1 = evaluation_results s @ [new_result v e state el sc g i (now s)]"
      "evaluations s1 = evaluations s" "scenarios s1 = scenarios s" "tenant s1 = tenant s" "now s1 = now s"
      "complete_evaluation v el s1 = Inr s'"
proof (cases "find (\<lambda>q. er_evaluation_id q = ev \<and> er_scenario_id q = scn) (seen s er_org (evaluation_results s))")
  case None
  from assms None obtain el sc g where
    "get_evaluation s ev = Some el" "get_scenario s scn = Some sc" "grade v p e state failed el sc s = Inr g"
    by (auto simp: settle_evaluation_execution_def ok_iff Let_def)
  with assms None show ?thesis
    by (intro graded [where el = el and sc = sc and g = g and i = "next_uuid s"])
      (auto simp: settle_evaluation_execution_def handler_eval Let_def uuid4_def)
next
  case (Some q)
  with assms have "s' = s" by (simp add: settle_evaluation_execution_def)
  with Some show ?thesis by (intro again [of q]) (auto simp: find_Some_iff dest: nth_mem)
qed

lemma complete_evaluation_cases:
  assumes "complete_evaluation v el s = Inr s'"
  obtains (partial) "length (results_of s (el_id el)) \<noteq> length (scenarios_of s (el_dataset_version_id el))" "s' = s"
  | (complete) baseline where "length (results_of s (el_id el)) = length (scenarios_of s (el_dataset_version_id el))"
      "evaluations s' = tupd el_id (el_id el) (\<lambda>x. gated x (sum_list (map er_score_milli (results_of s (el_id el))) div
         int (length (results_of s (el_id el)))) baseline (now s)) (evaluations s)"
      "baseline = Option.bind (el_baseline_id el) (\<lambda>b. Option.bind (get_evaluation s b) el_score_milli)"
      "el_baseline_id el \<noteq> None \<Longrightarrow> baseline \<noteq> None"
      "evaluation_results s' = evaluation_results s" "scenarios s' = scenarios s" "tenant s' = tenant s"
proof (cases "length (results_of s (el_id el)) = length (scenarios_of s (el_dataset_version_id el))")
  case False
  with assms have "s' = s" by (simp add: complete_evaluation_def)
  with False show ?thesis by (rule partial)
next
  case True
  define score where "score = sum_list (map er_score_milli (results_of s (el_id el))) div int (length (results_of s (el_id el)))"
  from assms True obtain baseline where
    b: "(case el_baseline_id el of None \<Rightarrow> Inr None | Some b \<Rightarrow> fetch (Option.bind (get_evaluation s b) el_score_milli)
          (rs_err INVALID_TRANSITION ''The evaluation baseline is unavailable during settlement.'' 409) (\<lambda>x. Inr (Some x))) =
        (Inr baseline :: rs_error + int option)"
    and s': "evaluations s' = tupd el_id (el_id el) (\<lambda>x. gated x score baseline (now s)) (evaluations s)"
      "evaluation_results s' = evaluation_results s" "scenarios s' = scenarios s" "tenant s' = tenant s"
    by (auto simp: complete_evaluation_def ok_iff Let_def score_def)
  have "baseline = Option.bind (el_baseline_id el) (\<lambda>b. Option.bind (get_evaluation s b) el_score_milli)"
    "el_baseline_id el \<noteq> None \<Longrightarrow> baseline \<noteq> None"
    using b by (auto simp: ok_iff split: option.splits)
  with True s' show ?thesis unfolding score_def by (intro complete)
qed

lemma gated_id [simp]: "el_id (gated x score baseline t) = el_id x"
  by (simp add: gated_def Let_def)

lemma seen_all: "tenant s = None \<Longrightarrow> seen s f rows = rows"
  by (simp add: seen_def rls_def)

subsection \<open>Properties\<close>

lemma scenario_settled_again:
  assumes "ex_evaluation_id e = Some ev" and "ex_scenario_id e = Some scn" and "tenant s = None"
    and "q \<in> set (evaluation_results s)" and "er_evaluation_id q = ev" and "er_scenario_id q = scn"
  shows "settle_evaluation_execution v p e state failed s = Inr s"
proof -
  have "find (\<lambda>q. er_evaluation_id q = ev \<and> er_scenario_id q = scn) (seen s er_org (evaluation_results s)) \<noteq> None"
    unfolding find_None_iff seen_all [OF assms(3)] using assms(4-6) by blast
  then show ?thesis using assms(1,2) by (simp add: settle_evaluation_execution_def)
qed

text \<open>
  C23. What a scenario's result says: settling an execution of an evaluation records one result for its
  scenario, and a second settlement changes nothing. The result passed exactly when its score is 1000,
  and then the execution did not fail, its state has the expected digest, it took the expected path,
  with the pinned workflow version and dataset, every required node was allowed by policy, no forbidden node was visited,
  and the steps kept within their limit. A failed execution scores at most 200.
\<close>

theorem scenario_result_sound:
  assumes "settle_evaluation_execution v p e state failed s = Inr s'" and "ex_evaluation_id e = Some ev" and "ex_scenario_id e = Some scn"
    and "tenant s = None" and "\<forall>q \<in> set (evaluation_results s). \<not> (er_evaluation_id q = ev \<and> er_scenario_id q = scn)"
  shows "settle_evaluation_execution v p e state' failed' s' = Inr s' \<and>
    (\<exists>q el sc input expected assertions required forbidden. evaluation_results s' = evaluation_results s @ [q] \<and>
       er_evaluation_id q = ev \<and> er_scenario_id q = scn \<and> get_evaluation s ev = Some el \<and> get_scenario s scn = Some sc \<and>
       decrypt_scenario v sc = Inr (input, expected, assertions) \<and>
       set_items (jlookup ''required_policy_nodes'' assertions) = Inr required \<and>
       set_items (jlookup ''forbidden_nodes'' assertions) = Inr forbidden \<and>
       (er_status q = ''passed'' \<longleftrightarrow> er_score_milli q = 1000) \<and> (failed \<noteq> None \<longrightarrow> er_score_milli q \<le> 200) \<and>
       (er_status q = ''passed'' \<longleftrightarrow> failed = None \<and> digest_of v state = es_expected_output_digest sc \<and>
          (es_expected_path sc = [] \<or> ex_path e = es_expected_path sc) \<and> ex_version_id e = el_version_id el \<and>
          es_dataset_version_id sc = el_dataset_version_id el \<and>
          (\<forall>x \<in> set required. \<exists>d \<in> set (node_policies s). np_execution_id d = ex_id e \<and> np_effect d = ''allow'' \<and> x = JStr (np_node_id d)) \<and>
          (\<forall>n \<in> set (ex_path e). JStr n \<notin> set forbidden) \<and> within_steps p e (jlookup ''maximum_steps'' assertions) = Inr True))"
  using assms(1-3)
proof (cases rule: settle_evaluation_cases)
  case (again q)
  with assms(5) show ?thesis by (auto simp: seen_def)
next
  case (graded el sc g i s1)
  let ?q = "new_result v e state el sc g i (now s)"
  have ids: "el_id el = ev" "es_id sc = scn" using graded(1,2) by (auto dest: tget_SomeD)
  have s': "evaluation_results s' = evaluation_results s @ [?q]" "tenant s' = None"
    using graded(10) by (cases rule: complete_evaluation_cases; use graded(5,8) assms(4) in simp)+
  have key: "er_evaluation_id ?q = ev" "er_scenario_id ?q = scn" by (simp_all add: new_result_def ids)
  have again: "settle_evaluation_execution v p e state' failed' s' = Inr s'"
    by (rule scenario_settled_again [OF assms(2,3) s'(2) _ key]) (simp add: s'(1))
  from graded(3) obtain input expected assertions required forbidden where
    sc: "decrypt_scenario v sc = Inr (input, expected, assertions)"
    "set_items (jlookup ''required_policy_nodes'' assertions) = Inr required"
    "set_items (jlookup ''forbidden_nodes'' assertions) = Inr forbidden"
    and g: "gr_task g \<longleftrightarrow> failed = None \<and> digest_of v state = es_expected_output_digest sc"
    "gr_trajectory g \<longleftrightarrow> failed = None \<and> (es_expected_path sc = [] \<or> ex_path e = es_expected_path sc)"
    "gr_environment g \<longleftrightarrow> failed = None \<and> ex_version_id e = el_version_id el \<and> es_dataset_version_id sc = el_dataset_version_id el"
    "gr_policy g \<longleftrightarrow> (\<forall>x \<in> set required. \<exists>d \<in> set (seen s np_org (node_policies s)).
       np_execution_id d = ex_id e \<and> np_effect d = ''allow'' \<and> x = JStr (np_node_id d))"
    "gr_safety g \<longleftrightarrow> failed = None \<and> (\<forall>n \<in> set (ex_path e). JStr n \<notin> set forbidden) \<and>
       within_steps p e (jlookup ''maximum_steps'' assertions) = Inr True"
    by (rule grade_sound)
  have passed: "er_status ?q = ''passed'' \<longleftrightarrow> gr_task g \<and> gr_trajectory g \<and> gr_environment g \<and> gr_policy g \<and> gr_safety g"
    by (simp add: new_result_def grade_list_def)
  have low: "failed \<noteq> None \<longrightarrow> er_score_milli ?q \<le> 200"
    using g by (auto simp: new_result_def score_milli_def grade_list_def)
  have full: "er_status ?q = ''passed'' \<longleftrightarrow> er_score_milli ?q = 1000"
    using new_result_ok [of v e state el sc g i "now s"] by (simp add: result_ok_def)
  have "er_status ?q = ''passed'' \<longleftrightarrow> failed = None \<and> digest_of v state = es_expected_output_digest sc \<and>
          (es_expected_path sc = [] \<or> ex_path e = es_expected_path sc) \<and> ex_version_id e = el_version_id el \<and>
          es_dataset_version_id sc = el_dataset_version_id el \<and>
          (\<forall>x \<in> set required. \<exists>d \<in> set (node_policies s). np_execution_id d = ex_id e \<and> np_effect d = ''allow'' \<and> x = JStr (np_node_id d)) \<and>
          (\<forall>n \<in> set (ex_path e). JStr n \<notin> set forbidden) \<and> within_steps p e (jlookup ''maximum_steps'' assertions) = Inr True"
    unfolding passed g seen_all [OF assms(4)] by blast
  with again s'(1) key graded(1,2) sc full low show ?thesis by blast
qed

lemma full_marks:
  assumes "\<forall>q \<in> set rs. result_ok q" and "1000 \<le> sum_list (map er_score_milli rs) div int (length rs)" and "q \<in> set rs"
  shows "er_status q = ''passed''"
proof -
  have "0 < int (length rs)" using assms(3) by (cases rs) simp_all
  then have "1000 * int (length rs) \<le> sum_list (map er_score_milli rs)" using assms(2) by (intro mean_ge)
  then have "1000 * int (length (map er_score_milli rs)) \<le> sum_list (map er_score_milli rs)" by simp
  from sum_list_full [OF _ this] assms(1,3) show ?thesis by (auto simp: result_ok_def)
qed


subsection \<open>A sample evaluation\<close>

definition sample_scenario_input :: scenario_input where
  "sample_scenario_input = \<lparr>si_key = ''one'', si_name = ''one'', si_input = [], si_expected_output = [], si_expected_path = [''a''],
     si_metadata = JObj [], si_required_policy_nodes = [], si_forbidden_nodes = [''z''], si_maximum_steps = None\<rparr>"

definition eval_env :: env where
  "eval_env = run_env\<lparr>json_loads := \<lambda>t. if t = json_bytes (scenario_payload sample_scenario_input)
     then Some (sort_keys (scenario_payload sample_scenario_input)) else None\<rparr>"

definition sample_scenario :: scenario_row where
  "sample_scenario = new_scenario eval_env sample_key ''abcdefghijkl'' 7 20 21 sample_scenario_input"

definition sample_evaluation :: evaluation_row where
  "sample_evaluation = \<lparr>el_id = 22, el_org = 7, el_version_id = 3, el_dataset_version_id = 20, el_deployment_id = 4, el_baseline_id = None,
     el_profile_id = None, el_actor_id = 9, el_idempotency_key = ''k'', el_status = ''running'', el_minimum_score_milli = 1000,
     el_maximum_regression_milli = 0, el_score_milli = None, el_baseline_score_milli = None, el_score_delta_milli = None,
     el_regression_status = None, el_release_gate_status = ''pending'', el_content_digest = ''c'', el_completed_at = None\<rparr>"

definition evaluation_db :: db where
  "evaluation_db = (empty_db 100)\<lparr>scenarios := [sample_scenario], evaluations := [sample_evaluation]\<rparr>"

definition evaluated :: execution_row where
  "evaluated = (sample_execution ''a'' 10)\<lparr>ex_evaluation_id := Some 22, ex_scenario_id := Some 21, ex_path := [''a''], ex_status := ExCompleted\<rparr>"

lemma evaluation_db_rows [simp]:
  "tenant evaluation_db = None" "evaluation_results evaluation_db = []" "evaluations evaluation_db = [sample_evaluation]"
  "scenarios evaluation_db = [sample_scenario]" "node_policies evaluation_db = []" "now evaluation_db = 100"
  "el_id sample_evaluation = 22" "es_id sample_scenario = 21" "es_dataset_version_id sample_scenario = 20"
  "ex_evaluation_id evaluated = Some 22" "ex_scenario_id evaluated = Some 21" "el_dataset_version_id sample_evaluation = 20"
  by (simp_all add: evaluation_db_def empty_db_def sample_evaluation_def sample_scenario_def new_scenario_def Let_def evaluated_def)

lemma sample_payload_opens: "decrypt_scenario eval_env sample_scenario = Inr (JObj [], JObj [], sort_keys (assertions_json sample_scenario_input))"
proof -
  let ?aad = "scenario_aad 7 21 (es_content_digest sample_scenario)"
  have "open_json eval_env (seal_json eval_env ''abcdefghijkl'' (scenario_payload sample_scenario_input) sample_key ?aad) sample_key ?aad =
      Inr (sort_keys (scenario_payload sample_scenario_input))"
    by (rule open_seal) (simp_all add: eval_env_def run_env_def sample_env_def scenario_payload_def sample_scenario_input_def
        assertions_json_def jtexts_def jopt_def)
  moreover have "es_encrypted_payload sample_scenario =
      seal_json eval_env ''abcdefghijkl'' (scenario_payload sample_scenario_input) sample_key ?aad"
    "es_org sample_scenario = 7" "es_input_digest sample_scenario = digest_of eval_env (JObj [])"
    "es_expected_output_digest sample_scenario = digest_of eval_env (JObj [])"
    by (simp_all add: sample_scenario_def new_scenario_def Let_def sample_scenario_input_def)
  moreover have "decode_aes256_key eval_env (encryption_key_b64 eval_env) = Inr sample_key"
    by (simp add: decode_aes256_key_def eval_env_def run_env_def sample_env_def sample_key_def)
  ultimately show ?thesis
    by (simp add: decrypt_scenario_def handler_eval Let_def)
      (simp add: scenario_payload_def sample_scenario_input_def assertions_json_def jlookup_def is_object_def jtexts_def handler_eval)
qed

lemma sample_assertions:
  "jlookup k (sort_keys (assertions_json sample_scenario_input)) =
     (if k = ''required_policy_nodes'' then Some (JArr []) else if k = ''forbidden_nodes'' then Some (JArr [JStr ''z''])
      else if k = ''maximum_steps'' then Some JNull else None)"
  by (simp add: jlookup_def assertions_json_def sample_scenario_input_def jtexts_def jopt_def)

lemma sample_graded:
  "grade eval_env sample_values evaluated (JObj []) None sample_evaluation sample_scenario evaluation_db =
     Inr \<lparr>gr_task = True, gr_trajectory = True, gr_environment = True, gr_policy = True, gr_safety = True\<rparr>"
proof -
  have "es_expected_output_digest sample_scenario = digest_of eval_env (JObj [])" "es_expected_path sample_scenario = [''a'']"
    "ex_path evaluated = [''a'']" "ex_version_id evaluated = el_version_id sample_evaluation"
    by (simp_all add: sample_scenario_def new_scenario_def Let_def sample_scenario_input_def evaluated_def sample_execution_def
        sample_evaluation_def)
  then show ?thesis
    by (simp add: grade_def sample_payload_opens handler_eval Let_def sample_assertions set_items_def within_steps_def)
qed

lemma sample_settled:
  obtains s' el' where "settle_evaluation_execution eval_env sample_values evaluated (JObj []) None evaluation_db = Inr s'"
    "get_evaluation s' 22 = Some el'" "el_release_gate_status el' = ''passed''"
proof -
  let ?g = "\<lparr>gr_task = True, gr_trajectory = True, gr_environment = True, gr_policy = True, gr_safety = True\<rparr>"
  let ?q = "new_result eval_env evaluated (JObj []) sample_evaluation sample_scenario ?g (next_uuid evaluation_db) 100"
  define s1 where "s1 = trace_event eval_env (ex_org evaluated) (ex_run_id evaluated) ''evaluation'' ''evaluation.scenario_completed''
      (er_status ?q) (JObj [(''evaluation_id'', juuid 22), (''scenario_id'', juuid 21),
        (''score_milli'', JInt (er_score_milli ?q)), (''raw_content_captured'', JBool False)])
      (flush (evaluation_db\<lparr>next_uuid := Suc (next_uuid evaluation_db), evaluation_results := [?q]\<rparr>))"
  have rows: "tenant s1 = None" "evaluation_results s1 = [?q]" "scenarios s1 = [sample_scenario]" "evaluations s1 = [sample_evaluation]"
    by (simp_all add: s1_def)
  have q: "er_evaluation_id ?q = 22" "er_score_milli ?q = 1000" by (simp_all add: new_result_def score_milli_def grade_list_def)
  have step: "settle_evaluation_execution eval_env sample_values evaluated (JObj []) None evaluation_db = complete_evaluation eval_env sample_evaluation s1"
    by (simp add: settle_evaluation_execution_def seen_all handler_eval tget_def sample_graded Let_def uuid4_def s1_def)
  obtain s' where s': "complete_evaluation eval_env sample_evaluation s1 = Inr s'"
    "evaluations s' = [gated sample_evaluation 1000 None (now s1)]" "tenant s' = None"
    using rows q by (simp add: complete_evaluation_def results_of_def scenarios_of_def seen_all Let_def handler_eval tupd_def
        sample_evaluation_def)
  show thesis
    by (rule that [of s' "gated sample_evaluation 1000 None (now s1)"])
      (simp_all add: step s' seen_all tget_def, simp_all add: gated_def sample_evaluation_def Let_def)
qed

theorem scenario_result_sound_witness:
  "\<exists>s' q. settle_evaluation_execution eval_env sample_values evaluated (JObj []) None evaluation_db = Inr s' \<and>
     settle_evaluation_execution eval_env sample_values evaluated (JObj []) (Some ''late'') s' = Inr s' \<and>
     evaluation_results s' = [q] \<and> er_scenario_id q = 21 \<and> (er_status q = ''passed'' \<longleftrightarrow> er_score_milli q = 1000)"
proof -
  obtain s' where ok: "settle_evaluation_execution eval_env sample_values evaluated (JObj []) None evaluation_db = Inr s'"
    by (rule sample_settled)
  have "\<forall>q \<in> set (evaluation_results evaluation_db). \<not> (er_evaluation_id q = 22 \<and> er_scenario_id q = 21)" by simp
  from scenario_result_sound [OF ok evaluation_db_rows(10,11,1) this, of "JObj []" "Some ''late''"] obtain q where
    "settle_evaluation_execution eval_env sample_values evaluated (JObj []) (Some ''late'') s' = Inr s'"
    "evaluation_results s' = evaluation_results evaluation_db @ [q]" "er_scenario_id q = 21" "er_status q = ''passed'' \<longleftrightarrow> er_score_milli q = 1000"
    by blast
  with ok show ?thesis by auto
qed


end
