(* ===== verification/RS_Engine.thy ===== *)
theory RS_Engine
  imports RS_Services RS_Tool_Requests RS_Waits RS_Subworkflows RS_Model_Calls
    RS_Replays RS_Evaluations
begin

section \<open>The workflow engine\<close>

text \<open>
  Models \<open>services/workflow_engine.py\<close>: the claim of a ready execution, the advance of a claimed
  execution by one node, its failure and cancellation, the finalization of cancelled executions and
  the signed evidence of an execution that has ended. Every operation is one transaction of the
  worker, which reads all tenants. An exception that escapes is \<open>Inl\<close> and rolls the
  transaction back; a \<open>RunSigilError\<close> that the engine catches fails the execution and keeps what
  the call that raised it had written.
\<close>

record claimed_execution =
  cw_execution_id :: uuid
  cw_org :: uuid
  cw_run_id :: uuid
  cw_event_id :: uuid
  cw_token :: string

abbreviation get_event where "get_event s k \<equiv> tget ob_id k (seen s ob_org (outbox s))"

subsection \<open>Claims\<close>

definition recoverable :: "timestamp \<Rightarrow> execution_row \<Rightarrow> bool" where
  "recoverable t e \<longleftrightarrow> ex_status e = ExRunning \<and> (case ex_lease_expires_at e of None \<Rightarrow> False | Some l \<Rightarrow> l < t)"

definition claimable :: "timestamp \<Rightarrow> db \<Rightarrow> outbox_row \<Rightarrow> bool" where
  "claimable t s ev \<longleftrightarrow>
     ob_topic ev = ''workflow.ready'' \<and> ob_processed_at ev = None \<and> ob_available_at ev \<le> t \<and>
     list_ex (\<lambda>e. ex_id e = ob_aggregate_id ev \<and> (ex_status e = ExQueued \<or> ex_status e = ExWaiting \<or> recoverable t e) \<and>
       (ob_dispatched_at ev = None \<or> recoverable t e)) (seen s ex_org (executions s))"

definition discard_event :: "outbox_row \<Rightarrow> db \<Rightarrow> db" where
  "discard_event ev s = upd_outbox (ob_id ev) (\<lambda>ev. ev\<lparr>ob_dispatched_at := Some (now s), ob_processed_at := Some (now s),
     ob_attempts := ob_attempts ev + 1\<rparr>) s"

definition started_at :: "timestamp \<Rightarrow> timestamp option \<Rightarrow> timestamp option" where
  "started_at t x = (case x of None \<Rightarrow> Some t | Some u \<Rightarrow> Some u)"

definition take_execution :: "env \<Rightarrow> string \<Rightarrow> timestamp \<Rightarrow> execution_row \<Rightarrow> execution_row" where
  "take_execution v token t e = e\<lparr>ex_status := ExRunning, ex_worker_name := Some (worker_name v),
     ex_claim_hash := Some (claim_hash v token), ex_lease_expires_at := Some (t + seconds (action_lease_seconds v)),
     ex_started_at := started_at t (ex_started_at e)\<rparr>"

definition begin_execution :: "env \<Rightarrow> string \<Rightarrow> execution_row \<Rightarrow> run_row \<Rightarrow> outbox_row \<Rightarrow> db \<Rightarrow> claimed_execution option \<times> db" where
  "begin_execution v token e r ev s =
     (let t = now s;
          s = upd_execution (ex_id e) (take_execution v token t) s;
          s = upd_run (run_id r) (\<lambda>r. r\<lparr>run_status := RunRunning, run_started_at := started_at t (run_started_at r)\<rparr>) s;
          s = upd_outbox (ob_id ev) (\<lambda>ev. ev\<lparr>ob_dispatched_at := Some t, ob_attempts := ob_attempts ev + 1\<rparr>) s
      in (Some \<lparr>cw_execution_id = ex_id e, cw_org = ex_org e, cw_run_id = ex_run_id e, cw_event_id = ob_id ev,
                cw_token = token\<rparr>, s))"

definition claim_workflow_ready :: "env \<Rightarrow> string \<Rightarrow> db \<Rightarrow> rs_error + claimed_execution option \<times> db" where
  "claim_workflow_ready v token s =
     (let t = now s
      in case first_by ob_created_at (sort_key ob_id (filter (claimable t s) (seen s ob_org (outbox s)))) of
           None \<Rightarrow> Inr (None, s)
         | Some ev \<Rightarrow>
             case get_execution s (ob_aggregate_id ev) of
               None \<Rightarrow> Inr (None, discard_event ev s)
             | Some e \<Rightarrow>
                 if ex_status e \<in> {ExCompleted, ExFailed, ExCancelled} then Inr (None, discard_event ev s)
                 else if ex_status e = ExRunning \<and> (case ex_lease_expires_at e of None \<Rightarrow> True | Some l \<Rightarrow> l \<ge> t) then Inr (None, s)
                 else if ex_status e \<notin> {ExQueued, ExRunning, ExWaiting} then Inr (None, discard_event ev s)
                 else
                   fetch (get_run s (ex_run_id e)) (PyRuntimeError ''workflow execution run disappeared'') (\<lambda>r.
                   Inr (begin_execution v token e r ev s)))"

subsection \<open>Evidence\<close>

text \<open>The rows of an execution, in the order of its evidence.\<close>

definition rows_of :: "db \<Rightarrow> ('r \<Rightarrow> uuid) \<Rightarrow> ('r \<Rightarrow> uuid) \<Rightarrow> uuid \<Rightarrow> 'r list \<Rightarrow> 'r list" where
  "rows_of s org owner k rows = filter (\<lambda>r. owner r = k) (seen s org rows)"

definition attempt_json :: "attempt_row \<Rightarrow> json" where
  "attempt_json q = JObj
     [(''id'', juuid (na_id q)), (''node_id'', JStr (na_node_id q)), (''node_type'', JStr (na_node_type q)),
      (''attempt'', JInt (na_attempt q)), (''status'', JStr (na_status q)), (''input_digest'', JStr (na_input_digest q)),
      (''output_digest'', jopt JStr (na_output_digest q)), (''error_code'', jopt JStr (na_error_code q))]"

definition checkpoint_json :: "checkpoint_row \<Rightarrow> json" where
  "checkpoint_json q = JObj
     [(''id'', juuid (cp_id q)), (''sequence'', JInt (cp_sequence q)), (''node_id'', JStr (cp_node_id q)),
      (''state_digest'', JStr (cp_state_digest q)), (''content_digest'', JStr (cp_content_digest q)),
      (''parent_checkpoint_id'', jopt juuid (cp_parent_id q))]"

definition wait_json :: "wait_row \<Rightarrow> json" where
  "wait_json q = JObj
     [(''id'', juuid (wt_id q)), (''node_id'', JStr (wt_node_id q)), (''sequence'', JInt (wt_sequence q)),
      (''wait_type'', JStr (wt_type q)), (''status'', JStr (wt_status q)), (''resolution'', jopt JStr (wt_resolution q)),
      (''content_digest'', JStr (wt_content_digest q)), (''state_digest'', JStr (wt_state_digest q)),
      (''response_digest'', jopt JStr (wt_response_digest q)), (''expires_at'', jtime (wt_expires_at q)),
      (''resolved_at'', jopt jtime (wt_resolved_at q))]"

definition subworkflow_json :: "subworkflow_call_row \<Rightarrow> json" where
  "subworkflow_json q = JObj
     [(''id'', juuid (sc_id q)), (''node_id'', JStr (sc_node_id q)), (''sequence'', JInt (sc_sequence q)),
      (''deployment_id'', juuid (sc_deployment_id q)), (''child_workflow_execution_id'', juuid (sc_child_execution_id q)),
      (''child_run_id'', juuid (sc_child_run_id q)), (''result_state_key'', JStr (sc_result_state_key q)),
      (''status'', JStr (sc_status q)), (''input_state_digest'', JStr (sc_input_state_digest q)),
      (''child_execution_content_digest'', JStr (sc_child_content_digest q)),
      (''result_state_digest'', jopt JStr (sc_result_state_digest q)), (''content_digest'', JStr (sc_content_digest q)),
      (''expires_at'', jtime (sc_expires_at q)), (''resolved_at'', jopt jtime (sc_resolved_at q))]"

definition tool_call_json :: "db \<Rightarrow> tool_call_row \<Rightarrow> json" where
  "tool_call_json s q = JObj
     [(''id'', juuid (tc_id q)), (''node_id'', JStr (tc_node_id q)), (''sequence'', JInt (tc_sequence q)),
      (''tool_id'', juuid (tc_tool_id q)), (''child_run_id'', juuid (tc_child_run_id q)), (''action_id'', juuid (tc_action_id q)),
      (''intent_id'', juuid (tc_intent_id q)), (''status'', JStr (tool_call_status_value (tc_status q))),
      (''arguments_digest'', JStr (tc_arguments_digest q)), (''tool_digest'', JStr (tc_tool_digest q)),
      (''action_content_digest'', JStr (tc_action_content_digest q)), (''result_digest'', jopt JStr (tc_result_digest q)),
      (''content_digest'', JStr (tc_content_digest q)),
      (''child_evidence_digest'', jopt JStr (terminal_tool_call_evidence_digest s q)),
      (''expires_at'', jtime (tc_expires_at q)), (''resolved_at'', jopt jtime (tc_resolved_at q))]"

definition simulation_json :: "simulation_call_row \<Rightarrow> json" where
  "simulation_json q = JObj
     [(''id'', juuid (ts_id q)), (''node_id'', JStr (ts_node_id q)), (''sequence'', JInt (ts_sequence q)),
      (''simulation_profile_id'', juuid (ts_profile_id q)), (''tool_id'', juuid (ts_tool_id q)), (''status'', JStr (ts_status q)),
      (''arguments_digest'', JStr (ts_arguments_digest q)), (''tool_digest'', JStr (ts_tool_digest q)),
      (''profile_digest'', JStr (ts_profile_digest q)), (''result_digest'', JStr (ts_result_digest q)),
      (''content_digest'', JStr (ts_content_digest q)), (''completed_at'', jtime (ts_completed_at q)),
      (''side_effect_performed'', JBool False)]"

definition model_call_json :: "model_call_row \<Rightarrow> json" where
  "model_call_json q = JObj
     [(''id'', juuid (mc_id q)), (''node_id'', JStr (mc_node_id q)), (''sequence'', JInt (mc_sequence q)),
      (''model_route_id'', juuid (mc_model_route_id q)), (''delegation_id'', juuid (mc_delegation_id q)),
      (''policy_decision_id'', juuid (mc_decision_id q)), (''status'', JStr (mc_status q)),
      (''request_digest'', JStr (mc_request_digest q)), (''route_digest'', JStr (mc_route_digest q)),
      (''content_digest'', JStr (mc_content_digest q)), (''output_digest'', jopt JStr (mc_output_digest q)),
      (''provider_reference'', jopt JStr (mc_provider_reference q)), (''max_output_tokens'', JInt (mc_max_output_tokens q)),
      (''input_tokens'', jopt JInt (mc_input_tokens q)), (''output_tokens'', jopt JInt (mc_output_tokens q)),
      (''cost_minor'', jopt JInt (mc_cost_minor q)), (''execute_attempts'', JInt (mc_execute_attempts q)),
      (''reconcile_attempts'', JInt (mc_reconcile_attempts q)), (''error_code'', jopt JStr (mc_error_code q)),
      (''expires_at'', jtime (mc_expires_at q)), (''completed_at'', jopt jtime (mc_completed_at q)),
      (''raw_content_captured'', JBool False)]"

definition node_policy_json :: "node_policy_row \<Rightarrow> json" where
  "node_policy_json q = JObj
     [(''id'', juuid (np_id q)), (''node_id'', JStr (np_node_id q)), (''sequence'', JInt (np_sequence q)),
      (''evaluation'', JInt (np_evaluation q)), (''policy_bundle_id'', juuid (np_bundle_id q)), (''effect'', JStr (np_effect q)),
      (''reason_code'', JStr (np_reason_code q)), (''input_digest'', JStr (np_input_digest q)),
      (''policy_digest'', JStr (np_policy_digest q)), (''content_digest'', JStr (np_content_digest q)),
      (''expires_at'', jtime (np_expires_at q))]"

definition replay_json :: "replay_row \<Rightarrow> json" where
  "replay_json q = JObj
     [(''id'', juuid (rp_id q)), (''source_workflow_execution_id'', juuid (rp_source_execution_id q)),
      (''source_run_id'', juuid (rp_source_run_id q)), (''source_checkpoint_id'', juuid (rp_source_checkpoint_id q)),
      (''status'', JStr (rp_status q)), (''source_state_digest'', JStr (rp_source_state_digest q)),
      (''source_path_digest'', JStr (rp_source_path_digest q)), (''replay_state_digest'', jopt JStr (rp_state_digest q)),
      (''replay_path_digest'', jopt JStr (rp_path_digest q)), (''content_digest'', JStr (rp_content_digest q))]"

definition result_json :: "execution_row \<Rightarrow> evaluation_result_row \<Rightarrow> json" where
  "result_json e q = JObj
     [(''evaluation_id'', juuid (er_evaluation_id q)), (''scenario_id'', juuid (er_scenario_id q)),
      (''score_milli'', JInt (er_score_milli q)), (''status'', JStr (er_status q)), (''output_digest'', JStr (er_output_digest q)),
      (''trajectory_digest'', JStr (er_trajectory_digest q)), (''policy_outcome'', JStr (er_policy_outcome q)),
      (''safety_outcome'', JStr (er_safety_outcome q)), (''simulation_profile_id'', jopt juuid (ex_profile_id e))]"

definition trace_json :: "env \<Rightarrow> trace_row \<Rightarrow> json" where
  "trace_json v q = JObj
     [(''id'', juuid (tr_id q)), (''sequence'', JInt (tr_sequence q)), (''node_id'', JStr (tr_node_id q)),
      (''event_type'', JStr (tr_event_type q)), (''status'', JStr (tr_status q)),
      (''attributes_digest'', JStr (digest_of v (tr_attributes q)))]"

definition audit_json :: "audit_row \<Rightarrow> json" where
  "audit_json q = JObj
     [(''sequence'', JInt (au_sequence q)), (''event_type'', JStr (au_event_type q)), (''subject_id'', juuid (au_subject_id q)),
      (''previous_hash'', jopt JStr (au_previous_hash q)), (''row_hash'', JStr (au_row_hash q))]"

definition workflow_manifest :: "env \<Rightarrow> db \<Rightarrow> execution_row \<Rightarrow> run_row \<Rightarrow> version_row \<Rightarrow> json" where
  "workflow_manifest v s e r ver =
     (let k = ex_id e
      in JObj
       [(''schema'', JStr ''runsigil.evidence/workflow-v1''), (''organization_id'', juuid (ex_org e)),
        (''run'', JObj [(''id'', juuid (run_id r)), (''kind'', JStr (run_kind r)), (''status'', JStr (run_status_value (run_status r))),
           (''input_digest'', JStr (run_input_digest r)), (''started_at'', jopt jtime (run_started_at r)),
           (''completed_at'', jopt jtime (run_completed_at r))]),
        (''workflow'', JObj [(''execution_id'', juuid k), (''workflow_version_id'', juuid (wv_id ver)),
           (''definition_digest'', JStr (wv_definition_digest ver)), (''execution_content_digest'', JStr (ex_content_digest e)),
           (''execution_mode'', JStr (ex_mode e)), (''simulation_profile_id'', jopt juuid (ex_profile_id e)),
           (''state_digest'', JStr (ex_state_digest e)), (''path_digest'', JStr (digest_of v (jtexts (ex_path e)))),
           (''step_count'', JInt (ex_step_count e)), (''forked_from_checkpoint_id'', jopt juuid (ex_forked_from e))]),
        (''node_attempts'', JArr (map attempt_json (sort_key na_created_at (sort_key na_id
           (rows_of s na_org na_execution_id k (attempts s)))))),
        (''checkpoints'', JArr (map checkpoint_json (sort_key cp_sequence (sort_key cp_created_at
           (rows_of s cp_org cp_execution_id k (checkpoints s)))))),
        (''waits'', JArr (map wait_json (sort_key wt_sequence (sort_key wt_created_at (sort_key wt_id
           (rows_of s wt_org wt_execution_id k (waits s))))))),
        (''subworkflows'', JArr (map subworkflow_json (sort_key sc_sequence (sort_key sc_created_at (sort_key sc_id
           (rows_of s sc_org sc_parent_execution_id k (subworkflow_calls s))))))),
        (''tool_calls'', JArr (map (tool_call_json s) (sort_key tc_sequence (sort_key tc_created_at (sort_key tc_id
           (rows_of s tc_org tc_execution_id k (tool_calls s))))))),
        (''tool_simulations'', JArr (map simulation_json (sort_key ts_sequence (sort_key ts_created_at (sort_key ts_id
           (rows_of s ts_org ts_execution_id k (simulation_calls s))))))),
        (''model_calls'', JArr (map model_call_json (sort_key mc_sequence (sort_key mc_created_at (sort_key mc_id
           (rows_of s mc_org mc_execution_id k (model_calls s))))))),
        (''policy_decisions'', JArr (map node_policy_json (sort_key np_sequence (sort_key np_evaluation (sort_key np_id
           (rows_of s np_org np_execution_id k (node_policies s))))))),
        (''replay'', jopt replay_json (find (\<lambda>q. rp_execution_id q = k) (seen s rp_org (replays s)))),
        (''evaluation'', jopt (result_json e) (find (\<lambda>q. er_run_id q = run_id r) (seen s er_org (evaluation_results s)))),
        (''trace'', JArr (map (trace_json v) (sort_key tr_sequence (rows_of s tr_org tr_run_id (run_id r) (traces s))))),
        (''audit_segment'', JArr (map audit_json (sort_key au_sequence (rows_of s au_org au_org (ex_org e) (audits s))))),
        (''privacy'', JObj [(''raw_content_captured'', JBool False), (''secret_values_included'', JBool False)])])"

definition seal_workflow_evidence :: "env \<Rightarrow> execution_row \<Rightarrow> db \<Rightarrow> rs_error + db" where
  "seal_workflow_evidence v e s0 =
     (let s = flush s0; incomplete = PyRuntimeError ''cannot seal incomplete workflow lineage''
      in if find (\<lambda>q. ev_run_id q = ex_run_id e) (seen s ev_org (evidence s)) \<noteq> None then Inr s
         else
           fetch (get_run s (ex_run_id e)) incomplete (\<lambda>r.
           fetch (get_version s (ex_version_id e)) incomplete (\<lambda>ver.
           rbind (evidence_signer v (evidence_key_b64 v) (evidence_key_id v)) (\<lambda>signer.
           let q = sign v signer (workflow_manifest v s e r ver);
               (i, s) = uuid4 s
           in Inr (s\<lparr>evidence := evidence s @ [\<lparr>ev_id = i, ev_org = ex_org e, ev_run_id = ex_run_id e,
                ev_content_digest = env_content_digest q, ev_manifest = env_manifest q, ev_algorithm = ''ed25519'',
                ev_key_id = env_signing_key_id q, ev_public_key_b64 = env_public_key_b64 q, ev_signature_b64 = env_signature_b64 q,
                ev_export_status = ''local_only''\<rparr>]\<rparr>)))))"

subsection \<open>The end of an execution\<close>

definition cancelled_wait :: "timestamp \<Rightarrow> wait_row \<Rightarrow> wait_row" where
  "cancelled_wait t w = w\<lparr>wt_status := ''cancelled'', wt_resolution := Some ''cancelled'', wt_resolved_at := Some t\<rparr>"

definition cancelled_call :: "timestamp \<Rightarrow> subworkflow_call_row \<Rightarrow> subworkflow_call_row" where
  "cancelled_call t k = k\<lparr>sc_status := ''cancelled'', sc_resolved_at := Some t\<rparr>"

text \<open>The event that makes a child look at its parent's call.\<close>

definition wake_child :: "execution_row \<Rightarrow> string \<Rightarrow> subworkflow_call_row \<Rightarrow> db \<Rightarrow> db" where
  "wake_child e reason k s =
     add_outbox (ex_org e) ''workflow.ready'' ''workflow_execution'' (sc_child_execution_id k)
       (''subworkflow.call:'' @ uuid_str (sc_id k) @ '':'' @ reason)
       (JObj [(''workflow_execution_id'', juuid (sc_child_execution_id k)), (''parent_subworkflow_call_id'', juuid (sc_id k)),
              (''content_digest'', JStr (sc_content_digest k))]) (now s) s"

definition cancel_waits :: "execution_row \<Rightarrow> db \<Rightarrow> db" where
  "cancel_waits e s =
     fold (\<lambda>w. upd_wait (wt_id w) (cancelled_wait (now s)))
       (filter (\<lambda>w. wt_execution_id w = ex_id e \<and> wt_status w = ''pending'') (seen s wt_org (waits s))) s"

definition cancel_calls :: "execution_row \<Rightarrow> string \<Rightarrow> db \<Rightarrow> db" where
  "cancel_calls e reason s =
     fold (\<lambda>k s. wake_child e reason k (upd_subworkflow_call (sc_id k) (cancelled_call (now s)) s))
       (filter (\<lambda>k. sc_parent_execution_id k = ex_id e \<and> sc_status k = ''pending'') (seen s sc_org (subworkflow_calls s))) s"

definition ended :: "execution_status \<Rightarrow> string \<Rightarrow> timestamp \<Rightarrow> execution_row \<Rightarrow> execution_row" where
  "ended st code t e = e\<lparr>ex_status := st, ex_error_code := Some code, ex_completed_at := Some t, ex_claim_hash := None,
     ex_lease_expires_at := None, ex_version := ex_version e + 1\<rparr>"

definition ended_run :: "run_status \<Rightarrow> string \<Rightarrow> timestamp \<Rightarrow> run_row \<Rightarrow> run_row" where
  "ended_run st code t r = r\<lparr>run_status := st, run_error_code := Some code, run_active_node := None, run_completed_at := Some t\<rparr>"

text \<open>Whoever waits for the execution: the evaluation, the replay and the parent's call.\<close>

definition settle_dependents :: "env \<Rightarrow> py_values \<Rightarrow> execution_row \<Rightarrow> run_row \<Rightarrow> json \<Rightarrow> string option \<Rightarrow> db \<Rightarrow> rs_error + db" where
  "settle_dependents v p e r state failed_error s =
     rbind (settle_evaluation_execution v p e state failed_error s) (\<lambda>s.
     Inr (settle_parent_subworkflow_call v e r (settle_workflow_replay v e s)))"

definition end_rows :: "execution_row \<Rightarrow> run_row \<Rightarrow> outbox_row \<Rightarrow> execution_status \<Rightarrow> run_status \<Rightarrow> string \<Rightarrow> string \<Rightarrow> db \<Rightarrow> db" where
  "end_rows e r ev st rst reason code s =
     (let t = now s;
          s = cancel_calls e reason (cancel_waits e s);
          s = upd_execution (ex_id e) (ended st code t) s;
          s = upd_run (run_id r) (ended_run rst code t) s
      in upd_outbox (ob_id ev) (\<lambda>ev. ev\<lparr>ob_processed_at := Some t\<rparr>) s)"

definition fail_execution ::
  "env \<Rightarrow> py_values \<Rightarrow> execution_row \<Rightarrow> run_row \<Rightarrow> outbox_row \<Rightarrow> json \<Rightarrow> string \<Rightarrow> db \<Rightarrow> rs_error + db" where
  "fail_execution v p e r ev state code s =
     (let t = now s;
          s = end_rows e r ev ExFailed RunFailed ''parent-failed'' code s;
          e = ended ExFailed code t e;
          r = ended_run RunFailed code t r;
          s = trace_event v (ex_org e) (ex_run_id e) ''workflow'' ''workflow.failed'' ''failed''
                (JObj [(''error_code'', JStr code), (''raw_content_captured'', JBool False)]) s
      in rbind (settle_dependents v p e r state (Some code) s) (\<lambda>s.
         seal_workflow_evidence v e (audit v (ex_org e) (run_actor_id r) ''workflow.failed'' ''run'' (run_id r) (ex_content_digest e)
           (JObj [(''error_code'', JStr code), (''step_count'', JInt (ex_step_count e))]) s)))"

definition cancel_claimed_execution ::
  "env \<Rightarrow> py_values \<Rightarrow> execution_row \<Rightarrow> run_row \<Rightarrow> outbox_row \<Rightarrow> json \<Rightarrow> string \<Rightarrow> db \<Rightarrow> rs_error + db" where
  "cancel_claimed_execution v p e r ev state code s =
     (let t = now s;
          s = end_rows e r ev ExCancelled RunCancelled ''ancestor-cancelled'' code s;
          e = ended ExCancelled code t e;
          r = ended_run RunCancelled code t r;
          s = trace_event v (ex_org e) (ex_run_id e) ''workflow'' ''workflow.cancelled'' ''cancelled''
                (JObj [(''error_code'', JStr code), (''raw_content_captured'', JBool False)]) s
      in rbind (settle_dependents v p e r state (Some code) s) (\<lambda>s.
         seal_workflow_evidence v e (audit v (ex_org e) (run_actor_id r) ''workflow.cancelled'' ''run'' (run_id r) (ex_content_digest e)
           (JObj [(''error_code'', JStr code), (''side_effect_started'', JBool False)]) s)))"

definition finalize_cancelled_once :: "env \<Rightarrow> py_values \<Rightarrow> db \<Rightarrow> rs_error + bool \<times> db" where
  "finalize_cancelled_once v p s =
     (let t = now s
      in case first_by ob_created_at (sort_key ob_id (filter (\<lambda>ev. ob_topic ev = ''workflow.finalize'' \<and> ob_processed_at ev = None \<and>
                 ob_available_at ev \<le> t) (seen s ob_org (outbox s)))) of
           None \<Rightarrow> Inr (False, s)
         | Some ev \<Rightarrow>
             let skip = Inr (True, upd_outbox (ob_id ev) (\<lambda>ev. ev\<lparr>ob_processed_at := Some t, ob_attempts := ob_attempts ev + 1\<rparr>) s)
             in case get_execution s (ob_aggregate_id ev) of
                  None \<Rightarrow> skip
                | Some e \<Rightarrow>
                    if ex_status e \<noteq> ExCancelled then skip
                    else
                      rbind (decrypt_execution_state v e) (\<lambda>state.
                      fetch (get_run s (ex_run_id e)) (PyRuntimeError ''cancelled workflow run disappeared'') (\<lambda>r.
                      rbind (settle_dependents v p e r state (Some (code_or (ex_error_code e) ''workflow_cancelled'')) s) (\<lambda>s.
                      rbind (seal_workflow_evidence v e s) (\<lambda>s.
                      Inr (True, upd_outbox (ob_id ev) (\<lambda>ev. ev\<lparr>ob_dispatched_at := started_at t (ob_dispatched_at ev),
                        ob_processed_at := Some t, ob_attempts := ob_attempts ev + 1\<rparr>) s))))))"

subsection \<open>The node to run\<close>

text \<open>What the event that woke the execution names.\<close>

datatype wake = Woken | WokenWait wait_row | WokenCall subworkflow_call_row | WokenTool tool_call_row | WokenModel model_call_row

definition payload_value :: "outbox_row \<Rightarrow> string \<Rightarrow> json option" where
  "payload_value ev k = (case jlookup k (ob_payload ev) of Some JNull \<Rightarrow> None | x \<Rightarrow> x)"

definition submitted :: "outbox_row \<Rightarrow> digest \<Rightarrow> bool" where
  "submitted ev dig \<longleftrightarrow> payload_value ev ''content_digest'' = Some (JStr dig)"

definition named_row :: "py_values \<Rightarrow> json \<Rightarrow> string \<Rightarrow> (uuid \<Rightarrow> 'r option) \<Rightarrow> ('r \<Rightarrow> bool) \<Rightarrow> string + 'r" where
  "named_row p j code get ok =
     (case Option.bind (uuid_of_text (py_str p j)) get of
        None \<Rightarrow> Inl code
      | Some r \<Rightarrow> if ok r then Inr r else Inl code)"

definition select_node :: "py_values \<Rightarrow> execution_row \<Rightarrow> string list \<Rightarrow> outbox_row \<Rightarrow> db \<Rightarrow> string + string \<times> wake" where
  "select_node p e ready ev s =
     (let wait = payload_value ev ''workflow_wait_id''; call = payload_value ev ''workflow_subworkflow_call_id'';
          tool = payload_value ev ''workflow_tool_call_id''; model = payload_value ev ''model_call_id''
      in if length (filter (\<lambda>x. x \<noteq> None) [wait, call, tool, model]) > 1 then Inl ''workflow_wake_payload_invalid''
         else case wait of
           Some j \<Rightarrow>
             map_sum id (\<lambda>w. (wt_node_id w, WokenWait w)) (named_row p j ''workflow_wait_wake_mismatch'' (get_wait s)
               (\<lambda>w. wt_execution_id w = ex_id e \<and> wt_sequence w = ex_step_count e \<and> wt_node_id w \<in> set ready))
         | None \<Rightarrow> case call of
           Some j \<Rightarrow>
             map_sum id (\<lambda>k. (sc_node_id k, WokenCall k)) (named_row p j ''workflow_subworkflow_wake_mismatch'' (get_subworkflow_call s)
               (\<lambda>k. sc_parent_execution_id k = ex_id e \<and> sc_sequence k = ex_step_count e \<and> sc_node_id k \<in> set ready \<and>
                 submitted ev (sc_content_digest k)))
         | None \<Rightarrow> case tool of
           Some j \<Rightarrow>
             map_sum id (\<lambda>k. (tc_node_id k, WokenTool k)) (named_row p j ''workflow_tool_wake_mismatch'' (get_tool_call s)
               (\<lambda>k. tc_execution_id k = ex_id e \<and> tc_sequence k = ex_step_count e \<and> tc_node_id k \<in> set ready \<and>
                 submitted ev (tc_content_digest k)))
         | None \<Rightarrow> case model of
           Some j \<Rightarrow>
             map_sum id (\<lambda>k. (mc_node_id k, WokenModel k)) (named_row p j ''workflow_model_wake_mismatch'' (get_model_call s)
               (\<lambda>k. mc_execution_id k = ex_id e \<and> mc_sequence k = ex_step_count e \<and> mc_node_id k \<in> set ready \<and>
                 submitted ev (mc_content_digest k)))
         | None \<Rightarrow> Inr (hd ready, Woken))"

subsection \<open>What a caught exception leaves\<close>

fun error_code_value :: "error_code \<Rightarrow> string" where
  "error_code_value AUTH_REQUIRED = ''RUNSIGIL_AUTH_REQUIRED''"
| "error_code_value AUTH_INVALID = ''RUNSIGIL_AUTH_INVALID''"
| "error_code_value SCOPE_DENIED = ''RUNSIGIL_SCOPE_DENIED''"
| "error_code_value NOT_FOUND = ''RUNSIGIL_NOT_FOUND''"
| "error_code_value POLICY_UNAVAILABLE = ''RUNSIGIL_POLICY_UNAVAILABLE''"
| "error_code_value POLICY_DENIED = ''RUNSIGIL_POLICY_DENIED''"
| "error_code_value BUDGET_EXHAUSTED = ''RUNSIGIL_BUDGET_EXHAUSTED''"
| "error_code_value APPROVAL_DIGEST_MISMATCH = ''RUNSIGIL_APPROVAL_DIGEST_MISMATCH''"
| "error_code_value APPROVAL_EXPIRED = ''RUNSIGIL_APPROVAL_EXPIRED''"
| "error_code_value APPROVAL_REPLAYED = ''RUNSIGIL_APPROVAL_REPLAYED''"
| "error_code_value INVALID_TRANSITION = ''RUNSIGIL_INVALID_TRANSITION''"
| "error_code_value ACTION_NOT_AUTHORIZED = ''RUNSIGIL_ACTION_NOT_AUTHORIZED''"
| "error_code_value ACTION_AMBIGUOUS = ''RUNSIGIL_ACTION_AMBIGUOUS''"
| "error_code_value EVIDENCE_INVALID = ''RUNSIGIL_EVIDENCE_INVALID''"
| "error_code_value INTERNAL_DEPENDENCY_UNAVAILABLE = ''RUNSIGIL_INTERNAL_DEPENDENCY_UNAVAILABLE''"
| "error_code_value VALIDATION_FAILED = ''RUNSIGIL_VALIDATION_FAILED''"

text \<open>\<open>except RunSigilError\<close>: the execution fails on the session as the call left it.\<close>

definition caught :: "(string \<Rightarrow> db \<Rightarrow> rs_error + 'b) \<Rightarrow> db \<Rightarrow> rs_error + 'a \<Rightarrow> ('a \<Rightarrow> rs_error + 'b) \<Rightarrow> rs_error + 'b" where
  "caught fail residue result f =
     (case result of
        Inr x \<Rightarrow> f x
      | Inl (RunSigilError code message status details) \<Rightarrow> fail (error_code_value code) residue
      | Inl err \<Rightarrow> Inl err)"

text \<open>
  The session at the raise. Most calls check before they write. A governed action whose budgets are
  refused has its lineage already; a timeout has its withdrawal, and the reservations closed up to
  the one that cannot be.
\<close>

definition tool_call_residue ::
  "env \<Rightarrow> py_values \<Rightarrow> execution_row \<Rightarrow> run_row \<Rightarrow> wf_node \<Rightarrow> json \<Rightarrow> db \<Rightarrow> db" where
  "tool_call_residue v p e r n state s =
     (case rbind (tool_request p e r n state s) (\<lambda>(tool, req).
           rbind (require_catalog s req) (\<lambda>(project, environment, agent).
           case find (\<lambda>r. run_idempotency_key r = req_idempotency_key req) (seen s run_org (runs s)) of
             Some existing \<Rightarrow> Inr s
           | None \<Rightarrow>
               let c = tool_actor e r; pc = action_policy_context c req environment (now s)
               in rbind (decide_policy v (active_bundle s (prj_id project)) pc) (\<lambda>(b, d).
                  Inr (snd (add_lineage v c req agent b d pc s))))) of
        Inl _ \<Rightarrow> s
      | Inr s' \<Rightarrow> s')"

fun released_until :: "timestamp \<Rightarrow> reservation_row list \<Rightarrow> db \<Rightarrow> db" where
  "released_until t [] s = s"
| "released_until t (q # qs) s = (case release_loop t [q] s of Inl _ \<Rightarrow> s | Inr s' \<Rightarrow> released_until t qs s')"

fun settled_until :: "timestamp \<Rightarrow> reservation_row list \<Rightarrow> db \<Rightarrow> db" where
  "settled_until t [] s = s"
| "settled_until t (q # qs) s = (case settle_loop [] [] t False [] [q] s of Inl _ \<Rightarrow> s | Inr s' \<Rightarrow> settled_until t qs s')"

definition tool_timeout_residue :: "uuid \<Rightarrow> timestamp \<Rightarrow> db \<Rightarrow> db" where
  "tool_timeout_residue call t s =
     (case get_tool_call s call of
        None \<Rightarrow> s
      | Some c \<Rightarrow>
          case (get_action s (tc_action_id c), get_run s (tc_child_run_id c)) of
            (Some a, Some child) \<Rightarrow>
              let approval = (if act_state a = Proposed then Option.bind (act_approval_id a) (get_approval s) else None);
                  s = withdrawn t a child approval (action_ready_event s (tc_action_id c)) s
              in released_until t (reservations_of_action s (tc_org c) (act_id a)) s
          | _ \<Rightarrow> s)"

definition model_timeout_residue :: "uuid \<Rightarrow> db \<Rightarrow> db" where
  "model_timeout_residue call s =
     (case (get_model_call s call, model_ready_event s call) of
        (Some k, Some ev) \<Rightarrow>
          let t = now s; s = withdraw_model_call k ev s
          in settled_until t (reservations_of_model_call s (mc_org k) (mc_id k)) s
      | _ \<Rightarrow> s)"

subsection \<open>The work of a node\<close>

text \<open>A node stops the advance (it waits, or the execution has ended) or lets it go on with a new state.\<close>

datatype node_outcome = Stopped | Proceed execution_row json "string option"

definition stop :: "rs_error + db \<Rightarrow> rs_error + node_outcome \<times> db" where
  "stop result = rbind result (\<lambda>s. Inr (Stopped, s))"

definition set_key :: "string \<Rightarrow> json \<Rightarrow> json \<Rightarrow> json" where
  "set_key k x state = (case state of JObj kvs \<Rightarrow> JObj (dict_set k x kvs) | j \<Rightarrow> j)"

definition keep_state :: "digest \<Rightarrow> string \<Rightarrow> execution_row \<Rightarrow> execution_row" where
  "keep_state dig sealed e = e\<lparr>ex_state_digest := dig, ex_encrypted_state := sealed\<rparr>"

definition store_state ::
  "env \<Rightarrow> string \<Rightarrow> execution_row \<Rightarrow> json \<Rightarrow> string option \<Rightarrow> db \<Rightarrow> rs_error + node_outcome \<times> db" where
  "store_state v nonce e state resolution s =
     rbind (encrypt_execution_state v nonce state e) (\<lambda>sealed.
     let f = keep_state (digest_of v state) sealed
     in Inr (Proceed (f e) state resolution, upd_execution (ex_id e) f s))"

definition park :: "execution_row \<Rightarrow> run_row \<Rightarrow> outbox_row \<Rightarrow> (run_row \<Rightarrow> run_row) \<Rightarrow> db \<Rightarrow> db" where
  "park e r ev f s =
     (let s = upd_execution (ex_id e) (\<lambda>e. e\<lparr>ex_status := ExWaiting, ex_claim_hash := None, ex_lease_expires_at := None\<rparr>) s;
          s = upd_run (run_id r) f s
      in upd_outbox (ob_id ev) (\<lambda>ev. ev\<lparr>ob_processed_at := Some (now s)\<rparr>) s)"

definition waiting_at :: "wf_node \<Rightarrow> run_row \<Rightarrow> run_row" where
  "waiting_at n r = r\<lparr>run_status := RunWaiting, run_active_node := Some (node_id n)\<rparr>"

definition simulate_tool_node ::
  "env \<Rightarrow> py_values \<Rightarrow> (string \<Rightarrow> string) \<Rightarrow> execution_row \<Rightarrow> run_row \<Rightarrow> outbox_row \<Rightarrow> wf_node \<Rightarrow> json \<Rightarrow> db \<Rightarrow> rs_error + node_outcome \<times> db" where
  "simulate_tool_node v p nonces e r ev n state s =
     (let fail = (\<lambda>code s. stop (fail_execution v p e r ev state code s))
      in if find (\<lambda>k. ts_execution_id k = ex_id e \<and> ts_node_id k = node_id n \<and> ts_sequence k = ex_step_count e)
              (seen s ts_org (simulation_calls s)) \<noteq> None
         then fail ''workflow_tool_simulation_duplicate'' s
         else caught fail s (simulate_workflow_tool_call v p e r n state s) (\<lambda>((k, result), s).
              config_item n ''result_state_key'' (\<lambda>key.
              store_state v (nonces ''state'') e (set_key (py_str p key) result state) None s)))"

text \<open>The completed call, checked against the action, the intent and the evidence of its child run.\<close>

definition tool_result :: "env \<Rightarrow> tool_call_row \<Rightarrow> db \<Rightarrow> json option" where
  "tool_result v k s =
     (case (get_action s (tc_action_id k), get_intent s (tc_intent_id k)) of
        (Some a, Some i) \<Rightarrow>
          if find (\<lambda>q. ev_run_id q = tc_child_run_id k) (seen s ev_org (evidence s)) \<noteq> None \<and> act_run_id a = tc_child_run_id k \<and>
             act_state a = ActCommitted \<and> act_content_digest a = tc_action_content_digest k \<and>
             int_arguments_digest i = tc_arguments_digest k \<and> tc_result_digest k = Some (digest_of v (safe_tool_result a))
          then Some (safe_tool_result a) else None
      | _ \<Rightarrow> None)"

definition finish_tool_node ::
  "env \<Rightarrow> py_values \<Rightarrow> (string \<Rightarrow> string) \<Rightarrow> execution_row \<Rightarrow> run_row \<Rightarrow> outbox_row \<Rightarrow> wf_node \<Rightarrow> json \<Rightarrow> tool_call_row \<Rightarrow> db \<Rightarrow>
     rs_error + node_outcome \<times> db" where
  "finish_tool_node v p nonces e r ev n state k s =
     (let fail = (\<lambda>code s. stop (fail_execution v p e r ev state code s))
      in if tc_status k \<notin> set TERMINAL_TOOL_CALL_STATUSES then Inr (Stopped, park e r ev (waiting_at n) s)
         else if tc_status k \<noteq> TcCompleted \<or> tc_result_digest k = None
         then fail (''workflow_tool_'' @ tool_call_status_value (tc_status k)) s
         else case tool_result v k s of
           None \<Rightarrow> fail ''workflow_tool_result_invalid'' s
         | Some result \<Rightarrow> store_state v (nonces ''state'') e (set_key (tc_result_state_key k) result state) None s)"

definition timed_out_event :: "outbox_row \<Rightarrow> bool" where
  "timed_out_event ev \<longleftrightarrow> payload_value ev ''reason'' = Some (JStr ''timeout'')"

definition tool_node ::
  "env \<Rightarrow> py_values \<Rightarrow> (string \<Rightarrow> string) \<Rightarrow> execution_row \<Rightarrow> run_row \<Rightarrow> outbox_row \<Rightarrow> wf_node \<Rightarrow> json \<Rightarrow> wake \<Rightarrow> db \<Rightarrow>
     rs_error + node_outcome \<times> db" where
  "tool_node v p nonces e r ev n state woken s =
     (let fail = (\<lambda>code s. stop (fail_execution v p e r ev state code s));
          known = (case woken of WokenTool k \<Rightarrow> Some k
            | _ \<Rightarrow> find (\<lambda>k. tc_execution_id k = ex_id e \<and> tc_node_id k = node_id n \<and> tc_sequence k = ex_step_count e)
                     (seen s tc_org (tool_calls s)))
      in case known of
           None \<Rightarrow>
             caught fail (tool_call_residue v p e r n state s)
               (create_workflow_tool_call v p (nonces ''tool'') e r n state ev s) (\<lambda>(k, s). Inr (Stopped, s))
         | Some k \<Rightarrow>
             if timed_out_event ev \<and> tc_status k \<notin> set TERMINAL_TOOL_CALL_STATUSES \<and> tc_expires_at k \<le> now s
             then caught fail (tool_timeout_residue (tc_id k) (now s) s) (expire_workflow_tool_call v (tc_id k) (now s) s) (\<lambda>(st, s).
                  finish_tool_node v p nonces e r ev n state (case get_tool_call s (tc_id k) of None \<Rightarrow> k | Some k \<Rightarrow> k) s)
             else case get_tool_call s (tc_id k) of
                    None \<Rightarrow> fail ''workflow_tool_wake_mismatch'' s
                  | Some k \<Rightarrow> finish_tool_node v p nonces e r ev n state k s)"

definition finish_agent_node ::
  "env \<Rightarrow> py_values \<Rightarrow> (string \<Rightarrow> string) \<Rightarrow> execution_row \<Rightarrow> run_row \<Rightarrow> outbox_row \<Rightarrow> wf_node \<Rightarrow> json \<Rightarrow> model_call_row \<Rightarrow> db \<Rightarrow>
     rs_error + node_outcome \<times> db" where
  "finish_agent_node v p nonces e r ev n state k s =
     (let fail = (\<lambda>code s. stop (fail_execution v p e r ev state code s))
      in if mc_status k \<notin> set TERMINAL_MODEL_CALL_STATUSES then Inr (Stopped, park e r ev (waiting_at n) s)
         else if mc_status k \<noteq> ''completed'' then fail (''workflow_model_'' @ mc_status k) s
         else caught fail s (decrypt_model_output v k) (\<lambda>output.
              store_state v (nonces ''state'') e (set_key (mc_result_state_key k) output state) None s))"

definition agent_node ::
  "env \<Rightarrow> py_values \<Rightarrow> (string \<Rightarrow> string) \<Rightarrow> execution_row \<Rightarrow> run_row \<Rightarrow> outbox_row \<Rightarrow> wf_node \<Rightarrow> json \<Rightarrow> node_policy_row option \<Rightarrow>
     model_call_row option \<Rightarrow> db \<Rightarrow> rs_error + node_outcome \<times> db" where
  "agent_node v p nonces e r ev n state decision call s =
     (let fail = (\<lambda>code s. stop (fail_execution v p e r ev state code s))
      in case call of
           None \<Rightarrow>
             caught fail (model_call_residue v p (nonces ''model'') e r n decision state s)
               (create_workflow_model_call v p (nonces ''model'') e r n decision state ev s) (\<lambda>(k, s). Inr (Stopped, s))
         | Some k \<Rightarrow>
             if timed_out_event ev \<and> mc_status k \<notin> set TERMINAL_MODEL_CALL_STATUSES \<and> mc_expires_at k \<le> now s
             then caught fail (model_timeout_residue (mc_id k) s) (expire_model_call v (mc_id k) s) (\<lambda>(k, s).
                  finish_agent_node v p nonces e r ev n state k s)
             else case get_model_call s (mc_id k) of
                    None \<Rightarrow> fail ''workflow_model_wake_mismatch'' s
                  | Some k \<Rightarrow> finish_agent_node v p nonces e r ev n state k s)"

definition subworkflow_result :: "subworkflow_call_row \<Rightarrow> db \<Rightarrow> execution_row option" where
  "subworkflow_result k s =
     (case get_execution s (sc_child_execution_id k) of
        Some x \<Rightarrow> if ex_status x = ExCompleted \<and> ex_content_digest x = sc_child_content_digest k \<and>
                     sc_result_state_digest k = Some (ex_state_digest x) then Some x else None
      | None \<Rightarrow> None)"

definition subworkflow_node ::
  "env \<Rightarrow> py_values \<Rightarrow> (string \<Rightarrow> string) \<Rightarrow> execution_row \<Rightarrow> run_row \<Rightarrow> outbox_row \<Rightarrow> wf_node \<Rightarrow> json \<Rightarrow> wake \<Rightarrow> db \<Rightarrow>
     rs_error + node_outcome \<times> db" where
  "subworkflow_node v p nonces e r ev n state woken s =
     (let fail = (\<lambda>code s. stop (fail_execution v p e r ev state code s));
          call = (case woken of WokenCall k \<Rightarrow> Some k
            | _ \<Rightarrow> find (\<lambda>k. sc_parent_execution_id k = ex_id e \<and> sc_node_id k = node_id n \<and> sc_sequence k = ex_step_count e)
                     (seen s sc_org (subworkflow_calls s)))
      in case call of
           None \<Rightarrow>
             caught fail s (create_subworkflow_call v p (nonces ''child'', nonces ''child-checkpoint'') e r n state ev s)
               (\<lambda>(k, s). Inr (Stopped, s))
         | Some k \<Rightarrow>
             if sc_status k = ''pending'' then
               (if sc_expires_at k \<le> now s
                then fail ''workflow_subworkflow_timed_out'' (wake_child e ''timeout-child'' k
                  (upd_subworkflow_call (sc_id k) (\<lambda>k. k\<lparr>sc_status := ''timed_out'', sc_resolved_at := Some (now s)\<rparr>) s))
                else Inr (Stopped, park e r ev (\<lambda>r. r\<lparr>run_status := RunWaiting\<rparr>) s))
             else if sc_status k \<noteq> ''completed'' then fail (''workflow_subworkflow_'' @ sc_status k) s
             else case subworkflow_result k s of
               None \<Rightarrow> fail ''workflow_subworkflow_result_invalid'' s
             | Some x \<Rightarrow>
                 rbind (decrypt_execution_state v x) (\<lambda>result.
                 store_state v (nonces ''state'') e (set_key (sc_result_state_key k) result state) None s))"

definition wait_resolved ::
  "env \<Rightarrow> py_values \<Rightarrow> (string \<Rightarrow> string) \<Rightarrow> execution_row \<Rightarrow> run_row \<Rightarrow> outbox_row \<Rightarrow> wf_node \<Rightarrow> json \<Rightarrow> wait_row \<Rightarrow> db \<Rightarrow>
     rs_error + node_outcome \<times> db" where
  "wait_resolved v p nonces e r ev n state w s =
     (let invalid = stop (fail_execution v p e r ev state ''workflow_wait_resolution_invalid'' s)
      in case (wt_status w = ''resolved'', wt_resolution w) of
           (True, Some resolution) \<Rightarrow>
             rbind (verify_wait_resolution v w) (\<lambda>_.
             if node_type n = APPROVAL \<and> resolution \<notin> {''approved'', ''denied''} then invalid
             else if node_type n = TIMER \<and> resolution \<noteq> ''elapsed'' then invalid
             else if node_type n \<in> {EVENT, REQUEST_INFORMATION} then
               (if resolution \<noteq> ''received'' then invalid
                else config_item n ''state_key'' (\<lambda>key.
                     rbind (decrypt_wait_response v w) (\<lambda>response.
                     store_state v (nonces ''state'') e (set_key (py_str p key) response state) (Some resolution) s)))
             else Inr (Proceed e state (Some resolution), s))
         | _ \<Rightarrow> invalid)"

definition wait_node ::
  "env \<Rightarrow> py_values \<Rightarrow> (string \<Rightarrow> string) \<Rightarrow> execution_row \<Rightarrow> run_row \<Rightarrow> outbox_row \<Rightarrow> wf_node \<Rightarrow> json \<Rightarrow> wake \<Rightarrow> db \<Rightarrow>
     rs_error + node_outcome \<times> db" where
  "wait_node v p nonces e r ev n state woken s =
     (let fail = (\<lambda>code s. stop (fail_execution v p e r ev state code s)); t = now s;
          wait = (case woken of WokenWait w \<Rightarrow> Some w
            | _ \<Rightarrow> find (\<lambda>w. wt_execution_id w = ex_id e \<and> wt_node_id w = node_id n \<and> wt_sequence w = ex_step_count e)
                     (seen s wt_org (waits s)))
      in case wait of
           None \<Rightarrow>
             rbind (if node_type n = TIMER
                    then config_item n ''delay_seconds'' (\<lambda>j. rbind (py_int p j) (\<lambda>d. Inr (t + seconds d \<ge> ex_deadline_at e)))
                    else Inr False) (\<lambda>late.
             if late then fail ''workflow_wait_exceeds_deadline'' s
             else rbind (create_workflow_wait v p e r n ev s) (\<lambda>(w, s). Inr (Stopped, s)))
         | Some w \<Rightarrow>
             if wt_type w \<noteq> node_type_value (node_type n) then fail ''workflow_wait_wake_mismatch'' s
             else if wt_status w = ''pending'' then
               (if node_type n = TIMER \<and> (case wt_due_at w of None \<Rightarrow> False | Some d \<Rightarrow> d \<le> t)
                then let s = resolve_timer_wait v w s
                     in wait_resolved v p nonces e r ev n state (case get_wait s (wt_id w) of None \<Rightarrow> w | Some w \<Rightarrow> w) s
                else if wt_expires_at w \<le> t
                then fail ''workflow_wait_expired'' (upd_wait (wt_id w) (\<lambda>w. w\<lparr>wt_status := ''expired'',
                       wt_resolution := Some ''expired'', wt_resolved_at := Some t\<rparr>) s)
                else Inr (Stopped, park e r ev (\<lambda>r. r\<lparr>run_status := if node_type n = APPROVAL then RunWaitingForApproval else RunWaiting\<rparr>) s))
             else wait_resolved v p nonces e r ev n state w s)"

definition run_node ::
  "env \<Rightarrow> py_values \<Rightarrow> (string \<Rightarrow> string) \<Rightarrow> execution_row \<Rightarrow> run_row \<Rightarrow> outbox_row \<Rightarrow> wf_node \<Rightarrow> json \<Rightarrow> wake \<Rightarrow> node_policy_row option \<Rightarrow>
     model_call_row option \<Rightarrow> db \<Rightarrow> rs_error + node_outcome \<times> db" where
  "run_node v p nonces e r ev n state woken decision model_boundary s =
     (if node_type n = TOOL then
        (if ex_mode e = ''simulation'' then simulate_tool_node v p nonces e r ev n state s
         else tool_node v p nonces e r ev n state woken s)
      else if node_type n = AGENT then
        agent_node v p nonces e r ev n state decision (case woken of WokenModel k \<Rightarrow> Some k | _ \<Rightarrow> model_boundary) s
      else if node_type n = SUBWORKFLOW then subworkflow_node v p nonces e r ev n state woken s
      else if node_type n \<in> set WAIT_NODE_TYPES then wait_node v p nonces e r ev n state woken s
      else Inr (Proceed e state None, s))"

subsection \<open>The completion of a node\<close>

definition record_attempt :: "execution_row \<Rightarrow> wf_node \<Rightarrow> digest \<Rightarrow> digest \<Rightarrow> db \<Rightarrow> attempt_row \<times> db" where
  "record_attempt e n input_dig output_dig s =
     (let number = int (length (filter (\<lambda>q. na_execution_id q = ex_id e \<and> na_node_id q = node_id n) (seen s na_org (attempts s)))) + 1;
          (i, s) = uuid4 s;
          q = \<lparr>na_id = i, na_org = ex_org e, na_execution_id = ex_id e, na_run_id = ex_run_id e, na_node_id = node_id n,
               na_node_type = node_type_value (node_type n), na_attempt = number, na_status = ''completed'', na_input_digest = input_dig,
               na_output_digest = Some output_dig, na_started_at = now s, na_completed_at = Some (now s), na_error_code = None,
               na_created_at = now s\<rparr>
      in (q, s\<lparr>attempts := attempts s @ [q]\<rparr>))"

definition complete_execution ::
  "env \<Rightarrow> py_values \<Rightarrow> execution_row \<Rightarrow> run_row \<Rightarrow> wf_node \<Rightarrow> json \<Rightarrow> db \<Rightarrow> rs_error + db" where
  "complete_execution v p e r n state s =
     (let t = now s;
          f = (\<lambda>e. e\<lparr>ex_status := ExCompleted, ex_completed_at := Some t\<rparr>);
          g = (\<lambda>r. r\<lparr>run_status := RunCompleted, run_active_node := None, run_completed_at := Some t\<rparr>);
          s = upd_run (run_id r) g (upd_execution (ex_id e) f s);
          e = f e; r = g r;
          facts = [(''workflow_execution_id'', juuid (ex_id e)), (''state_digest'', JStr (ex_state_digest e)),
                   (''path_digest'', JStr (digest_of v (jtexts (ex_path e)))), (''step_count'', JInt (ex_step_count e))]
      in rbind (settle_dependents v p e r state None s) (\<lambda>s.
         let s = trace_event v (ex_org e) (ex_run_id e) (node_id n) ''workflow.completed'' ''completed''
                   (JObj (facts @ [(''raw_content_captured'', JBool False)])) s
         in seal_workflow_evidence v e (audit v (ex_org e) (run_actor_id r) ''workflow.completed'' ''run'' (run_id r) (ex_content_digest e)
              (JObj facts) s)))"

definition requeue_execution :: "execution_row \<Rightarrow> run_row \<Rightarrow> db \<Rightarrow> db" where
  "requeue_execution e r s =
     (let s = upd_execution (ex_id e) (\<lambda>e. e\<lparr>ex_status := ExQueued\<rparr>) s;
          s = upd_run (run_id r) (\<lambda>r. r\<lparr>run_status := RunQueued, run_active_node := Some (hd (sort (ex_current_nodes e)))\<rparr>) s
      in add_outbox (ex_org e) ''workflow.ready'' ''workflow_execution'' (ex_id e)
           (''workflow.ready:'' @ uuid_str (ex_id e) @ '':'' @ int_str (ex_version e))
           (JObj [(''workflow_execution_id'', juuid (ex_id e)), (''content_digest'', JStr (ex_content_digest e))]) (now s) s)"

definition finish_node ::
  "env \<Rightarrow> py_values \<Rightarrow> (string \<Rightarrow> string) \<Rightarrow> wf_definition \<Rightarrow> execution_row \<Rightarrow> run_row \<Rightarrow> outbox_row \<Rightarrow> wf_node \<Rightarrow> digest \<Rightarrow> json \<Rightarrow>
     string option \<Rightarrow> db \<Rightarrow> rs_error + db" where
  "finish_node v p nonces d e r ev n input_dig state resolution s =
     (let (q, s) = record_attempt e n input_dig (ex_state_digest e) s
      in rbind (next_nodes p n d state (ex_loop_counts e) resolution) (\<lambda>(nexts, counts).
         let f = complete_node (node_id n) nexts counts;
             s = upd_execution (ex_id e) f s;
             e = f e;
             s = trace_event v (ex_org e) (ex_run_id e) (node_id n) ''workflow.node_completed'' ''completed''
                   (JObj [(''workflow_execution_id'', juuid (ex_id e)), (''node_type'', JStr (node_type_value (node_type n))),
                          (''attempt'', JInt (na_attempt q)), (''input_digest'', JStr (na_input_digest q)),
                          (''output_digest'', jopt JStr (na_output_digest q)), (''raw_content_captured'', JBool False)]) s
         in rbind (create_checkpoint v (nonces ''checkpoint'') e state (node_id n) None s) (\<lambda>(cp, s).
            let s = upd_outbox (ob_id ev) (\<lambda>ev. ev\<lparr>ob_processed_at := Some (now s)\<rparr>) s
            in if ex_current_nodes e = [] then complete_execution v p e r n state s
               else Inr (requeue_execution e r s))))"

subsection \<open>The advance\<close>

definition advance_node ::
  "env \<Rightarrow> py_values \<Rightarrow> (string \<Rightarrow> string) \<Rightarrow> wf_definition \<Rightarrow> execution_row \<Rightarrow> run_row \<Rightarrow> outbox_row \<Rightarrow> json \<Rightarrow> wf_node \<Rightarrow> wake \<Rightarrow>
     tool_call_row option \<Rightarrow> model_call_row option \<Rightarrow> db \<Rightarrow> rs_error + db" where
  "advance_node v p nonces d e r ev state n woken tool_boundary model_boundary s =
     (let go = (\<lambda>decision s.
            rbind (run_node v p nonces e r ev n state woken decision model_boundary s) (\<lambda>(outcome, s).
            case outcome of
              Stopped \<Rightarrow> Inr s
            | Proceed e' state' resolution \<Rightarrow> finish_node v p nonces d e' r ev n (ex_state_digest e) state' resolution s));
          fail = fail_execution v p e r ev state
      in if (node_type n = TOOL \<and> tool_boundary \<noteq> None) \<or> (node_type n = AGENT \<and> model_boundary \<noteq> None) then go None s
         else caught fail s (evaluate_workflow_node_policy v p e r n s) (\<lambda>(decision, s).
              caught fail s (require_executable_policy_effect decision) (\<lambda>_. go decision s)))"

definition advance_claimed ::
  "env \<Rightarrow> py_values \<Rightarrow> (string \<Rightarrow> string) \<Rightarrow> execution_row \<Rightarrow> run_row \<Rightarrow> version_row \<Rightarrow> outbox_row \<Rightarrow> json \<Rightarrow> db \<Rightarrow> rs_error + db" where
  "advance_claimed v p nonces e r ver ev state s =
     (let fail = fail_execution v p e r ev state;
          tool_boundary = find (\<lambda>k. tc_execution_id k = ex_id e \<and> tc_sequence k = ex_step_count e) (seen s tc_org (tool_calls s));
          model_boundary = find (\<lambda>k. mc_execution_id k = ex_id e \<and> mc_sequence k = ex_step_count e) (seen s mc_org (model_calls s))
      in if (case find (\<lambda>k. sc_child_execution_id k = ex_id e) (seen s sc_org (subworkflow_calls s)) of
               None \<Rightarrow> False | Some k \<Rightarrow> sc_status k \<in> {''cancelled'', ''timed_out''})
         then cancel_claimed_execution v p e r ev state ''parent_subworkflow_cancelled'' s
         else if ex_deadline_at e \<le> now s \<and> tool_boundary = None \<and> model_boundary = None
         then fail ''workflow_deadline_exceeded'' s
         else if ex_step_count e \<ge> ex_max_steps e then fail ''workflow_step_limit_exceeded'' s
         else
           rbind (load_definition p (wv_definition ver)) (\<lambda>d.
           if digest_of v (definition_json d) \<noteq> wv_definition_digest ver then fail ''workflow_definition_digest_mismatch'' s
           else if ready_nodes d e = [] then fail ''workflow_no_ready_node'' s
           else case select_node p e (ready_nodes d e) ev s of
             Inl code \<Rightarrow> fail code s
           | Inr (k, woken) \<Rightarrow>
               fetch (node_by_id d k) (PyKeyError k) (\<lambda>n.
               advance_node v p nonces d e r ev state n woken tool_boundary model_boundary s)))"

definition advance :: "env \<Rightarrow> py_values \<Rightarrow> (string \<Rightarrow> string) \<Rightarrow> claimed_execution \<Rightarrow> db \<Rightarrow> rs_error + db" where
  "advance v p nonces cl s =
     (case (get_execution s (cw_execution_id cl), get_event s (cw_event_id cl)) of
        (Some e, Some ev) \<Rightarrow>
          if ob_processed_at ev \<noteq> None \<or> ex_status e \<noteq> ExRunning \<or> ex_claim_hash e \<noteq> Some (claim_hash v (cw_token cl)) then Inr s
          else
            let lost = PyRuntimeError ''claimed workflow lineage disappeared''
            in fetch (get_run s (ex_run_id e)) lost (\<lambda>r.
               fetch (get_version s (ex_version_id e)) lost (\<lambda>ver.
               rbind (decrypt_execution_state v e) (\<lambda>state.
               advance_claimed v p nonces e r ver ev state s)))
      | _ \<Rightarrow> Inr s)"

text \<open>One pass of the worker: up to three transactions, each of which commits before the next begins.\<close>

definition process_workflow_once ::
  "env \<Rightarrow> py_values \<Rightarrow> string \<Rightarrow> (string \<Rightarrow> string) \<Rightarrow> db \<Rightarrow> (rs_error + bool) \<times> db" where
  "process_workflow_once v p token nonces s =
     (case transaction (finalize_cancelled_once v p) s of
        (Inl err, s) \<Rightarrow> (Inl err, s)
      | (Inr True, s) \<Rightarrow> (Inr True, s)
      | (Inr False, s) \<Rightarrow>
          case transaction (claim_workflow_ready v token) s of
            (Inl err, s) \<Rightarrow> (Inl err, s)
          | (Inr None, s) \<Rightarrow> (Inr False, s)
          | (Inr (Some cl), s) \<Rightarrow> transaction (\<lambda>s. rbind (advance v p nonces cl s) (\<lambda>s. Inr (True, s))) s)"

end
