(* ===== verification/RS_Engine_Steps.thy ===== *)
theory RS_Engine_Steps
  imports RS_Engine
begin

section \<open>What the engine changes\<close>

text \<open>
  Every pass of the engine changes one execution at most, and its place in the workflow only by a step
  of the abstract engine.
\<close>

definition routing :: "execution_row \<Rightarrow> string list \<times> string list \<times> string list \<times> (string \<times> int) list \<times> int \<times> int" where
  "routing e = (ex_current_nodes e, ex_completed_nodes e, ex_path e, ex_loop_counts e, ex_step_count e, ex_max_steps e)"

text \<open>Rows other than \<open>k\<close> keep their values, and row \<open>k\<close> its place.\<close>

definition touches :: "uuid \<Rightarrow> db \<Rightarrow> db \<Rightarrow> bool" where
  "touches k s s' \<longleftrightarrow> (\<exists>f extra. executions s' = tupd ex_id k f (executions s) @ extra \<and>
     (\<forall>e. ex_id (f e) = ex_id e \<and> routing (f e) = routing e))"

lemma tupd_identity [simp]: "tupd key k (\<lambda>r. r) rows = rows"
  by (simp add: tupd_def)

lemma touches_same: "executions s' = executions s \<Longrightarrow> touches k s s'"
  unfolding touches_def by (intro exI [of _ "\<lambda>e. e"] exI [of _ "[]"]) simp

lemma touches_refl [simp]: "touches k s s"
  by (rule touches_same) simp

lemma tupd_append: "tupd key k f (xs @ ys) = tupd key k f xs @ tupd key k f ys"
  by (simp add: tupd_def)

lemma touches_trans:
  assumes "touches k s t" and "touches k t u"
  shows "touches k s u"
proof -
  obtain f xs where f: "executions t = tupd ex_id k f (executions s) @ xs" "\<And>e. ex_id (f e) = ex_id e \<and> routing (f e) = routing e"
    using assms(1) by (auto simp: touches_def)
  obtain g ys where g: "executions u = tupd ex_id k g (executions t) @ ys" "\<And>e. ex_id (g e) = ex_id e \<and> routing (g e) = routing e"
    using assms(2) by (auto simp: touches_def)
  have "executions u = tupd ex_id k (\<lambda>e. g (f e)) (executions s) @ (tupd ex_id k g xs @ ys)"
    by (simp add: f(1) g(1) tupd_append) (simp add: tupd_tupd f(2))
  then show ?thesis unfolding touches_def using f(2) g(2) by (intro exI [of _ "\<lambda>e. g (f e)"]) auto
qed

lemma touches_upd:
  assumes "executions s' = tupd ex_id k f (executions s)" and "\<And>e. ex_id (f e) = ex_id e \<and> routing (f e) = routing e"
  shows "touches k s s'"
  unfolding touches_def using assms by (intro exI [of _ f] exI [of _ "[]"]) simp

lemma touches_cong: "executions s1 = executions s \<Longrightarrow> executions s1' = executions s' \<Longrightarrow> touches k s1 s1' = touches k s s'"
  by (simp add: touches_def)

subsection \<open>The end of an execution\<close>

lemma wake_child_frame [simp]:
  "executions (wake_child e reason k s) = executions s" "now (wake_child e reason k s) = now s" "tenant (wake_child e reason k s) = tenant s"
  "waits (wake_child e reason k s) = waits s" "subworkflow_calls (wake_child e reason k s) = subworkflow_calls s"
  "runs (wake_child e reason k s) = runs s" "evidence (wake_child e reason k s) = evidence s" "versions (wake_child e reason k s) = versions s"
  by (simp_all add: wake_child_def)

lemma cancel_waits_fold:
  "executions (fold (\<lambda>w. upd_wait (wt_id w) (cancelled_wait t)) ws s) = executions s"
  "now (fold (\<lambda>w. upd_wait (wt_id w) (cancelled_wait t)) ws s) = now s"
  "tenant (fold (\<lambda>w. upd_wait (wt_id w) (cancelled_wait t)) ws s) = tenant s"
  "subworkflow_calls (fold (\<lambda>w. upd_wait (wt_id w) (cancelled_wait t)) ws s) = subworkflow_calls s"
  "runs (fold (\<lambda>w. upd_wait (wt_id w) (cancelled_wait t)) ws s) = runs s"
  "evidence (fold (\<lambda>w. upd_wait (wt_id w) (cancelled_wait t)) ws s) = evidence s"
  "versions (fold (\<lambda>w. upd_wait (wt_id w) (cancelled_wait t)) ws s) = versions s"
  by (induction ws arbitrary: s) simp_all

lemma cancel_waits_rest [simp]:
  "executions (cancel_waits e s) = executions s" "now (cancel_waits e s) = now s" "tenant (cancel_waits e s) = tenant s"
  "subworkflow_calls (cancel_waits e s) = subworkflow_calls s" "runs (cancel_waits e s) = runs s"
  "evidence (cancel_waits e s) = evidence s" "versions (cancel_waits e s) = versions s"
  by (simp_all add: cancel_waits_def cancel_waits_fold)

lemma cancel_calls_fold:
  "executions (fold (\<lambda>k s. wake_child e reason k (upd_subworkflow_call (sc_id k) (cancelled_call (now s)) s)) ks s) = executions s"
  "now (fold (\<lambda>k s. wake_child e reason k (upd_subworkflow_call (sc_id k) (cancelled_call (now s)) s)) ks s) = now s"
  "tenant (fold (\<lambda>k s. wake_child e reason k (upd_subworkflow_call (sc_id k) (cancelled_call (now s)) s)) ks s) = tenant s"
  "waits (fold (\<lambda>k s. wake_child e reason k (upd_subworkflow_call (sc_id k) (cancelled_call (now s)) s)) ks s) = waits s"
  "runs (fold (\<lambda>k s. wake_child e reason k (upd_subworkflow_call (sc_id k) (cancelled_call (now s)) s)) ks s) = runs s"
  "evidence (fold (\<lambda>k s. wake_child e reason k (upd_subworkflow_call (sc_id k) (cancelled_call (now s)) s)) ks s) = evidence s"
  "versions (fold (\<lambda>k s. wake_child e reason k (upd_subworkflow_call (sc_id k) (cancelled_call (now s)) s)) ks s) = versions s"
  by (induction ks arbitrary: s) simp_all

lemma cancel_calls_frame [simp]:
  "executions (cancel_calls e reason s) = executions s" "now (cancel_calls e reason s) = now s" "tenant (cancel_calls e reason s) = tenant s"
  "waits (cancel_calls e reason s) = waits s" "runs (cancel_calls e reason s) = runs s"
  "evidence (cancel_calls e reason s) = evidence s" "versions (cancel_calls e reason s) = versions s"
  by (simp_all add: cancel_calls_def cancel_calls_fold)

lemma end_rows_frame [simp]:
  "executions (end_rows e r ev st rst reason code s) = tupd ex_id (ex_id e) (ended st code (now s)) (executions s)"
  "now (end_rows e r ev st rst reason code s) = now s" "tenant (end_rows e r ev st rst reason code s) = tenant s"
  "waits (end_rows e r ev st rst reason code s) = waits (cancel_waits e s)"
  "subworkflow_calls (end_rows e r ev st rst reason code s) = subworkflow_calls (cancel_calls e reason (cancel_waits e s))"
  "evidence (end_rows e r ev st rst reason code s) = evidence s" "versions (end_rows e r ev st rst reason code s) = versions s"
  by (simp_all add: end_rows_def Let_def written_workflow_rows)

lemma ended_routing [simp]: "ex_id (ended st code t e) = ex_id e" "routing (ended st code t e) = routing e"
  "ex_status (ended st code t e) = st" "ex_run_id (ended st code t e) = ex_run_id e" "ex_org (ended st code t e) = ex_org e"
  "ex_version_id (ended st code t e) = ex_version_id e"
  by (simp_all add: ended_def routing_def)

lemma upd_evaluation_rest [simp]:
  "executions (upd_evaluation k f s) = executions s" "waits (upd_evaluation k f s) = waits s"
  "subworkflow_calls (upd_evaluation k f s) = subworkflow_calls s" "runs (upd_evaluation k f s) = runs s"
  "evidence (upd_evaluation k f s) = evidence s" "versions (upd_evaluation k f s) = versions s"
  by (simp_all add: upd_evaluation_def)

text \<open>The tables that the settlement of an evaluation leaves alone.\<close>

definition quiet :: "db \<Rightarrow> db \<Rightarrow> bool" where
  "quiet s s' \<longleftrightarrow> executions s' = executions s \<and> waits s' = waits s \<and> subworkflow_calls s' = subworkflow_calls s \<and> runs s' = runs s \<and>
     evidence s' = evidence s \<and> versions s' = versions s \<and> tenant s' = tenant s \<and> now s' = now s"

lemma complete_evaluation_quiet: "complete_evaluation v el s = Inr s' \<Longrightarrow> quiet s s'"
  by (auto simp: quiet_def complete_evaluation_def Let_def ok_iff split: if_splits)

lemma settle_evaluation_quiet: "settle_evaluation_execution v p e state failed s = Inr s' \<Longrightarrow> quiet s s'"
  by (auto simp: quiet_def settle_evaluation_execution_def Let_def ok_iff uuid4_def dest!: complete_evaluation_quiet [unfolded quiet_def]
      split: if_splits option.splits)

lemma settle_replay_frame [simp]:
  "executions (settle_workflow_replay v e s) = executions s" "waits (settle_workflow_replay v e s) = waits s"
  "subworkflow_calls (settle_workflow_replay v e s) = subworkflow_calls s" "runs (settle_workflow_replay v e s) = runs s"
  "evidence (settle_workflow_replay v e s) = evidence s" "versions (settle_workflow_replay v e s) = versions s"
  "tenant (settle_workflow_replay v e s) = tenant s" "now (settle_workflow_replay v e s) = now s"
  by (simp_all add: settle_workflow_replay_def Let_def split: option.split)

lemma settle_parent_frame [simp]:
  "executions (settle_parent_subworkflow_call v e r s) = executions s" "waits (settle_parent_subworkflow_call v e r s) = waits s"
  "runs (settle_parent_subworkflow_call v e r s) = runs s" "evidence (settle_parent_subworkflow_call v e r s) = evidence s"
  "versions (settle_parent_subworkflow_call v e r s) = versions s" "tenant (settle_parent_subworkflow_call v e r s) = tenant s"
  by (simp_all add: settle_parent_subworkflow_call_def record_settled_def Let_def split: option.split)

lemma settle_parent_calls:
  "\<exists>f. subworkflow_calls (settle_parent_subworkflow_call v e r s) = map f (subworkflow_calls s) \<and>
     (\<forall>k. sc_id (f k) = sc_id k \<and> sc_parent_execution_id (f k) = sc_parent_execution_id k \<and> sc_org (f k) = sc_org k \<and> (f k = k \<or> sc_status (f k) \<noteq> ''pending''))"
proof (cases "\<exists>k. find (\<lambda>k. sc_child_execution_id k = ex_id e) (seen s sc_org (subworkflow_calls s)) = Some k \<and> sc_status k = ''pending''")
  case True
  then obtain k where "find (\<lambda>k. sc_child_execution_id k = ex_id e) (seen s sc_org (subworkflow_calls s)) = Some k" "sc_status k = ''pending''"
    by blast
  then show ?thesis
    by (intro exI [of _ "\<lambda>q. if sc_id q = sc_id k then settled e (now s) q else q"])
      (auto simp: settle_parent_subworkflow_call_def tupd_def, simp add: settled_def)
next
  case False
  then show ?thesis
    by (intro exI [of _ "\<lambda>q. q"]) (auto simp: settle_parent_subworkflow_call_def split: option.splits)
qed

lemma settle_dependents_frame:
  assumes "settle_dependents v p e r state failed s = Inr s'"
  shows "executions s' = executions s" "waits s' = waits s" "runs s' = runs s" "evidence s' = evidence s" "versions s' = versions s"
    "tenant s' = tenant s"
  using assms by (auto simp: settle_dependents_def ok_iff dest!: settle_evaluation_quiet [unfolded quiet_def])

lemma seal_frame:
  assumes "seal_workflow_evidence v e s = Inr s'"
  shows "executions s' = executions s" "waits s' = waits s" "subworkflow_calls s' = subworkflow_calls s" "runs s' = runs s" "tenant s' = tenant s"
  using assms by (auto simp: seal_workflow_evidence_def Let_def ok_iff uuid4_def split: if_splits)

lemma fail_touches:
  assumes "fail_execution v p e r ev state code s = Inr s'"
  shows "touches (ex_id e) s s'"
proof (rule touches_upd)
  show "executions s' = tupd ex_id (ex_id e) (ended ExFailed code (now s)) (executions s)"
    using assms by (auto simp: fail_execution_def Let_def ok_iff dest!: settle_dependents_frame(1) seal_frame(1))
qed simp

lemma cancel_claimed_touches:
  assumes "cancel_claimed_execution v p e r ev state code s = Inr s'"
  shows "touches (ex_id e) s s'"
proof (rule touches_upd)
  show "executions s' = tupd ex_id (ex_id e) (ended ExCancelled code (now s)) (executions s)"
    using assms by (auto simp: cancel_claimed_execution_def Let_def ok_iff dest!: settle_dependents_frame(1) seal_frame(1))
qed simp

subsection \<open>The services a node calls\<close>

lemma simulate_frame: "simulate_workflow_tool_call v p e r n state s = Inr (x, s') \<Longrightarrow> executions s' = executions s"
  by (auto simp: simulate_workflow_tool_call_def Let_def config_item_def config_uuid_item_def ok_iff uuid4_def split: sum.splits)
    (metis sumE)

lemma release_loop_executions: "release_loop t rs s = Inr s' \<Longrightarrow> executions s' = executions s"
  by (induction rs arbitrary: s) (auto simp: take_back_def split: if_splits option.splits)

lemma settle_loop_executions: "settle_loop unsafe negative t c u rs s = Inr s' \<Longrightarrow> executions s' = executions s"
  by (induction rs arbitrary: s) (auto simp: take_back_def Let_def split: if_splits option.splits)

lemma released_until_executions [simp]: "executions (released_until t rs s) = executions s"
  by (induction rs arbitrary: s) (auto split: sum.split simp del: release_loop.simps dest: release_loop_executions)

lemma settled_until_executions [simp]: "executions (settled_until t rs s) = executions s"
  by (induction rs arbitrary: s) (auto split: sum.split simp del: settle_loop.simps dest: settle_loop_executions)

lemma add_lineage_executions: "executions (snd (add_lineage v c req a b d pc s)) = executions s"
  by (simp add: add_lineage_def Let_def uuid4_def split_beta)

lemma reserve_executions: "reserve_budgets c run est t ttl s = Inr (rs, s') \<Longrightarrow> executions s' = executions s"
proof -
  assume "reserve_budgets c run est t ttl s = Inr (rs, s')"
  then have "s' = snd (add_reservations (bc_org c) run est (t + ttl) (applicable_budgets s c est) s)"
    by (metis reserve_budgets_cases snd_conv)
  moreover have "executions (snd (add_reservations org r est t bs s)) = executions s" for org r t bs s
    by (induction bs arbitrary: s) (simp_all add: Let_def uuid4_def split_beta)
  ultimately show ?thesis by simp
qed

lemma add_approval_executions: "add_approval v c req d run intent content s = (x, s') \<Longrightarrow> executions s' = executions s"
  by (auto simp: add_approval_def Let_def uuid4_def split: if_splits)

lemma announce_action_executions [simp]: "executions (announce_action v c d run dec approval act content r rs s) = executions s"
  by (simp add: announce_action_def Let_def split: option.split)

lemma governed_action_executions:
  assumes "create_governed_action v c req nonce s = Inr (run, s')"
  shows "executions s' = executions s"
  using assms
proof (cases rule: create_ok)
  case (new p e a b d run' intent dec content s1 rs s2 reservation approval s3 key)
  have "executions s1 = executions s" using add_lineage_executions [of v c req a b d _ s] new(4) by (metis snd_conv)
  with reserve_executions [OF new(5)] add_approval_executions [OF new(7)] show ?thesis
    by (simp add: new(10) link_action_reservations_def)
qed simp

lemma waiting_routing:
  "ex_id (e\<lparr>ex_status := ExWaiting, ex_claim_hash := None, ex_lease_expires_at := None\<rparr>) = ex_id e \<and>
     routing (e\<lparr>ex_status := ExWaiting, ex_claim_hash := None, ex_lease_expires_at := None\<rparr>) = routing e"
  "ex_id (e\<lparr>ex_status := ExWaiting, ex_version := ex_version e + 1, ex_claim_hash := None, ex_lease_expires_at := None\<rparr>) = ex_id e \<and>
     routing (e\<lparr>ex_status := ExWaiting, ex_version := ex_version e + 1, ex_claim_hash := None, ex_lease_expires_at := None\<rparr>) = routing e"
  by (simp_all add: routing_def)

lemma tool_call_touches:
  assumes "create_workflow_tool_call v p nonce e r n state ev s = Inr (k, s')"
  shows "touches (ex_id e) s s'"
proof (rule touches_upd)
  show "executions s' = tupd ex_id (ex_id e) (\<lambda>e. e\<lparr>ex_status := ExWaiting, ex_claim_hash := None, ex_lease_expires_at := None\<rparr>) (executions s)"
    using assms
    by (auto simp: create_workflow_tool_call_def ok_iff config_item_def Let_def uuid4_def announce_tool_call_def written_workflow_rows
        dest!: governed_action_executions)
qed (rule waiting_routing)

lemma tool_residue_executions: "executions (tool_call_residue v p e r n state s) = executions s"
  by (auto simp: tool_call_residue_def ok_iff Let_def add_lineage_executions split: sum.split option.splits)

lemma release_executions: "release_action_reservations org act t s = Inr (rs, s') \<Longrightarrow> executions s' = executions s"
  by (auto simp: release_action_reservations_def split: sum.splits dest: release_loop_executions)

lemma settle_tool_call_executions [simp]: "executions (settle_workflow_tool_call v c a t s) = executions s"
  by (simp add: settle_workflow_tool_call_def Let_def resume_workflow_def split: option.split action_state.split)

lemma withdraw_executions: "withdraw_before_effect v call c a child approval ready t s = Inr (x, s') \<Longrightarrow> executions s' = executions s"
  by (auto simp: withdraw_before_effect_def Let_def ok_iff dest!: release_executions split: option.splits)

lemma expire_tool_executions: "expire_workflow_tool_call v call t s = Inr (x, s') \<Longrightarrow> executions s' = executions s"
  by (auto simp: expire_workflow_tool_call_def Let_def dest!: withdraw_executions split: option.splits if_splits)

lemma withdrawn_executions [simp]: "executions (withdrawn t a child p ready s) = executions s"
  by (simp add: withdrawn_def Let_def split: option.split)

lemma tool_timeout_residue_executions [simp]: "executions (tool_timeout_residue call t s) = executions s"
  by (simp add: tool_timeout_residue_def Let_def split: option.split)

lemma model_timeout_residue_executions [simp]: "executions (model_timeout_residue call s) = executions s"
  by (simp add: model_timeout_residue_def Let_def withdraw_model_call_def split: option.split)

lemma add_model_executions: "add_model_call v p nonce e r n decision state s = Inr (x, s') \<Longrightarrow> executions s' = executions s"
  by (auto simp: add_model_call_def config_item_def ok_iff uuid4_def Let_def)

lemma model_residue_executions [simp]: "executions (model_call_residue v p nonce e r n decision state s) = executions s"
  by (auto simp: model_call_residue_def split: sum.split dest: add_model_executions)

lemma model_call_touches:
  assumes "create_workflow_model_call v p nonce e r n decision state ev s = Inr (k, s')"
  shows "touches (ex_id e) s s'"
proof (rule touches_upd)
  show "executions s' = tupd ex_id (ex_id e) (\<lambda>e. e\<lparr>ex_status := ExWaiting, ex_claim_hash := None, ex_lease_expires_at := None\<rparr>) (executions s)"
    using assms
    by (auto simp: create_workflow_model_call_def ok_iff announce_model_call_def Let_def written_workflow_rows link_model_call_reservations_def
        dest!: add_model_executions reserve_executions)
qed (rule waiting_routing)

lemma settle_model_executions: "settle_model_call_reservations org k t c u s = Inr (rs, s') \<Longrightarrow> executions s' = executions s"
  by (auto simp: settle_model_call_reservations_def split: sum.splits dest: settle_loop_executions)

lemma expire_model_executions:
  assumes "expire_model_call v call s = Inr (k, s')"
  shows "executions s' = executions s"
  using assms
proof (cases rule: expire_model_callE)
  case (out c ev rs s1 data)
  then show ?thesis using settle_model_executions [OF out(3)] by (simp add: withdraw_model_call_def Let_def)
qed simp_all

lemma create_execution_rows:
  assumes "create_execution_records v p c nonces dep x s = Inr (run, s')"
  shows "\<exists>extra. executions s' = executions s @ extra"
  using assms
  by (auto simp: create_execution_records_def ok_iff Let_def uuid4_def create_checkpoint_def announce_execution_def split: option.splits)

lemma subworkflow_call_touches:
  assumes "create_subworkflow_call v p nonces e r n state ev s = Inr (k, s')"
  shows "touches (ex_id e) s s'"
proof -
  from assms obtain child x run s1 where create: "create_execution_records v p (child_actor e r) nonces child x s = Inr (run, s1)"
    and s': "executions s' = tupd ex_id (ex_id e) (\<lambda>e. e\<lparr>ex_status := ExWaiting, ex_version := ex_version e + 1, ex_claim_hash := None,
        ex_lease_expires_at := None\<rparr>) (executions s1)"
    by (auto simp: create_subworkflow_call_def ok_iff config_item_def Let_def uuid4_def announce_subworkflow_call_def written_workflow_rows)
  obtain extra where "executions s1 = executions s @ extra" using create_execution_rows [OF create] by blast
  then have "touches (ex_id e) s s1" unfolding touches_def by (intro exI [of _ "\<lambda>e. e"] exI [of _ extra]) simp
  moreover have "touches (ex_id e) s1 s'" using s' waiting_routing(2) by (rule touches_upd)
  ultimately show ?thesis by (rule touches_trans)
qed

lemma wait_touches:
  assumes "create_workflow_wait v p e r n ev s = Inr (w, s')"
  shows "touches (ex_id e) s s'"
proof (rule touches_upd)
  show "executions s' = tupd ex_id (ex_id e) (\<lambda>e. e\<lparr>ex_status := ExWaiting, ex_version := ex_version e + 1, ex_claim_hash := None,
        ex_lease_expires_at := None\<rparr>) (executions s)"
    using assms by (auto simp: create_workflow_wait_def ok_iff Let_def uuid4_def written_workflow_rows)
qed (rule waiting_routing)

lemma decide_node_executions: "decide_node v e r n b c dig ev s = Inr (d, s') \<Longrightarrow> executions s' = executions s"
  by (auto simp: decide_node_def announce_node_decision_def ok_iff Let_def uuid4_def)

lemma policy_executions:
  assumes "evaluate_workflow_node_policy v p e r n s = Inr (d, s')"
  shows "executions s' = executions s"
proof (cases "node_policy_bundle_id n")
  case None
  with assms show ?thesis by (simp add: evaluate_workflow_node_policy_def)
next
  case (Some i)
  with assms show ?thesis
    by (cases "last_by np_evaluation (node_decisions e n s)")
      (auto simp: evaluate_workflow_node_policy_def Let_def ok_iff split: if_splits dest: decide_node_executions)
qed

subsection \<open>A node\<close>

text \<open>
  A node keeps the place of its execution; if the advance goes on, then with the same place and
  with a row of the same identity.
\<close>

definition node_ok :: "execution_row \<Rightarrow> db \<Rightarrow> rs_error + node_outcome \<times> db \<Rightarrow> bool" where
  "node_ok e s result \<longleftrightarrow>
     (\<forall>outcome s'. result = Inr (outcome, s') \<longrightarrow> touches (ex_id e) s s' \<and>
        (\<forall>e' state' res. outcome = Proceed e' state' res \<longrightarrow> ex_id e' = ex_id e \<and> routing e' = routing e))"

lemma node_ok_stop: "\<forall>s'. result = Inr s' \<longrightarrow> touches (ex_id e) s s' \<Longrightarrow> node_ok e s (stop result)"
  by (auto simp: node_ok_def stop_def ok_iff)

lemma node_ok_fail: "touches (ex_id e) s s1 \<Longrightarrow> node_ok e s (stop (fail_execution v p e r ev state code s1))"
  by (rule node_ok_stop) (auto intro: touches_trans fail_touches)

lemma node_ok_caught:
  assumes "touches (ex_id e) s residue" and "\<And>x. result = Inr x \<Longrightarrow> node_ok e s (f x)"
  shows "node_ok e s (caught (\<lambda>code s. stop (fail_execution v p e r ev state code s)) residue result f)"
  using assms by (auto simp: caught_def split: sum.split rs_error.split intro: node_ok_fail) (auto simp: node_ok_def)

lemma node_ok_Inl [simp]: "node_ok e s (Inl err)"
  by (simp add: node_ok_def)

lemma node_ok_Stopped: "touches (ex_id e) s s' \<Longrightarrow> node_ok e s (Inr (Stopped, s'))"
  by (simp add: node_ok_def)

lemma node_ok_bind: "(\<And>x. result = Inr x \<Longrightarrow> node_ok e s (f x)) \<Longrightarrow> node_ok e s (rbind result f)"
  by (cases result) (simp_all add: handler_eval)

lemma node_ok_config: "(\<And>j. node_ok e s (f j)) \<Longrightarrow> node_ok e s (config_item n k f)"
  by (auto simp: config_item_def fetch_def split: option.split)

lemma store_state_ok: "touches (ex_id e) s s1 \<Longrightarrow> node_ok e s (store_state v nonce e state res s1)"
proof -
  assume "touches (ex_id e) s s1"
  moreover have "touches (ex_id e) s1 (upd_execution (ex_id e) (keep_state dig sealed) s1)" for dig sealed
    by (rule touches_upd [of _ _ "keep_state dig sealed"]) (simp_all add: written_workflow_rows keep_state_def routing_def)
  ultimately show ?thesis
    by (auto simp: store_state_def node_ok_def ok_iff Let_def keep_state_def routing_def intro: touches_trans)
qed

lemma park_touches: "touches (ex_id e) s s1 \<Longrightarrow> touches (ex_id e) s (park e r ev f s1)"
  by (rule touches_trans, assumption, rule touches_upd [OF _ waiting_routing(1)]) (simp add: park_def Let_def written_workflow_rows)

lemmas node_ok_rules = node_ok_fail node_ok_caught node_ok_Stopped node_ok_bind node_ok_config store_state_ok park_touches

lemma simulate_node_ok: "node_ok e s (simulate_tool_node v p nonces e r ev n state s)"
  unfolding simulate_tool_node_def Let_def
  by (auto intro!: node_ok_rules intro: touches_same dest: simulate_frame)

lemma finish_tool_ok: "touches (ex_id e) s s1 \<Longrightarrow> node_ok e s (finish_tool_node v p nonces e r ev n state k s1)"
  unfolding finish_tool_node_def Let_def by (auto intro!: node_ok_rules intro: touches_same split: option.split)

lemma tool_node_ok: "node_ok e s (tool_node v p nonces e r ev n state woken s)"
  unfolding tool_node_def Let_def
  by (auto intro!: node_ok_rules finish_tool_ok intro: touches_same simp: tool_residue_executions split: option.split wake.split dest: expire_tool_executions
      intro: tool_call_touches)

lemma finish_agent_ok: "touches (ex_id e) s s1 \<Longrightarrow> node_ok e s (finish_agent_node v p nonces e r ev n state k s1)"
  unfolding finish_agent_node_def Let_def by (auto intro!: node_ok_rules intro: touches_same)

lemma agent_node_ok: "node_ok e s (agent_node v p nonces e r ev n state decision call s)"
  unfolding agent_node_def Let_def
  by (auto intro!: node_ok_rules finish_agent_ok intro: touches_same split: option.split dest: expire_model_executions intro: model_call_touches)

lemma subworkflow_node_ok: "node_ok e s (subworkflow_node v p nonces e r ev n state woken s)"
  unfolding subworkflow_node_def Let_def
  by (auto intro!: node_ok_rules intro: touches_same split: option.split wake.split intro: subworkflow_call_touches)

lemma wait_resolved_ok: "touches (ex_id e) s s1 \<Longrightarrow> node_ok e s (wait_resolved v p nonces e r ev n state w s1)"
  unfolding wait_resolved_def Let_def
  by (auto intro!: node_ok_rules intro: touches_same split: option.split bool.split) (simp_all add: node_ok_def)

lemma node_ok_option: "node_ok e s A \<Longrightarrow> (\<And>w. node_ok e s (B w)) \<Longrightarrow> node_ok e s (case x of None \<Rightarrow> A | Some w \<Rightarrow> B w)"
  by (cases x) simp_all

lemma node_ok_if: "(b \<Longrightarrow> node_ok e s A) \<Longrightarrow> (\<not> b \<Longrightarrow> node_ok e s B) \<Longrightarrow> node_ok e s (if b then A else B)"
  by simp

lemma node_ok_Proceed: "node_ok e s (Inr (Proceed e state res, s))"
  by (simp add: node_ok_def)

lemma wait_node_ok: "node_ok e s (wait_node v p nonces e r ev n state woken s)"
  unfolding wait_node_def Let_def
proof (rule node_ok_option, rule node_ok_bind, rule node_ok_if)
  show "node_ok e s (rbind (create_workflow_wait v p e r n ev s) (\<lambda>(w, s). Inr (Stopped, s)))"
    by (auto intro!: node_ok_rules intro: wait_touches)
next
  fix w
  have "touches (ex_id e) s (resolve_timer_wait v w s)" by (rule touches_same) (simp add: resolve_timer_wait_def)
  then show "node_ok e s (if wt_type w \<noteq> node_type_value (node_type n) then stop (fail_execution v p e r ev state ''workflow_wait_wake_mismatch'' s)
     else if wt_status w = ''pending'' then
       (if node_type n = TIMER \<and> (case wt_due_at w of None \<Rightarrow> False | Some d \<Rightarrow> d \<le> now s)
        then wait_resolved v p nonces e r ev n state (case get_wait (resolve_timer_wait v w s) (wt_id w) of None \<Rightarrow> w | Some w \<Rightarrow> w)
          (resolve_timer_wait v w s)
        else if wt_expires_at w \<le> now s
        then stop (fail_execution v p e r ev state ''workflow_wait_expired'' (upd_wait (wt_id w) (\<lambda>w. w\<lparr>wt_status := ''expired'',
               wt_resolution := Some ''expired'', wt_resolved_at := Some (now s)\<rparr>) s))
        else Inr (Stopped, park e r ev (\<lambda>r. r\<lparr>run_status := if node_type n = APPROVAL then RunWaitingForApproval else RunWaiting\<rparr>) s))
     else wait_resolved v p nonces e r ev n state w s)"
    by (intro node_ok_if wait_resolved_ok node_ok_fail node_ok_Stopped park_touches touches_refl) (auto intro: touches_same)
qed (auto intro!: node_ok_fail)

lemma run_node_ok: "node_ok e s (run_node v p nonces e r ev n state woken decision model_boundary s)"
  unfolding run_node_def
  by (intro node_ok_if simulate_node_ok tool_node_ok agent_node_ok subworkflow_node_ok wait_node_ok node_ok_Proceed)

subsection \<open>The refinement\<close>

text \<open>
  What an advance of execution \<open>e\<close> of definition \<open>d\<close> may do to the table: rows of other executions stay, and
  the row of \<open>e\<close> keeps its place or takes the place that a step of the abstract engine gives it.
\<close>

definition advances :: "py_values \<Rightarrow> wf_definition option \<Rightarrow> execution_row \<Rightarrow> db \<Rightarrow> db \<Rightarrow> bool" where
  "advances p d e s s' \<longleftrightarrow> (\<exists>f extra. executions s' = tupd ex_id (ex_id e) f (executions s) @ extra \<and> ex_id (f e) = ex_id e \<and>
     (routing (f e) = routing e \<or> (\<exists>d' e1. d = Some d' \<and> route_step p d' e e1 \<and> routing (f e) = routing e1)))"

lemma touches_advances: "touches (ex_id e) s s' \<Longrightarrow> advances p d e s s'"
  by (auto simp: touches_def advances_def)

lemma fail_advances: "fail_execution v p e r ev state code s1 = Inr s' \<Longrightarrow> executions s1 = executions s \<Longrightarrow> advances p d e s s'"
  using touches_trans [OF touches_same fail_touches] by (auto intro: touches_advances)

lemma complete_execution_rows:
  assumes "complete_execution v p e r n state s = Inr s'"
  shows "touches (ex_id e) s s'"
proof (rule touches_upd)
  show "executions s' = tupd ex_id (ex_id e) (\<lambda>e. e\<lparr>ex_status := ExCompleted, ex_completed_at := Some (now s)\<rparr>) (executions s)"
    using assms by (auto simp: complete_execution_def Let_def ok_iff written_workflow_rows dest!: settle_dependents_frame(1) seal_frame(1))
qed (simp add: routing_def)

lemma requeue_touches: "touches (ex_id e) s (requeue_execution e r s)"
  by (rule touches_upd [of _ _ "\<lambda>e. e\<lparr>ex_status := ExQueued\<rparr>"])
    (simp_all add: requeue_execution_def Let_def written_workflow_rows routing_def)

lemma checkpoint_executions: "create_checkpoint v nonce e state node parent s = Inr (cp, s') \<Longrightarrow> executions s' = executions s"
  by (auto simp: create_checkpoint_def Let_def ok_iff uuid4_def)

lemma finish_node_rows:
  assumes "finish_node v p nonces d e r ev n dig state res s = Inr s'"
  obtains nexts counts s2 where "next_nodes p n d state (ex_loop_counts e) res = Inr (nexts, counts)"
    "executions s2 = tupd ex_id (ex_id e) (complete_node (node_id n) nexts counts) (executions s)"
    "touches (ex_id e) s2 s'"
proof -
  obtain q s1 where q: "record_attempt e n dig (ex_state_digest e) s = (q, s1)" by (cases "record_attempt e n dig (ex_state_digest e) s")
  have s1: "executions s1 = executions s" using q by (auto simp: record_attempt_def Let_def uuid4_def)
  from assms q obtain nexts counts where succ: "next_nodes p n d state (ex_loop_counts e) res = Inr (nexts, counts)"
    by (auto simp: finish_node_def ok_iff)
  let ?f = "complete_node (node_id n) nexts counts"
  from assms q succ obtain att cp s2 s3 where
    s2: "s2 = trace_event v (ex_org (?f e)) (ex_run_id (?f e)) (node_id n) ''workflow.node_completed'' ''completed'' att (upd_execution (ex_id e) ?f s1)"
    and cp: "create_checkpoint v (nonces ''checkpoint'') (?f e) state (node_id n) None s2 = Inr (cp, s3)"
    and rest: "(if ex_current_nodes (?f e) = [] then complete_execution v p (?f e) r n state (upd_outbox (ob_id ev) (\<lambda>ev. ev\<lparr>ob_processed_at := Some (now s3)\<rparr>) s3)
        else Inr (requeue_execution (?f e) r (upd_outbox (ob_id ev) (\<lambda>ev. ev\<lparr>ob_processed_at := Some (now s3)\<rparr>) s3))) = Inr s'"
    by (auto simp: finish_node_def ok_iff Let_def)
  have id: "ex_id (?f e) = ex_id e" by (simp add: complete_node_def)
  have "executions s2 = tupd ex_id (ex_id e) ?f (executions s)" by (simp add: s2 s1 written_workflow_rows)
  moreover have "touches (ex_id e) s2 s'"
  proof (rule touches_trans)
    show "touches (ex_id e) s2 (upd_outbox (ob_id ev) (\<lambda>ev. ev\<lparr>ob_processed_at := Some (now s3)\<rparr>) s3)"
      by (rule touches_same) (simp add: checkpoint_executions [OF cp])
    show "touches (ex_id e) (upd_outbox (ob_id ev) (\<lambda>ev. ev\<lparr>ob_processed_at := Some (now s3)\<rparr>) s3) s'"
      using rest complete_execution_rows [of v p "?f e"] requeue_touches [of "?f e"] unfolding id by (auto split: if_splits)
  qed
  ultimately show thesis by (rule that [OF succ])
qed

lemma complete_routing: "routing a = routing b \<Longrightarrow> routing (complete_node k ts counts a) = routing (complete_node k ts counts b)"
  by (simp add: routing_def complete_node_def)

lemma finish_advances:
  assumes fin: "finish_node v p nonces d e' r ev n dig state res s1 = Inr s'" and before: "touches (ex_id e) s s1"
    and e': "ex_id e' = ex_id e" "routing e' = routing e"
    and n: "node_by_id d k = Some n" "k \<in> set (ready_nodes d e)" "ex_step_count e < ex_max_steps e"
  shows "advances p (Some d) e s s'"
proof -
  from fin obtain nexts counts s3 where succ: "next_nodes p n d state (ex_loop_counts e') res = Inr (nexts, counts)"
    and s3: "executions s3 = tupd ex_id (ex_id e') (complete_node (node_id n) nexts counts) (executions s1)"
    and after: "touches (ex_id e') s3 s'" by (rule finish_node_rows)
  have id: "node_id n = k" using n(1) by (auto dest: node_by_id_SomeD)
  from before obtain f xs where f: "executions s1 = tupd ex_id (ex_id e) f (executions s) @ xs" "\<And>x. ex_id (f x) = ex_id x \<and> routing (f x) = routing x"
    by (auto simp: touches_def)
  from after obtain g ys where g: "executions s' = tupd ex_id (ex_id e) g (executions s3) @ ys" "\<And>x. ex_id (g x) = ex_id x \<and> routing (g x) = routing x"
    by (auto simp: touches_def e'(1))
  let ?c = "complete_node k nexts counts" and ?h = "\<lambda>x. g (complete_node k nexts counts (f x))"
  have c: "ex_id (?c x) = ex_id x" for x by (simp add: complete_node_def)
  have "executions s' = tupd ex_id (ex_id e) ?h (executions s) @ (tupd ex_id (ex_id e) (\<lambda>x. g (?c x)) xs @ ys)"
    using f(2) by (simp add: g(1) s3 f(1) e'(1) id tupd_append tupd_tupd c)
  moreover have "ex_id (?h e) = ex_id e" using f(2) g(2) c by simp
  moreover have "route_step p d e (?c e)"
    using n succ e'(2) by (intro route_step.complete [of e k d n p state res]) (simp_all add: routing_def)
  moreover have "routing (?h e) = routing (?c e)" using f(2) g(2) complete_routing [of "f e" e] by simp
  ultimately show ?thesis unfolding advances_def by blast
qed

lemma caughtE:
  assumes "caught fail residue result f = Inr s'"
  obtains x where "result = Inr x" "f x = Inr s'" | code where "fail code residue = Inr s'"
  using assms by (auto simp: caught_def split: sum.splits rs_error.splits)

lemma advance_node_advances:
  assumes adv: "advance_node v p nonces d e r ev state n woken tb mb s = Inr s'"
    and n: "node_by_id d k = Some n" "k \<in> set (ready_nodes d e)" "ex_step_count e < ex_max_steps e"
  shows "advances p (Some d) e s s'"
proof -
  have go: "advances p (Some d) e s s'"
    if run: "rbind (run_node v p nonces e r ev n state woken decision mb s1) (\<lambda>(outcome, s).
            case outcome of Stopped \<Rightarrow> Inr s
            | Proceed e' state' resolution \<Rightarrow> finish_node v p nonces d e' r ev n (ex_state_digest e) state' resolution s) = Inr s'"
      and same: "executions s1 = executions s" for decision s1
  proof -
    from run obtain outcome s2 where node: "run_node v p nonces e r ev n state woken decision mb s1 = Inr (outcome, s2)"
      and rest: "(case outcome of Stopped \<Rightarrow> Inr s2
            | Proceed e' state' resolution \<Rightarrow> finish_node v p nonces d e' r ev n (ex_state_digest e) state' resolution s2) = Inr s'"
      by (auto simp: ok_iff)
    have ok: "touches (ex_id e) s1 s2"
      "\<And>e' state' res. outcome = Proceed e' state' res \<Longrightarrow> ex_id e' = ex_id e \<and> routing e' = routing e"
      using run_node_ok [of e s1 v p nonces r ev n state woken decision mb] node by (auto simp: node_ok_def)
    have touched: "touches (ex_id e) s s2" using touches_trans [OF touches_same ok(1)] same by simp
    show ?thesis
    proof (cases outcome)
      case Stopped
      with rest touched show ?thesis by (simp add: touches_advances)
    next
      case (Proceed e' state' res)
      have "finish_node v p nonces d e' r ev n (ex_state_digest e) state' res s2 = Inr s'" using rest Proceed by simp
      then show ?thesis using ok(2) [OF Proceed] touched n by (auto intro: finish_advances [where e' = e'])
    qed
  qed
  show ?thesis
  proof (cases "(node_type n = TOOL \<and> tb \<noteq> None) \<or> (node_type n = AGENT \<and> mb \<noteq> None)")
    case True
    with adv show ?thesis by (intro go [of None s]) (auto simp: advance_node_def Let_def)
  next
    case False
    with adv have "caught (fail_execution v p e r ev state) s (evaluate_workflow_node_policy v p e r n s) (\<lambda>(decision, s).
        caught (fail_execution v p e r ev state) s (require_executable_policy_effect decision) (\<lambda>_.
          rbind (run_node v p nonces e r ev n state woken decision mb s) (\<lambda>(outcome, s).
            case outcome of Stopped \<Rightarrow> Inr s
            | Proceed e' state' resolution \<Rightarrow> finish_node v p nonces d e' r ev n (ex_state_digest e) state' resolution s))) = Inr s'"
      by (simp only: advance_node_def Let_def if_False)
    then show ?thesis
    proof (cases rule: caughtE)
      case (1 x)
      obtain decision s1 where x: "x = (decision, s1)" by (cases x)
      have s1: "executions s1 = executions s" using 1(1) unfolding x by (rule policy_executions)
      from 1(2) have "caught (fail_execution v p e r ev state) s1 (require_executable_policy_effect decision) (\<lambda>_.
          rbind (run_node v p nonces e r ev n state woken decision mb s1) (\<lambda>(outcome, s).
            case outcome of Stopped \<Rightarrow> Inr s
            | Proceed e' state' resolution \<Rightarrow> finish_node v p nonces d e' r ev n (ex_state_digest e) state' resolution s)) = Inr s'"
        by (simp only: x prod.case)
      then show ?thesis
        by (cases rule: caughtE) (auto intro: go [OF _ s1] fail_advances [OF _ s1])
    next
      case (2 code)
      then show ?thesis by (rule fail_advances) simp
    qed
  qed
qed

end
