(* ===== verification/RS_Engine_Safety.thy ===== *)
theory RS_Engine_Safety
  imports RS_Engine_Steps
begin

section \<open>The guarantees of the engine\<close>

text \<open>
  An advance refines a step of the abstract engine, a pass of the worker leaves ended and claimed executions
  alone, and an execution that ends leaves nothing pending and has signed evidence.
\<close>

text \<open>The definition an execution follows: that of its version, if its digest still is the recorded one.\<close>

definition follows_definition :: "env \<Rightarrow> py_values \<Rightarrow> db \<Rightarrow> execution_row \<Rightarrow> wf_definition \<Rightarrow> bool" where
  "follows_definition v p s e d \<longleftrightarrow> (\<exists>ver. get_version s (ex_version_id e) = Some ver \<and>
     load_definition p (wv_definition ver) = Inr d \<and> digest_of v (definition_json d) = wv_definition_digest ver)"

text \<open>The worker's claim on an execution: running, with the hash of this token.\<close>

definition holds_claim :: "env \<Rightarrow> claimed_execution \<Rightarrow> execution_row \<Rightarrow> bool" where
  "holds_claim v cl e \<longleftrightarrow> ex_id e = cw_execution_id cl \<and> ex_status e = ExRunning \<and> ex_claim_hash e = Some (claim_hash v (cw_token cl))"

lemma select_node_ready:
  "select_node p e ready ev s = Inr (k, woken) \<Longrightarrow> ready \<noteq> [] \<Longrightarrow> k \<in> set ready"
  by (auto simp: select_node_def Let_def named_row_def map_sum_def split: if_splits option.splits sum.splits)

lemma advance_claimed_advances:
  assumes adv: "advance_claimed v p nonces e r ver ev state s = Inr s'" and ver: "get_version s (ex_version_id e) = Some ver"
  obtains d where "advances p d e s s'" "\<And>d'. d = Some d' \<Longrightarrow> follows_definition v p s e d'"
proof (cases "\<exists>code. fail_execution v p e r ev state code s = Inr s' \<or> cancel_claimed_execution v p e r ev state code s = Inr s'")
  case True
  then have "touches (ex_id e) s s'" using fail_touches cancel_claimed_touches by blast
  then show thesis using that [of None] by (simp add: touches_advances)
next
  case False
  then have "ex_step_count e < ex_max_steps e" using adv
    by (auto simp: advance_claimed_def Let_def not_le split: if_splits)
  moreover obtain d k woken n tb mb where d: "load_definition p (wv_definition ver) = Inr d"
      "digest_of v (definition_json d) = wv_definition_digest ver"
    and k: "k \<in> set (ready_nodes d e)" and n: "node_by_id d k = Some n"
    and node: "advance_node v p nonces d e r ev state n woken tb mb s = Inr s'"
    using False adv
    by (auto simp: advance_claimed_def Let_def ok_iff split: if_splits sum.splits dest!: select_node_ready)
  ultimately have "advances p (Some d) e s s'" by (intro advance_node_advances [OF node n k])
  then show thesis using that [of "Some d"] d ver by (auto simp: follows_definition_def)
qed

lemma advance_cases:
  assumes "advance v p nonces cl s = Inr s'"
  obtains (idle) "s' = s"
  | (claimed) e ev d where "get_execution s (cw_execution_id cl) = Some e" "holds_claim v cl e"
      "get_event s (cw_event_id cl) = Some ev" "ob_processed_at ev = None"
      "advances p d e s s'" "\<And>d'. d = Some d' \<Longrightarrow> follows_definition v p s e d'"
proof (cases "s' = s")
  case False
  with assms obtain e ev r ver state where e: "get_execution s (cw_execution_id cl) = Some e"
    and ev: "get_event s (cw_event_id cl) = Some ev" "ob_processed_at ev = None" and claim: "ex_status e = ExRunning"
    "ex_claim_hash e = Some (claim_hash v (cw_token cl))" and ver: "get_version s (ex_version_id e) = Some ver"
    and adv: "advance_claimed v p nonces e r ver ev state s = Inr s'"
    by (auto simp: advance_def ok_iff Let_def split: option.splits if_splits)
  have "holds_claim v cl e" using tget_SomeD [OF e] claim by (simp add: holds_claim_def)
  then show thesis using advance_claimed_advances [OF adv ver] claimed [OF e _ ev] by metis
qed

lemma walk_routing: "routing e = routing e' \<Longrightarrow> walk_ok d e \<Longrightarrow> walk_ok d e'"
  by (simp add: walk_ok_def loops_bounded_def routing_def)

lemma follows_unique: "follows_definition v p s e d \<Longrightarrow> follows_definition v p s e d' \<Longrightarrow> d = d'"
  by (auto simp: follows_definition_def)

text \<open>The rows of a table in which no two share a key: what an update of row \<open>a\<close> makes of each.\<close>

lemma tupd_row_of:
  assumes "distinct (map key rows)" and "a \<in> set rows" and "b \<in> set rows"
  shows "(if b = a then f a else b) \<in> set (tupd key (key a) f rows)"
  using tupd_memI [OF assms(3), of key "key a" f] distinct_key_eq [OF assms(1,3,2)] by (auto split: if_splits)


subsection \<open>A pass of the worker\<close>

lemma flush_executions [simp]: "executions (flush s) = executions s" "now (flush s) = now s"
  by (simp_all add: flush_def)

lemma finalize_executions:
  assumes "finalize_cancelled_once v p s = Inr (b, s')"
  shows "executions s' = executions s" and "\<not> b \<Longrightarrow> s' = s"
  using assms
  by (auto simp: finalize_cancelled_once_def Let_def ok_iff split: option.splits if_splits
      dest!: settle_dependents_frame(1) seal_frame(1))

text \<open>Executions no pass may take: those that have ended, and those another worker is at.\<close>

definition protected :: "timestamp \<Rightarrow> execution_row \<Rightarrow> bool" where
  "protected t e \<longleftrightarrow> ex_status e \<in> {ExCompleted, ExFailed, ExCancelled} \<or>
     ex_status e = ExRunning \<and> (case ex_lease_expires_at e of None \<Rightarrow> True | Some l \<Rightarrow> t \<le> l)"

lemma begin_execution_rows:
  "fst (begin_execution v token e r ev s) = Some \<lparr>cw_execution_id = ex_id e, cw_org = ex_org e, cw_run_id = ex_run_id e,
     cw_event_id = ob_id ev, cw_token = token\<rparr>"
  "executions (snd (begin_execution v token e r ev s)) = tupd ex_id (ex_id e) (take_execution v token (now s)) (executions s)"
  by (simp_all add: begin_execution_def Let_def written_workflow_rows)

lemma claim_workflow_rows:
  assumes "claim_workflow_ready v token s = Inr (claim, s')"
  obtains (unclaimed) "executions s' = executions s" "claim = None"
  | (taken) e cl where "claim = Some cl" "get_execution s (cw_execution_id cl) = Some e" "\<not> protected (now s) e"
      "executions s' = tupd ex_id (cw_execution_id cl) (take_execution v token (now s)) (executions s)"
proof (cases "first_by ob_created_at (sort_key ob_id (filter (claimable (now s) s) (seen s ob_org (outbox s))))")
  case None
  then show thesis using assms unclaimed by (simp add: claim_workflow_ready_def)
next
  case ev: (Some ev)
  show thesis
  proof (cases "get_execution s (ob_aggregate_id ev)")
    case None
    then show thesis using ev assms unclaimed by (auto simp: claim_workflow_ready_def discard_event_def Let_def)
  next
    case e: (Some e)
    show thesis
    proof (cases "protected (now s) e")
      case True
      then show thesis using e ev assms unclaimed by (auto simp: claim_workflow_ready_def protected_def discard_event_def Let_def split: if_splits)
    next
      case False
      then have "ex_status e \<in> {ExQueued, ExRunning, ExWaiting}" by (cases "ex_status e") (simp_all add: protected_def)
      with False have "claim_workflow_ready v token s = fetch (get_run s (ex_run_id e)) (PyRuntimeError ''workflow execution run disappeared'')
          (\<lambda>r. Inr (begin_execution v token e r ev s))"
        by (auto simp: claim_workflow_ready_def ev e protected_def)
      with assms obtain r where r: "begin_execution v token e r ev s = (claim, s')" by (auto simp: ok_iff)
      have "get_execution s (ex_id e) = Some e" using tget_SomeD [OF e] e by simp
      with False show thesis using begin_execution_rows [of v token e r ev s] r
        by (intro taken [of "\<lparr>cw_execution_id = ex_id e, cw_org = ex_org e, cw_run_id = ex_run_id e, cw_event_id = ob_id ev, cw_token = token\<rparr>"]) simp_all
    qed
  qed
qed

lemma advance_others:
  assumes "advance v p nonces cl s = Inr s'" and "e \<in> set (executions s)" and "ex_id e \<noteq> cw_execution_id cl"
  shows "e \<in> set (executions s')"
  using assms(1)
proof (cases rule: advance_cases)
  case (claimed c ev d)
  then show ?thesis using tupd_memI [OF assms(2), of ex_id "ex_id c"] assms(3)
    by (auto simp: advances_def holds_claim_def split: if_splits)
qed (use assms(2) in simp)

lemma pass_keeps_protected:
  assumes pass: "process_workflow_once v p token nonces s = (result, s')" and ids: "distinct (map ex_id (executions s))"
    and e: "e \<in> set (executions s)" "protected (now s) e"
  shows "e \<in> set (executions s')"
proof (cases "transaction (finalize_cancelled_once v p) s")
  case (Pair fin s1)
  then have s1: "executions s1 = executions s" "fin = Inr False \<Longrightarrow> now s1 = now s"
    by (auto simp: transaction_def split: sum.splits dest: finalize_executions)
  show ?thesis
  proof (cases "fin = Inr False")
    case False
    then show ?thesis using pass e(1) s1(1) by (auto simp: process_workflow_once_def Pair split: sum.splits bool.splits)
  next
    case True
    obtain claim s2 where s2: "transaction (claim_workflow_ready v token) s1 = (claim, s2)" by fastforce
    have kept: "e \<in> set (executions s2) \<and> (\<forall>cl. claim = Inr (Some cl) \<longrightarrow> ex_id e \<noteq> cw_execution_id cl)"
    proof (cases "claim_workflow_ready v token s1")
      case (Inl err)
      then show ?thesis using s2 e(1) s1(1) by (auto simp: transaction_def)
    next
      case (Inr q)
      obtain c s3 where q: "q = (c, s3)" by (cases q)
      with Inr s2 have c: "claim = Inr c" "s2 = flush s3" by (auto simp: transaction_def)
      from Inr q have "claim_workflow_ready v token s1 = Inr (c, s3)" by simp
      then show ?thesis
      proof (cases rule: claim_workflow_rows)
        case (taken x cl)
        have "x \<in> set (executions s)" "ex_id x = cw_execution_id cl" using tget_SomeD [OF taken(2)] by (auto simp: seen_def s1(1))
        moreover have "x \<noteq> e" using taken(3) e(2) s1(2) True by auto
        ultimately have "ex_id e \<noteq> cw_execution_id cl" using distinct_key_eq [OF ids _ e(1)] by metis
        then show ?thesis using tupd_memI [OF e(1), of ex_id "cw_execution_id cl"] taken(1,4) c by (auto simp: s1(1) split: if_splits)
      qed (use c e(1) s1(1) in simp)
    qed
    show ?thesis
    proof (cases "\<exists>cl. claim = Inr (Some cl)")
      case True
      then obtain cl where cl: "claim = Inr (Some cl)" by blast
      have "(result, s') = transaction (\<lambda>s. rbind (advance v p nonces cl s) (\<lambda>s. Inr (True, s))) s2"
        using pass by (simp add: process_workflow_once_def Pair \<open>fin = Inr False\<close> s2 cl)
      then show ?thesis using kept cl by (auto simp: transaction_def ok_iff split: sum.splits dest: advance_others)
    next
      case False
      then show ?thesis using pass kept
        by (auto simp: process_workflow_once_def Pair \<open>fin = Inr False\<close> s2 split: sum.splits option.splits)
    qed
  qed
qed

subsection \<open>Nothing pending after the end\<close>

lemma cancel_waits_rows:
  "waits (fold (\<lambda>w. upd_wait (wt_id w) (cancelled_wait t)) ws s) =
     map (\<lambda>w. if wt_id w \<in> wt_id ` set ws then cancelled_wait t w else w) (waits s)"
proof (induction ws arbitrary: s)
  case (Cons w ws)
  then show ?case by (auto simp: written_workflow_rows tupd_def cancelled_wait_def)
qed simp

lemma cancel_calls_rows:
  "subworkflow_calls (fold (\<lambda>k s. wake_child e reason k (upd_subworkflow_call (sc_id k) (cancelled_call (now s)) s)) ks s) =
     map (\<lambda>k. if sc_id k \<in> sc_id ` set ks then cancelled_call (now s) k else k) (subworkflow_calls s)"
proof (induction ks arbitrary: s)
  case (Cons k ks)
  then show ?case by (auto simp: written_workflow_rows tupd_def cancelled_call_def)
qed simp

lemma no_pending_waits: "tenant s = None \<Longrightarrow> w \<in> set (waits (cancel_waits e s)) \<Longrightarrow> wt_execution_id w = ex_id e \<Longrightarrow> wt_status w \<noteq> ''pending''"
  by (auto simp: cancel_waits_def cancel_waits_rows seen_all cancelled_wait_def split: if_splits)

lemma no_pending_calls:
  "tenant s = None \<Longrightarrow> k \<in> set (subworkflow_calls (cancel_calls e reason s)) \<Longrightarrow> sc_parent_execution_id k = ex_id e \<Longrightarrow> sc_status k \<noteq> ''pending''"
  by (auto simp: cancel_calls_def cancel_calls_rows seen_all cancelled_call_def split: if_splits)


subsection \<open>Evidence of the end\<close>

text \<open>The envelope that a row of evidence stores.\<close>

definition stored_envelope :: "evidence_row \<Rightarrow> evidence_envelope" where
  "stored_envelope q = \<lparr>env_manifest = ev_manifest q, env_content_digest = ev_content_digest q, env_signing_key_id = ev_key_id q,
     env_public_key_b64 = ev_public_key_b64 q, env_signature_b64 = ev_signature_b64 q\<rparr>"

text \<open>Documented behaviour of base64, of the printed hash and of Ed25519.\<close>

definition signing_works :: "env \<Rightarrow> bool" where
  "signing_works v \<longleftrightarrow> (\<forall>b. b64_decode v (b64_encode v b) = Some b) \<and> (\<forall>k m. ed_verify v (ed_public v k) m (ed_sign v k m)) \<and>
     (\<forall>b. list_all is_ascii (sha256_hex v b))"

text \<open>The run has the evidence it had before, or a new one of its last manifest that verifies.\<close>

definition sealed_run :: "env \<Rightarrow> uuid \<Rightarrow> db \<Rightarrow> db \<Rightarrow> bool" where
  "sealed_run v run s s' \<longleftrightarrow> (\<exists>q \<in> set (evidence s'). ev_run_id q = run \<and> (q \<in> set (evidence s) \<or>
     vr_valid (verify v (Some (stored_envelope q)) None) \<and> ev_algorithm q = ''ed25519''))"

lemma envelope_eta:
  "\<lparr>env_manifest = env_manifest q, env_content_digest = env_content_digest q, env_signing_key_id = env_signing_key_id q,
    env_public_key_b64 = env_public_key_b64 q, env_signature_b64 = env_signature_b64 q\<rparr> = q"
  by simp

lemma signed_verifies: "signing_works v \<Longrightarrow> vr_valid (verify v (Some (sign v signer m)) None)"
  by (auto simp: signing_works_def verify_def sign_def Let_def digest_of_def json_digest_def is_ascii_def)

lemma seal_sealed:
  assumes "seal_workflow_evidence v e s = Inr s'" and "signing_works v"
  shows "sealed_run v (ex_run_id e) s s'"
proof (cases "find (\<lambda>q. ev_run_id q = ex_run_id e) (seen (flush s) ev_org (evidence (flush s)))")
  case None
  with assms(1) obtain r ver signer where
    "evidence s' = evidence s @ [\<lparr>ev_id = next_uuid s, ev_org = ex_org e, ev_run_id = ex_run_id e,
      ev_content_digest = env_content_digest (sign v signer (workflow_manifest v (flush s) e r ver)),
      ev_manifest = env_manifest (sign v signer (workflow_manifest v (flush s) e r ver)), ev_algorithm = ''ed25519'',
      ev_key_id = env_signing_key_id (sign v signer (workflow_manifest v (flush s) e r ver)),
      ev_public_key_b64 = env_public_key_b64 (sign v signer (workflow_manifest v (flush s) e r ver)),
      ev_signature_b64 = env_signature_b64 (sign v signer (workflow_manifest v (flush s) e r ver)), ev_export_status = ''local_only''\<rparr>]"
    unfolding seal_workflow_evidence_def Let_def ok_iff by (auto simp: ok_iff uuid4_def flush_def)
  then show ?thesis using signed_verifies [OF assms(2), of signer "workflow_manifest v (flush s) e r ver"]
    by (auto simp: sealed_run_def stored_envelope_def envelope_eta)
next
  case (Some q)
  with assms(1) have "s' = flush s" by (simp add: seal_workflow_evidence_def Let_def)
  with Some show ?thesis by (auto simp: sealed_run_def flush_def seen_def dest!: find_Some_iff')
qed

text \<open>What holds of an execution that a worker has ended: its row, its waits, its calls and its evidence.\<close>

definition ended_well :: "env \<Rightarrow> execution_row \<Rightarrow> execution_status \<Rightarrow> string \<Rightarrow> db \<Rightarrow> db \<Rightarrow> bool" where
  "ended_well v e st code s s' \<longleftrightarrow>
     (\<exists>e' \<in> set (executions s'). ex_id e' = ex_id e \<and> ex_status e' = st \<and> ex_error_code e' = Some code \<and> ex_claim_hash e' = None) \<and>
     (\<forall>w \<in> set (waits s'). wt_execution_id w = ex_id e \<longrightarrow> wt_status w \<noteq> ''pending'') \<and>
     (\<forall>k \<in> set (subworkflow_calls s'). sc_parent_execution_id k = ex_id e \<longrightarrow> sc_status k \<noteq> ''pending'') \<and>
     sealed_run v (ex_run_id e) s s'"

lemma settle_dependents_calls:
  assumes "settle_dependents v p e r state failed s = Inr s'"
    and "\<forall>k \<in> set (subworkflow_calls s). sc_parent_execution_id k = x \<longrightarrow> sc_status k \<noteq> ''pending''"
  shows "\<forall>k \<in> set (subworkflow_calls s'). sc_parent_execution_id k = x \<longrightarrow> sc_status k \<noteq> ''pending''"
proof -
  from assms(1) obtain s1 where s1: "settle_evaluation_execution v p e state failed s = Inr s1"
    and s': "s' = settle_parent_subworkflow_call v e r (settle_workflow_replay v e s1)" by (auto simp: settle_dependents_def ok_iff)
  have "subworkflow_calls s1 = subworkflow_calls s" using settle_evaluation_quiet [OF s1] by (simp add: quiet_def)
  then obtain f where "subworkflow_calls s' = map f (subworkflow_calls s)"
      "\<And>k. sc_parent_execution_id (f k) = sc_parent_execution_id k \<and> (f k = k \<or> sc_status (f k) \<noteq> ''pending'')"
    using settle_parent_calls [of v e r "settle_workflow_replay v e s1"] s' by auto
  then show ?thesis using assms(2) by (auto; metis)
qed

lemma end_closes:
  assumes rows: "executions s1 = executions (end_rows e r ev st rst reason code s)" "waits s1 = waits (end_rows e r ev st rst reason code s)"
      "subworkflow_calls s1 = subworkflow_calls (end_rows e r ev st rst reason code s)" "evidence s1 = evidence s"
    and settle: "settle_dependents v p (ended st code (now s) e) r' state failed s1 = Inr s2"
    and audit: "executions s3 = executions s2" "waits s3 = waits s2" "subworkflow_calls s3 = subworkflow_calls s2" "evidence s3 = evidence s2"
    and seal: "seal_workflow_evidence v (ended st code (now s) e) s3 = Inr s'"
    and ok: "signing_works v" "tenant s = None" "e \<in> set (executions s)"
  shows "ended_well v e st code s s'"
  unfolding ended_well_def
proof (intro conjI)
  note frames = settle_dependents_frame [OF settle] seal_frame [OF seal] audit rows
  have "ended st code (now s) e \<in> set (executions s')"
    using tupd_memI [OF ok(3), of ex_id "ex_id e" "ended st code (now s)"] by (simp add: frames)
  then show "\<exists>e' \<in> set (executions s'). ex_id e' = ex_id e \<and> ex_status e' = st \<and> ex_error_code e' = Some code \<and> ex_claim_hash e' = None"
    by (intro bexI [of _ "ended st code (now s) e"]) (simp_all, simp_all add: ended_def)
  show "\<forall>w \<in> set (waits s'). wt_execution_id w = ex_id e \<longrightarrow> wt_status w \<noteq> ''pending''"
    using no_pending_waits [OF ok(2)] by (simp add: frames)
  have "\<forall>k \<in> set (subworkflow_calls s1). sc_parent_execution_id k = ex_id e \<longrightarrow> sc_status k \<noteq> ''pending''"
    using no_pending_calls [of "cancel_waits e s"] ok(2) by (auto simp: rows)
  from settle_dependents_calls [OF settle this]
  show "\<forall>k \<in> set (subworkflow_calls s'). sc_parent_execution_id k = ex_id e \<longrightarrow> sc_status k \<noteq> ''pending''" by (simp add: frames)
  show "sealed_run v (ex_run_id e) s s'" using seal_sealed [OF seal ok(1)] by (simp add: sealed_run_def frames)
qed

text \<open>
  C10. An advance of the engine refines a step of the abstract engine, and only for the holder of the claim:
  every execution keeps its row, except that of the claim if it is still running under that very claim; its
  place in the workflow then stays as it is, or is what the completion of one ready node below the step
  limit makes of it, in the definition of its version, whose digest is the recorded one. So whatever the
  node is and whatever happens at it, the execution still walks the graph of that definition.
\<close>

theorem advance_refines_routing:
  assumes adv: "advance v p nonces cl s = Inr s'" and ids: "distinct (map ex_id (executions s))" and e: "e \<in> set (executions s)"
  shows "\<exists>e' \<in> set (executions s'). ex_id e' = ex_id e \<and>
     (e' = e \<or> holds_claim v cl e \<and> (routing e' = routing e \<or>
        (\<exists>d e1. follows_definition v p s e d \<and> route_step p d e e1 \<and> routing e' = routing e1))) \<and>
     (\<forall>d. follows_definition v p s e d \<and> walk_ok d e \<longrightarrow> walk_ok d e')"
  using adv
proof (cases rule: advance_cases)
  case idle
  with e show ?thesis by blast
next
  case (claimed c ev d)
  have c: "c \<in> set (executions s)" using claimed(1) by (auto dest!: tget_SomeD simp: seen_def)
  from claimed(5) obtain f extra where f: "executions s' = tupd ex_id (ex_id c) f (executions s) @ extra" "ex_id (f c) = ex_id c"
    and place: "routing (f c) = routing c \<or> (\<exists>d' e1. d = Some d' \<and> route_step p d' c e1 \<and> routing (f c) = routing e1)"
    by (auto simp: advances_def)
  have row: "(if e = c then f c else e) \<in> set (executions s')" using tupd_row_of [OF ids c e, of f] by (auto simp: f(1))
  show ?thesis
  proof (cases "e = c")
    case True
    have "walk_ok d' (f c)" if "follows_definition v p s c d'" "walk_ok d' c" for d'
      using place
    proof (elim disjE exE conjE)
      fix d1 e1 assume step: "d = Some d1" "route_step p d1 c e1" "routing (f c) = routing e1"
      have "d1 = d'" using claimed(6) [OF step(1)] that(1) by (rule follows_unique)
      with step(2) that(2) have "walk_ok d' e1" by (auto intro: walk_step)
      then show ?thesis using step(3) walk_routing by metis
    qed (use that(2) walk_routing in metis)
    moreover have "f c \<in> set (executions s')" using row True by simp
    ultimately show ?thesis using f(2) place claimed(2,6) True by metis
  qed (use row in auto)
qed

text \<open>
  C11. A pass of the worker never touches an execution that has completed, failed or been cancelled, nor one
  that another worker holds under a lease that has not run out, whatever events are in the outbox and whatever
  the three transactions of the pass do.
\<close>

theorem ended_executions_untouched:
  assumes "process_workflow_once v p token nonces s = (result, s')" and "distinct (map ex_id (executions s))"
    and "e \<in> set (executions s)"
    and "ex_status e \<in> {ExCompleted, ExFailed, ExCancelled} \<or>
      ex_status e = ExRunning \<and> (case ex_lease_expires_at e of None \<Rightarrow> True | Some l \<Rightarrow> now s \<le> l)"
  shows "e \<in> set (executions s')"
  by (rule pass_keeps_protected [OF assms(1-3)]) (use assms(4) in \<open>simp only: protected_def\<close>)

text \<open>
  C12. An execution that the engine fails or cancels is closed as a whole: its row has the status and the error
  and no claim any more, none of its waits and none of its subworkflow calls is still pending, and its run has
  evidence: what it had before, or an envelope of its manifest that verifies. Base64 decodes what it encoded, the
  printed hash is ASCII and Ed25519 verifies what it signed; the worker reads all tenants.
\<close>

theorem ended_execution_closed:
  assumes "signing_works v" and "tenant s = None" and "e \<in> set (executions s)"
  shows "(fail_execution v p e r ev state code s = Inr s' \<longrightarrow> ended_well v e ExFailed code s s') \<and>
    (cancel_claimed_execution v p e r ev state code s = Inr s' \<longrightarrow> ended_well v e ExCancelled code s s')"
proof (intro conjI impI)
  assume "fail_execution v p e r ev state code s = Inr s'"
  then show "ended_well v e ExFailed code s s'" unfolding fail_execution_def Let_def ok_iff
    by (elim exE conjE) (rule end_closes [OF _ _ _ _ _ _ _ _ _ _ assms], assumption?, simp_all)
next
  assume "cancel_claimed_execution v p e r ev state code s = Inr s'"
  then show "ended_well v e ExCancelled code s s'" unfolding cancel_claimed_execution_def Let_def ok_iff
    by (elim exE conjE) (rule end_closes [OF _ _ _ _ _ _ _ _ _ _ assms], assumption?, simp_all)
qed

subsection \<open>A pass over a queued execution\<close>

definition engine_execution :: execution_row where
  "engine_execution = (sample_execution ''a'' 10)\<lparr>ex_version_id := 30, ex_deadline_at := 1000,
     ex_encrypted_state := seal_json run_env ''abcdefghijkl'' (JObj []) sample_key (execution_aad 7 1 ''c''),
     ex_state_digest := digest_of run_env (JObj [])\<rparr>"

definition engine_event :: outbox_row where
  "engine_event = \<lparr>ob_id = 50, ob_org = 7, ob_topic = ''workflow.ready'', ob_aggregate_type = ''workflow_execution'',
     ob_aggregate_id = 1, ob_dedup_key = ''k'', ob_payload = JObj [], ob_available_at = 0, ob_dispatched_at = None,
     ob_processed_at = None, ob_attempts = 0, ob_created_at = 0\<rparr>"

definition engine_version :: version_row where
  "engine_version = (sample_version 30)\<lparr>wv_definition_digest := digest_of run_env (definition_json sample_definition)\<rparr>"

definition ended_sample :: execution_row where
  "ended_sample = (sample_execution ''a'' 10)\<lparr>ex_id := 9, ex_run_id := 3, ex_status := ExCompleted\<rparr>"

definition engine_db :: db where
  "engine_db = (empty_db 100)\<lparr>now := 100, tenant := None, executions := [engine_execution, ended_sample], runs := [gate_run],
     versions := [engine_version], outbox := [engine_event]\<rparr>"

definition engine_claim :: claimed_execution where
  "engine_claim = \<lparr>cw_execution_id = 1, cw_org = 7, cw_run_id = 2, cw_event_id = 50, cw_token = ''token''\<rparr>"

definition engine_claimed :: db where
  "engine_claimed = flush (snd (begin_execution run_env ''token'' engine_execution gate_run engine_event engine_db))"

lemma flush_engine: "flush engine_db = engine_db"
  by (simp add: flush_def engine_db_def empty_db_def)

lemma engine_finalizes: "transaction (finalize_cancelled_once run_env sample_values) engine_db = (Inr False, engine_db)"
proof -
  have "outbox engine_db = [engine_event]" "tenant engine_db = None" "ob_topic engine_event = ''workflow.ready''"
    by (simp_all add: engine_db_def engine_event_def)
  then show ?thesis by (simp add: transaction_def finalize_cancelled_once_def seen_all flush_engine)
qed

lemma engine_claims: "transaction (claim_workflow_ready run_env ''token'') engine_db = (Inr (Some engine_claim), engine_claimed)"
proof -
  have claim: "claim_workflow_ready run_env ''token'' engine_db = Inr (begin_execution run_env ''token'' engine_execution gate_run engine_event engine_db)"
    by (simp add: claim_workflow_ready_def engine_db_def seen_all claimable_def engine_event_def engine_execution_def sample_execution_def
        recoverable_def tget_def gate_run_def handler_eval Let_def)
  have "fst (begin_execution run_env ''token'' engine_execution gate_run engine_event engine_db) = Some engine_claim"
    by (simp add: begin_execution_rows engine_claim_def engine_execution_def sample_execution_def engine_event_def)
  then show ?thesis by (simp add: transaction_def claim split_beta engine_claimed_def)
qed

definition engine_row :: execution_row where
  "engine_row = take_execution run_env ''token'' 100 engine_execution"

lemma engine_rows:
  "executions engine_claimed = [engine_row, ended_sample]" "tenant engine_claimed = None" "now engine_claimed = 100"
  "versions engine_claimed = [engine_version]" "tool_calls engine_claimed = []" "model_calls engine_claimed = []"
  "subworkflow_calls engine_claimed = []"
  "get_event engine_claimed 50 = Some (engine_event\<lparr>ob_dispatched_at := Some 100, ob_attempts := 1\<rparr>)"
  "runs engine_claimed = [gate_run\<lparr>run_status := RunRunning, run_started_at := Some 10, run_updated_at := 100\<rparr>]"
proof -
  note rows = engine_claimed_def begin_execution_def Let_def written_workflow_rows flush_def engine_db_def empty_db_def
  have ids: "ex_id engine_execution = 1" "ex_id ended_sample = 9" "ob_id engine_event = 50" "run_id gate_run = 2"
    by (simp_all add: engine_execution_def sample_execution_def ended_sample_def engine_event_def gate_run_def)
  show "executions engine_claimed = [engine_row, ended_sample]" by (simp add: rows tupd_def ids engine_row_def)
  show "tenant engine_claimed = None" "now engine_claimed = 100" "versions engine_claimed = [engine_version]"
    "tool_calls engine_claimed = []" "model_calls engine_claimed = []" "subworkflow_calls engine_claimed = []"
    by (simp_all add: rows)
  show "runs engine_claimed = [gate_run\<lparr>run_status := RunRunning, run_started_at := Some 10, run_updated_at := 100\<rparr>]"
    by (simp add: rows tupd_def ids) (simp add: gate_run_def started_at_def)
  show "get_event engine_claimed 50 = Some (engine_event\<lparr>ob_dispatched_at := Some 100, ob_attempts := 1\<rparr>)"
    by (simp add: rows tupd_def ids seen_all tget_def) (simp add: engine_event_def)
qed

lemma engine_row_fields:
  "ex_id engine_row = 1" "ex_status engine_row = ExRunning" "ex_claim_hash engine_row = Some (claim_hash run_env ''token'')"
  "ex_version_id engine_row = 30" "ex_run_id engine_row = 2" "ex_deadline_at engine_row = 1000" "ex_step_count engine_row = 0"
  "ex_max_steps engine_row = 10" "ex_current_nodes engine_row = [''a'']" "ex_completed_nodes engine_row = []" "ex_path engine_row = []"
  "ex_loop_counts engine_row = []" "ex_mode engine_row = ''live''"
  by (simp_all add: engine_row_def take_execution_def engine_execution_def sample_execution_def)

lemma engine_state: "decrypt_execution_state run_env engine_row = Inr (JObj [])"
proof -
  have "open_state run_env (seal_json run_env ''abcdefghijkl'' (JObj []) sample_key aad) aad (digest_of run_env (JObj [])) m = Inr (sort_keys (JObj []))" for aad m
    by (rule open_state_sealed [OF run_env_seals run_env_key]) simp
  then show ?thesis
    by (simp add: decrypt_execution_state_def engine_row_def take_execution_def engine_execution_def sample_execution_def)
qed

lemma engine_follows: "follows_definition run_env sample_values engine_claimed engine_row sample_definition"
  unfolding follows_definition_def
  by (intro exI [of _ engine_version]) (simp add: engine_rows engine_row_fields seen_all tget_def engine_version_def sample_version_def sample_loads)

lemma engine_next: "next_nodes sample_values (sample_node ''a'' INPUT) sample_definition (JObj []) [] None = Inr ([''b''], [])"
  by code_simp

lemma engine_finishes:
  obtains s' where "finish_node run_env sample_values nonces sample_definition engine_row r ev (sample_node ''a'' INPUT) dig (JObj []) None s = Inr s'"
proof -
  obtain q s1 where q: "record_attempt engine_row (sample_node ''a'' INPUT) dig (ex_state_digest engine_row) s = (q, s1)" by fastforce
  have id: "node_id (sample_node ''a'' INPUT) = ''a''" by (simp add: sample_node_def)
  have "ex_current_nodes (complete_node ''a'' [''b''] [] engine_row) = [''b'']"
    by (simp add: complete_node_def engine_row_fields)
  then show thesis using that
    by (simp add: finish_node_def q engine_row_fields engine_next handler_eval Let_def create_checkpoint_def run_env_key uuid4_def id)
qed

lemma engine_advances:
  obtains s' e' where "advance run_env sample_values nonces engine_claim engine_claimed = Inr s'"
    "e' \<in> set (executions s')" "ex_id e' = 1" "ex_path e' = [''a'']" "ex_current_nodes e' = [''b'']"
proof -
  let ?r = "gate_run\<lparr>run_status := RunRunning, run_started_at := Some 10, run_updated_at := 100\<rparr>"
  let ?ev = "engine_event\<lparr>ob_dispatched_at := Some 100, ob_attempts := 1\<rparr>"
  obtain s' where fin: "finish_node run_env sample_values nonces sample_definition engine_row ?r ?ev (sample_node ''a'' INPUT)
      (ex_state_digest engine_row) (JObj []) None engine_claimed = Inr s'" by (rule engine_finishes)
  have ready: "ready_nodes sample_definition engine_row = [''a'']"
    by (simp add: ready_nodes_def engine_row_fields) code_simp
  have select: "select_node sample_values engine_row [''a''] ?ev engine_claimed = Inr (''a'', Woken)"
    by (simp add: select_node_def engine_event_def payload_value_def jlookup_def)
  have node: "node_by_id sample_definition ''a'' = Some (sample_node ''a'' INPUT)" by code_simp
  have "advance_node run_env sample_values nonces sample_definition engine_row ?r ?ev (JObj []) (sample_node ''a'' INPUT) Woken None None engine_claimed = Inr s'"
    using fin by (simp add: advance_node_def sample_node_def evaluate_workflow_node_policy_def caught_def require_executable_policy_effect_def
        run_node_def handler_eval Let_def WAIT_NODE_TYPES_def)
  then have "advance_claimed run_env sample_values nonces engine_row ?r engine_version ?ev (JObj []) engine_claimed = Inr s'"
    by (simp add: advance_claimed_def engine_rows engine_row_fields seen_def handler_eval Let_def ready select node engine_version_def
        sample_version_def sample_loads)
  moreover have "get_execution engine_claimed (cw_execution_id engine_claim) = Some engine_row"
    "get_run engine_claimed (ex_run_id engine_row) = Some ?r" "get_version engine_claimed (ex_version_id engine_row) = Some engine_version"
    "get_event engine_claimed (cw_event_id engine_claim) = Some ?ev"
    using engine_rows(8)
    by (simp_all add: engine_rows engine_row_fields engine_claim_def seen_all tget_def gate_run_def engine_version_def sample_version_def)
  ultimately have "advance run_env sample_values nonces engine_claim engine_claimed = Inr s'"
    by (simp add: advance_def engine_row_fields engine_state handler_eval Let_def) (simp add: engine_event_def engine_claim_def)
  moreover obtain e' where "e' \<in> set (executions s')" "ex_id e' = 1" "ex_path e' = [''a'']" "ex_current_nodes e' = [''b'']"
  proof (rule finish_node_rows [OF fin])
    fix nexts counts s2
    assume succ: "next_nodes sample_values (sample_node ''a'' INPUT) sample_definition (JObj []) (ex_loop_counts engine_row) None = Inr (nexts, counts)"
      and s2: "executions s2 = tupd ex_id (ex_id engine_row) (complete_node (node_id (sample_node ''a'' INPUT)) nexts counts) (executions engine_claimed)"
      and "touches (ex_id engine_row) s2 s'"
    then obtain f extra where f: "executions s' = tupd ex_id (ex_id engine_row) f (executions s2) @ extra"
        "\<And>e. ex_id (f e) = ex_id e \<and> routing (f e) = routing e"
      by (auto simp: touches_def)
    let ?c = "complete_node ''a'' [''b''] [] engine_row"
    have "?c \<in> set (executions s2)"
    proof -
      have "nexts = [''b'']" "counts = []" using succ by (simp_all add: engine_row_fields engine_next)
      then show ?thesis using s2 by (simp add: engine_rows tupd_def) (simp add: sample_node_def)
    qed
    from tupd_memI [OF this, of ex_id "ex_id engine_row" f]
    have "f ?c \<in> set (executions s')" by (simp add: f(1) complete_node_def)
    moreover have "routing (f ?c) = routing ?c" "ex_id (f ?c) = ex_id ?c" using f(2) by simp_all
    ultimately show thesis
      by (intro that [of "f ?c"]) (simp_all add: routing_def complete_node_def engine_row_fields)
  qed
  ultimately show thesis by (rule that)
qed

lemma engine_walk: "walk_ok sample_definition engine_row"
proof (rule walk_started)
  show "accepted sample_definition" using sample_definition_valid by (auto simp: accepted_def split: sum.splits)
  show "started sample_definition engine_row" by (simp add: started_def engine_row_fields sample_definition_def)
qed

theorem advance_refines_routing_witness:
  "\<exists>s' e'. advance run_env sample_values (\<lambda>_. ''abcdefghijkl'') engine_claim engine_claimed = Inr s' \<and>
     e' \<in> set (executions s') \<and> ex_id e' = ex_id engine_row \<and> walk_ok sample_definition e'"
proof -
  obtain s' where adv: "advance run_env sample_values (\<lambda>_. ''abcdefghijkl'') engine_claim engine_claimed = Inr s'" by (rule engine_advances)
  have "distinct (map ex_id (executions engine_claimed))" "engine_row \<in> set (executions engine_claimed)"
    by (simp_all add: engine_rows engine_row_fields ended_sample_def)
  from advance_refines_routing [OF adv this] show ?thesis using adv engine_follows engine_walk by blast
qed

theorem ended_executions_untouched_witness:
  "\<exists>s'. process_workflow_once run_env sample_values ''token'' (\<lambda>_. ''abcdefghijkl'') engine_db = (Inr True, s') \<and>
     ended_sample \<in> set (executions s') \<and> (\<exists>e' \<in> set (executions s'). ex_path e' = [''a''])"
proof -
  obtain s1 e' where s1: "advance run_env sample_values (\<lambda>_. ''abcdefghijkl'') engine_claim engine_claimed = Inr s1"
    "e' \<in> set (executions s1)" "ex_path e' = [''a'']" by (rule engine_advances)
  have pass: "process_workflow_once run_env sample_values ''token'' (\<lambda>_. ''abcdefghijkl'') engine_db = (Inr True, flush s1)"
    by (simp add: process_workflow_once_def engine_finalizes engine_claims) (simp add: transaction_def s1(1) handler_eval)
  have "distinct (map ex_id (executions engine_db))" "ended_sample \<in> set (executions engine_db)"
    by (simp_all add: engine_db_def engine_execution_def ended_sample_def sample_execution_def)
  from ended_executions_untouched [OF pass this] pass s1 show ?thesis by (auto simp: ended_sample_def)
qed

subsection \<open>An execution that fails while it waits\<close>

definition closing_env :: env where
  "closing_env = run_env\<lparr>sha256_hex := (\<lambda>_. ''h'')\<rparr>"

definition closing_db :: db where
  "closing_db = engine_claimed\<lparr>waits := [sample_wait]\<rparr>"

lemma closing_signs: "signing_works closing_env" "evidence_signer closing_env (evidence_key_b64 closing_env) (evidence_key_id closing_env) = Inr (sample_key, ''key'')"
  by (simp_all add: signing_works_def closing_env_def run_env_def sample_env_def is_ascii_def evidence_signer_def handler_eval)
    (simp add: sample_key_def strip_def is_space_def handler_eval)

lemma closing_fails:
  obtains s' where "fail_execution closing_env sample_values engine_row gate_run engine_event (JObj []) ''workflow_wait_expired'' closing_db = Inr s'"
proof -
  let ?e = "ended ExFailed ''workflow_wait_expired'' (now closing_db) engine_row"
  have dep: "\<exists>s'. settle_dependents v p ?e r state failed s = Inr s'" for v p r state failed s
    by (simp add: settle_dependents_def settle_evaluation_execution_def ended_def engine_row_def take_execution_def engine_execution_def
        sample_execution_def handler_eval)
  have seal: "\<exists>s'. seal_workflow_evidence closing_env ?e s = Inr s'"
    if "runs s \<noteq> []" "list_all (\<lambda>r. run_id r = 2) (runs s)" "versions s = [engine_version]" "tenant s = None" for s
    using that closing_signs(2)
    by (cases "runs s") (auto simp: seal_workflow_evidence_def flush_def seen_all handler_eval Let_def tget_def engine_row_fields
        engine_version_def sample_version_def uuid4_def)
  let ?s = "trace_event closing_env (ex_org ?e) (ex_run_id ?e) ''workflow'' ''workflow.failed'' ''failed''
    (JObj [(''error_code'', JStr ''workflow_wait_expired''), (''raw_content_captured'', JBool False)])
    (end_rows engine_row gate_run engine_event ExFailed RunFailed ''parent-failed'' ''workflow_wait_expired'' closing_db)"
  obtain s2 where s2: "settle_dependents closing_env sample_values ?e (ended_run RunFailed ''workflow_wait_expired'' (now closing_db) gate_run)
      (JObj []) (Some ''workflow_wait_expired'') ?s = Inr s2" using dep by blast
  have "runs s2 \<noteq> []" "list_all (\<lambda>r. run_id r = 2) (runs s2)" "versions s2 = [engine_version]" "tenant s2 = None"
    by (simp_all add: settle_dependents_frame [OF s2] end_rows_def Let_def written_workflow_rows closing_db_def engine_rows tupd_def ended_run_def gate_run_def)
  then show thesis using that s2 seal [of "audit v a b c d e f g s2" for v a b c d e f g]
    by (simp add: fail_execution_def Let_def handler_eval) blast
qed

theorem ended_execution_closed_witness:
  "\<exists>s'. fail_execution closing_env sample_values engine_row gate_run engine_event (JObj []) ''workflow_wait_expired'' closing_db = Inr s' \<and>
     ended_well closing_env engine_row ExFailed ''workflow_wait_expired'' closing_db s' \<and>
     sample_wait \<in> set (waits closing_db) \<and> wt_status sample_wait = ''pending'' \<and> wt_execution_id sample_wait = ex_id engine_row"
proof -
  obtain s' where s': "fail_execution closing_env sample_values engine_row gate_run engine_event (JObj []) ''workflow_wait_expired'' closing_db = Inr s'"
    by (rule closing_fails)
  have "tenant closing_db = None" "engine_row \<in> set (executions closing_db)" by (simp_all add: closing_db_def engine_rows)
  from ended_execution_closed [OF closing_signs(1) this] s' show ?thesis
    by (auto simp: closing_db_def sample_wait_def engine_row_fields)
qed

subsection \<open>Ready work is claimed\<close>

lemma claim_total:
  assumes first: "first_by ob_created_at (sort_key ob_id (filter (claimable (now s) s) (seen s ob_org (outbox s)))) = Some ev"
    and ids: "distinct (map ex_id (executions s))" and runs: "\<forall>e \<in> set (executions s). ex_run_id e \<in> run_id ` set (runs s)"
    and all: "tenant s = None"
  obtains e r where "get_execution s (ob_aggregate_id ev) = Some e" "\<not> protected (now s) e"
    "claim_workflow_ready v token s = Inr (begin_execution v token e r ev s)"
proof -
  have "claimable (now s) s ev" using first_by_SomeD [OF first] by simp
  then obtain e where e: "e \<in> set (executions s)" "ex_id e = ob_aggregate_id ev" and free: "ex_status e = ExQueued \<or> ex_status e = ExWaiting \<or> recoverable (now s) e"
    by (auto simp: claimable_def list_ex_iff seen_all [OF all])
  have got: "get_execution s (ob_aggregate_id ev) = Some e" using distinct_tget [OF ids e(1)] by (simp add: seen_all [OF all] e(2))
  have unprotected: "\<not> protected (now s) e" using free by (auto simp: protected_def recoverable_def split: option.splits)
  have status: "ex_status e \<in> {ExQueued, ExRunning, ExWaiting}" using free by (auto simp: recoverable_def)
  obtain r where "get_run s (ex_run_id e) = Some r" using runs e(1) by (cases "get_run s (ex_run_id e)") (auto simp: tget_None_iff seen_all [OF all])
  then have "claim_workflow_ready v token s = Inr (begin_execution v token e r ev s)"
    using unprotected status by (auto simp: claim_workflow_ready_def first got protected_def handler_eval)
  then show thesis using got unprotected by (rule that [rotated 2])
qed

text \<open>
  C13. Ready work is taken up: if an execution is queued or waiting and an event for it is due and not yet
  dispatched, or if its worker died, the lease has run out and the event is not done, then the next claim of a
  worker succeeds. What it claims was free, runs now under the worker's own token, and cannot be taken by
  others before the lease runs out. Every execution has its run.
\<close>

theorem ready_work_is_claimed:
  assumes "tenant s = None" and "distinct (map ex_id (executions s))"
    and "\<forall>e \<in> set (executions s). ex_run_id e \<in> run_id ` set (runs s)"
    and "e \<in> set (executions s)" and "ev \<in> set (outbox s)" and "ob_aggregate_id ev = ex_id e"
    and "ob_topic ev = ''workflow.ready''" and "ob_processed_at ev = None" and "ob_available_at ev \<le> now s"
    and "ex_status e \<in> {ExQueued, ExWaiting} \<and> ob_dispatched_at ev = None \<or>
      ex_status e = ExRunning \<and> (\<exists>l. ex_lease_expires_at e = Some l \<and> l < now s)"
  shows "\<exists>cl s' e0 e'. claim_workflow_ready v token s = Inr (Some cl, s') \<and> cw_token cl = token \<and>
    get_execution s (cw_execution_id cl) = Some e0 \<and> \<not> protected (now s) e0 \<and>
    e' \<in> set (executions s') \<and> holds_claim v cl e' \<and> ex_lease_expires_at e' = Some (now s + seconds (action_lease_seconds v)) \<and>
    routing e' = routing e0"
proof -
  have "claimable (now s) s ev"
    using assms(1,4,6-) by (auto simp: claimable_def recoverable_def list_ex_iff seen_all)
  then have "filter (claimable (now s) s) (seen s ob_org (outbox s)) \<noteq> []"
    using assms(1,5) by (auto simp: filter_empty_conv seen_all)
  then have "sort_key ob_id (filter (claimable (now s) s) (seen s ob_org (outbox s))) \<noteq> []" by (metis set_empty set_sort)
  then obtain ev' where "first_by ob_created_at (sort_key ob_id (filter (claimable (now s) s) (seen s ob_org (outbox s)))) = Some ev'"
    using first_by_None_iff by blast
  then obtain e0 r where e0: "get_execution s (ob_aggregate_id ev') = Some e0" "\<not> protected (now s) e0"
    and claim: "claim_workflow_ready v token s = Inr (begin_execution v token e0 r ev' s)"
    by (rule claim_total [OF _ assms(2,3,1)])
  let ?cl = "\<lparr>cw_execution_id = ex_id e0, cw_org = ex_org e0, cw_run_id = ex_run_id e0, cw_event_id = ob_id ev', cw_token = token\<rparr>"
  let ?t = "take_execution v token (now s) e0"
  have mem: "e0 \<in> set (executions s)" "ob_aggregate_id ev' = ex_id e0" using tget_SomeD [OF e0(1)] assms(1) by (simp_all add: seen_all)
  have "?t \<in> set (executions (snd (begin_execution v token e0 r ev' s)))"
    using tupd_memI [OF mem(1), of ex_id "ex_id e0" "take_execution v token (now s)"] by (simp add: begin_execution_rows)
  moreover have "claim_workflow_ready v token s = Inr (Some ?cl, snd (begin_execution v token e0 r ev' s))"
    using claim begin_execution_rows(1) [of v token e0 r ev' s] by (metis prod.collapse)
  moreover have "holds_claim v ?cl ?t" "routing ?t = routing e0" "ex_lease_expires_at ?t = Some (now s + seconds (action_lease_seconds v))"
    by (simp_all add: holds_claim_def take_execution_def routing_def)
  ultimately show ?thesis using e0 mem(2)
    by (intro exI [of _ ?cl] exI [of _ "snd (begin_execution v token e0 r ev' s)"] exI [of _ e0] exI [of _ ?t]) simp
qed

theorem ready_work_is_claimed_witness:
  "\<exists>cl s'. claim_workflow_ready run_env ''token'' (engine_db\<lparr>executions := [engine_execution]\<rparr>) = Inr (Some cl, s') \<and>
     (\<exists>e' \<in> set (executions s'). holds_claim run_env cl e')"
proof -
  let ?s = "engine_db\<lparr>executions := [engine_execution]\<rparr>"
  have "tenant ?s = None" "distinct (map ex_id (executions ?s))" "\<forall>e \<in> set (executions ?s). ex_run_id e \<in> run_id ` set (runs ?s)"
    "engine_execution \<in> set (executions ?s)" "engine_event \<in> set (outbox ?s)" "ob_aggregate_id engine_event = ex_id engine_execution"
    "ob_topic engine_event = ''workflow.ready''" "ob_processed_at engine_event = None" "ob_available_at engine_event \<le> now ?s"
    "ex_status engine_execution \<in> {ExQueued, ExWaiting} \<and> ob_dispatched_at engine_event = None \<or>
      ex_status engine_execution = ExRunning \<and> (\<exists>l. ex_lease_expires_at engine_execution = Some l \<and> l < now ?s)"
    by (simp_all add: engine_db_def engine_event_def engine_execution_def sample_execution_def gate_run_def)
  from ready_work_is_claimed [OF this, of run_env "''token''"] show ?thesis by blast
qed

end
