(* ===== verification/RS_Gateway.thy ===== *)
theory RS_Gateway
  imports RS_Sample_Run RS_Model_Calls RS_Evaluations RS_Evidence
begin

section \<open>The gateway\<close>

text \<open>
  Models the action and model paths of \<open>apps/gateway/runsigil_gateway/main.py\<close>, its \<open>tokens.py\<close> and
  \<open>egress.py\<close>, the internal routes and sessions of the control API that it asks for authorization, and the
  dispatch of the two workers. A handler returns its result with the list of the requests it sent to the
  provider. What others answer (the provider, the resolver) is an argument; a reply may be missing, may not
  be JSON, and the worker may lose the gateway's. JSON documents arrive as they were sent. Exceptions that are not \<open>RunSigilError\<close> are answered with
  500; pydantic's reading of a number of tokens is a parameter.
\<close>

datatype http_reply = NoReply | Broken | Reply int int "json option"

record url_parts =
  url_scheme :: string
  url_hostname :: "string option"
  url_username :: "string option"
  url_password :: "string option"
  url_query :: string
  url_fragment :: string
  url_port :: "nat option option"

record network =
  url_parse :: "string \<Rightarrow> url_parts"
  getaddrinfo :: "string \<Rightarrow> nat \<Rightarrow> string list option"
  is_global :: "string \<Rightarrow> bool"
  hmac_sha256 :: "string \<Rightarrow> string \<Rightarrow> string"
  time_seconds :: int
  token_urlsafe :: string
  read_count :: "json \<Rightarrow> int option"

record gateway_settings =
  gw_production :: bool
  gw_internal_service_token :: string
  gw_gateway_service_token :: string
  gw_provider_url :: string
  gw_model_provider_url :: string
  gw_signing_key :: string
  gw_allow_private :: bool
  gw_response_max_bytes :: int

subsection \<open>Egress\<close>

definition given :: "string option \<Rightarrow> bool" where
  "given x \<longleftrightarrow> x \<noteq> None \<and> x \<noteq> Some []"

definition destination_port :: "url_parts \<Rightarrow> nat option \<Rightarrow> nat" where
  "destination_port u port = (case port of Some p \<Rightarrow> if p = 0 then (if url_scheme u = ''https'' then 443 else 80) else p
     | None \<Rightarrow> if url_scheme u = ''https'' then 443 else 80)"

definition validate_fixed_destination :: "network \<Rightarrow> string \<Rightarrow> bool \<Rightarrow> bool \<Rightarrow> rs_error + unit" where
  "validate_fixed_destination net url allow_private production =
     (let u = url_parse net url
      in require (url_scheme u \<in> {''http'', ''https''} \<and> given (url_hostname u))
           (PyValueError ''provider URL must be absolute HTTP(S)'') (
         require (\<not> (given (url_username u) \<or> given (url_password u) \<or> url_query u \<noteq> [] \<or> url_fragment u \<noteq> []))
           (PyValueError ''provider URL cannot include credentials, query, or fragment'') (
         require (\<not> (production \<and> url_scheme u \<noteq> ''https''))
           (PyValueError ''production provider URL must use HTTPS'') (
         fetch (url_port u) (PyValueError ''port'') (\<lambda>port.
         fetch (getaddrinfo net (case url_hostname u of None \<Rightarrow> [] | Some h \<Rightarrow> h) (destination_port u port)) (PyRuntimeError ''getaddrinfo'') (\<lambda>answers.
         require (answers \<noteq> []) (PyValueError ''provider hostname did not resolve'') (
         require (list_all (\<lambda>a. is_global net a \<or> allow_private) answers)
           (PyValueError ''provider hostname resolves to a non-global address'') (Inr ()))))))))"

subsection \<open>Tokens\<close>

text \<open>\<open>urlsafe_b64encode\<close> without its padding, and back.\<close>

definition b64url :: "env \<Rightarrow> string \<Rightarrow> string" where
  "b64url v x = rev (dropWhile (\<lambda>c. c = CHR ''='') (rev (b64url_encode v x)))"

definition decode_b64url :: "env \<Rightarrow> string \<Rightarrow> rs_error + string" where
  "decode_b64url v x = fetch (b64url_decode v (x @ replicate (nat (- int (length x) mod 4)) (CHR ''=''))) (PyValueError ''base64'') Inr"

definition token_header :: json where
  "token_header = JObj [(''alg'', JStr ''HS256''), (''typ'', JStr ''JWT''), (''kid'', JStr ''runsigil-demo-provider-v1'')]"

definition token_claims :: "network \<Rightarrow> json \<Rightarrow> json \<Rightarrow> string \<Rightarrow> string \<Rightarrow> string \<Rightarrow> digest \<Rightarrow> int \<Rightarrow> json" where
  "token_claims net audience subject key subject_id run content lifetime = JObj
     [(''iss'', JStr ''runsigil-gateway''), (''aud'', audience), (''sub'', subject), (''iat'', JInt (time_seconds net)),
      (''exp'', JInt (time_seconds net + lifetime)), (''jti'', JStr (token_urlsafe net)), (key, JStr subject_id),
      (''run_id'', JStr run), (''content_digest'', JStr content)]"

definition sign_token :: "env \<Rightarrow> network \<Rightarrow> string \<Rightarrow> json \<Rightarrow> string" where
  "sign_token v net signing_key claims =
     (let encoded = b64url v (json_bytes token_header) @ ''.'' @ b64url v (json_bytes claims)
      in encoded @ ''.'' @ b64url v (hmac_sha256 net signing_key encoded))"

definition mint_audience_token :: "env \<Rightarrow> network \<Rightarrow> string \<Rightarrow> json \<Rightarrow> json \<Rightarrow> string \<Rightarrow> string \<Rightarrow> digest \<Rightarrow> int \<Rightarrow> string" where
  "mint_audience_token v net signing_key audience subject action_id run content lifetime =
     sign_token v net signing_key (token_claims net audience subject ''action_id'' action_id run content lifetime)"

definition mint_model_audience_token :: "env \<Rightarrow> network \<Rightarrow> string \<Rightarrow> json \<Rightarrow> json \<Rightarrow> string \<Rightarrow> string \<Rightarrow> digest \<Rightarrow> int \<Rightarrow> string" where
  "mint_model_audience_token v net signing_key audience subject model_call_id run content lifetime =
     sign_token v net signing_key (token_claims net audience subject ''model_call_id'' model_call_id run content lifetime)"

text \<open>\<open>token.split(".", 2)\<close>, unpacked into three parts.\<close>

definition cut_at :: "char \<Rightarrow> string \<Rightarrow> (string \<times> string) option" where
  "cut_at c s = (case dropWhile (\<lambda>x. x \<noteq> c) s of [] \<Rightarrow> None | _ # rest \<Rightarrow> Some (takeWhile (\<lambda>x. x \<noteq> c) s, rest))"

definition split_token :: "string \<Rightarrow> (string \<times> string \<times> string) option" where
  "split_token s = Option.bind (cut_at (CHR ''.'') s) (\<lambda>(a, rest). map_option (\<lambda>(b, c). (a, b, c)) (cut_at (CHR ''.'') rest))"

definition read_part :: "env \<Rightarrow> string \<Rightarrow> rs_error + json" where
  "read_part v x = rbind (decode_b64url v x) (\<lambda>b. fetch (json_loads v b) (PyValueError ''json'') Inr)"

definition verify_audience_token :: "env \<Rightarrow> py_values \<Rightarrow> network \<Rightarrow> string \<Rightarrow> string \<Rightarrow> string \<Rightarrow> rs_error + json" where
  "verify_audience_token v p net token signing_key audience =
     fetch (split_token token) (PyValueError ''not enough values to unpack'') (\<lambda>(header_part, claims_part, signature_part).
     let signed = header_part @ ''.'' @ claims_part
     in require (list_all is_ascii signed) (PyValueError ''ascii'') (
        rbind (decode_b64url v signature_part) (\<lambda>supplied.
        require (hmac_sha256 net signing_key signed = supplied) (PyValueError ''token signature is invalid'') (
        rbind (read_part v header_part) (\<lambda>header.
        rbind (read_part v claims_part) (\<lambda>claims.
        require (is_object header \<and> is_object claims) (PyValueError ''token header and claims must be JSON objects'') (
        require (jlookup ''alg'' header = Some (JStr ''HS256'') \<and> jlookup ''iss'' claims = Some (JStr ''runsigil-gateway''))
          (PyValueError ''token issuer or algorithm is invalid'') (
        require (jlookup ''aud'' claims = Some (JStr audience)) (PyValueError ''token audience or lifetime is invalid'') (
        rbind (py_int p (case jlookup ''exp'' claims of None \<Rightarrow> JInt 0 | Some j \<Rightarrow> j)) (\<lambda>exp.
        require (time_seconds net < exp) (PyValueError ''token audience or lifetime is invalid'') (Inr claims)))))))))))"

subsection \<open>The control API's side\<close>

definition verify_internal_token :: "string option \<Rightarrow> string \<Rightarrow> string \<Rightarrow> rs_error + unit" where
  "verify_internal_token value expected code =
     require (value = Some expected) (rs_err AUTH_INVALID (''Invalid '' @ code @ '' service credential.'') 401) (Inr ())"

definition internal_action_session :: "string \<Rightarrow> uuid \<Rightarrow> string option \<Rightarrow> db \<Rightarrow> (db \<Rightarrow> rs_error + 'a) \<Rightarrow> rs_error + 'a" where
  "internal_action_session expected action_id service_token s body =
     rbind (verify_internal_token service_token expected ''gateway'') (\<lambda>_.
     require (get_action s action_id \<noteq> None) (rs_err NOT_FOUND ''Action not found.'' 404) (body s))"

definition internal_model_call_session :: "string \<Rightarrow> uuid \<Rightarrow> string option \<Rightarrow> db \<Rightarrow> (db \<Rightarrow> rs_error + 'a) \<Rightarrow> rs_error + 'a" where
  "internal_model_call_session expected call_id service_token s body =
     rbind (verify_internal_token service_token expected ''gateway'') (\<lambda>_.
     require (get_model_call s call_id \<noteq> None) (rs_err NOT_FOUND ''Model call not found.'' 404) (body s))"

definition authorization_json :: "internal_authorization \<Rightarrow> json" where
  "authorization_json ia = JObj
     [(''authorized'', JBool True), (''organization_id'', juuid (ia_organization_id ia)), (''run_id'', juuid (ia_run_id ia)),
      (''workload_subject'', JStr (ia_workload_subject ia)), (''audience'', JStr (ia_audience ia)),
      (''content_digest'', JStr (ia_content_digest ia)), (''arguments_digest'', JStr (ia_arguments_digest ia)),
      (''decision_id'', juuid (ia_decision_id ia)), (''approval_id'', jopt juuid (ia_approval_id ia)),
      (''budget_reservation_id'', juuid (ia_reservation_id ia)), (''budget_reservation_ids'', JArr (map juuid (ia_reservation_ids ia)))]"

definition model_authorization_json :: "model_authorization \<Rightarrow> json" where
  "model_authorization_json ma = JObj
     [(''authorized'', JBool True), (''organization_id'', juuid (ma_organization_id ma)), (''run_id'', juuid (ma_run_id ma)),
      (''workload_subject'', JStr (ma_workload_subject ma)), (''audience'', JStr (ma_audience ma)),
      (''content_digest'', JStr (ma_content_digest ma)), (''request_digest'', JStr (ma_request_digest ma)),
      (''model_route_id'', juuid (ma_model_route_id ma)), (''provider'', JStr (ma_provider ma)), (''model'', JStr (ma_model ma)),
      (''decision_id'', juuid (ma_decision_id ma)), (''delegation_id'', juuid (ma_delegation_id ma)),
      (''budget_reservation_ids'', JArr (map juuid (ma_reservation_ids ma)))]"

text \<open>What FastAPI answers: the response model, or the status of the exception.\<close>

definition answer :: "rs_error + json \<Rightarrow> http_reply" where
  "answer r = (case r of Inr j \<Rightarrow> Reply 200 (int (length (json_bytes j))) (Some j) | Inl err \<Rightarrow> Reply (int (error_status err)) 0 None)"

definition authorize_action ::
  "env \<Rightarrow> string \<Rightarrow> db \<Rightarrow> string option \<Rightarrow> uuid \<Rightarrow> digest \<Rightarrow> string \<Rightarrow> string \<Rightarrow> http_reply" where
  "authorize_action v expected s service_token action_id content token mode =
     answer (internal_action_session expected action_id service_token s (\<lambda>s.
       map_sum id authorization_json (authorize_gateway_action v action_id content token mode s)))"

definition authorize_model_call ::
  "env \<Rightarrow> string \<Rightarrow> db \<Rightarrow> string option \<Rightarrow> uuid \<Rightarrow> digest \<Rightarrow> string \<Rightarrow> string \<Rightarrow> http_reply" where
  "authorize_model_call v expected s service_token call_id content token mode =
     answer (internal_model_call_session expected call_id service_token s (\<lambda>s.
       map_sum id model_authorization_json (authorize_gateway_model_call v call_id content token mode s)))"

subsection \<open>Requests\<close>

record action_request =
  ar_action_id :: uuid
  ar_org :: uuid
  ar_run_id :: uuid
  ar_content_digest :: digest
  ar_idempotency_key :: string
  ar_claim_token :: string
  ar_arguments :: json

record model_exec_request =
  mr_call_id :: uuid
  mr_org :: uuid
  mr_run_id :: uuid
  mr_content_digest :: digest
  mr_idempotency_key :: string
  mr_claim_token :: string
  mr_model :: string
  mr_input :: json
  mr_max_output_tokens :: int

record provider_request =
  pq_method :: string
  pq_url :: string
  pq_headers :: "(string \<times> string) list"
  pq_body :: "json option"

text \<open>\<open>url.rstrip("/") + "/" + quote(key, safe="")\<close>\<close>

definition unreserved :: "char \<Rightarrow> bool" where
  "unreserved c \<longleftrightarrow> (let n = of_char c :: nat in 48 \<le> n \<and> n \<le> 57 \<or> 65 \<le> n \<and> n \<le> 90 \<or> 97 \<le> n \<and> n \<le> 122 \<or> c \<in> {CHR ''_'', CHR ''.'', CHR ''-'', CHR ''~''})"

definition hex_upper :: "nat \<Rightarrow> char" where
  "hex_upper n = char_of (if n < 10 then 48 + n else 55 + n)"

definition quote_char :: "char \<Rightarrow> string" where
  "quote_char c = (if unreserved c then [c] else [CHR 0x25, hex_upper (of_char c div 16), hex_upper (of_char c mod 16)])"

definition effect_url :: "string \<Rightarrow> string \<Rightarrow> string" where
  "effect_url url key = rev (dropWhile (\<lambda>c. c = CHR ''/'') (rev url)) @ ''/'' @ concat (map quote_char key)"

subsection \<open>The last check before egress\<close>

definition verify_worker :: "gateway_settings \<Rightarrow> string option \<Rightarrow> rs_error + unit" where
  "verify_worker g token =
     require (token = Some (gw_internal_service_token g)) (rs_err AUTH_INVALID ''Invalid worker service credential.'' 401) (Inr ())"

definition authorized_object :: "string \<Rightarrow> string \<Rightarrow> http_reply \<Rightarrow> rs_error + json" where
  "authorized_object denied shapeless reply =
     (case reply of
        Reply status len body \<Rightarrow>
          require (status = 200) (rs_err ACTION_NOT_AUTHORIZED denied 403) (
          fetch body (PyValueError ''json'') (\<lambda>j.
          require (is_object j) (rs_err ACTION_NOT_AUTHORIZED shapeless 403) (Inr j)))
      | _ \<Rightarrow> Inl (PyRuntimeError ''httpx''))"

definition gateway_authorize :: "env \<Rightarrow> action_request \<Rightarrow> http_reply \<Rightarrow> rs_error + json" where
  "gateway_authorize v q reply =
     rbind (authorized_object ''Final online authorization denied provider egress.'' ''Authorization response is not an object.'' reply) (\<lambda>j.
     require (jlookup ''content_digest'' j = Some (JStr (ar_content_digest q)))
       (rs_err ACTION_NOT_AUTHORIZED ''Authorization digest mismatch.'' 403) (
     require (jlookup ''arguments_digest'' j = Some (JStr (digest_of v (ar_arguments q))))
       (rs_err ACTION_NOT_AUTHORIZED ''Action arguments do not match durable intent.'' 403) (Inr j)))"

definition gateway_authorize_model :: "env \<Rightarrow> model_exec_request \<Rightarrow> http_reply \<Rightarrow> rs_error + json" where
  "gateway_authorize_model v q reply =
     rbind (authorized_object ''Final online authorization denied model-provider egress.'' ''Model authorization response is not an object.'' reply) (\<lambda>j.
     require (jlookup ''content_digest'' j = Some (JStr (mr_content_digest q)))
       (rs_err ACTION_NOT_AUTHORIZED ''Model authorization digest mismatch.'' 403) (
     require (jlookup ''request_digest'' j = Some (JStr (digest_of v (mr_input q))))
       (rs_err ACTION_NOT_AUTHORIZED ''Model input does not match durable intent.'' 403) (
     require (jlookup ''model'' j = Some (JStr (mr_model q)))
       (rs_err ACTION_NOT_AUTHORIZED ''Model route does not match durable intent.'' 403) (Inr j))))"

definition headers_of :: "string \<Rightarrow> string \<Rightarrow> (string \<times> string) list" where
  "headers_of token key = [(''Authorization'', ''Bearer '' @ token), (''Idempotency-Key'', key), (''Content-Type'', ''application/json'')]"

definition provider_headers :: "env \<Rightarrow> network \<Rightarrow> gateway_settings \<Rightarrow> action_request \<Rightarrow> json \<Rightarrow> rs_error + (string \<times> string) list" where
  "provider_headers v net g q authorization =
     fetch (jlookup ''audience'' authorization) (PyKeyError ''audience'') (\<lambda>audience.
     fetch (jlookup ''workload_subject'' authorization) (PyKeyError ''workload_subject'') (\<lambda>subject.
     Inr (headers_of (mint_audience_token v net (gw_signing_key g) audience subject (uuid_str (ar_action_id q)) (uuid_str (ar_run_id q))
       (ar_content_digest q) 60) (ar_idempotency_key q))))"

definition model_provider_headers :: "env \<Rightarrow> network \<Rightarrow> gateway_settings \<Rightarrow> model_exec_request \<Rightarrow> json \<Rightarrow> rs_error + (string \<times> string) list" where
  "model_provider_headers v net g q authorization =
     fetch (jlookup ''audience'' authorization) (PyKeyError ''audience'') (\<lambda>audience.
     fetch (jlookup ''workload_subject'' authorization) (PyKeyError ''workload_subject'') (\<lambda>subject.
     Inr (headers_of (mint_model_audience_token v net (gw_signing_key g) audience subject (uuid_str (mr_call_id q)) (uuid_str (mr_run_id q))
       (mr_content_digest q) 60) (mr_idempotency_key q))))"

subsection \<open>What a reply means\<close>

text \<open>\<open>body.get(k)\<close>, and a reference as pydantic takes it: a text or nothing.\<close>

definition member :: "string \<Rightarrow> json \<Rightarrow> json" where
  "member k j = (case jlookup k j of None \<Rightarrow> JNull | Some x \<Rightarrow> x)"

definition read_reference :: "json \<Rightarrow> string option option" where
  "read_reference j = (case j of JNull \<Rightarrow> Some None | JStr t \<Rightarrow> Some (Some t) | _ \<Rightarrow> None)"

definition committed_result :: "string \<Rightarrow> (string \<times> json) list \<Rightarrow> json option \<Rightarrow> rs_error + action_execution_result" where
  "committed_result unknown receipt body =
     (case body of
        None \<Rightarrow> Inr (plain_result Ambiguous unknown)
      | Some j \<Rightarrow>
          if \<not> is_object j then Inl (PyRuntimeError ''AttributeError'')
          else case read_reference (member ''effect_id'' j) of
                 None \<Rightarrow> Inr (plain_result Ambiguous unknown)
               | Some ref \<Rightarrow> Inr \<lparr>res_outcome = Committed, res_receipt_preview = JObj (receipt @
                   [(''credential_audience'', member ''credential_audience'' j), (''credential_subject'', member ''credential_subject'' j)]),
                   res_provider_reference = ref, res_error_code = None\<rparr>)"

definition effect_receipt :: "json option \<Rightarrow> (string \<times> json) list" where
  "effect_receipt body = (case body of None \<Rightarrow> [] | Some j \<Rightarrow>
     [(''status'', case jlookup ''status'' j of None \<Rightarrow> JStr ''committed'' | Some x \<Rightarrow> x), (''effect_id'', member ''effect_id'' j)])"

definition reconciled_receipt :: "json option \<Rightarrow> (string \<times> json) list" where
  "reconciled_receipt body = (case body of None \<Rightarrow> [] | Some j \<Rightarrow>
     [(''status'', JStr ''committed''), (''effect_id'', member ''effect_id'' j), (''reconciled'', JBool True)])"

definition execute_outcome :: "gateway_settings \<Rightarrow> http_reply \<Rightarrow> rs_error + action_execution_result" where
  "execute_outcome g reply =
     (case reply of
        NoReply \<Rightarrow> Inr (plain_result Ambiguous ''provider_outcome_unknown'')
      | Broken \<Rightarrow> Inl (PyRuntimeError ''httpx'')
      | Reply status len body \<Rightarrow>
          if len > gw_response_max_bytes g then Inr (plain_result Ambiguous ''provider_response_too_large'')
          else if status \<ge> 500 then Inr (plain_result Ambiguous ''provider_server_error'')
          else if status \<ge> 400 then Inr (plain_result Failed ''provider_rejected'')
          else committed_result ''provider_outcome_unknown'' (effect_receipt body) body)"

definition reconcile_outcome :: "gateway_settings \<Rightarrow> http_reply \<Rightarrow> rs_error + action_execution_result" where
  "reconcile_outcome g reply =
     (case reply of
        NoReply \<Rightarrow> Inr (plain_result Ambiguous ''provider_reconciliation_unknown'')
      | Broken \<Rightarrow> Inl (PyRuntimeError ''httpx'')
      | Reply status len body \<Rightarrow>
          if len > gw_response_max_bytes g then Inr (plain_result Ambiguous ''provider_response_too_large'')
          else if status = 404 then Inr (plain_result Failed ''provider_confirmed_absent'')
          else if status \<noteq> 200 then Inr (plain_result Ambiguous ''provider_reconciliation_unknown'')
          else committed_result ''provider_reconciliation_unknown'' (reconciled_receipt body) body)"

definition plain_model_result :: "model_outcome \<Rightarrow> string \<Rightarrow> model_execution_result" where
  "plain_model_result out code = \<lparr>mx_outcome = out, mx_output = JObj [], mx_provider_reference = None, mx_input_tokens = 0,
     mx_output_tokens = 0, mx_cost_minor = 0, mx_error_code = Some code\<rparr>"

definition count_of :: "network \<Rightarrow> string \<Rightarrow> json \<Rightarrow> int option" where
  "count_of net k j = (case jlookup k j of None \<Rightarrow> Some 0 | Some x \<Rightarrow> read_count net x)"

definition completed_model_result :: "network \<Rightarrow> json \<Rightarrow> int \<Rightarrow> model_execution_result" where
  "completed_model_result net body max_output_tokens =
     (let invalid = plain_model_result ModelAmbiguous ''model_provider_response_invalid''
      in if \<not> is_object body \<or> \<not> is_object (member ''output'' body) then invalid
         else case (read_reference (member ''provider_reference'' body), count_of net ''input_tokens'' body,
                    count_of net ''output_tokens'' body, count_of net ''cost_minor'' body) of
                (Some ref, Some i, Some out, Some c) \<Rightarrow>
                  if out > max_output_tokens then plain_model_result ModelAmbiguous ''model_provider_token_limit_exceeded''
                  else \<lparr>mx_outcome = ModelCompleted, mx_output = member ''output'' body, mx_provider_reference = ref,
                        mx_input_tokens = i, mx_output_tokens = out, mx_cost_minor = c, mx_error_code = None\<rparr>
              | _ \<Rightarrow> invalid)"

definition model_body :: "network \<Rightarrow> string \<Rightarrow> int \<Rightarrow> json option \<Rightarrow> model_execution_result" where
  "model_body net unknown max_output_tokens body =
     (case body of None \<Rightarrow> plain_model_result ModelAmbiguous unknown | Some j \<Rightarrow> completed_model_result net j max_output_tokens)"

definition execute_model_outcome :: "network \<Rightarrow> gateway_settings \<Rightarrow> int \<Rightarrow> http_reply \<Rightarrow> rs_error + model_execution_result" where
  "execute_model_outcome net g max_output_tokens reply =
     (case reply of
        NoReply \<Rightarrow> Inr (plain_model_result ModelAmbiguous ''model_provider_outcome_unknown'')
      | Broken \<Rightarrow> Inl (PyRuntimeError ''httpx'')
      | Reply status len body \<Rightarrow>
          if len > gw_response_max_bytes g then Inr (plain_model_result ModelAmbiguous ''model_provider_response_too_large'')
          else if status \<ge> 500 then Inr (plain_model_result ModelAmbiguous ''model_provider_server_error'')
          else if status \<ge> 400 then Inr (plain_model_result ModelFailed ''model_provider_rejected'')
          else Inr (model_body net ''model_provider_outcome_unknown'' max_output_tokens body))"

definition reconcile_model_outcome :: "network \<Rightarrow> gateway_settings \<Rightarrow> int \<Rightarrow> http_reply \<Rightarrow> rs_error + model_execution_result" where
  "reconcile_model_outcome net g max_output_tokens reply =
     (case reply of
        NoReply \<Rightarrow> Inr (plain_model_result ModelAmbiguous ''model_provider_reconciliation_unknown'')
      | Broken \<Rightarrow> Inl (PyRuntimeError ''httpx'')
      | Reply status len body \<Rightarrow>
          if len > gw_response_max_bytes g then Inr (plain_model_result ModelAmbiguous ''model_provider_response_too_large'')
          else if status = 404 then Inr (plain_model_result ModelFailed ''model_provider_confirmed_absent'')
          else if status \<noteq> 200 then Inr (plain_model_result ModelAmbiguous ''model_provider_reconciliation_unknown'')
          else Inr (model_body net ''model_provider_reconciliation_unknown'' max_output_tokens body))"

subsection \<open>The handlers\<close>

text \<open>The request goes out once it has been prepared without an error.\<close>

definition sends :: "rs_error + provider_request \<Rightarrow> (provider_request \<Rightarrow> http_reply) \<Rightarrow> (http_reply \<Rightarrow> rs_error + 'a) \<Rightarrow>
    (rs_error + 'a) \<times> provider_request list" where
  "sends prepared provider outcome =
     (case prepared of Inl err \<Rightarrow> (Inl err, []) | Inr q \<Rightarrow> (outcome (provider q), [q]))"

definition prepare_action ::
  "env \<Rightarrow> network \<Rightarrow> gateway_settings \<Rightarrow> (string option \<Rightarrow> uuid \<Rightarrow> digest \<Rightarrow> string \<Rightarrow> string \<Rightarrow> http_reply) \<Rightarrow> string option \<Rightarrow> string \<Rightarrow>
     action_request \<Rightarrow> rs_error + (string \<times> string) list" where
  "prepare_action v net g control service_token mode q =
     rbind (verify_worker g service_token) (\<lambda>_.
     rbind (validate_fixed_destination net (gw_provider_url g) (gw_allow_private g) (gw_production g)) (\<lambda>_.
     rbind (gateway_authorize v q (control (Some (gw_gateway_service_token g)) (ar_action_id q) (ar_content_digest q) (ar_claim_token q) mode))
       (provider_headers v net g q)))"

definition execute_action ::
  "env \<Rightarrow> network \<Rightarrow> gateway_settings \<Rightarrow> (string option \<Rightarrow> uuid \<Rightarrow> digest \<Rightarrow> string \<Rightarrow> string \<Rightarrow> http_reply) \<Rightarrow> (provider_request \<Rightarrow> http_reply) \<Rightarrow>
     string option \<Rightarrow> action_request \<Rightarrow> (rs_error + action_execution_result) \<times> provider_request list" where
  "execute_action v net g control provider service_token q =
     sends (map_sum id (\<lambda>hs. \<lparr>pq_method = ''POST'', pq_url = gw_provider_url g, pq_headers = hs, pq_body = Some (ar_arguments q)\<rparr>)
              (prepare_action v net g control service_token ''execute'' q)) provider (execute_outcome g)"

definition reconcile_action ::
  "env \<Rightarrow> network \<Rightarrow> gateway_settings \<Rightarrow> (string option \<Rightarrow> uuid \<Rightarrow> digest \<Rightarrow> string \<Rightarrow> string \<Rightarrow> http_reply) \<Rightarrow> (provider_request \<Rightarrow> http_reply) \<Rightarrow>
     string option \<Rightarrow> action_request \<Rightarrow> (rs_error + action_execution_result) \<times> provider_request list" where
  "reconcile_action v net g control provider service_token q =
     sends (map_sum id (\<lambda>hs. \<lparr>pq_method = ''GET'', pq_url = effect_url (gw_provider_url g) (ar_idempotency_key q), pq_headers = hs, pq_body = None\<rparr>)
              (prepare_action v net g control service_token ''reconcile'' q)) provider (reconcile_outcome g)"

definition prepare_model ::
  "env \<Rightarrow> network \<Rightarrow> gateway_settings \<Rightarrow> (string option \<Rightarrow> uuid \<Rightarrow> digest \<Rightarrow> string \<Rightarrow> string \<Rightarrow> http_reply) \<Rightarrow> string option \<Rightarrow> string \<Rightarrow>
     model_exec_request \<Rightarrow> rs_error + (string \<times> string) list" where
  "prepare_model v net g control service_token mode q =
     rbind (verify_worker g service_token) (\<lambda>_.
     rbind (validate_fixed_destination net (gw_model_provider_url g) (gw_allow_private g) (gw_production g)) (\<lambda>_.
     rbind (gateway_authorize_model v q (control (Some (gw_gateway_service_token g)) (mr_call_id q) (mr_content_digest q) (mr_claim_token q) mode))
       (model_provider_headers v net g q)))"

definition execute_model ::
  "env \<Rightarrow> network \<Rightarrow> gateway_settings \<Rightarrow> (string option \<Rightarrow> uuid \<Rightarrow> digest \<Rightarrow> string \<Rightarrow> string \<Rightarrow> http_reply) \<Rightarrow> (provider_request \<Rightarrow> http_reply) \<Rightarrow>
     string option \<Rightarrow> model_exec_request \<Rightarrow> (rs_error + model_execution_result) \<times> provider_request list" where
  "execute_model v net g control provider service_token q =
     sends (map_sum id (\<lambda>hs. \<lparr>pq_method = ''POST'', pq_url = gw_model_provider_url g, pq_headers = hs,
              pq_body = Some (JObj [(''model'', JStr (mr_model q)), (''input'', mr_input q), (''max_output_tokens'', JInt (mr_max_output_tokens q))])\<rparr>)
              (prepare_model v net g control service_token ''execute'' q)) provider (execute_model_outcome net g (mr_max_output_tokens q))"

definition reconcile_model ::
  "env \<Rightarrow> network \<Rightarrow> gateway_settings \<Rightarrow> (string option \<Rightarrow> uuid \<Rightarrow> digest \<Rightarrow> string \<Rightarrow> string \<Rightarrow> http_reply) \<Rightarrow> (provider_request \<Rightarrow> http_reply) \<Rightarrow>
     string option \<Rightarrow> model_exec_request \<Rightarrow> (rs_error + model_execution_result) \<times> provider_request list" where
  "reconcile_model v net g control provider service_token q =
     sends (map_sum id (\<lambda>hs. \<lparr>pq_method = ''GET'', pq_url = effect_url (gw_model_provider_url g) (mr_idempotency_key q), pq_headers = hs, pq_body = None\<rparr>)
              (prepare_model v net g control service_token ''reconcile'' q)) provider (reconcile_model_outcome net g (mr_max_output_tokens q))"

subsection \<open>The dispatch of the workers\<close>

text \<open>The gateway's reply as the worker receives it, with pydantic's reading of the body.\<close>

datatype 'a gateway_reply = Lost | Served int "'a option"

definition serve :: "bool \<Rightarrow> rs_error + 'a \<Rightarrow> 'a gateway_reply" where
  "serve lost r = (if lost then Lost else case r of Inr x \<Rightarrow> Served 200 (Some x) | Inl err \<Rightarrow> Served (int (error_status err)) None)"

definition mode_text :: "claim_mode \<Rightarrow> string" where
  "mode_text m = (if m = Execute then ''execute'' else ''reconcile'')"

definition claim_arguments :: "env \<Rightarrow> claimed_action \<Rightarrow> db \<Rightarrow> rs_error + json" where
  "claim_arguments v cl s =
     fetch (get_action s (cl_action_id cl)) (PyRuntimeError ''claimed action disappeared'') (\<lambda>a. decrypt_action_arguments v a)"

definition dispatch_outcome :: "action_execution_result gateway_reply \<Rightarrow> action_execution_result" where
  "dispatch_outcome reply =
     (case reply of
        Lost \<Rightarrow> plain_result Ambiguous ''gateway_outcome_unknown''
      | Served status body \<Rightarrow>
          if status \<ge> 500 then plain_result Ambiguous ''gateway_unavailable''
          else if status \<ge> 400 then plain_result Failed ''gateway_denied''
          else case body of None \<Rightarrow> plain_result Ambiguous ''gateway_outcome_unknown'' | Some r \<Rightarrow> r)"

definition action_request_of :: "claimed_action \<Rightarrow> json \<Rightarrow> action_request" where
  "action_request_of cl arguments = \<lparr>ar_action_id = cl_action_id cl, ar_org = cl_organization_id cl, ar_run_id = cl_run_id cl,
     ar_content_digest = cl_content_digest cl, ar_idempotency_key = cl_idempotency_key cl, ar_claim_token = cl_claim_token cl,
     ar_arguments = arguments\<rparr>"

definition dispatch_action ::
  "env \<Rightarrow> network \<Rightarrow> gateway_settings \<Rightarrow> (string option \<Rightarrow> uuid \<Rightarrow> digest \<Rightarrow> string \<Rightarrow> string \<Rightarrow> http_reply) \<Rightarrow> (provider_request \<Rightarrow> http_reply) \<Rightarrow>
     bool \<Rightarrow> claimed_action \<Rightarrow> db \<Rightarrow> (rs_error + action_execution_result) \<times> provider_request list" where
  "dispatch_action v net g control provider lost cl s =
     (case claim_arguments v cl s of
        Inl err \<Rightarrow> (Inl err, [])
      | Inr arguments \<Rightarrow>
          let handler = (if cl_mode cl = Execute then execute_action else reconcile_action);
              (r, sent) = handler v net g control provider (Some (gw_internal_service_token g)) (action_request_of cl arguments)
          in (Inr (dispatch_outcome (serve lost r)), sent))"

definition claim_request :: "env \<Rightarrow> claimed_model_call \<Rightarrow> db \<Rightarrow> rs_error + json" where
  "claim_request v cl s =
     fetch (get_model_call s (cm_call_id cl)) (PyRuntimeError ''claimed model call disappeared'') (\<lambda>k. decrypt_model_request v k)"

text \<open>The bounds \<open>ModelExecutionRequest\<close> puts on the token limit.\<close>

definition checked_request :: "env \<Rightarrow> claimed_model_call \<Rightarrow> db \<Rightarrow> rs_error + json" where
  "checked_request v cl s = rbind (claim_request v cl s) (\<lambda>input.
     require (1 \<le> cm_max_output_tokens cl \<and> cm_max_output_tokens cl \<le> 32768) (PyValueError ''max_output_tokens'') (Inr input))"

definition dispatch_model_outcome :: "model_execution_result gateway_reply \<Rightarrow> model_execution_result" where
  "dispatch_model_outcome reply =
     (case reply of
        Lost \<Rightarrow> plain_model_result ModelAmbiguous ''model_gateway_outcome_unknown''
      | Served status body \<Rightarrow>
          if status \<ge> 500 then plain_model_result ModelAmbiguous ''model_gateway_unavailable''
          else if status \<ge> 400 then plain_model_result ModelFailed ''model_gateway_denied''
          else case body of None \<Rightarrow> plain_model_result ModelAmbiguous ''model_gateway_outcome_unknown'' | Some r \<Rightarrow> r)"

definition model_request_of :: "claimed_model_call \<Rightarrow> json \<Rightarrow> model_exec_request" where
  "model_request_of cl input = \<lparr>mr_call_id = cm_call_id cl, mr_org = cm_org cl, mr_run_id = cm_run_id cl,
     mr_content_digest = cm_content_digest cl, mr_idempotency_key = cm_idempotency_key cl, mr_claim_token = cm_token cl,
     mr_model = cm_model cl, mr_input = input, mr_max_output_tokens = cm_max_output_tokens cl\<rparr>"

definition dispatch_model ::
  "env \<Rightarrow> network \<Rightarrow> gateway_settings \<Rightarrow> (string option \<Rightarrow> uuid \<Rightarrow> digest \<Rightarrow> string \<Rightarrow> string \<Rightarrow> http_reply) \<Rightarrow> (provider_request \<Rightarrow> http_reply) \<Rightarrow>
     bool \<Rightarrow> claimed_model_call \<Rightarrow> db \<Rightarrow> (rs_error + model_execution_result) \<times> provider_request list" where
  "dispatch_model v net g control provider lost cl s =
     (case checked_request v cl s of
        Inl err \<Rightarrow> (Inl err, [])
      | Inr input \<Rightarrow>
          let handler = (if cm_mode cl = Execute then execute_model else reconcile_model);
              (r, sent) = handler v net g control provider (Some (gw_internal_service_token g)) (model_request_of cl input)
          in (Inr (dispatch_model_outcome (serve lost r)), sent))"

subsection \<open>What the gateway relies on\<close>

text \<open>
  The control API as the gateway sees it: an answer with status 200 and a body is given only for what it has authorized, and
  the body is that authorization.
\<close>

locale authorizer =
  fixes control :: "string option \<Rightarrow> uuid \<Rightarrow> digest \<Rightarrow> string \<Rightarrow> string \<Rightarrow> http_reply"
    and permits :: "uuid \<Rightarrow> digest \<Rightarrow> string \<Rightarrow> string \<Rightarrow> json \<Rightarrow> bool"
  assumes answered: "control tok i content token mode = Reply 200 len (Some j) \<Longrightarrow> permits i content token mode j"
begin

lemma permitted_object:
  assumes "authorized_object denied shapeless (control tok i content token mode) = Inr j"
  shows "permits i content token mode j"
proof (cases "control tok i content token mode")
  case (Reply status len body)
  with assms have "control tok i content token mode = Reply 200 len (Some j)" by (auto simp: authorized_object_def ok_iff)
  then show ?thesis by (rule answered)
qed (use assms in \<open>simp_all add: authorized_object_def\<close>)

lemma prepared_action:
  assumes "prepare_action v net g control tok mode q = Inr hs"
  obtains j key where "tok = Some (gw_internal_service_token g)"
    "validate_fixed_destination net (gw_provider_url g) (gw_allow_private g) (gw_production g) = Inr ()"
    "permits (ar_action_id q) (ar_content_digest q) (ar_claim_token q) mode j"
    "jlookup ''arguments_digest'' j = Some (JStr (digest_of v (ar_arguments q)))" "hs = headers_of key (ar_idempotency_key q)"
proof -
  from assms obtain j where j: "gateway_authorize v q (control (Some (gw_gateway_service_token g)) (ar_action_id q) (ar_content_digest q)
      (ar_claim_token q) mode) = Inr j" and tok: "verify_worker g tok = Inr ()"
    and dest: "validate_fixed_destination net (gw_provider_url g) (gw_allow_private g) (gw_production g) = Inr ()"
    and hs: "provider_headers v net g q j = Inr hs"
    unfolding prepare_action_def ok_iff by auto
  from hs obtain key where key: "hs = headers_of key (ar_idempotency_key q)" by (auto simp: provider_headers_def ok_iff)
  have "tok = Some (gw_internal_service_token g)" using tok by (auto simp: verify_worker_def ok_iff)
  moreover have "jlookup ''arguments_digest'' j = Some (JStr (digest_of v (ar_arguments q)))"
    and "permits (ar_action_id q) (ar_content_digest q) (ar_claim_token q) mode j"
    using j permitted_object by (auto simp: gateway_authorize_def ok_iff)
  ultimately show thesis using that dest key by blast
qed

lemma prepared_model:
  assumes "prepare_model v net g control tok mode q = Inr hs"
  obtains j key where "tok = Some (gw_internal_service_token g)"
    "validate_fixed_destination net (gw_model_provider_url g) (gw_allow_private g) (gw_production g) = Inr ()"
    "permits (mr_call_id q) (mr_content_digest q) (mr_claim_token q) mode j"
    "jlookup ''request_digest'' j = Some (JStr (digest_of v (mr_input q)))" "jlookup ''model'' j = Some (JStr (mr_model q))"
    "hs = headers_of key (mr_idempotency_key q)"
proof -
  from assms obtain j where j: "gateway_authorize_model v q (control (Some (gw_gateway_service_token g)) (mr_call_id q) (mr_content_digest q)
      (mr_claim_token q) mode) = Inr j" and tok: "verify_worker g tok = Inr ()"
    and dest: "validate_fixed_destination net (gw_model_provider_url g) (gw_allow_private g) (gw_production g) = Inr ()"
    and hs: "model_provider_headers v net g q j = Inr hs"
    unfolding prepare_model_def ok_iff by auto
  from hs obtain key where key: "hs = headers_of key (mr_idempotency_key q)" by (auto simp: model_provider_headers_def ok_iff)
  have "tok = Some (gw_internal_service_token g)" using tok by (auto simp: verify_worker_def ok_iff)
  moreover have "jlookup ''request_digest'' j = Some (JStr (digest_of v (mr_input q)))" "jlookup ''model'' j = Some (JStr (mr_model q))"
    and "permits (mr_call_id q) (mr_content_digest q) (mr_claim_token q) mode j"
    using j permitted_object by (auto simp: gateway_authorize_model_def ok_iff)
  ultimately show thesis using that dest key by blast
qed

end

lemma map_sum_ok: "map_sum id f r = Inr y \<longleftrightarrow> (\<exists>x. r = Inr x \<and> y = f x)"
  by (cases r) auto

definition action_permitted :: "env \<Rightarrow> db \<Rightarrow> uuid \<Rightarrow> digest \<Rightarrow> string \<Rightarrow> string \<Rightarrow> json \<Rightarrow> bool" where
  "action_permitted v s i content token mode j \<longleftrightarrow> (\<exists>ia. authorize_gateway_action v i content token mode s = Inr ia \<and> j = authorization_json ia)"

definition model_permitted :: "env \<Rightarrow> db \<Rightarrow> uuid \<Rightarrow> digest \<Rightarrow> string \<Rightarrow> string \<Rightarrow> json \<Rightarrow> bool" where
  "model_permitted v s i content token mode j \<longleftrightarrow>
     (\<exists>ma. authorize_gateway_model_call v i content token mode s = Inr ma \<and> j = model_authorization_json ma)"

interpretation act: authorizer "authorize_action v expected s" "action_permitted v s" for v expected s
  by unfold_locales (auto simp: authorize_action_def answer_def internal_action_session_def action_permitted_def ok_iff map_sum_ok split: sum.splits)

interpretation mdl: authorizer "authorize_model_call v expected s" "model_permitted v s" for v expected s
  by unfold_locales (auto simp: authorize_model_call_def answer_def internal_model_call_session_def model_permitted_def ok_iff map_sum_ok split: sum.splits)

subsection \<open>Properties\<close>

lemma authorized_action:
  assumes "authorize_gateway_action v x content token mode s = Inr ia"
  obtains a arguments where "get_action s x = Some a" "act_state a = (if mode = ''execute'' then Executing else Reconciling)"
    "act_claim_hash a = Some (claim_hash v token)" "act_content_digest a = content" "ia_content_digest ia = content"
    "digest_of v arguments = ia_arguments_digest ia"
proof -
  from assms obtain a i d r b args g w where 1: "get_action s x = Some a" "act_state a = (if mode = ''execute'' then Executing else Reconciling)"
      "act_claim_hash a = Some (claim_hash v token)" "act_content_digest a = content"
    and "get_intent s (act_intent_id a) = Some i" "get_decision s (act_decision_id a) = Some d"
      "get_run s (act_run_id a) = Some r" "get_bundle s (pd_bundle_id d) = Some b" "decrypt_action_arguments v a = Inr args"
    and 2: "digest_of v args = int_arguments_digest i" "ia_content_digest ia = act_content_digest a"
      "ia_arguments_digest ia = int_arguments_digest i"
    unfolding authorize_gateway_action_def Let_def ok_iff by auto
  show thesis by (rule that [OF 1, of args]) (simp_all add: 1 2)
qed

text \<open>
  C14. Nothing leaves the gateway without authorization: whenever the dispatch of a claimed action sends a
  request to the provider, it sends this one only, and at that moment the control API has authorized the claim: the
  action is in the state of the claim's mode, under the claim's token, with the claim's content. The arguments sent are
  the sealed ones, with the digest of the authorization; the request goes to the configured, checked
  destination under the action's idempotency key; a reconciliation only asks and sends no arguments.
\<close>

theorem provider_egress_authorized:
  assumes dispatch: "dispatch_action v net g (authorize_action v expected s) provider lost cl s = (res, sent)" and q: "q \<in> set sent"
  shows "\<exists>a ia arguments. sent = [q] \<and>
    authorize_gateway_action v (cl_action_id cl) (cl_content_digest cl) (cl_claim_token cl) (mode_text (cl_mode cl)) s = Inr ia \<and>
    get_action s (cl_action_id cl) = Some a \<and> act_state a = (if cl_mode cl = Execute then Executing else Reconciling) \<and>
    act_claim_hash a = Some (claim_hash v (cl_claim_token cl)) \<and> act_content_digest a = cl_content_digest cl \<and>
    decrypt_action_arguments v a = Inr arguments \<and> digest_of v arguments = ia_arguments_digest ia \<and>
    validate_fixed_destination net (gw_provider_url g) (gw_allow_private g) (gw_production g) = Inr () \<and>
    map_of (pq_headers q) ''Idempotency-Key'' = Some (cl_idempotency_key cl) \<and>
    (if cl_mode cl = Execute then pq_method q = ''POST'' \<and> pq_url q = gw_provider_url g \<and> pq_body q = Some arguments
     else pq_method q = ''GET'' \<and> pq_url q = effect_url (gw_provider_url g) (cl_idempotency_key cl) \<and> pq_body q = None)"
proof -
  from dispatch q obtain arguments where args: "claim_arguments v cl s = Inr arguments"
    by (cases "claim_arguments v cl s") (auto simp: dispatch_action_def)
  let ?q = "action_request_of cl arguments"
  have one: "sent = [q] \<and> (\<exists>hs. prepare_action v net g (authorize_action v expected s) (Some (gw_internal_service_token g)) (mode_text (cl_mode cl)) ?q = Inr hs \<and>
      q = (if cl_mode cl = Execute then \<lparr>pq_method = ''POST'', pq_url = gw_provider_url g, pq_headers = hs, pq_body = Some arguments\<rparr>
           else \<lparr>pq_method = ''GET'', pq_url = effect_url (gw_provider_url g) (cl_idempotency_key cl), pq_headers = hs, pq_body = None\<rparr>))"
    using dispatch q args
    by (auto simp: dispatch_action_def execute_action_def reconcile_action_def sends_def mode_text_def action_request_of_def
        map_sum_ok split: sum.splits if_splits)
  then obtain hs where hs: "prepare_action v net g (authorize_action v expected s) (Some (gw_internal_service_token g)) (mode_text (cl_mode cl)) ?q = Inr hs"
    and req: "q = (if cl_mode cl = Execute then \<lparr>pq_method = ''POST'', pq_url = gw_provider_url g, pq_headers = hs, pq_body = Some arguments\<rparr>
           else \<lparr>pq_method = ''GET'', pq_url = effect_url (gw_provider_url g) (cl_idempotency_key cl), pq_headers = hs, pq_body = None\<rparr>)" by blast
  from hs obtain j key where dest: "validate_fixed_destination net (gw_provider_url g) (gw_allow_private g) (gw_production g) = Inr ()"
    and ok: "action_permitted v s (cl_action_id cl) (cl_content_digest cl) (cl_claim_token cl) (mode_text (cl_mode cl)) j"
    and dig: "jlookup ''arguments_digest'' j = Some (JStr (digest_of v arguments))" and key: "hs = headers_of key (cl_idempotency_key cl)"
    by (rule act.prepared_action) (simp add: action_request_of_def)
  from ok obtain ia where ia: "authorize_gateway_action v (cl_action_id cl) (cl_content_digest cl) (cl_claim_token cl) (mode_text (cl_mode cl)) s = Inr ia"
    and j: "j = authorization_json ia" by (auto simp: action_permitted_def)
  from ia obtain a where a: "get_action s (cl_action_id cl) = Some a" "act_state a = (if mode_text (cl_mode cl) = ''execute'' then Executing else Reconciling)"
    "act_claim_hash a = Some (claim_hash v (cl_claim_token cl))" "act_content_digest a = cl_content_digest cl"
    by (rule authorized_action)
  have "decrypt_action_arguments v a = Inr arguments" using args a(1) by (simp add: claim_arguments_def handler_eval)
  moreover have "digest_of v arguments = ia_arguments_digest ia" using dig by (simp add: j authorization_json_def jlookup_def)
  moreover have "map_of (pq_headers q) ''Idempotency-Key'' = Some (cl_idempotency_key cl)" by (simp add: req key headers_of_def)
  ultimately show ?thesis using one ia a dest req by (auto simp: mode_text_def split: if_splits)
qed

text \<open>
  The same for models: a request to the model provider is sent only for a claim the control API has
  authorized at that moment, with the sealed input of the call, the model of its route and its token limit.
\<close>

theorem model_egress_authorized:
  assumes dispatch: "dispatch_model v net g (authorize_model_call v expected s) provider lost cl s = (res, sent)" and q: "q \<in> set sent"
  shows "\<exists>k ma input. sent = [q] \<and>
    authorize_gateway_model_call v (cm_call_id cl) (cm_content_digest cl) (cm_token cl) (mode_text (cm_mode cl)) s = Inr ma \<and>
    get_model_call s (cm_call_id cl) = Some k \<and> decrypt_model_request v k = Inr input \<and> digest_of v input = ma_request_digest ma \<and>
    ma_model ma = cm_model cl \<and>
    validate_fixed_destination net (gw_model_provider_url g) (gw_allow_private g) (gw_production g) = Inr () \<and>
    map_of (pq_headers q) ''Idempotency-Key'' = Some (cm_idempotency_key cl) \<and>
    (if cm_mode cl = Execute then pq_method q = ''POST'' \<and> pq_url q = gw_model_provider_url g \<and>
       pq_body q = Some (JObj [(''model'', JStr (cm_model cl)), (''input'', input), (''max_output_tokens'', JInt (cm_max_output_tokens cl))])
     else pq_method q = ''GET'' \<and> pq_url q = effect_url (gw_model_provider_url g) (cm_idempotency_key cl) \<and> pq_body q = None)"
proof -
  from dispatch q obtain input where checked: "checked_request v cl s = Inr input"
    by (cases "checked_request v cl s") (auto simp: dispatch_model_def)
  then have input: "claim_request v cl s = Inr input" by (auto simp: checked_request_def ok_iff)
  let ?q = "model_request_of cl input"
  have one: "sent = [q] \<and> (\<exists>hs. prepare_model v net g (authorize_model_call v expected s) (Some (gw_internal_service_token g)) (mode_text (cm_mode cl)) ?q = Inr hs \<and>
      q = (if cm_mode cl = Execute then \<lparr>pq_method = ''POST'', pq_url = gw_model_provider_url g, pq_headers = hs,
             pq_body = Some (JObj [(''model'', JStr (cm_model cl)), (''input'', input), (''max_output_tokens'', JInt (cm_max_output_tokens cl))])\<rparr>
           else \<lparr>pq_method = ''GET'', pq_url = effect_url (gw_model_provider_url g) (cm_idempotency_key cl), pq_headers = hs, pq_body = None\<rparr>))"
    using dispatch q checked
    by (auto simp: dispatch_model_def execute_model_def reconcile_model_def sends_def mode_text_def model_request_of_def
        map_sum_ok split: sum.splits if_splits)
  then obtain hs where hs: "prepare_model v net g (authorize_model_call v expected s) (Some (gw_internal_service_token g)) (mode_text (cm_mode cl)) ?q = Inr hs"
    by blast
  from hs obtain j key where dest: "validate_fixed_destination net (gw_model_provider_url g) (gw_allow_private g) (gw_production g) = Inr ()"
    and ok: "model_permitted v s (cm_call_id cl) (cm_content_digest cl) (cm_token cl) (mode_text (cm_mode cl)) j"
    and dig: "jlookup ''request_digest'' j = Some (JStr (digest_of v input))" "jlookup ''model'' j = Some (JStr (cm_model cl))"
    and key: "hs = headers_of key (cm_idempotency_key cl)"
    by (rule mdl.prepared_model) (simp add: model_request_of_def)
  from ok obtain ma where ma: "authorize_gateway_model_call v (cm_call_id cl) (cm_content_digest cl) (cm_token cl) (mode_text (cm_mode cl)) s = Inr ma"
    and j: "j = model_authorization_json ma" by (auto simp: model_permitted_def)
  from input obtain k where "get_model_call s (cm_call_id cl) = Some k" "decrypt_model_request v k = Inr input"
    by (auto simp: claim_request_def ok_iff)
  moreover have "digest_of v input = ma_request_digest ma" "ma_model ma = cm_model cl" using dig by (simp_all add: j model_authorization_json_def jlookup_def)
  moreover have "map_of (pq_headers q) ''Idempotency-Key'' = Some (cm_idempotency_key cl)" using one hs key by (auto simp: headers_of_def)
  ultimately show ?thesis using one ma dest by (auto split: if_splits)
qed

lemma committed_result_cases:
  assumes "committed_result unknown receipt body = Inr r"
  shows "res_outcome r \<noteq> Failed"
    and "res_outcome r = Committed \<Longrightarrow> \<exists>j. body = Some j \<and> is_object j \<and> read_reference (member ''effect_id'' j) = Some (res_provider_reference r)"
  using assms by (auto simp: committed_result_def plain_result_def split: option.splits if_splits)

lemma execute_outcome_cases:
  assumes "execute_outcome g reply = Inr r"
  shows "res_outcome r = Failed \<Longrightarrow> \<exists>st len body. reply = Reply st len body \<and> 400 \<le> st \<and> st < 500"
    and "res_outcome r = Committed \<Longrightarrow> \<exists>st len j. reply = Reply st len (Some j) \<and> st < 400 \<and> is_object j \<and>
      read_reference (member ''effect_id'' j) = Some (res_provider_reference r)"
  using assms committed_result_cases
  by (auto simp: execute_outcome_def plain_result_def split: http_reply.splits if_splits)

text \<open>
  A refused authorization is reported as a failure in both modes: a reconciliation that the control API
  refuses, for whatever reason, settles its action as failed, although its effect may exist.
\<close>

lemma refused_reconciliation_fails:
  assumes "validate_fixed_destination net (gw_provider_url g) (gw_allow_private g) (gw_production g) = Inr ()"
    and "claim_arguments v cl s = Inr arguments" and "cl_mode cl = Reconcile"
    and "authorize_gateway_action v (cl_action_id cl) (cl_content_digest cl) (cl_claim_token cl) ''reconcile'' s = Inl err"
    and "error_status err \<noteq> 200"
  shows "dispatch_action v net g (authorize_action v expected s) provider False cl s = (Inr (plain_result Failed ''gateway_denied''), [])"
proof -
  have "\<exists>st len. authorize_action v expected s tok (cl_action_id cl) (cl_content_digest cl) (cl_claim_token cl) ''reconcile'' = Reply st len None \<and> st \<noteq> 200" for tok
    using assms(4,5)
    by (auto simp: authorize_action_def internal_action_session_def verify_internal_token_def answer_def rbind_def require_def split: sum.splits if_splits)
  then obtain st len where "authorize_action v expected s (Some (gw_gateway_service_token g)) (cl_action_id cl) (cl_content_digest cl) (cl_claim_token cl) ''reconcile'' =
      Reply st len None" "st \<noteq> 200" by blast
  then have "\<exists>e. prepare_action v net g (authorize_action v expected s) (Some (gw_internal_service_token g)) ''reconcile'' (action_request_of cl arguments) = Inl e \<and>
      error_status e = 403"
    using assms(1) by (simp add: prepare_action_def verify_worker_def gateway_authorize_def authorized_object_def action_request_of_def handler_eval)
  then show ?thesis using assms(2,3) by (auto simp: dispatch_action_def reconcile_action_def sends_def serve_def dispatch_outcome_def)
qed


subsection \<open>A dispatch\<close>

definition sample_network :: network where
  "sample_network = \<lparr>url_parse = (\<lambda>_. \<lparr>url_scheme = ''https'', url_hostname = Some ''provider'', url_username = None, url_password = None,
       url_query = [], url_fragment = [], url_port = Some None\<rparr>),
     getaddrinfo = (\<lambda>h port. Some [''203.0.113.7'']), is_global = (\<lambda>a. True), hmac_sha256 = (\<lambda>k m. k @ m), time_seconds = 0,
     token_urlsafe = ''j'', read_count = (\<lambda>j. case j of JInt i \<Rightarrow> Some i | _ \<Rightarrow> None)\<rparr>"

definition sample_gateway :: gateway_settings where
  "sample_gateway = \<lparr>gw_production = True, gw_internal_service_token = ''worker'', gw_gateway_service_token = ''gateway'',
     gw_provider_url = ''https://provider/effects'', gw_model_provider_url = ''https://provider/models'', gw_signing_key = ''k'',
     gw_allow_private = False, gw_response_max_bytes = 65536\<rparr>"

definition sample_provider :: "provider_request \<Rightarrow> http_reply" where
  "sample_provider q = Reply 201 18 (Some (JObj [(''effect_id'', JStr ''e1'')]))"

definition sample_claim :: claimed_action where
  "sample_claim = claim_of demo_executing ''token'' Execute"

lemma sample_gateway_fields:
  "gw_gateway_service_token sample_gateway = ''gateway''" "gw_response_max_bytes sample_gateway = 65536"
  by (simp_all add: sample_gateway_def)

lemma sample_destination: "validate_fixed_destination sample_network url (gw_allow_private sample_gateway) (gw_production sample_gateway) = Inr ()"
  by (simp add: validate_fixed_destination_def sample_network_def given_def handler_eval Let_def)

lemma sample_claim_fields:
  "cl_action_id sample_claim = 1009" "cl_content_digest sample_claim = ''sha256:h''" "cl_claim_token sample_claim = ''token''"
  "cl_mode sample_claim = Execute"
  by (simp_all add: sample_claim_def claim_of_def demo_executing_def)

lemma sample_arguments: "claim_arguments demo_env sample_claim demo_3 = Inr (JObj [])"
proof -
  have "decrypt_action_arguments demo_env demo_executing = Inr (JObj [])"
    using demo_decrypt by (simp add: decrypt_action_arguments_def demo_executing_def action_aad_def)
  then show ?thesis
    by (simp add: claim_arguments_def sample_claim_fields seen_all tget_def handler_eval) (simp add: demo_executing_def)
qed

lemma sample_prepared:
  obtains hs where "prepare_action demo_env sample_network sample_gateway (authorize_action demo_env ''gateway'' demo_3)
    (Some (gw_internal_service_token sample_gateway)) ''execute'' (action_request_of sample_claim (JObj [])) = Inr hs"
proof -
  obtain ia where ia: "authorize_gateway_action demo_env 1009 ''sha256:h'' ''token'' ''execute'' demo_3 = Inr ia" using demo_authorized by blast
  then obtain arguments where "ia_content_digest ia = ''sha256:h''" "digest_of demo_env arguments = ia_arguments_digest ia"
    by (auto elim: authorized_action)
  then have dig: "ia_content_digest ia = ''sha256:h''" "ia_arguments_digest ia = ''sha256:h''" by (auto simp: digest_of_def json_digest_def)
  have "get_action demo_3 1009 = Some demo_executing" by (simp add: seen_all tget_def) (simp add: demo_executing_def)
  then show thesis using that ia dig
    by (simp add: prepare_action_def verify_worker_def sample_destination authorize_action_def internal_action_session_def verify_internal_token_def
        sample_claim_fields action_request_of_def answer_def gateway_authorize_def authorized_object_def authorization_json_def jlookup_def
        is_object_def provider_headers_def handler_eval digest_of_def json_digest_def sample_gateway_fields)
qed

lemma sample_dispatch:
  obtains q r where "dispatch_action demo_env sample_network sample_gateway (authorize_action demo_env ''gateway'' demo_3) sample_provider False
      sample_claim demo_3 = (Inr r, [q])" "res_outcome r = Committed" "res_provider_reference r = Some ''e1''"
proof -
  obtain hs where hs: "prepare_action demo_env sample_network sample_gateway (authorize_action demo_env ''gateway'' demo_3)
    (Some (gw_internal_service_token sample_gateway)) ''execute'' (action_request_of sample_claim (JObj [])) = Inr hs" by (rule sample_prepared)
  obtain r where "\<And>q. execute_outcome sample_gateway (sample_provider q) = Inr r" "res_outcome r = Committed" "res_provider_reference r = Some ''e1''"
    by (simp add: execute_outcome_def sample_provider_def sample_gateway_fields committed_result_def is_object_def read_reference_def member_def
        jlookup_def)
  with hs show thesis using that
    by (simp add: dispatch_action_def sample_arguments sample_claim_fields execute_action_def sends_def serve_def dispatch_outcome_def)
qed

theorem provider_egress_authorized_witness:
  "\<exists>r q ia. dispatch_action demo_env sample_network sample_gateway (authorize_action demo_env ''gateway'' demo_3) sample_provider False
      sample_claim demo_3 = (r, [q]) \<and> pq_method q = ''POST'' \<and> pq_url q = ''https://provider/effects'' \<and>
    authorize_gateway_action demo_env (cl_action_id sample_claim) (cl_content_digest sample_claim) (cl_claim_token sample_claim)
      (mode_text (cl_mode sample_claim)) demo_3 = Inr ia"
proof -
  obtain q r where d: "dispatch_action demo_env sample_network sample_gateway (authorize_action demo_env ''gateway'' demo_3) sample_provider False
      sample_claim demo_3 = (Inr r, [q])" by (rule sample_dispatch)
  have "q \<in> set [q]" by simp
  from provider_egress_authorized [OF d this] d show ?thesis by (auto simp: sample_claim_fields sample_gateway_def)
qed


subsection \<open>A model call\<close>

definition sent_call :: model_call_row where
  "sent_call = (sample_call ''executing'')\<lparr>mc_encrypted_request :=
     seal_json run_env ''abcdefghijkl'' (JObj []) sample_key (model_call_aad (sample_call ''executing'') ''request'')\<rparr>"

definition sent_db :: db where
  "sent_db = (call_db ''executing'')\<lparr>model_calls := [sent_call]\<rparr>"

lemma sent_request: "decrypt_model_request run_env sent_call = Inr (JObj [])"
proof -
  have "open_json run_env (seal_json run_env ''abcdefghijkl'' (JObj []) sample_key aad) sample_key aad = Inr (sort_keys (JObj []))" for aad
    by (rule open_seal) (use run_env_seals [of "''abcdefghijkl''"] in \<open>auto simp: seals_def\<close>)
  moreover have "mc_request_digest sent_call = digest_of run_env (JObj [])"
    by (simp add: sent_call_def sample_call_def new_model_call_def Let_def)
  moreover have "model_call_aad sent_call ''request'' = model_call_aad (sample_call ''executing'') ''request''"
    by (simp add: sent_call_def model_call_aad_def)
  ultimately show ?thesis
    by (simp add: decrypt_model_request_def open_model_content_def run_env_key handler_eval) (simp add: sent_call_def handler_eval)
qed

lemma sent_authorized:
  obtains ma where "authorize_gateway_model_call run_env 41 (mc_content_digest sent_call) ''token'' ''execute'' sent_db = Inr ma"
    "ma_content_digest ma = mc_content_digest sent_call" "ma_request_digest ma = mc_request_digest sent_call" "ma_model ma = ''demo-governed-model''"
proof -
  have rs: "reservations_of_model_call sent_db 7 41 = reservations_of_model_call (call_db ''executing'') 7 41"
    by (rule reservations_of_model_call_cong) (simp_all add: sent_db_def)
  have k: "mc_id sent_call = 41" "mc_org sent_call = 7" "mc_status sent_call = ''executing''" "mc_claim_hash sent_call = Some (claim_hash run_env ''token'')"
    "mc_lease_expires_at sent_call = Some 200" "mc_model_route_id sent_call = 60" "mc_decision_id sent_call = 61" "mc_delegation_id sent_call = 62"
    "mc_run_id sent_call = 2" "mc_route_digest sent_call = digest_of run_env (model_route_document model_route)"
    by (simp_all add: sent_call_def)
  have rows: "model_calls sent_db = [sent_call]" "tenant sent_db = None" "now sent_db = 100" "model_routes sent_db = [model_route]"
    "node_policies sent_db = [model_decision]" "delegations sent_db = [called_delegation]" "runs sent_db = [gate_run]"
    "workloads sent_db = [model_workload]" "agents sent_db = [\<lparr>agt_id = 12, agt_org = 7, agt_system_id = 13, agt_workload_id = 14\<rparr>]"
    by (simp_all add: sent_db_def)
  show thesis using that call_db_reservations [of "''executing''"]
    by (auto simp: authorize_gateway_model_call_def Let_def handler_eval tget_def list_all_iff list_ex_iff rs k rows seen_all MODEL_NAME_def)
qed

theorem model_egress_authorized_witness:
  "\<exists>r q ma. dispatch_model run_env sample_network sample_gateway (authorize_model_call run_env ''gateway'' sent_db) (\<lambda>_. NoReply) False
      (claimed_model sent_call ''token'' Execute) sent_db = (r, [q]) \<and> pq_method q = ''POST'' \<and>
    authorize_gateway_model_call run_env 41 (mc_content_digest sent_call) ''token'' ''execute'' sent_db = Inr ma"
proof -
  let ?cl = "claimed_model sent_call ''token'' Execute"
  obtain ma where ma: "authorize_gateway_model_call run_env 41 (mc_content_digest sent_call) ''token'' ''execute'' sent_db = Inr ma"
    "ma_content_digest ma = mc_content_digest sent_call" "ma_request_digest ma = mc_request_digest sent_call" "ma_model ma = ''demo-governed-model''"
    by (rule sent_authorized)
  have call: "get_model_call sent_db 41 = Some sent_call" by (simp add: sent_db_def seen_all tget_def) (simp add: sent_call_def)
  have dig: "mc_request_digest sent_call = digest_of run_env (JObj [])" "mc_id sent_call = 41" by (simp_all add: sent_call_def sample_call_def new_model_call_def Let_def)
  obtain hs where "prepare_model run_env sample_network sample_gateway (authorize_model_call run_env ''gateway'' sent_db)
    (Some (gw_internal_service_token sample_gateway)) ''execute'' (model_request_of ?cl (JObj [])) = Inr hs"
    using ma call dig
    by (simp add: prepare_model_def verify_worker_def sample_destination authorize_model_call_def internal_model_call_session_def verify_internal_token_def
        model_request_of_def claimed_model_def answer_def gateway_authorize_model_def authorized_object_def model_authorization_json_def jlookup_def
        is_object_def model_provider_headers_def handler_eval sample_gateway_fields)
  moreover have "mc_max_output_tokens sent_call = 5"
    by (simp add: sent_call_def sample_call_def new_model_call_def Let_def)
  then have "checked_request run_env ?cl sent_db = Inr (JObj [])"
    using call sent_request dig by (simp add: checked_request_def claim_request_def claimed_model_def handler_eval)
  ultimately obtain r q where d: "dispatch_model run_env sample_network sample_gateway (authorize_model_call run_env ''gateway'' sent_db) (\<lambda>_. NoReply) False
      ?cl sent_db = (r, [q])"
    by (simp add: dispatch_model_def execute_model_def sends_def claimed_model_def)
  have "q \<in> set [q]" by simp
  from model_egress_authorized [OF d this] d ma show ?thesis by (auto simp: claimed_model_def)
qed

end
