(* ===== verification/Spec2Isabelle.thy ===== *)
theory Spec2Isabelle
  imports RS_Guarantees RS_Guards RS_Waits RS_Subworkflows RS_Model_Calls RS_Engine_Safety RS_Gateway
begin

text \<open>
  \<^bold>\<open>RunSigil: the governed-action core.\<close>

  RunSigil is a control plane for agents. A caller proposes an action (send an invoice); the
  control API evaluates a policy, reserves budgets, asks a human for approval where the policy says
  so, and seals the arguments. A worker claims the approved action, hands it to a gateway that asks
  the control API once more for authorization before it lets anything leave, and settles the
  outcome: committed, failed, or unknown, in which case it is reconciled with the provider, never
  executed again. Every step is traced, audited in a hash chain and signed as evidence. Workflows
  are typed graphs of nodes; an engine runs them one node at a time: a tool node waits for a
  governed action, an agent node for a governed model call, others for people, events, timers or a
  child workflow. Finished runs can be forked, replayed and graded against a dataset.

  \<^bold>\<open>Theories and the code they model\<close> (paths under \<open>src/\<close>; \<open>services/\<close> and
  \<open>models/\<close> are in \<open>apps/control-api/runsigil_control_api/\<close>)

  \<^item> \<open>RS_Prelude\<close>: scalars, Python's renderings of them, tables as lists of rows, results
    as \<open>error + value\<close>, the collections \<open>table_simps\<close> and \<open>frame_simps\<close>.
  \<^item> \<open>RS_Canonical\<close>: \<open>packages/contracts/runsigil_contracts/canonical.py\<close>.
  \<^item> \<open>RS_Contracts\<close>: \<open>errors.py\<close>, \<open>models.py\<close>, \<open>protocols.py\<close>, \<open>crypto.py\<close> of
    the contracts package, and \<open>env\<close>, the record of everything outside the repository.
  \<^item> \<open>RS_Graph\<close>, \<open>RS_Workflow_Contract\<close>: \<open>workflows.py\<close> of the contracts package,
    the searches and the validator with every issue it reports.
  \<^item> \<open>RS_Policy\<close>: \<open>packages/policy/runsigil_policy/engine.py\<close>.
  \<^item> \<open>RS_Evidence\<close>: \<open>packages/evidence/runsigil_evidence/signing.py\<close>.
  \<^item> \<open>RS_Store\<close>: the rows of \<open>models/*.py\<close>, the session of \<open>database.py\<close> and
    \<open>auth.py\<close>, row-level security, commit and rollback.
  \<^item> \<open>RS_Ledger\<close>: \<open>_trace\<close> and \<open>_audit\<close> of \<open>services/governed_actions.py\<close>.
  \<^item> \<open>RS_Budgets\<close>: \<open>services/budgets.py\<close>.
  \<^item> \<open>RS_Tool_Calls\<close>: settlement, timeout and cancellation in
    \<open>services/workflow_tools.py\<close>; \<open>RS_Tool_Requests\<close>: the creation of a tool call.
  \<^item> \<open>RS_Governed_Actions\<close>: \<open>services/governed_actions.py\<close> and the cancellation of
    \<open>services/workflows.py\<close>.
  \<^item> \<open>RS_Action_Worker\<close>: \<open>apps/worker/runsigil_worker/service.py\<close> and
    \<open>services/dead_letters.py\<close>.
  \<^item> \<open>RS_Routing\<close>: conditions, readiness, routing and node completion of
    \<open>services/workflow_engine.py\<close>.
  \<^item> \<open>RS_Registry\<close>: drafts, versions, reference checks and deployment of
    \<open>services/workflows.py\<close>; \<open>RS_Executions\<close>: its sealed states, checkpoints, the start and
    the fork of runs.
  \<^item> \<open>RS_Simulation\<close>: \<open>services/workflow_simulation.py\<close>.
  \<^item> \<open>RS_Waits\<close>: \<open>services/workflow_waits.py\<close>; \<open>RS_Subworkflows\<close>:
    \<open>services/workflow_subworkflows.py\<close>; \<open>RS_Node_Policies\<close>:
    \<open>services/workflow_policies.py\<close>.
  \<^item> \<open>RS_Model_Calls\<close>: \<open>services/workflow_models.py\<close> and
    \<open>apps/worker/runsigil_worker/model_calls.py\<close>.
  \<^item> \<open>RS_Replays\<close>: \<open>services/workflow_replays.py\<close>; \<open>RS_Evaluations\<close>:
    \<open>services/evaluations.py\<close>.
  \<^item> \<open>RS_Engine\<close>: the rest of \<open>services/workflow_engine.py\<close>, the claim, the node handlers,
    failure, cancellation, evidence and the worker's pass. \<open>RS_Engine_Steps\<close> shows what each of
    them may change, \<open>RS_Engine_Safety\<close> its guarantees.
  \<^item> \<open>RS_Gateway\<close>: the action and model paths of \<open>apps/gateway/runsigil_gateway/main.py\<close>,
    \<open>tokens.py\<close> and \<open>egress.py\<close>, the internal routes of the control API, and the dispatch of the
    two workers. What the gateway relies on is the locale \<open>authorizer\<close>, interpreted on the control API's routes.

  A table is a list of rows, \<open>db\<close> the record of the tables with the session's clock, tenant
  and autoflush flag. A service is a function from \<open>db\<close> to an error or a result with the new
  \<open>db\<close>; \<open>transaction\<close> commits or rolls back. What the code draws at random (ids, nonces,
  claim tokens) is a counter or an argument.

  \<^bold>\<open>The abstract specification.\<close> \<open>RS_Lifecycle\<close> states how an action, its approval and its
  reservations may move together, as a step relation, and proves its invariant; the locale
  \<open>step_invariant\<close> carries the inductions. \<open>RS_System\<close> and \<open>RS_Services\<close> show that
  each service is a sequence of such steps that keeps the budgets and the audit chain, by
  interpreting the locales \<open>service\<close> and \<open>action_service\<close>. \<open>RS_Protocol\<close> composes them to the running
  system, in which requests and worker passes interleave in any order, and \<open>RS_Sample_Run\<close>
  runs it on a concrete database.

  \<^bold>\<open>What is shown.\<close> \<open>RS_Guarantees\<close>: the refinement; an action is claimed for execution at
  most once, and only with an approval of exactly its content; budgets are never overcommitted;
  reservations are held until the outcome is known; approvals are used once; closed actions are
  final; the audit chain is unbroken; every tool call names one action of its exact content. \<open>RS_Guards\<close>: what each operation checks and does on
  every branch, and three behaviours the source does not intend. The component theories: budgets
  are reserved all or nothing; an audit head determines its history; policy evaluation is fail
  closed; canonical text determines its value and ignores key order; the cycle check is correct and
  an accepted workflow is well formed; an execution of it walks its graph within the loop and step
  limits and ends; a deployed version is executable with every reference resolved, and one version
  is active at a time; a run starts once per key with a state that reads back; a fork reaches tools
  only in simulation; a node runs only on an unexpired allowing decision; a wait is resolved once and its
  response read back; a subworkflow call is settled once; sealing and signing round trip; a model call is
  executed at most once, settled as its outcome says and authorized only with its whole lineage intact;
  a replay matches and a release gate passes only on what really happened. \<open>RS_Engine_Safety\<close>: an
  advance of the engine refines a step of the abstract routing, only for the holder of the claim; ended
  and leased executions are never touched; a failed or cancelled execution leaves nothing pending and has
  signed evidence; ready work is claimed. \<open>RS_Gateway\<close>: a provider is sent a request only for a claim authorized
  at that moment, with the sealed content; what the worker reports is what the provider answered, and a lost
  reply is never taken for an outcome.

  \<^bold>\<open>Bounds.\<close> There is no fuel: every function is total by a structural or measured
  recursion. The two graph searches are bounded by the number of nodes they have not visited, and
  are proved to return. The search for effectful tools counts down from the number of versions,
  which is proved to be enough (\<open>effectful_terminates\<close>).

  \<^bold>\<open>Not modelled.\<close> The gateway's MCP and A2A adapters with their client of the control API,
  and the HTTP transport: a reply, or its absence, is an argument. HTTP routing and the pydantic
  schemas, which are declarations around the services. Settings, seed data and start-up; the command
  line, the SDK and the framework adapters, which are clients; migrations. Row locks are not modelled:
  transactions run one after the other, in any order. Unique constraints of the database are stated
  where a property needs them, and their violation is not modelled.
\<close>

end
